(* ===== verification/Prelude.thy ===== *)
theory Prelude
  imports Main "HOL-Library.Word" "HOL-Library.AList" "HOL-Library.Char_ord"
    "HOL-Library.List_Lexorder" "HOL-Library.Sublist"
begin

text \<open>
  Shared vocabulary of the development: the types that stand for Go's basic types, the error
  values of the packages under \<^verbatim>\<open>src/internal\<close>, the parts of Go's standard library the
  modelled code uses (\<^verbatim>\<open>strings\<close>, \<^verbatim>\<open>bytes\<close>, \<^verbatim>\<open>time\<close>, buffered channels), and the
  generic lemmas on lists, prefixes and association lists the components share.

  Conventions.
  \<^item> A Go \<^verbatim>\<open>string\<close> or \<^verbatim>\<open>[]byte\<close> is a list of characters; a character is one byte, so the
    lexicographic order of lists is the byte order of \<^verbatim>\<open>bytes.Compare\<close>.
  \<^item> A \<^verbatim>\<open>time.Time\<close> is an integer count of nanoseconds; 0 is Go's zero time
    (\<^verbatim>\<open>IsZero\<close>). A \<^verbatim>\<open>time.Duration\<close> is an integer count of nanoseconds.
  \<^item> A Go \<^verbatim>\<open>map\<close> is an association list with distinct keys. Go iterates over a map in an
    unspecified order; a theorem about every association list covers every order.
  \<^item> Counters the code increments keep their 64-bit width; other integers are \<^typ>\<open>int\<close>.
\<close>

section \<open>Basic types\<close>

type_synonym time = int
type_synonym duration = int
type_synonym bytes = string
type_synonym int64 = "64 word"
type_synonym strmap = "(string \<times> string) list"

abbreviation second :: duration where "second \<equiv> 1000000000"
abbreviation minute :: duration where "minute \<equiv> 60 * second"
abbreviation hour :: duration where "hour \<equiv> 60 * minute"

abbreviation isZero :: "time \<Rightarrow> bool" where "isZero t \<equiv> t = 0"

text \<open>
  The error values of the program. \<open>ErrPanic\<close> stands for a run-time panic (a nil dereference,
  a send on a closed channel); \<open>Err\<close> carries the message of any other error.
\<close>

datatype error =
    ErrNotFound | ErrAlreadyExists | ErrConflict | ErrNotLeader
  | ErrInvalidCredentials | ErrAuthTokenExpired
  | ErrInvalidToken | ErrTokenUsed | ErrJoinTokenExpired
  | ErrNoCapacity | ErrTampered | ErrFunctionNotReady | ErrUnsupported
  | ErrPanic | Err string

text \<open>\<^verbatim>\<open>err.Error()\<close>.\<close>

fun errorString :: "error \<Rightarrow> string" where
  "errorString ErrNotFound = ''not found''"
| "errorString ErrAlreadyExists = ''already exists''"
| "errorString ErrConflict = ''conflict''"
| "errorString ErrNotLeader = ''not the raft leader''"
| "errorString ErrInvalidCredentials = ''invalid credentials''"
| "errorString ErrAuthTokenExpired = ''token expired''"
| "errorString ErrInvalidToken = ''invalid join token''"
| "errorString ErrTokenUsed = ''join token already used''"
| "errorString ErrJoinTokenExpired = ''join token expired''"
| "errorString ErrNoCapacity = ''no node has capacity for this workload''"
| "errorString ErrTampered = ''secret authentication failed (wrong key or tampered ciphertext)''"
| "errorString ErrFunctionNotReady = ''function not ready''"
| "errorString ErrUnsupported = ''container runtime unsupported on this platform''"
| "errorString ErrPanic = ''panic''"
| "errorString (Err m) = m"

named_theorems store_simps \<open>how the operations of the store read after one another\<close>
named_theorems wf_intros \<open>preservation of the store's well-formedness\<close>

section \<open>Standard library functions the code uses\<close>

text \<open>\<^verbatim>\<open>strings.HasPrefix\<close>, \<^verbatim>\<open>strings.TrimPrefix\<close>.\<close>

definition HasPrefix :: "string \<Rightarrow> string \<Rightarrow> bool" where
  "HasPrefix s p \<longleftrightarrow> take (length p) s = p"

definition TrimPrefix :: "string \<Rightarrow> string \<Rightarrow> string" where
  "TrimPrefix s p = (if HasPrefix s p then drop (length p) s else s)"

text \<open>\<^verbatim>\<open>strings.Index\<close> for a one-byte separator: \<open>None\<close> is Go's -1.\<close>

fun IndexByte :: "string \<Rightarrow> char \<Rightarrow> nat option" where
  "IndexByte [] c = None"
| "IndexByte (x # xs) c = (if x = c then Some 0 else map_option Suc (IndexByte xs c))"

text \<open>\<^verbatim>\<open>strings.Split\<close> for a one-byte separator: always at least one part.\<close>

fun SplitByte :: "string \<Rightarrow> char \<Rightarrow> string list" where
  "SplitByte [] c = [[]]"
| "SplitByte (x # xs) c =
     (if x = c then [] # SplitByte xs c
      else case SplitByte xs c of [] \<Rightarrow> [[x]] | p # ps \<Rightarrow> (x # p) # ps)"

text \<open>\<^verbatim>\<open>strings.Join\<close>.\<close>

fun Join :: "string list \<Rightarrow> string \<Rightarrow> string" where
  "Join [] sep = []"
| "Join [x] sep = x"
| "Join (x # y # ys) sep = x @ sep @ Join (y # ys) sep"

text \<open>\<^verbatim>\<open>strings.ToLower\<close> and \<^verbatim>\<open>strings.TrimSpace\<close> on ASCII strings.\<close>

definition lower_char :: "char \<Rightarrow> char" where
  "lower_char c = (let n = of_char c :: nat in
     if 65 \<le> n \<and> n \<le> 90 then char_of (n + 32) else c)"

definition ToLower :: "string \<Rightarrow> string" where
  "ToLower s = map lower_char s"

definition is_space :: "char \<Rightarrow> bool" where
  "is_space c = (let n = of_char c :: nat in n = 32 \<or> (9 \<le> n \<and> n \<le> 13))"

definition TrimSpace :: "string \<Rightarrow> string" where
  "TrimSpace s = rev (dropWhile is_space (rev (dropWhile is_space s)))"

text \<open>
  \<^verbatim>\<open>strings.Fields\<close>, \<^verbatim>\<open>strings.Replace(s, old, new, 1)\<close> for a non-empty \<open>old\<close>, and
  \<^verbatim>\<open>filepath.Base\<close> on Unix.
\<close>

fun fields_loop :: "string \<Rightarrow> string \<Rightarrow> string list" where
  "fields_loop [] w = (if w = [] then [] else [rev w])"
| "fields_loop (c # cs) w =
     (if is_space c then (if w = [] then fields_loop cs [] else rev w # fields_loop cs [])
      else fields_loop cs (c # w))"

definition Fields :: "string \<Rightarrow> string list" where
  "Fields s = fields_loop s []"

fun Replace1 :: "string \<Rightarrow> string \<Rightarrow> string \<Rightarrow> string" where
  "Replace1 [] old new = []"
| "Replace1 (c # cs) old new =
     (if HasPrefix (c # cs) old then new @ drop (length old) (c # cs) else c # Replace1 cs old new)"

definition Base :: "string \<Rightarrow> string" where
  "Base p =
     (if p = [] then ''.''
      else let q = rev (dropWhile (\<lambda>c. c = CHR ''/'') (rev p)) in
        if q = [] then ''/'' else rev (takeWhile (\<lambda>c. c \<noteq> CHR ''/'') (rev q)))"

text \<open>
  \<^verbatim>\<open>strconv.Itoa\<close>, and \<^verbatim>\<open>Time.Format\<close> with the layout \<^verbatim>\<open>time.RFC3339Nano\<close> of a UTC time
  (years 1 to 9999): the fraction of the second is printed with its trailing zeros removed,
  and not at all when it is zero. Time 0 is 0001-01-01T00:00:00Z, Go's zero time.
\<close>

definition digit_char :: "nat \<Rightarrow> char" where
  "digit_char n = char_of (48 + n)"

function show_dec :: "int \<Rightarrow> string" where
  "show_dec n = (if n < 10 then [digit_char (nat n)] else show_dec (n div 10) @ [digit_char (nat (n mod 10))])"
  by pat_completeness auto
termination
  by (relation "measure nat") auto

declare show_dec.simps [simp del]

definition Itoa :: "int \<Rightarrow> string" where
  "Itoa i = (if i < 0 then ''-'' @ show_dec (- i) else show_dec i)"

fun pad_digits :: "nat \<Rightarrow> int \<Rightarrow> string" where
  "pad_digits 0 n = []"
| "pad_digits (Suc w) n = pad_digits w (n div 10) @ [digit_char (nat (n mod 10))]"

definition is_leap :: "int \<Rightarrow> bool" where
  "is_leap y \<longleftrightarrow> (y mod 4 = 0 \<and> y mod 100 \<noteq> 0) \<or> y mod 400 = 0"

fun month_day :: "int list \<Rightarrow> int \<Rightarrow> int \<Rightarrow> int \<times> int" where
  "month_day [] m d = (m, d)"
| "month_day (l # ls) m d = (if d < l \<or> ls = [] then (m, d) else month_day ls (m + 1) (d - l))"

definition civil :: "int \<Rightarrow> int \<times> int \<times> int" where
  "civil days =
     (let n400 = days div 146097; r = days mod 146097;
          n100 = min 3 (r div 36524); r = r - n100 * 36524;
          n4 = r div 1461; r = r mod 1461;
          n1 = min 3 (r div 365); doy = r - n1 * 365;
          y = 400 * n400 + 100 * n100 + 4 * n4 + n1 + 1;
          (m, d) = month_day [31, if is_leap y then 29 else 28, 31, 30, 31, 30, 31, 31, 30, 31, 30, 31] 1 doy
      in (y, m, d + 1))"

definition rfc3339nano :: "time \<Rightarrow> string" where
  "rfc3339nano t =
     (let ns = t mod 1000000000; sec = t div 1000000000;
          (y, m, d) = civil (sec div 86400); sod = sec mod 86400;
          frac = rev (dropWhile (\<lambda>c. c = CHR ''0'') (rev (pad_digits 9 ns)))
      in pad_digits 4 y @ ''-'' @ pad_digits 2 m @ ''-'' @ pad_digits 2 d @ ''T'' @
         pad_digits 2 (sod div 3600) @ '':'' @ pad_digits 2 (sod mod 3600 div 60) @ '':'' @
         pad_digits 2 (sod mod 60) @ (if frac = [] then [] else CHR ''.'' # frac) @ ''Z'')"

text \<open>\<^verbatim>\<open>Time.Unix\<close>: seconds since 1970-01-01, which is 62135596800 s after Go's zero time.\<close>

definition Unix :: "time \<Rightarrow> int" where
  "Unix t = t div second - 62135596800"

text \<open>\<^verbatim>\<open>encoding/hex\<close>: lower-case encoding; decoding accepts both cases and fails on odd lengths.\<close>

definition hex_digit :: "nat \<Rightarrow> char" where
  "hex_digit n = (if n < 10 then char_of (48 + n) else char_of (87 + n))"

definition from_hex :: "char \<Rightarrow> nat option" where
  "from_hex c = (let n = of_char c :: nat in
     if 48 \<le> n \<and> n \<le> 57 then Some (n - 48)
     else if 97 \<le> n \<and> n \<le> 102 then Some (n - 87)
     else if 65 \<le> n \<and> n \<le> 70 then Some (n - 55)
     else None)"

fun hexEncode :: "bytes \<Rightarrow> string" where
  "hexEncode [] = []"
| "hexEncode (c # cs) =
     (let n = of_char c :: nat in hex_digit (n div 16) # hex_digit (n mod 16) # hexEncode cs)"

fun hexDecode :: "string \<Rightarrow> bytes option" where
  "hexDecode [] = Some []"
| "hexDecode [x] = None"
| "hexDecode (x # y # xs) =
     (case (from_hex x, from_hex y) of
        (Some a, Some b) \<Rightarrow> map_option (\<lambda>r. char_of (16 * a + b) # r) (hexDecode xs)
      | _ \<Rightarrow> None)"

text \<open>
  A non-blocking send on a buffered channel of capacity \<open>n\<close>, the shape
  \<^verbatim>\<open>select { case ch <- v: default: }\<close>: a full channel drops the value.
\<close>

definition try_send :: "nat \<Rightarrow> 'a list \<Rightarrow> 'a \<Rightarrow> 'a list" where
  "try_send n ch v = (if length ch < n then ch @ [v] else ch)"

text \<open>
  Swapping ends towards the middle, the loop
  \<^verbatim>\<open>for i, j := 0, len(out)-1; i < j; i, j = i+1, j-1 { out[i], out[j] = out[j], out[i] }\<close>
  with which several functions reverse a slice in place.
\<close>

function swap_ends :: "nat \<Rightarrow> nat \<Rightarrow> 'a list \<Rightarrow> 'a list" where
  "swap_ends i j xs =
     (if i < j then swap_ends (Suc i) (j - 1) (xs[i := xs ! j, j := xs ! i]) else xs)"
  by pat_completeness auto
termination
  by (relation "measure (\<lambda>(i, j, xs). j - i)") auto

declare swap_ends.simps [simp del]

definition reverse_in_place :: "'a list \<Rightarrow> 'a list" where
  "reverse_in_place xs = swap_ends 0 (length xs - 1) xs"

section \<open>Generic lemmas\<close>

subsection \<open>Prefixes and separators\<close>

lemma HasPrefix_iff: "HasPrefix s p \<longleftrightarrow> (\<exists>r. s = p @ r)"
  by (auto simp: HasPrefix_def) (metis append_take_drop_id)

lemma HasPrefix_append [simp]: "HasPrefix (p @ r) p"
  by (simp add: HasPrefix_def)

lemma HasPrefix_Nil [simp]: "HasPrefix s []"
  by (simp add: HasPrefix_def)

lemma TrimPrefix_append [simp]: "TrimPrefix (p @ r) p = r"
  by (simp add: TrimPrefix_def)

lemma append_sep_inject:
  assumes "a @ c # b = a' @ c # b'" "c \<notin> set a" "c \<notin> set a'"
  shows "a = a' \<and> b = b'"
  using assms
proof (induction a arbitrary: a')
  case Nil
  then show ?case by (cases a') auto
next
  case (Cons x xs)
  then show ?case by (cases a') auto
qed

lemma HasPrefix_sep:
  assumes "c \<notin> set a" "c \<notin> set p"
  shows "HasPrefix (a @ c # b) (p @ [c]) \<longleftrightarrow> a = p"
  using append_sep_inject [of a c b p] assms by (auto simp: HasPrefix_iff)

lemma SplitByte_not_Nil [simp]: "SplitByte s c \<noteq> []"
  by (induction s) (auto split: list.splits)

lemma SplitByte_no_sep: "c \<notin> set s \<Longrightarrow> SplitByte s c = [s]"
  by (induction s) auto

lemma SplitByte_append:
  "c \<notin> set a \<Longrightarrow> SplitByte (a @ c # b) c = a # SplitByte b c"
  by (induction a) auto

lemma Join_SplitByte: "Join (SplitByte s c) [c] = s"
proof (induction s)
  case Nil
  then show ?case by simp
next
  case (Cons x xs)
  show ?case
  proof (cases "SplitByte xs c")
    case Nil
    then show ?thesis by simp
  next
    case (Cons p ps)
    with Cons.IH show ?thesis by (cases ps) auto
  qed
qed

lemma IndexByte_None: "IndexByte s c = None \<longleftrightarrow> c \<notin> set s"
  by (induction s) auto

lemma IndexByte_Some:
  "IndexByte s c = Some i \<Longrightarrow> s = take i s @ c # drop (Suc i) s \<and> c \<notin> set (take i s)"
  by (induction s arbitrary: i) (auto split: if_splits)

lemma IndexByte_append: "c \<notin> set a \<Longrightarrow> IndexByte (a @ c # b) c = Some (length a)"
  by (induction a) auto

subsection \<open>Hexadecimal\<close>

lemma from_hex_digit:
  assumes "n < 16"
  shows "from_hex (hex_digit n) = Some n"
proof -
  have "n \<in> {0, 1, 2, 3, 4, 5, 6, 7, 8, 9, 10, 11, 12, 13, 14, 15}"
    using assms by (simp only: insert_iff empty_iff) arith
  then show ?thesis by (auto simp: hex_digit_def from_hex_def)
qed

lemma hex_digit_no_dollar: "n < 16 \<Longrightarrow> hex_digit n \<noteq> CHR ''$''"
  using from_hex_digit [of n] by (auto simp: from_hex_def)

lemma of_char_div16: "(of_char c :: nat) div 16 < 16"
  by (rule less_mult_imp_div_less) (simp add: nat_of_char_less_256)

lemma hexDecode_hexEncode [simp]: "hexDecode (hexEncode bs) = Some bs"
  by (induction bs) (simp_all add: from_hex_digit of_char_div16 Let_def)

lemma hexEncode_no_dollar: "CHR ''$'' \<notin> set (hexEncode bs)"
proof (induction bs)
  case Nil
  then show ?case by simp
next
  case (Cons c cs)
  have "hex_digit (of_char c div 16) \<noteq> CHR ''$''" "hex_digit (of_char c mod 16) \<noteq> CHR ''$''"
    by (rule hex_digit_no_dollar, simp add: of_char_div16)+
  with Cons show ?case by (auto simp: Let_def)
qed

lemma hexEncode_inject [simp]: "hexEncode a = hexEncode b \<longleftrightarrow> a = b"
  by (metis hexDecode_hexEncode option.inject)

subsection \<open>Channels\<close>

lemma try_send_length: "length ch \<le> n \<Longrightarrow> length (try_send n ch v) \<le> n"
  by (simp add: try_send_def)

lemma try_send_prefix: "prefix ch (try_send n ch v)"
  by (simp add: try_send_def)

subsection \<open>Reversing in place\<close>

lemma length_swap_ends [simp]: "length (swap_ends i j xs) = length xs"
proof (induction i j xs rule: swap_ends.induct)
  case (1 i j xs)
  then show ?case by (subst swap_ends.simps) simp
qed

lemma nth_swap_ends:
  assumes "j < length xs" "k < length xs"
  shows "swap_ends i j xs ! k = (if i \<le> k \<and> k \<le> j then xs ! (i + j - k) else xs ! k)"
  using assms
proof (induction i j xs arbitrary: k rule: swap_ends.induct)
  case (1 i j xs)
  show ?case
  proof (cases "i < j")
    case True
    let ?ys = "xs[i := xs ! j, j := xs ! i]"
    have "swap_ends i j xs ! k = swap_ends (Suc i) (j - 1) ?ys ! k"
      using True by (subst swap_ends.simps) simp
    also have "\<dots> = (if Suc i \<le> k \<and> k \<le> j - 1 then ?ys ! (Suc i + (j - 1) - k) else ?ys ! k)"
      using True "1.prems" by (intro "1.IH") auto
    also have "\<dots> = (if i \<le> k \<and> k \<le> j then xs ! (i + j - k) else xs ! k)"
      using True "1.prems" by (auto simp: nth_list_update)
    finally show ?thesis .
  next
    case False
    then show ?thesis using "1.prems" by (subst swap_ends.simps) (auto dest: le_antisym)
  qed
qed

lemma reverse_in_place_rev: "reverse_in_place xs = rev xs"
proof (cases xs)
  case Nil
  then show ?thesis by (simp add: reverse_in_place_def swap_ends.simps)
next
  case (Cons y ys)
  show ?thesis
  proof (rule nth_equalityI)
    show "length (reverse_in_place xs) = length (rev xs)"
      by (simp add: reverse_in_place_def)
  next
    fix k assume "k < length (reverse_in_place xs)"
    then have k: "k < length xs" by (simp add: reverse_in_place_def)
    then have "k \<le> length xs - Suc 0" by arith
    with k show "reverse_in_place xs ! k = rev xs ! k"
      by (simp add: reverse_in_place_def nth_swap_ends rev_nth Suc_diff_Suc)
  qed
qed

subsection \<open>Association lists\<close>

lemma map_of_update: "map_of (AList.update k v al) = (map_of al)(k \<mapsto> v)"
  by (rule update_conv')

lemma map_of_delete: "map_of (AList.delete k al) = (map_of al)(k := None)"
  by (rule delete_conv')

end
