(* ===== verification/Types.thy ===== *)
theory Types
  imports Prelude
begin

text \<open>
  The resource types of \<^verbatim>\<open>internal/store/types.go\<close>: one record per struct, with the struct's
  fields in their order and a short prefix per struct (\<open>c_\<close> for \<^verbatim>\<open>Container\<close>, \<open>f_\<close> for
  \<^verbatim>\<open>Function\<close>, ...), pointers to structs as options, Go's open string enumerations as
  strings with named constants. An embedded struct is a record extension.

  Documents. What BoltDB holds are JSON encodings of these structs
  (\<^verbatim>\<open>encoding/json\<close>). A stored byte string is represented by the document it encodes:
  \<open>doc\<close> has one constructor per stored struct and \<open>DRaw\<close> for bytes that decode to none of
  them. Encoding is the constructor and decoding into a type succeeds exactly on its own
  constructor; \<open>typed_doc\<close> says which documents a bucket is meant to hold, and the store
  theory proves that the code keeps every bucket typed, so a document is never decoded at
  another type. The model takes strings to be valid UTF-8 and times to be within the years
  JSON can print, where \<^verbatim>\<open>json.Marshal\<close> does not fail and round-trips.
\<close>

section \<open>Enumerations\<close>

definition KindProject :: string where "KindProject = ''project''"
definition KindNode :: string where "KindNode = ''node''"
definition KindContainer :: string where "KindContainer = ''container''"
definition KindFunction :: string where "KindFunction = ''function''"
definition KindBucket :: string where "KindBucket = ''bucket''"
definition KindAccessKey :: string where "KindAccessKey = ''accesskey''"
definition KindUser :: string where "KindUser = ''user''"
definition KindToken :: string where "KindToken = ''token''"
definition KindCluster :: string where "KindCluster = ''cluster''"
definition KindSecret :: string where "KindSecret = ''secret''"
definition KindEventRule :: string where "KindEventRule = ''eventrule''"
definition KindBuild :: string where "KindBuild = ''build''"

lemmas kind_defs = KindProject_def KindNode_def KindContainer_def KindFunction_def
  KindBucket_def KindAccessKey_def KindUser_def KindToken_def KindCluster_def
  KindSecret_def KindEventRule_def KindBuild_def

definition PhasePending :: string where "PhasePending = ''Pending''"
definition PhaseRunning :: string where "PhaseRunning = ''Running''"
definition PhaseFailed :: string where "PhaseFailed = ''Failed''"
definition PhaseSucceeded :: string where "PhaseSucceeded = ''Succeeded''"
definition PhaseStopped :: string where "PhaseStopped = ''Stopped''"

lemmas phase_defs = PhasePending_def PhaseRunning_def PhaseFailed_def PhaseSucceeded_def
  PhaseStopped_def

definition NodeRoleControl :: string where "NodeRoleControl = ''control''"
definition NodeRoleCompute :: string where "NodeRoleCompute = ''compute''"
definition NodeRoleStorage :: string where "NodeRoleStorage = ''storage''"

definition RestartNever :: string where "RestartNever = ''Never''"
definition RestartOnFailure :: string where "RestartOnFailure = ''OnFailure''"
definition RestartAlways :: string where "RestartAlways = ''Always''"

definition FunctionRuntimeWasm :: string where "FunctionRuntimeWasm = ''wasm''"
definition FunctionRuntimeFirecracker :: string where
  "FunctionRuntimeFirecracker = ''firecracker''"

section \<open>Structs\<close>

record meta =
  m_Project :: string
  m_Name :: string
  m_UID :: string
  m_Generation :: int64
  m_CreatedAt :: time
  m_UpdatedAt :: time
  m_Labels :: strmap

record status =
  Phase :: string
  Message :: string
  NodeID :: string
  StatusUpdatedAt :: time

record project =
  p_Meta :: meta
  p_DisplayName :: string
  p_Description :: string

record node =
  n_Meta :: meta
  n_Address :: string
  n_APIAddress :: string
  n_RaftAddress :: string
  n_GossipAddress :: string
  n_Roles :: "string list"
  n_CapacityGB :: int
  n_Zone :: string
  n_Version :: string
  n_Status :: status
  n_LastSeenAt :: time

record port_mapping =
  pm_Host :: int
  pm_Container :: int
  pm_Protocol :: string

record resource_limits =
  rl_CPUMillicores :: int
  rl_MemoryMB :: int

record secret_mount =
  sm_Secret :: string
  sm_EnvName :: string
  sm_MountPath :: string

record volume_mount =
  vm_Bucket :: string
  vm_MountPath :: string
  vm_ReadOnly :: bool

record container_status = status +
  ContainerdID :: string
  StartedAt :: time
  ExitCode :: int
  IPAddress :: string
  StatusImage :: string

record container =
  c_Meta :: meta
  c_Image :: string
  c_Command :: "string list"
  c_Args :: "string list"
  c_Env :: strmap
  c_Ports :: "port_mapping list"
  c_Volumes :: "volume_mount list"
  c_SecretMounts :: "secret_mount list"
  c_RestartPolicy :: string
  c_Resources :: resource_limits
  c_NodeID :: string
  c_Status :: container_status

record http_trigger =
  ht_Path :: string
  ht_Methods :: "string list"

record cron_trigger =
  ct_Schedule :: string

record function_trigger =
  ft_HTTP :: "http_trigger option"
  ft_Cron :: "cron_trigger option"

record build_spec =
  bs_Language :: string
  bs_BuildImage :: string
  bs_Commands :: "string list"
  bs_Output :: string
  bs_Entrypoint :: "string list"
  bs_Template :: string

record git_source_spec =
  g_URL :: string
  g_Ref :: string
  g_SubPath :: string
  g_AuthSecret :: string
  g_WebhookToken :: string
  g_WebhookSecret :: string
  g_Build :: build_spec

record function_source =
  src_Type :: string
  src_Git :: "git_source_spec option"

record func =
  f_Meta :: meta
  f_Runtime :: string
  f_Handler :: string
  f_SourceRef :: string
  f_Source :: function_source
  f_Triggers :: "function_trigger list"
  f_Env :: strmap
  f_SecretMounts :: "secret_mount list"
  f_MemoryMB :: int
  f_TimeoutMS :: int
  f_LatestBuild :: string
  f_Status :: status

record build =
  bd_Meta :: meta
  bd_FunctionRef :: string
  bd_CommitSHA :: string
  bd_Trigger :: string
  bd_Status :: string
  bd_Message :: string
  bd_StartedAt :: time
  bd_FinishedAt :: time
  bd_LogsRef :: string
  bd_ArtifactRef :: string

record secret =
  s_Meta :: meta
  s_Description :: string
  s_KeyID :: string
  s_Nonce :: bytes
  s_Ciphertext :: bytes
  s_Version :: int64

record event_match =
  em_Types :: "string list"
  em_Subject :: string
  em_Filter :: strmap

record webhook_action =
  wa_URL :: string
  wa_Method :: string
  wa_Headers :: strmap
  wa_Secret :: string

record invoke_action =
  ia_Project :: string
  ia_Function :: string
  ia_Path :: string

record container_action =
  ca_Project :: string
  ca_Container :: string
  ca_Action :: string

record event_action =
  ea_Webhook :: "webhook_action option"
  ea_Invoke :: "invoke_action option"
  ea_Container :: "container_action option"

record event_rule =
  er_Meta :: meta
  er_Description :: string
  er_Match :: event_match
  er_Action :: event_action
  er_Enabled :: bool
  er_LastFiredAt :: time
  er_FireCount :: int64

record event_record =
  ev_UID :: string
  ev_Type :: string
  ev_Project :: string
  ev_Subject :: string
  ev_At :: time
  ev_Data :: strmap
  ev_Body :: bytes

record webhook_delivery =
  d_Meta :: meta
  d_Rule :: string
  d_URL :: string
  d_Status :: int
  d_Error :: string
  d_Attempt :: int
  d_NextAttempt :: time
  d_Done :: bool
  d_StartedAt :: time
  d_FinishedAt :: time
  d_EventUID :: string
  d_EventType :: string

record bucket =
  b_Meta :: meta
  b_Region :: string
  b_Versioning :: bool
  b_WebsiteAccess :: bool
  b_GarageID :: string
  b_SizeBytes :: int
  b_Status :: status

record access_key =
  a_Meta :: meta
  a_BucketName :: string
  a_AccessKeyID :: string
  a_SecretAccessKey :: string
  a_Permissions :: string

record user =
  u_Meta :: meta
  u_Email :: string
  u_PasswordHash :: string
  u_IsAdmin :: bool
  u_LastLoginAt :: time

record token =
  t_Meta :: meta
  t_UserID :: string
  t_HashHex :: string
  t_Plaintext :: string
  t_ExpiresAt :: time
  t_IsAdmin :: bool

record join_token =
  jt_ID :: string
  jt_HashHex :: string
  jt_IssuedBy :: string
  jt_IssuedAt :: time
  jt_ExpiresAt :: time
  jt_ConsumedBy :: string

record cluster_config =
  cc_Initialized :: bool
  cc_MultiNode :: bool
  cc_BootstrapToken :: string
  cc_ReplicationFactor :: int
  cc_JoinTokens :: "join_token list"
  cc_GarageRPCSecret :: string
  cc_GarageAdminToken :: string
  cc_S3InternalKeyID :: string
  cc_S3InternalKeySecret :: string
  cc_SecretFingerprint :: string
  cc_CreatedAt :: time
  cc_UpdatedAt :: time

section \<open>Zero values\<close>

text \<open>Go's zero value of the structs the code builds with a composite literal.\<close>

definition zero_meta :: meta where
  "zero_meta = \<lparr>m_Project = [], m_Name = [], m_UID = [], m_Generation = 0,
     m_CreatedAt = 0, m_UpdatedAt = 0, m_Labels = []\<rparr>"

definition zero_status :: status where
  "zero_status = \<lparr>Phase = [], Message = [], NodeID = [], StatusUpdatedAt = 0\<rparr>"

definition zero_container_status :: container_status where
  "zero_container_status = \<lparr>Phase = [], Message = [], NodeID = [], StatusUpdatedAt = 0,
     ContainerdID = [], StartedAt = 0, ExitCode = 0, IPAddress = [], StatusImage = []\<rparr>"

definition zero_cluster :: cluster_config where
  "zero_cluster = \<lparr>cc_Initialized = False, cc_MultiNode = False, cc_BootstrapToken = [],
     cc_ReplicationFactor = 0, cc_JoinTokens = [], cc_GarageRPCSecret = [],
     cc_GarageAdminToken = [], cc_S3InternalKeyID = [], cc_S3InternalKeySecret = [],
     cc_SecretFingerprint = [], cc_CreatedAt = 0, cc_UpdatedAt = 0\<rparr>"

definition zero_event_record :: event_record where
  "zero_event_record = \<lparr>ev_UID = [], ev_Type = [], ev_Project = [], ev_Subject = [],
     ev_At = 0, ev_Data = [], ev_Body = []\<rparr>"

section \<open>Documents\<close>

datatype doc =
    DProject project | DNode node | DContainer container | DFunction func
  | DBucket bucket | DAccessKey access_key | DUser user | DToken token
  | DCluster cluster_config | DSecret secret | DEventRule event_rule | DBuild build
  | DEventRecord event_record | DDelivery webhook_delivery | DRaw bytes

text \<open>
  What the store needs of a type it persists: the interface \<^verbatim>\<open>projectScoped\<close>
  (\<^verbatim>\<open>getMeta() *Meta\<close>, through which the metadata is also written) and its JSON encoding.
\<close>

record 'v scoped =
  getMeta :: "'v \<Rightarrow> meta"
  setMeta :: "meta \<Rightarrow> 'v \<Rightarrow> 'v"
  marshal :: "'v \<Rightarrow> doc"
  unmarshal :: "doc \<Rightarrow> 'v option"

definition projectT :: "project scoped" where
  "projectT = \<lparr>getMeta = p_Meta, setMeta = (\<lambda>m v. v\<lparr>p_Meta := m\<rparr>), marshal = DProject,
     unmarshal = (\<lambda>d. case d of DProject v \<Rightarrow> Some v | _ \<Rightarrow> None)\<rparr>"

definition nodeT :: "node scoped" where
  "nodeT = \<lparr>getMeta = n_Meta, setMeta = (\<lambda>m v. v\<lparr>n_Meta := m\<rparr>), marshal = DNode,
     unmarshal = (\<lambda>d. case d of DNode v \<Rightarrow> Some v | _ \<Rightarrow> None)\<rparr>"

definition containerT :: "container scoped" where
  "containerT = \<lparr>getMeta = c_Meta, setMeta = (\<lambda>m v. v\<lparr>c_Meta := m\<rparr>), marshal = DContainer,
     unmarshal = (\<lambda>d. case d of DContainer v \<Rightarrow> Some v | _ \<Rightarrow> None)\<rparr>"

definition functionT :: "func scoped" where
  "functionT = \<lparr>getMeta = f_Meta, setMeta = (\<lambda>m v. v\<lparr>f_Meta := m\<rparr>), marshal = DFunction,
     unmarshal = (\<lambda>d. case d of DFunction v \<Rightarrow> Some v | _ \<Rightarrow> None)\<rparr>"

definition bucketT :: "bucket scoped" where
  "bucketT = \<lparr>getMeta = b_Meta, setMeta = (\<lambda>m v. v\<lparr>b_Meta := m\<rparr>), marshal = DBucket,
     unmarshal = (\<lambda>d. case d of DBucket v \<Rightarrow> Some v | _ \<Rightarrow> None)\<rparr>"

definition accessKeyT :: "access_key scoped" where
  "accessKeyT = \<lparr>getMeta = a_Meta, setMeta = (\<lambda>m v. v\<lparr>a_Meta := m\<rparr>), marshal = DAccessKey,
     unmarshal = (\<lambda>d. case d of DAccessKey v \<Rightarrow> Some v | _ \<Rightarrow> None)\<rparr>"

definition userT :: "user scoped" where
  "userT = \<lparr>getMeta = u_Meta, setMeta = (\<lambda>m v. v\<lparr>u_Meta := m\<rparr>), marshal = DUser,
     unmarshal = (\<lambda>d. case d of DUser v \<Rightarrow> Some v | _ \<Rightarrow> None)\<rparr>"

definition tokenT :: "token scoped" where
  "tokenT = \<lparr>getMeta = t_Meta, setMeta = (\<lambda>m v. v\<lparr>t_Meta := m\<rparr>), marshal = DToken,
     unmarshal = (\<lambda>d. case d of DToken v \<Rightarrow> Some v | _ \<Rightarrow> None)\<rparr>"

definition secretT :: "secret scoped" where
  "secretT = \<lparr>getMeta = s_Meta, setMeta = (\<lambda>m v. v\<lparr>s_Meta := m\<rparr>), marshal = DSecret,
     unmarshal = (\<lambda>d. case d of DSecret v \<Rightarrow> Some v | _ \<Rightarrow> None)\<rparr>"

definition eventRuleT :: "event_rule scoped" where
  "eventRuleT = \<lparr>getMeta = er_Meta, setMeta = (\<lambda>m v. v\<lparr>er_Meta := m\<rparr>), marshal = DEventRule,
     unmarshal = (\<lambda>d. case d of DEventRule v \<Rightarrow> Some v | _ \<Rightarrow> None)\<rparr>"

definition buildT :: "build scoped" where
  "buildT = \<lparr>getMeta = bd_Meta, setMeta = (\<lambda>m v. v\<lparr>bd_Meta := m\<rparr>), marshal = DBuild,
     unmarshal = (\<lambda>d. case d of DBuild v \<Rightarrow> Some v | _ \<Rightarrow> None)\<rparr>"

definition deliveryT :: "webhook_delivery scoped" where
  "deliveryT = \<lparr>getMeta = d_Meta, setMeta = (\<lambda>m v. v\<lparr>d_Meta := m\<rparr>), marshal = DDelivery,
     unmarshal = (\<lambda>d. case d of DDelivery v \<Rightarrow> Some v | _ \<Rightarrow> None)\<rparr>"

definition as_cluster :: "doc \<Rightarrow> cluster_config option" where
  "as_cluster d = (case d of DCluster c \<Rightarrow> Some c | _ \<Rightarrow> None)"

definition as_event_record :: "doc \<Rightarrow> event_record option" where
  "as_event_record d = (case d of DEventRecord r \<Rightarrow> Some r | _ \<Rightarrow> None)"

text \<open>The documents a bucket is meant to hold: the bucket's own type, or undecodable bytes.\<close>

definition typed_doc :: "string \<Rightarrow> doc \<Rightarrow> bool" where
  "typed_doc b d = (case d of
     DProject _ \<Rightarrow> b = ''projects'' | DNode _ \<Rightarrow> b = ''nodes''
   | DContainer _ \<Rightarrow> b = ''containers'' | DFunction _ \<Rightarrow> b = ''functions''
   | DBucket _ \<Rightarrow> b = ''buckets'' | DAccessKey _ \<Rightarrow> b = ''accesskeys''
   | DUser _ \<Rightarrow> b = ''users'' | DToken _ \<Rightarrow> b = ''tokens''
   | DCluster _ \<Rightarrow> b = ''cluster'' | DSecret _ \<Rightarrow> b = ''secrets''
   | DEventRule _ \<Rightarrow> b = ''eventrules'' | DBuild _ \<Rightarrow> b = ''builds''
   | DEventRecord _ \<Rightarrow> b = ''eventlog'' | DDelivery _ \<Rightarrow> b = ''deliveries''
   | DRaw _ \<Rightarrow> True)"

section \<open>The contract of a persisted type\<close>

locale scoped_type =
  fixes T :: "'v scoped"
  assumes unmarshal_marshal [simp]: "unmarshal T (marshal T v) = Some v"
    and marshal_unmarshal: "unmarshal T d = Some v \<Longrightarrow> d = marshal T v"
    and getMeta_setMeta [simp]: "getMeta T (setMeta T m v) = m"
    and setMeta_setMeta [simp]: "setMeta T m (setMeta T m' v) = setMeta T m v"
    and setMeta_getMeta [simp]: "setMeta T (getMeta T v) v = v"
begin

lemma marshal_inject: "marshal T v = marshal T w \<longleftrightarrow> v = w"
  by (metis option.inject unmarshal_marshal)

lemma unmarshal_iff: "unmarshal T d = Some v \<longleftrightarrow> d = marshal T v"
  using marshal_unmarshal by auto

end

interpretation projectT: scoped_type projectT
  by unfold_locales (auto simp: projectT_def split: doc.splits)

interpretation nodeT: scoped_type nodeT
  by unfold_locales (auto simp: nodeT_def split: doc.splits)

interpretation containerT: scoped_type containerT
  by unfold_locales (auto simp: containerT_def split: doc.splits)

interpretation functionT: scoped_type functionT
  by unfold_locales (auto simp: functionT_def split: doc.splits)

interpretation bucketT: scoped_type bucketT
  by unfold_locales (auto simp: bucketT_def split: doc.splits)

interpretation accessKeyT: scoped_type accessKeyT
  by unfold_locales (auto simp: accessKeyT_def split: doc.splits)

interpretation userT: scoped_type userT
  by unfold_locales (auto simp: userT_def split: doc.splits)

interpretation tokenT: scoped_type tokenT
  by unfold_locales (auto simp: tokenT_def split: doc.splits)

interpretation secretT: scoped_type secretT
  by unfold_locales (auto simp: secretT_def split: doc.splits)

interpretation eventRuleT: scoped_type eventRuleT
  by unfold_locales (auto simp: eventRuleT_def split: doc.splits)

interpretation buildT: scoped_type buildT
  by unfold_locales (auto simp: buildT_def split: doc.splits)

interpretation deliveryT: scoped_type deliveryT
  by unfold_locales (auto simp: deliveryT_def split: doc.splits)

lemmas codec_defs = projectT_def nodeT_def containerT_def functionT_def bucketT_def
  accessKeyT_def userT_def tokenT_def secretT_def eventRuleT_def buildT_def deliveryT_def

end
