(* ===== verification/Bolt.thy ===== *)
theory Bolt
  imports Types
begin

text \<open>
  The interface of the embedded database. \<^verbatim>\<open>go.etcd.io/bbolt\<close> is not part of the repository,
  so its operations are a parameter of the model: a record \<open>'db bolt\<close> of functions over an
  abstract database \<open>'db\<close>, passed to every definition that uses it. The locale
  \<open>bolt_engine\<close> names what the code relies on: the documented behaviour of buckets, keys,
  cursors and transactions. Every operation may fail, and a failed transaction leaves the
  database as it was. \<open>mem_bolt\<close> is an in-memory engine that satisfies the contract; the
  witnesses evaluate the model on it.
\<close>

section \<open>Operations\<close>

datatype bolt_error = BucketNotFound | BucketExists | KeyRequired | BErr string

fun bolt_err :: "bolt_error \<Rightarrow> error" where
  "bolt_err BucketNotFound = Err ''bucket not found''"
| "bolt_err BucketExists = Err ''bucket already exists''"
| "bolt_err KeyRequired = Err ''key required''"
| "bolt_err (BErr m) = Err m"

text \<open>
  Inside a transaction: the names of the root buckets (\<^verbatim>\<open>tx.ForEach\<close>), a lookup
  (\<^verbatim>\<open>Bucket.Get\<close>), the entries a cursor visits from \<^verbatim>\<open>First\<close> to the end, \<^verbatim>\<open>Bucket.Put\<close>,
  \<^verbatim>\<open>Bucket.Delete\<close>, \<^verbatim>\<open>tx.CreateBucket\<close>, \<^verbatim>\<open>tx.CreateBucketIfNotExists\<close>,
  \<^verbatim>\<open>tx.DeleteBucket\<close>, and whether the commit of a read-write transaction fails.
\<close>

record 'db bolt =
  bbuckets :: "'db \<Rightarrow> string list"
  bget :: "'db \<Rightarrow> string \<Rightarrow> string \<Rightarrow> doc option"
  bscan :: "'db \<Rightarrow> string \<Rightarrow> (string \<times> doc) list"
  bput :: "'db \<Rightarrow> string \<Rightarrow> string \<Rightarrow> doc \<Rightarrow> bolt_error + 'db"
  bdelete :: "'db \<Rightarrow> string \<Rightarrow> string \<Rightarrow> bolt_error + 'db"
  bcreate :: "'db \<Rightarrow> string \<Rightarrow> bolt_error + 'db"
  bensure :: "'db \<Rightarrow> string \<Rightarrow> bolt_error + 'db"
  bdrop :: "'db \<Rightarrow> string \<Rightarrow> bolt_error + 'db"
  bcommit :: "'db \<Rightarrow> bolt_error option"

text \<open>\<^verbatim>\<open>db.Update(fn)\<close>: run the body, commit, roll back on any error.\<close>

definition bolt_update :: "'db bolt \<Rightarrow> ('db \<Rightarrow> error + 'db) \<Rightarrow> 'db \<Rightarrow> error + 'db" where
  "bolt_update B body db =
     (case body db of Inl e \<Rightarrow> Inl e
      | Inr db' \<Rightarrow> (case bcommit B db' of Some e \<Rightarrow> Inl (bolt_err e) | None \<Rightarrow> Inr db'))"

section \<open>The documented contract\<close>

locale bolt_engine =
  fixes B :: "'db bolt"
  assumes buckets_distinct: "distinct (bbuckets B db)"
    and buckets_put: "bput B db b k v = Inr db' \<Longrightarrow> bbuckets B db' = bbuckets B db"
    and get_put: "b \<in> set (bbuckets B db) \<Longrightarrow> bput B db b k v = Inr db' \<Longrightarrow>
        bget B db' b' k' = (if b' = b \<and> k' = k then Some v else bget B db b' k')"
    and buckets_delete: "bdelete B db b k = Inr db' \<Longrightarrow> bbuckets B db' = bbuckets B db"
    and get_delete: "b \<in> set (bbuckets B db) \<Longrightarrow> bdelete B db b k = Inr db' \<Longrightarrow>
        bget B db' b' k' = (if b' = b \<and> k' = k then None else bget B db b' k')"
    and scan_get: "b \<in> set (bbuckets B db) \<Longrightarrow> map_of (bscan B db b) = bget B db b"
    and scan_sorted: "sorted (map fst (bscan B db b))"
    and scan_distinct: "distinct (map fst (bscan B db b))"
    and create_exists: "b \<in> set (bbuckets B db) \<Longrightarrow> bcreate B db b = Inl BucketExists"
    and buckets_create: "bcreate B db b = Inr db' \<Longrightarrow>
        set (bbuckets B db') = insert b (set (bbuckets B db))"
    and get_create: "bcreate B db b = Inr db' \<Longrightarrow>
        bget B db' b' k' = (if b' = b then None else bget B db b' k')"
    and buckets_ensure: "bensure B db b = Inr db' \<Longrightarrow>
        set (bbuckets B db') = insert b (set (bbuckets B db))"
    and get_ensure: "bensure B db b = Inr db' \<Longrightarrow>
        bget B db' b' k' =
          (if b' = b \<and> b \<notin> set (bbuckets B db) then None else bget B db b' k')"
    and drop_missing: "b \<notin> set (bbuckets B db) \<Longrightarrow> bdrop B db b = Inl BucketNotFound"
    and buckets_drop: "bdrop B db b = Inr db' \<Longrightarrow>
        set (bbuckets B db') = set (bbuckets B db) - {b}"
    and get_drop: "bdrop B db b = Inr db' \<Longrightarrow> b' \<noteq> b \<Longrightarrow> bget B db' b' k' = bget B db b' k'"
begin

lemma scan_iff:
  "b \<in> set (bbuckets B db) \<Longrightarrow> (k, v) \<in> set (bscan B db b) \<longleftrightarrow> bget B db b k = Some v"
  using scan_get [of b db] map_of_eq_Some_iff [OF scan_distinct [of db b], of k v] by simp

text \<open>The entries of a bucket are determined by its lookups: one sorted list per map.\<close>

lemma scan_unique:
  assumes b: "b \<in> set (bbuckets B db)" and b': "b' \<in> set (bbuckets B db')"
    and eq: "bget B db b = bget B db' b'"
  shows "bscan B db b = bscan B db' b'"
proof -
  let ?xs = "bscan B db b" and ?ys = "bscan B db' b'"
  have m: "map_of ?xs = map_of ?ys"
    using scan_get [OF b] scan_get [OF b'] eq by simp
  then have "set (map fst ?xs) = set (map fst ?ys)"
    by (metis dom_map_of_conv_image_fst list.set_map)
  then have k: "map fst ?xs = map fst ?ys"
    using scan_sorted scan_distinct by (metis sorted_distinct_set_unique)
  have v: "map_of xs (fst p) = Some (snd p)"
    if "p \<in> set xs" "distinct (map fst xs)" for xs :: "(string \<times> doc) list" and p
    using that by (simp add: map_of_eq_Some_iff)
  show ?thesis
  proof (rule nth_equalityI)
    show "length ?xs = length ?ys" using k by (metis length_map)
  next
    fix i assume i: "i < length ?xs"
    then have i': "i < length ?ys" using k by (metis length_map)
    have f: "fst (?xs ! i) = fst (?ys ! i)" using k i i' by (metis nth_map)
    have "Some (snd (?xs ! i)) = Some (snd (?ys ! i))"
      using v [OF nth_mem [OF i] scan_distinct] v [OF nth_mem [OF i'] scan_distinct] f m by metis
    with f show "?xs ! i = ?ys ! i" by (simp add: prod_eq_iff)
  qed
qed

lemma scan_sorted_distinct: "sorted_wrt (<) (map fst (bscan B db b))"
  using scan_sorted scan_distinct by (simp add: strict_sorted_iff)

end

section \<open>An in-memory engine\<close>

type_synonym memdb = "(string \<times> (string \<times> doc) list) list"

definition mem_buckets :: "memdb \<Rightarrow> string list" where
  "mem_buckets db = remdups (map fst db)"

definition mem_get :: "memdb \<Rightarrow> string \<Rightarrow> string \<Rightarrow> doc option" where
  "mem_get db b k = (case map_of db b of None \<Rightarrow> None | Some t \<Rightarrow> map_of t k)"

definition mem_scan :: "memdb \<Rightarrow> string \<Rightarrow> (string \<times> doc) list" where
  "mem_scan db b =
     (case map_of db b of None \<Rightarrow> [] | Some t \<Rightarrow> sort_key fst (AList.clearjunk t))"

definition mem_put :: "memdb \<Rightarrow> string \<Rightarrow> string \<Rightarrow> doc \<Rightarrow> bolt_error + memdb" where
  "mem_put db b k v =
     (case map_of db b of None \<Rightarrow> Inl BucketNotFound
      | Some t \<Rightarrow> if k = [] then Inl KeyRequired
                 else Inr (AList.update b (AList.update k v t) db))"

definition mem_delete :: "memdb \<Rightarrow> string \<Rightarrow> string \<Rightarrow> bolt_error + memdb" where
  "mem_delete db b k =
     (case map_of db b of None \<Rightarrow> Inl BucketNotFound
      | Some t \<Rightarrow> Inr (AList.update b (AList.delete k t) db))"

definition mem_create :: "memdb \<Rightarrow> string \<Rightarrow> bolt_error + memdb" where
  "mem_create db b = (if map_of db b = None then Inr (db @ [(b, [])]) else Inl BucketExists)"

definition mem_ensure :: "memdb \<Rightarrow> string \<Rightarrow> bolt_error + memdb" where
  "mem_ensure db b = Inr (if map_of db b = None then db @ [(b, [])] else db)"

definition mem_drop :: "memdb \<Rightarrow> string \<Rightarrow> bolt_error + memdb" where
  "mem_drop db b =
     (if map_of db b = None then Inl BucketNotFound else Inr (AList.delete b db))"

definition mem_bolt :: "memdb bolt" where
  "mem_bolt = \<lparr>bbuckets = mem_buckets, bget = mem_get, bscan = mem_scan, bput = mem_put,
     bdelete = mem_delete, bcreate = mem_create, bensure = mem_ensure, bdrop = mem_drop,
     bcommit = (\<lambda>_. None)\<rparr>"

lemma mem_bolt_sel [simp]:
  "bbuckets mem_bolt = mem_buckets" "bget mem_bolt = mem_get" "bscan mem_bolt = mem_scan"
  "bput mem_bolt = mem_put" "bdelete mem_bolt = mem_delete" "bcreate mem_bolt = mem_create"
  "bensure mem_bolt = mem_ensure" "bdrop mem_bolt = mem_drop"
  "bcommit mem_bolt = (\<lambda>_. None)"
  by (simp_all add: mem_bolt_def)

lemma set_mem_buckets: "set (mem_buckets db) = dom (map_of db)"
  by (simp add: mem_buckets_def dom_map_of_conv_image_fst)

lemma mem_buckets_update:
  "map_of db b = Some t \<Longrightarrow> mem_buckets (AList.update b t' db) = mem_buckets db"
proof -
  assume "map_of db b = Some t"
  then have "b \<in> set (map fst db)" by (auto dest: map_of_SomeD intro: rev_image_eqI)
  then have "map fst (AList.update b t' db) = map fst db"
    by (induction db) auto
  then show ?thesis by (simp add: mem_buckets_def)
qed

lemma distinct_keys_sort: "distinct (map fst (sort_key fst (AList.clearjunk t)))"
  using distinct_clearjunk [of t] by (simp add: distinct_map)

lemma map_of_sort_clearjunk: "map_of (sort_key fst (AList.clearjunk t)) = map_of t"
proof -
  let ?s = "sort_key fst (AList.clearjunk t)"
  have "distinct (map fst ?s)"
    by (rule distinct_keys_sort)
  then have "map_of ?s = map_of (AList.clearjunk t)"
    using distinct_clearjunk [of t] by (metis map_of_inject_set set_sort)
  then show ?thesis by (simp add: map_of_clearjunk)
qed

lemma map_of_snoc_None: "map_of db b = None \<Longrightarrow> map_of (db @ [(b, v)]) = (map_of db)(b \<mapsto> v)"
  by (auto simp: map_add_def fun_eq_iff split: option.splits)

lemma mem_update_get:
  "map_of db b = Some t \<Longrightarrow> mem_get (AList.update b t' db) b' k' =
     (if b' = b then map_of t' k' else mem_get db b' k')"
  by (simp add: mem_get_def map_of_update)

lemma mem_scan_sorted:
  "sorted (map fst (mem_scan db b))" "distinct (map fst (mem_scan db b))"
proof -
  show "sorted (map fst (mem_scan db b))"
    by (simp add: mem_scan_def split: option.splits)
  show "distinct (map fst (mem_scan db b))"
    by (simp add: mem_scan_def distinct_keys_sort split: option.splits)
qed

interpretation mem: bolt_engine mem_bolt
proof (unfold_locales, goal_cases)
  case 1 show ?case by (simp add: mem_buckets_def)
next
  case 2 then show ?case
    by (auto simp: mem_put_def mem_buckets_update split: option.splits if_splits)
next
  case 3 then show ?case
    by (auto simp: mem_put_def mem_update_get map_of_update mem_get_def
        split: option.splits if_splits)
next
  case 4 then show ?case
    by (auto simp: mem_delete_def mem_buckets_update split: option.splits)
next
  case 5 then show ?case
    by (auto simp: mem_delete_def map_of_update map_of_delete mem_get_def
        split: option.splits if_splits)
next
  case (6 b db) then show ?case
    by (auto simp: mem_scan_def mem_get_def map_of_sort_clearjunk set_mem_buckets)
next
  case 7 show ?case by (simp add: mem_scan_sorted)
next
  case 8 show ?case by (simp add: mem_scan_sorted)
next
  case 9 then show ?case by (auto simp: mem_create_def set_mem_buckets)
next
  case 10 then show ?case
    by (auto simp: mem_create_def set_mem_buckets map_of_snoc_None
        simp del: map_of_append split: if_splits)
next
  case 11 then show ?case
    by (auto simp: mem_create_def mem_get_def map_of_snoc_None
        simp del: map_of_append split: if_splits)
next
  case 12 then show ?case
    by (auto simp: mem_ensure_def set_mem_buckets map_of_snoc_None
        simp del: map_of_append split: if_splits)
next
  case 13 then show ?case
    by (auto simp: mem_ensure_def mem_get_def set_mem_buckets map_of_snoc_None
        simp del: map_of_append split: if_splits)
next
  case 14 then show ?case by (auto simp: mem_drop_def set_mem_buckets)
next
  case 15 then show ?case
    by (auto simp: mem_drop_def set_mem_buckets map_of_delete split: if_splits)
next
  case 16 then show ?case
    by (auto simp: mem_drop_def mem_get_def map_of_delete split: if_splits)
qed

text \<open>Evaluation of the engine on concrete databases.\<close>

lemmas mem_eval = mem_get_def mem_scan_def mem_put_def mem_delete_def mem_create_def
  mem_ensure_def mem_drop_def mem_buckets_def

end
