(* ===== verification/Store.thy ===== *)
theory Store
  imports Bolt
begin

text \<open>
  The persistent store, \<^verbatim>\<open>internal/store/store.go\<close>: typed resources in BoltDB buckets, and
  the in-process fan-out of mutation events to subscribers.

  State: the database and, for every subscription, the buffer of its channel (capacity 64,
  oldest event first). An operation that mutates its argument returns the mutated argument,
  the new store and the error, in the way the Go function leaves them; a lookup returns an
  error or a value. The readings of the clock and of the random source that an operation
  makes are arguments: \<open>uid\<close> is what \<^verbatim>\<open>newUID()\<close> returns, \<open>t0\<close>, \<open>t1\<close> are what the first
  and second \<^verbatim>\<open>time.Now().UTC()\<close> return. A bucket that does not exist makes
  \<^verbatim>\<open>tx.Bucket(...)\<close> nil and the call panics, which is \<open>ErrPanic\<close>.
\<close>

section \<open>State and internal helpers\<close>

definition rootBuckets :: "string list" where
  "rootBuckets = [''projects'', ''nodes'', ''containers'', ''functions'',
     ''buckets'', ''accesskeys'', ''users'', ''tokens'', ''cluster'', ''meta'',
     ''secrets'', ''eventrules'', ''builds'', ''eventlog'', ''deliveries'', ''webhookqueue'']"

record event =
  e_Kind :: string
  e_Op :: string
  e_Project :: string
  e_Name :: string
  e_Value :: "doc option"

record 'db store =
  sdb :: 'db
  subs :: "event list list"

fun open_buckets :: "'db bolt \<Rightarrow> string list \<Rightarrow> 'db \<Rightarrow> error + 'db" where
  "open_buckets B [] db = Inr db"
| "open_buckets B (b # bs) db =
     (case bensure B db b of Inl e \<Rightarrow> Inl (bolt_err e) | Inr db' \<Rightarrow> open_buckets B bs db')"

definition Open :: "'db bolt \<Rightarrow> 'db \<Rightarrow> error + 'db store" where
  "Open B db =
     (case bolt_update B (open_buckets B rootBuckets) db of
        Inl e \<Rightarrow> Inl e | Inr db' \<Rightarrow> Inr \<lparr>sdb = db', subs = []\<rparr>)"

definition Close :: "'db store \<Rightarrow> 'db store" where
  "Close s = s\<lparr>subs := []\<rparr>"

definition subCap :: nat where "subCap = 64"

text \<open>\<^verbatim>\<open>Subscribe\<close> returns the new channel, here its index.\<close>

definition Subscribe :: "'db store \<Rightarrow> nat \<times> 'db store" where
  "Subscribe s = (length (subs s), s\<lparr>subs := subs s @ [[]]\<rparr>)"

definition emit :: "event \<Rightarrow> 'db store \<Rightarrow> 'db store" where
  "emit ev s = s\<lparr>subs := map (\<lambda>ch. try_send subCap ch ev) (subs s)\<rparr>"

definition keyFor :: "string \<Rightarrow> string \<Rightarrow> string" where
  "keyFor project name = (if project = [] then name else project @ ''/'' @ name)"

definition store_put ::
  "'db bolt \<Rightarrow> string \<Rightarrow> string \<Rightarrow> doc \<Rightarrow> 'db store \<Rightarrow> 'db store \<times> error option" where
  "store_put B b k d s =
     (case bolt_update B (\<lambda>db.
         if b \<notin> set (bbuckets B db) then Inl ErrPanic
         else case bput B db b k d of Inl e \<Rightarrow> Inl (bolt_err e) | Inr db' \<Rightarrow> Inr db') (sdb s)
      of Inl e \<Rightarrow> (s, Some e) | Inr db' \<Rightarrow> (s\<lparr>sdb := db'\<rparr>, None))"

definition store_get ::
  "'db bolt \<Rightarrow> (doc \<Rightarrow> 'v option) \<Rightarrow> string \<Rightarrow> string \<Rightarrow> 'db store \<Rightarrow> error + 'v" where
  "store_get B dec b k s =
     (if b \<notin> set (bbuckets B (sdb s)) then Inl ErrPanic
      else case bget B (sdb s) b k of
             None \<Rightarrow> Inl ErrNotFound
           | Some d \<Rightarrow> (case dec d of None \<Rightarrow> Inl (Err ''json: cannot unmarshal'') | Some v \<Rightarrow> Inr v))"

definition store_del ::
  "'db bolt \<Rightarrow> string \<Rightarrow> string \<Rightarrow> 'db store \<Rightarrow> 'db store \<times> error option" where
  "store_del B b k s =
     (case bolt_update B (\<lambda>db.
         if b \<notin> set (bbuckets B db) then Inl ErrPanic
         else if bget B db b k = None then Inl ErrNotFound
         else case bdelete B db b k of Inl e \<Rightarrow> Inl (bolt_err e) | Inr db' \<Rightarrow> Inr db') (sdb s)
      of Inl e \<Rightarrow> (s, Some e) | Inr db' \<Rightarrow> (s\<lparr>sdb := db'\<rparr>, None))"

definition hasPrefix :: "bytes \<Rightarrow> bytes \<Rightarrow> bool" where
  "hasPrefix b p = (if length b < length p then False else \<forall>i < length p. b ! i = p ! i)"

text \<open>
  The cursor walk of \<^verbatim>\<open>list\<close>: without a prefix from \<^verbatim>\<open>First\<close> to the end, with a prefix from
  \<^verbatim>\<open>Seek(prefix)\<close> as long as the key has the prefix.
\<close>

definition seek :: "string \<Rightarrow> (string \<times> doc) list \<Rightarrow> (string \<times> doc) list" where
  "seek p es = dropWhile (\<lambda>e. fst e < p) es"

definition store_list ::
  "'db bolt \<Rightarrow> string \<Rightarrow> string \<Rightarrow> 'db store \<Rightarrow> error + doc list" where
  "store_list B b p s =
     (if b \<notin> set (bbuckets B (sdb s)) then Inl ErrPanic
      else let es = bscan B (sdb s) b in
        if p = [] then Inr (map snd es)
        else Inr (map snd (takeWhile (\<lambda>e. hasPrefix (fst e) p) (seek p es))))"

section \<open>Projects\<close>

text \<open>Minting metadata, the same statements in \<^verbatim>\<open>PutProject\<close>, \<^verbatim>\<open>putScoped\<close> and the replicated put.\<close>

definition mint :: "string \<Rightarrow> time \<Rightarrow> time \<Rightarrow> meta \<Rightarrow> meta" where
  "mint uid t0 t1 m =
     (let m1 = (if m_UID m = [] then m\<lparr>m_UID := uid, m_CreatedAt := t0\<rparr> else m)
      in m1\<lparr>m_UpdatedAt := t1, m_Generation := m_Generation m1 + 1\<rparr>)"

definition PutProject ::
  "'db bolt \<Rightarrow> string \<Rightarrow> time \<Rightarrow> time \<Rightarrow> project \<Rightarrow> 'db store \<Rightarrow> project \<times> 'db store \<times> error option"
where
  "PutProject B uid t0 t1 p s =
     (if m_Name (p_Meta p) = [] then (p, s, Some (Err ''project name is required''))
      else let p' = p\<lparr>p_Meta := mint uid t0 t1 (p_Meta p)\<rparr>; n = m_Name (p_Meta p) in
        case store_put B ''projects'' n (DProject p') s of
          (s', Some e) \<Rightarrow> (p', s', Some e)
        | (s', None) \<Rightarrow>
            (p', emit \<lparr>e_Kind = KindProject, e_Op = ''put'', e_Project = [], e_Name = n,
                       e_Value = Some (DProject p')\<rparr> s', None))"

definition GetProject :: "'db bolt \<Rightarrow> string \<Rightarrow> 'db store \<Rightarrow> error + project" where
  "GetProject B name s = store_get B (unmarshal projectT) ''projects'' name s"

definition ListProjects :: "'db bolt \<Rightarrow> 'db store \<Rightarrow> error + project list" where
  "ListProjects B s =
     (case store_list B ''projects'' [] s of Inl e \<Rightarrow> Inl e
      | Inr raws \<Rightarrow> Inr (List.map_filter (unmarshal projectT) raws))"

definition DeleteProject :: "'db bolt \<Rightarrow> string \<Rightarrow> 'db store \<Rightarrow> 'db store \<times> error option" where
  "DeleteProject B name s =
     (if name = ''default'' then (s, Some (Err ''cannot delete the default project''))
      else case store_del B ''projects'' name s of
             (s', Some e) \<Rightarrow> (s', Some e)
           | (s', None) \<Rightarrow>
               (emit \<lparr>e_Kind = KindProject, e_Op = ''delete'', e_Project = [], e_Name = name,
                      e_Value = None\<rparr> s', None))"

section \<open>Project-scoped resources\<close>

definition localDelete ::
  "'db bolt \<Rightarrow> string \<Rightarrow> string \<Rightarrow> string \<Rightarrow> string \<Rightarrow> 'db store \<Rightarrow> 'db store \<times> error option"
where
  "localDelete B b kind project name s =
     (let key = (if project = []
                 then (if kind = KindNode \<or> kind = KindUser \<or> kind = KindToken
                       then ''system/'' @ name else name)
                 else keyFor project name)
      in case store_del B b key s of
           (s', Some e) \<Rightarrow> (s', Some e)
         | (s', None) \<Rightarrow>
             (emit \<lparr>e_Kind = kind, e_Op = ''delete'', e_Project = project, e_Name = name,
                    e_Value = None\<rparr> s', None))"

definition putScoped ::
  "'db bolt \<Rightarrow> 'v scoped \<Rightarrow> string \<Rightarrow> string \<Rightarrow> string \<Rightarrow> time \<Rightarrow> time \<Rightarrow> 'v \<Rightarrow> 'db store
   \<Rightarrow> 'v \<times> 'db store \<times> error option" where
  "putScoped B T b kind uid t0 t1 v s =
     (let m = getMeta T v;
          m = (if m_Project m = [] then m\<lparr>m_Project := ''default''\<rparr> else m)
      in if m_Name m = [] then (setMeta T m v, s, Some (Err ''name is required''))
         else let m = mint uid t0 t1 m; v' = setMeta T m v in
           case store_put B b (keyFor (m_Project m) (m_Name m)) (marshal T v') s of
             (s', Some e) \<Rightarrow> (v', s', Some e)
           | (s', None) \<Rightarrow>
               (v', emit \<lparr>e_Kind = kind, e_Op = ''put'', e_Project = m_Project m,
                          e_Name = m_Name m, e_Value = Some (marshal T v')\<rparr> s', None))"

text \<open>The three shapes the typed read and delete functions share.\<close>

definition listScoped ::
  "'db bolt \<Rightarrow> 'v scoped \<Rightarrow> string \<Rightarrow> string \<Rightarrow> 'db store \<Rightarrow> error + 'v list" where
  "listScoped B T b project s =
     (case store_list B b (if project \<noteq> [] then project @ ''/'' else []) s of
        Inl e \<Rightarrow> Inl e | Inr raws \<Rightarrow> Inr (List.map_filter (unmarshal T) raws))"

definition delScoped ::
  "'db bolt \<Rightarrow> string \<Rightarrow> string \<Rightarrow> string \<Rightarrow> string \<Rightarrow> string \<Rightarrow> 'db store \<Rightarrow> 'db store \<times> error option"
where
  "delScoped B b kind key project name s =
     (case store_del B b key s of
        (s', Some e) \<Rightarrow> (s', Some e)
      | (s', None) \<Rightarrow>
          (emit \<lparr>e_Kind = kind, e_Op = ''delete'', e_Project = project, e_Name = name,
                 e_Value = None\<rparr> s', None))"

definition setProject :: "'v scoped \<Rightarrow> string \<Rightarrow> 'v \<Rightarrow> 'v" where
  "setProject T p v =
     (if m_Project (getMeta T v) = [] then setMeta T ((getMeta T v)\<lparr>m_Project := p\<rparr>) v else v)"

definition PutContainer where
  "PutContainer B = putScoped B containerT ''containers'' KindContainer"
definition GetContainer where
  "GetContainer B project name = store_get B (unmarshal containerT) ''containers'' (keyFor project name)"
definition ListContainers where
  "ListContainers B project = listScoped B containerT ''containers'' project"
definition DeleteContainer where
  "DeleteContainer B project name =
  delScoped B ''containers'' KindContainer (keyFor project name) project name"

definition PutFunction where
  "PutFunction B = putScoped B functionT ''functions'' KindFunction"
definition GetFunction where
  "GetFunction B project name = store_get B (unmarshal functionT) ''functions'' (keyFor project name)"
definition ListFunctions where
  "ListFunctions B project = listScoped B functionT ''functions'' project"
definition DeleteFunction where
  "DeleteFunction B project name =
  delScoped B ''functions'' KindFunction (keyFor project name) project name"

definition PutBucket where
  "PutBucket B = putScoped B bucketT ''buckets'' KindBucket"
definition GetBucket where
  "GetBucket B project name = store_get B (unmarshal bucketT) ''buckets'' (keyFor project name)"
definition ListBuckets where
  "ListBuckets B project = listScoped B bucketT ''buckets'' project"
definition DeleteBucket where
  "DeleteBucket B project name =
  delScoped B ''buckets'' KindBucket (keyFor project name) project name"

definition PutAccessKey where
  "PutAccessKey B = putScoped B accessKeyT ''accesskeys'' KindAccessKey"
definition GetAccessKey where
  "GetAccessKey B project name = store_get B (unmarshal accessKeyT) ''accesskeys'' (keyFor project name)"

definition ListAccessKeys :: "'db bolt \<Rightarrow> string \<Rightarrow> 'db store \<Rightarrow> error + access_key list" where
  "ListAccessKeys B project s =
     (case listScoped B accessKeyT ''accesskeys'' project s of Inl e \<Rightarrow> Inl e
      | Inr as \<Rightarrow> Inr (map (\<lambda>a. a\<lparr>a_SecretAccessKey := []\<rparr>) as))"

definition DeleteAccessKey where
  "DeleteAccessKey B project name =
  delScoped B ''accesskeys'' KindAccessKey (keyFor project name) project name"

section \<open>Nodes, users and tokens\<close>

definition PutNode where
  "PutNode B uid t0 t1 n =
  putScoped B nodeT ''nodes'' KindNode uid t0 t1 (setProject nodeT ''system'' n)"
definition GetNode where
  "GetNode B nid = store_get B (unmarshal nodeT) ''nodes'' (''system/'' @ nid)"
definition ListNodes where
  "ListNodes B = listScoped B nodeT ''nodes'' []"
definition DeleteNode where
  "DeleteNode B nid = delScoped B ''nodes'' KindNode (''system/'' @ nid) [] nid"

definition PutUser where
  "PutUser B uid t0 t1 u =
  putScoped B userT ''users'' KindUser uid t0 t1 (setProject userT ''system'' u)"
definition GetUser where
  "GetUser B name = store_get B (unmarshal userT) ''users'' (''system/'' @ name)"

definition GetUserByEmail :: "'db bolt \<Rightarrow> string \<Rightarrow> 'db store \<Rightarrow> error + user" where
  "GetUserByEmail B email s =
     (case store_list B ''users'' [] s of Inl e \<Rightarrow> Inl e
      | Inr raws \<Rightarrow>
          (case find (\<lambda>u. ToLower (u_Email u) = ToLower email)
                  (List.map_filter (unmarshal userT) raws) of
             None \<Rightarrow> Inl ErrNotFound | Some u \<Rightarrow> Inr u))"

definition ListUsers :: "'db bolt \<Rightarrow> 'db store \<Rightarrow> error + user list" where
  "ListUsers B s =
     (case listScoped B userT ''users'' [] s of Inl e \<Rightarrow> Inl e
      | Inr us \<Rightarrow> Inr (map (\<lambda>u. u\<lparr>u_PasswordHash := []\<rparr>) us))"

definition DeleteUser where
  "DeleteUser B name = delScoped B ''users'' KindUser (''system/'' @ name) [] name"

definition PutToken ::
  "'db bolt \<Rightarrow> string \<Rightarrow> time \<Rightarrow> time \<Rightarrow> token \<Rightarrow> 'db store \<Rightarrow> token \<times> 'db store \<times> error option"
where
  "PutToken B uid t0 t1 t s =
     (let t = setProject tokenT ''system'' t; stored = t\<lparr>t_Plaintext := []\<rparr> in
      case putScoped B tokenT ''tokens'' KindToken uid t0 t1 stored s of
        (stored', s', Some e) \<Rightarrow> (t, s', Some e)
      | (stored', s', None) \<Rightarrow> (t\<lparr>t_Meta := t_Meta stored'\<rparr>, s', None))"

definition GetTokenByHash :: "'db bolt \<Rightarrow> string \<Rightarrow> 'db store \<Rightarrow> error + token" where
  "GetTokenByHash B h s =
     (case store_list B ''tokens'' [] s of Inl e \<Rightarrow> Inl e
      | Inr raws \<Rightarrow>
          (case find (\<lambda>t. t_HashHex t = h) (List.map_filter (unmarshal tokenT) raws) of
             None \<Rightarrow> Inl ErrNotFound | Some t \<Rightarrow> Inr t))"

definition ListTokens :: "'db bolt \<Rightarrow> 'db store \<Rightarrow> error + token list" where
  "ListTokens B s =
     (case listScoped B tokenT ''tokens'' [] s of Inl e \<Rightarrow> Inl e
      | Inr ts \<Rightarrow> Inr (map (\<lambda>t. t\<lparr>t_HashHex := [], t_Plaintext := []\<rparr>) ts))"

definition DeleteToken where
  "DeleteToken B name = delScoped B ''tokens'' KindToken (''system/'' @ name) [] name"

section \<open>Cluster configuration\<close>

definition GetCluster :: "'db bolt \<Rightarrow> 'db store \<Rightarrow> error + cluster_config" where
  "GetCluster B s =
     (case store_get B as_cluster ''cluster'' ''config'' s of
        Inl e \<Rightarrow> (if e = ErrNotFound then Inr (zero_cluster\<lparr>cc_ReplicationFactor := 1\<rparr>) else Inl e)
      | Inr c \<Rightarrow> Inr c)"

definition PutCluster ::
  "'db bolt \<Rightarrow> time \<Rightarrow> cluster_config \<Rightarrow> 'db store \<Rightarrow> cluster_config \<times> 'db store \<times> error option"
where
  "PutCluster B now c s =
     (let c1 = (if isZero (cc_CreatedAt c) then c\<lparr>cc_CreatedAt := now\<rparr> else c);
          c2 = c1\<lparr>cc_UpdatedAt := now\<rparr>
      in case store_put B ''cluster'' ''config'' (DCluster c2) s of
           (s', Some e) \<Rightarrow> (c2, s', Some e)
         | (s', None) \<Rightarrow>
             (c2, emit \<lparr>e_Kind = KindCluster, e_Op = ''put'', e_Project = [],
                        e_Name = ''config'', e_Value = Some (DCluster c2)\<rparr> s', None))"

section \<open>Secrets, event rules and builds\<close>

definition PutSecret where
  "PutSecret B = putScoped B secretT ''secrets'' KindSecret"
definition GetSecret where
  "GetSecret B project name = store_get B (unmarshal secretT) ''secrets'' (keyFor project name)"

definition ListSecrets :: "'db bolt \<Rightarrow> string \<Rightarrow> 'db store \<Rightarrow> error + secret list" where
  "ListSecrets B project s =
     (case listScoped B secretT ''secrets'' project s of Inl e \<Rightarrow> Inl e
      | Inr xs \<Rightarrow> Inr (map (\<lambda>x. x\<lparr>s_Nonce := [], s_Ciphertext := []\<rparr>) xs))"

definition DeleteSecret where
  "DeleteSecret B project name =
  delScoped B ''secrets'' KindSecret (keyFor project name) project name"

definition strip_webhook_secret :: "event_rule \<Rightarrow> event_rule" where
  "strip_webhook_secret r =
     (case ea_Webhook (er_Action r) of None \<Rightarrow> r
      | Some w \<Rightarrow> r\<lparr>er_Action := (er_Action r)\<lparr>ea_Webhook := Some (w\<lparr>wa_Secret := []\<rparr>)\<rparr>\<rparr>)"

definition PutEventRule where
  "PutEventRule B = putScoped B eventRuleT ''eventrules'' KindEventRule"
definition GetEventRule where
  "GetEventRule B project name =
  store_get B (unmarshal eventRuleT) ''eventrules'' (keyFor project name)"

definition ListEventRules :: "'db bolt \<Rightarrow> string \<Rightarrow> 'db store \<Rightarrow> error + event_rule list" where
  "ListEventRules B project s =
     (case listScoped B eventRuleT ''eventrules'' project s of Inl e \<Rightarrow> Inl e
      | Inr rs \<Rightarrow> Inr (map strip_webhook_secret rs))"

definition ListAllEventRules where
  "ListAllEventRules B = listScoped B eventRuleT ''eventrules'' []"
definition DeleteEventRule where
  "DeleteEventRule B project name =
  delScoped B ''eventrules'' KindEventRule (keyFor project name) project name"

definition PutBuild where
  "PutBuild B = putScoped B buildT ''builds'' KindBuild"
definition GetBuild where
  "GetBuild B project name = store_get B (unmarshal buildT) ''builds'' (keyFor project name)"

definition ListBuilds :: "'db bolt \<Rightarrow> string \<Rightarrow> string \<Rightarrow> 'db store \<Rightarrow> error + build list" where
  "ListBuilds B project fn s =
     (case store_list B ''builds'' (project @ ''/'') s of Inl e \<Rightarrow> Inl e
      | Inr raws \<Rightarrow> Inr (reverse_in_place
          (filter (\<lambda>b. bd_FunctionRef b = fn) (List.map_filter (unmarshal buildT) raws))))"

definition DeleteBuild where
  "DeleteBuild B project name =
  delScoped B ''builds'' KindBuild (keyFor project name) project name"

section \<open>Event log and webhook deliveries\<close>

text \<open>\<open>fmt\<close> is \<^verbatim>\<open>rec.At.UTC().Format(time.RFC3339Nano)\<close>.\<close>

definition AppendEvent ::
  "'db bolt \<Rightarrow> (time \<Rightarrow> string) \<Rightarrow> string \<Rightarrow> time \<Rightarrow> event_record \<Rightarrow> 'db store
   \<Rightarrow> event_record \<times> 'db store \<times> error option" where
  "AppendEvent B fmt uid now r s =
     (let r = (if ev_UID r = [] then r\<lparr>ev_UID := uid\<rparr> else r);
          r = (if isZero (ev_At r) then r\<lparr>ev_At := now\<rparr> else r);
          project = (if ev_Project r = [] then ''default'' else ev_Project r);
          key = project @ ''/'' @ fmt (ev_At r) @ ''-'' @ ev_UID r
      in case store_put B ''eventlog'' key (DEventRecord r) s of (s', err) \<Rightarrow> (r, s', err))"

definition ListEvents :: "'db bolt \<Rightarrow> string \<Rightarrow> int \<Rightarrow> 'db store \<Rightarrow> error + event_record list" where
  "ListEvents B project limit s =
     (let limit = (if limit \<le> 0 then 100 else limit) in
      case store_list B ''eventlog'' (project @ ''/'') s of Inl e \<Rightarrow> Inl e
      | Inr raws \<Rightarrow>
          (let out = reverse_in_place (List.map_filter as_event_record raws)
           in Inr (if int (length out) > limit then take (nat limit) out else out)))"

text \<open>
  \<^verbatim>\<open>TrimEvents\<close> deletes the entry under the cursor and then calls \<^verbatim>\<open>c.Next()\<close>. What
  \<^verbatim>\<open>Next\<close> yields after a deletion is not documented by the database, so it is the parameter
  \<open>nxt db k\<close>: the key the cursor yields once \<open>k\<close> has been deleted.
\<close>

fun trim_loop ::
  "'db bolt \<Rightarrow> ('db \<Rightarrow> string \<Rightarrow> string option) \<Rightarrow> string \<Rightarrow> nat \<Rightarrow> string option \<Rightarrow> 'db \<Rightarrow> error + 'db"
where
  "trim_loop B nxt p 0 k db = Inr db"
| "trim_loop B nxt p (Suc i) None db = Inr db"
| "trim_loop B nxt p (Suc i) (Some k) db =
     (if \<not> hasPrefix k p then Inr db
      else case bdelete B db ''eventlog'' k of
             Inl e \<Rightarrow> Inl (bolt_err e)
           | Inr db' \<Rightarrow> trim_loop B nxt p i (nxt db' k) db')"

definition first_key :: "(string \<times> doc) list \<Rightarrow> string option" where
  "first_key es = (case es of [] \<Rightarrow> None | e # _ \<Rightarrow> Some (fst e))"

definition TrimEvents ::
  "'db bolt \<Rightarrow> ('db \<Rightarrow> string \<Rightarrow> string option) \<Rightarrow> string \<Rightarrow> int \<Rightarrow> 'db store \<Rightarrow> 'db store \<times> error option"
where
  "TrimEvents B nxt project keep s =
     (let keep = (if keep \<le> 0 then 10000 else keep); p = project @ ''/'' in
      case store_list B ''eventlog'' p s of
        Inl e \<Rightarrow> (s, Some e)
      | Inr raws \<Rightarrow>
          if int (length raws) \<le> keep then (s, None)
          else case bolt_update B
                 (\<lambda>db. trim_loop B nxt p (length raws - nat keep)
                         (first_key (seek p (bscan B db ''eventlog''))) db) (sdb s) of
                 Inl e \<Rightarrow> (s, Some e) | Inr db' \<Rightarrow> (s\<lparr>sdb := db'\<rparr>, None))"

definition PutDelivery where
  "PutDelivery B = putScoped B deliveryT ''deliveries'' KindEventRule"

definition ListDeliveries ::
  "'db bolt \<Rightarrow> string \<Rightarrow> string \<Rightarrow> 'db store \<Rightarrow> error + webhook_delivery list" where
  "ListDeliveries B project rule s =
     (case store_list B ''deliveries'' (project @ ''/'') s of Inl e \<Rightarrow> Inl e
      | Inr raws \<Rightarrow>
          (let out = reverse_in_place (filter (\<lambda>d. rule = [] \<or> d_Rule d = rule)
                       (List.map_filter (unmarshal deliveryT) raws))
           in Inr (if length out > 200 then take 200 out else out)))"

end
