(* ===== verification/Store_Laws.thy ===== *)
theory Store_Laws
  imports Store
begin

text \<open>
  What the store promises. The locale \<open>kv_store\<close> is the contract between the internal
  helpers \<^verbatim>\<open>put\<close>, \<^verbatim>\<open>get\<close>, \<^verbatim>\<open>del\<close>, \<^verbatim>\<open>list\<close> and the typed operations above them; it is
  discharged for the model's helpers over any lawful engine (\<open>sublocale\<close>) and for the
  in-memory engine. The locale \<open>scoped_table\<close> collects what a typed table built from
  \<^verbatim>\<open>putScoped\<close> gives its clients. The last sections prove the store-wide invariants.
\<close>

section \<open>Keys and prefixes\<close>

lemma hasPrefix_iff: "hasPrefix b p \<longleftrightarrow> HasPrefix b p"
proof
  assume "hasPrefix b p"
  then have l: "length p \<le> length b" and i: "\<forall>i < length p. b ! i = p ! i"
    by (auto simp: hasPrefix_def split: if_splits)
  then show "HasPrefix b p" unfolding HasPrefix_def by (auto intro!: nth_equalityI)
next
  assume "HasPrefix b p"
  then show "hasPrefix b p" by (auto simp: HasPrefix_iff hasPrefix_def nth_append)
qed

lemma keyFor_inject:
  assumes "CHR ''/'' \<notin> set p" "CHR ''/'' \<notin> set p'" "p \<noteq> []" "p' \<noteq> []"
  shows "keyFor p n = keyFor p' n' \<longleftrightarrow> p = p' \<and> n = n'"
  using assms append_sep_inject [of p "CHR ''/''" n p' n'] by (auto simp: keyFor_def)

lemma keyFor_prefix:
  assumes "CHR ''/'' \<notin> set p" "CHR ''/'' \<notin> set q" "p \<noteq> []"
  shows "HasPrefix (keyFor p n) (q @ ''/'') \<longleftrightarrow> p = q"
  using assms HasPrefix_sep [of "CHR ''/''" p q n] by (simp add: keyFor_def)

text \<open>
  Seeking to a prefix and reading while the prefix holds visits exactly the entries with
  the prefix, because the keys are sorted: keys with a common prefix are adjacent.
\<close>

lemma HasPrefix_le: "HasPrefix k p \<Longrightarrow> p \<le> k"
proof -
  assume "HasPrefix k p"
  then obtain r where "k = p @ r" by (auto simp: HasPrefix_iff)
  moreover have "p \<le> p @ r" by (induction p) auto
  ultimately show ?thesis by simp
qed

lemma prefix_convex: "p \<le> k \<Longrightarrow> k \<le> k' \<Longrightarrow> HasPrefix k' p \<Longrightarrow> HasPrefix k p"
proof (induction p arbitrary: k k')
  case Nil
  then show ?case by simp
next
  case (Cons c p)
  then obtain r where k': "k' = c # p @ r" by (auto simp: HasPrefix_iff)
  with Cons.prems obtain d ks where k: "k = d # ks" by (cases k) auto
  from Cons.prems k k' have dc: "d = c" by (auto simp: less_le)
  with Cons.prems k k' have "p \<le> ks" "ks \<le> p @ r" by auto
  then have "HasPrefix ks p" using Cons.IH by simp
  then show ?case using k dc by (simp add: HasPrefix_def)
qed

lemma takeWhile_filter_sorted:
  assumes "sorted (map fst es)" "\<forall>e \<in> set es. p \<le> fst e"
  shows "takeWhile (\<lambda>e. HasPrefix (fst e) p) es = filter (\<lambda>e. HasPrefix (fst e) p) es"
  using assms
proof (induction es)
  case Nil
  then show ?case by simp
next
  case (Cons e es)
  show ?case
  proof (cases "HasPrefix (fst e) p")
    case True
    then show ?thesis using Cons by simp
  next
    case False
    have "\<not> HasPrefix (fst e') p" if "e' \<in> set es" for e'
      using prefix_convex [of p "fst e" "fst e'"] Cons.prems False that by auto
    then have "filter (\<lambda>e. HasPrefix (fst e) p) es = []" by (simp add: filter_empty_conv)
    then show ?thesis using False by simp
  qed
qed

lemma seek_sorted:
  assumes "sorted (map fst es)"
  shows "seek p es = filter (\<lambda>e. p \<le> fst e) es"
  using assms
proof (induction es)
  case Nil
  then show ?case by (simp add: seek_def)
next
  case (Cons e es)
  show ?case
  proof (cases "fst e < p")
    case True
    then show ?thesis using Cons by (auto simp: seek_def)
  next
    case False
    then have "\<forall>x \<in> set (e # es). p \<le> fst x" using Cons.prems by auto
    then have "filter (\<lambda>x. p \<le> fst x) (e # es) = e # es" by (simp add: filter_id_conv)
    then show ?thesis using False by (simp add: seek_def)
  qed
qed

lemma seek_takeWhile:
  assumes "sorted (map fst es)"
  shows "takeWhile (\<lambda>e. hasPrefix (fst e) p) (seek p es) = filter (\<lambda>e. HasPrefix (fst e) p) es"
proof -
  let ?f = "filter (\<lambda>e. p \<le> fst e) es"
  have "takeWhile (\<lambda>e. hasPrefix (fst e) p) (seek p es) = takeWhile (\<lambda>e. HasPrefix (fst e) p) ?f"
    by (simp add: seek_sorted [OF assms] hasPrefix_iff)
  also have "\<dots> = filter (\<lambda>e. HasPrefix (fst e) p) ?f"
    by (rule takeWhile_filter_sorted) (auto simp: sorted_filter assms)
  also have "\<dots> = filter (\<lambda>e. HasPrefix (fst e) p) es"
    by (auto simp: HasPrefix_le intro: filter_cong)
  finally show ?thesis .
qed

section \<open>The contract of the helpers\<close>

locale kv_store =
  fixes lookup :: "'s \<Rightarrow> string \<Rightarrow> string \<Rightarrow> doc option"
    and has :: "'s \<Rightarrow> string \<Rightarrow> bool"
    and kput :: "string \<Rightarrow> string \<Rightarrow> doc \<Rightarrow> 's \<Rightarrow> 's \<times> error option"
    and kdel :: "string \<Rightarrow> string \<Rightarrow> 's \<Rightarrow> 's \<times> error option"
    and klist :: "string \<Rightarrow> string \<Rightarrow> 's \<Rightarrow> error + doc list"
  assumes lookup_kput: "kput b k d s = (s', None) \<Longrightarrow>
        lookup s' b' k' = (if b' = b \<and> k' = k then Some d else lookup s b' k')"
    and kput_err: "kput b k d s = (s', Some e) \<Longrightarrow> s' = s"
    and kput_has: "kput b k d s = (s', r) \<Longrightarrow> has s' = has s"
    and kput_panic: "\<not> has s b \<Longrightarrow> kput b k d s = (s, Some ErrPanic)"
    and lookup_kdel: "kdel b k s = (s', None) \<Longrightarrow>
        lookup s b k \<noteq> None \<and>
        lookup s' b' k' = (if b' = b \<and> k' = k then None else lookup s b' k')"
    and kdel_err: "kdel b k s = (s', Some e) \<Longrightarrow> s' = s"
    and kdel_has: "kdel b k s = (s', r) \<Longrightarrow> has s' = has s"
    and kdel_missing: "has s b \<Longrightarrow> lookup s b k = None \<Longrightarrow> kdel b k s = (s, Some ErrNotFound)"
    and set_klist: "has s b \<Longrightarrow>
        \<exists>ds. klist b p s = Inr ds \<and> set ds = {d. \<exists>k. HasPrefix k p \<and> lookup s b k = Some d}"
begin

text \<open>An invariant on every stored document is kept by a put of a good document and by deletes.\<close>

definition all_docs :: "(string \<Rightarrow> doc \<Rightarrow> bool) \<Rightarrow> 's \<Rightarrow> bool" where
  "all_docs P s \<longleftrightarrow> (\<forall>b k d. lookup s b k = Some d \<longrightarrow> P b d)"

lemma all_docs_kput:
  assumes "all_docs P s" "P b d" "kput b k d s = (s', r)"
  shows "all_docs P s'"
proof (cases r)
  case None
  with assms show ?thesis by (auto simp: all_docs_def lookup_kput split: if_splits)
next
  case (Some e)
  with assms kput_err show ?thesis by metis
qed

lemma all_docs_kdel:
  assumes "all_docs P s" "kdel b k s = (s', r)"
  shows "all_docs P s'"
proof (cases r)
  case None
  with assms lookup_kdel [of b k s s'] show ?thesis
    by (auto simp: all_docs_def split: if_splits)
next
  case (Some e)
  with assms kdel_err show ?thesis by metis
qed

lemma kput_then_kdel:
  assumes "kput b k d s = (s1, None)" "kdel b k s1 = (s2, None)" "lookup s b k = None"
  shows "lookup s2 = lookup s"
  using lookup_kput [OF assms(1)] lookup_kdel [OF assms(2)] assms(3) by (auto simp: fun_eq_iff)

lemma kput_kput_other:
  assumes "kput b k d s = (s1, None)" "kput b' k' d' s1 = (s2, None)" "(b, k) \<noteq> (b', k')"
  shows "lookup s2 b k = Some d \<and> lookup s2 b' k' = Some d'"
  using lookup_kput [OF assms(1)] lookup_kput [OF assms(2)] assms(3) by auto

end

text \<open>The database seen as a map, and the buckets it has.\<close>

definition entries :: "'db bolt \<Rightarrow> 'db store \<Rightarrow> string \<Rightarrow> string \<Rightarrow> doc option" where
  "entries B s = bget B (sdb s)"

definition has_bucket :: "'db bolt \<Rightarrow> 'db store \<Rightarrow> string \<Rightarrow> bool" where
  "has_bucket B s b \<longleftrightarrow> b \<in> set (bbuckets B (sdb s))"

lemma bolt_update_Inr:
  "bolt_update B f db = Inr db' \<longleftrightarrow> f db = Inr db' \<and> bcommit B db' = None"
  by (auto simp: bolt_update_def split: sum.splits option.splits)

lemma store_put_None:
  "store_put B b k d s = (s', None) \<longleftrightarrow>
     (\<exists>db'. b \<in> set (bbuckets B (sdb s)) \<and> bput B (sdb s) b k d = Inr db' \<and>
            bcommit B db' = None \<and> s' = s\<lparr>sdb := db'\<rparr>)"
  by (auto simp: store_put_def bolt_update_Inr split: sum.splits if_splits)
     (auto simp: bolt_update_def split: sum.splits option.splits)

lemma store_put_Some: "store_put B b k d s = (s', Some e) \<Longrightarrow> s' = s"
  by (auto simp: store_put_def split: sum.splits)

lemma store_del_None:
  "store_del B b k s = (s', None) \<longleftrightarrow>
     (\<exists>db'. b \<in> set (bbuckets B (sdb s)) \<and> bget B (sdb s) b k \<noteq> None \<and>
            bdelete B (sdb s) b k = Inr db' \<and> bcommit B db' = None \<and> s' = s\<lparr>sdb := db'\<rparr>)"
  by (auto simp: store_del_def bolt_update_Inr split: sum.splits if_splits)
     (auto simp: bolt_update_def split: sum.splits option.splits)

lemma store_del_Some: "store_del B b k s = (s', Some e) \<Longrightarrow> s' = s"
  by (auto simp: store_del_def split: sum.splits)

lemma subs_store_put [simp]: "subs (fst (store_put B b k d s)) = subs s"
  by (auto simp: store_put_def split: sum.splits)

lemma subs_store_del [simp]: "subs (fst (store_del B b k s)) = subs s"
  by (auto simp: store_del_def split: sum.splits)

lemma sdb_emit [simp]: "sdb (emit ev s) = sdb s"
  by (simp add: emit_def)

lemma entries_emit [simp]: "entries B (emit ev s) = entries B s"
  by (simp add: entries_def)

lemma has_bucket_emit [simp]: "has_bucket B (emit ev s) = has_bucket B s"
  by (simp add: has_bucket_def fun_eq_iff)

context bolt_engine
begin

lemma store_list_eq:
  assumes "has_bucket B s b"
  shows "store_list B b p s =
    Inr (map snd (filter (\<lambda>e. HasPrefix (fst e) p) (bscan B (sdb s) b)))"
  using assms seek_takeWhile [OF scan_sorted]
  by (simp add: store_list_def has_bucket_def Let_def)

end

sublocale bolt_engine \<subseteq> kv: kv_store "entries B" "has_bucket B" "store_put B" "store_del B" "store_list B"
proof (unfold_locales, goal_cases)
  case 1 then show ?case by (auto simp: store_put_None entries_def get_put)
next
  case 2 then show ?case by (rule store_put_Some)
next
  case (3 b k d s s' r) then show ?case
    by (cases r) (auto simp: store_put_None has_bucket_def fun_eq_iff buckets_put
        dest: store_put_Some)
next
  case 4 then show ?case by (simp add: store_put_def bolt_update_def has_bucket_def)
next
  case 5 then show ?case by (auto simp: store_del_None entries_def get_delete)
next
  case 6 then show ?case by (rule store_del_Some)
next
  case (7 b k s s' r) then show ?case
    by (cases r) (auto simp: store_del_None has_bucket_def fun_eq_iff buckets_delete
        dest: store_del_Some)
next
  case 8 then show ?case
    by (simp add: store_del_def bolt_update_def has_bucket_def entries_def)
next
  case (9 s b p) then show ?case
    using scan_iff [of b "sdb s"]
    by (auto simp: store_list_eq has_bucket_def entries_def image_iff)
qed

interpretation mem_kv: kv_store "entries mem_bolt" "has_bucket mem_bolt"
  "store_put mem_bolt" "store_del mem_bolt" "store_list mem_bolt"
  by (rule mem.kv.kv_store_axioms)

section \<open>Well-formedness\<close>

text \<open>
  Every root bucket exists, so no operation panics on a nil bucket; no subscriber channel
  holds more than its capacity; every bucket holds documents of its own type only.
\<close>

definition store_wf :: "'db bolt \<Rightarrow> 'db store \<Rightarrow> bool" where
  "store_wf B s \<longleftrightarrow> (\<forall>b \<in> set rootBuckets. has_bucket B s b) \<and>
     (\<forall>ch \<in> set (subs s). length ch \<le> subCap) \<and>
     (\<forall>b k d. entries B s b k = Some d \<longrightarrow> typed_doc b d)"

lemma store_wf_bucket: "store_wf B s \<Longrightarrow> b \<in> set rootBuckets \<Longrightarrow> has_bucket B s b"
  by (simp add: store_wf_def)

lemma wf_emit [wf_intros]: "store_wf B s \<Longrightarrow> store_wf B (emit ev s)"
  by (auto simp: store_wf_def) (auto simp: emit_def try_send_length)

lemma wf_Subscribe [wf_intros]: "store_wf B s \<Longrightarrow> store_wf B (snd (Subscribe s))"
  by (auto simp: store_wf_def Subscribe_def has_bucket_def entries_def)

lemma wf_Close [wf_intros]: "store_wf B s \<Longrightarrow> store_wf B (Close s)"
  by (auto simp: store_wf_def Close_def has_bucket_def entries_def)

context bolt_engine
begin

lemma wf_store_put [wf_intros]:
  assumes "store_wf B s" "typed_doc b d"
  shows "store_wf B (fst (store_put B b k d s))"
proof -
  obtain s' r where p: "store_put B b k d s = (s', r)" by fastforce
  have "kv.all_docs typed_doc s'"
    using kv.all_docs_kput [where P = typed_doc, OF _ assms(2) p] assms(1) by (auto simp: store_wf_def kv.all_docs_def)
  moreover have "subs s' = subs s" using subs_store_put [of B b k d s] p by simp
  ultimately show ?thesis
    using assms(1) kv.kput_has [OF p] p by (auto simp: store_wf_def kv.all_docs_def)
qed

lemma wf_store_del [wf_intros]:
  assumes "store_wf B s"
  shows "store_wf B (fst (store_del B b k s))"
proof -
  obtain s' r where p: "store_del B b k s = (s', r)" by fastforce
  have "kv.all_docs typed_doc s'"
    using kv.all_docs_kdel [where P = typed_doc, OF _ p] assms by (auto simp: store_wf_def kv.all_docs_def)
  moreover have "subs s' = subs s" using subs_store_del [of B b k s] p by simp
  ultimately show ?thesis
    using assms kv.kdel_has [OF p] p by (auto simp: store_wf_def kv.all_docs_def)
qed

lemma open_buckets_Inr:
  assumes "open_buckets B bs db = Inr db'"
  shows "set (bbuckets B db') = set bs \<union> set (bbuckets B db) \<and>
    (\<forall>b k. bget B db' b k = (if b \<in> set (bbuckets B db) \<or> b \<notin> set bs then bget B db b k else None))"
  using assms
proof (induction bs arbitrary: db)
  case Nil
  then show ?case by simp
next
  case (Cons x bs)
  then obtain db1 where e: "bensure B db x = Inr db1" and o: "open_buckets B bs db1 = Inr db'"
    by (auto split: sum.splits)
  show ?case using Cons.IH [OF o] buckets_ensure [OF e] get_ensure [OF e] by auto
qed

text \<open>Opening a database whose buckets are typed (a fresh one in particular).\<close>

lemma wf_Open:
  assumes "Open B db = Inr s"
    and "\<And>b k d. bget B db b k = Some d \<Longrightarrow> typed_doc b d"
  shows "store_wf B s"
proof -
  from assms(1) obtain db' where o: "open_buckets B rootBuckets db = Inr db'"
    and s: "s = \<lparr>sdb = db', subs = []\<rparr>"
    by (auto simp: Open_def bolt_update_Inr split: sum.splits)
  show ?thesis
    using open_buckets_Inr [OF o] assms(2)
    by (auto simp: store_wf_def s has_bucket_def entries_def split: if_splits)
qed

end

section \<open>Typed tables\<close>

text \<open>
  A table of the store: a lawful engine, a persisted type and the bucket it lives in.
  \<open>put_meta\<close> is the metadata \<^verbatim>\<open>putScoped\<close> writes.
\<close>

definition put_meta :: "string \<Rightarrow> time \<Rightarrow> time \<Rightarrow> meta \<Rightarrow> meta" where
  "put_meta uid t0 t1 m =
     mint uid t0 t1 (if m_Project m = [] then m\<lparr>m_Project := ''default''\<rparr> else m)"

lemma mint_sel [simp]:
  "m_Project (mint uid t0 t1 m) = m_Project m" "m_Name (mint uid t0 t1 m) = m_Name m"
  "m_UID (mint uid t0 t1 m) = (if m_UID m = [] then uid else m_UID m)"
  "m_CreatedAt (mint uid t0 t1 m) = (if m_UID m = [] then t0 else m_CreatedAt m)"
  "m_UpdatedAt (mint uid t0 t1 m) = t1" "m_Generation (mint uid t0 t1 m) = m_Generation m + 1"
  "m_Labels (mint uid t0 t1 m) = m_Labels m"
  by (simp_all add: mint_def Let_def)

lemma put_meta_sel [simp]:
  "m_Project (put_meta uid t0 t1 m) = (if m_Project m = [] then ''default'' else m_Project m)"
  "m_Name (put_meta uid t0 t1 m) = m_Name m"
  "m_UID (put_meta uid t0 t1 m) = (if m_UID m = [] then uid else m_UID m)"
  "m_CreatedAt (put_meta uid t0 t1 m) = (if m_UID m = [] then t0 else m_CreatedAt m)"
  "m_UpdatedAt (put_meta uid t0 t1 m) = t1" "m_Generation (put_meta uid t0 t1 m) = m_Generation m + 1"
  by (simp_all add: put_meta_def)

definition scoped_key :: "meta \<Rightarrow> string" where
  "scoped_key m = keyFor (m_Project m) (m_Name m)"

lemma store_get_Inr:
  "store_get B dec b k s = Inr v \<longleftrightarrow>
     has_bucket B s b \<and> (\<exists>d. entries B s b k = Some d \<and> dec d = Some v)"
  by (auto simp: store_get_def has_bucket_def entries_def split: option.splits)

lemma store_get_NotFound:
  "has_bucket B s b \<Longrightarrow> store_get B dec b k s = Inl ErrNotFound \<longleftrightarrow> entries B s b k = None"
  by (auto simp: store_get_def has_bucket_def entries_def split: option.splits)

lemma putScoped_None:
  "putScoped B T b kind uid t0 t1 v s = (v', s', None) \<longleftrightarrow>
     (let m = put_meta uid t0 t1 (getMeta T v) in
      m_Name m \<noteq> [] \<and> v' = setMeta T m v \<and>
      (\<exists>s1. store_put B b (scoped_key m) (marshal T v') s = (s1, None) \<and>
            s' = emit \<lparr>e_Kind = kind, e_Op = ''put'', e_Project = m_Project m,
                       e_Name = m_Name m, e_Value = Some (marshal T v')\<rparr> s1))"
  by (auto simp: putScoped_def put_meta_def scoped_key_def Let_def split: prod.splits option.splits)

lemma putScoped_Some:
  "putScoped B T b kind uid t0 t1 v s = (v', s', Some e) \<Longrightarrow> s' = s"
  by (auto simp: putScoped_def Let_def split: prod.splits option.splits if_splits
      dest: store_put_Some)

lemma delScoped_None:
  "delScoped B b kind k project name s = (s', None) \<longleftrightarrow>
     (\<exists>s1. store_del B b k s = (s1, None) \<and>
        s' = emit \<lparr>e_Kind = kind, e_Op = ''delete'', e_Project = project, e_Name = name,
                   e_Value = None\<rparr> s1)"
  by (auto simp: delScoped_def split: prod.splits option.splits)

lemma delScoped_Some: "delScoped B b kind k project name s = (s', Some e) \<Longrightarrow> s' = s"
  by (auto simp: delScoped_def split: prod.splits option.splits dest: store_del_Some)

locale scoped_table = bolt_engine B + scoped_type T
  for B :: "'db bolt" and T :: "'v scoped" +
  fixes bkt :: string and kind :: string
  assumes bkt_root: "bkt \<in> set rootBuckets"
    and bkt_typed: "typed_doc bkt (marshal T v)"
begin

lemma entries_putScoped:
  assumes "putScoped B T bkt kind uid t0 t1 v s = (v', s', None)"
  shows "entries B s' b k =
    (if b = bkt \<and> k = scoped_key (getMeta T v') then Some (marshal T v') else entries B s b k)"
  using assms by (auto simp: putScoped_None Let_def kv.lookup_kput)

lemma getMeta_putScoped:
  assumes "putScoped B T bkt kind uid t0 t1 v s = (v', s', None)"
  shows "getMeta T v' = put_meta uid t0 t1 (getMeta T v)" "v' = setMeta T (getMeta T v') v"
  using assms by (auto simp: putScoped_None Let_def)

lemma get_after_put:
  assumes "putScoped B T bkt kind uid t0 t1 v s = (v', s', None)"
  shows "store_get B (unmarshal T) bkt (scoped_key (getMeta T v')) s' = Inr v'"
proof -
  from assms obtain s1 where p: "store_put B bkt (scoped_key (getMeta T v')) (marshal T v') s = (s1, None)"
    and s': "has_bucket B s' = has_bucket B s1"
    by (auto simp: putScoped_None Let_def)
  have "has_bucket B s1 bkt"
    using p kv.kput_has [OF p] by (auto simp: store_put_None has_bucket_def)
  then show ?thesis using s' entries_putScoped [OF assms] by (simp add: store_get_Inr)
qed

lemma has_bucket_putScoped:
  "putScoped B T bkt kind uid t0 t1 v s = (v', s', r) \<Longrightarrow> has_bucket B s' = has_bucket B s"
  by (cases r) (auto simp: putScoped_None Let_def dest: putScoped_Some kv.kput_has)

lemma get_put_other:
  assumes "putScoped B T bkt kind uid t0 t1 v s = (v', s', None)"
    and "(b, k) \<noteq> (bkt, scoped_key (getMeta T v'))"
  shows "store_get B dec b k s' = store_get B dec b k s"
proof -
  have "entries B s' b k = entries B s b k"
    using entries_putScoped [OF assms(1), of b k] assms(2) by auto
  moreover have "has_bucket B s' = has_bucket B s" by (rule has_bucket_putScoped [OF assms(1)])
  ultimately show ?thesis by (simp add: store_get_def entries_def has_bucket_def fun_eq_iff)
qed

lemma wf_putScoped [wf_intros]:
  assumes "store_wf B s" "putScoped B T bkt kind uid t0 t1 v s = (v', s', r)"
  shows "store_wf B s'"
proof (cases r)
  case None
  with assms(2) obtain s1 k where "store_put B bkt k (marshal T v') s = (s1, None)"
    and "\<exists>ev. s' = emit ev s1"
    by (auto simp: putScoped_None Let_def)
  then show ?thesis using wf_store_put [OF assms(1) bkt_typed, of k v'] wf_emit by fastforce
next
  case (Some e)
  then show ?thesis using assms putScoped_Some by metis
qed

text \<open>
  A list of a project returns exactly the values stored under a key of the project.
\<close>

lemma set_listScoped:
  assumes "has_bucket B s bkt"
  shows "\<exists>vs. listScoped B T bkt project s = Inr vs \<and>
    set vs = {v. \<exists>k. (project = [] \<or> HasPrefix k (project @ ''/'')) \<and>
                    entries B s bkt k = Some (marshal T v)}"
proof -
  let ?p = "if project \<noteq> [] then project @ ''/'' else []"
  obtain ds where ds: "store_list B bkt ?p s = Inr ds"
    "set ds = {d. \<exists>k. HasPrefix k ?p \<and> entries B s bkt k = Some d}"
    using kv.set_klist [OF assms] by blast
  have "set (List.map_filter (unmarshal T) ds) = {v. \<exists>d \<in> set ds. unmarshal T d = Some v}"
    by (auto simp: map_filter_def image_iff) (metis option.sel)
  then show ?thesis using ds by (auto simp: listScoped_def unmarshal_iff)
qed

lemma wf_delScoped:
  assumes "store_wf B s" "delScoped B bkt kind k project name s = (s', r)"
  shows "store_wf B s'"
proof (cases r)
  case None
  with assms(2) obtain s1 ev where "store_del B bkt k s = (s1, None)" "s' = emit ev s1"
    by (auto simp: delScoped_None)
  then show ?thesis using wf_store_del [OF assms(1), of bkt k] wf_emit by fastforce
next
  case (Some e)
  then show ?thesis using assms delScoped_Some by metis
qed

lemma get_after_delete:
  assumes "delScoped B bkt kind k project name s = (s', None)"
  shows "store_get B dec bkt k s' = Inl ErrNotFound"
proof -
  from assms obtain s1 where d: "store_del B bkt k s = (s1, None)"
    and e: "entries B s' = entries B s1" "has_bucket B s' = has_bucket B s1"
    by (auto simp: delScoped_None)
  have "has_bucket B s1 bkt"
    using d kv.kdel_has [OF d] by (auto simp: store_del_None has_bucket_def)
  then show ?thesis using e kv.lookup_kdel [OF d] by (simp add: store_get_NotFound)
qed

end

text \<open>The tables of the store, over any lawful engine.\<close>

lemma scoped_table_intro:
  assumes "bolt_engine B" "scoped_type T" "bkt \<in> set rootBuckets"
    and "\<And>v. typed_doc bkt (marshal T v)"
  shows "scoped_table B T bkt"
  using assms by (simp add: scoped_table_def scoped_table_axioms_def)

lemma tables:
  assumes "bolt_engine B"
  shows "scoped_table B containerT ''containers''" "scoped_table B functionT ''functions''"
    "scoped_table B bucketT ''buckets''" "scoped_table B accessKeyT ''accesskeys''"
    "scoped_table B nodeT ''nodes''" "scoped_table B userT ''users''"
    "scoped_table B tokenT ''tokens''" "scoped_table B secretT ''secrets''"
    "scoped_table B eventRuleT ''eventrules''" "scoped_table B buildT ''builds''"
    "scoped_table B deliveryT ''deliveries''"
  by (rule scoped_table_intro [OF assms]; (unfold_locales; fail)?;
      simp add: rootBuckets_def typed_doc_def codec_defs)+

interpretation mem_containers: scoped_table mem_bolt containerT "''containers''" KindContainer
  by (rule tables(1)) unfold_locales

interpretation mem_tokens: scoped_table mem_bolt tokenT "''tokens''" KindToken
  by (rule tables(7)) unfold_locales

interpretation mem_secrets: scoped_table mem_bolt secretT "''secrets''" KindSecret
  by (rule tables(8)) unfold_locales

end
