(* ===== verification/Replication.thy ===== *)
theory Replication
  imports Store
begin

text \<open>
  Replication, \<^verbatim>\<open>internal/store/fsm.go\<close>, \<^verbatim>\<open>snapshot.go\<close>, \<^verbatim>\<open>raft.go\<close> and
  \<^verbatim>\<open>replicated_store.go\<close>: the state machine that applies committed log entries to the store,
  its snapshots, and the write wrapper that sends a mutation through Raft when the cluster has
  more than one voter.

  \<^verbatim>\<open>hashicorp/raft\<close> is not part of the repository: what one call observes of it (whether this
  node is the leader when asked, the membership, the outcome of the apply future) is the
  argument \<open>raft_env\<close>. A future without error means, as documented, that the entry was
  committed and applied by the local state machine, whose result is the future's response; an
  entry whose future failed may still be applied later, which is a step of its own.
  A snapshot is \<^verbatim>\<open>encoding/gob\<close> of a map of maps; it is represented by the map, as an
  association list whose order stands for Go's iteration order.
\<close>

section \<open>The state machine\<close>

record log_op =
  lo_Op :: string
  lo_Bucket :: string
  lo_Kind :: string
  lo_Project :: string
  lo_Name :: string
  lo_Key :: string
  lo_Value :: "doc option"

text \<open>\<^verbatim>\<open>json.Unmarshal\<close> into the struct of a kind, then boxed again as the event's value.\<close>

definition decodeKind :: "string \<Rightarrow> doc option \<Rightarrow> error + doc" where
  "decodeKind k raw =
     (case raw of None \<Rightarrow> Inl (Err ''unexpected end of JSON input'')
      | Some d \<Rightarrow>
        (let as = (\<lambda>ok. if ok then Inr d else Inl (Err ''json: cannot unmarshal'')) in
         if k = KindProject then as (unmarshal projectT d \<noteq> None)
         else if k = KindContainer then as (unmarshal containerT d \<noteq> None)
         else if k = KindFunction then as (unmarshal functionT d \<noteq> None)
         else if k = KindBucket then as (unmarshal bucketT d \<noteq> None)
         else if k = KindAccessKey then as (unmarshal accessKeyT d \<noteq> None)
         else if k = KindSecret then as (unmarshal secretT d \<noteq> None)
         else if k = KindEventRule then as (unmarshal eventRuleT d \<noteq> None)
         else if k = KindCluster then as (as_cluster d \<noteq> None)
         else if k = KindNode then as (unmarshal nodeT d \<noteq> None)
         else if k = KindUser then as (unmarshal userT d \<noteq> None)
         else if k = KindToken then as (unmarshal tokenT d \<noteq> None)
         else if k = KindBuild then as (unmarshal buildT d \<noteq> None)
         else Inl (Err (''unknown kind '' @ k))))"

definition fsm_apply :: "'db bolt \<Rightarrow> log_op \<Rightarrow> 'db store \<Rightarrow> 'db store \<times> error option" where
  "fsm_apply B op s =
     (if lo_Op op = ''put'' then
        (let raw = (case lo_Value op of None \<Rightarrow> DRaw ''null'' | Some d \<Rightarrow> d) in
         case store_put B (lo_Bucket op) (lo_Key op) raw s of
           (s', Some e) \<Rightarrow> (s', Some e)
         | (s', None) \<Rightarrow>
             (let typed = (if lo_Kind op \<noteq> []
                           then (case decodeKind (lo_Kind op) (lo_Value op) of
                                   Inr v \<Rightarrow> Some v | Inl _ \<Rightarrow> None)
                           else None)
              in (emit \<lparr>e_Kind = lo_Kind op, e_Op = ''put'', e_Project = lo_Project op,
                        e_Name = lo_Name op, e_Value = typed\<rparr> s', None)))
      else if lo_Op op = ''delete'' then
        (case store_del B (lo_Bucket op) (lo_Key op) s of
           (s', Some e) \<Rightarrow> (s', Some e)
         | (s', None) \<Rightarrow>
             (emit \<lparr>e_Kind = lo_Kind op, e_Op = ''delete'', e_Project = lo_Project op,
                    e_Name = lo_Name op, e_Value = None\<rparr> s', None))
      else (s, Some (Err (''unknown op '' @ lo_Op op))))"

text \<open>\<open>None\<close> is a log entry whose bytes do not decode to a \<^verbatim>\<open>LogOp\<close>.\<close>

definition fsm_Apply :: "'db bolt \<Rightarrow> log_op option \<Rightarrow> 'db store \<Rightarrow> 'db store \<times> error option" where
  "fsm_Apply B data s =
     (case data of None \<Rightarrow> (s, Some (Err ''decode log'')) | Some op \<Rightarrow> fsm_apply B op s)"

text \<open>A replica applies the committed log in order.\<close>

fun fsm_run :: "'db bolt \<Rightarrow> log_op option list \<Rightarrow> 'db store \<Rightarrow> 'db store \<times> error option list" where
  "fsm_run B [] s = (s, [])"
| "fsm_run B (l # ls) s =
     (case fsm_Apply B l s of (s1, r) \<Rightarrow> (case fsm_run B ls s1 of (s2, rs) \<Rightarrow> (s2, r # rs)))"

section \<open>Snapshots\<close>

type_synonym snapshot_data = "(string \<times> (string \<times> doc) list) list"

definition dumpBolt :: "'db bolt \<Rightarrow> 'db store \<Rightarrow> snapshot_data" where
  "dumpBolt B s = map (\<lambda>b. (b, bscan B (sdb s) b)) (bbuckets B (sdb s))"

fun restore_keys :: "'db bolt \<Rightarrow> string \<Rightarrow> (string \<times> doc) list \<Rightarrow> 'db \<Rightarrow> error + 'db" where
  "restore_keys B b [] db = Inr db"
| "restore_keys B b ((k, v) # kvs) db =
     (case bput B db b k v of Inl e \<Rightarrow> Inl (bolt_err e) | Inr db' \<Rightarrow> restore_keys B b kvs db')"

fun restore_buckets :: "'db bolt \<Rightarrow> snapshot_data \<Rightarrow> 'db \<Rightarrow> error + 'db" where
  "restore_buckets B [] db = Inr db"
| "restore_buckets B ((b, kvs) # rest) db =
     (case (case bdrop B db b of Inr db1 \<Rightarrow> Inr db1
            | Inl e \<Rightarrow> if e = BucketNotFound then Inr db else Inl (bolt_err e)) of
        Inl e \<Rightarrow> Inl e
      | Inr db1 \<Rightarrow>
          (case bcreate B db1 b of Inl e \<Rightarrow> Inl (bolt_err e)
           | Inr db2 \<Rightarrow>
               (case restore_keys B b kvs db2 of Inl e \<Rightarrow> Inl e
                | Inr db3 \<Rightarrow> restore_buckets B rest db3)))"

text \<open>\<open>None\<close> is a stream that \<^verbatim>\<open>gob\<close> cannot decode.\<close>

definition restoreBolt ::
  "'db bolt \<Rightarrow> snapshot_data option \<Rightarrow> 'db store \<Rightarrow> 'db store \<times> error option" where
  "restoreBolt B data s =
     (case data of None \<Rightarrow> (s, Some (Err ''decode snapshot''))
      | Some snap \<Rightarrow>
          (case bolt_update B (restore_buckets B snap) (sdb s) of
             Inl e \<Rightarrow> (s, Some e) | Inr db' \<Rightarrow> (s\<lparr>sdb := db'\<rparr>, None)))"

section \<open>The replicated store\<close>

text \<open>
  What one call sees of Raft: the membership, whether the node is the leader when the wrapper and
  when \<^verbatim>\<open>Apply\<close> asks, and the error of the future. A failed future does not say that the entry is
  lost (leadership may end, or the time may run out, while it is being committed):
  \<open>re_applied\<close> tells whether it was applied here all the same.
\<close>

record raft_env =
  re_present :: bool
  re_servers :: "error + string list"
  re_leader :: bool
  re_leader2 :: bool
  re_future :: "error option"
  re_applied :: bool

definition raft_Apply ::
  "'db bolt \<Rightarrow> raft_env \<Rightarrow> log_op \<Rightarrow> 'db store \<Rightarrow> 'db store \<times> error option" where
  "raft_Apply B env op s =
     (if \<not> re_leader2 env then (s, Some ErrNotLeader)
      else case re_future env of
          Some e \<Rightarrow> (if re_applied env then fst (fsm_Apply B (Some op) s) else s, Some e)
        | None \<Rightarrow> fsm_Apply B (Some op) s)"

definition shouldReplicate :: "raft_env \<Rightarrow> bool" where
  "shouldReplicate env =
     (if \<not> re_present env then False
      else case re_servers env of Inl e \<Rightarrow> False | Inr servers \<Rightarrow> \<not> length servers \<le> 1)"

definition applyTypedPut ::
  "'db bolt \<Rightarrow> raft_env \<Rightarrow> 'v scoped \<Rightarrow> string \<Rightarrow> string \<Rightarrow> string \<Rightarrow> time \<Rightarrow> time \<Rightarrow> 'v \<Rightarrow> 'db store
   \<Rightarrow> 'v \<times> 'db store \<times> error option" where
  "applyTypedPut B env T b kind uid t0 t1 v s =
     (let m = getMeta T v;
          m = (if m_Project m = [] then m\<lparr>m_Project := ''default''\<rparr> else m);
          v = setMeta T m v
      in if m_Name m = [] then (v, s, Some (Err ''name is required''))
         else if \<not> shouldReplicate env then putScoped B T b kind uid t0 t1 v s
         else if \<not> re_leader env then (v, s, Some ErrNotLeader)
         else let m = mint uid t0 t1 m; v = setMeta T m v in
           (case raft_Apply B env \<lparr>lo_Op = ''put'', lo_Bucket = b, lo_Kind = kind,
                    lo_Project = m_Project m, lo_Name = m_Name m,
                    lo_Key = keyFor (m_Project m) (m_Name m),
                    lo_Value = Some (marshal T v)\<rparr> s of
              (s', r) \<Rightarrow> (v, s', r)))"

definition applyTypedDelete ::
  "'db bolt \<Rightarrow> raft_env \<Rightarrow> string \<Rightarrow> string \<Rightarrow> string \<Rightarrow> string \<Rightarrow> 'db store \<Rightarrow> 'db store \<times> error option"
where
  "applyTypedDelete B env b kind project name s =
     (if \<not> shouldReplicate env then localDelete B b kind project name s
      else if \<not> re_leader env then (s, Some ErrNotLeader)
      else raft_Apply B env \<lparr>lo_Op = ''delete'', lo_Bucket = b, lo_Kind = kind,
             lo_Project = project, lo_Name = name, lo_Key = keyFor project name,
             lo_Value = None\<rparr> s)"

definition rs_PutContainer where
  "rs_PutContainer B env = applyTypedPut B env containerT ''containers'' KindContainer"
definition rs_DeleteContainer where
  "rs_DeleteContainer B env = applyTypedDelete B env ''containers'' KindContainer"
definition rs_PutFunction where
  "rs_PutFunction B env = applyTypedPut B env functionT ''functions'' KindFunction"
definition rs_DeleteFunction where
  "rs_DeleteFunction B env = applyTypedDelete B env ''functions'' KindFunction"
definition rs_PutBucket where
  "rs_PutBucket B env = applyTypedPut B env bucketT ''buckets'' KindBucket"
definition rs_DeleteBucket where
  "rs_DeleteBucket B env = applyTypedDelete B env ''buckets'' KindBucket"
definition rs_PutAccessKey where
  "rs_PutAccessKey B env = applyTypedPut B env accessKeyT ''accesskeys'' KindAccessKey"
definition rs_DeleteAccessKey where
  "rs_DeleteAccessKey B env = applyTypedDelete B env ''accesskeys'' KindAccessKey"
definition rs_PutSecret where
  "rs_PutSecret B env = applyTypedPut B env secretT ''secrets'' KindSecret"
definition rs_DeleteSecret where
  "rs_DeleteSecret B env = applyTypedDelete B env ''secrets'' KindSecret"
definition rs_PutEventRule where
  "rs_PutEventRule B env = applyTypedPut B env eventRuleT ''eventrules'' KindEventRule"
definition rs_DeleteEventRule where
  "rs_DeleteEventRule B env = applyTypedDelete B env ''eventrules'' KindEventRule"

end
