(* ===== verification/Fixtures.thy ===== *)
theory Fixtures
  imports Replication
begin

text \<open>
  Small concrete values on which the witnesses of the development evaluate the model: a
  freshly opened store over the in-memory engine and one object of each of a few kinds.
  Nothing here models code.
\<close>

definition named :: "string \<Rightarrow> string \<Rightarrow> meta" where
  "named p n = zero_meta\<lparr>m_Project := p, m_Name := n\<rparr>"

definition fresh_store :: "memdb store" where
  "fresh_store = \<lparr>sdb = map (\<lambda>b. (b, [])) rootBuckets, subs = []\<rparr>"

definition zero_container :: container where
  "zero_container = \<lparr>c_Meta = zero_meta, c_Image = [], c_Command = [], c_Args = [], c_Env = [],
     c_Ports = [], c_Volumes = [], c_SecretMounts = [], c_RestartPolicy = [],
     c_Resources = \<lparr>rl_CPUMillicores = 0, rl_MemoryMB = 0\<rparr>, c_NodeID = [],
     c_Status = zero_container_status\<rparr>"

definition demo_container :: "string \<Rightarrow> string \<Rightarrow> container" where
  "demo_container p n = zero_container\<lparr>c_Meta := named p n, c_Image := ''nginx''\<rparr>"

definition demo_token :: token where
  "demo_token = \<lparr>t_Meta = named [] ''t1'', t_UserID = ''u1'', t_HashHex = ''ab'',
     t_Plaintext = ''sc_x'', t_ExpiresAt = 0, t_IsAdmin = False\<rparr>"

definition demo_event :: "string \<Rightarrow> time \<Rightarrow> event_record" where
  "demo_event uid t = zero_event_record\<lparr>ev_UID := uid, ev_Type := ''x'', ev_Project := ''p'', ev_At := t\<rparr>"

definition put_of :: "'v \<times> 'db store \<times> error option \<Rightarrow> 'db store" where
  "put_of r = fst (snd r)"

definition with_containers :: "memdb store" where
  "with_containers =
     put_of (PutContainer mem_bolt ''u2'' 7 8 (demo_container ''q'' ''api'')
       (put_of (PutContainer mem_bolt ''u1'' 5 6 (demo_container ''p'' ''web'')
         (fresh_store\<lparr>subs := [[]]\<rparr>))))"

definition with_events :: "memdb store" where
  "with_events =
     put_of (AppendEvent mem_bolt rfc3339nano ''x'' 0 (demo_event ''e2'' 1500000000)
       (put_of (AppendEvent mem_bolt rfc3339nano ''x'' 0 (demo_event ''e1'' 1000000001) fresh_store)))"

text \<open>Two events of the same second, appended in chronological order: 5 s, then 5.5 s.\<close>

definition same_second_events :: "memdb store" where
  "same_second_events =
     put_of (AppendEvent mem_bolt rfc3339nano [] 0 (demo_event ''e2'' 5500000000)
       (put_of (AppendEvent mem_bolt rfc3339nano [] 0 (demo_event ''e1'' 5000000000) fresh_store)))"

text \<open>A log with a put, a delete of a missing key, an unknown operation and an undecodable entry.\<close>

definition demo_log :: "log_op option list" where
  "demo_log =
     [Some \<lparr>lo_Op = ''put'', lo_Bucket = ''containers'', lo_Kind = KindContainer, lo_Project = ''p'',
        lo_Name = ''db'', lo_Key = ''p/db'', lo_Value = Some (DContainer (demo_container ''p'' ''db''))\<rparr>,
      Some \<lparr>lo_Op = ''delete'', lo_Bucket = ''containers'', lo_Kind = KindContainer, lo_Project = ''p'',
        lo_Name = ''zz'', lo_Key = ''p/zz'', lo_Value = None\<rparr>,
      Some \<lparr>lo_Op = ''x'', lo_Bucket = ''containers'', lo_Kind = KindContainer, lo_Project = ''p'',
        lo_Name = ''zz'', lo_Key = ''p/zz'', lo_Value = None\<rparr>,
      None]"

text \<open>The leader of a cluster of two voters.\<close>

definition leader_env :: "error option \<Rightarrow> raft_env" where
  "leader_env fut = \<lparr>re_present = True, re_servers = Inr [''n1'', ''n2''], re_leader = True,
     re_leader2 = True, re_future = fut, re_applied = False\<rparr>"

end
