(* ===== verification/Store_Props.thy ===== *)
theory Store_Props
  imports Store_Laws Fixtures
begin

text \<open>
  The properties of the store: round trips, exactness of project listings, isolation of
  projects, deletes, the reachable-state invariant over every operation that mutates the
  store, and the event log. The witnesses run the model on the in-memory engine.
\<close>

section \<open>Operations as steps\<close>

text \<open>
  One rule per exported operation that changes the store, for every reading of the clock
  and of the random source and whatever the operation returns; \<open>receive\<close> is a subscriber
  taking the oldest event off its channel.
\<close>

inductive store_step :: "'db bolt \<Rightarrow> 'db store \<Rightarrow> 'db store \<Rightarrow> bool" for B where
  put_project: "PutProject B uid t0 t1 p s = (p', s', r) \<Longrightarrow> store_step B s s'"
| delete_project: "DeleteProject B n s = (s', r) \<Longrightarrow> store_step B s s'"
| put_container: "PutContainer B uid t0 t1 c s = (c', s', r) \<Longrightarrow> store_step B s s'"
| delete_container: "DeleteContainer B p n s = (s', r) \<Longrightarrow> store_step B s s'"
| put_function: "PutFunction B uid t0 t1 f s = (f', s', r) \<Longrightarrow> store_step B s s'"
| delete_function: "DeleteFunction B p n s = (s', r) \<Longrightarrow> store_step B s s'"
| put_bucket: "PutBucket B uid t0 t1 b s = (b', s', r) \<Longrightarrow> store_step B s s'"
| delete_bucket: "DeleteBucket B p n s = (s', r) \<Longrightarrow> store_step B s s'"
| put_access_key: "PutAccessKey B uid t0 t1 a s = (a', s', r) \<Longrightarrow> store_step B s s'"
| delete_access_key: "DeleteAccessKey B p n s = (s', r) \<Longrightarrow> store_step B s s'"
| put_node: "PutNode B uid t0 t1 x s = (x', s', r) \<Longrightarrow> store_step B s s'"
| delete_node: "DeleteNode B n s = (s', r) \<Longrightarrow> store_step B s s'"
| put_user: "PutUser B uid t0 t1 u s = (u', s', r) \<Longrightarrow> store_step B s s'"
| delete_user: "DeleteUser B n s = (s', r) \<Longrightarrow> store_step B s s'"
| put_token: "PutToken B uid t0 t1 t s = (t', s', r) \<Longrightarrow> store_step B s s'"
| delete_token: "DeleteToken B n s = (s', r) \<Longrightarrow> store_step B s s'"
| put_cluster: "PutCluster B now cfg s = (cfg', s', r) \<Longrightarrow> store_step B s s'"
| put_secret: "PutSecret B uid t0 t1 x s = (x', s', r) \<Longrightarrow> store_step B s s'"
| delete_secret: "DeleteSecret B p n s = (s', r) \<Longrightarrow> store_step B s s'"
| put_event_rule: "PutEventRule B uid t0 t1 er s = (er', s', r) \<Longrightarrow> store_step B s s'"
| delete_event_rule: "DeleteEventRule B p n s = (s', r) \<Longrightarrow> store_step B s s'"
| put_build: "PutBuild B uid t0 t1 bd s = (bd', s', r) \<Longrightarrow> store_step B s s'"
| delete_build: "DeleteBuild B p n s = (s', r) \<Longrightarrow> store_step B s s'"
| append_event: "AppendEvent B fmt uid now e s = (e', s', r) \<Longrightarrow> store_step B s s'"
| trim_events: "TrimEvents B nxt p keep s = (s', r) \<Longrightarrow> store_step B s s'"
| put_delivery: "PutDelivery B uid t0 t1 d s = (d', s', r) \<Longrightarrow> store_step B s s'"
| local_delete: "localDelete B b kind p n s = (s', r) \<Longrightarrow> store_step B s s'"
| subscribe: "Subscribe s = (i, s') \<Longrightarrow> store_step B s s'"
| receive: "i < length (subs s) \<Longrightarrow> subs s ! i = ev # rest \<Longrightarrow>
     store_step B s (s\<lparr>subs := (subs s)[i := rest]\<rparr>)"
| close: "store_step B s (Close s)"

inductive store_reach :: "'db bolt \<Rightarrow> 'db store \<Rightarrow> 'db store \<Rightarrow> bool" for B s0 where
  start: "store_reach B s0 s0"
| step: "store_reach B s0 s \<Longrightarrow> store_step B s s' \<Longrightarrow> store_reach B s0 s'"

section \<open>Preservation\<close>

text \<open>No token document holds a plaintext.\<close>

definition token_hashed :: "'db bolt \<Rightarrow> 'db store \<Rightarrow> bool" where
  "token_hashed B s \<longleftrightarrow>
     (\<forall>b k t. entries B s b k = Some (DToken t) \<longrightarrow> t_Plaintext t = [])"

definition hashed_doc :: "doc \<Rightarrow> bool" where
  "hashed_doc d = (case d of DToken t \<Rightarrow> t_Plaintext t = [] | _ \<Rightarrow> True)"

definition good :: "'db bolt \<Rightarrow> 'db store \<Rightarrow> bool" where
  "good B s \<longleftrightarrow> store_wf B s \<and> token_hashed B s"

context bolt_engine
begin

lemma token_hashed_all_docs: "token_hashed B s \<longleftrightarrow> kv.all_docs (\<lambda>_. hashed_doc) s"
proof
  assume h: "token_hashed B s"
  then show "kv.all_docs (\<lambda>_. hashed_doc) s"
    unfolding kv.all_docs_def hashed_doc_def token_hashed_def by (auto split: doc.splits)
next
  assume "kv.all_docs (\<lambda>_. hashed_doc) s"
  then show "token_hashed B s"
    unfolding kv.all_docs_def hashed_doc_def token_hashed_def by fastforce
qed

lemma good_put:
  assumes "good B s" "typed_doc b d" "hashed_doc d" "store_put B b k d s = (s', r)"
  shows "good B s'"
proof -
  have "store_wf B s'" using wf_store_put [of s b d k] assms by (simp add: good_def)
  moreover have "token_hashed B s'"
    using kv.all_docs_kput [where P = "\<lambda>_. hashed_doc", OF _ assms(3,4)] assms(1)
    by (simp add: good_def token_hashed_all_docs)
  ultimately show ?thesis by (simp add: good_def)
qed

lemma good_del:
  assumes "good B s" "store_del B b k s = (s', r)"
  shows "good B s'"
proof -
  have "store_wf B s'" using wf_store_del [of s b k] assms by (simp add: good_def)
  moreover have "token_hashed B s'"
    using kv.all_docs_kdel [where P = "\<lambda>_. hashed_doc", OF _ assms(2)] assms(1)
    by (simp add: good_def token_hashed_all_docs)
  ultimately show ?thesis by (simp add: good_def)
qed

lemma good_emit: "good B s \<Longrightarrow> good B (emit ev s)"
  by (simp add: good_def wf_emit token_hashed_def)

lemma good_putScoped:
  assumes "good B s" "\<And>v. typed_doc b (marshal T v)" "\<And>m. hashed_doc (marshal T (setMeta T m v))"
    and "putScoped B T b kind uid t0 t1 v s = (v', s', r)"
  shows "good B s'"
proof (cases r)
  case None
  with assms(4) obtain m k s1 ev where "store_put B b k (marshal T (setMeta T m v)) s = (s1, None)"
    and "s' = emit ev s1"
    by (auto simp: putScoped_None Let_def)
  then show ?thesis using good_put [OF assms(1) assms(2) assms(3)] good_emit by blast
next
  case (Some e)
  then show ?thesis using assms(1,4) putScoped_Some by metis
qed

lemma good_delScoped:
  assumes "good B s" "delScoped B b kind k p n s = (s', r)"
  shows "good B s'"
  using assms good_del good_emit
  by (auto simp: delScoped_def split: prod.splits option.splits)

lemma trim_loop_keeps:
  assumes "trim_loop B nxt p i k db = Inr db'" "''eventlog'' \<in> set (bbuckets B db)"
  shows "bbuckets B db' = bbuckets B db \<and> (\<forall>b k d. bget B db' b k = Some d \<longrightarrow> bget B db b k = Some d)"
  using assms
proof (induction i arbitrary: k db)
  case 0
  then show ?case by simp
next
  case (Suc i)
  show ?case
  proof (cases k)
    case None
    with Suc.prems show ?thesis by simp
  next
    case (Some x)
    show ?thesis
    proof (cases "hasPrefix x p")
      case False
      with Suc.prems Some show ?thesis by simp
    next
      case True
      with Suc.prems Some obtain db1 where d: "bdelete B db ''eventlog'' x = Inr db1"
        and l: "trim_loop B nxt p i (nxt db1 x) db1 = Inr db'"
        by (auto split: sum.splits)
      have "bbuckets B db1 = bbuckets B db" by (rule buckets_delete [OF d])
      moreover have "bget B db1 b y = Some e \<Longrightarrow> bget B db b y = Some e" for b y e
        using get_delete [OF Suc.prems(2) d, of b y] by (simp split: if_splits)
      ultimately show ?thesis using Suc.IH [OF l] Suc.prems(2) by metis
    qed
  qed
qed

lemma good_Trim:
  assumes "good B s" "TrimEvents B nxt p keep s = (s', r)"
  shows "good B s'"
proof -
  have e: "''eventlog'' \<in> set (bbuckets B (sdb s))"
    using assms(1) by (simp add: good_def store_wf_def rootBuckets_def has_bucket_def)
  show ?thesis
  proof (cases "s' = s")
    case True
    with assms show ?thesis by simp
  next
    case False
    with assms(2) obtain i k db' where l: "trim_loop B nxt (p @ ''/'') i k (sdb s) = Inr db'"
      and s': "s' = s\<lparr>sdb := db'\<rparr>"
      by (auto simp: TrimEvents_def Let_def bolt_update_Inr split: sum.splits if_splits)
    show ?thesis
      using trim_loop_keeps [OF l e] assms(1)
      unfolding good_def store_wf_def token_hashed_def has_bucket_def entries_def s'
      by (simp, blast)
  qed
qed

lemma good_PutProject:
  assumes "good B s" "PutProject B uid t0 t1 p s = (p', s', r)"
  shows "good B s'"
proof (cases "m_Name (p_Meta p) = []")
  case True
  with assms show ?thesis by (simp add: PutProject_def)
next
  case False
  obtain s1 r1 where q: "store_put B ''projects'' (m_Name (p_Meta p))
      (DProject (p\<lparr>p_Meta := mint uid t0 t1 (p_Meta p)\<rparr>)) s = (s1, r1)" by fastforce
  have "good B s1"
    by (rule good_put [OF assms(1) _ _ q]) (simp_all add: typed_doc_def hashed_doc_def)
  then show ?thesis using assms(2) False q good_emit
    by (auto simp: PutProject_def Let_def split: option.splits)
qed

lemma good_PutCluster:
  assumes "good B s" "PutCluster B now c s = (c', s', r)"
  shows "good B s'"
proof -
  obtain s1 r1 where q: "store_put B ''cluster'' ''config'' (DCluster c') s = (s1, r1)" by fastforce
  have "good B s1"
    by (rule good_put [OF assms(1) _ _ q]) (simp_all add: typed_doc_def hashed_doc_def)
  then show ?thesis using assms(2) q good_emit
    by (auto simp: PutCluster_def Let_def split: option.splits prod.splits)
qed

lemma good_AppendEvent:
  assumes "good B s" "AppendEvent B fmt uid now e s = (e', s', r)"
  shows "good B s'"
proof -
  obtain k where q: "store_put B ''eventlog'' k (DEventRecord e') s = (s', r)"
    using assms(2) by (auto simp: AppendEvent_def Let_def split: prod.splits)
  show ?thesis
    by (rule good_put [OF assms(1) _ _ q]) (simp_all add: typed_doc_def hashed_doc_def)
qed

lemma good_PutToken:
  assumes "good B s" "PutToken B uid t0 t1 t s = (t', s', r)"
  shows "good B s'"
proof -
  obtain v r' where p: "putScoped B tokenT ''tokens'' KindToken uid t0 t1
      ((setProject tokenT ''system'' t)\<lparr>t_Plaintext := []\<rparr>) s = (v, s', r')"
    using assms(2) by (auto simp: PutToken_def Let_def split: prod.splits option.splits)
  show ?thesis
    by (rule good_putScoped [OF assms(1) _ _ p]) (simp_all add: tokenT_def typed_doc_def hashed_doc_def)
qed

lemma good_receive:
  assumes "good B s" "i < length (subs s)" "subs s ! i = ev # rest"
  shows "good B (s\<lparr>subs := (subs s)[i := rest]\<rparr>)"
proof -
  have "ev # rest \<in> set (subs s)" using assms(2,3) by (metis nth_mem)
  then have "length rest \<le> subCap" using assms(1) by (auto simp: good_def store_wf_def)
  moreover have "set ((subs s)[i := rest]) \<subseteq> insert rest (set (subs s))"
    by (rule set_update_subset_insert)
  ultimately show ?thesis using assms(1)
    by (auto simp: good_def store_wf_def token_hashed_def has_bucket_def entries_def)
qed

lemma good_delete_project:
  "good B s \<Longrightarrow> DeleteProject B n s = (s', r) \<Longrightarrow> good B s'"
  using good_del good_emit
  by (auto simp: DeleteProject_def split: prod.splits option.splits if_splits)

lemma good_local_delete:
  "good B s \<Longrightarrow> localDelete B b kind p n s = (s', r) \<Longrightarrow> good B s'"
  using good_del good_emit by (auto simp: localDelete_def Let_def split: prod.splits option.splits)

lemma good_Subscribe: "good B s \<Longrightarrow> Subscribe s = (i, s') \<Longrightarrow> good B s'"
  using wf_Subscribe [of B s] by (auto simp: good_def token_hashed_def entries_def Subscribe_def)

lemma good_Close: "good B s \<Longrightarrow> good B (Close s)"
  using wf_Close [of B s] by (auto simp: good_def token_hashed_def entries_def Close_def)

lemmas good_ops = good_PutProject good_delete_project good_PutCluster good_AppendEvent
  good_Trim good_PutToken good_local_delete good_Subscribe good_receive good_Close

lemmas typed_puts = PutContainer_def PutFunction_def PutBucket_def PutAccessKey_def
  PutNode_def PutUser_def PutSecret_def PutEventRule_def PutBuild_def PutDelivery_def

lemmas typed_deletes = DeleteContainer_def DeleteFunction_def DeleteBucket_def
  DeleteAccessKey_def DeleteNode_def DeleteUser_def DeleteToken_def DeleteSecret_def
  DeleteEventRule_def DeleteBuild_def

lemma good_step:
  assumes "store_step B s s'" "good B s"
  shows "good B s'"
  using assms
  by (cases rule: store_step.cases)
    (auto simp: typed_puts typed_deletes typed_doc_def hashed_doc_def codec_defs
      intro: good_ops elim!: good_putScoped [rotated 3] good_delScoped [rotated])

lemma good_reach: "store_reach B s0 s \<Longrightarrow> good B s0 \<Longrightarrow> good B s"
  by (induction rule: store_reach.induct) (auto intro: good_step)

end

section \<open>Listing and isolation\<close>

text \<open>
  A listing depends only on the entries under the prefix, and in key order: two databases
  that agree there give the same list.
\<close>

lemma sorted_alist_unique:
  fixes xs ys :: "('k::linorder \<times> 'v) list"
  assumes "sorted (map fst xs)" "distinct (map fst xs)" "sorted (map fst ys)" "distinct (map fst ys)"
    and "set xs = set ys"
  shows "xs = ys"
proof -
  have inj: "inj_on fst (set xs)" using assms(2) by (simp add: distinct_map)
  have "map fst xs = map fst ys"
    using assms by (metis list.set_map sorted_distinct_set_unique)
  moreover have "inj_on fst (set xs \<union> set ys)" using inj assms(5) by simp
  ultimately show ?thesis using map_inj_on by blast
qed

context bolt_engine
begin

lemmas axioms_kv = kv.kv_store_axioms

lemma store_list_cong:
  assumes "has_bucket B s b" "has_bucket B s' b"
    and "\<And>k. HasPrefix k p \<Longrightarrow> entries B s' b k = entries B s b k"
  shows "store_list B b p s' = store_list B b p s"
proof -
  let ?f = "\<lambda>s. filter (\<lambda>e. HasPrefix (fst e) p) (bscan B (sdb s) b)"
  have set: "set (?f s') = set (?f s)"
    using assms scan_iff by (auto simp: has_bucket_def entries_def)
  have so: "sorted (map fst (?f x)) \<and> distinct (map fst (?f x))" for x
    using scan_sorted [of "sdb x" b] scan_distinct [of "sdb x" b]
    by (simp add: sorted_filter distinct_map_filter)
  then have "?f s' = ?f s" using set by (intro sorted_alist_unique) auto
  then show ?thesis using assms(1,2) by (simp add: store_list_eq)
qed

end

text \<open>
  Every state the store can reach from \<^verbatim>\<open>Open\<close> on a fresh database file, by any
  sequence of its operations (successful or failing, for any clock and random source), is
  well formed: all root buckets exist, so no operation can dereference a nil bucket; every
  subscriber channel respects its capacity; every bucket holds documents of its own type;
  and no stored token contains its plaintext.
\<close>

theorem store_invariant:
  assumes "bolt_engine B" "Open B db = Inr s0" "\<forall>b k. bget B db b k = None"
    and "store_reach B s0 s"
  shows "store_wf B s \<and> token_hashed B s"
proof -
  from assms(2) obtain db' where o: "open_buckets B rootBuckets db = Inr db'"
    and s0: "s0 = \<lparr>sdb = db', subs = []\<rparr>"
    by (auto simp: Open_def bolt_update_Inr split: sum.splits)
  have "store_wf B s0" by (rule bolt_engine.wf_Open [OF assms(1,2)]) (simp add: assms(3))
  moreover have "token_hashed B s0"
    using bolt_engine.open_buckets_Inr [OF assms(1) o] assms(3)
    by (simp add: token_hashed_def entries_def s0)
  ultimately have "good B s0" by (simp add: good_def)
  then show ?thesis
    using bolt_engine.good_reach [OF assms(1,4)] by (simp add: good_def)
qed

text \<open>
  C2. A successful \<^verbatim>\<open>PutContainer\<close> stamps the metadata (default project, minted UID and
  creation time for a new object, incremented generation) and changes nothing else of the
  object; \<^verbatim>\<open>GetContainer\<close> then returns exactly what the put returned, and every other
  container of a project without a slash in its name reads as before.
\<close>

theorem PutContainer_roundtrip:
  assumes "bolt_engine B" "PutContainer B uid t0 t1 c s = (c', s', None)"
    and "CHR ''/'' \<notin> set (m_Project (c_Meta c'))"
  shows "c' = c\<lparr>c_Meta := put_meta uid t0 t1 (c_Meta c)\<rparr> \<and>
    GetContainer B (m_Project (c_Meta c')) (m_Name (c_Meta c')) s' = Inr c' \<and>
    (\<forall>p n. p \<noteq> [] \<and> CHR ''/'' \<notin> set p \<and> (p, n) \<noteq> (m_Project (c_Meta c'), m_Name (c_Meta c'))
       \<longrightarrow> GetContainer B p n s' = GetContainer B p n s)"
proof -
  note st = scoped_table.getMeta_putScoped [OF tables(1) [OF assms(1)]]
    scoped_table.get_after_put [OF tables(1) [OF assms(1)]]
    scoped_table.get_put_other [OF tables(1) [OF assms(1)]]
  have p: "putScoped B containerT ''containers'' KindContainer uid t0 t1 c s = (c', s', None)"
    using assms(2) by (simp add: PutContainer_def)
  have m: "c_Meta c' = put_meta uid t0 t1 (c_Meta c)" and c': "c' = c\<lparr>c_Meta := c_Meta c'\<rparr>"
    using st(1,2) [OF p] by (simp_all add: containerT_def)
  have k: "scoped_key (getMeta containerT c') = keyFor (m_Project (c_Meta c')) (m_Name (c_Meta c'))"
    by (simp add: scoped_key_def containerT_def)
  have "m_Project (c_Meta c') \<noteq> []" using m by simp
  then have "GetContainer B q n s' = GetContainer B q n s"
    if "q \<noteq> []" "CHR ''/'' \<notin> set q" "(q, n) \<noteq> (m_Project (c_Meta c'), m_Name (c_Meta c'))" for q n
    using st(4) [OF p, of "''containers''" "keyFor q n"] that k assms(3)
    by (auto simp: GetContainer_def keyFor_inject)
  moreover have "GetContainer B (m_Project (c_Meta c')) (m_Name (c_Meta c')) s' = Inr c'"
    using st(3) [OF p] k by (simp add: GetContainer_def)
  ultimately show ?thesis using m c' by simp
qed

text \<open>
  C3. \<^verbatim>\<open>ListContainers\<close> of a project is exact: in a well-formed store it succeeds and returns
  precisely the containers that \<^verbatim>\<open>GetContainer\<close> finds under some name of the project.
\<close>

theorem ListContainers_exact:
  assumes "bolt_engine B" "store_wf B s" "p \<noteq> []"
  shows "\<exists>cs. ListContainers B p s = Inr cs \<and> set cs = {c. \<exists>n. GetContainer B p n s = Inr c}"
proof -
  have b: "has_bucket B s ''containers''"
    using assms(2) by (simp add: store_wf_def rootBuckets_def)
  have k: "(\<exists>n. k = keyFor p n) \<longleftrightarrow> HasPrefix k (p @ ''/'')" for k
    using assms(3) by (auto simp: keyFor_def HasPrefix_iff)
  obtain cs where "listScoped B containerT ''containers'' p s = Inr cs"
    and "set cs = {v. \<exists>k. HasPrefix k (p @ ''/'') \<and> entries B s ''containers'' k = Some (marshal containerT v)}"
    using scoped_table.set_listScoped [OF tables(1) [OF assms(1)] b, of p] assms(3) by auto
  moreover have "(\<exists>n. GetContainer B p n s = Inr v) \<longleftrightarrow>
      (\<exists>k. HasPrefix k (p @ ''/'') \<and> entries B s ''containers'' k = Some (marshal containerT v))" for v
    unfolding k [symmetric] using b
    by (auto simp: GetContainer_def store_get_Inr containerT.unmarshal_iff)
  ultimately show ?thesis by (simp add: ListContainers_def)
qed

lemma entries_put_frame:
  assumes "bolt_engine B" "scoped_table B T bkt" "putScoped B T bkt kind uid t0 t1 v s = (v', s', r)"
    and "k \<noteq> scoped_key (put_meta uid t0 t1 (getMeta T v))"
  shows "entries B s' bkt k = entries B s bkt k"
proof (cases r)
  case None
  with assms(3) have "putScoped B T bkt kind uid t0 t1 v s = (v', s', None)" by simp
  then show ?thesis
    using scoped_table.entries_putScoped [OF assms(2)] scoped_table.getMeta_putScoped(1) [OF assms(2)]
      assms(4) by simp
qed (use assms(3) putScoped_Some in metis)

lemma entries_del_frame:
  assumes "bolt_engine B" "delScoped B bkt kind k0 p n s = (s', r)" "k \<noteq> k0 \<or> b \<noteq> bkt"
  shows "entries B s' b k = entries B s b k"
proof (cases r)
  case None
  with assms(2) obtain s1 where d: "store_del B bkt k0 s = (s1, None)"
    and e: "entries B s' = entries B s1" "has_bucket B s' = has_bucket B s1"
    by (auto simp: delScoped_None)
  show ?thesis
    using kv_store.lookup_kdel [OF bolt_engine.axioms_kv [OF assms(1)], OF d] assms(3) e by auto
qed (use assms(2) delScoped_Some in metis)

lemma has_bucket_delScoped:
  assumes "bolt_engine B" "delScoped B bkt kind k0 p n s = (s', r)"
  shows "has_bucket B s' = has_bucket B s"
proof (cases r)
  case None
  with assms(2) obtain s1 where d: "store_del B bkt k0 s = (s1, None)"
    and e: "has_bucket B s' = has_bucket B s1"
    by (auto simp: delScoped_None)
  show ?thesis using kv_store.kdel_has [OF bolt_engine.axioms_kv [OF assms(1)], OF d] e by simp
qed (use assms(2) delScoped_Some in metis)

text \<open>
  Projects are isolated: putting and deleting containers of one project, whether the
  operations succeed or fail, leaves the listing of every other project as it was, as a list.
\<close>

theorem project_isolation:
  assumes "bolt_engine B" "store_wf B s"
    and "p \<noteq> []" "CHR ''/'' \<notin> set p" "q \<noteq> []" "CHR ''/'' \<notin> set q" "p \<noteq> q"
    and "m_Project (c_Meta c) = p" "PutContainer B uid t0 t1 c s = (c', s1, r1)"
    and "DeleteContainer B p n s1 = (s2, r2)"
  shows "ListContainers B q s2 = ListContainers B q s"
proof -
  note st = tables(1) [OF assms(1)]
  have p: "putScoped B containerT ''containers'' KindContainer uid t0 t1 c s = (c', s1, r1)"
    using assms(9) by (simp add: PutContainer_def)
  have d: "delScoped B ''containers'' KindContainer (keyFor p n) p n s1 = (s2, r2)"
    using assms(10) by (simp add: DeleteContainer_def)
  have b: "has_bucket B s ''containers''"
    using assms(2) by (simp add: store_wf_def rootBuckets_def)
  have b2: "has_bucket B s2 ''containers''"
    using has_bucket_delScoped [OF assms(1) d] scoped_table.has_bucket_putScoped [OF st p] b by simp
  have "entries B s2 ''containers'' k = entries B s ''containers'' k" if k: "HasPrefix k (q @ ''/'')" for k
  proof -
    have "k \<noteq> keyFor p m" for m using k keyFor_prefix [OF assms(4,6,3)] assms(7) by auto
    then show ?thesis
      using entries_put_frame [OF assms(1) st p, of k] entries_del_frame [OF assms(1) d, of k] assms(3,8)
      by (simp add: scoped_key_def containerT_def)
  qed
  then show ?thesis
    using bolt_engine.store_list_cong [OF assms(1) b b2] assms(5)
    by (simp add: ListContainers_def listScoped_def)
qed

text \<open>
  \<^verbatim>\<open>DeleteContainer\<close> of a missing container returns \<^verbatim>\<open>ErrNotFound\<close> and changes nothing; a
  successful delete removes exactly that container and offers one delete event to every
  subscriber, dropping it where the channel is full.
\<close>

theorem DeleteContainer_spec:
  assumes "bolt_engine B" "store_wf B s" "DeleteContainer B p n s = (s', r)"
  shows "(GetContainer B p n s = Inl ErrNotFound \<longrightarrow> r = Some ErrNotFound \<and> s' = s) \<and>
    (r = None \<longrightarrow> GetContainer B p n s' = Inl ErrNotFound \<and>
       (\<forall>b k. (b, k) \<noteq> (''containers'', keyFor p n) \<longrightarrow> entries B s' b k = entries B s b k) \<and>
       subs s' = map (\<lambda>ch. if length ch < 64
         then ch @ [\<lparr>e_Kind = KindContainer, e_Op = ''delete'', e_Project = p, e_Name = n,
                      e_Value = None\<rparr>] else ch) (subs s))"
proof -
  have d: "delScoped B ''containers'' KindContainer (keyFor p n) p n s = (s', r)"
    using assms(3) by (simp add: DeleteContainer_def)
  have b: "has_bucket B s ''containers''"
    using assms(2) by (simp add: store_wf_def rootBuckets_def)
  have "r = Some ErrNotFound \<and> s' = s" if "GetContainer B p n s = Inl ErrNotFound"
  proof -
    have "entries B s ''containers'' (keyFor p n) = None"
      using that b by (simp add: GetContainer_def store_get_NotFound)
    then have "store_del B ''containers'' (keyFor p n) s = (s, Some ErrNotFound)"
      by (rule kv_store.kdel_missing [OF bolt_engine.axioms_kv [OF assms(1)], OF b])
    then show ?thesis using d by (simp add: delScoped_def)
  qed
  moreover have "GetContainer B p n s' = Inl ErrNotFound" if "r = None"
    unfolding GetContainer_def
    by (rule scoped_table.get_after_delete [OF tables(1) [OF assms(1)] d [unfolded that]])
  moreover have "subs s' = map (\<lambda>ch. if length ch < 64
         then ch @ [\<lparr>e_Kind = KindContainer, e_Op = ''delete'', e_Project = p, e_Name = n,
                      e_Value = None\<rparr>] else ch) (subs s)" if "r = None"
    using d that by (auto simp: delScoped_None store_del_None emit_def try_send_def subCap_def)
  moreover have "\<forall>b k. (b, k) \<noteq> (''containers'', keyFor p n) \<longrightarrow> entries B s' b k = entries B s b k"
    using entries_del_frame [OF assms(1) d] by blast
  ultimately show ?thesis by simp
qed

section \<open>The event log\<close>

text \<open>
  \<^verbatim>\<open>ListEvents\<close> returns the entries of the project's prefix in descending key order, at
  most \<open>limit\<close> of them (100 when the caller gives no positive limit), and the ones it leaves
  out have smaller keys than all it returns.
\<close>

theorem ListEvents_newest:
  assumes "bolt_engine B" "store_wf B s"
    and "es = filter (\<lambda>e. HasPrefix (fst e) (p @ ''/'')) (bscan B (sdb s) ''eventlog'')"
    and "\<forall>e \<in> set es. \<exists>r. snd e = DEventRecord r"
  shows "sorted_wrt (<) (map fst es) \<and>
    (\<exists>evs. ListEvents B p limit s = Inr evs \<and>
       map DEventRecord evs = take (if limit \<le> 0 then 100 else nat limit) (map snd (rev es)))"
proof -
  let ?raws = "map snd es"
  have b: "has_bucket B s ''eventlog''" using assms(2) by (simp add: store_wf_def rootBuckets_def)
  have l: "store_list B ''eventlog'' (p @ ''/'') s = Inr ?raws"
    using bolt_engine.store_list_eq [OF assms(1) b] assms(3) by simp
  have m: "map DEventRecord (List.map_filter as_event_record ?raws) = ?raws"
    using assms(4) by (induction es) (auto simp: List.map_filter_simps as_event_record_def)
  have "sorted_wrt (<) (map fst es)"
    using bolt_engine.scan_sorted_distinct [OF assms(1)] assms(3)
    by (simp add: sorted_wrt_map sorted_wrt_filter)
  moreover have "length (List.map_filter as_event_record ?raws) = length es"
    using m by (metis length_map)
  moreover have "map DEventRecord (take n (rev (List.map_filter as_event_record ?raws))) =
      take n (rev ?raws)" for n
    using m by (metis rev_map take_map)
  moreover have "map DEventRecord (rev (List.map_filter as_event_record ?raws)) = rev ?raws"
    using m by (metis rev_map)
  ultimately show ?thesis
    by (auto simp: ListEvents_def l Let_def reverse_in_place_rev rev_map [symmetric])
qed

context bolt_engine
begin

abbreviation log_of :: "string \<Rightarrow> 'db \<Rightarrow> (string \<times> doc) list" where
  "log_of p db \<equiv> filter (\<lambda>e. HasPrefix (fst e) p) (bscan B db ''eventlog'')"

lemma scan_delete:
  assumes "b \<in> set (bbuckets B db)" "bdelete B db b k = Inr db'"
  shows "bscan B db' b = filter (\<lambda>e. fst e \<noteq> k) (bscan B db b)"
proof (rule sorted_alist_unique)
  show "set (bscan B db' b) = set (filter (\<lambda>e. fst e \<noteq> k) (bscan B db b))"
    using scan_iff [of b db] scan_iff [of b db'] get_delete [OF assms] buckets_delete [OF assms(2)] assms(1)
    by (auto split: if_splits)
qed (simp_all add: scan_sorted scan_distinct sorted_filter distinct_map_filter)

text \<open>Deleting the first key at or after \<open>p\<close>: the next key after it is again the first one.\<close>

lemma seek_delete_first:
  assumes "b \<in> set (bbuckets B db)" "seek p (bscan B db b) = e # rest"
    and "bdelete B db b (fst e) = Inr db'"
  shows "filter (\<lambda>x. fst e < fst x) (bscan B db' b) = seek p (bscan B db' b)"
proof -
  let ?es = "bscan B db b"
  have f: "filter (\<lambda>x. p \<le> fst x) ?es = e # rest"
    using seek_sorted [OF scan_sorted, of p db b] assms(2) by simp
  then have "e \<in> set (filter (\<lambda>x. p \<le> fst x) ?es)" by simp
  then have pe: "p \<le> fst e" by simp
  have "sorted (map fst (filter (\<lambda>x. p \<le> fst x) ?es))" by (simp add: sorted_filter scan_sorted)
  then have s: "\<forall>x \<in> set (e # rest). fst e \<le> fst x" unfolding f by auto
  have first: "fst e \<le> fst x" if "x \<in> set ?es" "p \<le> fst x" for x
  proof -
    have "x \<in> set (filter (\<lambda>x. p \<le> fst x) ?es)" using that by simp
    then show ?thesis using s unfolding f by blast
  qed
  have "seek p (bscan B db' b) = filter (\<lambda>x. p \<le> fst x) (bscan B db' b)"
    by (rule seek_sorted [OF scan_sorted])
  also have "\<dots> = filter (\<lambda>x. fst e < fst x) (bscan B db' b)"
    unfolding scan_delete [OF assms(1,3)] filter_filter
    using pe first by (intro filter_cong) (auto simp: less_le)
  finally show ?thesis by simp
qed

lemma log_delete_first:
  assumes "''eventlog'' \<in> set (bbuckets B db)" "log_of p db = e # rest"
    and "bdelete B db ''eventlog'' (fst e) = Inr db'"
  shows "log_of p db' = rest"
proof -
  have "distinct (map fst (log_of p db))" by (simp add: scan_distinct distinct_map_filter)
  then have "filter (\<lambda>x. fst x \<noteq> fst e) (log_of p db) = rest"
    unfolding assms(2) by (auto simp: filter_id_conv rev_image_eqI)
  then show ?thesis unfolding scan_delete [OF assms(1,3)] by (simp add: conj_commute)
qed

lemma trim_loop_drop:
  assumes "trim_loop B nxt p i (first_key (seek p (bscan B db ''eventlog''))) db = Inr db'"
    and "\<And>db k. nxt db k = first_key (filter (\<lambda>e. k < fst e) (bscan B db ''eventlog''))"
    and "''eventlog'' \<in> set (bbuckets B db)"
  shows "log_of p db' = drop i (log_of p db) \<and>
    (\<forall>b k. b \<noteq> ''eventlog'' \<or> \<not> HasPrefix k p \<longrightarrow> bget B db' b k = bget B db b k)"
  using assms(1,3)
proof (induction i arbitrary: db)
  case 0
  then show ?case by simp
next
  case (Suc i)
  have tw: "takeWhile (\<lambda>e. hasPrefix (fst e) p) (seek p (bscan B db ''eventlog'')) = log_of p db"
    by (rule seek_takeWhile [OF scan_sorted])
  show ?case
  proof (cases "log_of p db")
    case Nil
    then show ?thesis using Suc.prems tw
      by (cases "seek p (bscan B db ''eventlog'')") (auto simp: first_key_def split: if_splits)
  next
    case (Cons e tail)
    then obtain rest where s: "seek p (bscan B db ''eventlog'') = e # rest" and e: "hasPrefix (fst e) p"
      using tw by (cases "seek p (bscan B db ''eventlog'')") (auto split: if_splits)
    with Suc.prems obtain db1 where d: "bdelete B db ''eventlog'' (fst e) = Inr db1"
      and l: "trim_loop B nxt p i (nxt db1 (fst e)) db1 = Inr db'"
      by (auto simp: first_key_def split: sum.splits)
    have b1: "''eventlog'' \<in> set (bbuckets B db1)" using Suc.prems(2) buckets_delete [OF d] by simp
    have "trim_loop B nxt p i (first_key (seek p (bscan B db1 ''eventlog''))) db1 = Inr db'"
      using l assms(2) seek_delete_first [OF Suc.prems(2) s d] by simp
    then have "log_of p db' = drop i (log_of p db1) \<and>
        (\<forall>b k. b \<noteq> ''eventlog'' \<or> \<not> HasPrefix k p \<longrightarrow> bget B db' b k = bget B db1 b k)"
      using b1 by (rule Suc.IH)
    moreover have "bget B db1 b k = bget B db b k" if "b \<noteq> ''eventlog'' \<or> \<not> HasPrefix k p" for b k
      using get_delete [OF Suc.prems(2) d, of b k] that e by (auto simp: hasPrefix_iff)
    ultimately show ?thesis using log_delete_first [OF Suc.prems(2) Cons d] Cons by auto
  qed
qed

end

text \<open>
  \<^verbatim>\<open>TrimEvents\<close> keeps exactly the last \<open>keep\<close> entries of the project's log in key order
  (10,000 when no positive bound is given) and touches nothing outside that project's log.
  The hypothesis on \<open>nxt\<close> is that a cursor yields the next larger key after the key it stood
  on has been deleted.
\<close>

theorem TrimEvents_keeps_newest:
  assumes "bolt_engine B" "store_wf B s"
    and "\<And>db k. nxt db k = first_key (filter (\<lambda>e. k < fst e) (bscan B db ''eventlog''))"
    and "TrimEvents B nxt p keep s = (s', None)"
    and "log = (\<lambda>s. filter (\<lambda>e. HasPrefix (fst e) (p @ ''/'')) (bscan B (sdb s) ''eventlog''))"
  shows "log s' = drop (length (log s) - (if keep \<le> 0 then 10000 else nat keep)) (log s) \<and>
    (\<forall>b k. b \<noteq> ''eventlog'' \<or> \<not> HasPrefix k (p @ ''/'') \<longrightarrow> entries B s' b k = entries B s b k)"
proof -
  have b: "has_bucket B s ''eventlog''" using assms(2) by (simp add: store_wf_def rootBuckets_def)
  have l: "store_list B ''eventlog'' (p @ ''/'') s = Inr (map snd (log s))"
    using bolt_engine.store_list_eq [OF assms(1) b] assms(5) by simp
  define n where "n = (if keep \<le> 0 then 10000 else nat keep)"
  have n: "int n = (if keep \<le> 0 then 10000 else keep)" "nat (if keep \<le> 0 then 10000 else keep) = n"
    by (simp_all add: n_def)
  show ?thesis
  proof (cases "length (log s) \<le> n")
    case True
    then show ?thesis using assms(4) l n(1) n_def by (simp add: TrimEvents_def Let_def split: if_splits)
  next
    case False
    then obtain db' where t: "trim_loop B nxt (p @ ''/'') (length (log s) - n)
        (first_key (seek (p @ ''/'') (bscan B (sdb s) ''eventlog''))) (sdb s) = Inr db'"
      and s': "s' = s\<lparr>sdb := db'\<rparr>"
      using assms(4) l n by (auto simp: TrimEvents_def Let_def bolt_update_Inr split: sum.splits if_splits)
    show ?thesis
      using bolt_engine.trim_loop_drop [OF assms(1) t assms(3)] b
      by (simp add: s' assms(5) has_bucket_def entries_def n_def)
  qed
qed

section \<open>Witnesses\<close>

lemma as_event_record_Some: "as_event_record d = Some r \<Longrightarrow> d = DEventRecord r"
  by (cases d) (simp_all add: as_event_record_def)

lemma mem_engine: "bolt_engine mem_bolt"
  by unfold_locales

lemma fresh_store_open: "Open mem_bolt [] = Inr fresh_store"
  by code_simp

lemma wf_fresh: "store_wf mem_bolt fresh_store"
  using bolt_engine.wf_Open [OF mem_engine fresh_store_open] by (simp add: mem_get_def)

lemma wf_demo_container:
  "store_wf mem_bolt s \<Longrightarrow> store_wf mem_bolt (put_of (PutContainer mem_bolt uid t0 t1 c s))"
  using mem_containers.wf_putScoped [of s uid t0 t1 c] unfolding PutContainer_def put_of_def
  by (metis prod.collapse)

lemma wf_demo_event:
  assumes "good mem_bolt s"
  shows "good mem_bolt (put_of (AppendEvent mem_bolt fmt uid now e s))"
  using mem.good_AppendEvent [OF assms] unfolding put_of_def by (metis prod.collapse)

lemma wf_with_containers: "store_wf mem_bolt with_containers"
proof -
  have "fresh_store\<lparr>subs := [[]]\<rparr> = snd (Subscribe fresh_store)"
    by (simp add: Subscribe_def fresh_store_def)
  then have "store_wf mem_bolt (fresh_store\<lparr>subs := [[]]\<rparr>)"
    using wf_Subscribe [OF wf_fresh] by simp
  then show ?thesis unfolding with_containers_def by (intro wf_demo_container)
qed

lemma wf_with_events: "store_wf mem_bolt with_events"
proof -
  have "token_hashed mem_bolt fresh_store"
    by (simp add: token_hashed_def entries_def fresh_store_def mem_get_def map_of_map_restrict
        restrict_map_def split: option.splits)
  then have "good mem_bolt fresh_store" using wf_fresh by (simp add: good_def)
  then have "good mem_bolt with_events" unfolding with_events_def by (intro wf_demo_event)
  then show ?thesis by (simp add: good_def)
qed

theorem store_invariant_witness:
  "store_wf mem_bolt (put_of (PutToken mem_bolt ''u'' 1 2 demo_token fresh_store)) \<and>
   token_hashed mem_bolt (put_of (PutToken mem_bolt ''u'' 1 2 demo_token fresh_store))"
proof (rule store_invariant [OF mem_engine fresh_store_open])
  show "\<forall>b k. bget mem_bolt [] b k = None" by (simp add: mem_get_def)
  show "store_reach mem_bolt fresh_store (put_of (PutToken mem_bolt ''u'' 1 2 demo_token fresh_store))"
    by (rule store_reach.step [OF store_reach.start], rule store_step.put_token)
      (simp add: put_of_def prod_eq_iff)
qed

theorem PutContainer_roundtrip_witness:
  "\<exists>c' s'. PutContainer mem_bolt ''u3'' 9 10 (demo_container ''p'' ''db'') with_containers = (c', s', None) \<and>
     GetContainer mem_bolt ''p'' ''db'' s' = Inr c' \<and>
     GetContainer mem_bolt ''q'' ''api'' s' = GetContainer mem_bolt ''q'' ''api'' with_containers"
proof -
  let ?r = "PutContainer mem_bolt ''u3'' 9 10 (demo_container ''p'' ''db'') with_containers"
  have r: "?r = (fst ?r, fst (snd ?r), None)" by code_simp
  have m: "m_Project (c_Meta (fst ?r)) = ''p''" "m_Name (c_Meta (fst ?r)) = ''db''" by code_simp+
  note t = PutContainer_roundtrip [OF mem_engine r, unfolded m]
  have "GetContainer mem_bolt ''q'' ''api'' (fst (snd ?r)) = GetContainer mem_bolt ''q'' ''api'' with_containers"
    using t by simp
  moreover have "GetContainer mem_bolt ''p'' ''db'' (fst (snd ?r)) = Inr (fst ?r)" using t by simp
  ultimately show ?thesis using r by (intro exI [of _ "fst ?r"] exI [of _ "fst (snd ?r)"]) simp
qed

theorem ListContainers_exact_witness:
  "\<exists>cs. ListContainers mem_bolt ''p'' with_containers = Inr cs \<and> length cs = 1 \<and>
     set cs = {c. \<exists>n. GetContainer mem_bolt ''p'' n with_containers = Inr c}"
proof -
  have "\<exists>cs. ListContainers mem_bolt ''p'' with_containers = Inr cs \<and>
      set cs = {c. \<exists>n. GetContainer mem_bolt ''p'' n with_containers = Inr c}"
    by (rule ListContainers_exact [OF mem_engine wf_with_containers]) simp
  moreover have "(case ListContainers mem_bolt ''p'' with_containers of Inr cs \<Rightarrow> length cs = 1 | _ \<Rightarrow> False)"
    by code_simp
  ultimately show ?thesis by auto
qed

theorem project_isolation_witness:
  "ListContainers mem_bolt ''q''
     (fst (DeleteContainer mem_bolt ''p'' ''web''
       (put_of (PutContainer mem_bolt ''u3'' 9 10 (demo_container ''p'' ''db'') with_containers)))) =
   ListContainers mem_bolt ''q'' with_containers"
  by (rule project_isolation [OF mem_engine wf_with_containers, of "''p''" "''q''" "demo_container ''p'' ''db''"])
    (simp_all add: demo_container_def named_def zero_meta_def put_of_def prod_eq_iff)

theorem DeleteContainer_spec_witness:
  "\<exists>s'. DeleteContainer mem_bolt ''p'' ''web'' with_containers = (s', None) \<and>
     GetContainer mem_bolt ''p'' ''web'' s' = Inl ErrNotFound \<and>
     entries mem_bolt s' ''containers'' ''q/api'' = entries mem_bolt with_containers ''containers'' ''q/api''"
proof -
  let ?r = "DeleteContainer mem_bolt ''p'' ''web'' with_containers"
  have r: "?r = (fst ?r, None)" by code_simp
  show ?thesis
    using DeleteContainer_spec [OF mem_engine wf_with_containers r] r
    by (intro exI [of _ "fst ?r"]) (simp add: keyFor_def)
qed

theorem ListEvents_newest_witness:
  "\<exists>evs. ListEvents mem_bolt ''p'' 1 with_events = Inr evs \<and>
     map DEventRecord evs = take 1 (map snd (rev (filter (\<lambda>e. HasPrefix (fst e) ''p/'')
       (bscan mem_bolt (sdb with_events) ''eventlog''))))"
proof -
  have list: "list_all (\<lambda>e. as_event_record (snd e) \<noteq> None)
      (bscan mem_bolt (sdb with_events) ''eventlog'')" by code_simp
  have "\<forall>e \<in> set (filter (\<lambda>e. HasPrefix (fst e) (''p'' @ ''/'')) (bscan mem_bolt (sdb with_events) ''eventlog'')).
      \<exists>r. snd e = DEventRecord r"
    using list as_event_record_Some by (fastforce simp: list_all_iff)
  then show ?thesis
    using ListEvents_newest [OF mem_engine wf_with_events refl, of "''p''" 1] by simp
qed

theorem TrimEvents_keeps_newest_witness:
  "\<exists>s'. TrimEvents mem_bolt (\<lambda>db k. first_key (filter (\<lambda>e. k < fst e) (bscan mem_bolt db ''eventlog'')))
       ''p'' 1 with_events = (s', None) \<and>
     length (filter (\<lambda>e. HasPrefix (fst e) ''p/'') (bscan mem_bolt (sdb s') ''eventlog'')) = 1"
proof -
  let ?n = "\<lambda>db k. first_key (filter (\<lambda>e. k < fst e) (bscan mem_bolt db ''eventlog''))"
  let ?r = "TrimEvents mem_bolt ?n ''p'' 1 with_events"
  have r: "?r = (fst ?r, None)" by code_simp
  have "length (filter (\<lambda>e. HasPrefix (fst e) ''p/'') (bscan mem_bolt (sdb with_events) ''eventlog'')) = 2"
    by code_simp
  then show ?thesis
    using TrimEvents_keeps_newest [OF mem_engine wf_with_events _ r refl] r
    by (intro exI [of _ "fst ?r"]) simp
qed

text \<open>
  The event log is ordered by the text of the time stamp, and \<^verbatim>\<open>RFC3339Nano\<close> drops the
  trailing zeros of the fraction: of two events of one second the later one can have the
  smaller key. \<^verbatim>\<open>ListEvents\<close> then returns the older event first, and \<^verbatim>\<open>TrimEvents\<close> deletes the
  newer one.
\<close>

theorem event_order_not_chronological:
  "ev_At (demo_event ''e1'' 5000000000) < ev_At (demo_event ''e2'' 5500000000) \<and>
   ListEvents mem_bolt ''p'' 1 same_second_events = Inr [demo_event ''e1'' 5000000000] \<and>
   ListEvents mem_bolt ''p'' 9 (fst (TrimEvents mem_bolt
       (\<lambda>db k. first_key (filter (\<lambda>e. k < fst e) (bscan mem_bolt db ''eventlog''))) ''p'' 1
       same_second_events)) = Inr [demo_event ''e1'' 5000000000]"
  by code_simp

end
