(* ===== verification/Replication_Props.thy ===== *)
theory Replication_Props
  imports Replication Store_Props
begin

text \<open>
  Properties of replication: replicas that apply the same log agree, a replica restored from
  a snapshot catches up with one that applied the whole log, and on the leader a replicated
  write behaves exactly as the local one.
\<close>

section \<open>Equal views\<close>

text \<open>
  Two stores have the same view when they have the same buckets with the same entries. How
  the engine lays its pages out, and who subscribes, does not matter.
\<close>

definition same_view :: "'db bolt \<Rightarrow> 'db store \<Rightarrow> 'db store \<Rightarrow> bool" where
  "same_view B s t \<longleftrightarrow> has_bucket B s = has_bucket B t \<and>
     (\<forall>b. has_bucket B s b \<longrightarrow> entries B s b = entries B t b)"

lemma same_view_refl [simp]: "same_view B s s"
  by (simp add: same_view_def)

lemma same_view_sym: "same_view B s t \<Longrightarrow> same_view B t s"
  by (auto simp: same_view_def)

lemma same_view_trans: "same_view B s t \<Longrightarrow> same_view B t u \<Longrightarrow> same_view B s u"
  by (auto simp: same_view_def)

lemma same_view_emit [simp]: "same_view B (emit ev s) (emit ev' t) = same_view B s t"
  by (simp add: same_view_def)

text \<open>
  Replicas agree only if their engines accept the same writes: whether a write is accepted
  depends on its key and value, not on the rest of the database, and commits succeed.
\<close>

locale det_engine = bolt_engine B for B :: "'db bolt" +
  assumes put_det: "b \<in> set (bbuckets B db) \<Longrightarrow> b \<in> set (bbuckets B db') \<Longrightarrow>
      bput B db b k v = Inl e \<Longrightarrow> bput B db' b k v = Inl e"
    and delete_det: "b \<in> set (bbuckets B db) \<Longrightarrow> b \<in> set (bbuckets B db') \<Longrightarrow>
      bdelete B db b k = Inl e \<Longrightarrow> bdelete B db' b k = Inl e"
    and commit_ok: "bcommit B db = None"
begin

lemma store_put_cases:
  "(\<not> has_bucket B s b \<and> store_put B b k d s = (s, Some ErrPanic)) \<or>
   (\<exists>e. has_bucket B s b \<and> bput B (sdb s) b k d = Inl e \<and> store_put B b k d s = (s, Some (bolt_err e))) \<or>
   (\<exists>db. has_bucket B s b \<and> bput B (sdb s) b k d = Inr db \<and> store_put B b k d s = (s\<lparr>sdb := db\<rparr>, None))"
  by (cases "bput B (sdb s) b k d")
    (auto simp: store_put_def bolt_update_def has_bucket_def commit_ok)

lemma store_del_cases:
  "(\<not> has_bucket B s b \<and> store_del B b k s = (s, Some ErrPanic)) \<or>
   (has_bucket B s b \<and> entries B s b k = None \<and> store_del B b k s = (s, Some ErrNotFound)) \<or>
   (\<exists>e. has_bucket B s b \<and> entries B s b k \<noteq> None \<and> bdelete B (sdb s) b k = Inl e \<and>
        store_del B b k s = (s, Some (bolt_err e))) \<or>
   (\<exists>db. has_bucket B s b \<and> entries B s b k \<noteq> None \<and> bdelete B (sdb s) b k = Inr db \<and>
        store_del B b k s = (s\<lparr>sdb := db\<rparr>, None))"
  by (cases "bdelete B (sdb s) b k")
    (auto simp: store_del_def bolt_update_def has_bucket_def entries_def commit_ok)

lemma put_view:
  "has_bucket B s b \<Longrightarrow> has_bucket B t b \<Longrightarrow> bput B (sdb s) b k v = Inl e \<Longrightarrow> bput B (sdb t) b k v = Inl e"
  unfolding has_bucket_def by (rule put_det)

lemma delete_view:
  "has_bucket B s b \<Longrightarrow> has_bucket B t b \<Longrightarrow> bdelete B (sdb s) b k = Inl e \<Longrightarrow> bdelete B (sdb t) b k = Inl e"
  unfolding has_bucket_def by (rule delete_det)

lemma same_view_put:
  assumes "same_view B s t" "store_put B b k d s = (s', r)" "store_put B b k d t = (t', r')"
  shows "r = r' \<and> same_view B s' t'"
proof (cases r)
  case None
  have "r' = None"
    using store_put_cases [of s b k d] store_put_cases [of t b k d] assms None
      put_view [where s = t and t = s] by (auto simp: same_view_def)
  with None assms show ?thesis
    using kv.lookup_kput [of b k d s s'] kv.lookup_kput [of b k d t t']
      kv.kput_has [of b k d s s'] kv.kput_has [of b k d t t']
    by (auto simp: same_view_def fun_eq_iff)
next
  case (Some e)
  then have "s' = s" using assms(2) store_put_Some by metis
  have "r' = Some e"
    using store_put_cases [of s b k d] store_put_cases [of t b k d] assms Some
      put_view [where s = s and t = t] by (auto simp: same_view_def)
  with Some \<open>s' = s\<close> assms show ?thesis using store_put_Some by metis
qed

lemma same_view_del:
  assumes "same_view B s t" "store_del B b k s = (s', r)" "store_del B b k t = (t', r')"
  shows "r = r' \<and> same_view B s' t'"
proof (cases r)
  case None
  have "r' = None"
    using store_del_cases [of s b k] store_del_cases [of t b k] assms None
      delete_view [where s = t and t = s] by (auto simp: same_view_def)
  with None assms show ?thesis
    using kv.lookup_kdel [of b k s s'] kv.lookup_kdel [of b k t t']
      kv.kdel_has [of b k s s'] kv.kdel_has [of b k t t']
    by (auto simp: same_view_def fun_eq_iff)
next
  case (Some e)
  then have "s' = s" using assms(2) store_del_Some by metis
  have "r' = Some e"
    using store_del_cases [of s b k] store_del_cases [of t b k] assms Some
      delete_view [where s = s and t = t] by (auto simp: same_view_def)
  with Some \<open>s' = s\<close> assms show ?thesis using store_del_Some by metis
qed

lemma same_view_apply:
  assumes "same_view B s t" "fsm_Apply B l s = (s', r)" "fsm_Apply B l t = (t', r')"
  shows "r = r' \<and> same_view B s' t'"
proof (cases l)
  case None
  with assms show ?thesis by (simp add: fsm_Apply_def)
next
  case (Some op)
  note d = assms(2,3) [unfolded Some fsm_Apply_def option.case fsm_apply_def Let_def]
  consider "lo_Op op = ''put''" | "lo_Op op = ''delete''" | "lo_Op op \<noteq> ''put''" "lo_Op op \<noteq> ''delete''"
    by blast
  then show ?thesis
  proof cases
    case 1
    then show ?thesis using d same_view_put [OF assms(1)] by (auto split: prod.splits option.splits) blast+
  next
    case 2
    then show ?thesis using d same_view_del [OF assms(1)] by (auto split: prod.splits option.splits) blast+
  next
    case 3
    then show ?thesis using d assms(1) by auto
  qed
qed

lemma same_view_run:
  "same_view B s t \<Longrightarrow> fsm_run B log s = (s', rs) \<Longrightarrow> fsm_run B log t = (t', rs') \<Longrightarrow>
   rs = rs' \<and> same_view B s' t'"
proof (induction log arbitrary: s t rs rs')
  case Nil
  then show ?case by auto
next
  case (Cons l log)
  obtain s1 r where a: "fsm_Apply B l s = (s1, r)" by fastforce
  obtain t1 r' where b: "fsm_Apply B l t = (t1, r')" by fastforce
  obtain x where x: "fsm_run B log s1 = (s', x)" "rs = r # x" using Cons.prems a by (auto split: prod.splits)
  obtain y where y: "fsm_run B log t1 = (t', y)" "rs' = r' # y" using Cons.prems b by (auto split: prod.splits)
  show ?case using same_view_apply [OF Cons.prems(1) a b] Cons.IH [OF _ x(1) y(1)] x y by auto
qed

end

interpretation mem_det: det_engine mem_bolt
  by unfold_locales (auto simp: mem_put_def mem_delete_def set_mem_buckets split: option.splits if_splits)

lemma fsm_run_append:
  "fsm_run B (l1 @ l2) s =
     (case fsm_run B l1 s of (s1, r1) \<Rightarrow> (case fsm_run B l2 s1 of (s2, r2) \<Rightarrow> (s2, r1 @ r2)))"
  by (induction l1 arbitrary: s) (auto split: prod.splits)

section \<open>Snapshots\<close>

text \<open>Two association lists that enumerate the same Go map of maps.\<close>

definition same_map :: "(string \<times> doc) list \<Rightarrow> (string \<times> doc) list \<Rightarrow> bool" where
  "same_map x y \<longleftrightarrow> distinct (map fst x) \<and> distinct (map fst y) \<and> map_of x = map_of y"

definition same_snapshot :: "snapshot_data \<Rightarrow> snapshot_data \<Rightarrow> bool" where
  "same_snapshot x y \<longleftrightarrow> distinct (map fst x) \<and> distinct (map fst y) \<and>
     (\<forall>b. rel_option same_map (map_of x b) (map_of y b))"

context bolt_engine
begin

lemma restore_keys_Inr:
  assumes "restore_keys B b kvs db = Inr db'" "b \<in> set (bbuckets B db)" "distinct (map fst kvs)"
  shows "bbuckets B db' = bbuckets B db \<and>
    (\<forall>b' k. bget B db' b' k =
       (if b' = b then (case map_of kvs k of Some v \<Rightarrow> Some v | None \<Rightarrow> bget B db b k) else bget B db b' k))"
  using assms
proof (induction kvs arbitrary: db)
  case Nil
  then show ?case by simp
next
  case (Cons kv kvs)
  obtain k v where kv: "kv = (k, v)" by fastforce
  with Cons.prems obtain db1 where p: "bput B db b k v = Inr db1"
    and r: "restore_keys B b kvs db1 = Inr db'" by (auto split: sum.splits)
  have "map_of kvs k = None" using Cons.prems(3) kv by (simp add: map_of_eq_None_iff)
  then show ?case
    using Cons.IH [OF r] Cons.prems(2,3) kv buckets_put [OF p] get_put [OF Cons.prems(2) p]
    by (auto split: option.splits)
qed

lemma restore_buckets_Inr:
  assumes "restore_buckets B snap db = Inr db'"
    and "distinct (map fst snap)" "\<forall>e \<in> set snap. distinct (map fst (snd e))"
  shows "set (bbuckets B db') = fst ` set snap \<union> set (bbuckets B db) \<and>
    (\<forall>b k. bget B db' b k = (case map_of snap b of Some kvs \<Rightarrow> map_of kvs k | None \<Rightarrow> bget B db b k))"
  using assms
proof (induction snap arbitrary: db)
  case Nil
  then show ?case by simp
next
  case (Cons e snap)
  obtain b kvs where e: "e = (b, kvs)" by fastforce
  with Cons.prems obtain db1 db2 db3 where
    d: "bdrop B db b = Inr db1 \<or> (bdrop B db b = Inl BucketNotFound \<and> db1 = db)"
    and c: "bcreate B db1 b = Inr db2" and k: "restore_keys B b kvs db2 = Inr db3"
    and r: "restore_buckets B snap db3 = Inr db'"
    by (auto split: sum.splits if_splits)
  have d': "set (bbuckets B db1) - {b} = set (bbuckets B db) - {b}"
    "\<And>b' k. b' \<noteq> b \<Longrightarrow> bget B db1 b' k = bget B db b' k"
    using d buckets_drop get_drop by blast+
  have b2: "set (bbuckets B db2) = insert b (set (bbuckets B db))"
    using buckets_create [OF c] d'(1) by blast
  have g2: "bget B db2 b' k = (if b' = b then None else bget B db b' k)" for b' k
    using get_create [OF c] d'(2) by simp
  have "b \<in> set (bbuckets B db2)" "distinct (map fst kvs)" using b2 Cons.prems(3) e by auto
  note k3 = restore_keys_Inr [OF k this]
  have "map_of snap b = None" using Cons.prems(2) e by (simp add: map_of_eq_None_iff)
  then show ?case
    using Cons.IH [OF r] Cons.prems(2,3) e k3 b2 g2 by (auto split: option.splits)
qed

lemma restore_view:
  assumes "same_snapshot snap (dumpBolt B s)" "restoreBolt B (Some snap) t = (t', None)"
    and "\<And>b. has_bucket B t b \<Longrightarrow> has_bucket B s b"
  shows "same_view B s t'"
proof -
  have dump: "map_of (dumpBolt B s) b = (if has_bucket B s b then Some (bscan B (sdb s) b) else None)" for b
    by (simp add: dumpBolt_def has_bucket_def map_of_map_restrict restrict_map_def)
  have m: "rel_option same_map (map_of snap b) (map_of (dumpBolt B s) b)" for b
    using assms(1) by (simp add: same_snapshot_def)
  have ds: "distinct (map fst snap)" using assms(1) by (simp add: same_snapshot_def)
  have some: "\<exists>kvs. map_of snap b = Some kvs \<and> distinct (map fst kvs) \<and> map_of kvs = entries B s b"
    if "has_bucket B s b" for b
    using m [of b] dump [of b] that scan_get [of b "sdb s"]
    by (auto simp: option_rel_Some2 same_map_def has_bucket_def entries_def)
  have none: "map_of snap b = None" if "\<not> has_bucket B s b" for b
    using m [of b] dump [of b] that by simp
  have dd: "\<forall>e \<in> set snap. distinct (map fst (snd e))"
  proof
    fix e assume "e \<in> set snap"
    then have "map_of snap (fst e) = Some (snd e)" using ds by simp
    then show "distinct (map fst (snd e))" using some none by (metis option.distinct(1) option.inject)
  qed
  obtain db' where r: "restore_buckets B snap (sdb t) = Inr db'" and t': "t' = t\<lparr>sdb := db'\<rparr>"
    using assms(2) by (auto simp: restoreBolt_def bolt_update_Inr split: sum.splits)
  note R = restore_buckets_Inr [OF r ds dd]
  have f: "fst ` set snap = {b. has_bucket B s b}"
    using some none by (metis (mono_tags, lifting) dom_map_of_conv_image_fst domIff mem_Collect_eq
        option.distinct(1) set_eqI)
  have hb: "has_bucket B t' b = has_bucket B s b" for b
    using R f assms(3) [of b] by (auto simp: t' has_bucket_def)
  moreover have "entries B s b k = entries B t' b k" if "has_bucket B s b" for b k
    using some [OF that] R by (auto simp: t' entries_def)
  ultimately show ?thesis by (auto simp: same_view_def fun_eq_iff)
qed

end

section \<open>Replicas agree\<close>

text \<open>
  C4. State machine replication: two replicas whose stores have the same view and that apply
  the same committed log entries, in the same order, return the same result for every entry
  and end with the same view, whatever the entries are (undecodable ones, unknown operations
  and deletes of missing keys included).
\<close>

theorem replica_convergence:
  assumes "det_engine B" "same_view B s t"
    and "fsm_run B log s = (s', rs)" "fsm_run B log t = (t', rs')"
  shows "rs = rs' \<and> same_view B s' t'"
  by (rule det_engine.same_view_run [OF assms])

text \<open>
  Snapshots: a replica that restores the snapshot taken after a prefix of the log, in
  whatever order the maps are enumerated, and applies the rest of the log ends with the view
  of a replica that applied the whole log, and returns the same results for the rest.
\<close>

theorem snapshot_catch_up:
  assumes "det_engine B" "fsm_run B log1 s = (s1, rs1)"
    and "same_snapshot snap (dumpBolt B s1)" "restoreBolt B (Some snap) t = (t1, None)"
    and "\<forall>b. has_bucket B t b \<longrightarrow> has_bucket B s1 b"
    and "fsm_run B (log1 @ log2) s = (s2, rs)" "fsm_run B log2 t1 = (t2, rs2)"
  shows "rs = rs1 @ rs2 \<and> same_view B s2 t2"
proof -
  have e: "bolt_engine B" using assms(1) by (rule det_engine.axioms(1))
  obtain rs' where r: "fsm_run B log2 s1 = (s2, rs')" "rs = rs1 @ rs'"
    using assms(2,6) by (auto simp: fsm_run_append split: prod.splits)
  have "same_view B s1 t1" using bolt_engine.restore_view [OF e assms(3,4)] assms(5) by simp
  from det_engine.same_view_run [OF assms(1) this r(1) assms(7)] show ?thesis using r(2) by simp
qed

section \<open>The replicated store refines the local one\<close>

lemma decodeKind_marshal:
  "decodeKind KindContainer (Some (marshal containerT c)) = Inr (marshal containerT c)"
  "decodeKind KindFunction (Some (marshal functionT f)) = Inr (marshal functionT f)"
  "decodeKind KindBucket (Some (marshal bucketT b)) = Inr (marshal bucketT b)"
  "decodeKind KindAccessKey (Some (marshal accessKeyT a)) = Inr (marshal accessKeyT a)"
  "decodeKind KindSecret (Some (marshal secretT x)) = Inr (marshal secretT x)"
  "decodeKind KindEventRule (Some (marshal eventRuleT r)) = Inr (marshal eventRuleT r)"
  by (simp_all add: decodeKind_def kind_defs codec_defs)

lemma kind_ne: "KindContainer \<noteq> []" "KindFunction \<noteq> []" "KindBucket \<noteq> []"
  "KindAccessKey \<noteq> []" "KindSecret \<noteq> []" "KindEventRule \<noteq> []"
  by (simp_all add: kind_defs)

lemma applyTypedPut_eq:
  assumes "shouldReplicate env \<longrightarrow> re_leader env \<and> re_leader2 env \<and> re_future env = None"
    and "scoped_type T" "kind \<noteq> []" "\<And>v. decodeKind kind (Some (marshal T v)) = Inr (marshal T v)"
  shows "applyTypedPut B env T b kind uid t0 t1 v s = putScoped B T b kind uid t0 t1 v s"
proof (cases "shouldReplicate env")
  case True
  then show ?thesis using assms
    by (auto simp: applyTypedPut_def putScoped_def raft_Apply_def fsm_Apply_def fsm_apply_def Let_def
        scoped_type.getMeta_setMeta scoped_type.setMeta_setMeta mint_def split: prod.splits option.splits)
next
  case False
  then show ?thesis using assms(2)
    by (simp add: applyTypedPut_def putScoped_def Let_def scoped_type.getMeta_setMeta
        scoped_type.setMeta_setMeta)
qed

lemma applyTypedDelete_eq:
  assumes "shouldReplicate env \<longrightarrow> re_leader env \<and> re_leader2 env \<and> re_future env = None"
    and "kind \<notin> {KindNode, KindUser, KindToken}"
  shows "applyTypedDelete B env b kind p n s = delScoped B b kind (keyFor p n) p n s"
  using assms
  by (auto simp: applyTypedDelete_def localDelete_def delScoped_def raft_Apply_def fsm_Apply_def
      fsm_apply_def keyFor_def Let_def split: prod.splits option.splits)

text \<open>
  C6. Refinement: on a single-node deployment, and on the leader of a larger cluster whose
  Raft log commits the entry, every operation of the replicated store is the operation of the
  local store: the same stamped object, the same store, the same event offered to the
  subscribers and the same error.
\<close>

theorem replicated_refines_local:
  assumes "shouldReplicate env \<longrightarrow> re_leader env \<and> re_leader2 env \<and> re_future env = None"
  shows "rs_PutContainer B env = PutContainer B \<and> rs_DeleteContainer B env = DeleteContainer B \<and>
    rs_PutFunction B env = PutFunction B \<and> rs_DeleteFunction B env = DeleteFunction B \<and>
    rs_PutBucket B env = PutBucket B \<and> rs_DeleteBucket B env = DeleteBucket B \<and>
    rs_PutAccessKey B env = PutAccessKey B \<and> rs_DeleteAccessKey B env = DeleteAccessKey B \<and>
    rs_PutSecret B env = PutSecret B \<and> rs_DeleteSecret B env = DeleteSecret B \<and>
    rs_PutEventRule B env = PutEventRule B \<and> rs_DeleteEventRule B env = DeleteEventRule B"
proof -
  note p = applyTypedPut_eq [OF assms] and d = applyTypedDelete_eq [OF assms]
  have "rs_PutContainer B env = PutContainer B" "rs_PutFunction B env = PutFunction B"
    "rs_PutBucket B env = PutBucket B" "rs_PutAccessKey B env = PutAccessKey B"
    "rs_PutSecret B env = PutSecret B" "rs_PutEventRule B env = PutEventRule B"
    unfolding rs_PutContainer_def rs_PutFunction_def rs_PutBucket_def rs_PutAccessKey_def
      rs_PutSecret_def rs_PutEventRule_def PutContainer_def PutFunction_def PutBucket_def
      PutAccessKey_def PutSecret_def PutEventRule_def
    by (intro ext p; (simp add: decodeKind_marshal kind_ne)?; unfold_locales)+
  moreover have "rs_DeleteContainer B env = DeleteContainer B" "rs_DeleteFunction B env = DeleteFunction B"
    "rs_DeleteBucket B env = DeleteBucket B" "rs_DeleteAccessKey B env = DeleteAccessKey B"
    "rs_DeleteSecret B env = DeleteSecret B" "rs_DeleteEventRule B env = DeleteEventRule B"
    by (intro ext; simp add: rs_DeleteContainer_def rs_DeleteFunction_def rs_DeleteBucket_def
      rs_DeleteAccessKey_def rs_DeleteSecret_def rs_DeleteEventRule_def DeleteContainer_def
      DeleteFunction_def DeleteBucket_def DeleteAccessKey_def DeleteSecret_def DeleteEventRule_def
      d kind_defs)+
  ultimately show ?thesis by simp
qed

lemma raft_Apply_fails:
  assumes "\<not> re_leader2 env \<or> re_future env \<noteq> None"
  shows "\<exists>e. \<forall>op. raft_Apply B env op s =
    (if re_leader2 env \<and> re_applied env then fst (fsm_Apply B (Some op) s) else s, Some e)"
  using assms by (cases "re_leader2 env") (auto simp: raft_Apply_def)


section \<open>Witnesses\<close>

lemma mem_det_engine: "det_engine mem_bolt"
  by unfold_locales

theorem replica_convergence_witness:
  "snd (fsm_run mem_bolt demo_log with_containers) = snd (fsm_run mem_bolt demo_log (with_containers\<lparr>subs := []\<rparr>)) \<and>
   same_view mem_bolt (fst (fsm_run mem_bolt demo_log with_containers))
     (fst (fsm_run mem_bolt demo_log (with_containers\<lparr>subs := []\<rparr>)))"
  by (rule replica_convergence [OF mem_det_engine, where s = with_containers
        and t = "with_containers\<lparr>subs := []\<rparr>"])
    (simp_all add: same_view_def has_bucket_def entries_def fun_eq_iff)

theorem snapshot_catch_up_witness:
  "\<exists>t1. restoreBolt mem_bolt (Some (dumpBolt mem_bolt with_containers)) fresh_store = (t1, None) \<and>
     same_view mem_bolt (fst (fsm_run mem_bolt demo_log with_containers)) (fst (fsm_run mem_bolt demo_log t1))"
proof -
  let ?r = "restoreBolt mem_bolt (Some (dumpBolt mem_bolt with_containers)) fresh_store"
  have r: "?r = (fst ?r, None)" by code_simp
  have s: "same_snapshot (dumpBolt mem_bolt with_containers) (dumpBolt mem_bolt with_containers)"
    using mem.scan_distinct mem.buckets_distinct
    by (auto simp: same_snapshot_def dumpBolt_def o_def map_of_map_restrict restrict_map_def same_map_def)
  have b: "mem_buckets (sdb fresh_store) = mem_buckets (sdb with_containers)" by code_simp
  have l: "fsm_run mem_bolt [] with_containers = (with_containers, [])" by simp
  have "same_view mem_bolt (fst (fsm_run mem_bolt demo_log with_containers)) (fst (fsm_run mem_bolt demo_log (fst ?r)))"
    using snapshot_catch_up [OF mem_det_engine l s r _ _ prod.collapse [symmetric],
        of demo_log "fst (fsm_run mem_bolt demo_log with_containers)" "snd (fsm_run mem_bolt demo_log with_containers)"] b
    by (simp add: has_bucket_def)
  then show ?thesis using r by blast
qed

theorem replicated_refines_local_witness:
  "rs_PutContainer mem_bolt (leader_env None) = PutContainer mem_bolt \<and> shouldReplicate (leader_env None)"
proof -
  have "shouldReplicate (leader_env None) \<longrightarrow> re_leader (leader_env None) \<and>
      re_leader2 (leader_env None) \<and> re_future (leader_env None) = None"
    by (simp add: leader_env_def)
  from replicated_refines_local [OF this, of mem_bolt] show ?thesis
    by (simp add: shouldReplicate_def leader_env_def)
qed


end
