(* ===== verification/Auth.thy ===== *)
theory Auth
  imports Store
begin

text \<open>
  Authentication, \<^verbatim>\<open>internal/auth/auth.go\<close>: password hashes, API tokens, the one-time
  bootstrap token, and login. The hash functions are parameters: \<open>H\<close> is \<^verbatim>\<open>sha256.Sum256\<close> and
  \<open>kdf plain salt n\<close> is \<^verbatim>\<open>argon2.IDKey\<close> with the cost parameters of the code and key length
  \<open>n\<close>. What \<^verbatim>\<open>rand.Read\<close> returns is an argument, and so are the readings of the clock and of
  \<^verbatim>\<open>newUID\<close>: \<open>clk i\<close> and \<open>uid i\<close> are the readings an operation makes, in order.
\<close>

definition HashToken :: "(bytes \<Rightarrow> bytes) \<Rightarrow> string \<Rightarrow> string" where
  "HashToken H plain = hexEncode (H plain)"

definition GenerateToken :: "error + bytes \<Rightarrow> error + string" where
  "GenerateToken rnd = (case rnd of Inl e \<Rightarrow> Inl e | Inr b \<Rightarrow> Inr (''sct_'' @ hexEncode b))"

definition HashPassword ::
  "(bytes \<Rightarrow> bytes \<Rightarrow> nat \<Rightarrow> bytes) \<Rightarrow> error + bytes \<Rightarrow> string \<Rightarrow> error + string" where
  "HashPassword kdf rnd plain =
     (case rnd of Inl e \<Rightarrow> Inl e
      | Inr salt \<Rightarrow> Inr (''$argon2id$v=19$m=65536,t=3,p=2$'' @ hexEncode salt @ ''$'' @
          hexEncode (kdf plain salt 32)))"

text \<open>The constant-time comparison: \<^verbatim>\<open>diff |= got[i] ^ want[i]\<close> over the indices of \<open>got\<close>.\<close>

fun diff_bytes :: "8 word \<Rightarrow> bytes \<Rightarrow> bytes \<Rightarrow> 8 word" where
  "diff_bytes d (g # got) (w # want) =
     diff_bytes (or d (xor (of_char g) (of_char w))) got want"
| "diff_bytes d got want = d"

definition VerifyPassword ::
  "(bytes \<Rightarrow> bytes \<Rightarrow> nat \<Rightarrow> bytes) \<Rightarrow> string \<Rightarrow> string \<Rightarrow> bool" where
  "VerifyPassword kdf plain encoded =
     (let parts = SplitByte encoded CHR ''$'' in
      if length parts \<noteq> 6 \<or> parts ! 1 \<noteq> ''argon2id'' then False
      else case hexDecode (parts ! 4) of None \<Rightarrow> False
           | Some salt \<Rightarrow>
               (case hexDecode (parts ! 5) of None \<Rightarrow> False
                | Some want \<Rightarrow>
                    (let got = kdf plain salt (length want) in
                     if length got \<noteq> length want then False
                     else diff_bytes 0 got want = 0)))"

record identity =
  id_UserID :: string
  id_Email :: string
  id_IsAdmin :: bool
  id_Token :: string

section \<open>The bootstrap token\<close>

definition CreateBootstrapToken ::
  "'db bolt \<Rightarrow> (bytes \<Rightarrow> bytes) \<Rightarrow> error + bytes \<Rightarrow> time \<Rightarrow> 'db store \<Rightarrow> 'db store \<times> (error + string)"
where
  "CreateBootstrapToken B H rnd now s =
     (case GenerateToken rnd of Inl e \<Rightarrow> (s, Inl e)
      | Inr plain \<Rightarrow>
          (case GetCluster B s of Inl e \<Rightarrow> (s, Inl e)
           | Inr cfg \<Rightarrow>
               (case PutCluster B now (cfg\<lparr>cc_BootstrapToken := HashToken H plain\<rparr>) s of
                  (_, s', Some e) \<Rightarrow> (s', Inl e)
                | (_, s', None) \<Rightarrow> (s', Inr plain))))"

definition VerifyBootstrapToken ::
  "'db bolt \<Rightarrow> (bytes \<Rightarrow> bytes) \<Rightarrow> string \<Rightarrow> 'db store \<Rightarrow> error option" where
  "VerifyBootstrapToken B H plain s =
     (case GetCluster B s of Inl e \<Rightarrow> Some e
      | Inr cfg \<Rightarrow> if cc_BootstrapToken cfg = [] then Some ErrInvalidCredentials
                  else if HashToken H plain \<noteq> cc_BootstrapToken cfg then Some ErrInvalidCredentials
                  else None)"

definition ConsumeBootstrapToken ::
  "'db bolt \<Rightarrow> (bytes \<Rightarrow> bytes) \<Rightarrow> time \<Rightarrow> string \<Rightarrow> 'db store \<Rightarrow> 'db store \<times> error option" where
  "ConsumeBootstrapToken B H now plain s =
     (case GetCluster B s of Inl e \<Rightarrow> (s, Some e)
      | Inr cfg \<Rightarrow>
          if cc_BootstrapToken cfg = [] then (s, Some ErrInvalidCredentials)
          else if HashToken H plain \<noteq> cc_BootstrapToken cfg then (s, Some ErrInvalidCredentials)
          else (case PutCluster B now (cfg\<lparr>cc_BootstrapToken := [], cc_Initialized := True\<rparr>) s of
                  (_, s', r) \<Rightarrow> (s', r)))"

section \<open>Users and tokens\<close>

definition CreateUser ::
  "'db bolt \<Rightarrow> (bytes \<Rightarrow> bytes \<Rightarrow> nat \<Rightarrow> bytes) \<Rightarrow> error + bytes \<Rightarrow> string \<Rightarrow> time \<Rightarrow> time \<Rightarrow>
   string \<Rightarrow> string \<Rightarrow> string \<Rightarrow> bool \<Rightarrow> 'db store \<Rightarrow> 'db store \<times> (error + user)" where
  "CreateUser B kdf rnd uid t0 t1 name email password admin s =
     (case HashPassword kdf rnd password of Inl e \<Rightarrow> (s, Inl e)
      | Inr hash \<Rightarrow>
          (case PutUser B uid t0 t1
                  \<lparr>u_Meta = zero_meta\<lparr>m_Project := ''system'', m_Name := name\<rparr>, u_Email = email,
                   u_PasswordHash = hash, u_IsAdmin = admin, u_LastLoginAt = 0\<rparr> s of
             (_, s', Some e) \<Rightarrow> (s', Inl e)
           | (u, s', None) \<Rightarrow> (s', Inr (u\<lparr>u_PasswordHash := []\<rparr>))))"

definition CreateToken ::
  "'db bolt \<Rightarrow> (bytes \<Rightarrow> bytes) \<Rightarrow> error + bytes \<Rightarrow> string \<Rightarrow> (nat \<Rightarrow> time) \<Rightarrow>
   string \<Rightarrow> string \<Rightarrow> duration \<Rightarrow> bool \<Rightarrow> 'db store \<Rightarrow> 'db store \<times> (error + token)" where
  "CreateToken B H rnd uid clk name userID ttl admin s =
     (case GenerateToken rnd of Inl e \<Rightarrow> (s, Inl e)
      | Inr plain \<Rightarrow>
          (let t = \<lparr>t_Meta = zero_meta\<lparr>m_Project := ''system'', m_Name := name\<rparr>, t_UserID = userID,
                    t_HashHex = HashToken H plain, t_Plaintext = plain, t_ExpiresAt = 0,
                    t_IsAdmin = admin\<rparr>;
               t = (if ttl > 0 then t\<lparr>t_ExpiresAt := clk 0 + ttl\<rparr> else t)
           in case PutToken B uid (clk 1) (clk 2) t s of
                (_, s', Some e) \<Rightarrow> (s', Inl e)
              | (t', s', None) \<Rightarrow> (s', Inr t')))"

definition ResolveToken ::
  "'db bolt \<Rightarrow> (bytes \<Rightarrow> bytes) \<Rightarrow> time \<Rightarrow> string \<Rightarrow> 'db store \<Rightarrow> error + identity" where
  "ResolveToken B H now plain s =
     (case GetTokenByHash B (HashToken H plain) s of
        Inl e \<Rightarrow> Inl ErrInvalidCredentials
      | Inr t \<Rightarrow>
          if \<not> isZero (t_ExpiresAt t) \<and> now > t_ExpiresAt t then Inl ErrAuthTokenExpired
          else Inr \<lparr>id_UserID = t_UserID t, id_Email = [], id_IsAdmin = t_IsAdmin t,
                     id_Token = m_Name (t_Meta t)\<rparr>)"

definition Login ::
  "'db bolt \<Rightarrow> (bytes \<Rightarrow> bytes) \<Rightarrow> (bytes \<Rightarrow> bytes \<Rightarrow> nat \<Rightarrow> bytes) \<Rightarrow> error + bytes \<Rightarrow>
   (nat \<Rightarrow> string) \<Rightarrow> (nat \<Rightarrow> time) \<Rightarrow> string \<Rightarrow> string \<Rightarrow> 'db store \<Rightarrow>
   'db store \<times> (error + (token \<times> user))" where
  "Login B H kdf rnd uid clk email password s =
     (case GetUserByEmail B email s of Inl e \<Rightarrow> (s, Inl ErrInvalidCredentials)
      | Inr u \<Rightarrow>
          if \<not> VerifyPassword kdf password (u_PasswordHash u) then (s, Inl ErrInvalidCredentials)
          else (case CreateToken B H rnd (uid 0) (\<lambda>i. clk (1 + i))
                       (''session-'' @ Itoa (Unix (clk 0))) (m_Name (u_Meta u)) (30 * 24 * hour)
                       (u_IsAdmin u) s of
                  (s', Inl e) \<Rightarrow> (s', Inl e)
                | (s', Inr tok) \<Rightarrow>
                    (case PutUser B (uid 1) (clk 5) (clk 6) (u\<lparr>u_LastLoginAt := clk 4\<rparr>) s' of
                       (u', s'', _) \<Rightarrow> (s'', Inr (tok, u'\<lparr>u_PasswordHash := []\<rparr>)))))"

end
