(* ===== verification/Auth_Props.thy ===== *)
theory Auth_Props
  imports Auth Store_Props
begin

text \<open>
  Properties of authentication: passwords, the bootstrap token, API tokens and logins.
\<close>

section \<open>Passwords\<close>

lemma of_char_word8 [simp]: "(of_char c :: 8 word) = of_char d \<longleftrightarrow> c = d"
proof
  assume "(of_char c :: 8 word) = of_char d"
  then have "unat (of_nat (of_char c) :: 8 word) = unat (of_nat (of_char d) :: 8 word)"
    by (simp only: of_nat_of_char)
  then show "c = d" by (simp add: unat_of_nat nat_of_char_less_256)
qed simp

lemma xor_eq_0 [simp]: "xor a b = 0 \<longleftrightarrow> a = (b :: 8 word)"
  by (metis xor.assoc xor.left_neutral xor.right_neutral xor_self_eq)

lemma diff_bytes_zero:
  "length got = length want \<Longrightarrow> diff_bytes d got want = 0 \<longleftrightarrow> d = 0 \<and> got = want"
  by (induction d got want rule: diff_bytes.induct) (auto simp: or_eq_0_iff)

text \<open>
  Password hashes round-trip: the string \<^verbatim>\<open>HashPassword\<close> builds is parsed back by
  \<^verbatim>\<open>VerifyPassword\<close>, which accepts a password exactly when argon2 gives it the same key under
  the stored salt; in particular it accepts the password that was hashed.
\<close>

theorem password_roundtrip:
  assumes "HashPassword kdf rnd q = Inr enc" "\<forall>p salt n. length (kdf p salt n) = n"
  shows "\<exists>salt. rnd = Inr salt \<and> (VerifyPassword kdf p enc \<longleftrightarrow> kdf p salt 32 = kdf q salt 32)"
proof -
  obtain salt where s: "rnd = Inr salt"
    and e: "enc = ''$argon2id$v=19$m=65536,t=3,p=2$'' @ hexEncode salt @ ''$'' @ hexEncode (kdf q salt 32)"
    using assms(1) by (auto simp: HashPassword_def split: sum.splits)
  have "SplitByte (hexEncode salt @ CHR ''$'' # hexEncode (kdf q salt 32)) CHR ''$'' =
      [hexEncode salt, hexEncode (kdf q salt 32)]"
    by (simp add: SplitByte_append SplitByte_no_sep hexEncode_no_dollar)
  then have "SplitByte enc CHR ''$'' =
      [[], ''argon2id'', ''v=19'', ''m=65536,t=3,p=2'', hexEncode salt, hexEncode (kdf q salt 32)]"
    by (simp add: e)
  then show ?thesis using s assms(2) by (simp add: VerifyPassword_def diff_bytes_zero)
qed

section \<open>Helpers on the cluster configuration and the token table\<close>

definition stored_tokens :: "'db bolt \<Rightarrow> 'db store \<Rightarrow> token set" where
  "stored_tokens B s = {t. \<exists>k. entries B s ''tokens'' k = Some (DToken t)}"

lemma find_Some_set: "find P xs = Some x \<Longrightarrow> x \<in> set xs \<and> P x"
  by (induction xs) (auto split: if_splits)

context bolt_engine
begin

lemma GetCluster_after_Put:
  assumes "PutCluster B now c s = (c', s', None)"
  shows "GetCluster B s' = Inr c'" "c' = c\<lparr>cc_CreatedAt := cc_CreatedAt c', cc_UpdatedAt := now\<rparr>"
proof -
  obtain s1 where p: "store_put B ''cluster'' ''config'' (DCluster c') s = (s1, None)"
    and e: "entries B s' = entries B s1" "has_bucket B s' = has_bucket B s1"
    using assms by (auto simp: PutCluster_def Let_def split: prod.splits option.splits)
  have "has_bucket B s1 ''cluster''"
    using p kv.kput_has [OF p] by (auto simp: store_put_None has_bucket_def)
  then have "store_get B as_cluster ''cluster'' ''config'' s' = Inr c'"
    using e kv.lookup_kput [OF p] by (simp add: store_get_Inr as_cluster_def)
  then show "GetCluster B s' = Inr c'" by (simp add: GetCluster_def)
  show "c' = c\<lparr>cc_CreatedAt := cc_CreatedAt c', cc_UpdatedAt := now\<rparr>"
    using assms by (auto simp: PutCluster_def Let_def split: prod.splits option.splits)
qed

lemma PutCluster_error: "PutCluster B now c s = (c', s', Some e) \<Longrightarrow> s' = s"
  by (auto simp: PutCluster_def Let_def split: prod.splits option.splits dest: store_put_Some)

lemma token_list:
  assumes "has_bucket B s ''tokens''"
  shows "\<exists>ds. store_list B ''tokens'' [] s = Inr ds \<and> set (List.map_filter (unmarshal tokenT) ds) = stored_tokens B s"
proof -
  obtain ds where ds: "store_list B ''tokens'' [] s = Inr ds"
    "set ds = {d. \<exists>k. HasPrefix k [] \<and> entries B s ''tokens'' k = Some d}"
    using kv.set_klist [OF assms] by blast
  have "set (List.map_filter (unmarshal tokenT) ds) = {v. \<exists>d \<in> set ds. unmarshal tokenT d = Some v}"
    by (auto simp: map_filter_def image_iff) (metis option.sel)
  then show ?thesis
    using ds tokenT.unmarshal_iff by (auto simp: stored_tokens_def tokenT_def split: doc.splits)
qed

lemma GetTokenByHash_sound:
  assumes "has_bucket B s ''tokens''" "GetTokenByHash B h s = Inr t"
  shows "t \<in> stored_tokens B s \<and> t_HashHex t = h"
proof -
  obtain ds where ds: "store_list B ''tokens'' [] s = Inr ds"
    "set (List.map_filter (unmarshal tokenT) ds) = stored_tokens B s"
    using token_list [OF assms(1)] by blast
  then show ?thesis
    using assms(2) by (auto simp: GetTokenByHash_def split: option.splits dest!: find_Some_set)
qed

lemma GetTokenByHash_unique:
  assumes "has_bucket B s ''tokens''" "t \<in> stored_tokens B s" "t_HashHex t = h"
    and "\<And>t'. t' \<in> stored_tokens B s \<Longrightarrow> t_HashHex t' = h \<Longrightarrow> t' = t"
  shows "GetTokenByHash B h s = Inr t"
proof -
  obtain ds where ds: "store_list B ''tokens'' [] s = Inr ds"
    "set (List.map_filter (unmarshal tokenT) ds) = stored_tokens B s"
    using token_list [OF assms(1)] by blast
  then obtain t' where f: "find (\<lambda>t. t_HashHex t = h) (List.map_filter (unmarshal tokenT) ds) = Some t'"
    using assms(2,3) by (metis (mono_tags, lifting) find_None_iff not_Some_eq)
  then have "t' \<in> stored_tokens B s \<and> t_HashHex t' = h"
    using ds(2) by (auto dest: find_Some_set)
  then show ?thesis using ds(1) f assms(4) by (simp add: GetTokenByHash_def)
qed

lemma GetTokenByHash_none:
  assumes "has_bucket B s ''tokens''" "\<And>t. t \<in> stored_tokens B s \<Longrightarrow> t_HashHex t \<noteq> h"
  shows "GetTokenByHash B h s = Inl ErrNotFound"
proof -
  obtain ds where ds: "store_list B ''tokens'' [] s = Inr ds"
    "set (List.map_filter (unmarshal tokenT) ds) = stored_tokens B s"
    using token_list [OF assms(1)] by blast
  then have "find (\<lambda>t. t_HashHex t = h) (List.map_filter (unmarshal tokenT) ds) = None"
    using assms(2) by (simp add: find_None_iff)
  then show ?thesis using ds(1) by (simp add: GetTokenByHash_def)
qed

text \<open>What a successful \<^verbatim>\<open>PutToken\<close> of a named token of the system project stores.\<close>

lemma PutToken_stored:
  assumes "PutToken B uid t0 t1 t s = (t', s', None)" "m_Project (t_Meta t) = ''system''"
  shows "entries B s' b k = (if b = ''tokens'' \<and> k = ''system/'' @ m_Name (t_Meta t)
      then Some (DToken (t'\<lparr>t_Plaintext := []\<rparr>)) else entries B s b k)"
    and "t' = t\<lparr>t_Meta := put_meta uid t0 t1 (t_Meta t)\<rparr>" "has_bucket B s' = has_bucket B s"
    and "has_bucket B s' ''tokens''"
proof -
  note st = tables(7) [OF bolt_engine_axioms]
  let ?v = "t\<lparr>t_Plaintext := []\<rparr>"
  obtain v' where p: "putScoped B tokenT ''tokens'' KindToken uid t0 t1 ?v s = (v', s', None)"
    and t': "t' = t\<lparr>t_Meta := t_Meta v'\<rparr>"
    using assms by (auto simp: PutToken_def setProject_def tokenT_def Let_def split: prod.splits option.splits)
  have v': "v' = ?v\<lparr>t_Meta := put_meta uid t0 t1 (t_Meta t)\<rparr>"
    using scoped_table.getMeta_putScoped [OF st p] by (simp add: tokenT_def)
  show "entries B s' b k = (if b = ''tokens'' \<and> k = ''system/'' @ m_Name (t_Meta t)
      then Some (DToken (t'\<lparr>t_Plaintext := []\<rparr>)) else entries B s b k)"
    using scoped_table.entries_putScoped [OF st p, of b k] v' t' assms(2)
    by (simp add: tokenT_def scoped_key_def keyFor_def)
  show "t' = t\<lparr>t_Meta := put_meta uid t0 t1 (t_Meta t)\<rparr>" using t' v' by simp
  show "has_bucket B s' = has_bucket B s" by (rule scoped_table.has_bucket_putScoped [OF st p])
  show "has_bucket B s' ''tokens''"
    using scoped_table.get_after_put [OF st p] by (simp add: store_get_Inr)
qed

end

section \<open>The bootstrap token\<close>

lemma hexEncode_Nil [simp]: "hexEncode x = [] \<longleftrightarrow> x = []"
  by (cases x) (simp_all add: Let_def)

lemma hash_nonempty:
  assumes "\<forall>x. length (H x) = 32"
  shows "HashToken H p \<noteq> []"
proof -
  have "length (H p) = 32" using assms by blast
  then show ?thesis by (auto simp: HashToken_def)
qed

text \<open>
  C8. The bootstrap token is one-time: the issued token verifies; only a token with its hash
  can be consumed; once it is consumed the cluster is initialized and every later
  verification or consumption, of any token, fails with invalid credentials and leaves the
  store as it was.
\<close>

theorem bootstrap_token_one_time:
  assumes "bolt_engine B" "\<forall>x. length (H x) = 32"
    and "CreateBootstrapToken B H rnd now s = (s1, Inr plain)"
    and "ConsumeBootstrapToken B H now' p s1 = (s2, None)"
  shows "H p = H plain \<and> VerifyBootstrapToken B H plain s1 = None \<and>
    (\<exists>cfg. GetCluster B s2 = Inr cfg \<and> cc_Initialized cfg) \<and>
    (\<forall>q t. VerifyBootstrapToken B H q s2 = Some ErrInvalidCredentials \<and>
           ConsumeBootstrapToken B H t q s2 = (s2, Some ErrInvalidCredentials))"
proof -
  obtain cfg c1 where p1: "PutCluster B now (cfg\<lparr>cc_BootstrapToken := HashToken H plain\<rparr>) s = (c1, s1, None)"
    using assms(3) by (auto simp: CreateBootstrapToken_def split: sum.splits prod.splits option.splits)
  note g1 = bolt_engine.GetCluster_after_Put [OF assms(1) p1]
  have b1: "cc_BootstrapToken c1 = HashToken H plain" by (subst g1(2)) simp
  obtain c2 where p2: "PutCluster B now' (c1\<lparr>cc_BootstrapToken := [], cc_Initialized := True\<rparr>) s1 = (c2, s2, None)"
    and eq: "HashToken H p = HashToken H plain"
    using assms(4) g1(1) b1 by (auto simp: ConsumeBootstrapToken_def split: if_splits prod.splits)
  note g2 = bolt_engine.GetCluster_after_Put [OF assms(1) p2]
  have b2: "cc_BootstrapToken c2 = []" "cc_Initialized c2" by (subst g2(2), simp)+
  show ?thesis
    using eq g1(1) b1 g2(1) b2 hash_nonempty [OF assms(2), of plain]
    by (simp add: VerifyBootstrapToken_def ConsumeBootstrapToken_def HashToken_def)
qed

section \<open>Tokens\<close>

lemma CreateToken_put:
  assumes "CreateToken B H rnd uid clk name userID ttl admin s = (s', Inr tok)"
  shows "\<exists>t. PutToken B uid (clk 1) (clk 2) t s = (tok, s', None) \<and> m_Project (t_Meta t) = ''system'' \<and>
    m_Name (t_Meta t) = name \<and> t_UserID t = userID \<and> t_HashHex t = HashToken H (t_Plaintext t) \<and>
    t_IsAdmin t = admin \<and> t_ExpiresAt t = (if ttl > 0 then clk 0 + ttl else 0)"
  using assms by (auto simp: CreateToken_def Let_def zero_meta_def split: sum.splits prod.splits option.splits if_splits)

lemma CreateToken_lookup:
  assumes "bolt_engine B" "CreateToken B H rnd uid clk name userID ttl admin s = (s', Inr tok)"
    and "\<forall>t \<in> stored_tokens B s. t_HashHex t \<noteq> HashToken H (t_Plaintext tok)"
  shows "GetTokenByHash B (HashToken H (t_Plaintext tok)) s' = Inr (tok\<lparr>t_Plaintext := []\<rparr>)"
proof -
  obtain t where p: "PutToken B uid (clk 1) (clk 2) t s = (tok, s', None)" "m_Project (t_Meta t) = ''system''"
    and t: "t_HashHex t = HashToken H (t_Plaintext t)"
    using CreateToken_put [OF assms(2)] by blast
  note S = bolt_engine.PutToken_stored [OF assms(1) p]
  show ?thesis
  proof (rule bolt_engine.GetTokenByHash_unique [OF assms(1) S(4)])
    show "tok\<lparr>t_Plaintext := []\<rparr> \<in> stored_tokens B s'"
      using S(1) by (force simp: stored_tokens_def)
    show "t_HashHex (tok\<lparr>t_Plaintext := []\<rparr>) = HashToken H (t_Plaintext tok)" using S(2) t by simp
  next
    fix t' assume "t' \<in> stored_tokens B s'" "t_HashHex t' = HashToken H (t_Plaintext tok)"
    then show "t' = tok\<lparr>t_Plaintext := []\<rparr>"
      using S(1) assms(3) by (auto simp: stored_tokens_def split: if_splits)
  qed
qed

text \<open>
  A created token resolves to the identity it was created for, until it expires: with a
  positive time to live it resolves up to and including its expiry and afterwards yields
  \<^verbatim>\<open>ErrTokenExpired\<close>; without one it does not expire. What is stored is the hash, never the
  plaintext. The hypothesis excludes a stored token with the same SHA-256 hash.
\<close>

theorem token_lifecycle:
  assumes "bolt_engine B" "0 < clk 0"
    and "CreateToken B H rnd uid clk name userID ttl admin s = (s', Inr tok)"
    and "\<forall>t \<in> stored_tokens B s. t_HashHex t \<noteq> HashToken H (t_Plaintext tok)"
  shows "ResolveToken B H now (t_Plaintext tok) s' =
      (if ttl > 0 \<and> now > clk 0 + ttl then Inl ErrAuthTokenExpired
       else Inr \<lparr>id_UserID = userID, id_Email = [], id_IsAdmin = admin, id_Token = name\<rparr>) \<and>
    entries B s' ''tokens'' (''system/'' @ name) = Some (DToken (tok\<lparr>t_Plaintext := []\<rparr>))"
proof -
  obtain t where p: "PutToken B uid (clk 1) (clk 2) t s = (tok, s', None)" "m_Project (t_Meta t) = ''system''"
    and t: "m_Name (t_Meta t) = name" "t_UserID t = userID" "t_HashHex t = HashToken H (t_Plaintext t)"
      "t_IsAdmin t = admin" "t_ExpiresAt t = (if ttl > 0 then clk 0 + ttl else 0)"
    using CreateToken_put [OF assms(3)] by blast
  note S = bolt_engine.PutToken_stored [OF assms(1) p]
  note L = CreateToken_lookup [OF assms(1,3,4)]
  show ?thesis using L S(1,2) t assms(2) by (auto simp: ResolveToken_def)
qed

text \<open>
  C9. Only stored tokens resolve: an identity is returned only for a plaintext whose hash is
  that of a stored token that has not expired, and it is that token's user, admin flag and
  name; a plaintext whose hash is not stored yields invalid credentials.
\<close>

theorem ResolveToken_sound:
  assumes "bolt_engine B" "store_wf B s"
  shows "(\<forall>i. ResolveToken B H now plain s = Inr i \<longrightarrow>
      (\<exists>t \<in> stored_tokens B s. t_HashHex t = HashToken H plain \<and>
         (t_ExpiresAt t = 0 \<or> now \<le> t_ExpiresAt t) \<and> id_UserID i = t_UserID t \<and>
         id_IsAdmin i = t_IsAdmin t \<and> id_Token i = m_Name (t_Meta t))) \<and>
    ((\<forall>t \<in> stored_tokens B s. t_HashHex t \<noteq> HashToken H plain) \<longrightarrow>
      ResolveToken B H now plain s = Inl ErrInvalidCredentials)"
proof -
  have b: "has_bucket B s ''tokens''" using assms(2) by (simp add: store_wf_def rootBuckets_def)
  have "\<exists>t \<in> stored_tokens B s. t_HashHex t = HashToken H plain \<and>
         (t_ExpiresAt t = 0 \<or> now \<le> t_ExpiresAt t) \<and> id_UserID i = t_UserID t \<and>
         id_IsAdmin i = t_IsAdmin t \<and> id_Token i = m_Name (t_Meta t)"
    if r: "ResolveToken B H now plain s = Inr i" for i
  proof -
    obtain t where t: "GetTokenByHash B (HashToken H plain) s = Inr t"
      using r by (auto simp: ResolveToken_def split: sum.splits)
    show ?thesis
      using bolt_engine.GetTokenByHash_sound [OF assms(1) b t] r
      by (intro bexI [of _ t]) (auto simp: ResolveToken_def t split: if_splits)
  qed
  moreover have "ResolveToken B H now plain s = Inl ErrInvalidCredentials"
    if "\<forall>t \<in> stored_tokens B s. t_HashHex t \<noteq> HashToken H plain"
    using bolt_engine.GetTokenByHash_none [OF assms(1) b, of "HashToken H plain"] that
    by (simp add: ResolveToken_def)
  ultimately show ?thesis by blast
qed

section \<open>Login\<close>

lemma PutUser_frame:
  assumes "bolt_engine B" "PutUser B uid t0 t1 u s = (u', s', r)"
  shows "entries B s' ''tokens'' = entries B s ''tokens'' \<and> has_bucket B s' = has_bucket B s"
proof (cases r)
  case None
  then show ?thesis
    using assms(2) scoped_table.entries_putScoped [OF tables(6) [OF assms(1)]]
      scoped_table.has_bucket_putScoped [OF tables(6) [OF assms(1)]]
    unfolding PutUser_def by (fastforce simp: fun_eq_iff)
next
  case (Some e)
  then show ?thesis using assms(2) putScoped_Some unfolding PutUser_def by metis
qed

lemma Login_Inr:
  assumes "Login B H kdf rnd uid clk email password s = (s', Inr (tok, u))"
  obtains u0 s1 u1 r where "GetUserByEmail B email s = Inr u0"
    "VerifyPassword kdf password (u_PasswordHash u0)"
    "CreateToken B H rnd (uid 0) (\<lambda>i. clk (1 + i)) (''session-'' @ Itoa (Unix (clk 0)))
       (m_Name (u_Meta u0)) (30 * 24 * hour) (u_IsAdmin u0) s = (s1, Inr tok)"
    "PutUser B (uid 1) (clk 5) (clk 6) (u0\<lparr>u_LastLoginAt := clk 4\<rparr>) s1 = (u1, s', r)"
    "u = u1\<lparr>u_PasswordHash := []\<rparr>"
  using assms by (auto simp: Login_def split: sum.splits if_splits prod.splits)

text \<open>
  Login: with an unknown email or a wrong password it returns invalid credentials and
  changes nothing; when it returns a token, a user with that email exists whose password
  verifies, the token is that user's with the user's admin rights and 30 days to live, its
  hashed form is stored, and the returned user carries no password hash.
\<close>

theorem Login_spec:
  assumes "bolt_engine B" "Login B H kdf rnd uid clk email password s = (s', res)"
  shows "((\<forall>u. GetUserByEmail B email s = Inr u \<longrightarrow> \<not> VerifyPassword kdf password (u_PasswordHash u)) \<longrightarrow>
      s' = s \<and> res = Inl ErrInvalidCredentials) \<and>
    (\<forall>tok u. res = Inr (tok, u) \<longrightarrow>
      (\<exists>u0. GetUserByEmail B email s = Inr u0 \<and> VerifyPassword kdf password (u_PasswordHash u0) \<and>
         t_UserID tok = m_Name (u_Meta u0) \<and> t_IsAdmin tok = u_IsAdmin u0 \<and>
         t_ExpiresAt tok = clk 1 + 30 * 24 * hour \<and> u_PasswordHash u = [] \<and>
         entries B s' ''tokens'' (''system/session-'' @ Itoa (Unix (clk 0))) =
           Some (DToken (tok\<lparr>t_Plaintext := []\<rparr>))))"
proof -
  have "\<exists>u0. GetUserByEmail B email s = Inr u0 \<and> VerifyPassword kdf password (u_PasswordHash u0) \<and>
         t_UserID tok = m_Name (u_Meta u0) \<and> t_IsAdmin tok = u_IsAdmin u0 \<and>
         t_ExpiresAt tok = clk 1 + 30 * 24 * hour \<and> u_PasswordHash u = [] \<and>
         entries B s' ''tokens'' (''system/session-'' @ Itoa (Unix (clk 0))) =
           Some (DToken (tok\<lparr>t_Plaintext := []\<rparr>))" if r: "res = Inr (tok, u)" for tok u
    using assms(2) unfolding r
  proof (rule Login_Inr)
    fix u0 s1 u1 r assume *: "GetUserByEmail B email s = Inr u0"
      "VerifyPassword kdf password (u_PasswordHash u0)"
      "CreateToken B H rnd (uid 0) (\<lambda>i. clk (1 + i)) (''session-'' @ Itoa (Unix (clk 0)))
         (m_Name (u_Meta u0)) (30 * 24 * hour) (u_IsAdmin u0) s = (s1, Inr tok)"
      "PutUser B (uid 1) (clk 5) (clk 6) (u0\<lparr>u_LastLoginAt := clk 4\<rparr>) s1 = (u1, s', r)"
      "u = u1\<lparr>u_PasswordHash := []\<rparr>"
    from CreateToken_put [OF *(3)] obtain t where
      t: "PutToken B (uid 0) (clk (1 + 1)) (clk (1 + 2)) t s = (tok, s1, None)" "m_Project (t_Meta t) = ''system''"
        "m_Name (t_Meta t) = ''session-'' @ Itoa (Unix (clk 0))" "t_UserID t = m_Name (u_Meta u0)"
        "t_IsAdmin t = u_IsAdmin u0" "t_ExpiresAt t = clk 1 + 30 * 24 * hour" by auto
    show ?thesis
      using * t bolt_engine.PutToken_stored(1,2) [OF assms(1) t(1,2)] PutUser_frame [OF assms(1) *(4)]
      by (intro exI [of _ u0]) simp
  qed
  then show ?thesis using assms(2) by (auto simp: Login_def split: sum.splits if_splits)
qed

text \<open>
  Session tokens are named by the second of the login, and a token is stored under its
  name: of two logins in the same second, by whatever users, the second overwrites the token
  of the first, whose holder is then refused with invalid credentials.
\<close>

theorem login_same_second_revokes:
  assumes "bolt_engine B"
    and "Login B H kdf rnd uid clk email password s = (s1, Inr (tok1, u1))"
    and "Login B H kdf rnd' uid' clk' email' password' s1 = (s2, Inr (tok2, u2))"
    and "Unix (clk 0) = Unix (clk' 0)" "H (t_Plaintext tok1) \<noteq> H (t_Plaintext tok2)"
    and "\<forall>t \<in> stored_tokens B s. t_HashHex t \<noteq> HashToken H (t_Plaintext tok1)"
  shows "ResolveToken B H now (t_Plaintext tok1) s2 = Inl ErrInvalidCredentials"
proof -
  let ?k = "''system/'' @ ''session-'' @ Itoa (Unix (clk 0))"
  have stored: "t_HashHex tok = HashToken H (t_Plaintext tok) \<and> has_bucket B s' ''tokens'' \<and>
      (\<forall>x. entries B s' ''tokens'' x = (if x = ''system/'' @ ''session-'' @ Itoa (Unix (c 0))
         then Some (DToken (tok\<lparr>t_Plaintext := []\<rparr>)) else entries B s0 ''tokens'' x))"
    if l: "Login B H kdf r i c e p s0 = (s', Inr (tok, u))" for r i c e p s0 s' tok u
    using l
  proof (rule Login_Inr)
    fix u0 s1 u1 q assume *: "CreateToken B H r (i 0) (\<lambda>j. c (1 + j)) (''session-'' @ Itoa (Unix (c 0)))
         (m_Name (u_Meta u0)) (30 * 24 * hour) (u_IsAdmin u0) s0 = (s1, Inr tok)"
      "PutUser B (i 1) (c 5) (c 6) (u0\<lparr>u_LastLoginAt := c 4\<rparr>) s1 = (u1, s', q)"
    from CreateToken_put [OF *(1)] obtain t where
      t: "PutToken B (i 0) (c (1 + 1)) (c (1 + 2)) t s0 = (tok, s1, None)" "m_Project (t_Meta t) = ''system''"
        "m_Name (t_Meta t) = ''session-'' @ Itoa (Unix (c 0))" "t_HashHex t = HashToken H (t_Plaintext t)" by auto
    show ?thesis
      using t bolt_engine.PutToken_stored [OF assms(1) t(1,2)] PutUser_frame [OF assms(1) *(2)] by simp
  qed
  have "t_HashHex t \<noteq> HashToken H (t_Plaintext tok1)" if "t \<in> stored_tokens B s2" for t
    using that stored [OF assms(2)] stored [OF assms(3)] assms(4-6)
    by (auto simp: stored_tokens_def HashToken_def split: if_splits)
  then have "GetTokenByHash B (HashToken H (t_Plaintext tok1)) s2 = Inl ErrNotFound"
    using bolt_engine.GetTokenByHash_none [OF assms(1)] stored [OF assms(3)] by blast
  then show ?thesis by (simp add: ResolveToken_def)
qed

section \<open>Witnesses\<close>

definition demo_hash :: "bytes \<Rightarrow> bytes" where
  "demo_hash x = take 32 (x @ replicate 32 CHR ''0'')"

definition demo_kdf :: "bytes \<Rightarrow> bytes \<Rightarrow> nat \<Rightarrow> bytes" where
  "demo_kdf p salt n = take n (p @ salt @ replicate n CHR ''0'')"

text \<open>For the login witnesses, identity functions keep the evaluation small.\<close>

definition id_hash :: "bytes \<Rightarrow> bytes" where
  "id_hash x = x"

definition id_kdf :: "bytes \<Rightarrow> bytes \<Rightarrow> nat \<Rightarrow> bytes" where
  "id_kdf p salt n = p"

definition with_users :: "memdb store" where
  "with_users =
     fst (CreateUser mem_bolt id_kdf (Inr ''t'') ''v'' 3 4 ''eve'' ''e@x'' ''q'' False
       (fst (CreateUser mem_bolt id_kdf (Inr ''s'') ''u'' 1 2 ''adm'' ''a@x'' ''p'' True fresh_store)))"

definition demo_clk :: "time \<Rightarrow> nat \<Rightarrow> time" where
  "demo_clk t i = t + int i"

lemma demo_hash_length: "\<forall>x. length (demo_hash x) = 32"
  by (auto simp: demo_hash_def min_def)

theorem password_roundtrip_witness:
  "\<exists>enc. HashPassword demo_kdf (Inr ''salt'') ''pw'' = Inr enc \<and> VerifyPassword demo_kdf ''pw'' enc"
proof -
  obtain enc where e: "HashPassword demo_kdf (Inr ''salt'') ''pw'' = Inr enc"
    by (simp add: HashPassword_def)
  have "\<forall>p salt n. length (demo_kdf p salt n) = n" by (auto simp: demo_kdf_def min_def)
  from password_roundtrip [OF e this, of "''pw''"] e show ?thesis by auto
qed

theorem bootstrap_token_one_time_witness:
  "\<exists>s1 s2. CreateBootstrapToken mem_bolt demo_hash (Inr ''r'') 5 fresh_store = (s1, Inr ''sct_72'') \<and>
     ConsumeBootstrapToken mem_bolt demo_hash 6 ''sct_72'' s1 = (s2, None) \<and>
     VerifyBootstrapToken mem_bolt demo_hash ''sct_72'' s2 = Some ErrInvalidCredentials"
proof -
  let ?a = "CreateBootstrapToken mem_bolt demo_hash (Inr ''r'') 5 fresh_store"
  let ?b = "ConsumeBootstrapToken mem_bolt demo_hash 6 ''sct_72'' (fst ?a)"
  have a: "?a = (fst ?a, Inr ''sct_72'')" by code_simp
  have b: "?b = (fst ?b, None)" by code_simp
  from bootstrap_token_one_time [OF mem_engine demo_hash_length a b] a b show ?thesis by blast
qed

theorem token_lifecycle_witness:
  "\<exists>s' tok. CreateToken mem_bolt demo_hash (Inr ''r'') ''u'' (demo_clk 10) ''ci'' ''adm'' 100 True fresh_store = (s', Inr tok) \<and>
     ResolveToken mem_bolt demo_hash 110 (t_Plaintext tok) s' =
       Inr \<lparr>id_UserID = ''adm'', id_Email = [], id_IsAdmin = True, id_Token = ''ci''\<rparr> \<and>
     ResolveToken mem_bolt demo_hash 111 (t_Plaintext tok) s' = Inl ErrAuthTokenExpired"
proof -
  let ?a = "CreateToken mem_bolt demo_hash (Inr ''r'') ''u'' (demo_clk 10) ''ci'' ''adm'' 100 True fresh_store"
  have ok: "(case snd ?a of Inr x \<Rightarrow> True | _ \<Rightarrow> False)" by code_simp
  then obtain tok where "snd ?a = Inr tok" by (auto split: sum.splits)
  then have a: "?a = (fst ?a, Inr tok)" by (simp add: prod_eq_iff)
  have c: "(0::int) < demo_clk 10 0" "demo_clk 10 0 = 10" by (simp_all add: demo_clk_def)
  have "\<forall>t \<in> stored_tokens mem_bolt fresh_store. t_HashHex t \<noteq> HashToken demo_hash (t_Plaintext tok)"
    by (simp add: stored_tokens_def entries_def fresh_store_def mem_get_def map_of_map_restrict
        restrict_map_def split: option.splits)
  note T = token_lifecycle [OF mem_engine c(1) a this]
  show ?thesis using T [of 110] T [of 111] a c(2) by (intro exI conjI) (rule a, simp_all)
qed

theorem ResolveToken_sound_witness:
  "ResolveToken mem_bolt demo_hash 1 ''nope'' fresh_store = Inl ErrInvalidCredentials"
proof -
  have "\<forall>t \<in> stored_tokens mem_bolt fresh_store. t_HashHex t \<noteq> HashToken demo_hash ''nope''"
    by (simp add: stored_tokens_def entries_def fresh_store_def mem_get_def map_of_map_restrict
        restrict_map_def split: option.splits)
  then show ?thesis using ResolveToken_sound [OF mem_engine wf_fresh, of demo_hash 1 "''nope''"] by blast
qed

definition first_login :: "memdb store \<times> (error + token \<times> user)" where
  "first_login = Login mem_bolt id_hash id_kdf (Inr ''1'') (\<lambda>_. ''u'') (demo_clk 62135596810000000000) ''A@x'' ''p'' with_users"

definition second_login :: "memdb store \<times> (error + token \<times> user)" where
  "second_login = Login mem_bolt id_hash id_kdf (Inr ''2'') (\<lambda>_. ''v'') (demo_clk 62135596810500000000) ''e@x'' ''q'' (fst first_login)"

lemma login_ok: "(case snd first_login of Inr (t, u) \<Rightarrow> t_Plaintext t = ''sct_31'' | _ \<Rightarrow> False)"
  "(case snd second_login of Inr (t, u) \<Rightarrow> t_Plaintext t = ''sct_32'' | _ \<Rightarrow> False)"
  by code_simp+

lemma login_eqs:
  "\<exists>tok u. first_login = (fst first_login, Inr (tok, u)) \<and> t_Plaintext tok = ''sct_31''"
  "\<exists>tok u. second_login = (fst second_login, Inr (tok, u)) \<and> t_Plaintext tok = ''sct_32''"
  using login_ok by (auto simp: prod_eq_iff split: sum.splits prod.splits)

theorem Login_spec_witness:
  "\<exists>tok u. snd first_login = Inr (tok, u) \<and> t_UserID tok = ''adm'' \<and> t_IsAdmin tok \<and> u_PasswordHash u = []"
proof -
  obtain tok u where r: "first_login = (fst first_login, Inr (tok, u))" using login_eqs(1) by blast
  have u: "(case GetUserByEmail mem_bolt ''A@x'' with_users of Inr u \<Rightarrow> m_Name (u_Meta u) = ''adm'' \<and> u_IsAdmin u | _ \<Rightarrow> False)"
    by code_simp
  have "snd first_login = Inr (tok, u)" by (subst r) simp
  with Login_spec [OF mem_engine trans [OF first_login_def [symmetric] r]] u show ?thesis by auto
qed

theorem login_same_second_revokes_witness:
  "ResolveToken mem_bolt id_hash 62135596811000000000 ''sct_31'' (fst second_login) = Inl ErrInvalidCredentials"
proof -
  obtain tok1 u1 where a: "first_login = (fst first_login, Inr (tok1, u1))" "t_Plaintext tok1 = ''sct_31''"
    using login_eqs(1) by blast
  obtain tok2 u2 where b: "second_login = (fst second_login, Inr (tok2, u2))" "t_Plaintext tok2 = ''sct_32''"
    using login_eqs(2) by blast
  have c: "Unix (demo_clk 62135596810000000000 0) = Unix (demo_clk 62135596810500000000 0)"
    by (simp add: Unix_def demo_clk_def)
  have d: "stored_tokens mem_bolt with_users = {}"
  proof -
    have "map_of (sdb with_users) ''tokens'' = Some []" by code_simp
    then show ?thesis by (simp add: stored_tokens_def entries_def mem_get_def)
  qed
  have "ResolveToken mem_bolt id_hash 62135596811000000000 (t_Plaintext tok1) (fst second_login) =
      Inl ErrInvalidCredentials"
    by (rule login_same_second_revokes [OF mem_engine trans [OF first_login_def [symmetric] a(1)]
          trans [OF second_login_def [symmetric] b(1)] c])
      (simp_all add: a(2) b(2) d id_hash_def)
  then show ?thesis by (simp add: a(2))
qed

end
