(* ===== verification/Cluster.thy ===== *)
theory Cluster
  imports Auth_Props
begin

text \<open>
  Cluster membership, \<^verbatim>\<open>internal/cluster/cluster.go\<close>: the join tokens kept in the cluster
  configuration. \<^verbatim>\<open>Manager.mu\<close> serialises the two operations that change them, so each is one
  step of the model. \<open>H\<close> is \<^verbatim>\<open>sha256.Sum256\<close>, \<open>rnd\<close> the outcome of \<^verbatim>\<open>rand.Read\<close>.
\<close>

definition hashHex :: "(bytes \<Rightarrow> bytes) \<Rightarrow> string \<Rightarrow> string" where
  "hashHex H plain = hexEncode (H plain)"

definition Issue ::
  "'db bolt \<Rightarrow> (bytes \<Rightarrow> bytes) \<Rightarrow> error + bytes \<Rightarrow> (nat \<Rightarrow> time) \<Rightarrow> string \<Rightarrow> duration \<Rightarrow> 'db store
   \<Rightarrow> 'db store \<times> (error + (string \<times> join_token))" where
  "Issue B H rnd clk issuedBy ttl s =
     (case rnd of Inl e \<Rightarrow> (s, Inl e)
      | Inr raw \<Rightarrow>
          (let plain = ''scjoin_'' @ hexEncode raw;
               tok = \<lparr>jt_ID = hexEncode (take 8 raw), jt_HashHex = hashHex H plain,
                      jt_IssuedBy = issuedBy, jt_IssuedAt = clk 0, jt_ExpiresAt = clk 1 + ttl,
                      jt_ConsumedBy = []\<rparr>
           in case GetCluster B s of Inl e \<Rightarrow> (s, Inl e)
              | Inr cfg \<Rightarrow>
                  (case PutCluster B (clk 2) (cfg\<lparr>cc_JoinTokens := cc_JoinTokens cfg @ [tok]\<rparr>) s of
                     (_, s', Some e) \<Rightarrow> (s', Inl e)
                   | (_, s', None) \<Rightarrow> (s', Inr (plain, tok)))))"

text \<open>
  The loop of \<^verbatim>\<open>Consume\<close> over the tokens: it stops at the first token with the hash, with an
  error or with that token marked in place.
\<close>

fun mark_used :: "time \<Rightarrow> string \<Rightarrow> string \<Rightarrow> join_token list \<Rightarrow> error + join_token list" where
  "mark_used now hash by [] = Inl ErrInvalidToken"
| "mark_used now hash by (t # ts) =
     (if jt_HashHex t \<noteq> hash then map_sum id (Cons t) (mark_used now hash by ts)
      else if jt_ConsumedBy t \<noteq> [] then Inl ErrTokenUsed
      else if now > jt_ExpiresAt t then Inl ErrJoinTokenExpired
      else Inr (t\<lparr>jt_ConsumedBy := by\<rparr> # ts))"

definition Consume ::
  "'db bolt \<Rightarrow> (bytes \<Rightarrow> bytes) \<Rightarrow> (nat \<Rightarrow> time) \<Rightarrow> string \<Rightarrow> string \<Rightarrow> 'db store \<Rightarrow> 'db store \<times> error option"
where
  "Consume B H clk plain consumedBy s =
     (case GetCluster B s of Inl e \<Rightarrow> (s, Some e)
      | Inr cfg \<Rightarrow>
          (case mark_used (clk 0) (hashHex H plain) consumedBy (cc_JoinTokens cfg) of
             Inl e \<Rightarrow> (s, Some e)
           | Inr ts \<Rightarrow>
               (case PutCluster B (clk 1) (cfg\<lparr>cc_JoinTokens := ts\<rparr>) s of (_, s', r) \<Rightarrow> (s', r))))"

definition List_tokens :: "'db bolt \<Rightarrow> 'db store \<Rightarrow> error + join_token list" where
  "List_tokens B s =
     (case GetCluster B s of Inl e \<Rightarrow> Inl e
      | Inr cfg \<Rightarrow> Inr (map (\<lambda>t. t\<lparr>jt_HashHex := []\<rparr>) (cc_JoinTokens cfg)))"

definition JoinCommand :: "string \<Rightarrow> string \<Rightarrow> string" where
  "JoinCommand leaderAddr plainToken =
     ''curl -fsSL https://get.selfcloud.dev | sh -s -- --join '' @ leaderAddr @ '' --token '' @ plainToken"

section \<open>Join tokens are single-use\<close>

lemma mark_used_Inr:
  assumes "mark_used now h by ts = Inr ts'"
  shows "\<exists>xs t ys. ts = xs @ t # ys \<and> ts' = xs @ t\<lparr>jt_ConsumedBy := by\<rparr> # ys \<and>
    (\<forall>x \<in> set xs. jt_HashHex x \<noteq> h) \<and> jt_HashHex t = h \<and> jt_ConsumedBy t = [] \<and> now \<le> jt_ExpiresAt t"
  using assms
proof (induction ts arbitrary: ts')
  case Nil
  then show ?case by simp
next
  case (Cons a ts)
  show ?case
  proof (cases "jt_HashHex a = h")
    case True
    then show ?thesis using Cons.prems
      by (intro exI [of _ "[]"] exI [of _ a] exI [of _ ts]) (auto split: if_splits)
  next
    case False
    with Cons.prems obtain r where r: "mark_used now h by ts = Inr r" "ts' = a # r"
      by (cases "mark_used now h by ts") auto
    from Cons.IH [OF r(1)] obtain xs t ys where "ts = xs @ t # ys" "r = xs @ t\<lparr>jt_ConsumedBy := by\<rparr> # ys"
      "\<forall>x \<in> set xs. jt_HashHex x \<noteq> h" "jt_HashHex t = h" "jt_ConsumedBy t = []" "now \<le> jt_ExpiresAt t"
      by blast
    then show ?thesis using r False
      by (intro exI [of _ "a # xs"] exI [of _ t] exI [of _ ys]) auto
  qed
qed

lemma mark_used_used:
  "\<forall>x \<in> set xs. jt_HashHex x \<noteq> h \<Longrightarrow> jt_HashHex t = h \<Longrightarrow> jt_ConsumedBy t \<noteq> [] \<Longrightarrow>
   mark_used now h by (xs @ t # ys) = Inl ErrTokenUsed"
  by (induction xs) auto

lemma mark_used_none:
  "\<forall>x \<in> set ts. jt_HashHex x \<noteq> h \<Longrightarrow> mark_used now h by ts = Inl ErrInvalidToken"
  by (induction ts) auto

text \<open>The plaintext belongs to a token of the configuration that a node has used.\<close>

definition spent :: "'db bolt \<Rightarrow> (bytes \<Rightarrow> bytes) \<Rightarrow> string \<Rightarrow> 'db store \<Rightarrow> bool" where
  "spent B H plain s \<longleftrightarrow> (\<exists>cfg xs t ys. GetCluster B s = Inr cfg \<and> cc_JoinTokens cfg = xs @ t # ys \<and>
     (\<forall>x \<in> set xs. jt_HashHex x \<noteq> hashHex H plain) \<and> jt_HashHex t = hashHex H plain \<and> jt_ConsumedBy t \<noteq> [])"

lemma spent_Consume: "spent B H plain s \<Longrightarrow> Consume B H clk plain node s = (s, Some ErrTokenUsed)"
  by (auto simp: spent_def Consume_def mark_used_used)

lemma Consume_Some:
  assumes "bolt_engine B" "Consume B H clk plain node s = (s', Some e)"
  shows "s' = s"
  using assms(2) bolt_engine.PutCluster_error [OF assms(1)]
  by (auto simp: Consume_def split: sum.splits prod.splits)

lemma Consume_marks:
  assumes "bolt_engine B" "Consume B H clk plain node s = (s', None)"
  obtains cfg cfg' xs t ys where "GetCluster B s = Inr cfg" "GetCluster B s' = Inr cfg'"
    "cc_JoinTokens cfg = xs @ t # ys" "cc_JoinTokens cfg' = xs @ t\<lparr>jt_ConsumedBy := node\<rparr> # ys"
    "\<forall>x \<in> set xs. jt_HashHex x \<noteq> hashHex H plain" "jt_HashHex t = hashHex H plain"
    "jt_ConsumedBy t = []" "clk 0 \<le> jt_ExpiresAt t"
proof -
  obtain cfg ts c' where g: "GetCluster B s = Inr cfg"
    and m: "mark_used (clk 0) (hashHex H plain) node (cc_JoinTokens cfg) = Inr ts"
    and p: "PutCluster B (clk 1) (cfg\<lparr>cc_JoinTokens := ts\<rparr>) s = (c', s', None)"
    using assms(2) by (auto simp: Consume_def split: sum.splits prod.splits)
  note g' = bolt_engine.GetCluster_after_Put [OF assms(1) p]
  have "cc_JoinTokens c' = ts" by (subst g'(2)) simp
  with that g g'(1) show ?thesis using mark_used_Inr [OF m] by blast
qed

lemma Consume_spends:
  assumes "bolt_engine B" "Consume B H clk plain node s = (s', None)" "node \<noteq> []"
  shows "spent B H plain s'"
proof -
  obtain cfg' xs t ys where "GetCluster B s' = Inr cfg'"
    "cc_JoinTokens cfg' = xs @ t\<lparr>jt_ConsumedBy := node\<rparr> # ys"
    "\<forall>x \<in> set xs. jt_HashHex x \<noteq> hashHex H plain" "jt_HashHex t = hashHex H plain"
    using Consume_marks [OF assms(1,2)] by metis
  then show ?thesis unfolding spent_def using assms(3)
    by (intro exI [of _ cfg'] exI [of _ xs] exI [of _ "t\<lparr>jt_ConsumedBy := node\<rparr>"] exI [of _ ys]) simp
qed

text \<open>
  What may happen between two attempts: tokens are issued and consumed, the configuration is
  updated by a read and a write with nothing in between that keep the list of tokens, and any
  operation of the store that leaves the configuration alone. The handlers that write the
  configuration outside the mutex of the manager are not excluded from interleaving in the code;
  what they do to a token is \<open>stale_write_reopens_token\<close> below.
\<close>

inductive cluster_step :: "'db bolt \<Rightarrow> (bytes \<Rightarrow> bytes) \<Rightarrow> 'db store \<Rightarrow> 'db store \<Rightarrow> bool" for B H where
  issue: "Issue B H rnd clk who ttl s = (s', r) \<Longrightarrow> cluster_step B H s s'"
| consume: "Consume B H clk plain node s = (s', r) \<Longrightarrow> cluster_step B H s s'"
| update: "GetCluster B s = Inr cfg \<Longrightarrow> cc_JoinTokens cfg' = cc_JoinTokens cfg \<Longrightarrow>
    PutCluster B now cfg' s = (c, s', r) \<Longrightarrow> cluster_step B H s s'"
| elsewhere: "store_step B s s' \<Longrightarrow> GetCluster B s' = GetCluster B s \<Longrightarrow> cluster_step B H s s'"

lemma spent_append:
  assumes "cc_JoinTokens cfg' = cc_JoinTokens cfg @ ts" "GetCluster B s = Inr cfg" "GetCluster B s' = Inr cfg'" "spent B H plain s"
  shows "spent B H plain s'"
  using assms unfolding spent_def by fastforce

lemma mark_used_keeps:
  assumes "mark_used now h node ts = Inr ts'" "ts = xs @ t # ys" "\<forall>x \<in> set xs. jt_HashHex x \<noteq> g" "jt_HashHex t = g" "jt_ConsumedBy t \<noteq> []"
  shows "\<exists>xs' ys'. ts' = xs' @ t # ys' \<and> (\<forall>x \<in> set xs'. jt_HashHex x \<noteq> g)"
  using assms
proof (induction ts arbitrary: ts' xs)
  case (Cons a ts)
  show ?case
  proof (cases xs)
    case Nil
    then show ?thesis using Cons.prems
      by (cases "mark_used now h node ts") (auto split: if_splits intro: exI [of _ "[]"])
  next
    case (Cons b zs)
    show ?thesis
    proof (cases "jt_HashHex a = h")
      case True
      then have "ts' = (a\<lparr>jt_ConsumedBy := node\<rparr> # zs) @ t # ys" using Cons.prems Cons by (auto split: if_splits)
      moreover have "\<forall>x \<in> set (a\<lparr>jt_ConsumedBy := node\<rparr> # zs). jt_HashHex x \<noteq> g" using Cons.prems(3) Cons Cons.prems(2) by auto
      ultimately show ?thesis by blast
    next
      case False
      then obtain r where r: "mark_used now h node ts = Inr r" "ts' = a # r"
        using Cons.prems(1) by (cases "mark_used now h node ts") auto
      from Cons.IH [OF r(1), of zs] obtain xs' ys' where "r = xs' @ t # ys'" "\<forall>x \<in> set xs'. jt_HashHex x \<noteq> g"
        using Cons.prems Cons by auto
      then show ?thesis using r(2) Cons Cons.prems(2,3) by (intro exI [of _ "a # xs'"] exI [of _ ys']) auto
    qed
  qed
qed simp

lemma spent_step:
  assumes "bolt_engine B" "cluster_step B H s s'" "spent B H plain s"
  shows "spent B H plain s'"
  using assms(2)
proof cases
  case (issue rnd clk who ttl r)
  obtain cfg where g: "GetCluster B s = Inr cfg" using assms(3) by (auto simp: spent_def)
  show ?thesis
  proof (cases r)
    case (Inl e)
    then have "s' = s" using issue bolt_engine.PutCluster_error [OF assms(1)]
      by (auto simp: Issue_def Let_def split: sum.splits prod.splits option.splits)
    then show ?thesis using assms(3) by simp
  next
    case (Inr x)
    then obtain tok c where p: "PutCluster B (clk 2) (cfg\<lparr>cc_JoinTokens := cc_JoinTokens cfg @ [tok]\<rparr>) s = (c, s', None)"
      using issue g by (auto simp: Issue_def Let_def split: sum.splits prod.splits option.splits)
    note g' = bolt_engine.GetCluster_after_Put [OF assms(1) p]
    have "cc_JoinTokens c = cc_JoinTokens cfg @ [tok]" by (subst g'(2)) simp
    then show ?thesis using spent_append g g'(1) assms(3) by blast
  qed
next
  case (consume clk pl node r)
  show ?thesis
  proof (cases r)
    case None
    obtain cfg xs t ys where g: "GetCluster B s = Inr cfg" "cc_JoinTokens cfg = xs @ t # ys"
      "\<forall>x \<in> set xs. jt_HashHex x \<noteq> hashHex H plain" "jt_HashHex t = hashHex H plain" "jt_ConsumedBy t \<noteq> []"
      using assms(3) unfolding spent_def by blast
    then obtain ts c where m: "mark_used (clk 0) (hashHex H pl) node (cc_JoinTokens cfg) = Inr ts"
      and p: "PutCluster B (clk 1) (cfg\<lparr>cc_JoinTokens := ts\<rparr>) s = (c, s', None)"
      using consume None by (auto simp: Consume_def split: sum.splits prod.splits)
    note g' = bolt_engine.GetCluster_after_Put [OF assms(1) p]
    have "cc_JoinTokens c = ts" by (subst g'(2)) simp
    then show ?thesis using mark_used_keeps [OF m g(2-5)] g'(1) g(4,5) unfolding spent_def by metis
  next
    case (Some e)
    then show ?thesis using Consume_Some [OF assms(1)] consume assms(3) by metis
  qed
next
  case (update cfg cfg' now c r)
  show ?thesis
  proof (cases r)
    case None
    note g' = bolt_engine.GetCluster_after_Put [OF assms(1) update(3) [unfolded None]]
    have "cc_JoinTokens c = cc_JoinTokens cfg @ []" by (subst g'(2)) (simp add: update(2))
    then show ?thesis using spent_append update(1) g'(1) assms(3) by blast
  next
    case (Some e)
    then show ?thesis using bolt_engine.PutCluster_error [OF assms(1)] update(3) assms(3) by metis
  qed
next
  case elsewhere
  then show ?thesis using assms(3) by (simp add: spent_def)
qed

lemma spent_steps:
  assumes "bolt_engine B" "(cluster_step B H)\<^sup>*\<^sup>* s s'" "spent B H plain s"
  shows "spent B H plain s'"
  using assms(2,3) by induction (auto intro: spent_step [OF assms(1)])


lemma mark_used_last:
  "\<forall>x \<in> set xs. jt_HashHex x \<noteq> jt_HashHex t \<Longrightarrow> jt_ConsumedBy t = [] \<Longrightarrow>
   mark_used now (jt_HashHex t) by (xs @ [t]) =
     (if now > jt_ExpiresAt t then Inl ErrJoinTokenExpired else Inr (xs @ [t\<lparr>jt_ConsumedBy := by\<rparr>]))"
  by (induction xs) auto

text \<open>
  An issued token is appended to the configuration in hashed form, and \<^verbatim>\<open>Consume\<close> of its
  plaintext by a node then marks exactly that token, or reports expiry once the clock is past
  it; \<^verbatim>\<open>List\<close> shows every token without its hash. The hypothesis excludes an older token with
  the same SHA-256 hash.
\<close>

theorem join_token_issue:
  assumes "bolt_engine B" "Issue B H rnd clk by ttl s = (s1, Inr (plain, tok))"
    and "GetCluster B s = Inr cfg" "\<forall>t \<in> set (cc_JoinTokens cfg). jt_HashHex t \<noteq> hashHex H plain"
  shows "\<exists>cfg1. GetCluster B s1 = Inr cfg1 \<and> cc_JoinTokens cfg1 = cc_JoinTokens cfg @ [tok] \<and>
    jt_HashHex tok = hashHex H plain \<and> jt_ExpiresAt tok = clk 1 + ttl \<and>
    List_tokens B s1 = Inr (map (\<lambda>t. t\<lparr>jt_HashHex := []\<rparr>) (cc_JoinTokens cfg @ [tok])) \<and>
    Consume B H clk' plain node s1 =
      (if clk' 0 > clk 1 + ttl then (s1, Some ErrJoinTokenExpired)
       else snd (PutCluster B (clk' 1)
         (cfg1\<lparr>cc_JoinTokens := cc_JoinTokens cfg @ [tok\<lparr>jt_ConsumedBy := node\<rparr>]\<rparr>) s1))"
proof -
  obtain c1 where p: "PutCluster B (clk 2) (cfg\<lparr>cc_JoinTokens := cc_JoinTokens cfg @ [tok]\<rparr>) s = (c1, s1, None)"
    and tok: "jt_HashHex tok = hashHex H plain" "jt_ExpiresAt tok = clk 1 + ttl" "jt_ConsumedBy tok = []"
    using assms(2,3) by (auto simp: Issue_def Let_def split: sum.splits prod.splits option.splits)
  note g = bolt_engine.GetCluster_after_Put [OF assms(1) p]
  have ts: "cc_JoinTokens c1 = cc_JoinTokens cfg @ [tok]" by (subst g(2)) simp
  have "mark_used (clk' 0) (hashHex H plain) node (cc_JoinTokens cfg @ [tok]) =
      (if clk' 0 > clk 1 + ttl then Inl ErrJoinTokenExpired
       else Inr (cc_JoinTokens cfg @ [tok\<lparr>jt_ConsumedBy := node\<rparr>]))"
    using mark_used_last [of "cc_JoinTokens cfg" tok "clk' 0" node] assms(4) tok by simp
  then show ?thesis using g(1) ts tok
    by (intro exI [of _ c1]) (simp add: Consume_def List_tokens_def split: prod.splits)
qed

text \<open>
  The read-modify-write of the cluster configuration at the end of
  \<^verbatim>\<open>handleClusterJoin\<close> (and in \<^verbatim>\<open>handlePutCluster\<close>) is not serialised with \<^verbatim>\<open>Consume\<close>: when a
  token is consumed between the read and the write of another request, the write puts the
  unmarked token back, and the same plaintext is accepted again. The last conjunct says
  that the second \<^verbatim>\<open>Consume\<close> gets past every check and writes the configuration.
\<close>

theorem stale_write_reopens_token:
  assumes "bolt_engine B" "GetCluster B s = Inr cfg" "Consume B H clk plain node s = (s1, None)"
    and "PutCluster B now (cfg\<lparr>cc_MultiNode := True\<rparr>) s1 = (c2, s2, None)" "clk' 0 \<le> clk 0"
  shows "cc_JoinTokens c2 = cc_JoinTokens cfg \<and>
    (\<exists>ts. Consume B H clk' plain node' s2 = snd (PutCluster B (clk' 1) (c2\<lparr>cc_JoinTokens := ts\<rparr>) s2))"
proof -
  obtain ts where m: "mark_used (clk 0) (hashHex H plain) node (cc_JoinTokens cfg) = Inr ts"
    using assms(2,3) by (auto simp: Consume_def split: sum.splits)
  note g = bolt_engine.GetCluster_after_Put [OF assms(1,4)]
  have ts: "cc_JoinTokens c2 = cc_JoinTokens cfg" by (subst g(2)) simp
  have "\<exists>r. mark_used (clk' 0) h node' x = Inr r" if "mark_used (clk 0) h node x = Inr y" for h x y
    using that assms(5)
  proof (induction x arbitrary: y)
    case (Cons a x)
    then show ?case by (cases "mark_used (clk 0) h node x") (auto split: if_splits)
  qed simp
  from this [OF m] obtain r where
    "mark_used (clk' 0) (hashHex H plain) node' (cc_JoinTokens cfg) = Inr r" by blast
  then show ?thesis using g(1) ts
    by (intro conjI exI [of _ r]) (simp_all add: Consume_def split: prod.splits)
qed

section \<open>Witnesses\<close>

definition with_join_token :: "memdb store" where
  "with_join_token = fst (Issue mem_bolt id_hash (Inr ''abcdefghij'') (demo_clk 10) ''adm'' 100 fresh_store)"

definition joined :: "memdb store" where
  "joined = fst (Consume mem_bolt id_hash (demo_clk 50) ''scjoin_6162636465666768696a'' ''n2'' with_join_token)"

lemma issue_eq: "\<exists>tok. Issue mem_bolt id_hash (Inr ''abcdefghij'') (demo_clk 10) ''adm'' 100 fresh_store =
    (with_join_token, Inr (''scjoin_6162636465666768696a'', tok))"
proof -
  have "(case snd (Issue mem_bolt id_hash (Inr ''abcdefghij'') (demo_clk 10) ''adm'' 100 fresh_store) of
      Inr (p, t) \<Rightarrow> p = ''scjoin_6162636465666768696a'' | _ \<Rightarrow> False)" by code_simp
  then show ?thesis unfolding with_join_token_def by (auto simp: prod_eq_iff split: sum.splits prod.splits)
qed

lemma joined_eq:
  "Consume mem_bolt id_hash (demo_clk 50) ''scjoin_6162636465666768696a'' ''n2'' with_join_token = (joined, None)"
proof -
  have "snd (Consume mem_bolt id_hash (demo_clk 50) ''scjoin_6162636465666768696a'' ''n2'' with_join_token) = None"
    by code_simp
  then show ?thesis by (simp add: joined_def prod_eq_iff)
qed

definition reissued :: "memdb store" where
  "reissued = fst (Issue mem_bolt id_hash (Inr ''abcdefghik'') (demo_clk 50) ''adm'' 100 joined)"


theorem join_token_issue_witness:
  "Consume mem_bolt id_hash (demo_clk 112) ''scjoin_6162636465666768696a'' ''n2'' with_join_token =
     (with_join_token, Some ErrJoinTokenExpired)"
proof -
  obtain tok where i: "Issue mem_bolt id_hash (Inr ''abcdefghij'') (demo_clk 10) ''adm'' 100 fresh_store =
    (with_join_token, Inr (''scjoin_6162636465666768696a'', tok))" using issue_eq by blast
  have g: "GetCluster mem_bolt fresh_store = Inr (zero_cluster\<lparr>cc_ReplicationFactor := 1\<rparr>)" by code_simp
  have t: "\<forall>t \<in> set (cc_JoinTokens (zero_cluster\<lparr>cc_ReplicationFactor := 1\<rparr>)).
      jt_HashHex t \<noteq> hashHex id_hash ''scjoin_6162636465666768696a''" by (simp add: zero_cluster_def)
  from join_token_issue [OF mem_engine i g t, of "demo_clk 112" "''n2''"] show ?thesis
    by (auto simp: demo_clk_def)
qed

theorem stale_write_reopens_token_witness:
  "\<exists>cfg c2 s2 s3. GetCluster mem_bolt with_join_token = Inr cfg \<and>
     PutCluster mem_bolt 60 (cfg\<lparr>cc_MultiNode := True\<rparr>) joined = (c2, s2, None) \<and>
     Consume mem_bolt id_hash (demo_clk 50) ''scjoin_6162636465666768696a'' ''n3'' s2 = (s3, None)"
proof -
  have "(case GetCluster mem_bolt with_join_token of Inr c \<Rightarrow>
      snd (snd (PutCluster mem_bolt 60 (c\<lparr>cc_MultiNode := True\<rparr>) joined)) = None | _ \<Rightarrow> False)" by code_simp
  then obtain cfg c2 s2 where g: "GetCluster mem_bolt with_join_token = Inr cfg"
    and p: "PutCluster mem_bolt 60 (cfg\<lparr>cc_MultiNode := True\<rparr>) joined = (c2, s2, None)"
    by (auto simp: prod_eq_iff split: sum.splits)
  obtain ts where c: "Consume mem_bolt id_hash (demo_clk 50) ''scjoin_6162636465666768696a'' ''n3'' s2 =
      snd (PutCluster mem_bolt (demo_clk 50 1) (c2\<lparr>cc_JoinTokens := ts\<rparr>) s2)"
    using stale_write_reopens_token [OF mem_engine g joined_eq p, of "demo_clk 50" "''n3''"] by auto
  have b: "''cluster'' \<in> set (mem_buckets (sdb s2))"
    using p by (auto simp: PutCluster_def Let_def store_put_None split: prod.splits option.splits
        dest: mem.buckets_put [simplified])
  have "snd (snd (PutCluster mem_bolt (demo_clk 50 1) (c2\<lparr>cc_JoinTokens := ts\<rparr>) s2)) = None"
    using b by (auto simp: PutCluster_def Let_def store_put_def bolt_update_def mem_put_def set_mem_buckets
        split: prod.splits option.splits sum.splits)
  then show ?thesis using g p c by (metis prod.collapse)
qed

end
