(* ===== verification/Scheduler.thy ===== *)
theory Scheduler
  imports Store_Props
begin

text \<open>
  The scheduler, \<^verbatim>\<open>internal/scheduler/scheduler.go\<close>: which node hosts a workload.
  \<^verbatim>\<open>sort.SliceStable\<close> with a strict order on the update times is the library's stable
  \<^const>\<open>sort_key\<close>.
\<close>

record scheduler =
  sc_selfID :: string
  sc_required :: string

fun hasRole :: "string list \<Rightarrow> string \<Rightarrow> bool" where
  "hasRole [] r = False"
| "hasRole (x # xs) r = (if x = r then True else hasRole xs r)"

definition is_candidate :: "string \<Rightarrow> node \<Rightarrow> bool" where
  "is_candidate required n =
     (if \<not> hasRole (n_Roles n) required then False
      else if Phase (n_Status n) \<noteq> [] \<and> Phase (n_Status n) \<noteq> PhaseRunning then False
      else True)"

definition PlaceWorkload :: "'db bolt \<Rightarrow> scheduler \<Rightarrow> string \<Rightarrow> 'db store \<Rightarrow> error + string" where
  "PlaceWorkload B sc required s =
     (case ListNodes B s of Inl e \<Rightarrow> Inl e
      | Inr nodes \<Rightarrow>
          (case filter (is_candidate required) nodes of
             [] \<Rightarrow> if sc_selfID sc \<noteq> [] then Inr (sc_selfID sc) else Inl ErrNoCapacity
           | candidates \<Rightarrow>
               Inr (m_Name (n_Meta (sort_key (\<lambda>n. m_UpdatedAt (n_Meta n)) candidates ! 0)))))"

definition Place :: "'db bolt \<Rightarrow> scheduler \<Rightarrow> container \<Rightarrow> 'db store \<Rightarrow> error + string" where
  "Place B sc c s = PlaceWorkload B sc (sc_required sc) s"

definition PlaceFunction :: "'db bolt \<Rightarrow> scheduler \<Rightarrow> func \<Rightarrow> 'db store \<Rightarrow> error + string" where
  "PlaceFunction B sc f s = PlaceWorkload B sc NodeRoleCompute s"

lemma hasRole_set: "hasRole xs r \<longleftrightarrow> r \<in> set xs"
  by (induction xs) auto

text \<open>The head of a stable sort is the first element with the least key.\<close>

lemma hd_insort:
  "hd (insort_key f x xs) = (if xs = [] \<or> f x \<le> f (hd xs) then x else hd xs)"
  by (cases xs) auto

lemma hd_sort_key:
  assumes "xs \<noteq> []"
  shows "\<exists>as bs. xs = as @ hd (sort_key f xs) # bs \<and>
    (\<forall>a \<in> set as. f (hd (sort_key f xs)) < f a) \<and> (\<forall>b \<in> set bs. f (hd (sort_key f xs)) \<le> f b)"
  using assms
proof (induction xs)
  case Nil
  then show ?case by simp
next
  case (Cons x xs)
  show ?case
  proof (cases "xs = []")
    case True
    then show ?thesis by (intro exI [of _ "[]"]) simp
  next
    case False
    with Cons.IH obtain as bs where *: "xs = as @ hd (sort_key f xs) # bs"
      "\<forall>a \<in> set as. f (hd (sort_key f xs)) < f a" "\<forall>b \<in> set bs. f (hd (sort_key f xs)) \<le> f b" by blast
    have ne: "sort_key f xs \<noteq> []" using False by (metis length_0_conv length_sort)
    have all: "f (hd (sort_key f xs)) \<le> f y" if "y \<in> set xs" for y
      using * that by (metis Un_iff dual_order.order_iff_strict list.set_intros(1) order_le_less set_ConsD set_append)
    show ?thesis
    proof (cases "f x \<le> f (hd (sort_key f xs))")
      case True
      then have h: "hd (sort_key f (x # xs)) = x" using ne by (simp add: hd_insort)
      show ?thesis unfolding h using True all by (intro exI [of _ "[]"] exI [of _ xs]) (auto intro: order_trans)
    next
      case False
      then have h: "hd (sort_key f (x # xs)) = hd (sort_key f xs)" using ne by (simp add: hd_insort)
      show ?thesis unfolding h using False * by (intro exI [of _ "x # as"] exI [of _ bs]) auto
    qed
  qed
qed

text \<open>
  Placement: among the listed nodes that carry the required role and are running (or have
  no phase yet), the scheduler returns the one updated least recently, the first such node in
  list order on a tie; with no such node it falls back to the local node, and with no local
  node it reports that there is no capacity.
\<close>

theorem PlaceWorkload_spec:
  assumes "ListNodes B s = Inr nodes"
    and "cands = filter (\<lambda>n. required \<in> set (n_Roles n) \<and> Phase (n_Status n) \<in> {[], PhaseRunning}) nodes"
  shows "(cands = [] \<longrightarrow> PlaceWorkload B sc required s =
       (if sc_selfID sc = [] then Inl ErrNoCapacity else Inr (sc_selfID sc))) \<and>
    (cands \<noteq> [] \<longrightarrow> (\<exists>as n bs. cands = as @ n # bs \<and> PlaceWorkload B sc required s = Inr (m_Name (n_Meta n)) \<and>
       (\<forall>a \<in> set as. m_UpdatedAt (n_Meta n) < m_UpdatedAt (n_Meta a)) \<and>
       (\<forall>b \<in> set bs. m_UpdatedAt (n_Meta n) \<le> m_UpdatedAt (n_Meta b))))"
proof -
  have c: "filter (is_candidate required) nodes = cands"
    unfolding assms(2) by (rule filter_cong) (auto simp: is_candidate_def hasRole_set)
  show ?thesis
  proof (cases cands)
    case Nil
    then show ?thesis using c assms(1) by (simp add: PlaceWorkload_def)
  next
    case (Cons x xs)
    then have sort_ne: "sort_key (\<lambda>n. m_UpdatedAt (n_Meta n)) (x # xs) \<noteq> []"
      by (metis length_0_conv length_sort list.distinct(1))
    from Cons have "PlaceWorkload B sc required s =
        Inr (m_Name (n_Meta (hd (sort_key (\<lambda>n. m_UpdatedAt (n_Meta n)) cands))))"
      using c assms(1) sort_ne by (simp add: PlaceWorkload_def hd_conv_nth del: sort_key_simps)
    then show ?thesis using hd_sort_key [of cands "\<lambda>n. m_UpdatedAt (n_Meta n)"] Cons by blast
  qed
qed

section \<open>Witness\<close>

definition demo_node :: "string \<Rightarrow> string list \<Rightarrow> string \<Rightarrow> node" where
  "demo_node name roles phase = \<lparr>n_Meta = named ''system'' name, n_Address = [], n_APIAddress = [],
     n_RaftAddress = [], n_GossipAddress = [], n_Roles = roles, n_CapacityGB = 0, n_Zone = [],
     n_Version = [], n_Status = zero_status\<lparr>Phase := phase\<rparr>, n_LastSeenAt = 0\<rparr>"

definition three_nodes :: "memdb store" where
  "three_nodes =
     put_of (PutNode mem_bolt ''u3'' 5 5 (demo_node ''c'' [''compute''] ''Failed'')
       (put_of (PutNode mem_bolt ''u2'' 8 8 (demo_node ''b'' [''compute''] ''Running'')
         (put_of (PutNode mem_bolt ''u1'' 9 9 (demo_node ''a'' [''compute''] []) fresh_store)))))"

theorem PlaceWorkload_spec_witness:
  "PlaceWorkload mem_bolt \<lparr>sc_selfID = ''a'', sc_required = ''compute''\<rparr> ''compute'' three_nodes = Inr ''b'' \<and>
   (\<exists>nodes. ListNodes mem_bolt three_nodes = Inr nodes \<and> length nodes = 3)"
proof -
  let ?sc = "\<lparr>sc_selfID = ''a'', sc_required = ''compute''\<rparr>"
  have "(case ListNodes mem_bolt three_nodes of Inr ns \<Rightarrow> map (\<lambda>n. m_Name (n_Meta n)) ns = [''a'', ''b'', ''c''] \<and>
      map (\<lambda>n. m_UpdatedAt (n_Meta n)) ns = [9, 8, 5] \<and> map n_Roles ns = replicate 3 [''compute''] \<and>
      map (\<lambda>n. Phase (n_Status n)) ns = [[], ''Running'', ''Failed''] | _ \<Rightarrow> False)" by code_simp
  then obtain x y z where l: "ListNodes mem_bolt three_nodes = Inr [x, y, z]"
    and *: "m_Name (n_Meta x) = ''a''" "m_Name (n_Meta y) = ''b''" "m_Name (n_Meta z) = ''c''"
      "m_UpdatedAt (n_Meta x) = 9" "m_UpdatedAt (n_Meta y) = 8" "n_Roles x = [''compute'']" "n_Roles y = [''compute'']"
      "Phase (n_Status x) = []" "Phase (n_Status y) = ''Running''" "Phase (n_Status z) = ''Failed''"
    by (auto simp: map_eq_Cons_conv numeral_3_eq_3 split: sum.splits)
  have f: "filter (\<lambda>n. ''compute'' \<in> set (n_Roles n) \<and> Phase (n_Status n) \<in> {[], PhaseRunning}) [x, y, z] = [x, y]"
    using * by (simp add: PhaseRunning_def)
  obtain as n bs where n: "[x, y] = as @ n # bs"
    "PlaceWorkload mem_bolt ?sc ''compute'' three_nodes = Inr (m_Name (n_Meta n))"
    "\<forall>b \<in> set bs. m_UpdatedAt (n_Meta n) \<le> m_UpdatedAt (n_Meta b)"
    using PlaceWorkload_spec [OF l refl, of "''compute''" ?sc] unfolding f by auto
  have "n = y"
  proof (cases as)
    case Nil
    with n(1,3) have "m_UpdatedAt (n_Meta x) \<le> m_UpdatedAt (n_Meta y)" by auto
    with * show ?thesis by simp
  next
    case (Cons a as')
    with n(1) show ?thesis by (cases as') auto
  qed
  then show ?thesis using n(2) l * by auto
qed

end
