(* ===== verification/Secrets.thy ===== *)
theory Secrets
  imports Auth_Props
begin

text \<open>
  Secrets, \<^verbatim>\<open>internal/secrets\<close>: sealing with AES-256-GCM (\<^verbatim>\<open>cipher.go\<close>), the secret manager
  (\<^verbatim>\<open>manager.go\<close>) and the master key file (\<^verbatim>\<open>master.go\<close>). The primitives of
  \<^verbatim>\<open>crypto/aes\<close> and \<^verbatim>\<open>crypto/cipher\<close> are parameters: \<open>gseal key nonce plaintext\<close> and
  \<open>gopen key nonce ciphertext\<close> (\<open>None\<close> when authentication fails), with 12-byte nonces.
  \<open>rnd\<close> is the outcome of reading the random source. An error wrapped with \<^verbatim>\<open>%w\<close> is the wrapped
  error, its message prefix left out.
\<close>

section \<open>Sealing\<close>

definition MasterKeyVersion :: string where "MasterKeyVersion = ''v1''"

definition gcmNonceSize :: nat where "gcmNonceSize = 12"

definition Seal ::
  "(bytes \<Rightarrow> bytes \<Rightarrow> bytes \<Rightarrow> bytes) \<Rightarrow> error + bytes \<Rightarrow> bytes \<Rightarrow> bytes \<Rightarrow> error + (bytes \<times> bytes)" where
  "Seal gseal rnd key plaintext =
     (if length key \<noteq> 32 then Inl (Err ''master key must be 32 bytes (AES-256)'')
      else case rnd of Inl e \<Rightarrow> Inl e
           | Inr nonce \<Rightarrow> Inr (nonce, gseal key nonce plaintext))"

definition Unseal ::
  "(bytes \<Rightarrow> bytes \<Rightarrow> bytes \<Rightarrow> bytes option) \<Rightarrow> bytes \<Rightarrow> bytes \<Rightarrow> bytes \<Rightarrow> error + bytes" where
  "Unseal gopen key nonce ciphertext =
     (if length key \<noteq> 32 then Inl (Err ''master key must be 32 bytes (AES-256)'')
      else if length nonce \<noteq> gcmNonceSize then Inl (Err ''bad nonce length'')
      else case gopen key nonce ciphertext of None \<Rightarrow> Inl ErrTampered | Some pt \<Rightarrow> Inr pt)"

section \<open>The manager\<close>

definition SecretRefPrefix :: string where "SecretRefPrefix = ''secret://''"

definition secrets_New :: "bytes \<Rightarrow> error + bytes" where
  "secrets_New masterKey =
     (if length masterKey \<noteq> 32 then Inl (Err ''master key must be 32 bytes'') else Inr masterKey)"

text \<open>\<open>clk 0\<close> is the literal's \<^verbatim>\<open>UpdatedAt\<close>, which \<^verbatim>\<open>PutSecret\<close> overwrites.\<close>

definition secrets_Put ::
  "'db bolt \<Rightarrow> (bytes \<Rightarrow> bytes \<Rightarrow> bytes \<Rightarrow> bytes) \<Rightarrow> error + bytes \<Rightarrow> string \<Rightarrow> (nat \<Rightarrow> time) \<Rightarrow> bytes \<Rightarrow>
   string \<Rightarrow> string \<Rightarrow> string \<Rightarrow> string \<Rightarrow> 'db store \<Rightarrow> 'db store \<times> (error + secret)" where
  "secrets_Put B gseal rnd uid clk key project name description plaintext s =
     (if name = [] then (s, Inl (Err ''secret name required''))
      else case Seal gseal rnd key plaintext of Inl e \<Rightarrow> (s, Inl e)
      | Inr (nonce, ct) \<Rightarrow>
          (let cur = (case GetSecret B project name s of Inl e \<Rightarrow> None | Inr c \<Rightarrow> Some c);
               version = (case cur of Some c \<Rightarrow> s_Version c + 1 | None \<Rightarrow> 1);
               sec = \<lparr>s_Meta = zero_meta\<lparr>m_Project := project, m_Name := name, m_UpdatedAt := clk 0\<rparr>,
                      s_Description = description, s_KeyID = MasterKeyVersion, s_Nonce = nonce,
                      s_Ciphertext = ct, s_Version = version\<rparr>;
               sec = (case cur of None \<Rightarrow> sec
                      | Some c \<Rightarrow> sec\<lparr>s_Meta := (s_Meta sec)\<lparr>m_UID := m_UID (s_Meta c),
                                                           m_CreatedAt := m_CreatedAt (s_Meta c)\<rparr>\<rparr>)
           in case PutSecret B uid (clk 1) (clk 2) sec s of
                (_, s', Some e) \<Rightarrow> (s', Inl e)
              | (sec', s', None) \<Rightarrow> (s', Inr (sec'\<lparr>s_Nonce := [], s_Ciphertext := []\<rparr>))))"

definition Reveal ::
  "'db bolt \<Rightarrow> (bytes \<Rightarrow> bytes \<Rightarrow> bytes \<Rightarrow> bytes option) \<Rightarrow> bytes \<Rightarrow> string \<Rightarrow> string \<Rightarrow> 'db store \<Rightarrow> error + string"
where
  "Reveal B gopen key project name s =
     (case GetSecret B project name s of Inl e \<Rightarrow> Inl e
      | Inr sec \<Rightarrow>
          if s_KeyID sec \<noteq> MasterKeyVersion then Inl (Err ''sealed under unknown key'')
          else Unseal gopen key (s_Nonce sec) (s_Ciphertext sec))"

text \<open>The loop body of \<^verbatim>\<open>Resolve\<close> for one value, then the loop in the map's iteration order.\<close>

definition resolve_value ::
  "'db bolt \<Rightarrow> (bytes \<Rightarrow> bytes \<Rightarrow> bytes \<Rightarrow> bytes option) \<Rightarrow> bytes \<Rightarrow> string \<Rightarrow> 'db store \<Rightarrow> string \<Rightarrow> error + string"
where
  "resolve_value B gopen key project s v =
     (if \<not> HasPrefix v SecretRefPrefix then Inr v
      else let ref = TrimPrefix v SecretRefPrefix;
               (p, n) = (case IndexByte ref CHR ''/'' of
                           Some i \<Rightarrow> if i > 0 then (take i ref, drop (i + 1) ref) else (project, ref)
                         | None \<Rightarrow> (project, ref))
           in Reveal B gopen key p n s)"

fun resolve_loop ::
  "'db bolt \<Rightarrow> (bytes \<Rightarrow> bytes \<Rightarrow> bytes \<Rightarrow> bytes option) \<Rightarrow> bytes \<Rightarrow> string \<Rightarrow> 'db store \<Rightarrow>
   strmap \<Rightarrow> strmap \<Rightarrow> error + strmap" where
  "resolve_loop B gopen key project s [] out = Inr out"
| "resolve_loop B gopen key project s ((k, v) # rest) out =
     (case resolve_value B gopen key project s v of Inl e \<Rightarrow> Inl e
      | Inr pt \<Rightarrow> resolve_loop B gopen key project s rest (AList.update k pt out))"

definition Resolve ::
  "'db bolt \<Rightarrow> (bytes \<Rightarrow> bytes \<Rightarrow> bytes \<Rightarrow> bytes option) \<Rightarrow> bytes \<Rightarrow> string \<Rightarrow> strmap \<Rightarrow> 'db store \<Rightarrow> error + strmap"
where
  "Resolve B gopen key project m s =
     (if m = [] then Inr m else resolve_loop B gopen key project s m [])"

definition ResolveOne ::
  "'db bolt \<Rightarrow> (bytes \<Rightarrow> bytes \<Rightarrow> bytes \<Rightarrow> bytes option) \<Rightarrow> bytes \<Rightarrow> string \<Rightarrow> string \<Rightarrow> 'db store \<Rightarrow> error + string"
where
  "ResolveOne B gopen key project ref s =
     (if \<not> HasPrefix ref SecretRefPrefix then Inr ref
      else case Resolve B gopen key project [(''v'', ref)] s of Inl e \<Rightarrow> Inl e
           | Inr out \<Rightarrow> Inr (case map_of out ''v'' of Some x \<Rightarrow> x | None \<Rightarrow> []))"

definition IsRef :: "string \<Rightarrow> bool" where
  "IsRef v = HasPrefix v SecretRefPrefix"

section \<open>The master key file\<close>

text \<open>
  The file under the data directory, with its permission bits, and the outcomes of the system
  calls the function makes; a failed write leaves \<open>io_left\<close>.
\<close>

record key_file =
  kf_data :: "bytes option"
  kf_perm :: nat

record key_io =
  io_read :: "error option"
  io_mkdir :: "error option"
  io_write :: "error option"
  io_left :: "bytes option"

definition generate_key :: "error + bytes \<Rightarrow> error + bytes" where
  "generate_key rnd = rnd"

definition key_fp :: "(bytes \<Rightarrow> bytes) \<Rightarrow> bytes \<Rightarrow> string" where
  "key_fp H key = hexEncode (take 8 (H key))"

definition LoadOrCreateMasterKey ::
  "(bytes \<Rightarrow> bytes) \<Rightarrow> error + bytes \<Rightarrow> key_io \<Rightarrow> key_file \<Rightarrow> key_file \<times> (error + (bytes \<times> string))" where
  "LoadOrCreateMasterKey H rnd io f =
     (case (kf_data f, io_read io) of
        (None, _) \<Rightarrow>
          (case generate_key rnd of Inl e \<Rightarrow> (f, Inl e)
           | Inr key \<Rightarrow>
               (case io_mkdir io of Some e \<Rightarrow> (f, Inl e)
                | None \<Rightarrow>
                    (case io_write io of Some e \<Rightarrow> (f\<lparr>kf_data := io_left io\<rparr>, Inl e)
                     | None \<Rightarrow> (\<lparr>kf_data = Some key, kf_perm = 384\<rparr>, Inr (key, key_fp H key)))))
      | (Some data, Some e) \<Rightarrow> (f, Inl e)
      | (Some data, None) \<Rightarrow>
          if length data \<noteq> 32 then (f, Inl (Err ''master key file has wrong size''))
          else ((if kf_perm f mod 64 \<noteq> 0 then f\<lparr>kf_perm := 384\<rparr> else f), Inr (data, key_fp H data)))"

section \<open>Properties\<close>

text \<open>
  C18. A secret round-trips: after \<^verbatim>\<open>Put\<close> returns a secret, \<^verbatim>\<open>Reveal\<close> returns exactly the
  plaintext that was put; the version is one more than that of the secret it replaces (1 for
  a new one), the UID and creation time of a replaced secret are kept, and the returned
  object carries neither nonce nor ciphertext. The hypotheses are that AES-GCM opens what it
  sealed and that nonces have the length of \<^verbatim>\<open>NonceSize\<close>.
\<close>

theorem secret_roundtrip:
  assumes "bolt_engine B" "\<forall>k n p. gopen k n (gseal k n p) = Some p" "\<forall>n. rnd = Inr n \<longrightarrow> length n = 12"
    and "project \<noteq> []"
    and "secrets_Put B gseal rnd uid clk key project name description plaintext s = (s', Inr sec)"
  shows "Reveal B gopen key project name s' = Inr plaintext \<and>
    s_Nonce sec = [] \<and> s_Ciphertext sec = [] \<and>
    (\<forall>c. GetSecret B project name s = Inr c \<longrightarrow> s_Version sec = s_Version c + 1 \<and>
       (m_UID (s_Meta c) \<noteq> [] \<longrightarrow> m_UID (s_Meta sec) = m_UID (s_Meta c) \<and>
          m_CreatedAt (s_Meta sec) = m_CreatedAt (s_Meta c))) \<and>
    (\<forall>e. GetSecret B project name s = Inl e \<longrightarrow> s_Version sec = 1 \<and> m_UID (s_Meta sec) = uid)"
proof -
  note st = tables(8) [OF assms(1)]
  obtain nonce v v' where seal: "rnd = Inr nonce" "length key = 32"
    and put: "putScoped B secretT ''secrets'' KindSecret uid (clk 1) (clk 2) v s = (v', s', None)"
    and v: "s_KeyID v = MasterKeyVersion" "s_Nonce v = nonce" "s_Ciphertext v = gseal key nonce plaintext"
      "m_Project (s_Meta v) = project" "m_Name (s_Meta v) = name"
      "s_Version v = (case GetSecret B project name s of Inr c \<Rightarrow> s_Version c + 1 | Inl e \<Rightarrow> 1)"
      "m_UID (s_Meta v) = (case GetSecret B project name s of Inr c \<Rightarrow> m_UID (s_Meta c) | Inl e \<Rightarrow> [])"
      "m_CreatedAt (s_Meta v) = (case GetSecret B project name s of Inr c \<Rightarrow> m_CreatedAt (s_Meta c) | Inl e \<Rightarrow> 0)"
    and sec: "sec = v'\<lparr>s_Nonce := [], s_Ciphertext := []\<rparr>"
    using assms(5)
    by (auto simp: secrets_Put_def Seal_def PutSecret_def zero_meta_def Let_def
        split: if_splits sum.splits prod.splits option.splits)
  have v': "v' = v\<lparr>s_Meta := put_meta uid (clk 1) (clk 2) (s_Meta v)\<rparr>"
    using scoped_table.getMeta_putScoped [OF st put] by (simp add: secretT_def)
  have "GetSecret B project name s' = Inr v'"
    using scoped_table.get_after_put [OF st put] v' v assms(4)
    by (simp add: GetSecret_def secretT_def scoped_key_def)
  then have "Reveal B gopen key project name s' = Inr plaintext"
    using v v' seal assms(2,3) by (simp add: Reveal_def Unseal_def gcmNonceSize_def)
  then show ?thesis using sec v' v by auto
qed

lemma resolve_loop_spec:
  assumes "distinct (map fst m)" "fst ` set m \<inter> fst ` set out = {}"
  shows "(\<forall>r. resolve_loop B gopen key project s m out = Inr r \<longrightarrow>
      (\<forall>k v. (k, v) \<in> set m \<longrightarrow> (\<exists>x. resolve_value B gopen key project s v = Inr x \<and> map_of r k = Some x)) \<and>
      (\<forall>k. k \<notin> fst ` set m \<longrightarrow> map_of r k = map_of out k)) \<and>
    ((\<forall>e \<in> set m. \<exists>x. resolve_value B gopen key project s (snd e) = Inr x) \<longrightarrow>
      (\<exists>r. resolve_loop B gopen key project s m out = Inr r))"
  using assms
proof (induction m arbitrary: out)
  case Nil
  then show ?case by simp
next
  case (Cons e m)
  obtain k v where e: "e = (k, v)" by fastforce
  show ?case
  proof (cases "resolve_value B gopen key project s v")
    case (Inl err)
    then show ?thesis using e by auto
  next
    case (Inr x)
    have "fst ` set m \<inter> fst ` set (AList.update k x out) = {}"
      using Cons.prems e by (auto simp: dom_update)
    note IH = Cons.IH [OF _ this]
    show ?thesis using IH Inr Cons.prems e by (auto simp: map_of_update)
  qed
qed

text \<open>
  \<^verbatim>\<open>Resolve\<close>, whatever the order in which Go iterates over the map: when it succeeds, the
  result has exactly the keys of the input, every literal value is passed through, and every
  \<^verbatim>\<open>secret://\<close> value is replaced by what \<^verbatim>\<open>Reveal\<close> returns for the secret it names, of the
  given project or of the project named in the reference; and it succeeds when every
  reference resolves.
\<close>

theorem Resolve_spec:
  assumes "distinct (map fst m)"
  shows "(\<forall>out. Resolve B gopen key project m s = Inr out \<longrightarrow>
      (\<forall>k. map_of out k = None \<longleftrightarrow> map_of m k = None) \<and>
      (\<forall>k v. map_of m k = Some v \<and> \<not> HasPrefix v ''secret://'' \<longrightarrow> map_of out k = Some v) \<and>
      (\<forall>k n. map_of m k = Some (''secret://'' @ n) \<and> CHR ''/'' \<notin> set n \<longrightarrow>
         (\<exists>pt. Reveal B gopen key project n s = Inr pt \<and> map_of out k = Some pt)) \<and>
      (\<forall>k p n. map_of m k = Some (''secret://'' @ p @ ''/'' @ n) \<and> CHR ''/'' \<notin> set p \<and> p \<noteq> [] \<longrightarrow>
         (\<exists>pt. Reveal B gopen key p n s = Inr pt \<and> map_of out k = Some pt))) \<and>
    ((\<forall>v \<in> ran (map_of m). \<exists>x. resolve_value B gopen key project s v = Inr x) \<longrightarrow>
      (\<exists>out. Resolve B gopen key project m s = Inr out))"
proof -
  have R: "Resolve B gopen key project m s = resolve_loop B gopen key project s m []"
    by (simp add: Resolve_def)
  note L = resolve_loop_spec [OF assms, of "[]" B gopen key project s, simplified, folded R]
  have mem: "map_of m k = Some v \<longleftrightarrow> (k, v) \<in> set m" for k v using assms by simp
  have val: "resolve_value B gopen key project s (''secret://'' @ n) = Reveal B gopen key project n s"
    if "CHR ''/'' \<notin> set n" for n
    using that TrimPrefix_append [of "''secret://''" n] HasPrefix_append [of "''secret://''" n]
    by (simp add: resolve_value_def SecretRefPrefix_def IndexByte_None [THEN iffD2] Let_def
        del: TrimPrefix_append HasPrefix_append)
  have val2: "resolve_value B gopen key project s (''secret://'' @ p @ ''/'' @ n) = Reveal B gopen key p n s"
    if "CHR ''/'' \<notin> set p" "p \<noteq> []" for p n
    using that TrimPrefix_append [of "''secret://''" "p @ ''/'' @ n"] HasPrefix_append [of "''secret://''" "p @ ''/'' @ n"]
      IndexByte_append [OF that(1), of n]
    by (simp add: resolve_value_def SecretRefPrefix_def Let_def del: TrimPrefix_append HasPrefix_append)
  have val3: "resolve_value B gopen key project s v = Inr v" if "\<not> HasPrefix v ''secret://''" for v
    using that by (simp add: resolve_value_def SecretRefPrefix_def)
  show ?thesis
  proof (intro conjI allI impI)
    fix out k assume o: "Resolve B gopen key project m s = Inr out"
    show "map_of out k = None \<longleftrightarrow> map_of m k = None"
      using L o by (metis image_iff map_of_eq_None_iff mem not_None_eq option.distinct(1) prod.collapse)
  next
    fix out k v assume "Resolve B gopen key project m s = Inr out" "map_of m k = Some v \<and> \<not> HasPrefix v ''secret://''"
    then show "map_of out k = Some v" using L val3 mem by fastforce
  next
    fix out k n assume "Resolve B gopen key project m s = Inr out"
      "map_of m k = Some (''secret://'' @ n) \<and> CHR ''/'' \<notin> set n"
    then show "\<exists>pt. Reveal B gopen key project n s = Inr pt \<and> map_of out k = Some pt"
      using L val mem by metis
  next
    fix out k p n assume "Resolve B gopen key project m s = Inr out"
      "map_of m k = Some (''secret://'' @ p @ ''/'' @ n) \<and> CHR ''/'' \<notin> set p \<and> p \<noteq> []"
    then show "\<exists>pt. Reveal B gopen key p n s = Inr pt \<and> map_of out k = Some pt"
      using L val2 mem by metis
  next
    assume "\<forall>v \<in> ran (map_of m). \<exists>x. resolve_value B gopen key project s v = Inr x"
    then show "\<exists>out. Resolve B gopen key project m s = Inr out"
      using L mem by (metis prod.collapse ranI)
  qed
qed

text \<open>
  The master key is stable: once \<^verbatim>\<open>LoadOrCreateMasterKey\<close> has returned a key of 32 bytes,
  every later call whose read succeeds returns the same key and fingerprint and does not
  rewrite the file, and the file is then readable by its owner only.
\<close>

theorem master_key_stable:
  assumes "LoadOrCreateMasterKey H rnd io f = (f1, Inr (key, fp))" "length key = 32" "io_read io' = None"
  shows "LoadOrCreateMasterKey H rnd' io' f1 = (f1, Inr (key, fp)) \<and> kf_data f1 = Some key \<and>
    kf_perm f1 mod 64 = 0 \<and> fp = key_fp H key"
  using assms
  by (auto simp: LoadOrCreateMasterKey_def split: option.splits sum.splits if_splits)

section \<open>Witnesses\<close>

definition with_secret :: "memdb store \<times> (error + secret)" where
  "with_secret = secrets_Put mem_bolt (\<lambda>k n p. p) (Inr (replicate 12 CHR ''n'')) ''u1'' (demo_clk 5)
     (replicate 32 CHR ''k'') ''p'' ''db'' [] ''hunter2'' fresh_store"

theorem secret_roundtrip_witness:
  "\<exists>sec. with_secret = (fst with_secret, Inr sec) \<and>
     Reveal mem_bolt (\<lambda>k n c. Some c) (replicate 32 CHR ''k'') ''p'' ''db'' (fst with_secret) = Inr ''hunter2''"
proof -
  have "(case snd with_secret of Inr x \<Rightarrow> True | _ \<Rightarrow> False)" by code_simp
  then obtain sec where r: "with_secret = (fst with_secret, Inr sec)"
    by (auto simp: prod_eq_iff split: sum.splits)
  from secret_roundtrip [OF mem_engine _ _ _ trans [OF with_secret_def [symmetric] r]] r show ?thesis
    by auto
qed

theorem Resolve_spec_witness:
  "\<exists>out. Resolve mem_bolt (\<lambda>k n c. Some c) (replicate 32 CHR ''k'') ''q''
       [(''A'', ''x''), (''B'', ''secret://p/db'')] (fst with_secret) = Inr out \<and> map_of out ''A'' = Some ''x''"
proof -
  let ?m = "[(''A'', ''x''), (''B'', ''secret://p/db'')] :: strmap"
  let ?R = "Resolve mem_bolt (\<lambda>k n c. Some c) (replicate 32 CHR ''k'') ''q'' ?m (fst with_secret)"
  have "(case ?R of Inr x \<Rightarrow> True | _ \<Rightarrow> False)" by code_simp
  then obtain out where r: "?R = Inr out" by (auto split: sum.splits)
  have d: "distinct (map fst ?m)" by simp
  have "\<not> HasPrefix ''x'' ''secret://''" by (simp add: HasPrefix_def)
  then have "map_of out ''A'' = Some ''x''"
    using Resolve_spec [OF d, of mem_bolt "\<lambda>k n c. Some c" "replicate 32 CHR ''k''" "''q''" "fst with_secret"] r
    by simp
  then show ?thesis using r by blast
qed

theorem master_key_stable_witness:
  "\<exists>f1 fp. LoadOrCreateMasterKey id_hash (Inr (replicate 32 CHR ''k''))
       \<lparr>io_read = None, io_mkdir = None, io_write = None, io_left = None\<rparr> \<lparr>kf_data = None, kf_perm = 0\<rparr> =
       (f1, Inr (replicate 32 CHR ''k'', fp)) \<and>
     LoadOrCreateMasterKey id_hash (Inr [])
       \<lparr>io_read = None, io_mkdir = None, io_write = None, io_left = None\<rparr> f1 = (f1, Inr (replicate 32 CHR ''k'', fp))"
proof -
  let ?io = "\<lparr>io_read = None, io_mkdir = None, io_write = None, io_left = None\<rparr>"
  have "LoadOrCreateMasterKey id_hash (Inr (replicate 32 CHR ''k'')) ?io \<lparr>kf_data = None, kf_perm = 0\<rparr> =
      (\<lparr>kf_data = Some (replicate 32 CHR ''k''), kf_perm = 384\<rparr>,
       Inr (replicate 32 CHR ''k'', key_fp id_hash (replicate 32 CHR ''k'')))"
    by (simp add: LoadOrCreateMasterKey_def generate_key_def)
  from master_key_stable [OF this] this show ?thesis by (metis length_replicate key_io.select_convs(1))
qed

end
