(* ===== verification/Glob.thy ===== *)
theory Glob
  imports Prelude
begin

text \<open>
  \<^verbatim>\<open>path.Match\<close> of Go's standard library, which the rule dispatcher uses for subjects: the
  pattern is cut into chunks at unquoted stars; a chunk is matched at the current position,
  or, after a star, at the leftmost position that does not skip a slash. The functions follow
  the library's \<^verbatim>\<open>scanChunk\<close>, \<^verbatim>\<open>matchChunk\<close> and \<^verbatim>\<open>Match\<close> on ASCII; a malformed pattern is
  \<open>None\<close>, which the caller treats as no match.
\<close>

text \<open>One, possibly escaped, character of a class; the class must go on after it.\<close>

fun getEsc :: "string \<Rightarrow> (char \<times> string) option" where
  "getEsc [] = None"
| "getEsc (c # cs) =
     (if c = CHR ''-'' \<or> c = CHR '']'' then None
      else if c = CHR 0x5C then
        (case cs of [] \<Rightarrow> None | d # ds \<Rightarrow> if ds = [] then None else Some (d, ds))
      else if cs = [] then None else Some (c, cs))"

lemma getEsc_length: "getEsc cs = Some (c, rest) \<Longrightarrow> length rest < length cs \<and> rest \<noteq> []"
  by (cases cs) (auto split: if_splits list.splits)

text \<open>The ranges of a class up to its bracket: whether the character is in one of them.\<close>

function class_loop :: "char \<Rightarrow> bool \<Rightarrow> bool \<Rightarrow> string \<Rightarrow> (bool \<times> string) option" where
  "class_loop r hit some chunk =
     (if chunk \<noteq> [] \<and> hd chunk = CHR '']'' \<and> some then Some (hit, tl chunk)
      else case getEsc chunk of None \<Rightarrow> None
      | Some (lo, rest) \<Rightarrow>
          (if hd rest = CHR ''-'' then
             (case getEsc (tl rest) of None \<Rightarrow> None
              | Some (hi, rest') \<Rightarrow> class_loop r (hit \<or> (lo \<le> r \<and> r \<le> hi)) True rest')
           else class_loop r (hit \<or> r = lo) True rest))"
  by pat_completeness auto

termination
proof (relation "measure (\<lambda>(r, h, s, chunk). length chunk)", goal_cases)
  case 1
  then show ?case by simp
next
  case (2 r hit some chunk a lo rest b hi rest')
  then show ?case using getEsc_length [of chunk lo rest] getEsc_length [of "tl rest" hi rest'] by auto
next
  case (3 r hit some chunk a lo rest)
  then show ?case using getEsc_length [of chunk lo rest] by auto
qed

declare class_loop.simps [simp del]

text \<open>
  \<^verbatim>\<open>matchChunk\<close>: \<open>None\<close> for a malformed chunk, otherwise whether it matches a prefix and the rest
  of the string. Once a character has failed the chunk is only checked for its syntax. The
  length test after a class always holds and makes the recursion evidently terminate.
\<close>

datatype chunk_result = Malformed | NoMatch | MatchRest string

function match_chunk :: "bool \<Rightarrow> string \<Rightarrow> string \<Rightarrow> chunk_result" where
  "match_chunk failed [] s = (if failed then NoMatch else MatchRest s)"
| "match_chunk failed (c # chunk) s =
     (let failed = (failed \<or> s = []) in
      if c = CHR ''['' then
        (let neg = (chunk \<noteq> [] \<and> hd chunk = CHR ''^''); chunk' = (if neg then tl chunk else chunk);
             r = (if failed then CHR 0x00 else hd s); s' = (if failed then s else tl s)
         in case class_loop r False False chunk' of None \<Rightarrow> Malformed
            | Some (hit, rest) \<Rightarrow>
                if length rest < length (c # chunk) then match_chunk (failed \<or> hit = neg) rest s'
                else Malformed)
      else if c = CHR ''?'' then
        match_chunk (failed \<or> hd s = CHR ''/'') chunk (if failed then s else tl s)
      else if c = CHR 0x5C then
        (case chunk of [] \<Rightarrow> Malformed
         | d # ds \<Rightarrow> match_chunk (failed \<or> d \<noteq> hd s) ds (if failed then s else tl s))
      else match_chunk (failed \<or> c \<noteq> hd s) chunk (if failed then s else tl s))"
  by pat_completeness auto
termination
  by (relation "measure (\<lambda>(f, chunk, s). length chunk)") auto

text \<open>\<^verbatim>\<open>scanChunk\<close>: leading stars, then the text up to the next star outside a class.\<close>

fun scan_text :: "bool \<Rightarrow> string \<Rightarrow> string \<times> string" where
  "scan_text inrange [] = ([], [])"
| "scan_text inrange [c] =
     (if c = CHR ''*'' \<and> \<not> inrange then ([], [c]) else ([c], []))"
| "scan_text inrange (c # d # cs) =
     (if c = CHR 0x5C then (case scan_text inrange cs of (a, b) \<Rightarrow> (c # d # a, b))
      else if c = CHR ''*'' \<and> \<not> inrange then ([], c # d # cs)
      else (case scan_text (if c = CHR ''['' then True else if c = CHR '']'' then False else inrange) (d # cs)
            of (a, b) \<Rightarrow> (c # a, b)))"

definition scan_chunk :: "string \<Rightarrow> bool \<times> string \<times> string" where
  "scan_chunk pattern =
     (let p = dropWhile (\<lambda>c. c = CHR ''*'') pattern
      in (p \<noteq> pattern, scan_text False p))"

text \<open>The positions a star may skip to: one or more bytes, no slash among them.\<close>

fun skips :: "string \<Rightarrow> string list" where
  "skips [] = []"
| "skips (c # cs) = (if c = CHR ''/'' then [] else cs # skips cs)"

fun first_match :: "string \<Rightarrow> bool \<Rightarrow> string list \<Rightarrow> chunk_result" where
  "first_match chunk more [] = NoMatch"
| "first_match chunk more (s # ss) =
     (case match_chunk False chunk s of
        MatchRest t \<Rightarrow> if \<not> more \<and> t \<noteq> [] then first_match chunk more ss else MatchRest t
      | Malformed \<Rightarrow> Malformed
      | NoMatch \<Rightarrow> first_match chunk more ss)"

text \<open>
  \<^verbatim>\<open>Match\<close> as a loop over the pattern; every pass takes at least one character of it, so as many
  passes as the pattern has characters are enough. Its boolean result: a malformed rest of the
  pattern only turns false into an error, which the caller ignores.
\<close>

fun match_loop :: "nat \<Rightarrow> string \<Rightarrow> string \<Rightarrow> bool" where
  "match_loop 0 pattern name = (pattern = [] \<and> name = [])"
| "match_loop (Suc n) pattern name =
     (if pattern = [] then name = []
      else case scan_chunk pattern of (star, chunk, rest) \<Rightarrow>
        if star \<and> chunk = [] then CHR ''/'' \<notin> set name
        else case match_chunk False chunk name of
               Malformed \<Rightarrow> False
             | r \<Rightarrow>
                 (case (case r of MatchRest t \<Rightarrow> if t = [] \<or> rest \<noteq> [] then MatchRest t else NoMatch
                        | x \<Rightarrow> x) of
                    MatchRest t \<Rightarrow> match_loop n rest t
                  | _ \<Rightarrow> if star
                         then (case first_match chunk (rest \<noteq> []) (skips name) of
                                 MatchRest t \<Rightarrow> match_loop n rest t | _ \<Rightarrow> False)
                         else False))"

definition path_Match :: "string \<Rightarrow> string \<Rightarrow> bool" where
  "path_Match pattern name = match_loop (length pattern) pattern name"

end
