(* ===== verification/Events.thy ===== *)
theory Events
  imports Glob Store_Props
begin

text \<open>
  The event system, \<^verbatim>\<open>internal/events/bus.go\<close> and \<^verbatim>\<open>dispatcher.go\<close>.

  The bus: a queue of capacity 1024 with a drop counter, live subscribers and sinks. A
  subscriber is a callback; what it was called with is recorded per subscription. Sinks run
  in goroutines of their own: dispatching an event returns the calls it starts.

  The dispatcher: matching rules against an event, counting fires, starting the configured
  actions; and the webhook delivery with its retries. Parameters: \<open>re pattern line\<close> is
  \<^verbatim>\<open>regexp.Compile\<close> and \<^verbatim>\<open>MatchString\<close> (\<open>None\<close> when the pattern does not compile), \<open>hmac key
  msg\<close> is HMAC-SHA-256, \<open>newreq method url\<close> the error of \<^verbatim>\<open>http.NewRequestWithContext\<close> and
  \<open>http i req\<close> what sending the request of attempt \<open>i\<close> yields: an error or a status.
\<close>

section \<open>The bus\<close>

record bus =
  b_queue :: "event_record list"
  b_stopped :: bool
  b_dropped :: int64
  b_sinks :: "string list"
  b_subs :: "(nat \<times> event_record list) list"
  b_nextID :: nat

definition queueCap :: nat where "queueCap = 1024"

definition bus_New :: bus where
  "bus_New = \<lparr>b_queue = [], b_stopped = False, b_dropped = 0, b_sinks = [], b_subs = [], b_nextID = 0\<rparr>"

definition AddSink :: "string \<Rightarrow> bus \<Rightarrow> bus" where
  "AddSink s b = b\<lparr>b_sinks := b_sinks b @ [s]\<rparr>"

definition bus_Subscribe :: "bus \<Rightarrow> nat \<times> bus" where
  "bus_Subscribe b = (b_nextID b, b\<lparr>b_nextID := b_nextID b + 1,
     b_subs := AList.update (b_nextID b) [] (b_subs b)\<rparr>)"

definition bus_Unsubscribe :: "nat \<Rightarrow> bus \<Rightarrow> bus" where
  "bus_Unsubscribe i b = b\<lparr>b_subs := AList.delete i (b_subs b)\<rparr>"

definition Emit :: "time \<Rightarrow> event_record \<Rightarrow> bus \<Rightarrow> bus" where
  "Emit now ev b =
     (if b_stopped b then b
      else let ev = (if isZero (ev_At ev) then ev\<lparr>ev_At := now\<rparr> else ev);
               ev = (if ev_Project ev = [] then ev\<lparr>ev_Project := ''default''\<rparr> else ev)
           in if length (b_queue b) < queueCap then b\<lparr>b_queue := b_queue b @ [ev]\<rparr>
              else b\<lparr>b_dropped := b_dropped b + 1\<rparr>)"

definition Dropped :: "bus \<Rightarrow> int64" where
  "Dropped b = b_dropped b"

text \<open>\<open>fmt\<close>, \<open>uid\<close>, \<open>now\<close> as in \<^verbatim>\<open>AppendEvent\<close>, which fills in the record even when it fails.\<close>

definition dispatch ::
  "'db bolt \<Rightarrow> (time \<Rightarrow> string) \<Rightarrow> string \<Rightarrow> time \<Rightarrow> event_record \<Rightarrow> bus \<Rightarrow> 'db store
   \<Rightarrow> bus \<times> 'db store \<times> (string \<times> event_record) list" where
  "dispatch B fmt uid now ev b s =
     (case AppendEvent B fmt uid now ev s of (ev', s', _) \<Rightarrow>
        (b\<lparr>b_subs := map (\<lambda>(i, got). (i, got @ [ev'])) (b_subs b)\<rparr>, s', map (\<lambda>k. (k, ev')) (b_sinks b)))"

text \<open>One iteration of \<^verbatim>\<open>run\<close>: the context is cancelled, or the oldest event is dispatched.\<close>

definition run_step ::
  "'db bolt \<Rightarrow> (time \<Rightarrow> string) \<Rightarrow> bool \<Rightarrow> string \<Rightarrow> time \<Rightarrow> bus \<Rightarrow> 'db store
   \<Rightarrow> bus \<times> 'db store \<times> (string \<times> event_record) list" where
  "run_step B fmt cancelled uid now b s =
     (if cancelled then (b\<lparr>b_stopped := True\<rparr>, s, [])
      else case b_queue b of [] \<Rightarrow> (b, s, [])
           | ev # rest \<Rightarrow> dispatch B fmt uid now ev (b\<lparr>b_queue := rest\<rparr>) s)"

definition trim_tick ::
  "'db bolt \<Rightarrow> ('db \<Rightarrow> string \<Rightarrow> string option) \<Rightarrow> 'db store \<Rightarrow> 'db store" where
  "trim_tick B nxt s =
     (case ListProjects B s of Inl e \<Rightarrow> s
      | Inr ps \<Rightarrow> foldl (\<lambda>s p. fst (TrimEvents B nxt (m_Name (p_Meta p)) 10000 s)) s ps)"

section \<open>Matching rules\<close>

fun types_hit :: "string list \<Rightarrow> string \<Rightarrow> bool" where
  "types_hit [] ty = False"
| "types_hit (t # ts) ty = (if t = ty \<or> t = ''*'' then True else types_hit ts ty)"

definition data_get :: "strmap \<Rightarrow> string \<Rightarrow> string" where
  "data_get m k = (case map_of m k of Some v \<Rightarrow> v | None \<Rightarrow> [])"

definition ruleMatches :: "(string \<Rightarrow> string \<Rightarrow> bool option) \<Rightarrow> event_rule \<Rightarrow> event_record \<Rightarrow> bool" where
  "ruleMatches re rule ev =
     (let m = er_Match rule in
      if em_Types m \<noteq> [] \<and> \<not> types_hit (em_Types m) (ev_Type ev) then False
      else if em_Subject m = [] then True
      else if ev_Type ev = ''container.log'' then
        (case re (em_Subject m) (data_get (ev_Data ev) ''line'') of None \<Rightarrow> False | Some b \<Rightarrow> b)
      else if ev_Subject ev = em_Subject m then True
      else path_Match (em_Subject m) (ev_Subject ev))"

datatype action_call =
    CallWebhook event_rule event_record
  | CallInvoke event_rule event_record
  | CallContainer event_rule event_record

definition runActions :: "event_rule \<Rightarrow> event_record \<Rightarrow> action_call list" where
  "runActions rule ev =
     (case ea_Webhook (er_Action rule) of Some _ \<Rightarrow> [CallWebhook rule ev] | None \<Rightarrow> []) @
     (case ea_Invoke (er_Action rule) of Some _ \<Rightarrow> [CallInvoke rule ev] | None \<Rightarrow> []) @
     (case ea_Container (er_Action rule) of Some _ \<Rightarrow> [CallContainer rule ev] | None \<Rightarrow> [])"

definition fires :: "(string \<Rightarrow> string \<Rightarrow> bool option) \<Rightarrow> event_rule \<Rightarrow> event_record \<Rightarrow> bool" where
  "fires re rule ev =
     (if \<not> er_Enabled rule then False
      else if m_Project (er_Meta rule) \<noteq> [] \<and> ev_Project ev \<noteq> [] \<and>
              m_Project (er_Meta rule) \<noteq> ev_Project ev then False
      else ruleMatches re rule ev)"

text \<open>
  The loop of \<^verbatim>\<open>Handle\<close>: \<open>clk\<close> and \<open>uid\<close> give the readings of each iteration. The actions see
  the rule as \<^verbatim>\<open>PutEventRule\<close> left it.
\<close>

fun handle_loop ::
  "'db bolt \<Rightarrow> (string \<Rightarrow> string \<Rightarrow> bool option) \<Rightarrow> (nat \<Rightarrow> time) \<Rightarrow> (nat \<Rightarrow> string) \<Rightarrow> nat \<Rightarrow>
   event_record \<Rightarrow> event_rule list \<Rightarrow> 'db store \<Rightarrow> 'db store \<times> action_call list" where
  "handle_loop B re clk uid i ev [] s = (s, [])"
| "handle_loop B re clk uid i ev (rule # rules) s =
     (if \<not> fires re rule ev then handle_loop B re clk uid (i + 1) ev rules s
      else let rule = rule\<lparr>er_LastFiredAt := clk (3 * i), er_FireCount := er_FireCount rule + 1\<rparr> in
        (case PutEventRule B (uid i) (clk (3 * i + 1)) (clk (3 * i + 2)) rule s of
           (rule', s', _) \<Rightarrow>
             (case handle_loop B re clk uid (i + 1) ev rules s' of
                (s'', calls) \<Rightarrow> (s'', runActions rule' ev @ calls))))"

definition Handle ::
  "'db bolt \<Rightarrow> (string \<Rightarrow> string \<Rightarrow> bool option) \<Rightarrow> (nat \<Rightarrow> time) \<Rightarrow> (nat \<Rightarrow> string) \<Rightarrow>
   event_record \<Rightarrow> 'db store \<Rightarrow> 'db store \<times> action_call list" where
  "Handle B re clk uid ev s =
     (case ListAllEventRules B s of Inl e \<Rightarrow> (s, [])
      | Inr rules \<Rightarrow> handle_loop B re clk uid 0 ev rules s)"

section \<open>Webhook delivery\<close>

record web_req =
  rq_method :: string
  rq_url :: string
  rq_headers :: strmap
  rq_body :: bytes

text \<open>\<^verbatim>\<open>Header.Set\<close>: header names are compared without regard to case.\<close>

definition header_set :: "string \<Rightarrow> string \<Rightarrow> strmap \<Rightarrow> strmap" where
  "header_set k v h = AList.update (ToLower k) v h"

definition webhook_signature :: "(bytes \<Rightarrow> bytes \<Rightarrow> bytes) \<Rightarrow> string \<Rightarrow> time \<Rightarrow> bytes \<Rightarrow> string" where
  "webhook_signature hmac key now body =
     (let ts = Itoa (Unix now) in
      ''t='' @ ts @ '',v1='' @ hexEncode (hmac key (ts @ ''.'' @ body)))"

definition webhook_request ::
  "(bytes \<Rightarrow> bytes \<Rightarrow> bytes) \<Rightarrow> time \<Rightarrow> webhook_action \<Rightarrow> event_rule \<Rightarrow> event_record \<Rightarrow> bytes \<Rightarrow> web_req" where
  "webhook_request hmac now cfg rule ev body =
     (let h = header_set ''content-type'' ''application/json'' [];
          h = header_set ''user-agent'' ''selfcloud-events/1'' h;
          h = header_set ''x-selfcloud-event'' (ev_Type ev) h;
          h = header_set ''x-selfcloud-rule'' (m_Name (er_Meta rule)) h;
          h = (if ev_Subject ev \<noteq> [] then header_set ''x-selfcloud-subject'' (ev_Subject ev) h else h);
          h = foldl (\<lambda>h (k, v). header_set k v h) h (wa_Headers cfg);
          h = (if wa_Secret cfg \<noteq> []
               then header_set ''x-selfcloud-signature'' (webhook_signature hmac (wa_Secret cfg) now body) h
               else h)
      in \<lparr>rq_method = (if wa_Method cfg = [] then ''POST'' else wa_Method cfg), rq_url = wa_URL cfg,
          rq_headers = h, rq_body = body\<rparr>)"

text \<open>\<^verbatim>\<open>time.Duration(1<<uint(attempt-1)) * time.Second\<close> in 64-bit arithmetic, capped at a minute.\<close>

definition backoff :: "nat \<Rightarrow> duration" where
  "backoff attempt =
     (let d = push_bit (attempt - 1) (1 :: int64) * 1000000000 in
      if sint d > minute then minute else sint d)"

definition recordDelivery ::
  "'db bolt \<Rightarrow> string \<Rightarrow> (nat \<Rightarrow> time) \<Rightarrow> event_rule \<Rightarrow> webhook_action \<Rightarrow> event_record \<Rightarrow> nat \<Rightarrow> int \<Rightarrow>
   string \<Rightarrow> bool \<Rightarrow> 'db store \<Rightarrow> 'db store" where
  "recordDelivery B uid clk rule cfg ev attempt status errMsg fin s =
     fst (snd (PutDelivery B uid (clk 2) (clk 3)
       \<lparr>d_Meta = zero_meta\<lparr>m_Project := m_Project (er_Meta rule),
          m_Name := m_Name (er_Meta rule) @ ''-'' @ ev_UID ev @ ''-'' @ Itoa (int attempt)\<rparr>,
        d_Rule = m_Name (er_Meta rule), d_URL = wa_URL cfg, d_Status = status, d_Error = errMsg,
        d_Attempt = int attempt, d_NextAttempt = 0, d_Done = fin, d_StartedAt = clk 0,
        d_FinishedAt = clk 1, d_EventUID = ev_UID ev, d_EventType = ev_Type ev\<rparr> s))"

record delivery_trace =
  dt_reqs :: "web_req list"
  dt_sleeps :: "duration list"

text \<open>
  The retry loop over the remaining attempts, with \<open>lastStatus\<close> and \<open>lastErr\<close>. The readings of
  attempt \<open>i\<close> are \<open>clk i\<close> and \<open>uid i\<close>; those of the final record are numbered 6.
\<close>

fun deliver_loop ::
  "'db bolt \<Rightarrow> (bytes \<Rightarrow> bytes \<Rightarrow> bytes) \<Rightarrow> (string \<Rightarrow> string \<Rightarrow> string option) \<Rightarrow>
   (nat \<Rightarrow> web_req \<Rightarrow> string + int) \<Rightarrow> (nat \<Rightarrow> string) \<Rightarrow> (nat \<Rightarrow> nat \<Rightarrow> time) \<Rightarrow> webhook_action \<Rightarrow>
   event_rule \<Rightarrow> event_record \<Rightarrow> bytes \<Rightarrow> nat list \<Rightarrow> int \<Rightarrow> string \<Rightarrow> delivery_trace \<Rightarrow> 'db store
   \<Rightarrow> delivery_trace \<times> 'db store" where
  "deliver_loop B hmac newreq http uid clk cfg rule ev body [] lastStatus lastErr tr s =
     (tr, recordDelivery B (uid 6) (clk 6) rule cfg ev 5 lastStatus (''exhausted: '' @ lastErr) True s)"
| "deliver_loop B hmac newreq http uid clk cfg rule ev body (attempt # later) lastStatus lastErr tr s =
     (let req = webhook_request hmac (clk attempt 4) cfg rule ev body in
      case newreq (rq_method req) (rq_url req) of
        Some err \<Rightarrow>
          (tr, recordDelivery B (uid 6) (clk 6) rule cfg ev 5 lastStatus (''exhausted: '' @ err) True s)
      | None \<Rightarrow>
          (let tr = tr\<lparr>dt_reqs := dt_reqs tr @ [req]\<rparr> in
           case http attempt req of
             Inl err \<Rightarrow>
               deliver_loop B hmac newreq http uid clk cfg rule ev body later lastStatus err
                 (tr\<lparr>dt_sleeps := dt_sleeps tr @ [backoff attempt]\<rparr>)
                 (recordDelivery B (uid attempt) (clk attempt) rule cfg ev attempt 0 err False s)
           | Inr status \<Rightarrow>
               if 200 \<le> status \<and> status < 300
               then (tr, recordDelivery B (uid attempt) (clk attempt) rule cfg ev attempt status [] True s)
               else (let err = ''http '' @ Itoa status in
                 deliver_loop B hmac newreq http uid clk cfg rule ev body later status err
                   (tr\<lparr>dt_sleeps := dt_sleeps tr @ [backoff attempt]\<rparr>)
                   (recordDelivery B (uid attempt) (clk attempt) rule cfg ev attempt status err False s))))"

definition deliverWebhook ::
  "'db bolt \<Rightarrow> (bytes \<Rightarrow> bytes \<Rightarrow> bytes) \<Rightarrow> (string \<Rightarrow> string \<Rightarrow> string option) \<Rightarrow>
   (nat \<Rightarrow> web_req \<Rightarrow> string + int) \<Rightarrow> (nat \<Rightarrow> string) \<Rightarrow> (nat \<Rightarrow> nat \<Rightarrow> time) \<Rightarrow>
   event_rule \<Rightarrow> event_record \<Rightarrow> bytes \<Rightarrow> 'db store \<Rightarrow> delivery_trace \<times> 'db store" where
  "deliverWebhook B hmac newreq http uid clk rule ev body s =
     (case ea_Webhook (er_Action rule) of
        None \<Rightarrow> (\<lparr>dt_reqs = [], dt_sleeps = []\<rparr>, s)
      | Some cfg \<Rightarrow>
          deliver_loop B hmac newreq http uid clk cfg rule ev body [1, 2, 3, 4, 5] 0 []
            \<lparr>dt_reqs = [], dt_sleeps = []\<rparr> s)"

section \<open>The other actions\<close>

text \<open>
  What is asked of the function runtime and of the container runtime; \<open>present\<close> says whether
  the dispatcher was given that runtime.
\<close>

definition invokeFunction ::
  "bool \<Rightarrow> event_rule \<Rightarrow> invoke_action \<Rightarrow> bytes \<Rightarrow> (string \<times> string \<times> string \<times> bytes) option" where
  "invokeFunction present rule cfg body =
     (if \<not> present then None
      else let project = (if ia_Project cfg = [] then m_Project (er_Meta rule) else ia_Project cfg);
               p = (if ia_Path cfg = [] then ''/'' else ia_Path cfg)
           in Some (project, ia_Function cfg, p, body))"

datatype container_call =
  StartByName string string | StopByName string string | RestartByName string string

definition containerAction ::
  "bool \<Rightarrow> event_rule \<Rightarrow> container_action \<Rightarrow> (error + container_call) option" where
  "containerAction present rule cfg =
     (if \<not> present then None
      else let project = (if ca_Project cfg = [] then m_Project (er_Meta rule) else ca_Project cfg) in
        if ca_Action cfg = ''start'' then Some (Inr (StartByName project (ca_Container cfg)))
        else if ca_Action cfg = ''stop'' then Some (Inr (StopByName project (ca_Container cfg)))
        else if ca_Action cfg = ''restart'' then Some (Inr (RestartByName project (ca_Container cfg)))
        else Some (Inl (Err (''unknown action '' @ ca_Action cfg))))"

end
