(* ===== verification/Events_Props.thy ===== *)
theory Events_Props
  imports Events
begin

text \<open>
  Properties of the event bus and of the rule dispatcher.
\<close>

section \<open>The bus as a transition system\<close>

text \<open>
  A run of the bus, with the ghost list of the events emitted so far (as \<^verbatim>\<open>Emit\<close> normalises
  them). Emits and worker iterations interleave arbitrarily with new subscriptions and sinks;
  subscription 0 is there from the start.
\<close>

definition normalise :: "time \<Rightarrow> event_record \<Rightarrow> event_record" where
  "normalise now ev =
     (let ev = (if isZero (ev_At ev) then ev\<lparr>ev_At := now\<rparr> else ev)
      in if ev_Project ev = [] then ev\<lparr>ev_Project := ''default''\<rparr> else ev)"

inductive bus_trace ::
  "'db bolt \<Rightarrow> (time \<Rightarrow> string) \<Rightarrow> bus \<Rightarrow> 'db store \<Rightarrow> event_record list \<Rightarrow> bool" for B fmt where
  start: "bus_trace B fmt (snd (bus_Subscribe bus_New)) s []"
| emit: "bus_trace B fmt b s es \<Longrightarrow> now \<noteq> 0 \<Longrightarrow> bus_trace B fmt (Emit now ev b) s (es @ [normalise now ev])"
| work: "bus_trace B fmt b s es \<Longrightarrow> run_step B fmt False uid now b s = (b', s', calls) \<Longrightarrow>
     bus_trace B fmt b' s' es"
| sink: "bus_trace B fmt b s es \<Longrightarrow> bus_trace B fmt (AddSink k b) s es"
| subscribe: "bus_trace B fmt b s es \<Longrightarrow> bus_trace B fmt (snd (bus_Subscribe b)) s es"
| unsubscribe: "bus_trace B fmt b s es \<Longrightarrow> i \<noteq> 0 \<Longrightarrow> bus_trace B fmt (bus_Unsubscribe i b) s es"

definition strip_uid :: "event_record \<Rightarrow> event_record" where
  "strip_uid ev = ev\<lparr>ev_UID := []\<rparr>"

definition bus_inv :: "bus \<Rightarrow> event_record list \<Rightarrow> bool" where
  "bus_inv b es \<longleftrightarrow> \<not> b_stopped b \<and> length (b_queue b) \<le> queueCap \<and> 0 < b_nextID b \<and>
     (\<forall>ev \<in> set (b_queue b). ev_At ev \<noteq> 0) \<and>
     (\<exists>acc got. subseq acc es \<and> map_of (b_subs b) 0 = Some got \<and>
        map strip_uid (got @ b_queue b) = map strip_uid acc \<and>
        b_dropped b = of_nat (length es - length acc))"

lemma Emit_normalise:
  "\<not> b_stopped b \<Longrightarrow> Emit now ev b =
     (if length (b_queue b) < queueCap then b\<lparr>b_queue := b_queue b @ [normalise now ev]\<rparr>
      else b\<lparr>b_dropped := b_dropped b + 1\<rparr>)"
  by (simp add: Emit_def normalise_def Let_def)

lemma inv_emit:
  assumes "bus_inv b es" "now \<noteq> 0"
  shows "bus_inv (Emit now ev b) (es @ [normalise now ev])"
proof -
  from assms(1) obtain acc got where *: "subseq acc es" "map_of (b_subs b) 0 = Some got"
    "map strip_uid (got @ b_queue b) = map strip_uid acc" "b_dropped b = of_nat (length es - length acc)"
    and b: "\<not> b_stopped b" "length (b_queue b) \<le> queueCap" "0 < b_nextID b" "\<forall>ev \<in> set (b_queue b). ev_At ev \<noteq> 0"
    by (auto simp: bus_inv_def)
  have at: "ev_At (normalise now ev) \<noteq> 0" using assms(2) by (simp add: normalise_def Let_def)
  have le: "length acc \<le> length es" using *(1) by (rule list_emb_length)
  show ?thesis
  proof (cases "length (b_queue b) < queueCap")
    case True
    have "subseq (acc @ [normalise now ev]) (es @ [normalise now ev])"
      using *(1) by (rule list_emb_append_mono) simp
    then show ?thesis using True * b at
      by (auto simp: bus_inv_def Emit_normalise intro!: exI [of _ "acc @ [normalise now ev]"])
  next
    case False
    have "subseq acc (es @ [normalise now ev])" using *(1) by (metis append_Nil2 list_emb_append_mono list_emb_Nil)
    moreover have "b_dropped b + 1 = of_nat (length (es @ [normalise now ev]) - length acc)"
      using le *(4) by (simp add: Suc_diff_le)
    ultimately show ?thesis using False * b
      by (auto simp: bus_inv_def Emit_normalise intro!: exI [of _ acc])
  qed
qed

lemma strip_append:
  assumes "AppendEvent B fmt uid now ev s = (ev', s', r)" "ev_At ev \<noteq> 0"
  shows "strip_uid ev' = strip_uid ev"
  using assms by (auto simp: AppendEvent_def strip_uid_def Let_def split: prod.splits if_splits)

lemma map_of_map_snd: "map_of (map (\<lambda>(i, g). (i, f g)) xs) k = map_option f (map_of xs k)"
  by (induction xs) auto

lemma inv_work:
  assumes "bus_inv b es" "run_step B fmt False uid now b s = (b', s', calls)"
  shows "bus_inv b' es"
proof (cases "b_queue b")
  case Nil
  with assms show ?thesis by (simp add: run_step_def)
next
  case (Cons ev rest)
  obtain ev' s1 r where a: "AppendEvent B fmt uid now ev s = (ev', s1, r)" by (metis prod_cases3)
  have b': "b' = b\<lparr>b_queue := rest, b_subs := map (\<lambda>(i, g). (i, g @ [ev'])) (b_subs b)\<rparr>"
    using assms(2) Cons a by (auto simp: run_step_def dispatch_def)
  from assms(1) obtain acc got where *: "subseq acc es" "map_of (b_subs b) 0 = Some got"
    "map strip_uid (got @ b_queue b) = map strip_uid acc" "b_dropped b = of_nat (length es - length acc)"
    by (auto simp: bus_inv_def)
  have "strip_uid ev' = strip_uid ev" using strip_append [OF a] assms(1) Cons by (simp add: bus_inv_def)
  then have "map strip_uid ((got @ [ev']) @ rest) = map strip_uid acc" using *(3) Cons by simp
  moreover have "map_of (b_subs b') 0 = Some (got @ [ev'])"
    using *(2) by (simp add: b' map_of_map_snd)
  ultimately show ?thesis using * assms(1) Cons by (auto simp: bus_inv_def b')
qed

lemma bus_trace_inv: "bus_trace B fmt b s es \<Longrightarrow> bus_inv b es"
proof (induction rule: bus_trace.induct)
  case (start s)
  then show ?case by (simp add: bus_inv_def bus_Subscribe_def bus_New_def)
next
  case (emit b s es now ev)
  then show ?case by (simp add: inv_emit)
next
  case (work b s es uid now b' s' calls)
  then show ?case by (simp add: inv_work)
next
  case (sink b s es k)
  then show ?case by (simp add: bus_inv_def AddSink_def)
next
  case (subscribe b s es)
  then show ?case by (auto simp: bus_inv_def bus_Subscribe_def map_of_update)
next
  case (unsubscribe b s es i)
  then show ?case by (auto simp: bus_inv_def bus_Unsubscribe_def map_of_delete)
qed

text \<open>
  C36. The bus neither loses, duplicates nor reorders what it accepts: in every run the queue
  stays within its capacity, and what a subscriber has been called with, followed by what is
  still queued, is the sequence of accepted events, in the order they were emitted (up to the
  UID given on dispatch); the accepted events are a subsequence of the emitted ones, and the
  drop counter counts, modulo 2^64, exactly the others.
\<close>

theorem bus_accounting:
  assumes "bus_trace B fmt b s emitted"
  shows "length (b_queue b) \<le> 1024 \<and>
    (\<exists>accepted got. subseq accepted emitted \<and> map_of (b_subs b) 0 = Some got \<and>
       map strip_uid (got @ b_queue b) = map strip_uid accepted \<and>
       Dropped b = of_nat (length emitted - length accepted))"
  using bus_trace_inv [OF assms] by (auto simp: bus_inv_def queueCap_def Dropped_def)

section \<open>The dispatcher\<close>

lemma types_hit_iff: "types_hit ts ty \<longleftrightarrow> ty \<in> set ts \<or> ''*'' \<in> set ts"
  by (induction ts) auto

text \<open>How a rule looks when its actions run: counted and stamped, otherwise as it was listed.\<close>

definition fired_as :: "event_rule \<Rightarrow> event_rule \<Rightarrow> bool" where
  "fired_as r r' \<longleftrightarrow> er_FireCount r' = er_FireCount r + 1 \<and> er_Action r' = er_Action r \<and>
     er_Match r' = er_Match r \<and> m_Name (er_Meta r') = m_Name (er_Meta r) \<and>
     (m_Project (er_Meta r) \<noteq> [] \<longrightarrow> m_Project (er_Meta r') = m_Project (er_Meta r))"

lemma putScoped_value:
  assumes "putScoped B eventRuleT b kind uid t0 t1 r s = (r', s', res)"
  shows "er_FireCount r' = er_FireCount r \<and> er_Action r' = er_Action r \<and> er_Match r' = er_Match r \<and>
    m_Name (er_Meta r') = m_Name (er_Meta r) \<and>
    (m_Project (er_Meta r) \<noteq> [] \<longrightarrow> m_Project (er_Meta r') = m_Project (er_Meta r))"
  using assms
  by (auto simp: putScoped_def eventRuleT_def Let_def split: if_splits prod.splits option.splits)

lemma handle_loop_calls:
  "\<exists>rs. list_all2 fired_as (filter (\<lambda>r. fires re r ev) rules) rs \<and>
     snd (handle_loop B re clk uid i ev rules s) = concat (map (\<lambda>r. runActions r ev) rs)"
proof (induction rules arbitrary: i s)
  case Nil
  then show ?case by simp
next
  case (Cons rule rules)
  show ?case
  proof (cases "fires re rule ev")
    case False
    then show ?thesis using Cons.IH by simp
  next
    case True
    let ?rule = "rule\<lparr>er_LastFiredAt := clk (3 * i), er_FireCount := er_FireCount rule + 1\<rparr>"
    obtain r' s' res where p: "PutEventRule B (uid i) (clk (3 * i + 1)) (clk (3 * i + 2)) ?rule s = (r', s', res)"
      by (metis prod_cases3)
    have f: "fired_as rule r'"
      using putScoped_value [OF p [unfolded PutEventRule_def]] by (simp add: fired_as_def)
    obtain rs where "list_all2 fired_as (filter (\<lambda>r. fires re r ev) rules) rs"
      "snd (handle_loop B re clk uid (i + 1) ev rules s') = concat (map (\<lambda>r. runActions r ev) rs)"
      using Cons.IH by blast
    then show ?thesis using True p f
      by (intro exI [of _ "r' # rs"]) (auto simp: Let_def split: prod.splits)
  qed
qed


section \<open>Webhook delivery\<close>

lemma backoff_small: "backoff 1 = second" "backoff 2 = 2 * second" "backoff 3 = 4 * second"
  "backoff 4 = 8 * second" "backoff 5 = 16 * second"
  by (simp_all add: backoff_def Let_def)

definition delivered :: "string + int \<Rightarrow> bool" where
  "delivered r = (case r of Inl _ \<Rightarrow> False | Inr status \<Rightarrow> 200 \<le> status \<and> status < 300)"

lemma deliver_loop_trace:
  assumes "\<forall>m u. newreq m u = None"
  shows "\<exists>reqs. fst (deliver_loop B hmac newreq http uid clk cfg rule ev body as st er tr s) =
      \<lparr>dt_reqs = dt_reqs tr @ reqs, dt_sleeps = dt_sleeps tr @
         map backoff (takeWhile (\<lambda>a. \<not> delivered (http a (webhook_request hmac (clk a 4) cfg rule ev body))) as)\<rparr> \<and>
    reqs = map (\<lambda>a. webhook_request hmac (clk a 4) cfg rule ev body)
      (let fails = takeWhile (\<lambda>a. \<not> delivered (http a (webhook_request hmac (clk a 4) cfg rule ev body))) as
       in take (Suc (length fails)) as)"
proof (induction as arbitrary: st er tr s)
  case Nil
  then show ?case by simp
next
  case (Cons a as)
  let ?r = "webhook_request hmac (clk a 4) cfg rule ev body"
  show ?case
  proof (cases "delivered (http a ?r)")
    case True
    then show ?thesis using assms by (auto simp: delivered_def Let_def split: sum.splits)
  next
    case False
    then show ?thesis using assms Cons.IH
      by (auto simp: delivered_def Let_def split: sum.splits)
  qed
qed

text \<open>
  Webhook delivery is bounded and stops at the first success: when the request can be
  built, it is sent at most five times, one after the other, up to and including the first
  attempt answered with a 2xx status; between attempts the dispatcher sleeps 1, 2, 4, 8 and 16
  seconds, once after every failed attempt. A request that cannot be built is never sent.
\<close>

theorem deliverWebhook_attempts:
  assumes "ea_Webhook (er_Action rule) = Some cfg"
    and "ok = (\<lambda>a. delivered (http a (webhook_request hmac (clk a 4) cfg rule ev body)))"
    and "deliverWebhook B hmac newreq http uid clk rule ev body s = (tr, s')"
  shows "((\<forall>m u. newreq m u = None) \<longrightarrow>
      length (dt_reqs tr) \<le> 5 \<and>
      dt_reqs tr = map (\<lambda>a. webhook_request hmac (clk a 4) cfg rule ev body)
        (take (Suc (length (dt_sleeps tr))) [1, 2, 3, 4, 5]) \<and>
      dt_sleeps tr = take (length (takeWhile (\<lambda>a. \<not> ok a) [1, 2, 3, 4, 5]))
        [second, 2 * second, 4 * second, 8 * second, 16 * second]) \<and>
    (newreq (if wa_Method cfg = [] then ''POST'' else wa_Method cfg) (wa_URL cfg) \<noteq> None \<longrightarrow>
      dt_reqs tr = [] \<and> dt_sleeps tr = [])"
proof (intro conjI impI)
  assume n: "\<forall>m u. newreq m u = None"
  let ?as = "[1, 2, 3, 4, 5] :: nat list"
  let ?f = "takeWhile (\<lambda>a. \<not> ok a) ?as"
  have m: "map backoff ?as = [second, 2 * second, 4 * second, 8 * second, 16 * second]"
    using backoff_small by simp
  have "take (length ?f) ?as = ?f" by (metis takeWhile_eq_take)
  then have t: "map backoff ?f = take (length ?f) [second, 2 * second, 4 * second, 8 * second, 16 * second]"
    unfolding m [symmetric] take_map by simp
  have tr: "tr = fst (deliver_loop B hmac newreq http uid clk cfg rule ev body ?as 0 []
      \<lparr>dt_reqs = [], dt_sleeps = []\<rparr> s)"
    using assms(1,3) by (simp add: deliverWebhook_def)
  obtain reqs where r: "tr = \<lparr>dt_reqs = reqs, dt_sleeps = map backoff ?f\<rparr>"
    "reqs = map (\<lambda>a. webhook_request hmac (clk a 4) cfg rule ev body) (take (Suc (length ?f)) ?as)"
    using deliver_loop_trace [OF n, of B hmac http uid clk cfg rule ev body ?as 0 "[]"
        "\<lparr>dt_reqs = [], dt_sleeps = []\<rparr>" s] unfolding tr [symmetric] assms(2) Let_def by auto
  show "length (dt_reqs tr) \<le> 5" using r by simp
  show "dt_reqs tr = map (\<lambda>a. webhook_request hmac (clk a 4) cfg rule ev body)
        (take (Suc (length (dt_sleeps tr))) ?as)" using r by simp
  show "dt_sleeps tr = take (length ?f) [second, 2 * second, 4 * second, 8 * second, 16 * second]"
    using r t by simp
next
  assume "newreq (if wa_Method cfg = [] then ''POST'' else wa_Method cfg) (wa_URL cfg) \<noteq> None"
  then have "tr = \<lparr>dt_reqs = [], dt_sleeps = []\<rparr>"
    using assms(1,3) by (auto simp: deliverWebhook_def webhook_request_def Let_def)
  then show "dt_reqs tr = []" "dt_sleeps tr = []" by simp_all
qed

text \<open>
  A webhook with a secret is signed, and no configured header can replace the signature:
  the request carries the HMAC of the time stamp, a dot and the body under the rule's secret,
  whatever headers the rule sets.
\<close>

theorem webhook_signature_set:
  assumes "wa_Secret cfg \<noteq> []"
  shows "map_of (rq_headers (webhook_request hmac now cfg rule ev body)) ''x-selfcloud-signature'' =
    Some (''t='' @ Itoa (Unix now) @ '',v1='' @
      hexEncode (hmac (wa_Secret cfg) (Itoa (Unix now) @ ''.'' @ body)))"
proof -
  have "ToLower ''x-selfcloud-signature'' = ''x-selfcloud-signature''" by code_simp
  then show ?thesis using assms
    by (simp add: webhook_request_def webhook_signature_def header_set_def map_of_update Let_def)
qed

definition demo_rule :: "string \<Rightarrow> event_rule" where
  "demo_rule subject = \<lparr>er_Meta = named ''p'' ''r'', er_Description = [],
     er_Match = \<lparr>em_Types = [''s3.put''], em_Subject = subject, em_Filter = []\<rparr>,
     er_Action = \<lparr>ea_Webhook = Some \<lparr>wa_URL = ''http://h'', wa_Method = [],
         wa_Headers = [(''X-Selfcloud-Signature'', ''forged'')], wa_Secret = ''k''\<rparr>,
       ea_Invoke = None, ea_Container = None\<rparr>,
     er_Enabled = True, er_LastFiredAt = 0, er_FireCount = 0\<rparr>"

definition s3_event :: "string \<Rightarrow> event_record" where
  "s3_event subject = zero_event_record\<lparr>ev_Type := ''s3.put'', ev_Project := ''p'', ev_Subject := subject, ev_At := 5\<rparr>"

text \<open>
  A star in a rule's subject does not cross a slash: a rule on \<open>logs/*\<close> fires for the
  object \<open>logs/a\<close> of the bucket \<open>logs\<close> and not for the object \<open>logs/a/b\<close>, although S3 keys
  contain slashes and the comment on \<^verbatim>\<open>ruleMatches\<close> says that a star acts as a wildcard anywhere.
\<close>

theorem subject_star_stops_at_slash:
  "ruleMatches (\<lambda>_ _. None) (demo_rule ''logs/*'') (s3_event ''logs/a'') \<and>
   \<not> ruleMatches (\<lambda>_ _. None) (demo_rule ''logs/*'') (s3_event ''logs/a/b'')"
  by code_simp

section \<open>Witnesses\<close>

theorem bus_accounting_witness:
  "\<exists>b. bus_trace mem_bolt rfc3339nano b fresh_store [normalise 7 (s3_event ''logs/a'')] \<and>
     length (b_queue b) \<le> 1024 \<and> Dropped b = 0"
proof -
  let ?b = "Emit 7 (s3_event ''logs/a'') (snd (bus_Subscribe bus_New))"
  have t: "bus_trace mem_bolt rfc3339nano ?b fresh_store ([] @ [normalise 7 (s3_event ''logs/a'')])"
    by (rule bus_trace.emit [OF bus_trace.start]) simp
  have "Dropped ?b = 0" by (simp add: Dropped_def Emit_def bus_Subscribe_def bus_New_def queueCap_def Let_def)
  then show ?thesis using bus_accounting [OF t] t by auto
qed

definition with_rule :: "memdb store" where
  "with_rule = put_of (PutEventRule mem_bolt ''u1'' 3 4 (demo_rule ''logs/*'') fresh_store)"


theorem deliverWebhook_attempts_witness:
  "dt_sleeps (fst (deliverWebhook mem_bolt (\<lambda>k m. m) (\<lambda>m u. None) (\<lambda>a r. if a < 3 then Inr 500 else Inr 204)
      (\<lambda>_. ''u'') (\<lambda>i j. 1) (demo_rule ''logs/*'') (s3_event ''logs/a'') ''{}'' fresh_store)) = [second, 2 * second]"
proof -
  let ?d = "deliverWebhook mem_bolt (\<lambda>k m. m) (\<lambda>m u. None) (\<lambda>a r. if a < 3 then Inr 500 else Inr 204)
      (\<lambda>_. ''u'') (\<lambda>i j. 1) (demo_rule ''logs/*'') (s3_event ''logs/a'') ''{}'' fresh_store"
  obtain cfg where c: "ea_Webhook (er_Action (demo_rule ''logs/*'')) = Some cfg" by (simp add: demo_rule_def)
  from deliverWebhook_attempts [OF c refl prod.collapse [of ?d, symmetric]] show ?thesis
    by (simp add: delivered_def)
qed

theorem webhook_signature_set_witness:
  "\<exists>cfg. ea_Webhook (er_Action (demo_rule ''logs/*'')) = Some cfg \<and>
     map_of (rq_headers (webhook_request (\<lambda>k m. m) 0 cfg (demo_rule ''logs/*'') (s3_event ''logs/a'') ''{}''))
       ''x-selfcloud-signature'' = Some (''t='' @ Itoa (Unix 0) @ '',v1='' @ hexEncode (Itoa (Unix 0) @ ''.'' @ ''{}''))"
proof -
  obtain cfg where c: "ea_Webhook (er_Action (demo_rule ''logs/*'')) = Some cfg" "wa_Secret cfg \<noteq> []"
    by (simp add: demo_rule_def)
  from webhook_signature_set [OF c(2), of "\<lambda>k m. m" 0 "demo_rule ''logs/*''" "s3_event ''logs/a''" "''{}''"] c(1)
  show ?thesis by blast
qed

end
