(* ===== verification/Runtime.thy ===== *)
theory Runtime
  imports Store
begin

text \<open>
  The container runtimes, \<^verbatim>\<open>internal/runtime/container\<close>: the interface the reconciler uses, the
  in-memory stub (\<^verbatim>\<open>stub.go\<close>), the shim over the \<^verbatim>\<open>ctr\<close> command (\<^verbatim>\<open>ctr.go\<close>) and where secret
  files are staged (\<^verbatim>\<open>secrets.go\<close>); and the host network, \<^verbatim>\<open>internal/network/network.go\<close>.

  External commands are a parameter: \<open>exec args h\<close> runs a command on the host state \<open>h\<close> and
  yields the new host state and an error or the standard output. The function of the shim
  that runs \<^verbatim>\<open>ctr\<close> prepends the socket and the namespace.
\<close>

section \<open>The interface\<close>

text \<open>\<open>rt_alive\<close> is the optional liveness hook \<^verbatim>\<open>IsRunning\<close>.\<close>

record 'rt runtime =
  rt_Start :: "container \<Rightarrow> 'rt \<Rightarrow> 'rt \<times> (error + container_status)"
  rt_alive :: "(container \<Rightarrow> 'rt \<Rightarrow> 'rt \<times> (error + bool)) option"

section \<open>The stub\<close>

record stub =
  st_state :: "(string \<times> container_status) list"
  st_logs :: "(string \<times> bytes) list"
  st_nextIP :: "8 word"

definition NewStub :: stub where
  "NewStub = \<lparr>st_state = [], st_logs = [], st_nextIP = 2\<rparr>"

definition stub_key :: "container \<Rightarrow> string" where
  "stub_key c = m_Project (c_Meta c) @ ''/'' @ m_Name (c_Meta c)"

definition stub_Start :: "(nat \<Rightarrow> time) \<Rightarrow> container \<Rightarrow> stub \<Rightarrow> stub \<times> (error + container_status)" where
  "stub_Start clk c s =
     (let st = zero_container_status\<lparr>Phase := PhaseRunning, Message := ''started by stub runtime'',
                 StatusUpdatedAt := clk 0, ContainerdID := ''stub-'' @ m_UID (c_Meta c),
                 StartedAt := clk 1, IPAddress := ''10.42.0.'' @ Itoa (uint (st_nextIP s)),
                 StatusImage := c_Image c\<rparr>
      in (\<lparr>st_state = AList.update (stub_key c) st (st_state s),
           st_logs = AList.update (stub_key c) (''[stub] container '' @ m_Name (c_Meta c) @
             '' started with image '' @ c_Image c @ [CHR 0x0A]) (st_logs s),
           st_nextIP = st_nextIP s + 1\<rparr>, Inr st))"

definition stub_Stop :: "time \<Rightarrow> container \<Rightarrow> stub \<Rightarrow> stub" where
  "stub_Stop now c s =
     (case map_of (st_state s) (stub_key c) of None \<Rightarrow> s
      | Some st \<Rightarrow> s\<lparr>st_state := AList.update (stub_key c)
          (st\<lparr>Phase := PhaseStopped, StatusUpdatedAt := now\<rparr>) (st_state s)\<rparr>)"

definition stub_Remove :: "container \<Rightarrow> stub \<Rightarrow> stub" where
  "stub_Remove c s = s\<lparr>st_state := AList.delete (stub_key c) (st_state s),
     st_logs := AList.delete (stub_key c) (st_logs s)\<rparr>"

definition stub_Logs :: "container \<Rightarrow> stub \<Rightarrow> bytes" where
  "stub_Logs c s = (case map_of (st_logs s) (stub_key c) of None \<Rightarrow> [] | Some d \<Rightarrow> d)"

definition stub_List :: "stub \<Rightarrow> string list" where
  "stub_List s = map fst (st_state s)"

definition stub_runtime :: "(nat \<Rightarrow> time) \<Rightarrow> stub runtime" where
  "stub_runtime clk = \<lparr>rt_Start = stub_Start clk, rt_alive = None\<rparr>"

section \<open>Secret files\<close>

text \<open>
  The path of a staged secret, as the elements joined by \<^verbatim>\<open>filepath.Join\<close>; both the writer and
  the shim compute it, from the container and the mount path.
\<close>

definition secret_uid :: "container \<Rightarrow> string" where
  "secret_uid c =
     (if m_UID (c_Meta c) = [] then m_Project (c_Meta c) @ ''-'' @ m_Name (c_Meta c) else m_UID (c_Meta c))"

definition secret_name :: "string \<Rightarrow> string" where
  "secret_name mountPath =
     (let name = Base mountPath in
      if name = ''/'' \<or> name = [] \<or> name = ''.'' then ''secret'' else name)"

definition secret_path :: "string \<Rightarrow> container \<Rightarrow> string \<Rightarrow> string list" where
  "secret_path dataDir c mountPath = [dataDir, ''secret-mounts'', secret_uid c, secret_name mountPath]"

text \<open>The staged files as a map from paths to contents; \<open>mkdir\<close> and \<open>write\<close> are system call outcomes.\<close>

type_synonym files = "(string list \<times> bytes) list"

definition writeSecretFile ::
  "error option \<Rightarrow> error option \<Rightarrow> string \<Rightarrow> container \<Rightarrow> string \<Rightarrow> string \<Rightarrow> files \<Rightarrow> files \<times> error option" where
  "writeSecretFile mkdir write dataDir c mountPath plaintext fs =
     (let dataDir = (if dataDir = [] then ''/var/lib/selfcloud'' else dataDir) in
      case mkdir of Some e \<Rightarrow> (fs, Some e)
      | None \<Rightarrow>
          (case write of Some e \<Rightarrow> (fs, Some e)
           | None \<Rightarrow> (AList.update (secret_path dataDir c mountPath) plaintext fs, None)))"

section \<open>The ctr shim\<close>

type_synonym 'h exec = "string list \<Rightarrow> 'h \<Rightarrow> 'h \<times> (error + bytes)"

definition ctrTaskID :: "container \<Rightarrow> string" where
  "ctrTaskID c = ''selfcloud-'' @ m_Project (c_Meta c) @ ''-'' @ m_Name (c_Meta c)"

definition newline :: char where "newline = CHR 0x0A"

definition port_args :: "port_mapping list \<Rightarrow> string list" where
  "port_args ps = concat (map (\<lambda>p. [''--label'', ''selfcloud.port.'' @ Itoa (pm_Container p) @ ''='' @
     Itoa (pm_Host p) @ ''/'' @ pm_Protocol p]) ps)"

definition volume_args :: "volume_mount list \<Rightarrow> string list" where
  "volume_args vs = concat (map (\<lambda>v.
     if vm_Bucket v \<noteq> [] \<or> vm_MountPath v = [] then []
     else [''--mount'', ''type=bind,src='' @ vm_MountPath v @ '',dst='' @ vm_MountPath v @ '',options='' @
           (if vm_ReadOnly v then ''rbind,ro'' else ''rbind,rw'')]) vs)"

definition secret_args :: "string \<Rightarrow> container \<Rightarrow> string list" where
  "secret_args dataDir c =
     (if dataDir = [] then []
      else concat (map (\<lambda>sm. if sm_MountPath sm = [] then []
             else [''--mount'', ''type=bind,src='' @ Join (secret_path dataDir c (sm_MountPath sm)) ''/'' @
                   '',dst='' @ sm_MountPath sm @ '',options=rbind,ro'']) (c_SecretMounts c)))"

definition cpu_quota :: "int \<Rightarrow> int" where
  "cpu_quota millicores = (let quota = 100000 * millicores div 1000 in if quota < 1000 then 1000 else quota)"

definition resource_args :: "resource_limits \<Rightarrow> string list" where
  "resource_args r =
     (if rl_MemoryMB r > 0 then [''--memory-limit'', Itoa (rl_MemoryMB r * 1024 * 1024)] else []) @
     (if rl_CPUMillicores r > 0
      then [''--cpu-period'', Itoa 100000, ''--cpu-quota'', Itoa (cpu_quota (rl_CPUMillicores r))] else [])"

definition ctr_run_args :: "string \<Rightarrow> container \<Rightarrow> string list" where
  "ctr_run_args dataDir c =
     [''run'', ''-d''] @ concat (map (\<lambda>(k, v). [''--env'', k @ ''='' @ v]) (c_Env c)) @
     port_args (c_Ports c) @ volume_args (c_Volumes c) @ secret_args dataDir c @
     resource_args (c_Resources c) @ [c_Image c, ctrTaskID c] @ c_Command c @ c_Args c"

definition ctr_Start ::
  "'h exec \<Rightarrow> string \<Rightarrow> (nat \<Rightarrow> time) \<Rightarrow> container \<Rightarrow> 'h \<Rightarrow> 'h \<times> (error + container_status)" where
  "ctr_Start exec dataDir clk c h =
     (case exec [''containers'', ''list'', ''-q''] h of (h1, listing) \<Rightarrow>
        let running = (case listing of Inl e \<Rightarrow> False
              | Inr out \<Rightarrow> ctrTaskID c \<in> set (map TrimSpace (SplitByte (TrimSpace out) newline)))
        in if running
           then (h1, Inr (zero_container_status\<lparr>Phase := PhaseRunning, Message := ''already running'',
                        StatusUpdatedAt := clk 0, ContainerdID := ctrTaskID c, StatusImage := c_Image c\<rparr>))
           else case exec [''images'', ''pull'', c_Image c] h1 of
                  (h2, Inl e) \<Rightarrow> (h2, Inl (Err (''pull '' @ c_Image c @ '': '' @ errorString e)))
                | (h2, Inr _) \<Rightarrow>
                    (case exec (ctr_run_args dataDir c) h2 of
                       (h3, Inl e) \<Rightarrow> (h3, Inl (Err (''run: '' @ errorString e)))
                     | (h3, Inr _) \<Rightarrow>
                         (h3, Inr (zero_container_status\<lparr>Phase := PhaseRunning, Message := ''started'',
                            StatusUpdatedAt := clk 0, ContainerdID := ctrTaskID c, StartedAt := clk 1,
                            StatusImage := c_Image c\<rparr>))))"

definition ctr_IsRunning :: "'h exec \<Rightarrow> container \<Rightarrow> 'h \<Rightarrow> 'h \<times> (error + bool)" where
  "ctr_IsRunning exec c h =
     (case exec [''tasks'', ''ls''] h of
        (h1, Inl e) \<Rightarrow> (h1, Inl e)
      | (h1, Inr out) \<Rightarrow>
          (h1, Inr (list_ex (\<lambda>line. let f = Fields (TrimSpace line) in
             length f \<ge> 3 \<and> f ! 0 = ctrTaskID c \<and> f ! 2 = ''RUNNING'') (SplitByte out newline))))"

definition ctr_Stop :: "'h exec \<Rightarrow> container \<Rightarrow> 'h \<Rightarrow> 'h \<times> error option" where
  "ctr_Stop exec c h =
     (case exec [''tasks'', ''kill'', ''--signal'', ''SIGTERM'', ctrTaskID c] h of
        (h1, Inl e) \<Rightarrow> (h1, Some e) | (h1, Inr _) \<Rightarrow> (h1, None))"

definition ctr_Remove :: "'h exec \<Rightarrow> container \<Rightarrow> 'h \<Rightarrow> 'h \<times> error option" where
  "ctr_Remove exec c h =
     (case exec [''tasks'', ''delete'', ctrTaskID c] h of (h1, _) \<Rightarrow>
        (case exec [''containers'', ''delete'', ctrTaskID c] h1 of
           (h2, Inl e) \<Rightarrow> (h2, Some e) | (h2, Inr _) \<Rightarrow> (h2, None)))"

definition ctr_List :: "'h exec \<Rightarrow> 'h \<Rightarrow> 'h \<times> (error + string list)" where
  "ctr_List exec h =
     (case exec [''containers'', ''list'', ''-q''] h of
        (h1, Inl e) \<Rightarrow> (h1, Inl e)
      | (h1, Inr out) \<Rightarrow>
          (h1, Inr (filter (\<lambda>l. l \<noteq> []) (map TrimSpace (SplitByte (TrimSpace out) newline)))))"

definition ctr_runtime :: "'h exec \<Rightarrow> string \<Rightarrow> (nat \<Rightarrow> time) \<Rightarrow> 'h runtime" where
  "ctr_runtime exec dataDir clk =
     \<lparr>rt_Start = ctr_Start exec dataDir clk, rt_alive = Some (ctr_IsRunning exec)\<rparr>"

section \<open>The host network\<close>

text \<open>\<open>linux\<close> is \<^verbatim>\<open>runtime.GOOS == "linux"\<close>; \<open>avail\<close> says which binaries are on the path.\<close>

record net_manager =
  nm_bridge :: string
  nm_subnet :: string

definition net_NewManager :: "string \<Rightarrow> string \<Rightarrow> net_manager" where
  "net_NewManager bridge subnet =
     \<lparr>nm_bridge = (if bridge = [] then ''selfcloud0'' else bridge),
      nm_subnet = (if subnet = [] then ''10.42.0.0/16'' else subnet)\<rparr>"

definition gateway :: "string \<Rightarrow> string" where
  "gateway subnet = Replace1 (SplitByte subnet CHR ''/'' ! 0) ''.0'' ''.1''"

definition net_Setup ::
  "bool \<Rightarrow> (string \<Rightarrow> bool) \<Rightarrow> 'h exec \<Rightarrow> net_manager \<Rightarrow> 'h \<Rightarrow> 'h \<times> error option" where
  "net_Setup linux avail exec m h =
     (if \<not> linux then (h, None)
      else if \<not> avail ''ip'' then (h, Some (Err ''`ip` not found; install iproute2''))
      else let configure = (\<lambda>h.
             if length (SplitByte (nm_subnet m) CHR ''/'') < 2 then (h, Some ErrPanic)
             else let h = fst (exec [''ip'', ''addr'', ''add'', gateway (nm_subnet m) @ ''/'' @
                        SplitByte (nm_subnet m) CHR ''/'' ! 1, ''dev'', nm_bridge m] h);
                      h = fst (exec [''ip'', ''link'', ''set'', nm_bridge m, ''up''] h)
                  in (if avail ''sysctl'' then fst (exec [''sysctl'', ''-w'', ''net.ipv4.ip_forward=1''] h) else h,
                      None))
           in case exec [''ip'', ''link'', ''show'', nm_bridge m] h of
                (h1, Inr _) \<Rightarrow> configure h1
              | (h1, Inl _) \<Rightarrow>
                  (case exec [''ip'', ''link'', ''add'', nm_bridge m, ''type'', ''bridge''] h1 of
                     (h2, Inl e) \<Rightarrow> (h2, Some e) | (h2, Inr _) \<Rightarrow> configure h2))"

definition publish_rule :: "int \<Rightarrow> int \<Rightarrow> string \<Rightarrow> string \<Rightarrow> string" where
  "publish_rule hostPort containerPort proto containerIP =
     (if proto = [] then ''tcp'' else proto) @ '' dport '' @ Itoa hostPort @ '' dnat to '' @ containerIP @
     '':'' @ Itoa containerPort"

definition Publish ::
  "bool \<Rightarrow> (string \<Rightarrow> bool) \<Rightarrow> 'h exec \<Rightarrow> int \<Rightarrow> int \<Rightarrow> string \<Rightarrow> string \<Rightarrow> 'h \<Rightarrow> 'h \<times> error option" where
  "Publish linux avail exec hostPort containerPort proto containerIP h =
     (if \<not> linux \<or> \<not> avail ''nft'' then (h, None)
      else let h' = (case exec [''nft'', ''list'', ''table'', ''ip'', ''selfcloud''] h of
                       (h1, Inr _) \<Rightarrow> h1
                     | (h1, Inl _) \<Rightarrow>
                         fst (exec [''nft'', ''add'', ''chain'', ''ip'', ''selfcloud'', ''prerouting'',
                                    ''{ type nat hook prerouting priority dstnat ; policy accept ; }'']
                           (fst (exec [''nft'', ''add'', ''table'', ''ip'', ''selfcloud''] h1))))
           in case exec [''nft'', ''add'', ''rule'', ''ip'', ''selfcloud'', ''prerouting'',
                         publish_rule hostPort containerPort proto containerIP] h' of
                (h2, Inl e) \<Rightarrow> (h2, Some e) | (h2, Inr _) \<Rightarrow> (h2, None))"

definition Unpublish :: "bool \<Rightarrow> (string \<Rightarrow> bool) \<Rightarrow> 'h exec \<Rightarrow> int \<Rightarrow> string \<Rightarrow> 'h \<Rightarrow> 'h \<times> error option" where
  "Unpublish linux avail exec hostPort proto h =
     (if \<not> linux \<or> \<not> avail ''nft'' then (h, None)
      else (fst (exec [''nft'', ''flush'', ''chain'', ''ip'', ''selfcloud'', ''prerouting''] h), None))"

end
