(* ===== verification/Reconcile.thy ===== *)
theory Reconcile
  imports Runtime Store_Props
begin

text \<open>
  The container reconciler, \<^verbatim>\<open>internal/runtime/container/reconcile.go\<close>. State: per container
  the bookkeeping of \<^verbatim>\<open>reconcileState\<close>, the store, and the runtime. The optional parts (secret
  resolver, event bus, network) are in \<open>rc_env\<close>; what the reconciler asks of them, and every
  start, is recorded in a list of effects. The readings of the clock and of \<^verbatim>\<open>newUID\<close> by the
  single \<^verbatim>\<open>PutContainer\<close> a pass makes are \<open>uid\<close>, \<open>t0\<close>, \<open>t1\<close>.

  Aliasing. \<^verbatim>\<open>cWork := *c\<close> copies the struct but not the map \<^verbatim>\<open>Env\<close>: unless \<^verbatim>\<open>Resolve\<close> returned a
  new map, or the map is nil, the injected variables are written into the map of \<open>c\<close> itself,
  which is the object a later \<^verbatim>\<open>PutContainer\<close> persists. \<open>work_env\<close> returns both maps. An empty
  environment is a nil map: a container read from the store has no empty non-nil map, since
  the field is omitted from the JSON when it is empty.
\<close>

record rstate =
  lastAttempt :: time
  nextAttempt :: time
  lastAliveCheck :: time
  attempts :: int
  lastGen :: int64
  startedOK :: bool

definition zero_rstate :: rstate where
  "zero_rstate = \<lparr>lastAttempt = 0, nextAttempt = 0, lastAliveCheck = 0, attempts = 0, lastGen = 0,
     startedOK = False\<rparr>"

record 'db resolver =
  rv_Resolve :: "string \<Rightarrow> strmap \<Rightarrow> 'db store \<Rightarrow> error + strmap"
  rv_Reveal :: "string \<Rightarrow> string \<Rightarrow> 'db store \<Rightarrow> error + string"

record 'db rc_env =
  rc_secrets :: "'db resolver option"
  rc_bus :: bool
  rc_net :: bool

datatype effect =
    EffStart container
  | EffEmit event_record
  | EffPublish int int string string
  | EffSecretFile container string string

type_synonym rc_states = "(string \<times> rstate) list"

definition rc_key :: "container \<Rightarrow> string" where
  "rc_key c = m_Project (c_Meta c) @ ''/'' @ m_Name (c_Meta c)"

definition rc_get :: "string \<Rightarrow> rc_states \<Rightarrow> rstate" where
  "rc_get key rs = (case map_of rs key of Some st \<Rightarrow> st | None \<Rightarrow> zero_rstate)"

definition rc_forget :: "string \<Rightarrow> rc_states \<Rightarrow> rc_states" where
  "rc_forget key rs = AList.delete key rs"

definition shouldVerifyAlive :: "rstate \<Rightarrow> time \<Rightarrow> bool" where
  "shouldVerifyAlive st now = (now - lastAliveCheck st > 8 * second)"

definition isRunning :: "'rt runtime \<Rightarrow> container \<Rightarrow> 'rt \<Rightarrow> 'rt \<times> bool" where
  "isRunning RT c rt =
     (case rt_alive RT of None \<Rightarrow> (rt, True)
      | Some alive \<Rightarrow> (case alive c rt of (rt', Inl e) \<Rightarrow> (rt', True) | (rt', Inr ok) \<Rightarrow> (rt', ok)))"

definition shouldRestart :: "string \<Rightarrow> bool" where
  "shouldRestart p = (p = RestartAlways \<or> p = RestartOnFailure)"

text \<open>The environment the runtime sees, and the one \<open>c\<close> has afterwards.\<close>

definition work_env :: "'db resolver \<Rightarrow> container \<Rightarrow> 'db store \<Rightarrow> strmap \<times> strmap" where
  "work_env R c s =
     (let project = m_Project (c_Meta c);
          (env, aliased) = (case rv_Resolve R project (c_Env c) s of
                              Inr resolved \<Rightarrow> (resolved, False)
                            | Inl e \<Rightarrow> (c_Env c, c_Env c \<noteq> []));
          env' = foldl (\<lambda>m sm. if sm_EnvName sm = [] then m
                   else case rv_Reveal R project (sm_Secret sm) s of
                          Inl e \<Rightarrow> m | Inr pt \<Rightarrow> AList.update (sm_EnvName sm) pt m) env (c_SecretMounts c)
      in (env', if aliased then env' else c_Env c))"

definition secret_files :: "'db resolver \<Rightarrow> container \<Rightarrow> 'db store \<Rightarrow> effect list" where
  "secret_files R c s = concat (map (\<lambda>sm.
     if sm_MountPath sm = [] then []
     else case rv_Reveal R (m_Project (c_Meta c)) (sm_Secret sm) s of
            Inl e \<Rightarrow> [] | Inr pt \<Rightarrow> [EffSecretFile c (sm_MountPath sm) pt]) (c_SecretMounts c))"

text \<open>The retry delay: the loop \<^verbatim>\<open>for i := 1; i < attempts && backoff < 5m; i++ { backoff *= 2 }\<close>.\<close>

fun retry_loop :: "nat \<Rightarrow> duration \<Rightarrow> duration" where
  "retry_loop 0 b = b"
| "retry_loop (Suc n) b = (if b < 5 * minute then retry_loop n (b * 2) else b)"

definition retry_delay :: "int \<Rightarrow> duration" where
  "retry_delay n =
     (let b = retry_loop (nat (n - 1)) (5 * second) in if b > 5 * minute then 5 * minute else b)"

definition crash_event :: "container \<Rightarrow> error \<Rightarrow> int \<Rightarrow> event_record" where
  "crash_event c e n = zero_event_record\<lparr>ev_Type := ''container.crash'', ev_Project := m_Project (c_Meta c),
     ev_Subject := m_Name (c_Meta c), ev_Data := [(''name'', m_Name (c_Meta c)), (''image'', c_Image c),
       (''error'', errorString e), (''attempts'', Itoa n)]\<rparr>"

definition start_event :: "container \<Rightarrow> event_record" where
  "start_event c = zero_event_record\<lparr>ev_Type := ''container.start'', ev_Project := m_Project (c_Meta c),
     ev_Subject := m_Name (c_Meta c), ev_Data := [(''name'', m_Name (c_Meta c)), (''image'', c_Image c)]\<rparr>"

section \<open>One pass\<close>

text \<open>Storing a container and discarding the error.\<close>

definition put_ignored ::
  "'db bolt \<Rightarrow> string \<Rightarrow> time \<Rightarrow> time \<Rightarrow> container \<Rightarrow> 'db store \<Rightarrow> 'db store" where
  "put_ignored B uid t0 t1 c s = fst (snd (PutContainer B uid t0 t1 c s))"

text \<open>
  The part of \<^verbatim>\<open>reconcileOne\<close> from the start path on: \<open>c\<close> is the container, \<open>st\<close> its state. First
  the environments and the staged files, then what follows a failed and a successful start.
\<close>

definition start_envs :: "'db rc_env \<Rightarrow> container \<Rightarrow> 'db store \<Rightarrow> strmap \<times> strmap" where
  "start_envs env c s = (case rc_secrets env of None \<Rightarrow> (c_Env c, c_Env c) | Some R \<Rightarrow> work_env R c s)"

definition start_files :: "'db rc_env \<Rightarrow> container \<Rightarrow> 'db store \<Rightarrow> effect list" where
  "start_files env c s = (case rc_secrets env of None \<Rightarrow> [] | Some R \<Rightarrow> secret_files R c s)"

definition after_failure ::
  "'db bolt \<Rightarrow> 'db rc_env \<Rightarrow> time \<Rightarrow> string \<Rightarrow> time \<Rightarrow> time \<Rightarrow> container \<Rightarrow> error \<Rightarrow> rstate \<Rightarrow> 'db store
   \<Rightarrow> rstate \<times> 'db store \<times> effect list" where
  "after_failure B env now uid t0 t1 c e st s =
     (let st = st\<lparr>attempts := attempts st + 1, startedOK := False\<rparr>;
          st = st\<lparr>nextAttempt := now + retry_delay (attempts st)\<rparr>;
          s' = (if Phase (c_Status c) \<noteq> PhaseFailed \<or> Message (c_Status c) \<noteq> errorString e
                then put_ignored B uid t0 t1 (c\<lparr>c_Status := zero_container_status\<lparr>
                       Phase := PhaseFailed, Message := errorString e, StatusUpdatedAt := now\<rparr>\<rparr>) s
                else s)
      in (st, s', if rc_bus env then [EffEmit (crash_event c e (attempts st))] else []))"

definition after_success ::
  "'db bolt \<Rightarrow> 'db rc_env \<Rightarrow> string \<Rightarrow> string \<Rightarrow> time \<Rightarrow> time \<Rightarrow> container \<Rightarrow> container_status \<Rightarrow> rstate \<Rightarrow>
   'db store \<Rightarrow> rstate \<times> 'db store \<times> effect list" where
  "after_success B env nodeID uid t0 t1 c out st s =
     (let wasRunning = startedOK st;
          st = st\<lparr>attempts := 0, startedOK := True, lastGen := m_Generation (c_Meta c)\<rparr>;
          s' = (if Phase (c_Status c) \<noteq> Phase out \<or> c_NodeID c \<noteq> nodeID
                then put_ignored B uid t0 t1 (c\<lparr>c_Status := out, c_NodeID := nodeID\<rparr>) s
                else s)
      in (st, s', (if rc_bus env \<and> \<not> wasRunning then [EffEmit (start_event c)] else []) @
            (if rc_net env \<and> IPAddress out \<noteq> []
             then map (\<lambda>p. EffPublish (pm_Host p) (pm_Container p) (pm_Protocol p) (IPAddress out)) (c_Ports c)
             else [])))"

definition start_path ::
  "'db bolt \<Rightarrow> 'rt runtime \<Rightarrow> 'db rc_env \<Rightarrow> string \<Rightarrow> time \<Rightarrow> string \<Rightarrow> time \<Rightarrow> time \<Rightarrow> container \<Rightarrow> rstate \<Rightarrow>
   'db store \<Rightarrow> 'rt \<Rightarrow> rstate \<times> 'db store \<times> 'rt \<times> effect list" where
  "start_path B RT env nodeID now uid t0 t1 c st s rt =
     (let cWork = c\<lparr>c_Env := fst (start_envs env c s)\<rparr>;
          c' = c\<lparr>c_Env := snd (start_envs env c s)\<rparr>;
          (rt', res) = rt_Start RT cWork rt;
          (st', s', effs) = (case res of Inl e \<Rightarrow> after_failure B env now uid t0 t1 c' e st s
                             | Inr out \<Rightarrow> after_success B env nodeID uid t0 t1 c' out st s)
      in (st', s', rt', start_files env c s @ [EffStart cWork] @ effs))"

text \<open>
  \<^verbatim>\<open>reconcileOne\<close>. \<open>r.get\<close> creates the state entry even when the pass does nothing else.
\<close>

definition reconcileOne ::
  "'db bolt \<Rightarrow> 'rt runtime \<Rightarrow> 'db rc_env \<Rightarrow> string \<Rightarrow> time \<Rightarrow> string \<Rightarrow> time \<Rightarrow> time \<Rightarrow> container \<Rightarrow> rc_states \<Rightarrow>
   'db store \<Rightarrow> 'rt \<Rightarrow> rc_states \<times> 'db store \<times> 'rt \<times> effect list" where
  "reconcileOne B RT env nodeID now uid t0 t1 c rs s rt =
     (if c_NodeID c \<noteq> [] \<and> c_NodeID c \<noteq> nodeID then (rs, s, rt, [])
      else if Phase (c_Status c) = PhaseStopped then (rs, s, rt, [])
      else
        (let key = rc_key c; st = rc_get key rs;
             save = (\<lambda>st. AList.update key st rs);
             attempt = (\<lambda>st rt.
               if Phase (c_Status c) = PhaseFailed \<and> now < nextAttempt st then (save st, s, rt, [])
               else (case start_path B RT env nodeID now uid t0 t1 c (st\<lparr>lastAttempt := now\<rparr>) s rt of
                       (st', s', rt', effs) \<Rightarrow> (save st', s', rt', effs)))
         in if startedOK st \<and> lastGen st = m_Generation (c_Meta c) \<and> Phase (c_Status c) = PhaseRunning
            then (if \<not> shouldVerifyAlive st now then (save st, s, rt, [])
                  else (case isRunning RT c rt of (rt', alive) \<Rightarrow>
                    let st = st\<lparr>lastAliveCheck := now\<rparr> in
                    if alive then (save st, s, rt', [])
                    else if \<not> shouldRestart (c_RestartPolicy c)
                    then (save (st\<lparr>startedOK := False\<rparr>),
                          put_ignored B uid t0 t1 (c\<lparr>c_Status := (c_Status c)\<lparr>Phase := PhaseStopped,
                            Message := ''exited (restartPolicy='' @ c_RestartPolicy c @ '')'',
                            StatusUpdatedAt := now\<rparr>\<rparr>) s, rt', [])
                    else attempt (st\<lparr>startedOK := False\<rparr>) rt'))
            else attempt st rt))"

text \<open>The initial pass and every tick: reconcile all listed containers in order.\<close>

fun reconcile_all ::
  "'db bolt \<Rightarrow> 'rt runtime \<Rightarrow> 'db rc_env \<Rightarrow> string \<Rightarrow> (nat \<Rightarrow> time) \<Rightarrow> (nat \<Rightarrow> string) \<Rightarrow> nat \<Rightarrow> container list \<Rightarrow>
   rc_states \<Rightarrow> 'db store \<Rightarrow> 'rt \<Rightarrow> rc_states \<times> 'db store \<times> 'rt \<times> effect list" where
  "reconcile_all B RT env nodeID clk uid i [] rs s rt = (rs, s, rt, [])"
| "reconcile_all B RT env nodeID clk uid i (c # cs) rs s rt =
     (case reconcileOne B RT env nodeID (clk (3 * i)) (uid i) (clk (3 * i + 1)) (clk (3 * i + 2)) c rs s rt of
        (rs1, s1, rt1, effs) \<Rightarrow>
          (case reconcile_all B RT env nodeID clk uid (i + 1) cs rs1 s1 rt1 of
             (rs2, s2, rt2, effs') \<Rightarrow> (rs2, s2, rt2, effs @ effs')))"

definition bootstrap ::
  "'db bolt \<Rightarrow> 'rt runtime \<Rightarrow> 'db rc_env \<Rightarrow> string \<Rightarrow> (nat \<Rightarrow> time) \<Rightarrow> (nat \<Rightarrow> string) \<Rightarrow> rc_states \<Rightarrow> 'db store \<Rightarrow> 'rt
   \<Rightarrow> rc_states \<times> 'db store \<times> 'rt \<times> effect list" where
  "bootstrap B RT env nodeID clk uid rs s rt =
     (case ListContainers B [] s of Inl e \<Rightarrow> (rs, s, rt, [])
      | Inr cs \<Rightarrow> reconcile_all B RT env nodeID clk uid 0 cs rs s rt)"

text \<open>The handling of one store event in \<^verbatim>\<open>Run\<close>.\<close>

definition on_store_event ::
  "'db bolt \<Rightarrow> 'rt runtime \<Rightarrow> 'db rc_env \<Rightarrow> string \<Rightarrow> time \<Rightarrow> string \<Rightarrow> time \<Rightarrow> time \<Rightarrow> event \<Rightarrow> rc_states \<Rightarrow>
   'db store \<Rightarrow> 'rt \<Rightarrow> rc_states \<times> 'db store \<times> 'rt \<times> effect list" where
  "on_store_event B RT env nodeID now uid t0 t1 ev rs s rt =
     (if e_Kind ev \<noteq> KindContainer then (rs, s, rt, [])
      else if e_Op ev = ''delete'' then (rc_forget (e_Project ev @ ''/'' @ e_Name ev) rs, s, rt, [])
      else case GetContainer B (e_Project ev) (e_Name ev) s of
             Inl e \<Rightarrow> (rs, s, rt, [])
           | Inr c \<Rightarrow> reconcileOne B RT env nodeID now uid t0 t1 c rs s rt)"

end
