(* ===== verification/Reconcile_Props.thy ===== *)
theory Reconcile_Props
  imports Reconcile Secrets
begin

text \<open>
  Properties of the reconciler, of the container runtimes and of the host network.
\<close>

section \<open>The contract of a runtime\<close>

text \<open>What the reconciler relies on: a start that succeeds reports the phase \<^verbatim>\<open>Running\<close>.\<close>

locale runtime_contract =
  fixes RT :: "'rt runtime"
  assumes start_running: "rt_Start RT c rt = (rt', Inr out) \<Longrightarrow> Phase out = PhaseRunning"
begin

text \<open>After a successful start path the stored container is running on this node, or was before.\<close>

lemma start_path_running:
  assumes "start_path B RT env nodeID now uid t0 t1 c st s rt = (st', s', rt', effs)" "startedOK st'"
  shows "(Phase (c_Status c) = PhaseRunning \<and> c_NodeID c = nodeID \<and> s' = s) \<or>
    (\<exists>c1. Phase (c_Status c1) = PhaseRunning \<and> c_NodeID c1 = nodeID \<and> c_Meta c1 = c_Meta c \<and>
       c_Image c1 = c_Image c \<and> s' = put_ignored B uid t0 t1 c1 s)"
proof -
  obtain rt1 res where r: "rt_Start RT (c\<lparr>c_Env := fst (start_envs env c s)\<rparr>) rt = (rt1, res)" by fastforce
  show ?thesis
  proof (cases res)
    case (Inl e)
    then show ?thesis using assms r by (auto simp: start_path_def after_failure_def Let_def)
  next
    case (Inr out)
    let ?c1 = "c\<lparr>c_Env := snd (start_envs env c s), c_Status := out, c_NodeID := nodeID\<rparr>"
    have ph: "Phase out = PhaseRunning" using start_running r Inr by simp
    have s': "s' = (if Phase (c_Status c) \<noteq> Phase out \<or> c_NodeID c \<noteq> nodeID
        then put_ignored B uid t0 t1 ?c1 s else s)"
      using assms(1) r Inr by (simp add: start_path_def after_success_def Let_def)
    show ?thesis
    proof (cases "Phase (c_Status c) \<noteq> Phase out \<or> c_NodeID c \<noteq> nodeID")
      case True
      then show ?thesis using s' ph by (intro disjI2 exI [of _ ?c1]) simp
    next
      case False
      then show ?thesis using s' ph by simp
    qed
  qed
qed

end

interpretation stub_rt: runtime_contract "stub_runtime clk" for clk
  by unfold_locales (auto simp: stub_runtime_def stub_Start_def Let_def)

interpretation ctr_rt: runtime_contract "ctr_runtime exec dataDir clk" for exec dataDir clk
  by unfold_locales (auto simp: ctr_runtime_def ctr_Start_def Let_def split: prod.splits sum.splits if_splits)

section \<open>When a container is started\<close>

definition starts :: "effect list \<Rightarrow> container list" where
  "starts effs = List.map_filter (\<lambda>e. case e of EffStart c \<Rightarrow> Some c | _ \<Rightarrow> None) effs"

lemma starts_append [simp]: "starts (a @ b) = starts a @ starts b"
  by (simp add: starts_def map_filter_def)

lemma starts_simps [simp]:
  "starts [] = []" "starts (EffStart c # es) = c # starts es" "starts (EffEmit ev # es) = starts es"
  "starts (map (\<lambda>p. EffPublish (f p) (g p) (h p) (i p)) ps) = []" "starts (start_files env c s) = []"
proof -
  show "starts (map (\<lambda>p. EffPublish (f p) (g p) (h p) (i p)) ps) = []"
    by (induction ps) (auto simp: starts_def List.map_filter_simps)
  have "\<forall>e \<in> set (start_files env c s). \<exists>c m p. e = EffSecretFile c m p"
    by (auto simp: start_files_def secret_files_def split: if_splits sum.splits option.splits)
  then show "starts (start_files env c s) = []"
    by (auto simp: starts_def map_filter_def filter_empty_conv)
qed (simp_all add: starts_def List.map_filter_simps)

lemma start_path_starts:
  assumes "start_path B RT env nodeID now uid t0 t1 c st s rt = (st', s', rt', effs)"
  shows "starts effs = [c\<lparr>c_Env := fst (start_envs env c s)\<rparr>]"
proof -
  have f: "starts (snd (snd (after_failure B env now uid t0 t1 x e y s))) = []" for x e y
    by (simp add: after_failure_def Let_def)
  have g: "starts (snd (snd (after_success B env nodeID uid t0 t1 x e y s))) = []" for x e y
    by (simp add: after_success_def Let_def)
  obtain rt1 res where r: "rt_Start RT (c\<lparr>c_Env := fst (start_envs env c s)\<rparr>) rt = (rt1, res)" by fastforce
  show ?thesis
  proof (cases res)
    case (Inl e)
    then show ?thesis using assms r f [of "c\<lparr>c_Env := snd (start_envs env c s)\<rparr>" e st]
      by (auto simp: start_path_def Let_def split: prod.splits)
  next
    case (Inr out)
    then show ?thesis using assms r g [of "c\<lparr>c_Env := snd (start_envs env c s)\<rparr>" out st]
      by (auto simp: start_path_def Let_def split: prod.splits)
  qed
qed

lemma starts_start_path:
  "starts (snd (snd (snd (start_path B RT env nodeID now uid t0 t1 c st s rt)))) = [c\<lparr>c_Env := fst (start_envs env c s)\<rparr>]"
  using start_path_starts [of B RT env nodeID now uid t0 t1 c st s rt] by (metis prod.collapse)

text \<open>
  C17. When the reconciler starts a container: exactly when the container belongs to this node
  or to none, is not stopped, is not waiting out a failed attempt, and is not a container it
  already started in this generation that is still running, was checked within the last
  8 seconds, or must not be restarted. A pass starts at most one container, the one it was
  given; a pass over a foreign or stopped container changes nothing at all.
\<close>

theorem reconcile_starts:
  assumes "reconcileOne B RT env nodeID now uid t0 t1 c rs s rt = (rs', s', rt', effs)"
    and "st = rc_get (rc_key c) rs"
  shows "length (starts effs) \<le> 1 \<and> (\<forall>cw \<in> set (starts effs). c_Meta cw = c_Meta c \<and> c_Image cw = c_Image c) \<and>
    (starts effs \<noteq> [] \<longleftrightarrow>
       (c_NodeID c = [] \<or> c_NodeID c = nodeID) \<and> Phase (c_Status c) \<noteq> PhaseStopped \<and>
       \<not> (Phase (c_Status c) = PhaseFailed \<and> now < nextAttempt st) \<and>
       \<not> (startedOK st \<and> lastGen st = m_Generation (c_Meta c) \<and> Phase (c_Status c) = PhaseRunning \<and>
          (now - lastAliveCheck st \<le> 8 * second \<or> snd (isRunning RT c rt) \<or> \<not> shouldRestart (c_RestartPolicy c)))) \<and>
    ((c_NodeID c \<noteq> [] \<and> c_NodeID c \<noteq> nodeID) \<or> Phase (c_Status c) = PhaseStopped \<longrightarrow>
       rs' = rs \<and> s' = s \<and> rt' = rt \<and> effs = [])"
proof -
  have ph: "PhaseRunning \<noteq> PhaseFailed" by (simp add: phase_defs)
  note sp = starts_start_path [of B RT env nodeID now uid t0 t1 c _ s]
  show ?thesis
  proof (cases "(c_NodeID c \<noteq> [] \<and> c_NodeID c \<noteq> nodeID) \<or> Phase (c_Status c) = PhaseStopped")
    case True
    then have "rs' = rs \<and> s' = s \<and> rt' = rt \<and> effs = []" using assms(1)
      by (cases "c_NodeID c \<noteq> [] \<and> c_NodeID c \<noteq> nodeID") (simp_all add: reconcileOne_def)
    with True show ?thesis by auto
  next
    case active: False
    show ?thesis
    proof (cases "startedOK st \<and> lastGen st = m_Generation (c_Meta c) \<and> Phase (c_Status c) = PhaseRunning")
      case True
      obtain rt1 alive where a: "isRunning RT c rt = (rt1, alive)" by fastforce
      then show ?thesis
        using assms(1) active True ph sp [of "st\<lparr>lastAliveCheck := now, startedOK := False, lastAttempt := now\<rparr>" rt1]
        unfolding assms(2)
        by (auto simp: reconcileOne_def Let_def shouldVerifyAlive_def split: if_splits prod.splits)
    next
      case False
      then show ?thesis
        using assms(1) active sp [of "st\<lparr>lastAttempt := now\<rparr>" rt] unfolding assms(2)
        by (auto simp: reconcileOne_def Let_def split: if_splits prod.splits)
    qed
  qed
qed

section \<open>Retries\<close>

lemma retry_loop_min:
  "0 < b \<Longrightarrow> min (retry_loop k b) (5 * minute) = min (b * 2 ^ k) (5 * minute)"
proof (induction k arbitrary: b)
  case 0
  then show ?case by simp
next
  case (Suc k)
  show ?case
  proof (cases "b < 5 * minute")
    case True
    then show ?thesis using Suc.IH [of "b * 2"] Suc.prems by (simp add: mult.assoc)
  next
    case False
    have "(1 :: int) \<le> 2 ^ Suc k" by (rule one_le_power) simp
    then have "b * 1 \<le> b * 2 ^ Suc k" by (rule mult_left_mono) (use Suc.prems in simp)
    then have "5 * minute \<le> b * 2 ^ Suc k" using False by linarith
    with False show ?thesis by (simp add: min_absorb2 del: power_Suc)
  qed
qed

lemma retry_delay_min: "1 \<le> n \<Longrightarrow> retry_delay n = min (5 * second * 2 ^ nat (n - 1)) (5 * minute)"
  using retry_loop_min [of "5 * second" "nat (n - 1)"] by (auto simp: retry_delay_def Let_def min_def)

text \<open>
  C38. A failed start is retried with exponential back-off: the n-th consecutive failure sets
  the next attempt 5 s times 2 to the n-1 later, at most 5 minutes; until then every pass
  over the container in phase \<^verbatim>\<open>Failed\<close>, whatever else happened to the store and the runtime,
  starts nothing and writes nothing.
\<close>

theorem failed_start_backs_off:
  assumes "start_path B RT env nodeID now uid t0 t1 c st s rt = (st', s', rt', effs)"
    and "rt_Start RT (c\<lparr>c_Env := fst (start_envs env c s)\<rparr>) rt = (rt', Inl e)" "0 \<le> attempts st"
    and "rc_get (rc_key c') rs = st'" "Phase (c_Status c') = PhaseFailed"
    and "now' < now + min (5 * second * 2 ^ nat (attempts st)) (5 * minute)"
  shows "nextAttempt st' = now + min (5 * second * 2 ^ nat (attempts st)) (5 * minute) \<and>
    attempts st' = attempts st + 1 \<and> \<not> startedOK st' \<and>
    (case reconcileOne B RT env' nodeID' now' uid' t0' t1' c' rs s2 rt2 of
       (rs', s3, rt3, effs') \<Rightarrow> s3 = s2 \<and> rt3 = rt2 \<and> effs' = [])"
proof -
  have st': "st' = st\<lparr>attempts := attempts st + 1, startedOK := False,
      nextAttempt := now + retry_delay (attempts st + 1)\<rparr>"
    using assms(1,2) by (simp add: start_path_def after_failure_def Let_def)
  have d: "retry_delay (attempts st + 1) = min (5 * second * 2 ^ nat (attempts st)) (5 * minute)"
    using retry_delay_min [of "attempts st + 1"] assms(3) by simp
  have "nextAttempt st' = now + min (5 * second * 2 ^ nat (attempts st)) (5 * minute)"
    unfolding st' d by simp
  moreover have "PhaseRunning \<noteq> PhaseFailed" "PhaseStopped \<noteq> PhaseFailed" by (simp_all add: phase_defs)
  ultimately show ?thesis
    using assms(4-6) st' by (simp add: reconcileOne_def Let_def)
qed

section \<open>Secrets stay out of the store\<close>

lemma put_ignored_entries:
  assumes "bolt_engine B" "entries B (put_ignored B uid t0 t1 c s) b k = Some d"
  shows "entries B s b k = Some d \<or> (\<exists>c'. d = DContainer c' \<and> c_Env c' = c_Env c)"
proof -
  obtain c' s' r where p: "PutContainer B uid t0 t1 c s = (c', s', r)" by (metis prod_cases3)
  then have s': "put_ignored B uid t0 t1 c s = s'" by (simp add: put_ignored_def)
  show ?thesis
  proof (cases r)
    case None
    with p have q: "putScoped B containerT ''containers'' KindContainer uid t0 t1 c s = (c', s', None)"
      by (simp add: PutContainer_def)
    note st = tables(1) [OF assms(1)]
    have "c' = c\<lparr>c_Meta := c_Meta c'\<rparr>"
      using scoped_table.getMeta_putScoped(2) [OF st q] by (simp add: containerT_def)
    then have "c_Env c' = c_Env c" by (metis container.select_convs(5) container.surjective container.update_convs(1))
    then show ?thesis
      using scoped_table.entries_putScoped [OF st q, of b k] assms(2) s'
      by (auto simp: containerT_def split: if_splits)
  next
    case (Some e)
    then have "s' = s" using p putScoped_Some unfolding PutContainer_def by metis
    then show ?thesis using assms(2) s' by simp
  qed
qed

text \<open>The store after a pass: untouched, that of the start path, or with the container stopped.\<close>

lemma reconcileOne_store:
  assumes "reconcileOne B RT env nodeID now uid t0 t1 c rs s rt = (rs', s', rt', effs)"
  shows "s' = s \<or> (\<exists>st rt1. s' = fst (snd (start_path B RT env nodeID now uid t0 t1 c st s rt1))) \<or>
    (\<exists>x. s' = put_ignored B uid t0 t1 (c\<lparr>c_Status := x\<rparr>) s)"
proof (rule ccontr)
  assume "\<not> ?thesis"
  then have n: "s' \<noteq> s" "\<And>st rt1. s' \<noteq> fst (snd (start_path B RT env nodeID now uid t0 t1 c st s rt1))"
    "\<And>x. s' \<noteq> put_ignored B uid t0 t1 (c\<lparr>c_Status := x\<rparr>) s" by blast+
  have sp: "start_path B RT env nodeID now uid t0 t1 c st s rt1 \<noteq> (a, s', b)" for st rt1 a b
    using n(2) [of st rt1] by auto
  show False using assms n(1) n(3) [symmetric] sp
    by (simp add: reconcileOne_def Let_def split: if_splits prod.splits)
qed

text \<open>
  As long as the environment of the container resolves, a pass never writes plaintext
  into the store: every document in the store afterwards was there before, or is the container
  with the environment it had, secret references unresolved.
\<close>

theorem reconcile_keeps_env:
  assumes "bolt_engine B"
    and "\<And>R. rc_secrets env = Some R \<Longrightarrow> \<exists>m. rv_Resolve R (m_Project (c_Meta c)) (c_Env c) s = Inr m"
    and "reconcileOne B RT env nodeID now uid t0 t1 c rs s rt = (rs', s', rt', effs)"
    and "entries B s' b k = Some d"
  shows "entries B s b k = Some d \<or> (\<exists>c'. d = DContainer c' \<and> c_Env c' = c_Env c)"
proof -
  have e: "snd (start_envs env c s) = c_Env c"
  proof (cases "rc_secrets env")
    case None
    then show ?thesis by (simp add: start_envs_def)
  next
    case (Some R)
    then obtain m where "rv_Resolve R (m_Project (c_Meta c)) (c_Env c) s = Inr m" using assms(2) by blast
    then show ?thesis using Some by (simp add: start_envs_def work_env_def Let_def)
  qed
  have put: "entries B s b k = Some d \<or> (\<exists>c'. d = DContainer c' \<and> c_Env c' = c_Env c)"
    if "entries B (put_ignored B uid t0 t1 x s) b k = Some d" "c_Env x = c_Env c" for x
    using put_ignored_entries [OF assms(1) that(1)] that(2) by simp
  have start: "\<exists>x. c_Env x = c_Env c \<and>
      fst (snd (start_path B RT env nodeID now uid t0 t1 c st s rt1)) \<in> {s, put_ignored B uid t0 t1 x s}" for st rt1
  proof -
    obtain rt2 res where r: "rt_Start RT (c\<lparr>c_Env := fst (start_envs env c s)\<rparr>) rt1 = (rt2, res)" by fastforce
    show ?thesis
    proof (cases res)
      case (Inl err)
      then show ?thesis using r e
        by (intro exI [of _ "c\<lparr>c_Env := c_Env c, c_Status := zero_container_status\<lparr>Phase := PhaseFailed,
            Message := errorString err, StatusUpdatedAt := now\<rparr>\<rparr>"])
          (simp add: start_path_def after_failure_def Let_def)
    next
      case (Inr out)
      then show ?thesis using r e
        by (intro exI [of _ "c\<lparr>c_Env := c_Env c, c_Status := out, c_NodeID := nodeID\<rparr>"])
          (simp add: start_path_def after_success_def Let_def)
    qed
  qed
  consider "s' = s" | st rt1 where "s' = fst (snd (start_path B RT env nodeID now uid t0 t1 c st s rt1))"
    | x where "s' = put_ignored B uid t0 t1 (c\<lparr>c_Status := x\<rparr>) s"
    using reconcileOne_store [OF assms(3)] by blast
  then have "\<exists>x. c_Env x = c_Env c \<and> s' \<in> {s, put_ignored B uid t0 t1 x s}"
  proof cases
    case 1
    then show ?thesis by blast
  next
    case (2 st rt1)
    then show ?thesis using start [of st rt1] by simp
  next
    case (3 x)
    then show ?thesis by (intro exI [of _ "c\<lparr>c_Status := x\<rparr>"]) simp
  qed
  then show ?thesis using put assms(4) by auto
qed

section \<open>Counterexamples and witnesses\<close>

definition demo_key :: bytes where "demo_key = replicate 32 CHR ''k''"

definition demo_resolver :: "memdb resolver" where
  "demo_resolver =
     \<lparr>rv_Resolve = (\<lambda>p m s. Resolve mem_bolt (\<lambda>k n c. Some c) demo_key p m s),
      rv_Reveal = (\<lambda>p n s. Reveal mem_bolt (\<lambda>k n c. Some c) demo_key p n s)\<rparr>"

definition demo_env :: "memdb rc_env" where
  "demo_env = \<lparr>rc_secrets = Some demo_resolver, rc_bus = True, rc_net = False\<rparr>"

definition mounting_container :: "string \<Rightarrow> container" where
  "mounting_container v = (demo_container ''p'' ''web'')\<lparr>c_Env := [(''A'', v)],
     c_SecretMounts := [\<lparr>sm_Secret = ''db'', sm_EnvName = ''DB'', sm_MountPath = []\<rparr>]\<rparr>"

definition pass :: "container \<Rightarrow> rc_states \<Rightarrow> memdb store \<Rightarrow> stub \<Rightarrow> rc_states \<times> memdb store \<times> stub \<times> effect list" where
  "pass c rs s rt = reconcileOne mem_bolt (stub_runtime int) demo_env ''n1'' 100 ''u9'' 101 102 c rs s rt"

text \<open>
  When a reference in the environment does not resolve, the working copy shares the
  environment map of the container, and a secret mounted as a variable is written into it and
  then persisted: the store ends up with the plaintext, although the code means to keep it out
  of the persisted resource.
\<close>

theorem unresolved_env_leaks_plaintext:
  "(case pass (mounting_container ''secret://missing'') [] (fst with_secret) NewStub of (rs, s, rt, effs) \<Rightarrow>
      case GetContainer mem_bolt ''p'' ''web'' s of
        Inr c \<Rightarrow> map_of (c_Env c) ''DB'' = Some ''hunter2'' | Inl _ \<Rightarrow> False)"
  by code_simp

definition second_pass :: "rc_states \<times> memdb store \<times> stub \<times> effect list" where
  "second_pass =
     (case pass (mounting_container ''x'') [] (fst with_secret) NewStub of (rs, s, rt, _) \<Rightarrow>
        case GetContainer mem_bolt ''p'' ''web'' s of
          Inr c \<Rightarrow> pass c rs s rt | Inl _ \<Rightarrow> (rs, s, rt, []))"

definition third_pass :: "rc_states \<times> memdb store \<times> stub \<times> effect list" where
  "third_pass =
     (case second_pass of (rs, s, rt, _) \<Rightarrow>
        case GetContainer mem_bolt ''p'' ''web'' s of
          Inr c \<Rightarrow> pass c rs s rt | Inl _ \<Rightarrow> (rs, s, rt, []))"

text \<open>
  The reconciler reacts once to its own write: it records the generation it started before
  the write that increments it, so that the pass over the container it has just stored as
  running starts it a second time; the pass after that one starts nothing and writes nothing.
\<close>

theorem one_redundant_start:
  "length (starts (snd (snd (snd (pass (mounting_container ''x'') [] (fst with_secret) NewStub))))) = 1 \<and>
   length (starts (snd (snd (snd second_pass)))) = 1 \<and>
   starts (snd (snd (snd third_pass))) = [] \<and>
   sdb (fst (snd third_pass)) = sdb (fst (snd second_pass))"
  by code_simp

definition list_exec :: "string list list exec" where
  "list_exec args h = (h @ [args], Inr (if args = [''containers'', ''list'', ''-q''] then ''selfcloud-a-b-c'' else []))"

text \<open>
  Task identifiers of the \<^verbatim>\<open>ctr\<close> shim join project and name with a dash: containers of
  different projects can have the same identifier, and starting one while the other exists runs
  no container at all and reports it as running. The host state is the list of commands run;
  only the container of project \<open>a-b\<close> exists.
\<close>

theorem ctr_id_collision:
  "ctrTaskID (demo_container ''a-b'' ''c'') = ''selfcloud-a-b-c'' \<and>
   (case ctr_Start list_exec [] int (demo_container ''a'' ''b-c'') [] of (cmds, res) \<Rightarrow>
      cmds = [[''containers'', ''list'', ''-q'']] \<and>
      (case res of Inr st \<Rightarrow> Phase st = PhaseRunning | Inl _ \<Rightarrow> False))"
  by code_simp

text \<open>
  Secret files are staged under the last element of their mount path: two secrets of a
  container mounted at paths with the same last element share one file, and after both are
  written the first mount shows the second secret.
\<close>

theorem secret_file_collision:
  assumes "secret_name m1 = secret_name m2" "dataDir \<noteq> []"
    and "writeSecretFile None None dataDir c m1 p1 fs = (fs1, r1)"
    and "writeSecretFile None None dataDir c m2 p2 fs1 = (fs2, r2)"
  shows "r1 = None \<and> r2 = None \<and> map_of fs2 (secret_path dataDir c m1) = Some p2"
  using assms by (auto simp: writeSecretFile_def secret_path_def map_of_update)

definition log_exec :: "string list list exec" where
  "log_exec args h = (h @ [args], Inr [])"

text \<open>
  Publishing a port twice adds the rule twice, and the default gateway of the bridge is the
  address 10.42.1.0: \<^verbatim>\<open>Publish\<close> is documented as idempotent, and the gateway is computed by
  replacing the first occurrence of \<open>.0\<close> in the subnet.
\<close>

theorem publish_not_idempotent:
  "(let once = fst (Publish True (\<lambda>_. True) log_exec 8080 80 [] ''10.42.0.2'' []);
        twice = fst (Publish True (\<lambda>_. True) log_exec 8080 80 [] ''10.42.0.2'' once);
        rule = [''nft'', ''add'', ''rule'', ''ip'', ''selfcloud'', ''prerouting'', ''tcp dport 8080 dnat to 10.42.0.2:80'']
    in count_list once rule = 1 \<and> count_list twice rule = 2) \<and>
   gateway (nm_subnet (net_NewManager [] [])) = ''10.42.1.0''"
  by code_simp

theorem reconcile_starts_witness:
  "starts (snd (snd (snd (pass (mounting_container ''x'') [] (fst with_secret) NewStub)))) \<noteq> []"
proof -
  let ?p = "pass (mounting_container ''x'') [] (fst with_secret) NewStub"
  have n: "c_NodeID (mounting_container ''x'') = []" "Phase (c_Status (mounting_container ''x'')) = []"
    by code_simp+
  obtain rs' s' rt' effs where p: "?p = (rs', s', rt', effs)" by (metis prod_cases4)
  from reconcile_starts [OF p [unfolded pass_def] refl] n show ?thesis
    by (simp add: p rc_get_def zero_rstate_def phase_defs)
qed

definition failing_runtime :: "unit runtime" where
  "failing_runtime = \<lparr>rt_Start = (\<lambda>c rt. (rt, Inl (Err ''boom''))), rt_alive = None\<rparr>"

theorem failed_start_backs_off_witness:
  "nextAttempt (fst (start_path mem_bolt failing_runtime demo_env ''n1'' 100 ''u9'' 101 102
      (mounting_container ''x'') zero_rstate (fst with_secret) ())) = 100 + 5 * second"
proof -
  let ?r = "start_path mem_bolt failing_runtime demo_env ''n1'' 100 ''u9'' 101 102
      (mounting_container ''x'') zero_rstate (fst with_secret) ()"
  let ?c = "(mounting_container ''x'')\<lparr>c_Status := zero_container_status\<lparr>Phase := PhaseFailed\<rparr>\<rparr>"
  obtain st' s' rt' effs where r: "?r = (st', s', rt', effs)" by (metis prod_cases4)
  have "rt_Start failing_runtime x () = (rt', Inl (Err ''boom''))" for x by (simp add: failing_runtime_def)
  then show ?thesis
    using failed_start_backs_off [OF r, of "Err ''boom''" ?c "[(rc_key ?c, st')]" 100] r
    by (simp add: zero_rstate_def rc_get_def split: prod.splits)
qed

theorem reconcile_keeps_env_witness:
  "\<exists>d c'. entries mem_bolt (fst (snd (pass (mounting_container ''x'') [] (fst with_secret) NewStub))) ''containers'' ''p/web'' = Some d \<and>
     d = DContainer c' \<and> c_Env c' = [(''A'', ''x'')]"
proof -
  let ?p = "pass (mounting_container ''x'') [] (fst with_secret) NewStub"
  obtain rs' s' rt' effs where p: "?p = (rs', s', rt', effs)" by (metis prod_cases4)
  have s': "s' = fst (snd ?p)" using p by simp
  have "mem_get (sdb (fst (snd ?p))) ''containers'' ''p/web'' \<noteq> None \<and>
      mem_get (sdb (fst with_secret)) ''containers'' ''p/web'' = None" by code_simp
  then obtain d where d: "entries mem_bolt s' ''containers'' ''p/web'' = Some d"
    and n: "entries mem_bolt (fst with_secret) ''containers'' ''p/web'' = None"
    unfolding s' by (auto simp: entries_def)
  have e: "c_Env (mounting_container ''x'') = [(''A'', ''x'')]" by code_simp
  have "\<exists>m. rv_Resolve R (m_Project (c_Meta (mounting_container ''x''))) (c_Env (mounting_container ''x'')) (fst with_secret) = Inr m"
    if "rc_secrets demo_env = Some R" for R
    using that unfolding e by (auto simp: demo_env_def demo_resolver_def Resolve_def resolve_value_def
        HasPrefix_def SecretRefPrefix_def)
  from reconcile_keeps_env [OF mem_engine this p [unfolded pass_def] d] n e d show ?thesis
    unfolding s' by auto
qed

theorem secret_file_collision_witness:
  "map_of (fst (writeSecretFile None None ''/d'' (demo_container ''p'' ''web'') ''/b/key'' ''two''
      (fst (writeSecretFile None None ''/d'' (demo_container ''p'' ''web'') ''/a/key'' ''one'' []))))
     (secret_path ''/d'' (demo_container ''p'' ''web'') ''/a/key'') = Some ''two''"
proof -
  have "secret_name ''/a/key'' = secret_name ''/b/key''" by code_simp
  from secret_file_collision [OF this _ prod.collapse [symmetric] prod.collapse [symmetric],
      of "''/d''" "demo_container ''p'' ''web''" "''one''" "[]" "''two''"] show ?thesis by simp
qed

end
