(* ===== verification/Functions.thy ===== *)
theory Functions
  imports Auth_Props
begin

text \<open>
  Functions, \<^verbatim>\<open>internal/runtime/wasm/runtime.go\<close>, \<^verbatim>\<open>rehydrate.go\<close> and the stub of
  \<^verbatim>\<open>internal/runtime/firecracker/runtime.go\<close>: the interface of a function runtime, the
  content-addressed store of uploaded code, the two stub runtimes and the rehydration of a
  runtime at boot; and the ring of recent invocations of \<^verbatim>\<open>internal/api/runtime.go\<close>.

  \<open>H\<close> is \<^verbatim>\<open>sha256.Sum256\<close> and \<open>q\<close> the verb \<^verbatim>\<open>%q\<close> of \<^verbatim>\<open>fmt\<close>.
\<close>

section \<open>Requests, responses and the runtime interface\<close>

type_synonym http_header = "(string \<times> string list) list"

record invoke_request =
  iq_Method :: string
  iq_Path :: string
  iq_Headers :: http_header
  iq_Body :: bytes
  iq_Env :: strmap
  iq_SecretFiles :: strmap

record invoke_response =
  ir_Status :: int
  ir_Headers :: http_header
  ir_Body :: bytes
  ir_Logs :: string
  ir_Elapsed :: duration

record 'fr fn_runtime =
  fr_Deploy :: "func \<Rightarrow> bytes \<Rightarrow> 'fr \<Rightarrow> 'fr \<times> error option"
  fr_Remove :: "func \<Rightarrow> 'fr \<Rightarrow> 'fr \<times> error option"
  fr_Invoke :: "func \<Rightarrow> invoke_request \<Rightarrow> 'fr \<Rightarrow> 'fr \<times> (error + invoke_response)"

section \<open>The blob store\<close>

text \<open>
  The directory, as a map from file names to contents. \<open>wr\<close> is the outcome of
  \<^verbatim>\<open>os.WriteFile\<close>: a failed write may leave a prefix of the data, or nothing, in the file.
\<close>

type_synonym blobs = "(string \<times> bytes) list"

definition blob_Put ::
  "(bytes \<Rightarrow> bytes) \<Rightarrow> (error \<times> nat option) option \<Rightarrow> bytes \<Rightarrow> blobs \<Rightarrow> blobs \<times> (error + string)" where
  "blob_Put H wr data fs =
     (let i = hexEncode (H data) in
      if map_of fs i \<noteq> None then (fs, Inr i)
      else case wr of
             Some (e, Some n) \<Rightarrow> (AList.update i (take n data) fs, Inl e)
           | Some (e, None) \<Rightarrow> (fs, Inl e)
           | None \<Rightarrow> (AList.update i data fs, Inr i))"

definition blob_Get :: "string \<Rightarrow> blobs \<Rightarrow> error + bytes" where
  "blob_Get i fs = (case map_of fs i of None \<Rightarrow> Inl (Err ''file does not exist'') | Some d \<Rightarrow> Inr d)"

definition blob_Delete :: "string \<Rightarrow> blobs \<Rightarrow> blobs" where
  "blob_Delete i fs = AList.delete i fs"

section \<open>The stub runtimes\<close>

type_synonym fn_stub = "(string \<times> bytes) list"

definition fnKey :: "func \<Rightarrow> string" where
  "fnKey f = m_Project (f_Meta f) @ ''/'' @ m_Name (f_Meta f)"

definition wasm_Deploy :: "func \<Rightarrow> bytes \<Rightarrow> fn_stub \<Rightarrow> fn_stub \<times> error option" where
  "wasm_Deploy f code s = (AList.update (fnKey f) code s, None)"

definition wasm_Remove :: "func \<Rightarrow> fn_stub \<Rightarrow> fn_stub \<times> error option" where
  "wasm_Remove f s = (AList.delete (fnKey f) s, None)"

definition wasm_Invoke ::
  "(string \<Rightarrow> string) \<Rightarrow> duration \<Rightarrow> func \<Rightarrow> invoke_request \<Rightarrow> fn_stub \<Rightarrow> fn_stub \<times> (error + invoke_response)"
where
  "wasm_Invoke q elapsed f rq s =
     (case map_of s (fnKey f) of None \<Rightarrow> (s, Inl ErrFunctionNotReady)
      | Some code \<Rightarrow>
          (s, Inr \<lparr>ir_Status = 200, ir_Headers = [(''Content-Type'', [''application/json''])],
             ir_Body = ''{\"function\":'' @ q (m_Name (f_Meta f)) @
               '',\"runtime\":\"wasm-stub\",\"method\":'' @ q (iq_Method rq) @ '',\"path\":'' @ q (iq_Path rq) @
               '',\"size\":'' @ Itoa (int (length code)) @ ''}'',
             ir_Logs = ''[stub] invoked'', ir_Elapsed = elapsed\<rparr>))"

definition wasm_stub :: "(string \<Rightarrow> string) \<Rightarrow> duration \<Rightarrow> fn_stub fn_runtime" where
  "wasm_stub q elapsed =
     \<lparr>fr_Deploy = wasm_Deploy, fr_Remove = wasm_Remove, fr_Invoke = wasm_Invoke q elapsed\<rparr>"

definition fc_key :: "func \<Rightarrow> string" where
  "fc_key f = m_Project (f_Meta f) @ ''/'' @ m_Name (f_Meta f)"

definition fc_Deploy :: "func \<Rightarrow> bytes \<Rightarrow> fn_stub \<Rightarrow> fn_stub \<times> error option" where
  "fc_Deploy f code s = (AList.update (fc_key f) code s, None)"

definition fc_Remove :: "func \<Rightarrow> fn_stub \<Rightarrow> fn_stub \<times> error option" where
  "fc_Remove f s = (AList.delete (fc_key f) s, None)"

definition fc_Invoke ::
  "(string \<Rightarrow> string) \<Rightarrow> duration \<Rightarrow> func \<Rightarrow> invoke_request \<Rightarrow> fn_stub \<Rightarrow> fn_stub \<times> (error + invoke_response)"
where
  "fc_Invoke q elapsed f rq s =
     (case map_of s (fc_key f) of None \<Rightarrow> (s, Inl ErrFunctionNotReady)
      | Some code \<Rightarrow>
          (s, Inr \<lparr>ir_Status = 200, ir_Headers = [(''Content-Type'', [''application/json''])],
             ir_Body = ''{\"function\":'' @ q (m_Name (f_Meta f)) @
               '',\"runtime\":\"firecracker-stub\",\"method\":'' @ q (iq_Method rq) @ '',\"path\":'' @ q (iq_Path rq) @
               '',\"size\":'' @ Itoa (int (length code)) @ ''}'',
             ir_Logs = ''[stub] firecracker'', ir_Elapsed = elapsed\<rparr>))"

definition fc_stub :: "(string \<Rightarrow> string) \<Rightarrow> duration \<Rightarrow> fn_stub fn_runtime" where
  "fc_stub q elapsed =
     \<lparr>fr_Deploy = fc_Deploy, fr_Remove = fc_Remove, fr_Invoke = fc_Invoke q elapsed\<rparr>"

section \<open>Rehydration\<close>

text \<open>The loop body of \<^verbatim>\<open>Run\<close> for one function; an error of \<^verbatim>\<open>Deploy\<close> is only logged.\<close>

definition rehydrate_one ::
  "'wa fn_runtime option \<Rightarrow> 'fc fn_runtime option \<Rightarrow> blobs \<Rightarrow> func \<Rightarrow> 'wa \<times> 'fc \<Rightarrow> 'wa \<times> 'fc" where
  "rehydrate_one wasm fc blobs f st =
     (if f_SourceRef f = [] then st
      else case blob_Get (f_SourceRef f) blobs of Inl e \<Rightarrow> st
      | Inr data \<Rightarrow>
          if f_Runtime f = FunctionRuntimeFirecracker
          then (case fc of None \<Rightarrow> st | Some rt \<Rightarrow> (fst st, fst (fr_Deploy rt f data (snd st))))
          else (case wasm of None \<Rightarrow> st | Some rt \<Rightarrow> (fst (fr_Deploy rt f data (fst st)), snd st)))"

definition rehydrate ::
  "'db bolt \<Rightarrow> 'wa fn_runtime option \<Rightarrow> 'fc fn_runtime option \<Rightarrow> blobs \<Rightarrow> 'db store \<Rightarrow> 'wa \<times> 'fc \<Rightarrow> 'wa \<times> 'fc" where
  "rehydrate B wasm fc blobs s st =
     (case ListFunctions B [] s of Inl e \<Rightarrow> st
      | Inr fns \<Rightarrow> fold (rehydrate_one wasm fc blobs) fns st)"

section \<open>The ring of recent invocations\<close>

record invocation_record =
  iv_At :: time
  iv_Method :: string
  iv_Path :: string
  iv_Status :: int
  iv_DurMS :: int
  iv_BodyKB :: int
  iv_Error :: string
  iv_LogsTail :: string

record invocation_ring =
  rg_rings :: "(string \<times> invocation_record list) list"
  rg_size :: int

definition newInvocationRing :: "int \<Rightarrow> invocation_ring" where
  "newInvocationRing sz = \<lparr>rg_rings = [], rg_size = (if sz \<le> 0 then 100 else sz)\<rparr>"

definition ring_get :: "invocation_ring \<Rightarrow> string \<Rightarrow> invocation_record list" where
  "ring_get r key = (case map_of (rg_rings r) key of None \<Rightarrow> [] | Some b \<Rightarrow> b)"

definition ring_record :: "string \<Rightarrow> invocation_record \<Rightarrow> invocation_ring \<Rightarrow> invocation_ring" where
  "ring_record key rec r =
     (let buf = ring_get r key @ [rec];
          buf = (if int (length buf) > rg_size r then drop (nat (int (length buf) - rg_size r)) buf else buf)
      in r\<lparr>rg_rings := AList.update key buf (rg_rings r)\<rparr>)"

definition ring_list :: "string \<Rightarrow> invocation_ring \<Rightarrow> invocation_record list" where
  "ring_list key r = reverse_in_place (ring_get r key)"

end
