(* ===== verification/Functions_Props.thy ===== *)
theory Functions_Props
  imports Functions
begin

text \<open>
  Properties of the function runtimes: the contract both stubs meet, rehydration at boot, the
  blob store and the ring of recent invocations.
\<close>

section \<open>The contract of a function runtime\<close>

text \<open>
  What the API and the rehydrator rely on: \<open>code_of\<close> is what is deployed under a function's key,
  which is what \<open>load\<close> makes of the function and its code (for the stubs, the code itself); deploying and removing change it at that key only, invoking does not, and an
  invocation reports that the function is not ready exactly when nothing is deployed.
\<close>

locale deploying_runtime =
  fixes RT :: "'fr fn_runtime" and code_of :: "'fr \<Rightarrow> string \<Rightarrow> 'c option" and load :: "func \<Rightarrow> bytes \<Rightarrow> 'c"
  assumes deploy_code: "fr_Deploy RT f code s = (s', None) \<Longrightarrow> code_of s' = (code_of s)(fnKey f \<mapsto> load f code)"
    and deploy_fails: "fr_Deploy RT f code s = (s', Some e) \<Longrightarrow> code_of s' = code_of s"
    and remove_code: "fr_Remove RT f s = (s', None) \<Longrightarrow> code_of s' = (code_of s)(fnKey f := None)"
    and invoke_code: "fr_Invoke RT f rq s = (s', r) \<Longrightarrow> code_of s' = code_of s"
    and invoke_ready: "fr_Invoke RT f rq s = (s', r) \<Longrightarrow> r = Inl ErrFunctionNotReady \<longleftrightarrow> code_of s (fnKey f) = None"
begin

lemma deploy_then_invoke:
  assumes "fr_Deploy RT f code s = (s1, None)" "fr_Invoke RT f rq s1 = (s2, r)"
  shows "r \<noteq> Inl ErrFunctionNotReady"
  using invoke_ready [OF assms(2)] deploy_code [OF assms(1)] by simp

lemma remove_then_invoke:
  assumes "fr_Remove RT f s = (s1, None)" "fr_Invoke RT f rq s1 = (s2, r)"
  shows "r = Inl ErrFunctionNotReady"
  using invoke_ready [OF assms(2)] remove_code [OF assms(1)] by simp

lemma deploy_other:
  "fr_Deploy RT f code s = (s', r) \<Longrightarrow> k \<noteq> fnKey f \<Longrightarrow> code_of s' k = code_of s k"
  by (cases r) (auto dest: deploy_code deploy_fails)

end

lemma fc_key_fnKey: "fc_key f = fnKey f"
  by (simp add: fc_key_def fnKey_def)

interpretation wasm_rt: deploying_runtime "wasm_stub q elapsed" map_of "\<lambda>_ code. code" for q elapsed
  by unfold_locales
    (auto simp: wasm_stub_def wasm_Deploy_def wasm_Remove_def wasm_Invoke_def map_of_update map_of_delete fun_eq_iff split: option.splits)

interpretation fc_rt: deploying_runtime "fc_stub q elapsed" map_of "\<lambda>_ code. code" for q elapsed
  by unfold_locales
    (auto simp: fc_stub_def fc_Deploy_def fc_Remove_def fc_Invoke_def fc_key_fnKey map_of_update map_of_delete fun_eq_iff split: option.splits)

section \<open>Rehydration\<close>

text \<open>Which code a function gets: the blob it refers to, if it has a reference and the blob is there.\<close>

definition deployable :: "blobs \<Rightarrow> func \<Rightarrow> bytes option" where
  "deployable blobs f = (if f_SourceRef f = [] then None else map_of blobs (f_SourceRef f))"

lemma rehydrate_one_other:
  "k \<noteq> fnKey g \<Longrightarrow>
   map_of (fst (rehydrate_one (Some (wasm_stub q el)) fc blobs g st)) k = map_of (fst st) k"
  by (auto simp: rehydrate_one_def wasm_stub_def wasm_Deploy_def map_of_update split: sum.splits option.splits)

lemma rehydrate_fold_other:
  "k \<notin> fnKey ` set gs \<Longrightarrow>
   map_of (fst (fold (rehydrate_one (Some (wasm_stub q el)) fc blobs) gs st)) k = map_of (fst st) k"
  by (induction gs arbitrary: st) (auto simp: rehydrate_one_other)

text \<open>
  Rehydration restores the functions: after a restart, a wasm function whose code is in the
  blob store is deployed with exactly that code, whichever other functions are listed before
  or after it and whatever the runtime held, so an invocation does not report it as not ready;
  a function without code there is left as it was.
\<close>

theorem rehydrate_restores:
  assumes "ListFunctions B [] s = Inr fns" "distinct (map fnKey fns)" "f \<in> set fns"
    and "f_Runtime f \<noteq> FunctionRuntimeFirecracker"
    and "st' = fst (rehydrate B (Some (wasm_stub q el)) fc blobs s st)"
  shows "(\<forall>code. deployable blobs f = Some code \<longrightarrow> map_of st' (fnKey f) = Some code \<and>
      snd (wasm_Invoke q el f rq st') \<noteq> Inl ErrFunctionNotReady) \<and>
    (deployable blobs f = None \<longrightarrow> map_of st' (fnKey f) = map_of (fst st) (fnKey f))"
proof -
  obtain as bs where fns: "fns = as @ f # bs" using assms(3) by (meson split_list)
  let ?R = "rehydrate_one (Some (wasm_stub q el)) fc blobs"
  have k: "fnKey f \<notin> fnKey ` set as" "fnKey f \<notin> fnKey ` set bs" using assms(2) fns by auto
  have "st' = fst (fold ?R bs (?R f (fold ?R as st)))"
    using assms(1,5) fns by (simp add: rehydrate_def)
  then have "map_of st' (fnKey f) = map_of (fst (?R f (fold ?R as st))) (fnKey f)"
    using rehydrate_fold_other [OF k(2)] by simp
  moreover have "map_of (fst (fold ?R as st)) (fnKey f) = map_of (fst st) (fnKey f)"
    by (rule rehydrate_fold_other [OF k(1)])
  ultimately have "map_of st' (fnKey f) = (case deployable blobs f of Some c \<Rightarrow> Some c | None \<Rightarrow> map_of (fst st) (fnKey f))"
    using assms(4) by (auto simp: rehydrate_one_def deployable_def blob_Get_def wasm_stub_def wasm_Deploy_def map_of_update split: option.splits)
  then show ?thesis by (auto simp: wasm_Invoke_def)
qed

definition demo_function :: "string \<Rightarrow> string \<Rightarrow> func" where
  "demo_function n ref = \<lparr>f_Meta = named ''p'' n, f_Runtime = FunctionRuntimeWasm, f_Handler = [],
     f_SourceRef = ref, f_Source = \<lparr>src_Type = [], src_Git = None\<rparr>, f_Triggers = [], f_Env = [],
     f_SecretMounts = [], f_MemoryMB = 0, f_TimeoutMS = 0, f_LatestBuild = [], f_Status = zero_status\<rparr>"

definition with_functions :: "memdb store" where
  "with_functions =
     put_of (PutFunction mem_bolt ''u2'' 7 8 (demo_function ''idle'' [])
       (put_of (PutFunction mem_bolt ''u1'' 5 6 (demo_function ''hello'' ''ab'') fresh_store)))"

theorem rehydrate_restores_witness:
  "\<exists>f \<in> set (projr (ListFunctions mem_bolt [] with_functions)). f_SourceRef f = ''ab'' \<and>
     map_of (fst (rehydrate mem_bolt (Some (wasm_stub id 0)) (Some (fc_stub id 0)) [(''ab'', ''wasm'')]
       with_functions ([], []))) (fnKey f) = Some ''wasm''"
proof -
  let ?fns = "projr (ListFunctions mem_bolt [] with_functions)"
  let ?f = "hd ?fns"
  have "ListFunctions mem_bolt [] with_functions = Inr ?fns" by code_simp
  moreover have "distinct (map fnKey ?fns)" by code_simp
  moreover have m: "?f \<in> set ?fns" by code_simp
  moreover have "f_Runtime ?f \<noteq> FunctionRuntimeFirecracker" by code_simp
  ultimately have "deployable [(''ab'', ''wasm'')] ?f = Some ''wasm'' \<longrightarrow>
      map_of (fst (rehydrate mem_bolt (Some (wasm_stub id 0)) (Some (fc_stub id 0)) [(''ab'', ''wasm'')]
        with_functions ([], []))) (fnKey ?f) = Some ''wasm''"
    using rehydrate_restores by blast
  moreover have "deployable [(''ab'', ''wasm'')] ?f = Some ''wasm''" by code_simp
  moreover have "f_SourceRef ?f = ''ab''" by code_simp
  ultimately show ?thesis using m by blast
qed

section \<open>The blob store\<close>

definition blobs_intact :: "(bytes \<Rightarrow> bytes) \<Rightarrow> blobs \<Rightarrow> bool" where
  "blobs_intact H fs \<longleftrightarrow> (\<forall>i d. map_of fs i = Some d \<longrightarrow> i = hexEncode (H d))"

text \<open>
  The blob store is content-addressed: as long as every file is named by the hash of its
  contents, storing data (with a write that succeeds) keeps that invariant, returns the hash as
  the name, makes the data readable under it, and leaves every other blob as it was. Reading
  yields data with the same SHA-256, hence the data itself unless there is a collision.
\<close>

theorem blob_roundtrip:
  assumes "blobs_intact H fs" "blob_Put H None data fs = (fs', r)"
  shows "r = Inr (hexEncode (H data)) \<and> blobs_intact H fs' \<and>
    (\<exists>d. blob_Get (hexEncode (H data)) fs' = Inr d \<and> H d = H data) \<and>
    ((\<forall>d. H d = H data \<longrightarrow> d = data) \<longrightarrow> blob_Get (hexEncode (H data)) fs' = Inr data) \<and>
    (\<forall>j. j \<noteq> hexEncode (H data) \<longrightarrow> blob_Get j fs' = blob_Get j fs)"
proof (cases "map_of fs (hexEncode (H data))")
  case None
  then have fs': "fs' = AList.update (hexEncode (H data)) data fs" and r: "r = Inr (hexEncode (H data))"
    using assms(2) by (simp_all add: blob_Put_def Let_def)
  have "blobs_intact H fs'" using assms(1) by (simp add: fs' blobs_intact_def map_of_update)
  then show ?thesis by (simp add: r fs' blob_Get_def map_of_update)
next
  case (Some d)
  then have fs': "fs' = fs" and r: "r = Inr (hexEncode (H data))"
    using assms(2) by (simp_all add: blob_Put_def Let_def)
  have "hexEncode (H data) = hexEncode (H d)" using assms(1) Some by (simp add: blobs_intact_def)
  then have "H d = H data" by simp
  then show ?thesis using assms(1) Some by (simp add: r fs' blob_Get_def)
qed

theorem blob_roundtrip_witness:
  "(\<exists>d. blob_Get (hexEncode ''ab'') (fst (blob_Put (take 2) None ''abc'' [(hexEncode ''xy'', ''xyz'')])) = Inr d \<and>
     take 2 d = ''ab'')"
proof -
  have "blobs_intact (take 2) [(hexEncode ''xy'', ''xyz'')]" by (simp add: blobs_intact_def)
  from blob_roundtrip [OF this surjective_pairing, of "''abc''"] show ?thesis by auto
qed

text \<open>
  A write that fails half-way leaves the prefix it wrote under the final name; the next upload
  of the same data finds the file, reports success and never writes the rest.
\<close>

lemma blob_partial_write:
  assumes "map_of fs (hexEncode (H data)) = None" "blob_Put H (Some (e, Some n)) data fs = (fs1, r1)"
    and "blob_Put H None data fs1 = (fs2, r2)"
  shows "r1 = Inl e \<and> r2 = Inr (hexEncode (H data)) \<and> blob_Get (hexEncode (H data)) fs2 = Inr (take n data)"
  using assms by (auto simp: blob_Put_def blob_Get_def Let_def map_of_update)

section \<open>The ring of invocations\<close>

definition records_of :: "string \<Rightarrow> (string \<times> invocation_record) list \<Rightarrow> invocation_record list" where
  "records_of key ops = map snd (filter (\<lambda>op. fst op = key) ops)"

definition ring_run :: "(string \<times> invocation_record) list \<Rightarrow> invocation_ring \<Rightarrow> invocation_ring" where
  "ring_run ops r = fold (\<lambda>(k, rec). ring_record k rec) ops r"

lemma records_of_snoc: "records_of key (ops @ [(k, rec)]) = records_of key ops @ (if k = key then [rec] else [])"
  by (simp add: records_of_def)

lemma ring_record_size [simp]: "rg_size (ring_record k rec r) = rg_size r"
  by (simp add: ring_record_def Let_def)

lemma ring_record_get:
  assumes "0 < rg_size r"
  shows "ring_get (ring_record k rec r) key =
     (if k = key then (let b = ring_get r key @ [rec] in drop (length b - nat (rg_size r)) b) else ring_get r key)"
proof (cases "k = key")
  case True
  let ?b = "ring_get r key @ [rec]"
  have "(if int (length ?b) > rg_size r then drop (nat (int (length ?b) - rg_size r)) ?b else ?b) =
      drop (length ?b - nat (rg_size r)) ?b"
  proof (cases "int (length ?b) > rg_size r")
    case True
    then have "nat (int (length ?b) - rg_size r) = length ?b - nat (rg_size r)" using assms by linarith
    then show ?thesis using True by (simp only: if_True)
  qed simp
  then show ?thesis using True
    by (simp add: ring_record_def ring_get_def [of "_ \<lparr>rg_rings := _\<rparr>"] Let_def map_of_update del: length_append)
next
  case False
  then show ?thesis by (simp add: ring_record_def ring_get_def Let_def map_of_update)
qed

lemma ring_run_get:
  assumes "0 < rg_size r" "rg_rings r = []"
  shows "rg_size (ring_run ops r) = rg_size r \<and>
    ring_get (ring_run ops r) key = drop (length (records_of key ops) - nat (rg_size r)) (records_of key ops)"
proof (induction ops rule: rev_induct)
  case Nil
  then show ?case using assms by (simp add: ring_run_def records_of_def ring_get_def)
next
  case (snoc op ops)
  obtain k rec where op: "op = (k, rec)" by fastforce
  let ?xs = "records_of key ops" and ?n = "nat (rg_size r)"
  have e: "ring_run (ops @ [(k, rec)]) r = ring_record k rec (ring_run ops r)" by (simp add: ring_run_def)
  have "drop (length (drop (length ?xs - ?n) ?xs @ [rec]) - ?n) (drop (length ?xs - ?n) ?xs @ [rec]) =
      drop (length (?xs @ [rec]) - ?n) (?xs @ [rec])"
    using assms(1) by (cases "length ?xs \<le> ?n") (auto simp: drop_append Suc_diff_le)
  then show ?case using snoc.IH assms(1) by (simp add: op e ring_record_get records_of_snoc Let_def del: length_append length_drop drop_append)
qed

lemma rev_drop_last: "rev (drop (length xs - n) xs) = take n (rev xs)"
  by (cases "n \<le> length xs") (simp_all add: rev_drop)

text \<open>
  The invocation list of a function shows its most recent invocations, newest first, at most
  as many as the ring's size: after any sequence of invocations of any functions it is the
  reversed history of that function, cut to the size.
\<close>

theorem ring_shows_latest:
  "ring_list key (ring_run ops (newInvocationRing sz)) =
     take (nat (if sz \<le> 0 then 100 else sz)) (rev (records_of key ops))"
proof -
  have "0 < rg_size (newInvocationRing sz)" "rg_rings (newInvocationRing sz) = []"
    by (simp_all add: newInvocationRing_def)
  from ring_run_get [OF this, of ops key] show ?thesis
    by (simp add: ring_list_def reverse_in_place_rev rev_drop_last newInvocationRing_def split del: if_split)
qed

end
