(* ===== verification/Protocol.thy ===== *)
theory Protocol
  imports Prelude
begin

text \<open>
  The wire format between the Firecracker host and the agent in the guest,
  \<^verbatim>\<open>internal/runtime/firecracker/protocol/protocol.go\<close>: a 32-bit big-endian length and a JSON
  envelope. \<open>enc\<close> and \<open>dec\<close> are \<^verbatim>\<open>json.Marshal\<close> and \<^verbatim>\<open>json.Unmarshal\<close> at the type of the message.
  A connection that is read from is the bytes that are still to come and the error that ends
  them; one that is written to gives the outcome of each \<^verbatim>\<open>Write\<close>, which may fail half-way.
\<close>

section \<open>Definitions\<close>

record fc_request =
  pq_Method :: string
  pq_Path :: string
  pq_Headers :: "(string \<times> string list) list"
  pq_Body :: bytes
  pq_Env :: strmap
  pq_SecretFiles :: strmap
  pq_Mode :: string

record fc_response =
  ps_Status :: int
  ps_Headers :: "(string \<times> string list) list"
  ps_Body :: bytes
  ps_Logs :: string
  ps_Error :: string

definition VsockPort :: int where "VsockPort = 5252"

definition MaxMessageSize :: nat where "MaxMessageSize = 32 * 2 ^ 20"

text \<open>\<^verbatim>\<open>binary.BigEndian.PutUint32\<close>, \<^verbatim>\<open>Uint32\<close> and \<^verbatim>\<open>io.ReadFull\<close>.\<close>

definition PutUint32 :: "32 word \<Rightarrow> bytes" where
  "PutUint32 v = map (\<lambda>n. char_of (unat (ucast (drop_bit n v) :: 8 word))) [24, 16, 8, 0]"

definition byte32 :: "char \<Rightarrow> 32 word" where
  "byte32 c = ucast (of_char c :: 8 word)"

definition Uint32 :: "bytes \<Rightarrow> 32 word" where
  "Uint32 b = or (or (or (byte32 (b ! 3)) (push_bit 8 (byte32 (b ! 2)))) (push_bit 16 (byte32 (b ! 1))))
     (push_bit 24 (byte32 (b ! 0)))"

type_synonym reader = "bytes \<times> error"

definition ErrEOF :: error where "ErrEOF = Err ''EOF''"
definition ErrUnexpectedEOF :: error where "ErrUnexpectedEOF = Err ''unexpected EOF''"

definition ReadFull :: "nat \<Rightarrow> reader \<Rightarrow> reader \<times> (error + bytes)" where
  "ReadFull n r =
     (if n \<le> length (fst r) then ((drop n (fst r), snd r), Inr (take n (fst r)))
      else (([], snd r), Inl (if fst r \<noteq> [] \<and> snd r = ErrEOF then ErrUnexpectedEOF else snd r)))"

definition WriteFrame ::
  "('v \<Rightarrow> error + bytes) \<Rightarrow> (nat \<Rightarrow> (error \<times> nat) option) \<Rightarrow> 'v \<Rightarrow> bytes \<times> error option" where
  "WriteFrame enc wr v =
     (case enc v of Inl e \<Rightarrow> ([], Some e)
      | Inr data \<Rightarrow>
          if length data > MaxMessageSize
          then ([], Some (Err (''frame too large: '' @ Itoa (int (length data)) @ '' bytes'')))
          else let hdr = PutUint32 (word_of_nat (length data)) in
            (case wr 0 of Some (e, n) \<Rightarrow> (take n hdr, Some e)
             | None \<Rightarrow> (case wr 1 of Some (e, n) \<Rightarrow> (hdr @ take n data, Some e) | None \<Rightarrow> (hdr @ data, None))))"

definition ReadFrame :: "(bytes \<Rightarrow> error + 'v) \<Rightarrow> reader \<Rightarrow> reader \<times> (error + 'v)" where
  "ReadFrame dec r =
     (case ReadFull 4 r of (r1, Inl e) \<Rightarrow> (r1, Inl e)
      | (r1, Inr hdr) \<Rightarrow>
          let n = Uint32 hdr in
          if n = 0 then (r1, Inl (Err ''empty frame''))
          else if unat n > MaxMessageSize
          then (r1, Inl (Err (''frame too large: '' @ Itoa (uint n) @ '' bytes'')))
          else (case ReadFull (unat n) r1 of (r2, Inl e) \<Rightarrow> (r2, Inl e) | (r2, Inr buf) \<Rightarrow> (r2, dec buf)))"

section \<open>Properties\<close>

lemma byte32_char [simp]: "byte32 (char_of (unat (w :: 8 word))) = ucast w"
proof -
  have "(of_char (char_of (unat w)) :: 8 word) = of_nat (of_char (char_of (unat w)))"
    by (simp only: of_nat_of_char)
  also have "\<dots> = w" using unsigned_less [of w, where ?'a = nat] by simp
  finally show ?thesis by (simp add: byte32_def)
qed

lemma length_PutUint32 [simp]: "length (PutUint32 v) = 4"
  by (simp add: PutUint32_def)

lemma Uint32_PutUint32 [simp]: "Uint32 (PutUint32 v) = v"
  unfolding Uint32_def PutUint32_def
proof (rule bit_word_eqI)
  fix n assume "n < LENGTH(32)"
  then consider "n < 8" | "8 \<le> n" "n < 16" | "16 \<le> n" "n < 24" | "24 \<le> n" "n < 32" by fastforce
  then show "bit (or (or (or (byte32 (map (\<lambda>n. char_of (unat (ucast (drop_bit n v) :: 8 word))) [24, 16, 8, 0] ! 3))
      (push_bit 8 (byte32 (map (\<lambda>n. char_of (unat (ucast (drop_bit n v) :: 8 word))) [24, 16, 8, 0] ! 2))))
      (push_bit 16 (byte32 (map (\<lambda>n. char_of (unat (ucast (drop_bit n v) :: 8 word))) [24, 16, 8, 0] ! 1))))
      (push_bit 24 (byte32 (map (\<lambda>n. char_of (unat (ucast (drop_bit n v) :: 8 word))) [24, 16, 8, 0] ! 0)))) n = bit v n"
    by cases (auto simp: bit_simps)
qed

lemma char_of_byte [simp]: "char_of (unat (of_char c :: 8 word)) = c"
proof -
  have "(of_char c :: nat) < 256" by simp
  moreover have "unat (of_nat (of_char c) :: 8 word) = of_char c mod 256" by (simp add: unat_of_nat take_bit_eq_mod)
  ultimately have "unat (of_char c :: 8 word) = of_char c" by (simp add: of_nat_of_char)
  then show ?thesis by simp
qed

lemma byte_of_or:
  fixes a b c d :: "8 word"
  shows "ucast (drop_bit 24 (or (or (or (ucast d) (push_bit 8 (ucast c))) (push_bit 16 (ucast b))) (push_bit 24 (ucast a)) :: 32 word)) = a"
    and "ucast (drop_bit 16 (or (or (or (ucast d) (push_bit 8 (ucast c))) (push_bit 16 (ucast b))) (push_bit 24 (ucast a)) :: 32 word)) = b"
    and "ucast (drop_bit 8 (or (or (or (ucast d) (push_bit 8 (ucast c))) (push_bit 16 (ucast b))) (push_bit 24 (ucast a)) :: 32 word)) = c"
    and "ucast (or (or (or (ucast d) (push_bit 8 (ucast c))) (push_bit 16 (ucast b))) (push_bit 24 (ucast a)) :: 32 word) = d"
  by (rule bit_word_eqI, auto simp: bit_simps dest: bit_imp_le_length)+

lemma PutUint32_Uint32: "length b = 4 \<Longrightarrow> PutUint32 (Uint32 b) = b"
proof -
  assume "length b = 4"
  then obtain p q r s where "b = [p, q, r, s]" by (auto simp: length_Suc_conv numeral_eq_Suc)
  then show ?thesis by (simp add: PutUint32_def Uint32_def byte32_def byte_of_or del: drop_bit_or)
qed

text \<open>The size of the header never wraps: a frame that is written carries its exact length.\<close>

lemma unat_frame_size: "length data \<le> MaxMessageSize \<Longrightarrow> unat (word_of_nat (length data) :: 32 word) = length data"
  by (simp add: MaxMessageSize_def unat_of_nat take_bit_eq_mod)

lemma WriteFrame_ok:
  "WriteFrame enc wr v = (bs, None) \<longleftrightarrow>
     (\<exists>data. enc v = Inr data \<and> length data \<le> MaxMessageSize \<and> wr 0 = None \<and> wr 1 = None \<and>
        bs = PutUint32 (word_of_nat (length data)) @ data)"
  by (auto simp: WriteFrame_def Let_def split: sum.splits if_splits option.splits prod.splits)

lemma ReadFrame_frame:
  assumes "data \<noteq> []" "length data \<le> MaxMessageSize"
  shows "ReadFrame dec (PutUint32 (word_of_nat (length data)) @ data @ rest, e) = ((rest, e), dec data)"
proof -
  have "(word_of_nat (length data) :: 32 word) \<noteq> 0"
    using unat_frame_size [OF assms(2)] assms(1) by auto
  then show ?thesis using assms(2) by (simp add: ReadFrame_def ReadFull_def Let_def unat_frame_size)
qed

text \<open>Reading \<open>k\<close> frames one after the other.\<close>

fun read_frames :: "(bytes \<Rightarrow> error + 'v) \<Rightarrow> nat \<Rightarrow> reader \<Rightarrow> reader \<times> (error + 'v) list" where
  "read_frames dec 0 r = (r, [])"
| "read_frames dec (Suc k) r =
     (case ReadFrame dec r of (r1, v) \<Rightarrow> (case read_frames dec k r1 of (r2, vs) \<Rightarrow> (r2, v # vs)))"

text \<open>
  The framing round-trips: what a sequence of successful \<^verbatim>\<open>WriteFrame\<close> calls put on a
  connection is read back by as many \<^verbatim>\<open>ReadFrame\<close> calls, message by message and whatever
  follows, and nothing of what follows is consumed. The hypothesis on the JSON codec is that
  it decodes what it encodes, to something that is not empty.
\<close>

theorem frame_roundtrip:
  assumes "\<And>v. v \<in> set vs \<Longrightarrow> \<exists>data. enc v = Inr data \<and> data \<noteq> [] \<and> dec data = Inr v"
    and "\<And>v. v \<in> set vs \<Longrightarrow> snd (WriteFrame enc wr v) = None"
  shows "read_frames dec (length vs) (concat (map (\<lambda>v. fst (WriteFrame enc wr v)) vs) @ rest, e) =
    ((rest, e), map Inr vs)"
  using assms
proof (induction vs)
  case (Cons v vs)
  obtain data where d: "enc v = Inr data" "data \<noteq> []" "dec data = Inr v" using Cons.prems(1) [of v] by auto
  have "WriteFrame enc wr v = (fst (WriteFrame enc wr v), None)" using Cons.prems(2) [of v] by (simp add: prod_eq_iff)
  then have "length data \<le> MaxMessageSize"
    "fst (WriteFrame enc wr v) = PutUint32 (word_of_nat (length data)) @ data"
    using d(1) by (auto simp: WriteFrame_ok)
  then have "ReadFrame dec (fst (WriteFrame enc wr v) @ x, e) = ((x, e), Inr v)" for x
    using ReadFrame_frame [OF d(2), of dec x e] d(3) by simp
  then show ?case using Cons by simp
qed simp

text \<open>
  Reading is bounded and sound, whatever the peer sends: \<^verbatim>\<open>ReadFrame\<close> consumes a prefix of the
  input of at most four bytes and 32 MiB, it returns a message only if that prefix is a header
  and exactly as many bytes as the header says (at least one, at most 32 MiB) that decode to
  the message, and a frame that announces more is refused after its header. \<^verbatim>\<open>WriteFrame\<close> writes
  nothing at all for a message that is too large.
\<close>

theorem frame_bounds:
  "(\<exists>used. fst r = used @ fst (fst (ReadFrame dec r)) \<and> length used \<le> 4 + MaxMessageSize \<and>
      (\<forall>v. snd (ReadFrame dec r) = Inr v \<longrightarrow>
         (\<exists>data. used = PutUint32 (word_of_nat (length data)) @ data \<and> data \<noteq> [] \<and>
            length data \<le> MaxMessageSize \<and> dec data = Inr v)) \<and>
      (4 \<le> length (fst r) \<and> MaxMessageSize < unat (Uint32 (take 4 (fst r))) \<longrightarrow>
         length used = 4 \<and> (\<exists>e. snd (ReadFrame dec r) = Inl e))) \<and>
    (\<forall>data. enc v = Inr data \<and> MaxMessageSize < length data \<longrightarrow>
       fst (WriteFrame enc wr v) = [] \<and> snd (WriteFrame enc wr v) \<noteq> None)"
proof (rule conjI)
  obtain b e where r: "r = (b, e)" by fastforce
  let ?n = "Uint32 (take 4 b)"
  consider "length b < 4" | "4 \<le> length b" "?n = 0 \<or> MaxMessageSize < unat ?n"
    | "4 \<le> length b" "?n \<noteq> 0" "unat ?n \<le> MaxMessageSize" "length b < 4 + unat ?n"
    | "4 \<le> length b" "?n \<noteq> 0" "unat ?n \<le> MaxMessageSize" "4 + unat ?n \<le> length b"
    by fastforce
  then show "\<exists>used. fst r = used @ fst (fst (ReadFrame dec r)) \<and> length used \<le> 4 + MaxMessageSize \<and>
      (\<forall>v. snd (ReadFrame dec r) = Inr v \<longrightarrow>
         (\<exists>data. used = PutUint32 (word_of_nat (length data)) @ data \<and> data \<noteq> [] \<and>
            length data \<le> MaxMessageSize \<and> dec data = Inr v)) \<and>
      (4 \<le> length (fst r) \<and> MaxMessageSize < unat (Uint32 (take 4 (fst r))) \<longrightarrow>
         length used = 4 \<and> (\<exists>e. snd (ReadFrame dec r) = Inl e))"
  proof cases
    case 1
    then show ?thesis by (intro exI [of _ b]) (simp add: r ReadFrame_def ReadFull_def)
  next
    case 2
    then show ?thesis by (intro exI [of _ "take 4 b"]) (auto simp: r ReadFrame_def ReadFull_def Let_def)
  next
    case 3
    then have "\<not> unat ?n \<le> length b - 4" by linarith
    then show ?thesis using 3 by (intro exI [of _ b]) (simp add: r ReadFrame_def ReadFull_def Let_def)
  next
    case 4
    let ?data = "take (unat ?n) (drop 4 b)"
    have len: "length ?data = unat ?n" using 4 by simp
    then have "?data \<noteq> []" using 4(2) by (auto simp: unat_eq_0)
    moreover have "PutUint32 (word_of_nat (length ?data)) = take 4 b"
      unfolding len using 4(1) by (simp add: PutUint32_Uint32)
    moreover have "unat ?n \<le> length b - 4" using 4 by linarith
    then have "ReadFrame dec r = ((drop (unat ?n) (drop 4 b), e), dec ?data)"
      using 4 by (simp add: r ReadFrame_def ReadFull_def Let_def)
    moreover have "b = (take 4 b @ ?data) @ drop (unat ?n) (drop 4 b)"
      by (metis append.assoc append_take_drop_id)
    ultimately show ?thesis using 4(3) len
      by (intro exI [of _ "take 4 b @ ?data"]) (auto simp: r simp del: append_assoc intro!: exI [of _ ?data])
  qed
qed (simp add: WriteFrame_def)

section \<open>Witnesses\<close>

theorem frame_roundtrip_witness:
  "read_frames Inr (length [''a'', ''bc''])
      (concat (map (\<lambda>v. fst (WriteFrame Inr (\<lambda>_. None) v)) [''a'', ''bc'']) @ ''zz'', ErrEOF) =
     ((''zz'', ErrEOF), map Inr [''a'', ''bc''])"
  by (rule frame_roundtrip) (auto simp: WriteFrame_def MaxMessageSize_def Let_def)

theorem frame_bounds_witness:
  "\<exists>e. snd (ReadFrame Inr (PutUint32 (- 1) @ ''abc'', ErrEOF)) = Inl e"
proof -
  have "MaxMessageSize < unat (Uint32 (take 4 (fst (PutUint32 (- 1) @ ''abc'', ErrEOF))))"
    by (simp add: MaxMessageSize_def unsigned_minus_1_eq_mask mask_eq_exp_minus_1)
  then show ?thesis
    using frame_bounds [of "(PutUint32 (- 1) @ ''abc'', ErrEOF)" Inr Inr "''x''" "\<lambda>_. None"] by auto
qed

end
