(* ===== verification/Http.thy ===== *)
theory Http
  imports Functions
begin

text \<open>
  HTTP vocabulary of \<^verbatim>\<open>internal/api\<close> (requests, responses, the helpers at the top of
  \<^verbatim>\<open>handlers.go\<close>) and the client of Garage's administration API,
  \<^verbatim>\<open>internal/storage/garage/admin.go\<close>.

  A JSON value is written as the tree that \<^verbatim>\<open>encoding/json\<close> is given: \<open>JDoc\<close> is a resource
  struct, \<open>JObj\<close> a map literal. Decoding a body into a request struct is
  \<^verbatim>\<open>json.Decoder.Decode\<close> on arbitrary bytes; its outcome for each struct the handlers decode
  is the parameter \<open>json_in\<close>.
\<close>

section \<open>JSON, requests and responses\<close>

datatype json =
    JNull | JBool bool | JInt int | JStr string | JTime time
  | JList "json list" | JObj "(string \<times> json) list"
  | JDoc doc | JIdentity identity | JJoinToken join_token | JInvocation invocation_record

text \<open>
  A request as a handler sees it. \<open>r_Segs\<close> are the segments of the escaped path, each
  unescaped, as the multiplexer matches them. Header names are in lower case. The body is the bytes that
  can be read before the reader fails or ends, with the reader's error; \<open>None\<close> is a nil body.
  The identity is the value \<^verbatim>\<open>withIdentity\<close> puts into the context.
\<close>

record request =
  r_Method :: string
  r_Path :: string
  r_Segs :: "string list"
  r_RequestURI :: string
  r_Host :: string
  r_Header :: strmap
  r_Query :: strmap
  r_PathValue :: strmap
  r_Body :: "(bytes \<times> error option) option"
  r_Identity :: "identity option"

definition get0 :: "strmap \<Rightarrow> string \<Rightarrow> string" where
  "get0 m k = (case map_of m k of None \<Rightarrow> [] | Some v \<Rightarrow> v)"

abbreviation PathValue :: "request \<Rightarrow> string \<Rightarrow> string" where
  "PathValue r k \<equiv> get0 (r_PathValue r) k"

definition IdentityFrom :: "request \<Rightarrow> identity option" where
  "IdentityFrom r = r_Identity r"

definition withIdentity :: "identity \<Rightarrow> request \<Rightarrow> request" where
  "withIdentity i r = r\<lparr>r_Identity := Some i\<rparr>"

datatype rbody = NoBody | JSON json | Text string

record response =
  w_Status :: int
  w_Header :: strmap
  w_Body :: rbody

definition writeJSON :: "int \<Rightarrow> json \<Rightarrow> response" where
  "writeJSON status v = \<lparr>w_Status = status, w_Header = [(''content-type'', ''application/json'')], w_Body = JSON v\<rparr>"

definition httpError :: "int \<Rightarrow> string \<Rightarrow> response" where
  "httpError status msg =
     \<lparr>w_Status = status, w_Header = [(''content-type'', ''application/json'')],
      w_Body = JSON (JObj [(''error'', JStr msg), (''status'', JInt status)])\<rparr>"

definition noContent :: response where
  "noContent = \<lparr>w_Status = 204, w_Header = [], w_Body = NoBody\<rparr>"

definition mapStoreErr :: "error \<Rightarrow> response" where
  "mapStoreErr e =
     (if e = ErrNotFound then httpError 404 (errorString e)
      else if e = ErrAlreadyExists then httpError 409 (errorString e)
      else if e = ErrConflict then httpError 409 (errorString e)
      else if e = ErrNotLeader then httpError 503 (errorString e)
      else httpError 500 (errorString e))"

text \<open>\<^verbatim>\<open>io.LimitReader\<close> and \<^verbatim>\<open>io.ReadAll\<close> over it.\<close>

definition limit_reader :: "nat \<Rightarrow> bytes \<times> error option \<Rightarrow> bytes \<times> error option" where
  "limit_reader n b = (if n \<le> length (fst b) then (take n (fst b), None) else b)"

definition read_all :: "nat \<Rightarrow> request \<Rightarrow> bytes \<times> error option" where
  "read_all n r = (case r_Body r of None \<Rightarrow> ([], None) | Some b \<Rightarrow> limit_reader n b)"

definition decodeJSON :: "(bytes \<times> error option \<Rightarrow> error + 'a) \<Rightarrow> request \<Rightarrow> error + 'a" where
  "decodeJSON dec r =
     (case r_Body r of None \<Rightarrow> Inl (Err ''empty body'') | Some b \<Rightarrow> dec (limit_reader (2 ^ 24) b))"

definition tailString :: "string \<Rightarrow> nat \<Rightarrow> string" where
  "tailString s n =
     (if length s \<le> n then s else [CHR 0xE2, CHR 0x80, CHR 0xA6] @ drop (length s - n) s)"

text \<open>\<^verbatim>\<open>http.Header.Add\<close> for every value, in the map's iteration order; the recorded header lists the values.\<close>

definition CopyResponse :: "invoke_response \<Rightarrow> response" where
  "CopyResponse r =
     \<lparr>w_Status = (if ir_Status r = 0 then 200 else ir_Status r),
      w_Header = concat (map (\<lambda>(k, vs). map (Pair k) vs) (ir_Headers r)), w_Body = Text (ir_Body r)\<rparr>"

section \<open>The Garage administration client\<close>

record admin_client =
  ac_base :: string
  ac_token :: string

record garage_request =
  gq_method :: string
  gq_url :: string
  gq_authorization :: string
  gq_body :: "json option"

text \<open>
  The service: whether \<^verbatim>\<open>http.NewRequestWithContext\<close> accepts method and URL, and what the
  service answers to a request after the requests it received before (a transport error, or
  the status code and the body).
\<close>

record garage_http =
  gh_newreq :: "string \<Rightarrow> string \<Rightarrow> error option"
  gh_Do :: "garage_request list \<Rightarrow> garage_request \<Rightarrow> error + (int \<times> bytes)"
  gh_id :: "bytes \<Rightarrow> error + string"
  gh_key :: "bytes \<Rightarrow> error + (string \<times> string)"

text \<open>The state is the list of requests sent. The answer's body is decoded by the caller.\<close>

definition garage_do ::
  "garage_http \<Rightarrow> admin_client \<Rightarrow> string \<Rightarrow> string \<Rightarrow> json option \<Rightarrow> garage_request list \<Rightarrow>
   garage_request list \<times> (error + (int \<times> bytes))" where
  "garage_do g c method path body sent =
     (let rq = \<lparr>gq_method = method, gq_url = ac_base c @ path,
                gq_authorization = ''Bearer '' @ ac_token c, gq_body = body\<rparr> in
      case gh_newreq g method (gq_url rq) of Some e \<Rightarrow> (sent, Inl e)
      | None \<Rightarrow>
          (case gh_Do g sent rq of Inl e \<Rightarrow> (sent @ [rq], Inl e)
           | Inr (status, answer) \<Rightarrow>
               if status \<ge> 400
               then (sent @ [rq], Inl (Err (''garage admin '' @ method @ '' '' @ path @ '': '' @ answer)))
               else (sent @ [rq], Inr (status, answer))))"

text \<open>\<^verbatim>\<open>if out != nil && resp.StatusCode != http.StatusNoContent\<close>: the struct keeps its zero value otherwise.\<close>

definition garage_decode :: "(bytes \<Rightarrow> error + 'a) \<Rightarrow> 'a \<Rightarrow> error + (int \<times> bytes) \<Rightarrow> error + 'a" where
  "garage_decode dec zero r =
     (case r of Inl e \<Rightarrow> Inl e | Inr (status, answer) \<Rightarrow> if status \<noteq> 204 then dec answer else Inr zero)"

definition garage_unit ::
  "garage_request list \<times> (error + (int \<times> bytes)) \<Rightarrow> garage_request list \<times> error option" where
  "garage_unit x = (fst x, case snd x of Inl e \<Rightarrow> Some e | Inr _ \<Rightarrow> None)"

definition garage_CreateBucket where
  "garage_CreateBucket g c alias sent =
     (case garage_do g c ''POST'' ''/v1/bucket'' (Some (JObj [(''globalAlias'', JStr alias)])) sent of
        (sent', r) \<Rightarrow> (sent', garage_decode (gh_id g) [] r))"

definition garage_DeleteBucket where
  "garage_DeleteBucket g c i sent =
     garage_unit (garage_do g c ''DELETE'' (''/v1/bucket?id='' @ i) None sent)"

definition garage_CreateKey where
  "garage_CreateKey g c name sent =
     (case garage_do g c ''POST'' (''/v1/key?name='' @ name) None sent of
        (sent', r) \<Rightarrow> (sent', garage_decode (gh_key g) ([], []) r))"

definition garage_AllowKey where
  "garage_AllowKey g c keyID bucketID read write owner sent =
     garage_unit (garage_do g c ''POST'' ''/v1/bucket/allow''
       (Some (JObj [(''bucketId'', JStr bucketID), (''accessKeyId'', JStr keyID),
         (''permissions'', JObj [(''read'', JBool read), (''write'', JBool write), (''owner'', JBool owner)])])) sent)"

definition garage_DeleteKey where
  "garage_DeleteKey g c keyID sent =
     garage_unit (garage_do g c ''DELETE'' (''/v1/key?id='' @ keyID) None sent)"

end
