(* ===== verification/Api.thy ===== *)
theory Api
  imports Http Cluster Scheduler Secrets Events Runtime Replication
begin

text \<open>
  The HTTP API, \<^verbatim>\<open>internal/api\<close>: the state of a server, its middleware (\<^verbatim>\<open>server.go\<close>) and its
  handlers (\<^verbatim>\<open>handlers.go\<close>, \<^verbatim>\<open>cluster.go\<close>, \<^verbatim>\<open>join.go\<close>, \<^verbatim>\<open>secrets.go\<close>, \<^verbatim>\<open>events.go\<close>,
  \<^verbatim>\<open>builds.go\<close>, \<^verbatim>\<open>triggers.go\<close>, \<^verbatim>\<open>webhooks.go\<close>, \<^verbatim>\<open>readiness.go\<close>, \<^verbatim>\<open>runtime.go\<close>).

  A handler maps the configuration of the server, what one request observes of the outside
  world, the request and the state to the new state and the response. The optional
  dependencies of the server are options, \<open>None\<close> standing for a nil pointer or interface.
\<close>

section \<open>The server\<close>

text \<open>The container runtime as the API uses it: \<^verbatim>\<open>Start\<close>, and \<^verbatim>\<open>Stop\<close>, \<^verbatim>\<open>Remove\<close>, \<^verbatim>\<open>Logs\<close>.\<close>

record 'rt ctl_runtime = "'rt runtime" +
  rt_Stop :: "container \<Rightarrow> 'rt \<Rightarrow> 'rt \<times> error option"
  rt_Remove :: "container \<Rightarrow> 'rt \<Rightarrow> 'rt \<times> error option"
  rt_Logs :: "container \<Rightarrow> 'rt \<Rightarrow> bytes \<times> error option"

record fc_template =
  tp_Name :: string
  tp_Description :: string
  tp_KernelPath :: string
  tp_RootFSPath :: string
  tp_BootArgs :: string
  tp_Bootstrap :: string
  tp_Available :: bool

text \<open>
  The fixed part of \<^verbatim>\<open>Server\<close>. \<open>sv_H\<close>, \<open>sv_kdf\<close>, \<open>sv_hmac\<close>, \<open>sv_gseal\<close>, \<open>sv_gopen\<close> are the
  cryptographic primitives; \<open>sv_secrets\<close> is the secret manager, that is, its master key;
  \<open>sv_builder\<close> is the interface \<^verbatim>\<open>BuilderHook\<close>.
\<close>

record ('db, 'rt, 'wa, 'fc) server =
  sv_B :: "'db bolt"
  sv_H :: "bytes \<Rightarrow> bytes"
  sv_kdf :: "bytes \<Rightarrow> bytes \<Rightarrow> nat \<Rightarrow> bytes"
  sv_hmac :: "bytes \<Rightarrow> bytes \<Rightarrow> bytes"
  sv_gseal :: "bytes \<Rightarrow> bytes \<Rightarrow> bytes \<Rightarrow> bytes"
  sv_gopen :: "bytes \<Rightarrow> bytes \<Rightarrow> bytes \<Rightarrow> bytes option"
  sv_raft :: bool
  sv_secrets :: "bytes option"
  sv_containers :: "'rt ctl_runtime"
  sv_wasm :: "'wa fn_runtime option"
  sv_fcracker :: "'fc fn_runtime option"
  sv_templates :: "fc_template list option"
  sv_scheduler :: "scheduler option"
  sv_garageAdm :: "admin_client option"
  sv_builder :: "(func \<Rightarrow> string \<Rightarrow> 'db store \<Rightarrow> 'db store \<times> (error + build)) option"
  sv_S3Addr :: "string option"
  sv_version :: string

record ready_state =
  ry_required :: bool
  ry_ready :: bool
  ry_message :: string
  ry_updated :: time

type_synonym readiness = "(string \<times> ready_state) list"

record ('db, 'rt, 'wa, 'fc) world =
  wd_store :: "'db store"
  wd_rt :: 'rt
  wd_wasm :: 'wa
  wd_fc :: 'fc
  wd_bus :: "bus option"
  wd_blobs :: "blobs option"
  wd_invocations :: "invocation_ring option"
  wd_garage :: "garage_request list"
  wd_ready :: "readiness option"

section \<open>Request bodies\<close>

record initialize_req =
  in_BootstrapToken :: string
  in_AdminEmail :: string
  in_AdminName :: string
  in_AdminPassword :: string
  in_MultiNode :: bool

record login_req =
  lg_Email :: string
  lg_Password :: string

record create_token_req =
  cr_Name :: string
  cr_TTL :: string

record create_access_key_req =
  ck_Name :: string
  ck_Bucket :: string
  ck_Permissions :: string

record join_req =
  jr_Token :: string
  jr_NodeID :: string
  jr_AdvertiseAddr :: string
  jr_RaftAddr :: string
  jr_APIAddr :: string
  jr_Roles :: "string list"
  jr_CapacityGB :: int

record put_secret_req =
  ps_Name :: string
  ps_Description :: string
  ps_Value :: string

text \<open>
  What decoding the body yields for each struct. Where the code ignores the error of the
  decoder, the struct as the decoder leaves it is what counts (\<open>ji_issueJoin\<close>: the \<^verbatim>\<open>ttl\<close>;
  \<open>ji_push\<close>: \<^verbatim>\<open>after\<close> and \<^verbatim>\<open>ref\<close>).
\<close>

type_synonym 'a decoder = "bytes \<times> error option \<Rightarrow> error + 'a"

record json_in =
  ji_initialize :: "initialize_req decoder"
  ji_login :: "login_req decoder"
  ji_createToken :: "create_token_req decoder"
  ji_project :: "project decoder"
  ji_container :: "container decoder"
  ji_bucket :: "bucket decoder"
  ji_accessKey :: "create_access_key_req decoder"
  ji_function :: "func decoder"
  ji_cluster :: "cluster_config decoder"
  ji_join :: "join_req decoder"
  ji_putSecret :: "put_secret_req decoder"
  ji_eventRule :: "event_rule decoder"
  ji_issueJoin :: "(bytes \<times> error option) option \<Rightarrow> string"
  ji_push :: "bytes \<Rightarrow> string \<times> string"

text \<open>
  What one request observes: readings of the clock, of \<^verbatim>\<open>newUID\<close> and of the random source, in
  the order the handler makes them; the Raft node; the outcome of a write to the blob store;
  the services it talks to; \<^verbatim>\<open>time.ParseDuration\<close>, \<^verbatim>\<open>strconv.Atoi\<close> and \<^verbatim>\<open>url.Parse\<close>.
\<close>

record obs =
  ob_clk :: "nat \<Rightarrow> time"
  ob_uid :: "nat \<Rightarrow> string"
  ob_rnd :: "nat \<Rightarrow> error + bytes"
  ob_env :: raft_env
  ob_IsLeader :: bool
  ob_LeaderAddr :: string
  ob_AddVoter :: "string \<Rightarrow> string \<Rightarrow> error option"
  ob_json :: json_in
  ob_garage :: garage_http
  ob_blobWrite :: "(error \<times> nat option) option"
  ob_ParseDuration :: "string \<Rightarrow> error + duration"
  ob_Atoi :: "string \<Rightarrow> error + int"
  ob_urlParse :: "string \<Rightarrow> error + string"
  ob_proxy :: "request \<Rightarrow> error + response"

type_synonym ('db, 'rt, 'wa, 'fc) handler =
  "('db, 'rt, 'wa, 'fc) server \<Rightarrow> obs \<Rightarrow> request \<Rightarrow> ('db, 'rt, 'wa, 'fc) world \<Rightarrow>
   ('db, 'rt, 'wa, 'fc) world \<times> response"

text \<open>The tail of a read handler: the error mapped to a status, or the value.\<close>

definition reply :: "'w \<Rightarrow> ('a \<Rightarrow> json) \<Rightarrow> error + 'a \<Rightarrow> 'w \<times> response" where
  "reply w f r = (w, case r of Inl e \<Rightarrow> mapStoreErr e | Inr v \<Rightarrow> writeJSON 200 (f v))"

text \<open>The tail of a delete handler.\<close>

definition deleted :: "('db, 'rt, 'wa, 'fc) world \<Rightarrow> 'db store \<times> error option \<Rightarrow> ('db, 'rt, 'wa, 'fc) world \<times> response" where
  "deleted w sr = (w\<lparr>wd_store := fst sr\<rparr>,
     case snd sr of Some e \<Rightarrow> mapStoreErr e | None \<Rightarrow> noContent)"

text \<open>The tail of a put handler: the stored object is what \<^verbatim>\<open>Put\<close> made of it.\<close>

definition stored ::
  "('db, 'rt, 'wa, 'fc) world \<Rightarrow> int \<Rightarrow> ('v \<Rightarrow> json) \<Rightarrow> 'v \<times> 'db store \<times> error option \<Rightarrow> ('db, 'rt, 'wa, 'fc) world \<times> response"
where
  "stored w status f vsr =
     (case vsr of (v, s, r) \<Rightarrow>
        (w\<lparr>wd_store := s\<rparr>, case r of Some e \<Rightarrow> mapStoreErr e | None \<Rightarrow> writeJSON status (f v)))"

definition bus_emit :: "time \<Rightarrow> event_record \<Rightarrow> ('db, 'rt, 'wa, 'fc) world \<Rightarrow> ('db, 'rt, 'wa, 'fc) world" where
  "bus_emit now ev w = w\<lparr>wd_bus := map_option (Emit now ev) (wd_bus w)\<rparr>"

definition JDocs :: "('v \<Rightarrow> doc) \<Rightarrow> 'v list \<Rightarrow> json" where
  "JDocs f xs = JList (map (\<lambda>x. JDoc (f x)) xs)"

text \<open>\<^verbatim>\<open>recoverer\<close> turns a panic of a handler into this response.\<close>

definition recovered :: response where
  "recovered = httpError 500 ''internal error''"

section \<open>Readiness\<close>

definition ready_Require :: "time \<Rightarrow> string \<Rightarrow> readiness \<Rightarrow> readiness" where
  "ready_Require now name r =
     (if map_of r name = None
      then AList.update name \<lparr>ry_required = True, ry_ready = False, ry_message = [], ry_updated = now\<rparr> r
      else r)"

definition ready_Mark :: "time \<Rightarrow> string \<Rightarrow> bool \<Rightarrow> string \<Rightarrow> readiness \<Rightarrow> readiness" where
  "ready_Mark now name ok msg r =
     (let st = (case map_of r name of Some st \<Rightarrow> st
                | None \<Rightarrow> \<lparr>ry_required = True, ry_ready = False, ry_message = [], ry_updated = 0\<rparr>)
      in AList.update name (st\<lparr>ry_ready := ok, ry_message := msg, ry_updated := now\<rparr>) r)"

definition Milliseconds :: "duration \<Rightarrow> int" where
  "Milliseconds d = (if d < 0 then - (- d div 1000000) else d div 1000000)"

definition ready_report :: "time \<Rightarrow> string \<Rightarrow> ready_state \<Rightarrow> json" where
  "ready_report now n st =
     JObj [(''name'', JStr n), (''required'', JBool (ry_required st)), (''ready'', JBool (ry_ready st)),
           (''message'', JStr (ry_message st)), (''sinceMs'', JInt (Milliseconds (now - ry_updated st)))]"

definition ready_Snapshot :: "time \<Rightarrow> readiness \<Rightarrow> bool \<times> json list" where
  "ready_Snapshot now r =
     (let rows = map (\<lambda>n. (n, the (map_of r n))) (sort (map fst r)) in
      (\<not> list_ex (\<lambda>(n, st). ry_required st \<and> \<not> ry_ready st) rows,
       map (\<lambda>(n, st). ready_report now n st) rows))"

section \<open>Health, set-up and authentication\<close>

definition handleHealth :: "('db, 'rt, 'wa, 'fc) handler" where
  "handleHealth sv ob r w = (w, writeJSON 200 (JObj [(''ok'', JBool True)]))"

definition handleReady :: "('db, 'rt, 'wa, 'fc) handler" where
  "handleReady sv ob r w =
     (w, case wd_ready w of None \<Rightarrow> writeJSON 200 (JObj [(''ready'', JBool True)])
         | Some rd \<Rightarrow>
             (case ready_Snapshot (ob_clk ob 0) rd of (overall, parts) \<Rightarrow>
                writeJSON (if overall then 200 else 503)
                  (JObj [(''ready'', JBool overall), (''components'', JList parts)])))"

definition handleSetupStatus :: "('db, 'rt, 'wa, 'fc) handler" where
  "handleSetupStatus sv ob r w =
     (w, case GetCluster (sv_B sv) (wd_store w) of Inl e \<Rightarrow> httpError 500 (errorString e)
         | Inr cfg \<Rightarrow> writeJSON 200 (JObj [(''initialized'', JBool (cc_Initialized cfg)),
             (''multiNode'', JBool (cc_MultiNode cfg)), (''replicationFactor'', JInt (cc_ReplicationFactor cfg))]))"

definition ensureDefaultProject ::
  "'db bolt \<Rightarrow> string \<Rightarrow> time \<Rightarrow> time \<Rightarrow> 'db store \<Rightarrow> 'db store \<times> error option" where
  "ensureDefaultProject B uid t0 t1 s =
     (case GetProject B ''default'' s of Inr p \<Rightarrow> (s, None)
      | Inl e \<Rightarrow>
          (case PutProject B uid t0 t1 \<lparr>p_Meta = zero_meta\<lparr>m_Name := ''default''\<rparr>,
                  p_DisplayName = ''Default'', p_Description = []\<rparr> s of (_, s', r) \<Rightarrow> (s', r)))"

text \<open>
  The steps of \<^verbatim>\<open>handleInitialize\<close> after the checks, on the store: the user, the token and the
  default project; then the configuration and the bootstrap token. The first step that fails
  ends them with the response \<^verbatim>\<open>500\<close>, and what the steps before it wrote stays.
\<close>

definition initialize_prepare ::
  "('db, 'rt, 'wa, 'fc) server \<Rightarrow> obs \<Rightarrow> initialize_req \<Rightarrow> 'db store \<Rightarrow> 'db store \<times> (error + (user \<times> token))" where
  "initialize_prepare sv ob body s =
     (case CreateUser (sv_B sv) (sv_kdf sv) (ob_rnd ob 0) (ob_uid ob 0) (ob_clk ob 0) (ob_clk ob 1)
             (in_AdminName body) (in_AdminEmail body) (in_AdminPassword body) True s of
        (s1, Inl e) \<Rightarrow> (s1, Inl e)
      | (s1, Inr u) \<Rightarrow>
     (case CreateToken (sv_B sv) (sv_H sv) (ob_rnd ob 1) (ob_uid ob 1) (\<lambda>i. ob_clk ob (2 + i))
             ''admin-initial'' (m_Name (u_Meta u)) 0 True s1 of
        (s2, Inl e) \<Rightarrow> (s2, Inl e)
      | (s2, Inr tok) \<Rightarrow>
     (case ensureDefaultProject (sv_B sv) (ob_uid ob 2) (ob_clk ob 5) (ob_clk ob 6) s2 of
        (s3, Some e) \<Rightarrow> (s3, Inl e)
      | (s3, None) \<Rightarrow> (s3, Inr (u, tok)))))"

definition initialize_conclude ::
  "('db, 'rt, 'wa, 'fc) server \<Rightarrow> obs \<Rightarrow> initialize_req \<Rightarrow> 'db store \<Rightarrow> 'db store \<times> error option" where
  "initialize_conclude sv ob body s3 =
     (case GetCluster (sv_B sv) s3 of Inl e \<Rightarrow> (s3, Some e)
      | Inr cfg \<Rightarrow>
          (let cfg = cfg\<lparr>cc_MultiNode := in_MultiNode body\<rparr>;
               cfg = (if cc_ReplicationFactor cfg = 0 then cfg\<lparr>cc_ReplicationFactor := 1\<rparr> else cfg)
           in case PutCluster (sv_B sv) (ob_clk ob 7) cfg s3 of
                (_, s4, Some e) \<Rightarrow> (s4, Some e)
              | (_, s4, None) \<Rightarrow> ConsumeBootstrapToken (sv_B sv) (sv_H sv) (ob_clk ob 8) (in_BootstrapToken body) s4))"

definition initialize_store ::
  "('db, 'rt, 'wa, 'fc) server \<Rightarrow> obs \<Rightarrow> initialize_req \<Rightarrow> 'db store \<Rightarrow> 'db store \<times> (error + (user \<times> token))" where
  "initialize_store sv ob body s =
     (case initialize_prepare sv ob body s of
        (s3, Inl e) \<Rightarrow> (s3, Inl e)
      | (s3, Inr ut) \<Rightarrow>
          (case initialize_conclude sv ob body s3 of (s5, Some e) \<Rightarrow> (s5, Inl e) | (s5, None) \<Rightarrow> (s5, Inr ut)))"

definition handleInitialize :: "('db, 'rt, 'wa, 'fc) handler" where
  "handleInitialize sv ob r w =
     (case decodeJSON (ji_initialize (ob_json ob)) r of Inl e \<Rightarrow> (w, httpError 400 (errorString e))
      | Inr body \<Rightarrow>
          if in_AdminEmail body = [] \<or> in_AdminPassword body = [] \<or> in_AdminName body = []
          then (w, httpError 400 ''adminName, adminEmail and adminPassword are required'')
          else if VerifyBootstrapToken (sv_B sv) (sv_H sv) (in_BootstrapToken body) (wd_store w) \<noteq> None
          then (w, httpError 401 ''invalid bootstrap token'')
          else case initialize_store sv ob body (wd_store w) of
                 (s, Inl e) \<Rightarrow> (w\<lparr>wd_store := s\<rparr>, httpError 500 (errorString e))
               | (s, Inr (u, tok)) \<Rightarrow>
                   (w\<lparr>wd_store := s\<rparr>, writeJSON 201 (JObj [(''user'', JDoc (DUser u)), (''token'', JStr (t_Plaintext tok))])))"

definition handleLogin :: "('db, 'rt, 'wa, 'fc) handler" where
  "handleLogin sv ob r w =
     (case decodeJSON (ji_login (ob_json ob)) r of Inl e \<Rightarrow> (w, httpError 400 (errorString e))
      | Inr body \<Rightarrow>
          (case Login (sv_B sv) (sv_H sv) (sv_kdf sv) (ob_rnd ob 0) (ob_uid ob) (ob_clk ob)
                  (lg_Email body) (lg_Password body) (wd_store w) of
             (s, Inl e) \<Rightarrow> (w\<lparr>wd_store := s\<rparr>, httpError 401 ''invalid credentials'')
           | (s, Inr (tok, u)) \<Rightarrow>
               (w\<lparr>wd_store := s\<rparr>, writeJSON 200 (JObj [(''user'', JDoc (DUser u)), (''token'', JStr (t_Plaintext tok))]))))"

definition handleMe :: "('db, 'rt, 'wa, 'fc) handler" where
  "handleMe sv ob r w =
     (w, case IdentityFrom r of None \<Rightarrow> httpError 401 ''no identity''
         | Some i \<Rightarrow>
             (case GetUser (sv_B sv) (id_UserID i) (wd_store w) of
                Inl e \<Rightarrow> writeJSON 200 (JObj [(''identity'', JIdentity i)])
              | Inr u \<Rightarrow> writeJSON 200 (JObj [(''identity'', JIdentity i), (''user'', JDoc (DUser u))])))"

definition parse_ttl :: "obs \<Rightarrow> string \<Rightarrow> error + duration" where
  "parse_ttl ob ttl = (if ttl = [] then Inr 0 else ob_ParseDuration ob ttl)"

definition handleCreateToken :: "('db, 'rt, 'wa, 'fc) handler" where
  "handleCreateToken sv ob r w =
     (case IdentityFrom r of None \<Rightarrow> (w, httpError 401 ''no identity'')
      | Some i \<Rightarrow>
          (case decodeJSON (ji_createToken (ob_json ob)) r of Inl e \<Rightarrow> (w, httpError 400 (errorString e))
           | Inr body \<Rightarrow>
               if cr_Name body = [] then (w, httpError 400 ''name required'')
               else case parse_ttl ob (cr_TTL body) of Inl e \<Rightarrow> (w, httpError 400 ''invalid ttl'')
               | Inr ttl \<Rightarrow>
                   (case CreateToken (sv_B sv) (sv_H sv) (ob_rnd ob 0) (ob_uid ob 0) (ob_clk ob)
                           (cr_Name body) (id_UserID i) ttl (id_IsAdmin i) (wd_store w) of
                      (s, Inl e) \<Rightarrow> (w\<lparr>wd_store := s\<rparr>, mapStoreErr e)
                    | (s, Inr tok) \<Rightarrow> (w\<lparr>wd_store := s\<rparr>, writeJSON 201 (JDoc (DToken tok))))))"

definition handleListTokens :: "('db, 'rt, 'wa, 'fc) handler" where
  "handleListTokens sv ob r w = reply w (JDocs DToken) (ListTokens (sv_B sv) (wd_store w))"

definition handleDeleteToken :: "('db, 'rt, 'wa, 'fc) handler" where
  "handleDeleteToken sv ob r w = deleted w (DeleteToken (sv_B sv) (PathValue r ''name'') (wd_store w))"

section \<open>Projects\<close>

definition handleListProjects :: "('db, 'rt, 'wa, 'fc) handler" where
  "handleListProjects sv ob r w = reply w (JDocs DProject) (ListProjects (sv_B sv) (wd_store w))"

definition handlePutProject :: "('db, 'rt, 'wa, 'fc) handler" where
  "handlePutProject sv ob r w =
     (case decodeJSON (ji_project (ob_json ob)) r of Inl e \<Rightarrow> (w, httpError 400 (errorString e))
      | Inr p \<Rightarrow> stored w 200 (\<lambda>p. JDoc (DProject p))
          (PutProject (sv_B sv) (ob_uid ob 0) (ob_clk ob 0) (ob_clk ob 1) p (wd_store w)))"

definition handleGetProject :: "('db, 'rt, 'wa, 'fc) handler" where
  "handleGetProject sv ob r w =
     reply w (\<lambda>p. JDoc (DProject p)) (GetProject (sv_B sv) (PathValue r ''name'') (wd_store w))"

definition handleDeleteProject :: "('db, 'rt, 'wa, 'fc) handler" where
  "handleDeleteProject sv ob r w = deleted w (DeleteProject (sv_B sv) (PathValue r ''name'') (wd_store w))"

section \<open>Containers\<close>

definition handleListContainers :: "('db, 'rt, 'wa, 'fc) handler" where
  "handleListContainers sv ob r w =
     reply w (JDocs DContainer) (ListContainers (sv_B sv) (PathValue r ''project'') (wd_store w))"

definition place_container ::
  "('db, 'rt, 'wa, 'fc) server \<Rightarrow> container \<Rightarrow> 'db store \<Rightarrow> container" where
  "place_container sv c s =
     (case sv_scheduler sv of None \<Rightarrow> c
      | Some sc \<Rightarrow>
          if c_NodeID c \<noteq> [] then c
          else case Place (sv_B sv) sc c s of Inl e \<Rightarrow> c | Inr n \<Rightarrow> c\<lparr>c_NodeID := n\<rparr>)"

definition handlePutContainer :: "('db, 'rt, 'wa, 'fc) handler" where
  "handlePutContainer sv ob r w =
     (case decodeJSON (ji_container (ob_json ob)) r of Inl e \<Rightarrow> (w, httpError 400 (errorString e))
      | Inr c \<Rightarrow>
          (let c = c\<lparr>c_Meta := (c_Meta c)\<lparr>m_Project := PathValue r ''project''\<rparr>\<rparr>;
               c = place_container sv c (wd_store w)
           in stored w 201 (\<lambda>c. JDoc (DContainer c))
                (rs_PutContainer (sv_B sv) (ob_env ob) (ob_uid ob 0) (ob_clk ob 0) (ob_clk ob 1) c (wd_store w))))"

definition handleGetContainer :: "('db, 'rt, 'wa, 'fc) handler" where
  "handleGetContainer sv ob r w =
     reply w (\<lambda>c. JDoc (DContainer c))
       (GetContainer (sv_B sv) (PathValue r ''project'') (PathValue r ''name'') (wd_store w))"

definition handleDeleteContainer :: "('db, 'rt, 'wa, 'fc) handler" where
  "handleDeleteContainer sv ob r w =
     (case GetContainer (sv_B sv) (PathValue r ''project'') (PathValue r ''name'') (wd_store w) of
        Inl e \<Rightarrow> (w, mapStoreErr e)
      | Inr c \<Rightarrow>
          (let rt1 = fst (rt_Stop (sv_containers sv) c (wd_rt w));
               rt2 = fst (rt_Remove (sv_containers sv) c rt1)
           in deleted (w\<lparr>wd_rt := rt2\<rparr>) (rs_DeleteContainer (sv_B sv) (ob_env ob)
                (PathValue r ''project'') (PathValue r ''name'') (wd_store w))))"

definition handleStartContainer :: "('db, 'rt, 'wa, 'fc) handler" where
  "handleStartContainer sv ob r w =
     (case GetContainer (sv_B sv) (PathValue r ''project'') (PathValue r ''name'') (wd_store w) of
        Inl e \<Rightarrow> (w, mapStoreErr e)
      | Inr c \<Rightarrow>
          (case rt_Start (sv_containers sv) c (wd_rt w) of
             (rt, Inl e) \<Rightarrow> (w\<lparr>wd_rt := rt\<rparr>, httpError 500 (errorString e))
           | (rt, Inr st) \<Rightarrow>
               stored (w\<lparr>wd_rt := rt\<rparr>) 200 (\<lambda>c. JDoc (DContainer c))
                 (rs_PutContainer (sv_B sv) (ob_env ob) (ob_uid ob 0) (ob_clk ob 0) (ob_clk ob 1)
                    (c\<lparr>c_Status := st\<rparr>) (wd_store w))))"

definition stop_status :: "time \<Rightarrow> container \<Rightarrow> container" where
  "stop_status now c = c\<lparr>c_Status := (c_Status c)\<lparr>Phase := PhaseStopped, StatusUpdatedAt := now\<rparr>\<rparr>"

definition handleStopContainer :: "('db, 'rt, 'wa, 'fc) handler" where
  "handleStopContainer sv ob r w =
     (case GetContainer (sv_B sv) (PathValue r ''project'') (PathValue r ''name'') (wd_store w) of
        Inl e \<Rightarrow> (w, mapStoreErr e)
      | Inr c \<Rightarrow>
          (case rt_Stop (sv_containers sv) c (wd_rt w) of
             (rt, Some e) \<Rightarrow> (w\<lparr>wd_rt := rt\<rparr>, httpError 500 (errorString e))
           | (rt, None) \<Rightarrow>
               stored (w\<lparr>wd_rt := rt\<rparr>) 200 (\<lambda>c. JDoc (DContainer c))
                 (rs_PutContainer (sv_B sv) (ob_env ob) (ob_uid ob 0) (ob_clk ob 1) (ob_clk ob 2)
                    (stop_status (ob_clk ob 0) c) (wd_store w))))"

definition handleContainerLogs :: "('db, 'rt, 'wa, 'fc) handler" where
  "handleContainerLogs sv ob r w =
     (w, case GetContainer (sv_B sv) (PathValue r ''project'') (PathValue r ''name'') (wd_store w) of
           Inl e \<Rightarrow> mapStoreErr e
         | Inr c \<Rightarrow>
             (case rt_Logs (sv_containers sv) c (wd_rt w) of (out, err) \<Rightarrow>
                \<lparr>w_Status = 200, w_Header = [(''content-type'', ''text/plain; charset=utf-8'')],
                 w_Body = Text (out @ (case err of None \<Rightarrow> []
                   | Some e \<Rightarrow> CHR 0x0A # ''[error] '' @ errorString e @ [CHR 0x0A]))\<rparr>))"

end
