(* ===== verification/Api_Resources.thy ===== *)
theory Api_Resources
  imports Api
begin

text \<open>
  Handlers of \<^verbatim>\<open>internal/api\<close> for buckets, access keys, functions and their invocation
  (\<^verbatim>\<open>handlers.go\<close>, \<^verbatim>\<open>triggers.go\<close>, \<^verbatim>\<open>runtime.go\<close>).
\<close>

section \<open>Buckets and access keys\<close>

definition handleListBuckets :: "('db, 'rt, 'wa, 'fc) handler" where
  "handleListBuckets sv ob r w =
     reply w (JDocs DBucket) (ListBuckets (sv_B sv) (PathValue r ''project'') (wd_store w))"

definition handlePutBucket :: "('db, 'rt, 'wa, 'fc) handler" where
  "handlePutBucket sv ob r w =
     (case decodeJSON (ji_bucket (ob_json ob)) r of Inl e \<Rightarrow> (w, httpError 400 (errorString e))
      | Inr b \<Rightarrow>
          (let b = b\<lparr>b_Meta := (b_Meta b)\<lparr>m_Project := PathValue r ''project''\<rparr>\<rparr>;
               (sent, b) = (case sv_garageAdm sv of None \<Rightarrow> (wd_garage w, b)
                 | Some g \<Rightarrow>
                     (case garage_CreateBucket (ob_garage ob) g (m_Name (b_Meta b)) (wd_garage w) of
                        (sent, Inl e) \<Rightarrow> (sent, b) | (sent, Inr i) \<Rightarrow> (sent, b\<lparr>b_GarageID := i\<rparr>)));
               b = b\<lparr>b_Status := zero_status\<lparr>Phase := PhaseRunning, StatusUpdatedAt := ob_clk ob 0\<rparr>\<rparr>
           in stored (w\<lparr>wd_garage := sent\<rparr>) 201 (\<lambda>b. JDoc (DBucket b))
                (rs_PutBucket (sv_B sv) (ob_env ob) (ob_uid ob 0) (ob_clk ob 1) (ob_clk ob 2) b (wd_store w))))"

definition handleGetBucket :: "('db, 'rt, 'wa, 'fc) handler" where
  "handleGetBucket sv ob r w =
     reply w (\<lambda>b. JDoc (DBucket b))
       (GetBucket (sv_B sv) (PathValue r ''project'') (PathValue r ''name'') (wd_store w))"

definition handleDeleteBucket :: "('db, 'rt, 'wa, 'fc) handler" where
  "handleDeleteBucket sv ob r w =
     (case GetBucket (sv_B sv) (PathValue r ''project'') (PathValue r ''name'') (wd_store w) of
        Inl e \<Rightarrow> (w, mapStoreErr e)
      | Inr b \<Rightarrow>
          (let sent = (case sv_garageAdm sv of None \<Rightarrow> wd_garage w
                 | Some g \<Rightarrow> if b_GarageID b \<noteq> []
                            then fst (garage_DeleteBucket (ob_garage ob) g (b_GarageID b) (wd_garage w))
                            else wd_garage w)
           in deleted (w\<lparr>wd_garage := sent\<rparr>) (rs_DeleteBucket (sv_B sv) (ob_env ob)
                (m_Project (b_Meta b)) (m_Name (b_Meta b)) (wd_store w))))"

definition handleListAccessKeys :: "('db, 'rt, 'wa, 'fc) handler" where
  "handleListAccessKeys sv ob r w =
     reply w (JDocs DAccessKey) (ListAccessKeys (sv_B sv) (PathValue r ''project'') (wd_store w))"

text \<open>
  The key from Garage, with the permission granted on the bucket; or a key made up locally
  when there is no client. \<open>None\<close> is the panic of slicing an empty token.
\<close>

definition make_key ::
  "('db, 'rt, 'wa, 'fc) server \<Rightarrow> obs \<Rightarrow> string \<Rightarrow> create_access_key_req \<Rightarrow> access_key \<Rightarrow>
   ('db, 'rt, 'wa, 'fc) world \<Rightarrow> garage_request list \<times> access_key option" where
  "make_key sv ob project body a w =
     (case sv_garageAdm sv of
        Some g \<Rightarrow>
          (case garage_CreateKey (ob_garage ob) g (ck_Name body) (wd_garage w) of
             (sent, Inl e) \<Rightarrow> (sent, Some a)
           | (sent, Inr (i, sec)) \<Rightarrow>
               (let sent' = (if ck_Bucket body = [] then sent
                     else case GetBucket (sv_B sv) project (ck_Bucket body) (wd_store w) of
                            Inl e \<Rightarrow> sent
                          | Inr b \<Rightarrow>
                              if b_GarageID b = [] then sent
                              else fst (garage_AllowKey (ob_garage ob) g i (b_GarageID b)
                                     (ck_Permissions body \<noteq> [])
                                     (ck_Permissions body = ''write'' \<or> ck_Permissions body = ''owner'')
                                     (ck_Permissions body = ''owner'') sent))
                in (sent', Some (a\<lparr>a_AccessKeyID := i, a_SecretAccessKey := sec\<rparr>))))
      | None \<Rightarrow>
          (case GenerateToken (ob_rnd ob 0) of
             Inl e \<Rightarrow> (wd_garage w, None)
           | Inr raw \<Rightarrow>
               if length raw < 12 then (wd_garage w, None)
               else (wd_garage w, Some (a\<lparr>a_AccessKeyID := ''GK'' @ drop (length raw - 12) raw,
                                          a_SecretAccessKey := raw\<rparr>))))"

definition handleCreateAccessKey :: "('db, 'rt, 'wa, 'fc) handler" where
  "handleCreateAccessKey sv ob r w =
     (case decodeJSON (ji_accessKey (ob_json ob)) r of Inl e \<Rightarrow> (w, httpError 400 (errorString e))
      | Inr body \<Rightarrow>
          (let body = (if ck_Permissions body = [] then body\<lparr>ck_Permissions := ''read''\<rparr> else body);
               a = \<lparr>a_Meta = zero_meta\<lparr>m_Project := PathValue r ''project'', m_Name := ck_Name body\<rparr>,
                    a_BucketName = ck_Bucket body, a_AccessKeyID = [], a_SecretAccessKey = [],
                    a_Permissions = ck_Permissions body\<rparr>
           in case make_key sv ob (PathValue r ''project'') body a w of
                (sent, None) \<Rightarrow> (w\<lparr>wd_garage := sent\<rparr>, recovered)
              | (sent, Some a) \<Rightarrow>
                  stored (w\<lparr>wd_garage := sent\<rparr>) 201 (\<lambda>a. JDoc (DAccessKey a))
                    (rs_PutAccessKey (sv_B sv) (ob_env ob) (ob_uid ob 0) (ob_clk ob 0) (ob_clk ob 1) a (wd_store w))))"

definition handleGetAccessKey :: "('db, 'rt, 'wa, 'fc) handler" where
  "handleGetAccessKey sv ob r w =
     reply w (\<lambda>a. JDoc (DAccessKey (a\<lparr>a_SecretAccessKey := []\<rparr>)))
       (GetAccessKey (sv_B sv) (PathValue r ''project'') (PathValue r ''name'') (wd_store w))"

definition handleDeleteAccessKey :: "('db, 'rt, 'wa, 'fc) handler" where
  "handleDeleteAccessKey sv ob r w =
     (case GetAccessKey (sv_B sv) (PathValue r ''project'') (PathValue r ''name'') (wd_store w) of
        Inl e \<Rightarrow> (w, mapStoreErr e)
      | Inr a \<Rightarrow>
          (let sent = (case sv_garageAdm sv of None \<Rightarrow> wd_garage w
                 | Some g \<Rightarrow> if a_AccessKeyID a \<noteq> []
                            then fst (garage_DeleteKey (ob_garage ob) g (a_AccessKeyID a) (wd_garage w))
                            else wd_garage w)
           in deleted (w\<lparr>wd_garage := sent\<rparr>) (rs_DeleteAccessKey (sv_B sv) (ob_env ob)
                (m_Project (a_Meta a)) (m_Name (a_Meta a)) (wd_store w))))"

section \<open>Functions\<close>

definition handleListFunctions :: "('db, 'rt, 'wa, 'fc) handler" where
  "handleListFunctions sv ob r w =
     reply w (JDocs DFunction) (ListFunctions (sv_B sv) (PathValue r ''project'') (wd_store w))"

definition mintWebhookToken :: "error + bytes \<Rightarrow> error + string" where
  "mintWebhookToken rnd = map_sum id hexEncode rnd"

definition default_source :: "func \<Rightarrow> func" where
  "default_source f =
     (let f = (if f_Runtime f = [] then f\<lparr>f_Runtime := FunctionRuntimeWasm\<rparr> else f) in
      if src_Type (f_Source f) = []
      then f\<lparr>f_Source := (f_Source f)\<lparr>src_Type := (if src_Git (f_Source f) \<noteq> None then ''git'' else ''upload'')\<rparr>\<rparr>
      else f)"

definition set_webhook_token :: "string \<Rightarrow> func \<Rightarrow> func" where
  "set_webhook_token t f =
     f\<lparr>f_Source := (f_Source f)\<lparr>src_Git := map_option (\<lambda>g. g\<lparr>g_WebhookToken := t\<rparr>) (src_Git (f_Source f))\<rparr>\<rparr>"

definition lacks_token :: "func \<Rightarrow> bool" where
  "lacks_token f = (case src_Git (f_Source f) of None \<Rightarrow> False | Some g \<Rightarrow> g_WebhookToken g = [])"

definition keep_existing :: "func \<Rightarrow> func \<Rightarrow> func" where
  "keep_existing cur f =
     (let f = (if f_SourceRef f = [] then f\<lparr>f_SourceRef := f_SourceRef cur\<rparr> else f);
          f = (if f_LatestBuild f = [] then f\<lparr>f_LatestBuild := f_LatestBuild cur\<rparr> else f)
      in case src_Git (f_Source cur) of None \<Rightarrow> f
         | Some g \<Rightarrow> if lacks_token f then set_webhook_token (g_WebhookToken g) f else f)"

definition handlePutFunction :: "('db, 'rt, 'wa, 'fc) handler" where
  "handlePutFunction sv ob r w =
     (case decodeJSON (ji_function (ob_json ob)) r of Inl e \<Rightarrow> (w, httpError 400 (errorString e))
      | Inr f \<Rightarrow>
          (let f = default_source (f\<lparr>f_Meta := (f_Meta f)\<lparr>m_Project := PathValue r ''project''\<rparr>\<rparr>);
               wasNew = (m_UID (f_Meta f) = []);
               f = (if wasNew then f
                    else case GetFunction (sv_B sv) (m_Project (f_Meta f)) (m_Name (f_Meta f)) (wd_store w) of
                           Inl e \<Rightarrow> f | Inr cur \<Rightarrow> keep_existing cur f)
           in case (if lacks_token f
                    then map_sum id (\<lambda>t. set_webhook_token t f) (mintWebhookToken (ob_rnd ob 0))
                    else Inr f) of
                Inl e \<Rightarrow> (w, httpError 500 (errorString e))
              | Inr f \<Rightarrow>
                  (let f = (case sv_scheduler sv of None \<Rightarrow> f
                       | Some sc \<Rightarrow>
                           if NodeID (f_Status f) \<noteq> [] then f
                           else case PlaceFunction (sv_B sv) sc f (wd_store w) of
                                  Inl e \<Rightarrow> f | Inr n \<Rightarrow> f\<lparr>f_Status := (f_Status f)\<lparr>NodeID := n\<rparr>\<rparr>)
                   in case rs_PutFunction (sv_B sv) (ob_env ob) (ob_uid ob 0) (ob_clk ob 0) (ob_clk ob 1) f (wd_store w) of
                        (f, s, Some e) \<Rightarrow> (w\<lparr>wd_store := s\<rparr>, mapStoreErr e)
                      | (f, s, None) \<Rightarrow>
                          (w\<lparr>wd_store :=
                               (case sv_builder sv of None \<Rightarrow> s
                                | Some trigger \<Rightarrow>
                                    if wasNew \<and> src_Git (f_Source f) \<noteq> None
                                    then fst (trigger f ''create'' s) else s)\<rparr>,
                           writeJSON 201 (JDoc (DFunction f))))))"

definition handleGetFunction :: "('db, 'rt, 'wa, 'fc) handler" where
  "handleGetFunction sv ob r w =
     reply w (\<lambda>f. JDoc (DFunction f))
       (GetFunction (sv_B sv) (PathValue r ''project'') (PathValue r ''name'') (wd_store w))"

definition handleDeleteFunction :: "('db, 'rt, 'wa, 'fc) handler" where
  "handleDeleteFunction sv ob r w =
     (case GetFunction (sv_B sv) (PathValue r ''project'') (PathValue r ''name'') (wd_store w) of
        Inl e \<Rightarrow> (w, mapStoreErr e)
      | Inr f \<Rightarrow>
          (let wa = (case sv_wasm sv of None \<Rightarrow> wd_wasm w | Some rt \<Rightarrow> fst (fr_Remove rt f (wd_wasm w)));
               fc = (case sv_fcracker sv of None \<Rightarrow> wd_fc w | Some rt \<Rightarrow> fst (fr_Remove rt f (wd_fc w)))
           in deleted (w\<lparr>wd_wasm := wa, wd_fc := fc\<rparr>) (rs_DeleteFunction (sv_B sv) (ob_env ob)
                (m_Project (f_Meta f)) (m_Name (f_Meta f)) (wd_store w))))"

text \<open>The deployment to the function's runtime.\<close>

definition deploy ::
  "('db, 'rt, 'wa, 'fc) server \<Rightarrow> func \<Rightarrow> bytes \<Rightarrow> ('db, 'rt, 'wa, 'fc) world \<Rightarrow> ('db, 'rt, 'wa, 'fc) world \<times> error option" where
  "deploy sv f code w =
     (if f_Runtime f = FunctionRuntimeFirecracker
      then (case sv_fcracker sv of None \<Rightarrow> (w, None)
            | Some rt \<Rightarrow> (case fr_Deploy rt f code (wd_fc w) of (st, r) \<Rightarrow> (w\<lparr>wd_fc := st\<rparr>, r)))
      else (case sv_wasm sv of None \<Rightarrow> (w, None)
            | Some rt \<Rightarrow> (case fr_Deploy rt f code (wd_wasm w) of (st, r) \<Rightarrow> (w\<lparr>wd_wasm := st\<rparr>, r))))"

definition handleUploadFunctionCode :: "('db, 'rt, 'wa, 'fc) handler" where
  "handleUploadFunctionCode sv ob r w =
     (case GetFunction (sv_B sv) (PathValue r ''project'') (PathValue r ''name'') (wd_store w) of
        Inl e \<Rightarrow> (w, mapStoreErr e)
      | Inr f \<Rightarrow>
          (case read_all (2 ^ 26) r of
             (_, Some e) \<Rightarrow> (w, httpError 400 (errorString e))
           | (body, None) \<Rightarrow>
               (case wd_blobs w of None \<Rightarrow> (w, httpError 503 ''blob store not initialised'')
                | Some blobs \<Rightarrow>
                    (case blob_Put (sv_H sv) (ob_blobWrite ob) body blobs of
                       (bl, Inl e) \<Rightarrow> (w\<lparr>wd_blobs := Some bl\<rparr>, httpError 500 (errorString e))
                     | (bl, Inr i) \<Rightarrow>
                         (let f = f\<lparr>f_SourceRef := i\<rparr> in
                          case deploy sv f body (w\<lparr>wd_blobs := Some bl\<rparr>) of
                            (w', Some e) \<Rightarrow> (w', httpError 500 (errorString e))
                          | (w', None) \<Rightarrow>
                              stored w' 200 (\<lambda>f. JDoc (DFunction f))
                                (rs_PutFunction (sv_B sv) (ob_env ob) (ob_uid ob 0) (ob_clk ob 1) (ob_clk ob 2)
                                   (f\<lparr>f_Status := (f_Status f)\<lparr>Phase := PhaseRunning, StatusUpdatedAt := ob_clk ob 0\<rparr>\<rparr>)
                                   (wd_store w')))))))"

section \<open>Invocation\<close>

definition merge_env :: "strmap \<Rightarrow> strmap \<Rightarrow> strmap" where
  "merge_env resolved own =
     fold (\<lambda>(k, v). AList.update k v) own (fold (\<lambda>(k, v). AList.update k v) resolved [])"

definition mount_secret ::
  "('db, 'rt, 'wa, 'fc) server \<Rightarrow> bytes \<Rightarrow> string \<Rightarrow> 'db store \<Rightarrow> secret_mount \<Rightarrow> invoke_request \<Rightarrow> invoke_request" where
  "mount_secret sv key project s sm rq =
     (case Reveal (sv_B sv) (sv_gopen sv) key project (sm_Secret sm) s of Inl e \<Rightarrow> rq
      | Inr pt \<Rightarrow>
          (let rq = (if sm_EnvName sm \<noteq> [] then rq\<lparr>iq_Env := AList.update (sm_EnvName sm) pt (iq_Env rq)\<rparr> else rq)
           in if sm_MountPath sm \<noteq> []
              then rq\<lparr>iq_SecretFiles := AList.update (sm_MountPath sm) pt (iq_SecretFiles rq)\<rparr> else rq))"

definition project_secrets ::
  "('db, 'rt, 'wa, 'fc) server \<Rightarrow> func \<Rightarrow> 'db store \<Rightarrow> invoke_request \<Rightarrow> invoke_request" where
  "project_secrets sv f s rq =
     (case sv_secrets sv of None \<Rightarrow> rq
      | Some key \<Rightarrow>
          (let project = m_Project (f_Meta f);
               rq = (case Resolve (sv_B sv) (sv_gopen sv) key project (f_Env f) s of
                       Inl e \<Rightarrow> rq | Inr resolved \<Rightarrow> rq\<lparr>iq_Env := merge_env resolved (iq_Env rq)\<rparr>)
           in fold (mount_secret sv key project s) (f_SecretMounts f) rq))"

text \<open>\<^verbatim>\<open>invoke\<close>; the clock readings are those of the start, of \<^verbatim>\<open>time.Since\<close> and of \<^verbatim>\<open>Emit\<close>.\<close>

definition run_function ::
  "('db, 'rt, 'wa, 'fc) server \<Rightarrow> func \<Rightarrow> invoke_request \<Rightarrow> ('db, 'rt, 'wa, 'fc) world \<Rightarrow>
   ('db, 'rt, 'wa, 'fc) world \<times> (error + invoke_response)" where
  "run_function sv f rq w =
     (if f_Runtime f = FunctionRuntimeFirecracker
      then (case sv_fcracker sv of None \<Rightarrow> (w, Inl (Err ''firecracker runtime not available''))
            | Some rt \<Rightarrow> (case fr_Invoke rt f rq (wd_fc w) of (st, r) \<Rightarrow> (w\<lparr>wd_fc := st\<rparr>, r)))
      else (case sv_wasm sv of None \<Rightarrow> (w, Inl (Err ''wasm runtime not available''))
            | Some rt \<Rightarrow> (case fr_Invoke rt f rq (wd_wasm w) of (st, r) \<Rightarrow> (w\<lparr>wd_wasm := st\<rparr>, r))))"

definition invocation_event :: "func \<Rightarrow> invoke_request \<Rightarrow> duration \<Rightarrow> error + invoke_response \<Rightarrow> event_record" where
  "invocation_event f rq dur r =
     zero_event_record\<lparr>ev_Project := m_Project (f_Meta f), ev_Subject := m_Name (f_Meta f),
       ev_Type := (case r of Inl _ \<Rightarrow> ''function.error'' | Inr _ \<Rightarrow> ''function.invoked''),
       ev_Data := [(''function'', m_Name (f_Meta f)), (''runtime'', f_Runtime f), (''method'', iq_Method rq),
         (''path'', iq_Path rq), (''durMs'', Itoa (Milliseconds dur))] @
         (case r of Inl e \<Rightarrow> [(''error'', errorString e)] | Inr resp \<Rightarrow> [(''status'', Itoa (ir_Status resp))])\<rparr>"

definition server_invoke ::
  "('db, 'rt, 'wa, 'fc) server \<Rightarrow> (nat \<Rightarrow> time) \<Rightarrow> func \<Rightarrow> invoke_request \<Rightarrow> ('db, 'rt, 'wa, 'fc) world \<Rightarrow>
   ('db, 'rt, 'wa, 'fc) world \<times> (error + invoke_response)" where
  "server_invoke sv clk f rq w =
     (case run_function sv f (project_secrets sv f (wd_store w) rq) w of (w', r) \<Rightarrow>
        (bus_emit (clk 2) (invocation_event f rq (clk 1 - clk 0) r) w', r))"

definition invocation_entry ::
  "time \<Rightarrow> duration \<Rightarrow> invoke_request \<Rightarrow> error + invoke_response \<Rightarrow> invocation_record" where
  "invocation_entry start dur rq r =
     \<lparr>iv_At = start, iv_Method = iq_Method rq, iv_Path = iq_Path rq,
      iv_Status = (case r of Inl _ \<Rightarrow> 500 | Inr resp \<Rightarrow> ir_Status resp),
      iv_DurMS = Milliseconds dur, iv_BodyKB = int (length (iq_Body rq)) div 1024,
      iv_Error = (case r of Inl e \<Rightarrow> errorString e | Inr _ \<Rightarrow> []),
      iv_LogsTail = (case r of Inl _ \<Rightarrow> [] | Inr resp \<Rightarrow> if ir_Logs resp \<noteq> [] then tailString (ir_Logs resp) 256 else [])\<rparr>"

definition record_invocation ::
  "string \<Rightarrow> invocation_record \<Rightarrow> ('db, 'rt, 'wa, 'fc) world \<Rightarrow> ('db, 'rt, 'wa, 'fc) world" where
  "record_invocation key rec w = w\<lparr>wd_invocations := map_option (ring_record key rec) (wd_invocations w)\<rparr>"

definition invoke_req :: "request \<Rightarrow> string \<Rightarrow> func \<Rightarrow> invoke_request" where
  "invoke_req r path f =
     \<lparr>iq_Method = r_Method r, iq_Path = path, iq_Headers = map (\<lambda>(k, v). (k, [v])) (r_Header r),
      iq_Body = fst (read_all (2 ^ 23) r), iq_Env = f_Env f, iq_SecretFiles = []\<rparr>"

definition handleInvokeFunction :: "('db, 'rt, 'wa, 'fc) handler" where
  "handleInvokeFunction sv ob r w =
     (case GetFunction (sv_B sv) (PathValue r ''project'') (PathValue r ''name'') (wd_store w) of
        Inl e \<Rightarrow> (w, mapStoreErr e)
      | Inr f \<Rightarrow>
          (let sub = get0 (r_Query r) ''path''; rq = invoke_req r (if sub = [] then ''/'' else sub) f in
           case server_invoke sv (\<lambda>i. ob_clk ob (1 + i)) f rq w of (w', res) \<Rightarrow>
             (record_invocation (m_Project (f_Meta f) @ ''/'' @ m_Name (f_Meta f))
                (invocation_entry (ob_clk ob 0) (ob_clk ob 4 - ob_clk ob 0) rq res) w',
              case res of Inl e \<Rightarrow> httpError 500 (errorString e) | Inr resp \<Rightarrow> CopyResponse resp)))"

definition handleFunctionInvoke :: "('db, 'rt, 'wa, 'fc) handler" where
  "handleFunctionInvoke sv ob r w =
     (case SplitByte (TrimPrefix (r_Path r) ''/fn/'') CHR ''/'' of
        project # name # rest \<Rightarrow>
          (case GetFunction (sv_B sv) project name (wd_store w) of
             Inl e \<Rightarrow> (w, httpError 404 ''function not found'')
           | Inr f \<Rightarrow>
               if f_SourceRef f = []
               then (w, httpError 503 (''function has no code deployed; upload a .wasm via POST /api/v1/projects/'' @
                       project @ ''/functions/'' @ name @ ''/code''))
               else let rq = invoke_req r (if rest = [] then ''/'' else CHR ''/'' # Join rest ''/'') f in
                 case server_invoke sv (\<lambda>i. ob_clk ob (1 + i)) f rq w of (w', res) \<Rightarrow>
                   (record_invocation (project @ ''/'' @ name)
                      (invocation_entry (ob_clk ob 0) (ob_clk ob 4 - ob_clk ob 0) rq res) w',
                    case res of
                      Inl e \<Rightarrow> if e = ErrFunctionNotReady then httpError 503 ''function is deploying; try again in a moment''
                              else httpError 500 (errorString e)
                    | Inr resp \<Rightarrow> CopyResponse resp))
      | _ \<Rightarrow> (w, httpError 404 ''function not found''))"

definition handleListFunctionInvocations :: "('db, 'rt, 'wa, 'fc) handler" where
  "handleListFunctionInvocations sv ob r w =
     (w, case wd_invocations w of None \<Rightarrow> writeJSON 200 (JList [])
         | Some rg \<Rightarrow> writeJSON 200 (JList (map JInvocation
             (ring_list (PathValue r ''project'' @ ''/'' @ PathValue r ''name'') rg))))"

text \<open>The templates that ship with the program; \<open>stat p\<close> tells whether \<^verbatim>\<open>os.Stat\<close> succeeds on a path.\<close>

definition template_Refresh :: "(string \<Rightarrow> bool) \<Rightarrow> fc_template \<Rightarrow> fc_template" where
  "template_Refresh stat t = t\<lparr>tp_Available := stat (tp_KernelPath t) \<and> stat (tp_RootFSPath t)\<rparr>"

definition DefaultTemplates :: "(string \<Rightarrow> bool) \<Rightarrow> string \<Rightarrow> fc_template list" where
  "DefaultTemplates stat baseDir =
     map (template_Refresh stat)
       (map (\<lambda>(name, description, rootfs, bootstrap).
          \<lparr>tp_Name = name, tp_Description = description, tp_KernelPath = baseDir @ ''/kernel/vmlinux'',
           tp_RootFSPath = baseDir @ rootfs,
           tp_BootArgs = ''console=ttyS0 reboot=k panic=1 pci=off init=/sbin/init'',
           tp_Bootstrap = bootstrap, tp_Available = False\<rparr>)
        [(''node-22'', ''Node.js 22 on Alpine'', ''/rootfs/node-22.ext4'',
            ''make firecracker-templates  # builds node-22 from node:22-alpine''),
         (''python-3.12'', ''Python 3.12 on Alpine'', ''/rootfs/python-3.12.ext4'',
            ''make firecracker-templates  # builds python-3.12 from python:3.12-alpine''),
         (''go-1.23'', ''Go 1.23 statically linked on Alpine'', ''/rootfs/go-1.23.ext4'',
            ''make firecracker-templates  # builds go-1.23 from golang:1.23-alpine'')])"

definition template_json :: "fc_template \<Rightarrow> json" where
  "template_json t =
     JObj [(''name'', JStr (tp_Name t)), (''description'', JStr (tp_Description t)),
       (''kernelPath'', JStr (tp_KernelPath t)), (''rootfsPath'', JStr (tp_RootFSPath t)),
       (''bootArgs'', JStr (tp_BootArgs t)), (''bootstrap'', JStr (tp_Bootstrap t)),
       (''available'', JBool (tp_Available t))]"

definition handleListFirecrackerTemplates :: "('db, 'rt, 'wa, 'fc) handler" where
  "handleListFirecrackerTemplates sv ob r w =
     (w, case sv_fcracker sv of None \<Rightarrow> writeJSON 200 (JList [])
         | Some _ \<Rightarrow>
             (case sv_templates sv of None \<Rightarrow> writeJSON 200 (JList [])
              | Some ts \<Rightarrow> writeJSON 200 (JList (map template_json (sort_key tp_Name ts)))))"

end
