(* ===== verification/Paths.thy ===== *)
theory Paths
  imports Prelude
begin

text \<open>
  \<^verbatim>\<open>path/filepath\<close> of Go's standard library on Unix, as far as the program uses it: \<^verbatim>\<open>Clean\<close>,
  \<^verbatim>\<open>Join\<close> and \<^verbatim>\<open>Dir\<close> (\<^verbatim>\<open>Base\<close> is in \<open>Prelude\<close>), and what cleaning guarantees: the elements of
  a cleaned path, and that joining a path without parent references stays below the directory.
\<close>

section \<open>Definitions\<close>

definition rooted :: "string \<Rightarrow> bool" where
  "rooted p = HasPrefix p ''/''"

text \<open>The elements kept so far are \<open>acc\<close>, the last one first.\<close>

fun clean_segs :: "bool \<Rightarrow> string list \<Rightarrow> string list \<Rightarrow> string list" where
  "clean_segs r acc [] = rev acc"
| "clean_segs r acc (s # ss) =
     (if s = [] \<or> s = ''.'' then clean_segs r acc ss
      else if s = ''..'' then
        (case acc of [] \<Rightarrow> clean_segs r (if r then [] else [''..'']) ss
         | a # as \<Rightarrow> if a = ''..'' then clean_segs r (''..'' # acc) ss else clean_segs r as ss)
      else clean_segs r (s # acc) ss)"

definition path_elems :: "string \<Rightarrow> string list" where
  "path_elems p = clean_segs (rooted p) [] (SplitByte p CHR ''/'')"

definition Clean :: "string \<Rightarrow> string" where
  "Clean p =
     (if p = [] then ''.''
      else if rooted p then ''/'' @ Join (path_elems p) ''/''
      else if path_elems p = [] then ''.'' else Join (path_elems p) ''/'')"

definition FPJoin :: "string list \<Rightarrow> string" where
  "FPJoin es = (case dropWhile (\<lambda>e. e = []) es of [] \<Rightarrow> [] | e # rest \<Rightarrow> Clean (Join (e # rest) ''/''))"

definition Dir :: "string \<Rightarrow> string" where
  "Dir p = Clean (rev (dropWhile (\<lambda>c. c \<noteq> CHR ''/'') (rev p)))"

section \<open>Elements\<close>

definition plain_elem :: "string \<Rightarrow> bool" where
  "plain_elem e \<longleftrightarrow> e \<noteq> [] \<and> e \<noteq> ''.'' \<and> e \<noteq> ''..'' \<and> CHR ''/'' \<notin> set e"

lemma clean_segs_append: "clean_segs r acc (xs @ ys) = clean_segs r (rev (clean_segs r acc xs)) ys"
  by (induction r acc xs rule: clean_segs.induct) (auto split: list.split)

lemma clean_segs_plain: "list_all plain_elem es \<Longrightarrow> clean_segs r acc es = rev acc @ es"
  by (induction es arbitrary: acc) (auto simp: plain_elem_def)

lemma SplitByte_append_sep: "SplitByte (a @ c # b) c = SplitByte a c @ SplitByte b c"
  by (induction a) (auto split: list.splits)

lemma SplitByte_elem_no_sep: "e \<in> set (SplitByte s c) \<Longrightarrow> c \<notin> set e"
  by (induction s arbitrary: e) (auto split: list.splits if_splits)

lemma SplitByte_Join:
  "es \<noteq> [] \<Longrightarrow> list_all (\<lambda>e. c \<notin> set e) es \<Longrightarrow> SplitByte (Join es [c]) c = es"
  by (induction es "[c]" rule: Join.induct) (auto simp: SplitByte_no_sep SplitByte_append)

text \<open>A cleaned element list: parent references, if any, come first; never in a rooted path.\<close>

definition cleaned :: "bool \<Rightarrow> string list \<Rightarrow> bool" where
  "cleaned r es \<longleftrightarrow> (\<exists>n ps. es = replicate n ''..'' @ ps \<and> list_all plain_elem ps \<and> (r \<longrightarrow> n = 0))"

lemma cleaned_snoc: "cleaned r es \<Longrightarrow> plain_elem e \<Longrightarrow> cleaned r (es @ [e])"
proof -
  assume "cleaned r es" "plain_elem e"
  then obtain n ps where "es = replicate n ''..'' @ ps" "list_all plain_elem (ps @ [e])" "r \<longrightarrow> n = 0"
    by (auto simp: cleaned_def)
  then show ?thesis unfolding cleaned_def by (intro exI [of _ n] exI [of _ "ps @ [e]"]) simp
qed

lemma cleaned_butlast:
  assumes "cleaned r (es @ [e])" "e \<noteq> ''..''"
  shows "cleaned r es"
proof -
  obtain n ps where *: "es @ [e] = replicate n ''..'' @ ps" "list_all plain_elem ps" "r \<longrightarrow> n = 0"
    using assms(1) by (auto simp: cleaned_def)
  then have "ps \<noteq> []" using assms(2) by (metis append_Nil2 last_replicate last_snoc append_is_Nil_conv not_Cons_self2 replicate_empty)
  then have "es = replicate n ''..'' @ butlast ps" "list_all plain_elem (butlast ps)"
    using *(1,2) by (metis butlast_append butlast_snoc, metis in_set_butlastD list_all_iff)
  then show ?thesis using *(3) by (auto simp: cleaned_def)
qed

lemma cleaned_dots: "cleaned False (es @ [''..'']) \<Longrightarrow> cleaned False (es @ [''..''] @ [''..''])"
proof -
  assume "cleaned False (es @ [''..''])"
  then obtain n ps where *: "es @ [''..''] = replicate n ''..'' @ ps" "list_all plain_elem ps"
    by (auto simp: cleaned_def)
  have "ps = []" using * by (cases ps rule: rev_cases) (auto simp: plain_elem_def)
  then have "es @ [''..''] @ [''..''] = replicate (Suc n) ''..'' @ []"
    using *(1) by (simp flip: replicate_append_same)
  then show ?thesis unfolding cleaned_def by (intro exI [of _ "Suc n"] exI [of _ "[]"]) simp
qed

lemma cleaned_rooted_no_dots: "cleaned True (es @ [''..'']) \<Longrightarrow> False"
  by (auto simp: cleaned_def list_all_iff plain_elem_def)

lemma cleaned_clean_segs:
  "cleaned r (rev acc) \<Longrightarrow> list_all (\<lambda>s. CHR ''/'' \<notin> set s) ss \<Longrightarrow> cleaned r (clean_segs r acc ss)"
proof (induction r acc ss rule: clean_segs.induct)
  case (2 r acc s ss)
  consider "s = [] \<or> s = ''.''" | "s = ''..''" | "plain_elem s"
    using "2.prems"(2) by (auto simp: plain_elem_def)
  then show ?case
  proof cases
    case 1
    then show ?thesis using 2 by auto
  next
    case 2
    then show ?thesis
    proof (cases acc)
      case Nil
      have "cleaned False [''..'']" unfolding cleaned_def by (rule exI [of _ 1]) simp
      then show ?thesis using "2.IH" "2.prems" 2 Nil by (cases r) (auto simp: cleaned_def)
    next
      case (Cons a as)
      show ?thesis
      proof (cases "a = ''..''")
        case True
        then have "\<not> r" using "2.prems"(1) Cons cleaned_rooted_no_dots by (cases r) auto
        then show ?thesis using "2.IH" "2.prems" 2 Cons True cleaned_dots [of "rev as"] by auto
      next
        case False
        then show ?thesis using "2.IH" "2.prems" 2 Cons cleaned_butlast by auto
      qed
    qed
  next
    case 3
    then show ?thesis using "2.IH"(5) "2.prems" cleaned_snoc by (auto simp: plain_elem_def)
  qed
qed simp

lemma cleaned_path_elems: "cleaned (rooted p) (path_elems p)"
  unfolding path_elems_def
  by (rule cleaned_clean_segs) (auto simp: cleaned_def list_all_iff dest: SplitByte_elem_no_sep)

section \<open>Joining below a directory\<close>

lemma cleaned_plain: "cleaned r es \<Longrightarrow> es = [] \<or> hd es \<noteq> ''..'' \<Longrightarrow> list_all plain_elem es"
  unfolding cleaned_def by (metis append_Cons append_self_conv2 hd_append list.sel(1) list.distinct(1) replicate_0 replicate_Suc not0_implies_Suc)

lemma Join_head: "es \<noteq> [] \<Longrightarrow> \<exists>t. Join es sep = hd es @ t"
  by (induction es sep rule: Join.induct) auto

lemma Join_Nil: "list_all plain_elem es \<Longrightarrow> es \<noteq> [] \<Longrightarrow> Join es sep \<noteq> []"
  by (induction es sep rule: Join.induct) (auto simp: plain_elem_def)

text \<open>What the guard of a tar extraction establishes for the name of an entry.\<close>

lemma Clean_below:
  assumes "\<not> HasPrefix (Clean n) ''..''" "\<not> HasPrefix (Clean n) ''/''"
  shows "\<exists>es. list_all plain_elem es \<and> Clean n = (if es = [] then ''.'' else Join es ''/'')"
proof (cases "n = []")
  case True
  then show ?thesis by (intro exI [of _ "[]"]) (simp add: Clean_def)
next
  case False
  have r: "\<not> rooted n" using assms(2) False by (auto simp: Clean_def HasPrefix_def)
  then have c: "Clean n = (if path_elems n = [] then ''.'' else Join (path_elems n) ''/'')"
    using False by (simp add: Clean_def)
  have "path_elems n = [] \<or> hd (path_elems n) \<noteq> ''..''"
    using assms(1) c Join_head [of "path_elems n" "''/''"] by (auto simp: HasPrefix_def)
  then have "list_all plain_elem (path_elems n)" using cleaned_path_elems cleaned_plain by blast
  then show ?thesis using c by blast
qed

lemma path_elems_below:
  assumes "d \<noteq> []" "list_all plain_elem es"
  shows "path_elems (d @ ''/'' @ (if es = [] then ''.'' else Join es ''/'')) = path_elems d @ es"
proof -
  have r: "rooted (d @ x) = rooted d" for x using assms(1) by (cases d) (auto simp: rooted_def HasPrefix_def)
  have s: "SplitByte (if es = [] then ''.'' else Join es ''/'') CHR ''/'' = (if es = [] then [''.''] else es)"
    using assms(2) SplitByte_Join [of es "CHR ''/''"] by (auto simp: plain_elem_def list_all_iff)
  have "path_elems (d @ ''/'' @ (if es = [] then ''.'' else Join es ''/'')) =
      clean_segs (rooted d) (rev (path_elems d)) (if es = [] then [''.''] else es)"
    using s by (simp add: path_elems_def r SplitByte_append_sep clean_segs_append)
  also have "\<dots> = path_elems d @ es" using assms(2) by (auto simp: clean_segs_plain)
  finally show ?thesis .
qed

lemma rooted_Clean [simp]: "rooted (Clean p) = rooted p"
proof (cases "rooted p")
  case False
  have "\<not> rooted (Join es ''/'')" if "cleaned False es" "es \<noteq> []" for es
  proof -
    have "hd es \<noteq> [] \<and> CHR ''/'' \<notin> set (hd es)"
      using that by (cases es) (auto simp: cleaned_def Cons_eq_append_conv Cons_replicate_eq plain_elem_def)
    then show ?thesis using Join_head [OF that(2), of "''/''"] by (cases "hd es") (auto simp: rooted_def HasPrefix_def)
  qed
  then show ?thesis using False cleaned_path_elems [of p] by (auto simp: Clean_def rooted_def HasPrefix_def)
qed (auto simp: Clean_def rooted_def HasPrefix_def)

lemma cleaned_fixed: "cleaned r es \<Longrightarrow> clean_segs r [] es = es"
proof -
  have d: "clean_segs False (replicate m ''..'') (replicate n ''..'' @ ps) = replicate m ''..'' @ replicate n ''..'' @ ps"
    if "list_all plain_elem ps" for m n ps
  proof (induction n arbitrary: m)
    case 0
    then show ?case using that by (simp add: clean_segs_plain)
  next
    case (Suc n)
    then show ?case using Suc [of "Suc m"] by (cases m) (auto simp: replicate_app_Cons_same)
  qed
  assume "cleaned r es"
  then show ?thesis using d [of _ 0] by (cases r) (auto simp: cleaned_def clean_segs_plain)
qed

lemma path_elems_Clean [simp]: "path_elems (Clean p) = path_elems p"
proof -
  have c: "cleaned (rooted p) (path_elems p)" by (rule cleaned_path_elems)
  obtain n ps where "path_elems p = replicate n ''..'' @ ps" "list_all plain_elem ps" using c by (auto simp: cleaned_def)
  then have ns: "list_all (\<lambda>e. CHR ''/'' \<notin> set e) (path_elems p)"
    by (auto simp: list_all_iff plain_elem_def set_replicate_conv_if split: if_splits)
  have s: "SplitByte (Join (path_elems p) ''/'') CHR ''/'' = path_elems p" if "path_elems p \<noteq> []"
    using SplitByte_Join [OF that ns] .
  have "clean_segs (rooted p) [] (SplitByte (Clean p) CHR ''/'') = path_elems p"
  proof (cases "path_elems p = []")
    case True
    then show ?thesis by (cases "p = []") (auto simp: Clean_def rooted_def HasPrefix_def)
  next
    case False
    moreover from this have "p \<noteq> []" by (auto simp: path_elems_def)
    ultimately show ?thesis using s [OF False] cleaned_fixed [OF c] by (cases "rooted p") (simp_all add: Clean_def)
  qed
  then show ?thesis by (simp add: path_elems_def [of "Clean p"])
qed

text \<open>Cleaning is idempotent, and joining a name that passed the guard stays below the directory.\<close>

lemma Clean_not_Nil [simp]: "Clean p \<noteq> []"
proof (cases "rooted p \<or> path_elems p = []")
  case False
  then have "hd (path_elems p) \<noteq> []" using cleaned_path_elems [of p]
    by (cases "path_elems p") (auto simp: cleaned_def Cons_eq_append_conv Cons_replicate_eq plain_elem_def)
  then show ?thesis using False Join_head [of "path_elems p" "''/''"] by (auto simp: Clean_def)
qed (auto simp: Clean_def)

lemma Clean_idem: "Clean (Clean p) = Clean p"
proof -
  have "Clean (Clean p) = (if rooted p then ''/'' @ Join (path_elems p) ''/''
      else if path_elems p = [] then ''.'' else Join (path_elems p) ''/'')" by (simp add: Clean_def [of "Clean p"])
  then show ?thesis by (auto simp: Clean_def [of p] rooted_def HasPrefix_def path_elems_def)
qed

lemma FPJoin_below:
  assumes "d \<noteq> []" "\<not> HasPrefix (Clean n) ''..''" "\<not> HasPrefix (Clean n) ''/''"
  shows "\<exists>es. list_all plain_elem es \<and> path_elems (FPJoin [d, Clean n]) = path_elems d @ es \<and>
    rooted (FPJoin [d, Clean n]) = rooted d"
proof -
  obtain es where es: "list_all plain_elem es" "Clean n = (if es = [] then ''.'' else Join es ''/'')"
    using Clean_below [OF assms(2,3)] by blast
  have j: "FPJoin [d, Clean n] = Clean (d @ ''/'' @ Clean n)" using assms(1) by (simp add: FPJoin_def)
  have "path_elems (d @ ''/'' @ Clean n) = path_elems d @ es"
    unfolding es(2) by (rule path_elems_below [OF assms(1) es(1)])
  then have "path_elems (FPJoin [d, Clean n]) = path_elems d @ es" unfolding j path_elems_Clean .
  moreover have "rooted (d @ x) = rooted d" for x using assms(1) by (cases d) (auto simp: rooted_def HasPrefix_def)
  ultimately show ?thesis using es(1) j by auto
qed

lemma FPJoin_not_Nil [simp]: "FPJoin es = [] \<longleftrightarrow> list_all (\<lambda>e. e = []) es"
  by (auto simp: FPJoin_def list_all_iff split: list.split dest: dropWhile_eq_Nil_conv [THEN iffD1] dest!: set_dropWhileD)
    (metis (mono_tags, lifting) dropWhile_eq_Nil_conv list.distinct(1))

lemma path_elems_FPJoin:
  assumes "d \<noteq> []" "plain_elem e"
  shows "path_elems (FPJoin [d, e]) = path_elems d @ [e]" "rooted (FPJoin [d, e]) = rooted d"
proof -
  have "path_elems (d @ ''/'' @ e) = path_elems d @ [e]" using path_elems_below [OF assms(1), of "[e]"] assms(2) by simp
  then show "path_elems (FPJoin [d, e]) = path_elems d @ [e]" using assms(1) by (simp add: FPJoin_def)
  have "rooted (d @ x) = rooted d" for x using assms(1) by (cases d) (auto simp: rooted_def HasPrefix_def)
  then show "rooted (FPJoin [d, e]) = rooted d" using assms(1) by (simp add: FPJoin_def)
qed

lemma FPJoin_last:
  "FPJoin [d, e] = FPJoin [d', e'] \<Longrightarrow> d \<noteq> [] \<Longrightarrow> d' \<noteq> [] \<Longrightarrow> plain_elem e \<Longrightarrow> plain_elem e' \<Longrightarrow> e = e'"
  using path_elems_FPJoin(1) [of d e] path_elems_FPJoin(1) [of d' e'] by simp

section \<open>Parent directories\<close>

definition render :: "bool \<Rightarrow> string list \<Rightarrow> string" where
  "render r es = (if r then ''/'' else []) @ Join es ''/''"

lemma Clean_render: "p \<noteq> [] \<Longrightarrow> rooted p \<or> path_elems p \<noteq> [] \<Longrightarrow> Clean p = render (rooted p) (path_elems p)"
  by (auto simp: Clean_def render_def)

lemma path_elems_render: "cleaned r es \<Longrightarrow> path_elems (render r es) = es \<and> (es \<noteq> [] \<or> r \<longrightarrow> rooted (render r es) = r)"
proof -
  assume c: "cleaned r es"
  then obtain n ps where nps: "es = replicate n ''..'' @ ps" "list_all plain_elem ps" by (auto simp: cleaned_def)
  then have ns: "list_all (\<lambda>e. CHR ''/'' \<notin> set e) es"
    by (auto simp: list_all_iff plain_elem_def set_replicate_conv_if split: if_splits)
  have "hd es \<noteq> [] \<and> CHR ''/'' \<notin> set (hd es)" if "es \<noteq> []"
    using nps that by (cases es) (auto simp: Cons_eq_append_conv Cons_replicate_eq plain_elem_def)
  then have ro: "rooted (render r es) = r" if "es \<noteq> [] \<or> r"
    using that Join_head [of es "''/''"] by (cases "hd es") (auto simp: render_def rooted_def HasPrefix_def)
  show ?thesis
  proof (cases "es = []")
    case True
    then show ?thesis using ro by (auto simp: path_elems_def render_def)
  next
    case False
    then have "SplitByte (Join es ''/'') CHR ''/'' = es" using SplitByte_Join ns by blast
    then have "clean_segs r [] (SplitByte (render r es) CHR ''/'') = es"
      using cleaned_fixed [OF c] by (cases r) (simp_all add: render_def)
    then show ?thesis using ro False by (simp add: path_elems_def)
  qed
qed

lemma cleaned_no_slash: "cleaned r es \<Longrightarrow> e \<in> set es \<Longrightarrow> CHR ''/'' \<notin> set e"
proof -
  assume "cleaned r es" "e \<in> set es"
  then obtain n ps where "es = replicate n ''..'' @ ps" "list_all plain_elem ps" by (auto simp: cleaned_def)
  with \<open>e \<in> set es\<close> have "e = ''..'' \<or> plain_elem e" unfolding list_all_iff by (auto simp: in_set_replicate)
  then show ?thesis by (auto simp: plain_elem_def)
qed

lemma Join_snoc: "xs \<noteq> [] \<Longrightarrow> Join (xs @ [b]) sep = Join xs sep @ sep @ b"
  by (induction xs sep rule: Join.induct) auto

lemma cleaned_front: "cleaned r (xs @ [b]) \<Longrightarrow> cleaned r xs"
proof (cases "b = ''..''")
  case True
  assume "cleaned r (xs @ [b])"
  then obtain n ps where *: "xs @ [b] = replicate n ''..'' @ ps" "list_all plain_elem ps" "r \<longrightarrow> n = 0" by (auto simp: cleaned_def)
  have "ps = []" using * True by (cases ps rule: rev_cases) (auto simp: plain_elem_def)
  then have "xs = replicate (n - 1) ''..''" using *(1) by (cases n) (auto simp flip: replicate_append_same)
  then show ?thesis unfolding cleaned_def using *(3) by (intro exI [of _ "n - 1"] exI [of _ "[]"]) simp
qed (rule cleaned_butlast)

lemma Dir_Clean:
  assumes "path_elems p = xs @ [b]" "p \<noteq> []"
  shows "path_elems (Dir (Clean p)) = xs \<and> rooted (Dir (Clean p)) = rooted p"
proof -
  let ?r = "rooted p"
  have c: "cleaned ?r (xs @ [b])" using cleaned_path_elems [of p] assms(1) by simp
  then have b: "CHR ''/'' \<notin> set b" by (rule cleaned_no_slash) simp
  have P: "Clean p = render ?r (xs @ [b])" using Clean_render [of p] assms by simp
  have up: "rev (dropWhile (\<lambda>c. c \<noteq> CHR ''/'') (rev (a @ ''/'' @ b))) = a @ ''/''"
    "rev (dropWhile (\<lambda>c. c \<noteq> CHR ''/'') (rev b)) = []" for a
    using b by (subst rev_append, simp, subst dropWhile_append2, auto simp: dropWhile_eq_Nil_conv)
  show ?thesis
  proof (cases "xs = []")
    case True
    have d: "Dir (Clean p) = Clean (if ?r then ''/'' else [])"
    proof (cases ?r)
      case False
      then have "Clean p = b" using P True by (simp add: render_def)
      then show ?thesis using False unfolding Dir_def by (simp only: up(2) if_False)
    next
      case r: True
      then have "Clean p = [] @ ''/'' @ b" using P True by (simp add: render_def)
      then show ?thesis using r unfolding Dir_def using up(1) [of "[]"] by (simp only: if_True append_Nil)
    qed
    have "path_elems ''/'' = []" "path_elems [] = []" "rooted ''/''" "\<not> rooted []"
      by (simp_all add: path_elems_def rooted_def HasPrefix_def)
    then show ?thesis using True unfolding d by (cases ?r) simp_all
  next
    case False
    let ?q = "render ?r xs"
    have q: "path_elems ?q = xs" "rooted ?q = ?r" using path_elems_render [OF cleaned_front [OF c]] False by simp_all
    then have "?q \<noteq> []" using False by (auto simp: path_elems_def)
    then have "rooted (?q @ ''/'') = ?r" using q(2) by (cases ?q) (auto simp: rooted_def HasPrefix_def)
    then have "path_elems (?q @ ''/'') = xs"
      using q by (simp add: path_elems_def SplitByte_append_sep [of _ _ "[]", simplified] clean_segs_append)
    moreover have "Dir (Clean p) = Clean (?q @ ''/'')"
      using up(1) [of ?q] False unfolding P Dir_def by (simp add: render_def Join_snoc)
    ultimately show ?thesis using \<open>rooted (?q @ ''/'') = ?r\<close> by simp
  qed
qed

end
