(* ===== verification/Polling.thy ===== *)
theory Polling
  imports Prelude
begin

text \<open>
  Polling loops. The program waits for sockets, files and servers in loops of the form ``look,
  give up after a deadline, sleep''; each loop is \<open>poll\<close> over its own step, which says what
  iteration \<open>i\<close> returns, or \<open>None\<close> to go round again. \<open>poll\<close> itself is \<open>None\<close> when the loop
  never returns, so that returning is something to prove.
\<close>

partial_function (option) poll :: "(nat \<Rightarrow> 'r option) \<Rightarrow> nat \<Rightarrow> 'r option" where
  "poll step i = (case step i of Some r \<Rightarrow> Some r | None \<Rightarrow> poll step (i + 1))"

declare poll.simps [code]

lemma poll_stop: "step i = Some r \<Longrightarrow> poll step i = Some r"
  by (subst poll.simps) simp

lemma poll_next: "step i = None \<Longrightarrow> poll step i = poll step (i + 1)"
  by (subst poll.simps) simp

text \<open>A loop whose step eventually returns returns what the first such step returns.\<close>

lemma poll_first:
  assumes "step n = Some r" "i \<le> n" "\<And>j. i \<le> j \<Longrightarrow> j < n \<Longrightarrow> step j = None"
  shows "poll step i = Some r"
  using assms
proof (induction "n - i" arbitrary: i)
  case 0
  then show ?case by (simp add: poll_stop)
next
  case (Suc k)
  then have "step i = None" "i < n" by simp_all
  then show ?case using Suc poll_next [of step i] by simp
qed

lemma poll_returns:
  assumes "step n \<noteq> None" "i \<le> n"
  obtains m r where "poll step i = Some r" "i \<le> m" "m \<le> n" "step m = Some r" "\<And>j. i \<le> j \<Longrightarrow> j < m \<Longrightarrow> step j = None"
proof -
  define m where "m = (LEAST m. i \<le> m \<and> step m \<noteq> None)"
  have m: "i \<le> m \<and> step m \<noteq> None" unfolding m_def using assms by (metis (mono_tags, lifting) LeastI)
  have le: "m \<le> n" unfolding m_def using assms by (intro Least_le) simp
  have f: "step j = None" if "i \<le> j" "j < m" for j
    using that not_less_Least [of j "\<lambda>m. i \<le> m \<and> step m \<noteq> None"] unfolding m_def by auto
  obtain r where r: "step m = Some r" using m by auto
  have "poll step i = Some r" using r m f by (intro poll_first [of step m]) auto
  then show thesis using m [THEN conjunct1] le r f by (intro that)
qed

text \<open>Once some step is known to return, what the loop returns is decided by the first one.\<close>

lemma poll_iff:
  assumes "step n \<noteq> None"
  shows "\<exists>r. poll step 0 = Some r" "poll step 0 = Some r \<longleftrightarrow> (\<exists>m. step m = Some r \<and> (\<forall>j < m. step j = None))"
proof -
  obtain m r' where m: "poll step 0 = Some r'" "step m = Some r'" "\<And>j. j < m \<Longrightarrow> step j = None"
    using poll_returns [of step n 0] assms by (metis le0)
  then show "\<exists>r. poll step 0 = Some r" by simp
  show "poll step 0 = Some r \<longleftrightarrow> (\<exists>m. step m = Some r \<and> (\<forall>j < m. step j = None))"
    using m by (metis poll_first le0)
qed

text \<open>A clock that advances by at least \<open>d\<close> per iteration passes every deadline.\<close>

lemma clock_passes:
  fixes clk :: "nat \<Rightarrow> int"
  assumes "\<And>i. clk i + d \<le> clk (i + 1)"
  shows "clk 0 + int n * d \<le> clk n"
proof (induction n)
  case (Suc n)
  then show ?case using assms [of n] by (simp add: algebra_simps)
qed simp

lemma clock_deadline:
  fixes clk :: "nat \<Rightarrow> int"
  assumes "\<And>i. clk i + d \<le> clk (i + 1)" "0 < d" "0 \<le> span"
  shows "clk 0 + span < clk (nat (span div d) + 1)"
proof -
  have "span < (span div d + 1) * d"
    using assms(2) by (metis add.commute distrib_right mult.commute mult_1 pos_mod_bound add_strict_left_mono mult_div_mod_eq)
  moreover have "int (nat (span div d) + 1) = span div d + 1" using assms by (simp add: pos_imp_zdiv_nonneg_iff)
  ultimately show ?thesis using clock_passes [of clk d, OF assms(1), of "nat (span div d) + 1"] by (metis add_less_cancel_left less_le_trans)
qed

end
