(* ===== verification/Firecracker.thy ===== *)
theory Firecracker
  imports Api_Resources Paths Protocol Polling
begin

text \<open>
  The microVM runtime, \<^verbatim>\<open>internal/runtime/firecracker/jailer.go\<close>. Its state is the table of
  snapshots, the templates and the part of the disk below the data directory: a map from paths
  to contents and the directories. The Firecracker process, the guest and the operating system
  are arguments (\<open>fc_obs\<close>): the outcome of each system call and, for the guest, what it answers
  to a request. A guest is identified by what it was started from: a configuration with the
  contents of the code drive, or the files of a snapshot.

  An invocation is \<open>None\<close> when a polling loop never ends.
\<close>

section \<open>HTTP headers\<close>

text \<open>\<^verbatim>\<open>http.Header\<close>: keys in the canonical form of \<^verbatim>\<open>textproto.CanonicalMIMEHeaderKey\<close>.\<close>

definition token_char :: "char \<Rightarrow> bool" where
  "token_char c = (let n = of_char c :: nat in
     (48 \<le> n \<and> n \<le> 57) \<or> (65 \<le> n \<and> n \<le> 90) \<or> (97 \<le> n \<and> n \<le> 122) \<or> c \<in> set ''!#$%&*+-.^_`|~'' \<or> n = 39)"

definition upper_char :: "char \<Rightarrow> char" where
  "upper_char c = (let n = of_char c :: nat in if 97 \<le> n \<and> n \<le> 122 then char_of (n - 32) else c)"

fun canonical_loop :: "bool \<Rightarrow> string \<Rightarrow> string" where
  "canonical_loop up [] = []"
| "canonical_loop up (c # cs) =
     (if up then upper_char c else lower_char c) # canonical_loop (c = CHR ''-'') cs"

definition CanonicalHeaderKey :: "string \<Rightarrow> string" where
  "CanonicalHeaderKey k = (if list_all token_char k then canonical_loop True k else k)"

definition Header_Get :: "http_header \<Rightarrow> string \<Rightarrow> string" where
  "Header_Get h k = (case map_of h (CanonicalHeaderKey k) of Some (v # _) \<Rightarrow> v | _ \<Rightarrow> [])"

definition Header_Set :: "string \<Rightarrow> string \<Rightarrow> http_header \<Rightarrow> http_header" where
  "Header_Set k v h = AList.update (CanonicalHeaderKey k) [v] h"

definition Header_Add :: "string \<Rightarrow> string \<Rightarrow> http_header \<Rightarrow> http_header" where
  "Header_Add k v h =
     (let k = CanonicalHeaderKey k in
      AList.update k ((case map_of h k of Some vs \<Rightarrow> vs | None \<Rightarrow> []) @ [v]) h)"

definition Header_AddAll :: "http_header \<Rightarrow> http_header \<Rightarrow> http_header" where
  "Header_AddAll hs h = fold (\<lambda>(k, vs) h. fold (Header_Add k) vs h) hs h"

section \<open>Helpers\<close>

definition fnMemMB :: "func \<Rightarrow> int" where
  "fnMemMB f = (if f_MemoryMB f > 0 then f_MemoryMB f else 128)"

definition fnTimeoutMS :: "func \<Rightarrow> int" where
  "fnTimeoutMS f = (if f_TimeoutMS f > 0 then f_TimeoutMS f else 5000)"

definition mergeEnv :: "strmap \<Rightarrow> strmap \<Rightarrow> strmap" where
  "mergeEnv a b = fold (\<lambda>(k, v) m. AList.update k v m) b (fold (\<lambda>(k, v) m. AList.update k v m) a [])"

text \<open>The bytes \<^verbatim>\<open>copyAndPad\<close> leaves in the destination.\<close>

definition pad_block :: "nat \<Rightarrow> bytes \<Rightarrow> bytes" where
  "pad_block block b =
     (let rem = length b mod block in if rem \<noteq> 0 then b @ replicate (block - rem) (CHR 0x00) else b)"

record vm_drive =
  vd_ID :: string
  vd_Path :: string
  vd_Root :: bool
  vd_ReadOnly :: bool

record vm_config =
  vc_Kernel :: string
  vc_BootArgs :: string
  vc_Drives :: "vm_drive list"
  vc_VCPU :: int
  vc_MemMB :: int
  vc_VsockID :: string
  vc_GuestCID :: int
  vc_UDSPath :: string

definition buildVMConfig :: "fc_template \<Rightarrow> string \<Rightarrow> string \<Rightarrow> int \<Rightarrow> int \<Rightarrow> vm_config" where
  "buildVMConfig tpl codeImg vsockUDS memMB vcpus =
     \<lparr>vc_Kernel = tp_KernelPath tpl, vc_BootArgs = tp_BootArgs tpl,
      vc_Drives = [\<lparr>vd_ID = ''rootfs'', vd_Path = tp_RootFSPath tpl, vd_Root = True, vd_ReadOnly = True\<rparr>,
                   \<lparr>vd_ID = ''code'', vd_Path = codeImg, vd_Root = False, vd_ReadOnly = True\<rparr>],
      vc_VCPU = vcpus, vc_MemMB = memMB,
      vc_VsockID = ''selfcloud-vsock'', vc_GuestCID = 3, vc_UDSPath = vsockUDS\<rparr>"

section \<open>Waiting\<close>

text \<open>
  \<open>po_start\<close> is the reading the deadline is computed from, \<open>po_clk i\<close> and \<open>po_ctx i\<close> what turn \<open>i\<close> of
  the loop sees, and \<open>po_end i\<close> the time at which it is over but for the sleep. That a turn is over
  at all is assumed: the code bounds the read of an attempt to connect, not \<^verbatim>\<open>net.Dial\<close> and \<^verbatim>\<open>Write\<close>.
\<close>

record poll_obs =
  po_start :: time
  po_clk :: "nat \<Rightarrow> time"
  po_ctx :: "nat \<Rightarrow> error option"
  po_end :: "nat \<Rightarrow> time"

record dial_attempt =
  da_dial :: bool
  da_write :: bool
  da_read :: bytes

definition dial_ok :: "dial_attempt \<Rightarrow> bool" where
  "dial_ok a \<longleftrightarrow> da_dial a \<and> da_write a \<and> 2 \<le> length (take 32 (da_read a)) \<and> take 2 (da_read a) = ''OK''"

definition dial_turn :: "poll_obs \<Rightarrow> (nat \<Rightarrow> dial_attempt) \<Rightarrow> string \<Rightarrow> duration \<Rightarrow> nat \<Rightarrow> (error + unit) option" where
  "dial_turn po attempts path maxd i =
     (if po_clk po i > po_start po + maxd then Some (Inl (Err (''timeout waiting for '' @ path)))
      else case po_ctx po i of Some e \<Rightarrow> Some (Inl e)
      | None \<Rightarrow> if dial_ok (attempts i) then Some (Inr ()) else None)"

definition dialAgent :: "poll_obs \<Rightarrow> (nat \<Rightarrow> dial_attempt) \<Rightarrow> string \<Rightarrow> duration \<Rightarrow> (error + unit) option" where
  "dialAgent po attempts path maxd = poll (dial_turn po attempts path maxd) 0"

definition stat_turn :: "poll_obs \<Rightarrow> (nat \<Rightarrow> bool) \<Rightarrow> string \<Rightarrow> duration \<Rightarrow> nat \<Rightarrow> error option option" where
  "stat_turn po stat path maxd i =
     (if stat i then Some None
      else if po_clk po i > po_start po + maxd then Some (Some (Err (''timeout waiting for '' @ path)))
      else case po_ctx po i of Some e \<Rightarrow> Some (Some e) | None \<Rightarrow> None)"

definition waitForFile :: "poll_obs \<Rightarrow> (nat \<Rightarrow> bool) \<Rightarrow> string \<Rightarrow> duration \<Rightarrow> error option option" where
  "waitForFile po stat path maxd = poll (stat_turn po stat path maxd) 0"

section \<open>State\<close>

datatype vm_source = Cold vm_config "dfile option" | Warm "dfile option" "dfile option"
and dfile = DBytes bytes | DConfig vm_config | DMeta string | DState vm_source

record jailer =
  jl_dataDir :: string
  jl_templates :: "(string \<times> fc_template) list"
  jl_snapshots :: "(string \<times> string) list"
  jl_disk :: "(string \<times> dfile) list"
  jl_dirs :: "string list"

datatype vm_event = Spawn "string list" | Terminate

record fc_obs =
  fo_q :: "string \<Rightarrow> string"
  fo_stat :: "string \<Rightarrow> bool"
  fo_stamp :: string
  fo_mkdir :: "string \<Rightarrow> error option"
  fo_write :: "string \<Rightarrow> (error \<times> nat option) option"
  fo_copy :: "error option"
  fo_rm :: "string \<Rightarrow> (error \<times> string list) option"
  fo_spawn :: "string \<Rightarrow> error option"
  fo_api :: "string \<Rightarrow> string \<Rightarrow> error option"
  fo_wait :: poll_obs
  fo_appears :: "nat \<Rightarrow> bool"
  fo_dial :: poll_obs
  fo_attempts :: "nat \<Rightarrow> dial_attempt"
  fo_conn :: "nat \<Rightarrow> (error \<times> nat) option"
  fo_answer :: "vm_source \<Rightarrow> fc_request \<Rightarrow> reader"
  fo_elapsed :: duration

text \<open>
  \<^verbatim>\<open>os.MkdirAll\<close> with the outcome of the call, and \<^verbatim>\<open>os.RemoveAll\<close>, which may fail and leave some
  of the paths (\<open>fo_rm\<close>).
\<close>

definition ancestors :: "string \<Rightarrow> string list" where
  "ancestors p =
     (let es = path_elems p in
      map (\<lambda>n. (if rooted p then ''/'' else []) @ Join (take (n + 1) es) ''/'') [0..<length es])"

definition add_dirs :: "string \<Rightarrow> jailer \<Rightarrow> jailer" where
  "add_dirs p j = j\<lparr>jl_dirs := jl_dirs j @ filter (\<lambda>d. d \<notin> set (jl_dirs j)) (ancestors p)\<rparr>"

definition inside :: "string \<Rightarrow> string \<Rightarrow> bool" where
  "inside d p \<longleftrightarrow> p = d \<or> HasPrefix p (d @ ''/'')"

definition remove_but :: "string list \<Rightarrow> string \<Rightarrow> jailer \<Rightarrow> jailer" where
  "remove_but left d j = j\<lparr>jl_disk := filter (\<lambda>(p, _). inside d p \<longrightarrow> p \<in> set left) (jl_disk j),
     jl_dirs := filter (\<lambda>p. inside d p \<longrightarrow> p \<in> set left) (jl_dirs j)\<rparr>"

definition RemoveAll :: "fc_obs \<Rightarrow> string \<Rightarrow> jailer \<Rightarrow> jailer \<times> error option" where
  "RemoveAll ob d j =
     (case fo_rm ob d of None \<Rightarrow> (remove_but [] d j, None) | Some (e, left) \<Rightarrow> (remove_but left d j, Some e))"

definition put_file :: "string \<Rightarrow> dfile \<Rightarrow> jailer \<Rightarrow> jailer" where
  "put_file p d j = j\<lparr>jl_disk := AList.update p d (jl_disk j)\<rparr>"

text \<open>\<^verbatim>\<open>os.WriteFile\<close>: a failed write may leave a prefix.\<close>

definition write_file :: "fc_obs \<Rightarrow> string \<Rightarrow> bytes \<Rightarrow> jailer \<Rightarrow> jailer \<times> error option" where
  "write_file ob p b j =
     (case fo_write ob p of None \<Rightarrow> (put_file p (DBytes b) j, None)
      | Some (e, None) \<Rightarrow> (j, Some e)
      | Some (e, Some n) \<Rightarrow> (put_file p (DBytes (take n b)) j, Some e))"

definition mkdirs :: "fc_obs \<Rightarrow> string \<Rightarrow> jailer \<Rightarrow> jailer \<times> error option" where
  "mkdirs ob p j = (case fo_mkdir ob p of Some e \<Rightarrow> (j, Some e) | None \<Rightarrow> (add_dirs p j, None))"

section \<open>Operations\<close>

definition fnDir :: "jailer \<Rightarrow> func \<Rightarrow> string" where
  "fnDir j f = FPJoin [jl_dataDir j, ''fns'', m_Project (f_Meta f), m_Name (f_Meta f)]"

definition jailer_Deploy :: "fc_obs \<Rightarrow> func \<Rightarrow> bytes \<Rightarrow> jailer \<Rightarrow> jailer \<times> error option" where
  "jailer_Deploy ob f code j =
     (let dir = fnDir j f in
      case mkdirs ob dir j of (j1, Some e) \<Rightarrow> (j1, Some e)
      | (j1, None) \<Rightarrow> write_file ob (FPJoin [dir, ''code.tar'']) code j1)"

definition jailer_Remove :: "fc_obs \<Rightarrow> func \<Rightarrow> jailer \<Rightarrow> jailer \<times> error option" where
  "jailer_Remove ob f j =
     RemoveAll ob (fnDir j f) (j\<lparr>jl_snapshots := AList.delete (fnKey f) (jl_snapshots j)\<rparr>)"

definition lookupSnapshot :: "jailer \<Rightarrow> func \<Rightarrow> string option" where
  "lookupSnapshot j f = map_of (jl_snapshots j) (fnKey f)"

text \<open>
  The exchange with the agent, the same statements in \<^verbatim>\<open>Invoke\<close> and \<^verbatim>\<open>restore\<close>; \<open>wrap\<close> is how the
  caller wraps its two errors.
\<close>

definition agent_request :: "func \<Rightarrow> invoke_request \<Rightarrow> fc_request" where
  "agent_request f rq =
     \<lparr>pq_Method = iq_Method rq, pq_Path = iq_Path rq, pq_Headers = iq_Headers rq, pq_Body = iq_Body rq,
      pq_Env = AList.update ''SELFCLOUD_TIMEOUT_MS'' (Itoa (fnTimeoutMS f)) (mergeEnv (f_Env f) (iq_Env rq)),
      pq_SecretFiles = iq_SecretFiles rq, pq_Mode = get0 (f_Env f) ''MODE''\<rparr>"

definition response_of :: "duration \<Rightarrow> fc_response \<Rightarrow> invoke_response" where
  "response_of elapsed p =
     (let h = Header_AddAll (ps_Headers p) [];
          h = (if Header_Get h ''content-type'' = [] then Header_Set ''content-type'' ''application/octet-stream'' h else h)
      in \<lparr>ir_Status = (if ps_Status p = 0 then 200 else ps_Status p), ir_Headers = h, ir_Body = ps_Body p,
          ir_Logs = ps_Logs p, ir_Elapsed = elapsed\<rparr>)"

definition exchange ::
  "(fc_request \<Rightarrow> error + bytes) \<Rightarrow> (bytes \<Rightarrow> error + fc_response) \<Rightarrow> (string \<Rightarrow> error \<Rightarrow> error) \<Rightarrow> fc_obs \<Rightarrow>
   vm_source \<Rightarrow> func \<Rightarrow> invoke_request \<Rightarrow> error + invoke_response" where
  "exchange enc dec wrap ob src f rq =
     (let preq = agent_request f rq in
      case WriteFrame enc (fo_conn ob) preq of
        (_, Some e) \<Rightarrow> Inl (wrap ''write request: '' e)
      | (_, None) \<Rightarrow>
          (case ReadFrame dec (fo_answer ob src preq) of
             (_, Inl e) \<Rightarrow> Inl (wrap ''read response: '' e)
           | (_, Inr presp) \<Rightarrow> Inr (response_of (fo_elapsed ob) presp)))"

definition wrapped :: "string \<Rightarrow> error \<Rightarrow> error" where
  "wrapped msg e = Err (msg @ errorString e)"

definition agent_port :: "string \<Rightarrow> string" where
  "agent_port uds = uds @ ''_'' @ Itoa VsockPort"

text \<open>
  \<^verbatim>\<open>snapshot\<close>: Firecracker writes the two files when the call succeeds; they hold the state of the
  guest it ran.
\<close>

definition jailer_snapshot :: "fc_obs \<Rightarrow> func \<Rightarrow> vm_source \<Rightarrow> string \<Rightarrow> jailer \<Rightarrow> jailer \<times> error option" where
  "jailer_snapshot ob f src chroot j =
     (let snapDir = FPJoin [jl_dataDir j, ''snapshots'', fnKey f] in
      case mkdirs ob snapDir j of (j1, Some e) \<Rightarrow> (j1, Some e)
      | (j1, None) \<Rightarrow>
          (case fo_api ob ''PATCH'' ''/vm'' of Some e \<Rightarrow> (j1, Some (wrapped ''pause vm: '' e))
           | None \<Rightarrow>
               (case fo_api ob ''PUT'' ''/snapshot/create'' of Some e \<Rightarrow> (j1, Some (wrapped ''create snapshot: '' e))
                | None \<Rightarrow>
                    (let j2 = put_file (FPJoin [snapDir, ''mem.bin'']) (DState src)
                                (put_file (FPJoin [snapDir, ''state.bin'']) (DState src) j1);
                         meta = FPJoin [snapDir, ''meta.json'']
                     in case fo_write ob meta of Some (e, _) \<Rightarrow> (j2, Some e)
                        | None \<Rightarrow>
                            ((put_file meta (DMeta chroot) j2)
                               \<lparr>jl_snapshots := AList.update (fnKey f) snapDir (jl_snapshots j2)\<rparr>, None)))))"

text \<open>\<^verbatim>\<open>restore\<close>; the process is terminated by the deferred function on every path after its start.\<close>

definition restore_meta :: "jailer \<Rightarrow> string \<Rightarrow> error + string" where
  "restore_meta j snapDir =
     (case map_of (jl_disk j) (FPJoin [snapDir, ''meta.json'']) of
        None \<Rightarrow> Inl (wrapped ''read snapshot meta: '' (Err ''file does not exist''))
      | Some (DMeta c) \<Rightarrow>
          if c = [] then Inl (Err ''snapshot meta missing chroot'')
          else if c \<notin> set (jl_dirs j) then Inl (wrapped ''snapshot chroot missing: '' (Err ''file does not exist''))
          else Inr c
      | Some _ \<Rightarrow> Inl (Err ''invalid character in snapshot meta''))"

definition restore ::
  "(fc_request \<Rightarrow> error + bytes) \<Rightarrow> (bytes \<Rightarrow> error + fc_response) \<Rightarrow> fc_obs \<Rightarrow> func \<Rightarrow> string \<Rightarrow>
   invoke_request \<Rightarrow> jailer \<Rightarrow> (jailer \<times> vm_event list \<times> (error + invoke_response)) option" where
  "restore enc dec ob f snapDir rq j =
     (case restore_meta j snapDir of Inl e \<Rightarrow> Some (j, [], Inl e)
      | Inr chroot \<Rightarrow>
          (let apiSock = FPJoin [chroot, ''fc-restore.sock''];
               j1 = j\<lparr>jl_disk := AList.delete apiSock (jl_disk j)\<rparr>
           in case fo_spawn ob apiSock of Some e \<Rightarrow> Some (j1, [], Inl (wrapped ''start firecracker: '' e))
              | None \<Rightarrow>
                  (let started = (\<lambda>r. (j1, [Spawn [''firecracker'', ''--api-sock'', apiSock], Terminate], r)) in
                   case waitForFile (fo_wait ob) (fo_appears ob) apiSock (3 * second) of None \<Rightarrow> None
                   | Some (Some e) \<Rightarrow> Some (started (Inl (wrapped ''api socket never appeared: '' e)))
                   | Some None \<Rightarrow>
                       (case fo_api ob ''PUT'' ''/snapshot/load'' of
                          Some e \<Rightarrow> Some (started (Inl (wrapped ''load snapshot: '' e)))
                        | None \<Rightarrow>
                            (case dialAgent (fo_dial ob) (fo_attempts ob) (agent_port (FPJoin [chroot, ''v.sock'']))
                                    (5 * second) of None \<Rightarrow> None
                             | Some (Inl e) \<Rightarrow> Some (started (Inl (wrapped ''connect to restored agent: '' e)))
                             | Some (Inr _) \<Rightarrow>
                                 (let src = Warm (map_of (jl_disk j1) (FPJoin [snapDir, ''state.bin'']))
                                              (map_of (jl_disk j1) (FPJoin [snapDir, ''mem.bin'']))
                                  in Some (started (exchange enc dec (\<lambda>_ e. e) ob src f rq))))))))"

text \<open>The code drive: the deployed archive padded to sectors, or an empty drive.\<close>

definition stage_code :: "fc_obs \<Rightarrow> func \<Rightarrow> string \<Rightarrow> jailer \<Rightarrow> jailer \<times> error option" where
  "stage_code ob f codeImg j =
     (case map_of (jl_disk j) (FPJoin [fnDir j f, ''code.tar'']) of
        Some (DBytes b) \<Rightarrow>
          (case fo_copy ob of Some e \<Rightarrow> (j, Some (wrapped ''stage code drive: '' e))
           | None \<Rightarrow> (put_file codeImg (DBytes (pad_block 512 b)) j, None))
      | _ \<Rightarrow> write_file ob codeImg (replicate 4096 (CHR 0x00)) j)"

text \<open>
  From the start of the process to the answer; the flag says whether the chroot is kept, because
  a snapshot refers to it.
\<close>

definition run_vm ::
  "(fc_request \<Rightarrow> error + bytes) \<Rightarrow> (bytes \<Rightarrow> error + fc_response) \<Rightarrow> fc_obs \<Rightarrow> func \<Rightarrow> vm_config \<Rightarrow> string \<Rightarrow> string \<Rightarrow>
   invoke_request \<Rightarrow> jailer \<Rightarrow> (jailer \<times> vm_event list \<times> bool \<times> (error + invoke_response)) option" where
  "run_vm enc dec ob f cfg chroot codeImg rq j =
     (let apiSock = FPJoin [chroot, ''fc.sock'']; configPath = FPJoin [chroot, ''vm.json''] in
      case fo_spawn ob apiSock of Some e \<Rightarrow> Some (j, [], False, Inl (wrapped ''start firecracker: '' e))
      | None \<Rightarrow>
          (let evs = [Spawn [''firecracker'', ''--api-sock'', apiSock, ''--config-file'', configPath], Terminate];
               src = Cold cfg (map_of (jl_disk j) codeImg)
           in case dialAgent (fo_dial ob) (fo_attempts ob) (agent_port (vc_UDSPath cfg)) (8 * second) of None \<Rightarrow> None
              | Some (Inl e) \<Rightarrow> Some (j, evs, False, Inl (wrapped ''connect to agent: '' e))
              | Some (Inr _) \<Rightarrow>
                  (case exchange enc dec wrapped ob src f rq of Inl e \<Rightarrow> Some (j, evs, False, Inl e)
                   | Inr resp \<Rightarrow>
                       if lookupSnapshot j f \<noteq> None then Some (j, evs, False, Inr resp)
                       else (case jailer_snapshot ob f src chroot j of
                               (j1, None) \<Rightarrow> Some (j1, evs, True, Inr resp)
                             | (j1, Some _) \<Rightarrow> Some (j1, evs, False, Inr resp)))))"

definition cold_start ::
  "(fc_request \<Rightarrow> error + bytes) \<Rightarrow> (bytes \<Rightarrow> error + fc_response) \<Rightarrow> fc_obs \<Rightarrow> func \<Rightarrow> fc_template \<Rightarrow>
   invoke_request \<Rightarrow> jailer \<Rightarrow> (jailer \<times> vm_event list \<times> (error + invoke_response)) option" where
  "cold_start enc dec ob f tpl rq j =
     (let chroot = FPJoin [jl_dataDir j, ''jail'', m_UID (f_Meta f) @ ''-'' @ fo_stamp ob];
          codeImg = FPJoin [chroot, ''code.img'']
      in case mkdirs ob chroot j of (j1, Some e) \<Rightarrow> Some (j1, [], Inl e)
         | (j1, None) \<Rightarrow>
             (case stage_code ob f codeImg j1 of (j2, Some e) \<Rightarrow> Some (fst (RemoveAll ob chroot j2), [], Inl e)
              | (j2, None) \<Rightarrow>
                  (let cfg = buildVMConfig tpl codeImg (FPJoin [chroot, ''v.sock'']) (fnMemMB f) 1;
                       configPath = FPJoin [chroot, ''vm.json'']
                   in case fo_write ob configPath of Some (e, _) \<Rightarrow> Some (fst (RemoveAll ob chroot j2), [], Inl e)
                      | None \<Rightarrow>
                          (case run_vm enc dec ob f cfg chroot codeImg rq (put_file configPath (DConfig cfg) j2) of
                             None \<Rightarrow> None
                           | Some (j3, evs, keep, r) \<Rightarrow> Some (if keep then j3 else fst (RemoveAll ob chroot j3), evs, r)))))"

definition jailer_Invoke ::
  "(fc_request \<Rightarrow> error + bytes) \<Rightarrow> (bytes \<Rightarrow> error + fc_response) \<Rightarrow> fc_obs \<Rightarrow> fc_obs \<Rightarrow> func \<Rightarrow>
   invoke_request \<Rightarrow> jailer \<Rightarrow> (jailer \<times> vm_event list \<times> (error + invoke_response)) option" where
  "jailer_Invoke enc dec obr ob f rq j =
     (let tplName = (if f_Handler f = [] then ''node-22'' else f_Handler f) in
      case map_of (jl_templates j) tplName of
        None \<Rightarrow> Some (j, [], Inl (Err (''unknown rootfs template '' @ fo_q ob tplName)))
      | Some tpl \<Rightarrow>
          if \<not> fo_stat ob (tp_KernelPath tpl)
          then Some (j, [], Inl (Err (''kernel not found at '' @ tp_KernelPath tpl @ '' (run `make firecracker-templates`)'')))
          else if \<not> fo_stat ob (tp_RootFSPath tpl)
          then Some (j, [], Inl (Err (''rootfs not found at '' @ tp_RootFSPath tpl @ '' (run `make firecracker-templates`)'')))
          else case lookupSnapshot j f of
            None \<Rightarrow> cold_start enc dec ob f tpl rq j
          | Some snap \<Rightarrow>
              (case restore enc dec obr f snap rq j of None \<Rightarrow> None
               | Some (j1, evs, Inr resp) \<Rightarrow> Some (j1, evs, Inr resp)
               | Some (j1, evs, Inl _) \<Rightarrow>
                   map_option (\<lambda>(j2, evs2, r). (j2, evs @ evs2, r)) (cold_start enc dec ob f tpl rq j1)))"

text \<open>
  \<^verbatim>\<open>NewJailer\<close> on the disk a previous run left; \<^verbatim>\<open>os.ReadDir\<close> lists the directories right below.
\<close>

definition ReadDir :: "jailer \<Rightarrow> string \<Rightarrow> string list" where
  "ReadDir j d = map Base (filter (\<lambda>p. p \<noteq> d \<and> Dir p = d) (jl_dirs j))"

fun mkdir_list :: "fc_obs \<Rightarrow> string list \<Rightarrow> jailer \<Rightarrow> jailer \<times> error option" where
  "mkdir_list ob [] j = (j, None)"
| "mkdir_list ob (d # ds) j = (case mkdirs ob d j of (j1, Some e) \<Rightarrow> (j1, Some e) | (j1, None) \<Rightarrow> mkdir_list ob ds j1)"

definition rediscover :: "string \<Rightarrow> jailer \<Rightarrow> jailer" where
  "rediscover dataDir j =
     fold (\<lambda>n j. let dir = FPJoin [dataDir, ''snapshots'', n] in
         if map_of (jl_disk j) (FPJoin [dir, ''state.bin'']) \<noteq> None
         then j\<lparr>jl_snapshots := AList.update n dir (jl_snapshots j)\<rparr> else j)
       (ReadDir j (FPJoin [dataDir, ''snapshots''])) j"

definition NewJailer ::
  "bool \<Rightarrow> fc_obs \<Rightarrow> string \<Rightarrow> (string \<times> dfile) list \<Rightarrow> string list \<Rightarrow> error + jailer" where
  "NewJailer lookPath ob dataDir disk dirs =
     (if \<not> lookPath then Inl ErrUnsupported
      else case mkdir_list ob [FPJoin [dataDir, ''jail''], FPJoin [dataDir, ''snapshots''],
                  FPJoin [dataDir, ''templates'', ''kernel''], FPJoin [dataDir, ''templates'', ''rootfs'']]
                \<lparr>jl_dataDir = dataDir,
                 jl_templates = fold (\<lambda>t m. AList.update (tp_Name t) t m)
                   (DefaultTemplates (fo_stat ob) (FPJoin [dataDir, ''templates''])) [],
                 jl_snapshots = [], jl_disk = disk, jl_dirs = dirs\<rparr> of
             (_, Some e) \<Rightarrow> Inl e
           | (j, None) \<Rightarrow> Inr (rediscover dataDir j))"

definition jailer_Templates :: "jailer \<Rightarrow> fc_template list" where
  "jailer_Templates j = map snd (jl_templates j)"

text \<open>\<^verbatim>\<open>prefixWriter\<close>: the buffered incomplete line, and the lines a write logs.\<close>

function prefix_loop :: "string \<Rightarrow> bytes \<Rightarrow> bytes \<times> string list" where
  "prefix_loop pre buf =
     (case IndexByte buf (CHR 0x0A) of None \<Rightarrow> (buf, [])
      | Some i \<Rightarrow> (case prefix_loop pre (drop (i + 1) buf) of (rest, ls) \<Rightarrow> (rest, (pre @ take i buf) # ls)))"
  by pat_completeness auto
termination
proof (relation "measure (\<lambda>(_, b). length b)", simp)
  fix pre buf :: string and i
  assume "IndexByte buf (CHR 0x0A) = Some i"
  then show "((pre, drop (i + 1) buf), pre, buf) \<in> measure (\<lambda>(_, b). length b)"
    by (cases buf) auto
qed

declare prefix_loop.simps [simp del]

definition prefix_Write :: "string \<Rightarrow> bytes \<Rightarrow> bytes \<Rightarrow> bytes \<times> string list" where
  "prefix_Write pre b buf = prefix_loop pre (buf @ b)"

end
