(* ===== verification/Firecracker_Props.thy ===== *)
theory Firecracker_Props
  imports Firecracker Functions_Props
begin

text \<open>
  Properties of the microVM runtime: its waits end, every virtual machine it starts is stopped
  and its directory removed, what code an invocation runs, and when it does not.
\<close>

section \<open>Waiting\<close>

abbreviation millisecond :: duration where "millisecond \<equiv> 1000000"

lemma deadline_passes:
  assumes "po_start po \<le> po_clk po 0" "0 \<le> maxd"
    and "\<And>i. po_clk po i + step \<le> po_clk po (i + 1)" "50 * millisecond \<le> step"
  shows "\<exists>n. po_start po + maxd < po_clk po n"
  using clock_deadline [of "po_clk po" step maxd] assms by (intro exI [of _ "nat (maxd div step) + 1"]) auto

lemma first_success:
  fixes ok within :: "nat \<Rightarrow> bool"
  assumes "ok n" "\<forall>i \<le> n. within i"
  shows "\<exists>m. ok m \<and> (\<forall>i \<le> m. within i) \<and> (\<forall>j < m. \<not> ok j)"
proof -
  have "ok (LEAST m. ok m)" "(LEAST m. ok m) \<le> n" using assms(1) by (auto intro: LeastI Least_le)
  then show ?thesis using assms(2) not_less_Least by (metis le_trans)
qed

text \<open>A loop that gives up after a deadline, whatever else ends it: how many turns it makes, and when the last one is over.\<close>

lemma poll_deadline:
  assumes "po_start po \<le> po_clk po 0" "po_clk po 0 \<le> po_start po + len" "0 \<le> maxd"
    and "\<And>i. po_clk po i + step \<le> po_clk po (i + 1)" "50 * millisecond \<le> step"
    and "\<And>i. po_end po i \<le> po_clk po i + len" "\<And>i. po_clk po (i + 1) \<le> po_clk po i + len"
    and "\<And>i. po_start po + maxd < po_clk po i \<Longrightarrow> turn i \<noteq> None"
  shows "\<exists>n r. poll turn 0 = Some r \<and> turn n = Some r \<and> (\<forall>j < n. turn j = None) \<and> int n \<le> maxd div step + 1 \<and>
    po_clk po n \<le> po_start po + maxd + len \<and>
    (po_clk po n \<le> po_start po + maxd \<longrightarrow> po_end po n \<le> po_start po + maxd + len)"
proof -
  define d where "d = nat (maxd div step) + 1"
  have "po_start po + maxd < po_clk po d"
    using clock_deadline [of "po_clk po" step maxd] assms(1,3-5) unfolding d_def by auto
  then have "turn d \<noteq> None" by (rule assms(8))
  then obtain n r where n: "poll turn 0 = Some r" "n \<le> d" "turn n = Some r" "\<And>j. j < n \<Longrightarrow> turn j = None"
    using poll_returns [of turn d 0] by (metis le0)
  have "po_clk po n \<le> po_start po + maxd + len"
  proof (cases n)
    case 0
    then show ?thesis using assms(2,3) by simp
  next
    case (Suc k)
    then have "po_clk po k \<le> po_start po + maxd" using n(4) [of k] assms(8) [of k] by fastforce
    then show ?thesis using assms(7) [of k] Suc by simp
  qed
  moreover have "int n \<le> maxd div step + 1" using n(2) pos_imp_zdiv_nonneg_iff [of step maxd] assms(3,5)
    unfolding d_def by linarith
  moreover have "po_clk po n \<le> po_start po + maxd \<longrightarrow> po_end po n \<le> po_start po + maxd + len"
    using assms(6) [of n] by simp
  ultimately show ?thesis using n by blast
qed


section \<open>Clean-up\<close>

text \<open>Every start is followed by its termination.\<close>

fun balanced :: "vm_event list \<Rightarrow> bool" where
  "balanced [] = True"
| "balanced (Spawn argv # Terminate # evs) = balanced evs"
| "balanced _ = False"

lemma balanced_append: "balanced xs \<Longrightarrow> balanced ys \<Longrightarrow> balanced (xs @ ys)"
  by (induction xs rule: balanced.induct) auto

text \<open>Nothing of the directory is left: neither a file nor a directory.\<close>

definition gone :: "string \<Rightarrow> jailer \<Rightarrow> bool" where
  "gone d j \<longleftrightarrow> (\<forall>p. inside d p \<longrightarrow> p \<notin> set (jl_dirs j) \<and> map_of (jl_disk j) p = None)"

lemma gone_iff [code]:
  "gone d j \<longleftrightarrow> list_all (\<lambda>p. \<not> inside d p) (jl_dirs j) \<and> list_all (\<lambda>e. \<not> inside d (fst e)) (jl_disk j)"
  by (auto simp: gone_def list_all_iff map_of_eq_None_iff image_iff)

lemma gone_RemoveAll: "fo_rm ob d = None \<Longrightarrow> gone d (fst (RemoveAll ob d j))"
  by (auto simp: gone_def RemoveAll_def remove_but_def map_of_eq_None_iff)

lemma RemoveAll_keeps [simp]:
  "jl_dataDir (fst (RemoveAll ob d j)) = jl_dataDir j" "jl_templates (fst (RemoveAll ob d j)) = jl_templates j"
  "jl_snapshots (fst (RemoveAll ob d j)) = jl_snapshots j"
  by (simp_all add: RemoveAll_def remove_but_def split: option.split)

lemma gone_delete: "gone d j \<Longrightarrow> gone d (j\<lparr>jl_disk := AList.delete p (jl_disk j)\<rparr>)"
  by (simp add: gone_def map_of_delete)

lemma mkdirs_error: "mkdirs ob p j = (j1, Some e) \<Longrightarrow> j1 = j"
  by (auto simp: mkdirs_def split: option.splits)

lemma restore_clean:
  assumes "restore enc dec ob f snap rq j = Some (j1, evs, r)"
  shows "balanced evs \<and> (gone d j \<longrightarrow> gone d j1) \<and> jl_dataDir j1 = jl_dataDir j \<and> jl_templates j1 = jl_templates j"
  using assms
  by (auto simp: restore_def Let_def gone_delete split: sum.splits option.splits)

text \<open>The snapshot of a function refers to the directory of the machine it was taken from.\<close>

definition snapshot_refers :: "jailer \<Rightarrow> func \<Rightarrow> string \<Rightarrow> bool" where
  "snapshot_refers j f chroot \<longleftrightarrow>
     (\<exists>snap. lookupSnapshot j f = Some snap \<and> map_of (jl_disk j) (FPJoin [snap, ''meta.json'']) = Some (DMeta chroot))"

lemma jailer_snapshot_refers:
  "jailer_snapshot ob f src chroot j = (j1, None) \<Longrightarrow> snapshot_refers j1 f chroot"
  by (auto simp: jailer_snapshot_def snapshot_refers_def lookupSnapshot_def put_file_def Let_def map_of_update
      split: prod.splits option.splits)

lemma run_vm_clean:
  assumes "run_vm enc dec ob f cfg chroot img rq j = Some (j1, evs, keep, r)"
  shows "balanced evs \<and> (keep \<longrightarrow> snapshot_refers j1 f chroot \<and> (\<exists>resp. r = Inr resp))"
  using assms
  by (cases "exchange enc dec wrapped ob (Cold cfg (map_of (jl_disk j) img)) f rq")
    (auto simp: run_vm_def Let_def dest: jailer_snapshot_refers split: sum.splits option.splits prod.splits if_splits,
      metis)

lemma cold_start_balanced:
  "cold_start enc dec ob f tpl rq j = Some (j1, evs, r) \<Longrightarrow> balanced evs"
  by (auto simp: cold_start_def Let_def dest: run_vm_clean split: option.splits prod.splits)

lemma cold_start_clean:
  assumes "cold_start enc dec ob f tpl rq j = Some (j1, evs, r)"
    and "chroot = FPJoin [jl_dataDir j, ''jail'', m_UID (f_Meta f) @ ''-'' @ fo_stamp ob]"
    and "gone chroot j" "fo_rm ob chroot = None"
  shows "gone chroot j1 \<or> snapshot_refers j1 f chroot \<and> (\<exists>resp. r = Inr resp)"
  using assms
  by (auto simp: cold_start_def Let_def gone_RemoveAll dest: run_vm_clean mkdirs_error split: option.splits prod.splits if_splits)

text \<open>
  C25. An invocation cleans up: every Firecracker process it starts is terminated, and whatever
  happens (a failed step, a failed restore, an answer) nothing is left of the directory of the
  machine it booted, unless the invocation succeeded and the snapshot it recorded for the
  function refers to that directory, or the system could not remove it (the error of \<^verbatim>\<open>RemoveAll\<close> is
  ignored).
\<close>

theorem vm_cleaned_up:
  assumes "jailer_Invoke enc dec obr ob f rq j = Some (j', evs, r)"
    and "chroot = FPJoin [jl_dataDir j, ''jail'', m_UID (f_Meta f) @ ''-'' @ fo_stamp ob]" "gone chroot j"
  shows "balanced evs \<and> (gone chroot j' \<or> snapshot_refers j' f chroot \<and> (\<exists>resp. r = Inr resp) \<or>
    (\<exists>e left. fo_rm ob chroot = Some (e, left)))"
proof (cases "fo_rm ob chroot")
  case None
  have c: "balanced evs2 \<and> (gone chroot j2 \<or> snapshot_refers j2 f chroot \<and> (\<exists>resp. r2 = Inr resp))"
    if "cold_start enc dec ob f tpl rq j1 = Some (j2, evs2, r2)" "jl_dataDir j1 = jl_dataDir j" "gone chroot j1" for tpl j1 j2 evs2 r2
    using cold_start_clean [OF that(1) _ that(3) None] cold_start_balanced [OF that(1)] that(2) assms(2) by simp
  have r: "balanced evs1 \<and> gone chroot j1 \<and> jl_dataDir j1 = jl_dataDir j"
    if "restore enc dec obr f snap rq j = Some (j1, evs1, r1)" for snap j1 evs1 r1
    using restore_clean [OF that, of chroot] assms(3) by simp
  have "balanced evs \<and> (gone chroot j' \<or> snapshot_refers j' f chroot \<and> (\<exists>resp. r = Inr resp))"
    using assms(1,3)
    by (auto simp: jailer_Invoke_def Let_def intro!: balanced_append dest!: r dest: c split: option.splits sum.splits if_splits)
  then show ?thesis by blast
next
  case (Some x)
  have "balanced evs" using assms(1)
    by (auto simp: jailer_Invoke_def Let_def intro!: balanced_append dest: restore_clean cold_start_balanced
        split: option.splits sum.splits if_splits)
  then show ?thesis using Some by (cases x) blast
qed

section \<open>Which code runs\<close>

lemma plain_names [simp]:
  "plain_elem ''code.tar''" "plain_elem ''code.img''" "plain_elem ''vm.json''" "plain_elem ''meta.json''"
  "plain_elem ''state.bin''" "plain_elem ''mem.bin''" "plain_elem ''fc-restore.sock''" "plain_elem ''snapshots''"
  by (simp_all add: plain_elem_def)

lemma FPJoin_neq: "e \<noteq> e' \<Longrightarrow> d \<noteq> [] \<Longrightarrow> d' \<noteq> [] \<Longrightarrow> plain_elem e \<Longrightarrow> plain_elem e' \<Longrightarrow> FPJoin [d, e] \<noteq> FPJoin [d', e']"
  using FPJoin_last by blast

lemma fnDir_not_Nil [simp]: "jl_dataDir j \<noteq> [] \<Longrightarrow> fnDir j f \<noteq> []"
  by (simp add: fnDir_def)

lemma mkdirs_keeps:
  "mkdirs ob p j = (j1, r) \<Longrightarrow> jl_disk j1 = jl_disk j \<and> jl_dataDir j1 = jl_dataDir j \<and> jl_snapshots j1 = jl_snapshots j \<and>
     jl_templates j1 = jl_templates j \<and> set (jl_dirs j) \<subseteq> set (jl_dirs j1)"
  by (auto simp: mkdirs_def add_dirs_def split: option.splits)

lemma jailer_Deploy_spec:
  assumes "jailer_Deploy ob f code j = (j1, r)"
  shows "lookupSnapshot j1 g = lookupSnapshot j g" "jl_dataDir j1 = jl_dataDir j" "jl_templates j1 = jl_templates j"
    "set (jl_dirs j) \<subseteq> set (jl_dirs j1)"
    "p \<noteq> FPJoin [fnDir j f, ''code.tar''] \<Longrightarrow> map_of (jl_disk j1) p = map_of (jl_disk j) p"
    "r = None \<Longrightarrow> map_of (jl_disk j1) (FPJoin [fnDir j f, ''code.tar'']) = Some (DBytes code)"
proof -
  obtain j0 r0 where m: "mkdirs ob (fnDir j f) j = (j0, r0)" by fastforce
  note k = mkdirs_keeps [OF m]
  show "lookupSnapshot j1 g = lookupSnapshot j g" "jl_dataDir j1 = jl_dataDir j" "jl_templates j1 = jl_templates j"
    "set (jl_dirs j) \<subseteq> set (jl_dirs j1)"
    "p \<noteq> FPJoin [fnDir j f, ''code.tar''] \<Longrightarrow> map_of (jl_disk j1) p = map_of (jl_disk j) p"
    "r = None \<Longrightarrow> map_of (jl_disk j1) (FPJoin [fnDir j f, ''code.tar'']) = Some (DBytes code)"
    using assms m k
    by (auto simp: jailer_Deploy_def Let_def write_file_def put_file_def lookupSnapshot_def map_of_update
        split: option.splits, blast+)
qed

text \<open>The machine a cold start boots, and the one the next warm start resumes.\<close>

lemma jailer_snapshot_files:
  assumes "jailer_snapshot ob f src chroot j = (j1, None)" "jl_dataDir j \<noteq> []"
  shows "\<exists>snap. snap \<noteq> [] \<and> lookupSnapshot j1 f = Some snap \<and>
    map_of (jl_disk j1) (FPJoin [snap, ''state.bin'']) = Some (DState src) \<and>
    map_of (jl_disk j1) (FPJoin [snap, ''mem.bin'']) = Some (DState src)"
proof -
  let ?s = "FPJoin [jl_dataDir j, ''snapshots'', fnKey f]"
  have s: "?s \<noteq> []" using assms(2) by simp
  note n = FPJoin_neq [OF _ s s]
  show ?thesis using assms n [of "''meta.json''" "''state.bin''"] n [of "''meta.json''" "''mem.bin''"]
      n [of "''mem.bin''" "''state.bin''"]
    by (intro exI [of _ ?s]) (auto simp: jailer_snapshot_def lookupSnapshot_def put_file_def Let_def map_of_update
        split: prod.splits option.splits)
qed

lemma jailer_snapshot_fails: "jailer_snapshot ob f src chroot j = (j1, Some e) \<Longrightarrow> jl_snapshots j1 = jl_snapshots j"
  by (auto simp: jailer_snapshot_def put_file_def Let_def dest: mkdirs_keeps split: prod.splits option.splits)

definition holds_guest :: "jailer \<Rightarrow> func \<Rightarrow> vm_source \<Rightarrow> bool" where
  "holds_guest j f src \<longleftrightarrow> (\<forall>snap. lookupSnapshot j f = Some snap \<longrightarrow> snap \<noteq> [] \<and>
     map_of (jl_disk j) (FPJoin [snap, ''state.bin'']) = Some (DState src) \<and>
     map_of (jl_disk j) (FPJoin [snap, ''mem.bin'']) = Some (DState src))"

lemma run_vm_success:
  assumes "run_vm enc dec ob f cfg chroot img rq j = Some (j1, evs, keep, Inr resp)" "lookupSnapshot j f = None"
    and "src = Cold cfg (map_of (jl_disk j) img)"
  shows "exchange enc dec wrapped ob src f rq = Inr resp"
    "fst (jailer_snapshot ob f src chroot j) = j1" "keep \<longleftrightarrow> snd (jailer_snapshot ob f src chroot j) = None"
  using assms unfolding run_vm_def Let_def
  by (simp_all split: option.splits sum.splits prod.splits)

lemma run_vm_source:
  assumes "run_vm enc dec ob f cfg chroot img rq j = Some (j1, evs, keep, Inr resp)"
    and "lookupSnapshot j f = None" "jl_dataDir j \<noteq> []" "src = Cold cfg (map_of (jl_disk j) img)"
  shows "exchange enc dec wrapped ob src f rq = Inr resp \<and> holds_guest j1 f src \<and> (\<not> keep \<longrightarrow> lookupSnapshot j1 f = None)"
proof -
  note s = run_vm_success [OF assms(1,2,4)]
  obtain r where r: "jailer_snapshot ob f src chroot j = (j1, r)" using s(2) by (metis prod.collapse)
  show ?thesis
  proof (cases r)
    case None
    then show ?thesis using s r jailer_snapshot_files [of ob f src chroot j j1] assms(3) by (auto simp: holds_guest_def)
  next
    case (Some e)
    then have "lookupSnapshot j1 f = None" using r jailer_snapshot_fails assms(2) by (metis lookupSnapshot_def)
    then show ?thesis using s r Some by (auto simp: holds_guest_def)
  qed
qed

lemma stage_code_keeps:
  "stage_code ob f img j = (j1, r) \<Longrightarrow> jl_dataDir j1 = jl_dataDir j \<and> jl_snapshots j1 = jl_snapshots j"
  by (auto simp: stage_code_def write_file_def put_file_def split: option.splits dfile.splits)

lemma stage_code_image:
  assumes "stage_code ob f img j = (j1, None)" "map_of (jl_disk j) (FPJoin [fnDir j f, ''code.tar'']) = Some (DBytes code)"
  shows "map_of (jl_disk j1) img = Some (DBytes (pad_block 512 code))"
  using assms by (auto simp: stage_code_def put_file_def map_of_update split: option.splits)

lemma lookupSnapshot_cong: "jl_snapshots j1 = jl_snapshots j \<Longrightarrow> lookupSnapshot j1 f = lookupSnapshot j f"
  by (simp add: lookupSnapshot_def)

lemma cold_start_source:
  assumes "cold_start enc dec ob f tpl rq j = Some (j', evs, Inr resp)" "jl_dataDir j \<noteq> []" "lookupSnapshot j f = None"
    and "map_of (jl_disk j) (FPJoin [fnDir j f, ''code.tar'']) = Some (DBytes code)"
  shows "\<exists>cfg. exchange enc dec wrapped ob (Cold cfg (Some (DBytes (pad_block 512 code)))) f rq = Inr resp \<and>
    holds_guest j' f (Cold cfg (Some (DBytes (pad_block 512 code))))"
proof -
  define chroot where "chroot = FPJoin [jl_dataDir j, ''jail'', m_UID (f_Meta f) @ ''-'' @ fo_stamp ob]"
  define img where "img = FPJoin [chroot, ''code.img'']"
  define cfg where "cfg = buildVMConfig tpl img (FPJoin [chroot, ''v.sock'']) (fnMemMB f) 1"
  define conf where "conf = FPJoin [chroot, ''vm.json'']"
  have ch: "chroot \<noteq> []" using assms(2) by (simp add: chroot_def)
  then have ne: "img \<noteq> conf" unfolding img_def conf_def by (intro FPJoin_neq) simp_all
  obtain j1 where m: "mkdirs ob chroot j = (j1, None)"
    using assms(1) by (auto simp: cold_start_def Let_def chroot_def split: option.splits prod.splits)
  obtain j2 where st: "stage_code ob f img j1 = (j2, None)"
    using assms(1) m by (auto simp: cold_start_def Let_def chroot_def img_def split: option.splits prod.splits)
  let ?j3 = "put_file conf (DConfig cfg) j2"
  obtain j4 evs4 keep where r: "run_vm enc dec ob f cfg chroot img rq ?j3 = Some (j4, evs4, keep, Inr resp)"
    and j': "j' = (if keep then j4 else fst (RemoveAll ob chroot j4))"
    using assms(1) m st
    by (auto simp: cold_start_def Let_def chroot_def img_def cfg_def conf_def split: option.splits prod.splits)
  note k = mkdirs_keeps [OF m] stage_code_keeps [OF st]
  have "fnDir j1 f = fnDir j f" using k by (simp add: fnDir_def)
  then have "map_of (jl_disk j2) img = Some (DBytes (pad_block 512 code))"
    using stage_code_image [OF st] k assms(4) by simp
  then have src: "map_of (jl_disk ?j3) img = Some (DBytes (pad_block 512 code))" using ne by (simp add: put_file_def map_of_update)
  have "lookupSnapshot ?j3 f = None" "jl_dataDir ?j3 \<noteq> []" using k assms(2,3) by (simp_all add: lookupSnapshot_def put_file_def)
  from run_vm_source [OF r this refl] src
  have s: "exchange enc dec wrapped ob (Cold cfg (Some (DBytes (pad_block 512 code)))) f rq = Inr resp"
    "holds_guest j4 f (Cold cfg (Some (DBytes (pad_block 512 code))))" "\<not> keep \<longrightarrow> lookupSnapshot j4 f = None" by simp_all
  have "holds_guest j' f (Cold cfg (Some (DBytes (pad_block 512 code))))"
    using s j' by (cases keep) (auto simp: holds_guest_def lookupSnapshot_def)
  then show ?thesis using s(1) by blast
qed

lemma restore_source:
  assumes "restore enc dec ob f snap rq j = Some (j', evs, Inr resp)" "lookupSnapshot j f = Some snap" "holds_guest j f src"
  shows "exchange enc dec (\<lambda>_ e. e) ob (Warm (Some (DState src)) (Some (DState src))) f rq = Inr resp"
proof -
  obtain chroot where c: "restore_meta j snap = Inr chroot"
    using assms(1) by (auto simp: restore_def split: sum.splits)
  have ch: "chroot \<noteq> []" using c by (auto simp: restore_meta_def split: option.splits dfile.splits if_splits)
  have s: "snap \<noteq> []" using assms(2,3) by (simp add: holds_guest_def)
  have "FPJoin [chroot, ''fc-restore.sock''] \<noteq> FPJoin [snap, ''state.bin'']" "FPJoin [chroot, ''fc-restore.sock''] \<noteq> FPJoin [snap, ''mem.bin'']"
    using ch s by (intro FPJoin_neq; simp)+
  then have "map_of (AList.delete (FPJoin [chroot, ''fc-restore.sock'']) (jl_disk j)) (FPJoin [snap, ''state.bin'']) = Some (DState src)"
    "map_of (AList.delete (FPJoin [chroot, ''fc-restore.sock'']) (jl_disk j)) (FPJoin [snap, ''mem.bin'']) = Some (DState src)"
    using assms(2,3) by (auto simp: holds_guest_def map_of_delete)
  then show ?thesis using assms(1) c
    by (auto simp: restore_def Let_def split: option.splits sum.splits)
qed

text \<open>
  What an invocation runs: after a successful \<^verbatim>\<open>Deploy\<close> of a function without a snapshot, a
  successful invocation is the answer of a machine booted with exactly the deployed code,
  padded to sectors, on its code drive; and if the invocation recorded a snapshot, every
  successful restore answers from the saved state of that same machine.
\<close>

theorem deployed_code_runs:
  assumes "jailer_Deploy obd f code j = (j1, None)" "jl_dataDir j \<noteq> []" "lookupSnapshot j f = None"
    and "jailer_Invoke enc dec obr ob f rq j1 = Some (j2, evs, Inr resp)"
  shows "\<exists>cfg. exchange enc dec wrapped ob (Cold cfg (Some (DBytes (pad_block 512 code)))) f rq = Inr resp \<and>
    (\<forall>ob' rq' snap j3 evs' resp'. lookupSnapshot j2 f = Some snap \<and>
       restore enc dec ob' f snap rq' j2 = Some (j3, evs', Inr resp') \<longrightarrow>
       exchange enc dec (\<lambda>_ e. e) ob' (Warm (Some (DState (Cold cfg (Some (DBytes (pad_block 512 code))))))
         (Some (DState (Cold cfg (Some (DBytes (pad_block 512 code))))))) f rq' = Inr resp')"
proof -
  note d = jailer_Deploy_spec [OF assms(1)]
  have l: "lookupSnapshot j1 f = None" "jl_dataDir j1 \<noteq> []" using d assms(2,3) by simp_all
  have "fnDir j1 f = fnDir j f" using d(2) by (simp add: fnDir_def)
  then have code: "map_of (jl_disk j1) (FPJoin [fnDir j1 f, ''code.tar'']) = Some (DBytes code)" using d(6) by simp
  obtain tpl where "cold_start enc dec ob f tpl rq j1 = Some (j2, evs, Inr resp)"
    using assms(4) l(1) by (auto simp: jailer_Invoke_def Let_def split: option.splits if_splits)
  from cold_start_source [OF this l(2,1) code] obtain cfg where
    c: "exchange enc dec wrapped ob (Cold cfg (Some (DBytes (pad_block 512 code)))) f rq = Inr resp"
      "holds_guest j2 f (Cold cfg (Some (DBytes (pad_block 512 code))))" by blast
  have w: "exchange enc dec (\<lambda>_ e. e) ob' (Warm (Some (DState (Cold cfg (Some (DBytes (pad_block 512 code))))))
      (Some (DState (Cold cfg (Some (DBytes (pad_block 512 code))))))) f rq' = Inr resp'"
    if "lookupSnapshot j2 f = Some snap \<and> restore enc dec ob' f snap rq' j2 = Some (j3, evs', Inr resp')" for ob' rq' snap j3 evs' resp'
    by (rule restore_source [OF conjunct2 [OF that] conjunct1 [OF that] c(2)])
  show ?thesis by (rule exI [of _ cfg]) (intro conjI c(1) allI impI, rule w)
qed

text \<open>
  A snapshot outlives the code it was taken with: \<^verbatim>\<open>Deploy\<close> does not drop it, so that after a
  second deployment the restored machine still runs the first code.
\<close>

lemma stale_code_served:
  assumes "holds_guest j f src" "jailer_Deploy obd f code' j = (j1, r)" "jl_dataDir j \<noteq> []"
    and "lookupSnapshot j f = Some snap" "restore enc dec ob f snap rq j1 = Some (j2, evs, Inr resp)"
  shows "exchange enc dec (\<lambda>_ e. e) ob (Warm (Some (DState src)) (Some (DState src))) f rq = Inr resp"
proof -
  note d = jailer_Deploy_spec [OF assms(2)]
  have s: "snap \<noteq> []" using assms(1,4) by (simp add: holds_guest_def)
  have "FPJoin [snap, ''state.bin''] \<noteq> FPJoin [fnDir j f, ''code.tar'']" "FPJoin [snap, ''mem.bin''] \<noteq> FPJoin [fnDir j f, ''code.tar'']"
    using s assms(3) by (intro FPJoin_neq; simp)+
  then have "holds_guest j1 f src" using assms(1,4) d(1,5) by (auto simp: holds_guest_def)
  then show ?thesis using restore_source [OF assms(5)] d(1) assms(4) by simp
qed

text \<open>
  Snapshots do not survive a restart: they are stored under the project and the name, and
  \<^verbatim>\<open>NewJailer\<close> registers the directories right below by their own names.
\<close>

lemma Base_slash: "CHR ''/'' \<in> set (Base p) \<Longrightarrow> Base p = ''/''"
  by (auto simp: Base_def Let_def split: if_splits dest: set_takeWhileD)

lemma restart_forgets_snapshots:
  assumes "NewJailer lookPath ob dataDir disk dirs = Inr j" "m_Name (f_Meta f) \<noteq> []"
  shows "lookupSnapshot j f = None"
proof -
  let ?step = "\<lambda>n j. let dir = FPJoin [dataDir, ''snapshots'', n] in
         if map_of (jl_disk j) (FPJoin [dir, ''state.bin'']) \<noteq> None
         then j\<lparr>jl_snapshots := AList.update n dir (jl_snapshots j)\<rparr> else j"
  have k: "fnKey f \<noteq> Base p" for p
  proof
    assume "fnKey f = Base p"
    then have "fnKey f = ''/''" using Base_slash [of p] by (metis fnKey_def in_set_conv_decomp append_Cons append_Nil)
    then show False using assms(2) by (simp add: fnKey_def append_eq_Cons_conv)
  qed
  have "map_of (jl_snapshots (fold ?step ns j0)) (fnKey f) = map_of (jl_snapshots j0) (fnKey f)"
    if "set ns \<subseteq> range Base" for ns j0
    using that by (induction ns arbitrary: j0) (auto simp: Let_def map_of_update k)
  moreover have "set (ReadDir j0 d) \<subseteq> range Base" for j0 d by (auto simp: ReadDir_def)
  ultimately have r: "map_of (jl_snapshots (rediscover dataDir j0)) (fnKey f) = map_of (jl_snapshots j0) (fnKey f)" for j0
    unfolding rediscover_def by blast
  have m: "jl_snapshots j1 = jl_snapshots j0" if "mkdir_list ob ds j0 = (j1, e)" for ds j0 j1 e
    using that by (induction ds arbitrary: j0) (auto split: prod.splits option.splits dest: mkdirs_keeps)
  show ?thesis using assms(1) r m
    by (auto simp: NewJailer_def lookupSnapshot_def simp del: mkdir_list.simps split: if_splits prod.splits option.splits)
qed

section \<open>Witnesses\<close>

definition demo_poll :: poll_obs where
  "demo_poll = \<lparr>po_start = 0, po_clk = (\<lambda>i. int i * (100 * millisecond)), po_ctx = (\<lambda>_. None),
     po_end = (\<lambda>i. int i * (100 * millisecond) + 5)\<rparr>"

definition demo_fc :: fc_obs where
  "demo_fc = \<lparr>fo_q = id, fo_stat = (\<lambda>_. True), fo_stamp = ''1'', fo_mkdir = (\<lambda>_. None), fo_write = (\<lambda>_. None),
     fo_copy = None, fo_rm = (\<lambda>_. None), fo_spawn = (\<lambda>_. None), fo_api = (\<lambda>_ _. None), fo_wait = demo_poll, fo_appears = (\<lambda>_. True),
     fo_dial = demo_poll, fo_attempts = (\<lambda>_. \<lparr>da_dial = True, da_write = True, da_read = ''OK 1''\<rparr>),
     fo_conn = (\<lambda>_. None), fo_answer = (\<lambda>_ _. (PutUint32 (word_of_nat (length ''x'')) @ ''x'' @ [], ErrEOF)), fo_elapsed = 5\<rparr>"

definition demo_jailer :: jailer where
  "demo_jailer = \<lparr>jl_dataDir = ''/d'', jl_templates = [(''node-22'', \<lparr>tp_Name = ''node-22'', tp_Description = [],
     tp_KernelPath = ''/k'', tp_RootFSPath = ''/r'', tp_BootArgs = [], tp_Bootstrap = [], tp_Available = True\<rparr>)],
     jl_snapshots = [], jl_disk = [], jl_dirs = []\<rparr>"

definition demo_answer :: fc_response where
  "demo_answer = \<lparr>ps_Status = 200, ps_Headers = [], ps_Body = ''hi'', ps_Logs = [], ps_Error = []\<rparr>"

definition demo_call :: invoke_request where
  "demo_call = \<lparr>iq_Method = ''GET'', iq_Path = ''/'', iq_Headers = [], iq_Body = [], iq_Env = [], iq_SecretFiles = []\<rparr>"

lemma demo_exchange: "exchange (\<lambda>_. Inr ''q'') (\<lambda>_. Inr demo_answer) wrap demo_fc src f rq = Inr (response_of 5 demo_answer)"
  using ReadFrame_frame [of "''x''" "\<lambda>_. Inr demo_answer" "[]" ErrEOF]
  by (simp add: exchange_def demo_fc_def WriteFrame_def MaxMessageSize_def Let_def)


lemma demo_dial: "0 \<le> maxd \<Longrightarrow> dialAgent demo_poll (fo_attempts demo_fc) path maxd = Some (Inr ())"
  by (auto simp: dialAgent_def dial_turn_def demo_poll_def demo_fc_def dial_ok_def intro!: poll_stop)

abbreviation demo_fn :: func where "demo_fn \<equiv> demo_function ''hello'' ''ab''"

definition demo_deployed :: jailer where
  "demo_deployed = fst (jailer_Deploy demo_fc demo_fn ''code'' demo_jailer)"

definition demo_invoked :: "(jailer \<times> vm_event list \<times> (error + invoke_response)) option" where
  "demo_invoked = jailer_Invoke (\<lambda>_. Inr ''q'') (\<lambda>_. Inr demo_answer) demo_fc demo_fc demo_fn demo_call demo_deployed"

lemma demo_fc_simps [simp]:
  "fo_stat demo_fc p = True" "fo_mkdir demo_fc p = None" "fo_write demo_fc p = None" "fo_copy demo_fc = None"
  "fo_spawn demo_fc p = None" "fo_api demo_fc m p = None" "fo_dial demo_fc = demo_poll"
  by (simp_all add: demo_fc_def)

lemma demo_invoked_ok: "\<exists>j evs. demo_invoked = Some (j, evs, Inr (response_of 5 demo_answer))"
proof -
  have t: "map_of (jl_templates demo_deployed) ''node-22'' \<noteq> None" "lookupSnapshot demo_deployed demo_fn = None"
    "map_of (jl_disk demo_deployed) (FPJoin [fnDir demo_deployed demo_fn, ''code.tar'']) = Some (DBytes ''code'')"
    by (simp_all add: demo_deployed_def jailer_Deploy_def mkdirs_def write_file_def demo_fc_def demo_jailer_def Let_def
        add_dirs_def put_file_def lookupSnapshot_def fnDir_def)
  then have c: "\<exists>j evs. cold_start (\<lambda>_. Inr ''q'') (\<lambda>_. Inr demo_answer) demo_fc demo_fn tpl demo_call demo_deployed =
      Some (j, evs, Inr (response_of 5 demo_answer))" for tpl
    by (simp add: cold_start_def mkdirs_def stage_code_def fnDir_def add_dirs_def put_file_def run_vm_def demo_exchange
        demo_dial jailer_snapshot_def lookupSnapshot_def Let_def)
  obtain tpl where "map_of (jl_templates demo_deployed) ''node-22'' = Some tpl" using t(1) by auto
  then show ?thesis using c [of tpl] t(2) by (simp add: demo_invoked_def jailer_Invoke_def demo_function_def)
qed

theorem deployed_code_runs_witness:
  "\<exists>cfg. exchange (\<lambda>_. Inr ''q'') (\<lambda>_. Inr demo_answer) wrapped demo_fc (Cold cfg (Some (DBytes (pad_block 512 ''code''))))
     demo_fn demo_call = Inr (response_of 5 demo_answer)"
proof -
  obtain j evs where i: "jailer_Invoke (\<lambda>_. Inr ''q'') (\<lambda>_. Inr demo_answer) demo_fc demo_fc demo_fn demo_call demo_deployed =
      Some (j, evs, Inr (response_of 5 demo_answer))"
    using demo_invoked_ok unfolding demo_invoked_def by blast
  have d: "jailer_Deploy demo_fc demo_fn ''code'' demo_jailer = (demo_deployed, None)"
    by (simp add: demo_deployed_def jailer_Deploy_def mkdirs_def write_file_def Let_def)
  have "jl_dataDir demo_jailer \<noteq> []" "lookupSnapshot demo_jailer demo_fn = None"
    by (simp_all add: demo_jailer_def lookupSnapshot_def)
  from deployed_code_runs [OF d this i] show ?thesis by blast
qed

theorem vm_cleaned_up_witness:
  "balanced (fst (snd (the demo_invoked)))"
proof -
  obtain j evs where i: "demo_invoked = Some (j, evs, Inr (response_of 5 demo_answer))" using demo_invoked_ok by blast
  have "gone (FPJoin [jl_dataDir demo_deployed, ''jail'', m_UID (f_Meta demo_fn) @ ''-'' @ fo_stamp demo_fc]) demo_deployed"
    by code_simp
  from vm_cleaned_up [OF i [unfolded demo_invoked_def] refl this] show ?thesis unfolding i by simp
qed

end
