(* ===== verification/Agent.thy ===== *)
theory Agent
  imports Firecracker
begin

text \<open>
  The agent inside a microVM, \<^verbatim>\<open>internal/runtime/firecracker/agent/main.go\<close>: boot (mounting, the
  code drive, the manifest), and the handling of one connection. The kernel, the file system of
  the guest and the user's process are arguments; what the agent does to the file system is
  the list of its operations.
\<close>

section \<open>Boot\<close>

record manifest =
  mf_Entrypoint :: "string list"
  mf_Env :: strmap
  mf_Mode :: string
  mf_HTTPPort :: int
  mf_WorkDir :: string

definition empty_manifest :: manifest where
  "empty_manifest = \<lparr>mf_Entrypoint = [], mf_Env = [], mf_Mode = ''stdio'', mf_HTTPPort = 0, mf_WorkDir = []\<rparr>"

datatype guest_op =
    GMkdir string "32 word" | GWrite string "32 word" bytes | GSymlink string string | GRemove string

text \<open>The outcome of a mount: an error and whether it is \<^verbatim>\<open>EBUSY\<close>.\<close>

definition guest_mounts :: "(string \<times> string) list" where
  "guest_mounts = [(''proc'', ''/proc''), (''sysfs'', ''/sys''), (''devtmpfs'', ''/dev''), (''tmpfs'', ''/tmp''), (''tmpfs'', ''/run'')]"

definition mountFilesystems :: "(string \<Rightarrow> (error \<times> bool) option) \<Rightarrow> error option" where
  "mountFilesystems mnt =
     fold (\<lambda>(src, target) first.
       case mnt target of None \<Rightarrow> first
       | Some (e, busy) \<Rightarrow> if first = None \<and> \<not> busy then Some (wrapped (''mount '' @ target @ '': '') e) else first)
     guest_mounts None"

datatype tar_type = TypeDir | TypeReg | TypeSymlink | TypeOther

record tar_entry =
  te_Name :: string
  te_Type :: tar_type
  te_Mode :: int64
  te_Linkname :: string
  te_Data :: bytes

definition FileMode :: "int64 \<Rightarrow> 32 word" where
  "FileMode m = ucast m"

text \<open>
  The loop of \<^verbatim>\<open>extractTar\<close> over the entries of the archive; \<open>eof\<close> is how the archive ends (\<open>None\<close>
  is \<^verbatim>\<open>io.EOF\<close>), \<open>opn\<close> and \<open>cpy\<close> are the outcomes of opening and filling a file.
\<close>

fun extract_loop ::
  "(string \<Rightarrow> error option) \<Rightarrow> (string \<Rightarrow> (error \<times> nat) option) \<Rightarrow> string \<Rightarrow> error option \<Rightarrow> tar_entry list \<Rightarrow>
   guest_op list \<times> error option" where
  "extract_loop opn cpy dest eof [] = ([], eof)"
| "extract_loop opn cpy dest eof (hdr # rest) =
     (let clean = Clean (te_Name hdr) in
      if HasPrefix clean ''..'' \<or> HasPrefix clean ''/'' then extract_loop opn cpy dest eof rest
      else let target = FPJoin [dest, clean]; continue = (\<lambda>ops. case extract_loop opn cpy dest eof rest of (o2, r) \<Rightarrow> (ops @ o2, r)) in
        case te_Type hdr of
          TypeDir \<Rightarrow> continue [GMkdir target (or (FileMode (te_Mode hdr)) 0x49)]
        | TypeReg \<Rightarrow>
            (let ops = [GMkdir (Dir target) 0x1ED] in
             case opn target of Some e \<Rightarrow> (ops, Some e)
             | None \<Rightarrow>
                 (case cpy target of Some (e, n) \<Rightarrow> (ops @ [GWrite target (FileMode (te_Mode hdr)) (take n (te_Data hdr))], Some e)
                  | None \<Rightarrow> continue (ops @ [GWrite target (FileMode (te_Mode hdr)) (te_Data hdr)])))
        | TypeSymlink \<Rightarrow> continue [GSymlink (te_Linkname hdr) target]
        | TypeOther \<Rightarrow> continue [])"

definition extractTar ::
  "error option \<Rightarrow> error option \<Rightarrow> (string \<Rightarrow> error option) \<Rightarrow> (string \<Rightarrow> (error \<times> nat) option) \<Rightarrow> error option \<Rightarrow>
   tar_entry list \<Rightarrow> string \<Rightarrow> guest_op list \<times> error option" where
  "extractTar mkdir openTar opn cpy eof hdrs dest =
     (case mkdir of Some e \<Rightarrow> ([], Some e)
      | None \<Rightarrow>
          (case openTar of Some e \<Rightarrow> ([GMkdir dest 0x1ED], Some e)
           | None \<Rightarrow> (case extract_loop opn cpy dest eof hdrs of (ops, r) \<Rightarrow> (GMkdir dest 0x1ED # ops, r))))"

text \<open>
  \<^verbatim>\<open>mountCodeDrive\<close>. \<open>bo_manifest\<close> is the outcome of reading \<^verbatim>\<open>/srv/manifest.json\<close>: an error with
  the flag of \<^verbatim>\<open>os.ErrNotExist\<close>, or its bytes; \<open>decm\<close> is \<^verbatim>\<open>json.Unmarshal\<close> into a given manifest.
\<close>

record boot_obs =
  bo_mkdirCode :: "error option"
  bo_stat :: "string \<Rightarrow> error option"
  bo_mount :: "string \<Rightarrow> error option"
  bo_openDev :: "error option"
  bo_create :: "error option"
  bo_copyDev :: "error option"
  bo_mkdirSrv :: "error option"
  bo_openTar :: "error option"
  bo_open :: "string \<Rightarrow> error option"
  bo_copy :: "string \<Rightarrow> (error \<times> nat) option"
  bo_archive :: "tar_entry list"
  bo_eof :: "error option"
  bo_manifest :: "(error \<times> bool) + bytes"

definition mountCodeDrive ::
  "(bytes \<Rightarrow> manifest \<Rightarrow> error + manifest) \<Rightarrow> boot_obs \<Rightarrow> guest_op list \<times> (error + manifest)" where
  "mountCodeDrive decm ob =
     (case bo_mkdirCode ob of Some e \<Rightarrow> ([], Inl e)
      | None \<Rightarrow>
          (case bo_stat ob ''/dev/vdb'' of Some e \<Rightarrow> ([], Inl e)
           | None \<Rightarrow>
               (let mounted = bo_mount ob ''ext4'' = None \<or> bo_mount ob ''ext2'' = None;
                    tarPath = (if mounted then ''/code/code.tar'' else ''/tmp/code.tar'')
                in case (if mounted then None else if bo_openDev ob \<noteq> None then bo_openDev ob
                         else if bo_create ob \<noteq> None then bo_create ob else bo_copyDev ob) of
                     Some e \<Rightarrow> ([], Inl e)
                   | None \<Rightarrow>
                       (case (if bo_stat ob tarPath = None
                              then extractTar (bo_mkdirSrv ob) (bo_openTar ob) (bo_open ob) (bo_copy ob) (bo_eof ob) (bo_archive ob) ''/srv''
                              else ([GSymlink ''/code'' ''/srv''], None)) of
                          (ops, Some e) \<Rightarrow> (ops, Inl (wrapped ''extract: '' e))
                        | (ops, None) \<Rightarrow>
                            (case bo_manifest ob of
                               Inr b \<Rightarrow> (ops, case decm b empty_manifest of Inl e \<Rightarrow> Inl (wrapped ''manifest.json: '' e)
                                              | Inr mf \<Rightarrow> Inr mf)
                             | Inl (e, notExist) \<Rightarrow>
                                 (ops, if notExist then Inr empty_manifest else Inl (wrapped ''read manifest: '' e)))))))"

text \<open>The manifest \<^verbatim>\<open>main\<close> serves with.\<close>

definition effective_manifest :: "error + manifest \<Rightarrow> manifest" where
  "effective_manifest r =
     (let mf = (case r of Inl e \<Rightarrow> empty_manifest | Inr m \<Rightarrow> m);
          mf = (if mf_Mode mf = [] then mf\<lparr>mf_Mode := ''stdio''\<rparr> else mf)
      in if mf_HTTPPort mf = 0 then mf\<lparr>mf_HTTPPort := 8080\<rparr> else mf)"

section \<open>Serving a connection\<close>

definition orDefault :: "string \<Rightarrow> string \<Rightarrow> string" where
  "orDefault v d = (if v = [] then d else v)"

definition agent_mergeEnv :: "string list \<Rightarrow> strmap list \<Rightarrow> string list" where
  "agent_mergeEnv base overlays = base @ concat (map (map (\<lambda>(k, v). k @ ''='' @ v)) overlays)"

text \<open>\<^verbatim>\<open>fmt.Sscanf(v, "%d", &ms)\<close>: blanks, an optional sign, decimal digits, in the range of \<^verbatim>\<open>int\<close>.\<close>

definition is_digit :: "char \<Rightarrow> bool" where
  "is_digit c = (let n = of_char c :: nat in 48 \<le> n \<and> n \<le> 57)"

definition dec_value :: "string \<Rightarrow> int" where
  "dec_value ds = foldl (\<lambda>a c. 10 * a + (of_char c - 48)) 0 ds"

definition Sscanf_d :: "string \<Rightarrow> int option" where
  "Sscanf_d s =
     (let s = dropWhile (\<lambda>c. c = CHR '' '' \<or> c = CHR 0x09) s;
          neg = HasPrefix s ''-'';
          s = (if neg \<or> HasPrefix s ''+'' then drop 1 s else s);
          ds = takeWhile is_digit s;
          n = (if neg then - dec_value ds else dec_value ds)
      in if ds = [] then None else if n < - (2 ^ 63) \<or> 2 ^ 63 \<le> n then None else Some n)"

definition deadlineFromEnv :: "fc_request \<Rightarrow> duration option" where
  "deadlineFromEnv rq =
     (case map_of (pq_Env rq) ''SELFCLOUD_TIMEOUT_MS'' of None \<Rightarrow> None
      | Some v \<Rightarrow> (case Sscanf_d v of None \<Rightarrow> None | Some ms \<Rightarrow> if ms \<le> 0 then None else Some (ms * 1000000)))"

text \<open>\<^verbatim>\<open>stageSecretFiles\<close>: \<open>mk\<close> are the outcomes of \<^verbatim>\<open>MkdirAll\<close>, \<open>ln\<close> of \<^verbatim>\<open>Symlink\<close>.\<close>

definition secrets_stage :: string where "secrets_stage = ''/run/selfcloud/secrets''"

definition stage_one :: "(string \<Rightarrow> error option) \<Rightarrow> (string \<Rightarrow> error option) \<Rightarrow> string \<times> bytes \<Rightarrow> guest_op list" where
  "stage_one mk ln entry =
     (let (guestPath, data) = entry in
      if guestPath = [] then []
      else
        (let ops = (if mk (Dir guestPath) = None
                    then [GMkdir (Dir guestPath) 0x1C0, GWrite guestPath 0x100 data] else []);
             base = Base guestPath
         in if base = [] \<or> base = ''/'' \<or> base = ''.'' then ops
            else let canonical = FPJoin [secrets_stage, base] in
              ops @ [GRemove canonical,
                if ln canonical = None then GSymlink guestPath canonical else GWrite canonical 0x100 data]))"

definition stageSecretFiles ::
  "(string \<Rightarrow> error option) \<Rightarrow> (string \<Rightarrow> error option) \<Rightarrow> fc_request \<Rightarrow> guest_op list \<times> error option" where
  "stageSecretFiles mk ln rq =
     (if pq_SecretFiles rq = [] then ([], None)
      else case mk secrets_stage of Some e \<Rightarrow> ([], Some e)
      | None \<Rightarrow> (GMkdir secrets_stage 0x1C0 # concat (map (stage_one mk ln) (pq_SecretFiles rq)), None))"

text \<open>The envelopes of the standard streams; \<open>ence\<close> and \<open>dece\<close> are their JSON codecs.\<close>

record stdin_envelope =
  se_Method :: string
  se_Path :: string
  se_Headers :: "(string \<times> string list) list"
  se_Body :: string
  se_Env :: strmap

record stdout_envelope =
  so_Status :: int
  so_Headers :: "(string \<times> string list) list"
  so_Body :: string

definition encodeStdinEnvelope :: "(stdin_envelope \<Rightarrow> bytes) \<Rightarrow> fc_request \<Rightarrow> bytes" where
  "encodeStdinEnvelope ence rq =
     ence \<lparr>se_Method = pq_Method rq, se_Path = pq_Path rq, se_Headers = pq_Headers rq, se_Body = pq_Body rq,
           se_Env = pq_Env rq\<rparr> @ [CHR 0x0A]"

definition decodeStdoutEnvelope :: "(bytes \<Rightarrow> error + stdout_envelope) \<Rightarrow> bytes \<Rightarrow> fc_response" where
  "decodeStdoutEnvelope dece stdout =
     (let b = TrimSpace stdout in
      if b = [] then \<lparr>ps_Status = 204, ps_Headers = [], ps_Body = [], ps_Logs = [], ps_Error = []\<rparr>
      else case dece b of
        Inl e \<Rightarrow> \<lparr>ps_Status = 200, ps_Headers = [(''Content-Type'', [''text/plain; charset=utf-8''])], ps_Body = b,
                  ps_Logs = [], ps_Error = []\<rparr>
      | Inr env \<Rightarrow> \<lparr>ps_Status = (if so_Status env = 0 then 200 else so_Status env), ps_Headers = so_Headers env,
                    ps_Body = so_Body env, ps_Logs = [], ps_Error = []\<rparr>)"

text \<open>
  One connection. \<open>run\<close> is \<^verbatim>\<open>cmd.Run\<close>: from the arguments, the directory, the environment, the
  input and the timeout to the two outputs and the error. \<open>enc\<close> encodes a response, \<open>wr\<close> are the
  outcomes of the writes to the connection; the result is what was written to it.
\<close>

type_synonym command = "string list \<Rightarrow> string \<Rightarrow> string list \<Rightarrow> bytes \<Rightarrow> duration option \<Rightarrow> bytes \<times> bytes \<times> error option"

definition error_response :: "string \<Rightarrow> fc_response" where
  "error_response msg = \<lparr>ps_Status = 500, ps_Headers = [], ps_Body = [], ps_Logs = [], ps_Error = msg\<rparr>"

definition writeErr :: "(fc_response \<Rightarrow> error + bytes) \<Rightarrow> (nat \<Rightarrow> (error \<times> nat) option) \<Rightarrow> string \<Rightarrow> bytes" where
  "writeErr enc wr msg = fst (WriteFrame enc wr (error_response msg))"

definition stdio_response ::
  "(stdin_envelope \<Rightarrow> bytes) \<Rightarrow> (bytes \<Rightarrow> error + stdout_envelope) \<Rightarrow> bool \<Rightarrow> string list \<Rightarrow> command \<Rightarrow> manifest \<Rightarrow>
   fc_request \<Rightarrow> fc_response" where
  "stdio_response ence dece handlerExists environ run mf rq =
     (if mf_Entrypoint mf = [] \<and> \<not> handlerExists then error_response ''no entrypoint configured''
      else
        (let entry = (if mf_Entrypoint mf = [] then [''/srv/handler''] else mf_Entrypoint mf);
             env = agent_mergeEnv environ [mf_Env mf, pq_Env rq,
               [(''SELFCLOUD_REQUEST_METHOD'', pq_Method rq), (''SELFCLOUD_REQUEST_PATH'', pq_Path rq)]];
             (stdout, stderr, err) = run entry (orDefault (mf_WorkDir mf) ''/srv'') env (encodeStdinEnvelope ence rq)
               (deadlineFromEnv rq);
             resp = (decodeStdoutEnvelope dece stdout)\<lparr>ps_Logs := stderr\<rparr>
         in case err of
              Some e \<Rightarrow> if ps_Status resp = 0 then resp\<lparr>ps_Status := 500, ps_Error := errorString e\<rparr> else resp
            | None \<Rightarrow> resp))"

definition serveStdio where
  "serveStdio enc wr ence dece handlerExists environ run mf rq =
     fst (WriteFrame enc wr (stdio_response ence dece handlerExists environ run mf rq))"

text \<open>
  \<^verbatim>\<open>serveHTTP\<close>: \<open>child\<close> says whether the child runs, \<open>spawn\<close> is the outcome of starting a command (its
  arguments, directory and environment), \<open>mkreq\<close> of building a request with a method and a URL. The
  request forwarded to the child is built once and sent in at most 30 attempts: \<open>attempt i h\<close> is
  the outcome of the \<open>i\<close>-th, an error or the status, the headers and the body, with the number
  of bytes it read from the body of the request, which the next attempt does not get again.
\<close>

type_synonym spawner = "string list \<Rightarrow> string \<Rightarrow> string list \<Rightarrow> error option"

definition spawnHTTPChild :: "spawner \<Rightarrow> string list \<Rightarrow> manifest \<Rightarrow> error option" where
  "spawnHTTPChild spawn environ mf =
     (if mf_Entrypoint mf = [] then Some (Err ''manifest.entrypoint required for http mode'')
      else spawn (mf_Entrypoint mf) (orDefault (mf_WorkDir mf) ''/srv'') (agent_mergeEnv environ [mf_Env mf]))"

record child_request =
  cr_Method :: string
  cr_URL :: string
  cr_Header :: http_header
  cr_ContentLength :: nat
  cr_Body :: bytes

type_synonym http_answer = "error + (int \<times> http_header \<times> bytes)"
type_synonym http_attempt = "nat \<Rightarrow> child_request \<Rightarrow> http_answer \<times> nat"

definition child_url :: "manifest \<Rightarrow> fc_request \<Rightarrow> string" where
  "child_url mf rq = ''http://127.0.0.1:'' @ Itoa (mf_HTTPPort mf) @ pq_Path rq"

definition forwarded :: "manifest \<Rightarrow> fc_request \<Rightarrow> child_request" where
  "forwarded mf rq =
     \<lparr>cr_Method = (if pq_Method rq = [] then ''GET'' else pq_Method rq), cr_URL = child_url mf rq,
      cr_Header = Header_AddAll (pq_Headers rq) [], cr_ContentLength = length (pq_Body rq), cr_Body = pq_Body rq\<rparr>"

fun http_attempts :: "http_attempt \<Rightarrow> nat \<Rightarrow> nat \<Rightarrow> error \<Rightarrow> child_request \<Rightarrow> http_answer" where
  "http_attempts attempt i 0 lastErr h = Inl lastErr"
| "http_attempts attempt i (Suc k) lastErr h =
     (case attempt i h of
        (Inr r, _) \<Rightarrow> Inr r
      | (Inl e, n) \<Rightarrow> http_attempts attempt (i + 1) k e (h\<lparr>cr_Body := drop n (cr_Body h)\<rparr>))"

definition http_response ::
  "spawner \<Rightarrow> string list \<Rightarrow> (string \<Rightarrow> string \<Rightarrow> error option) \<Rightarrow> http_attempt \<Rightarrow> manifest \<Rightarrow>
   fc_request \<Rightarrow> bool \<Rightarrow> bool \<times> fc_response" where
  "http_response spawn environ mkreq attempt mf rq child =
     (case (if child then None else spawnHTTPChild spawn environ mf) of
        Some e \<Rightarrow> (False, error_response (''spawn http child: '' @ errorString e))
      | None \<Rightarrow>
          (True, case mkreq (pq_Method rq) (child_url mf rq) of
             Some e \<Rightarrow> error_response (''build http request: '' @ errorString e)
           | None \<Rightarrow>
               (case http_attempts attempt 0 30 (Err []) (forwarded mf rq) of
                  Inl e \<Rightarrow> error_response (''proxy: '' @ errorString e)
                | Inr (status, hs, body) \<Rightarrow>
                    \<lparr>ps_Status = status, ps_Headers = hs, ps_Body = take MaxMessageSize body, ps_Logs = [], ps_Error = []\<rparr>)))"

definition serveHTTP where
  "serveHTTP enc wr spawn environ mkreq attempt mf rq child =
     (case http_response spawn environ mkreq attempt mf rq child of (child', resp) \<Rightarrow> (child', fst (WriteFrame enc wr resp)))"

record guest_obs =
  go_mkdir :: "string \<Rightarrow> error option"
  go_symlink :: "string \<Rightarrow> error option"
  go_handler :: bool
  go_environ :: "string list"
  go_run :: command
  go_spawn :: spawner
  go_mkreq :: "string \<Rightarrow> string \<Rightarrow> error option"
  go_attempt :: http_attempt
  go_wr :: "nat \<Rightarrow> (error \<times> nat) option"

record agent_codecs =
  ac_decq :: "bytes \<Rightarrow> error + fc_request"
  ac_encs :: "fc_response \<Rightarrow> error + bytes"
  ac_ence :: "stdin_envelope \<Rightarrow> bytes"
  ac_dece :: "bytes \<Rightarrow> error + stdout_envelope"

definition handleConn ::
  "agent_codecs \<Rightarrow> guest_obs \<Rightarrow> manifest \<Rightarrow> reader \<Rightarrow> bool \<Rightarrow> bool \<times> guest_op list \<times> bytes" where
  "handleConn C ob mf conn child =
     (case ReadFrame (ac_decq C) conn of
        (_, Inl e) \<Rightarrow> (child, [], writeErr (ac_encs C) (go_wr ob) (''read request: '' @ errorString e))
      | (_, Inr rq) \<Rightarrow>
          (let ops = fst (stageSecretFiles (go_mkdir ob) (go_symlink ob) rq);
               mode = (if pq_Mode rq = [] then mf_Mode mf else pq_Mode rq)
           in if mode = ''http''
              then (case serveHTTP (ac_encs C) (go_wr ob) (go_spawn ob) (go_environ ob) (go_mkreq ob) (go_attempt ob) mf rq child of
                      (child', out) \<Rightarrow> (child', ops, out))
              else (child, ops, serveStdio (ac_encs C) (go_wr ob) (ac_ence C) (ac_dece C) (go_handler ob) (go_environ ob)
                      (go_run ob) mf rq)))"

end
