(* ===== verification/Agent_Props.thy ===== *)
theory Agent_Props
  imports Agent Firecracker_Props "HOL-Library.Sublist"
begin

text \<open>
  Properties of the agent in the guest: where it unpacks an archive, and that host and guest
  agree on a request and its answer.
\<close>

section \<open>Unpacking\<close>

fun op_path :: "guest_op \<Rightarrow> string" where
  "op_path (GMkdir p m) = p"
| "op_path (GWrite p m b) = p"
| "op_path (GSymlink old p) = p"
| "op_path (GRemove p) = p"

text \<open>The path has the elements of the directory followed by others, none a parent reference.\<close>

definition below :: "string \<Rightarrow> string \<Rightarrow> bool" where
  "below d p \<longleftrightarrow> rooted p = rooted d \<and> (\<exists>es. list_all plain_elem es \<and> path_elems p = path_elems d @ es)"

lemma below_target:
  assumes "d \<noteq> []" "\<not> (HasPrefix (Clean n) ''..'' \<or> HasPrefix (Clean n) ''/'')"
  shows "below d (FPJoin [d, Clean n])"
    "below d (Dir (FPJoin [d, Clean n])) \<or> Dir (FPJoin [d, Clean n]) = Dir (Clean d)"
proof -
  obtain es where es: "list_all plain_elem es" "path_elems (FPJoin [d, Clean n]) = path_elems d @ es"
    "rooted (FPJoin [d, Clean n]) = rooted d" using FPJoin_below [OF assms(1)] assms(2) by blast
  then show "below d (FPJoin [d, Clean n])" by (auto simp: below_def)
  have j: "FPJoin [d, Clean n] = Clean (d @ ''/'' @ Clean n)" using assms(1) by (simp add: FPJoin_def)
  let ?q = "d @ ''/'' @ Clean n"
  show "below d (Dir (FPJoin [d, Clean n])) \<or> Dir (FPJoin [d, Clean n]) = Dir (Clean d)"
  proof (cases es rule: rev_cases)
    case Nil
    have e: "path_elems ?q = path_elems d" "rooted ?q = rooted d" using es(2,3) Nil unfolding j by simp_all
    have "Clean ?q = Clean d" unfolding Clean_def [of ?q] Clean_def [of d] e using assms(1) by simp
    then show ?thesis by (simp add: j)
  next
    case (snoc xs b)
    then have "path_elems ?q = (path_elems d @ xs) @ [b]" using es(2) by (simp add: j)
    from Dir_Clean [OF this] show ?thesis using es(1,3) snoc by (auto simp: below_def j)
  qed
qed

lemma extract_loop_below:
  assumes "dest \<noteq> []"
  shows "\<forall>op \<in> set (fst (extract_loop opn cpy dest eof hdrs)). below dest (op_path op) \<or> op = GMkdir (Dir (Clean dest)) 0x1ED"
proof (induction hdrs)
  case (Cons hdr rest)
  show ?case
  proof (cases "HasPrefix (Clean (te_Name hdr)) ''..'' \<or> HasPrefix (Clean (te_Name hdr)) ''/''")
    case True
    then show ?thesis using Cons by (simp add: Let_def)
  next
    case False
    note b = below_target [OF assms False]
    show ?thesis using Cons b False
      by (auto simp: Let_def split: tar_type.splits option.splits prod.splits)
  qed
qed simp

text \<open>
  Where the kernel goes for a path: the elements are walked from the root, a parent reference
  drops the last one, and a symbolic link is replaced by its target, relative to the directory that holds it or
  from the root, at most forty times. \<open>L\<close> are the links there are; everything else counts as a
  directory, so a walk only ends without a location where the kernel gives up on links.
\<close>

type_synonym location = "string list"
type_synonym links = "location \<Rightarrow> string option"

definition kernel_elems :: "string \<Rightarrow> string list" where
  "kernel_elems p = filter (\<lambda>e. e \<noteq> [] \<and> e \<noteq> ''.'') (SplitByte p CHR ''/'')"

function walk :: "nat \<Rightarrow> links \<Rightarrow> location \<Rightarrow> string list \<Rightarrow> location option" where
  "walk n L cur [] = Some cur"
| "walk n L cur (e # es) =
     (if e = ''..'' then walk n L (butlast cur) es
      else case L (cur @ [e]) of
        None \<Rightarrow> walk n L (cur @ [e]) es
      | Some t \<Rightarrow> (case n of 0 \<Rightarrow> None | Suc m \<Rightarrow> walk m L (if rooted t then [] else cur) (kernel_elems t @ es)))"
  by pat_completeness auto

termination by (relation "measures [\<lambda>(n, L, cur, es). n, \<lambda>(n, L, cur, es). length es]") auto

definition follow :: "links \<Rightarrow> string list \<Rightarrow> location option" where
  "follow L es = walk 40 L [] es"

text \<open>
  The last element of a path that is created or removed itself is not followed. What an operation may touch: a file
  where its path leads, a directory that was missing on the way to its path, a link that is
  new, or what is removed. \<open>E\<close> are locations where something exists, which no link replaces and
  for which no directory is made.
\<close>

definition entry_at :: "links \<Rightarrow> string list \<Rightarrow> location option" where
  "entry_at L es = (if es = [] then Some [] else map_option (\<lambda>d. d @ [last es]) (follow L (butlast es)))"

definition fresh :: "location set \<Rightarrow> location option \<Rightarrow> bool" where
  "fresh E l = (case l of None \<Rightarrow> False | Some p \<Rightarrow> p \<notin> E)"

fun touches :: "location set \<Rightarrow> links \<Rightarrow> guest_op \<Rightarrow> location option list" where
  "touches E L (GMkdir p m) =
     filter (fresh E) (map (\<lambda>i. follow L (take i (kernel_elems p))) [0..<Suc (length (kernel_elems p))])"
| "touches E L (GWrite p m b) = [follow L (kernel_elems p)]"
| "touches E L (GSymlink t p) = filter (fresh E) [entry_at L (kernel_elems p)]"
| "touches E L (GRemove p) = [entry_at L (kernel_elems p)]"

text \<open>The links after a list of operations, each of which may have failed.\<close>

inductive links_run :: "location set \<Rightarrow> links \<Rightarrow> guest_op list \<Rightarrow> links \<Rightarrow> bool" for E where
  none: "links_run E L [] L"
| other: "links_run E L ops L' \<Longrightarrow> links_run E L (op # ops) L'"
| link: "Some loc \<in> set (touches E L (GSymlink t p)) \<Longrightarrow> links_run E (L(loc \<mapsto> t)) ops L' \<Longrightarrow>
    links_run E L (GSymlink t p # ops) L'"

text \<open>A target that leads neither to the root nor upwards.\<close>

definition inner_link :: "string \<Rightarrow> bool" where
  "inner_link t \<longleftrightarrow> \<not> rooted t \<and> ''..'' \<notin> set (kernel_elems t)"

text \<open>A directory \<open>D\<close> with no link on the way to it and only inner links below it.\<close>

definition sealed :: "location \<Rightarrow> links \<Rightarrow> bool" where
  "sealed D L \<longleftrightarrow> ''..'' \<notin> set D \<and> (\<forall>p. prefix p D \<longrightarrow> L p = None) \<and> (\<forall>p t. L p = Some t \<longrightarrow> prefix D p \<longrightarrow> inner_link t)"

lemma walk_below:
  shows "sealed D L \<Longrightarrow> walk n L cur es = Some loc \<Longrightarrow> prefix D cur \<Longrightarrow> ''..'' \<notin> set es \<Longrightarrow> prefix D loc"
proof (induction n L cur es rule: walk.induct)
  case (2 n L cur e es)
  have p: "prefix D (cur @ [e])" and e: "e \<noteq> ''..''" using "2.prems"(3,4) by auto
  show ?case
  proof (cases "L (cur @ [e])")
    case None
    then show ?thesis using "2.IH"(2) "2.prems" p e by simp
  next
    case (Some t)
    then have "inner_link t" using "2.prems"(1) p by (auto simp: sealed_def)
    then show ?thesis using "2.IH"(3) "2.prems" Some e by (cases n) (auto simp: inner_link_def)
  qed
qed simp

lemma walk_to:
  assumes "sealed D L"
  shows "prefix (cur @ xs) D \<Longrightarrow> walk n L cur (xs @ es) = walk n L (cur @ xs) es"
proof (induction xs arbitrary: cur)
  case (Cons x xs)
  have "prefix (cur @ [x]) D" using Cons.prems by (metis append_assoc append_Cons append_Nil prefix_order.trans prefixI)
  moreover have "x \<noteq> ''..''" using assms Cons.prems by (auto simp: sealed_def prefix_def)
  ultimately show ?case using assms Cons.IH [of "cur @ [x]"] Cons.prems by (simp add: sealed_def)
qed simp

lemma follow_below:
  assumes "sealed D L" "follow L (D @ es) = Some loc" "''..'' \<notin> set es"
  shows "prefix D loc"
  using walk_below [OF assms(1), of 40 D es loc] walk_to [OF assms(1), of "[]" D 40 es] assms by (simp add: follow_def)

lemma follow_above:
  assumes "sealed D L" "prefix es D"
  shows "follow L es = Some es"
  using walk_to [OF assms(1), of "[]" es 40 "[]"] assms(2) by (simp add: follow_def)

text \<open>Operations with cleaned paths at or below the directory, or on an ancestor, touch only what is below it.\<close>

definition inner_op :: "location \<Rightarrow> guest_op \<Rightarrow> bool" where
  "inner_op D op \<longleftrightarrow> (\<exists>es. ''..'' \<notin> set es \<and> kernel_elems (op_path op) = D @ es) \<or>
     (\<exists>p m. op = GMkdir p m \<and> prefix (kernel_elems p) D)"

lemma touches_below:
  assumes s: "sealed D L" and E: "\<forall>p. prefix p D \<longrightarrow> p \<in> E"
    and op: "inner_op D op" "\<forall>p. op \<noteq> GRemove p" and t: "Some loc \<in> set (touches E L op)"
  shows "prefix D loc"
proof (cases op)
  case (GMkdir p m)
  let ?ks = "kernel_elems p"
  obtain i where i: "follow L (take i ?ks) = Some loc" "loc \<notin> E" using t GMkdir by (auto simp: fresh_def simp del: upt_Suc split: option.splits)
  show ?thesis
  proof (cases "prefix (take i ?ks) D")
    case True
    then show ?thesis using follow_above [OF s True] i E by auto
  next
    case False
    then obtain es where es: "''..'' \<notin> set es" "?ks = D @ es"
      using op(1) GMkdir by (auto simp: inner_op_def intro: take_is_prefix prefix_order.trans)
    then have "take i ?ks = D @ take (i - length D) es" using False by (cases "i \<le> length D") (auto simp: take_is_prefix)
    then show ?thesis using follow_below [OF s, of "take (i - length D) es" loc] i(1) es(1) by (auto dest: in_set_takeD)
  qed
next
  case (GWrite p m b)
  then show ?thesis using op(1) t follow_below [OF s] by (auto simp: inner_op_def)
next
  case (GSymlink t' p)
  then obtain es where es: "''..'' \<notin> set es" "kernel_elems p = D @ es" using op(1) by (auto simp: inner_op_def)
  have l: "entry_at L (D @ es) = Some loc" "loc \<notin> E" using t GSymlink es(2) by (auto simp: fresh_def split: if_splits option.splits)
  show ?thesis
  proof (cases es rule: rev_cases)
    case Nil
    have "prefix (butlast D) D" by (simp add: prefixeq_butlast)
    then have "loc = D" using l(1) Nil follow_above [OF s, of "butlast D"] by (auto simp: entry_at_def split: if_splits)
    then show ?thesis by simp
  next
    case (snoc xs x)
    obtain d where "follow L (D @ xs) = Some d" "loc = d @ [x]" using l(1) snoc by (auto simp: entry_at_def butlast_append)
    then show ?thesis using follow_below [OF s, of xs d] es(1) snoc by simp
  qed
qed (use op(2) in blast)

lemma sealed_run:
  assumes "links_run E L ops L'"
  shows "sealed D L \<Longrightarrow> \<forall>p. prefix p D \<longrightarrow> p \<in> E \<Longrightarrow>
    \<forall>op\<in>set ops. inner_op D op \<and> (\<forall>p. op \<noteq> GRemove p) \<and> (\<forall>t p. op = GSymlink t p \<longrightarrow> inner_link t) \<Longrightarrow> sealed D L'"
  using assms
proof induction
  case (link loc L t p ops L')
  have "prefix D loc" by (rule touches_below [OF link.prems(1,2), of "GSymlink t p"]) (use link in auto)
  moreover have "loc \<notin> E" using link.hyps(1) by (auto simp: fresh_def split: if_splits option.splits)
  ultimately have "sealed D (L(loc \<mapsto> t))" using link.prems unfolding sealed_def by auto
  then show ?case using link.IH link.prems by (simp add: fun_upd_def)
qed auto

lemma kernel_elems_Clean:
  assumes "rooted p" "Clean p = p"
  shows "kernel_elems p = path_elems p" "''..'' \<notin> set (path_elems p)"
proof -
  have pl: "list_all plain_elem (path_elems p)" using cleaned_path_elems [of p] assms(1) by (simp add: cleaned_def)
  have "p \<noteq> []" using assms(1) by (auto simp: rooted_def HasPrefix_def)
  then have e: "p = ''/'' @ Join (path_elems p) ''/''" using assms by (simp add: Clean_def)
  have "SplitByte (''/'' @ Join es ''/'') CHR ''/'' = [] # (if es = [] then [[]] else es)" if "list_all plain_elem es" for es
    using SplitByte_Join [of es "CHR ''/''"] that by (auto simp: list_all_iff plain_elem_def)
  from this [OF pl] have "SplitByte p CHR ''/'' = [] # (if path_elems p = [] then [[]] else path_elems p)" using arg_cong [OF e, of "\<lambda>s. SplitByte s CHR ''/''"] by (simp only:)
  moreover have "filter (\<lambda>e. e \<noteq> [] \<and> e \<noteq> ''.'') (path_elems p) = path_elems p"
    by (rule filter_True) (use pl in \<open>auto simp: list_all_iff plain_elem_def\<close>)
  ultimately show "kernel_elems p = path_elems p" by (simp add: kernel_elems_def)
  show "''..'' \<notin> set (path_elems p)" using pl by (auto simp: list_all_iff plain_elem_def)
qed

lemma extract_loop_ops:
  assumes "dest \<noteq> []"
  shows "\<forall>op \<in> set (fst (extract_loop opn cpy dest eof hdrs)). Clean (op_path op) = op_path op \<and> (\<forall>p. op \<noteq> GRemove p) \<and>
    (\<forall>t p. op = GSymlink t p \<longrightarrow> (\<exists>h\<in>set hdrs. te_Type h = TypeSymlink \<and> t = te_Linkname h))"
proof (induction hdrs)
  case (Cons hdr rest)
  have c: "Clean (FPJoin [dest, x]) = FPJoin [dest, x]" "Clean (Dir y) = Dir y" for x y
    using assms by (simp_all add: FPJoin_def Dir_def Clean_idem)
  show ?case using Cons c by (auto simp: Let_def split: tar_type.splits option.splits prod.splits)
qed simp

lemma kernel_elems_Dir:
  assumes "rooted d" "Clean d = d"
  shows "prefix (kernel_elems (Dir d)) (path_elems d)"
proof (cases "path_elems d" rule: rev_cases)
  case Nil
  then have "d = ''/''" using assms by (auto simp: Clean_def rooted_def HasPrefix_def split: if_splits)
  moreover have "kernel_elems (Dir ''/'') = []" by code_simp
  ultimately show ?thesis by simp
next
  case (snoc xs b)
  have "d \<noteq> []" using assms(1) by (auto simp: rooted_def HasPrefix_def)
  from Dir_Clean [OF snoc this] have D: "path_elems (Dir d) = xs" "rooted (Dir d)" using assms by simp_all
  have "Clean (Dir d) = Dir d" by (simp add: Dir_def Clean_idem)
  then show ?thesis using kernel_elems_Clean(1) [OF D(2)] D(1) snoc by simp
qed

lemma extract_inner:
  assumes "extractTar mkdir openTar opn cpy eof hdrs dest = (ops, r)" "rooted dest" "Clean dest = dest"
    and "\<forall>h\<in>set hdrs. te_Type h = TypeSymlink \<longrightarrow> inner_link (te_Linkname h)" "op \<in> set ops"
  shows "inner_op (path_elems dest) op \<and> (\<forall>p. op \<noteq> GRemove p) \<and> (\<forall>t p. op = GSymlink t p \<longrightarrow> inner_link t)"
proof -
  have ne: "dest \<noteq> []" using assms(2) by (auto simp: rooted_def HasPrefix_def)
  have i: "inner_op (path_elems dest) o1" if "below dest (op_path o1)" "Clean (op_path o1) = op_path o1" for o1
    using that assms(2) kernel_elems_Clean [of "op_path o1"] by (auto simp: below_def inner_op_def list_all_iff plain_elem_def)
  consider (first) "op = GMkdir dest 0x1ED" | (entry) "op \<in> set (fst (extract_loop opn cpy dest eof hdrs))"
    using assms(1,5) by (auto simp: extractTar_def split: option.splits prod.splits)
  then show ?thesis
  proof cases
    case first
    have "below dest dest" by (auto simp: below_def intro: exI [of _ "[]"])
    then show ?thesis using i [of op] first assms(3) by simp
  next
    case entry
    note o = extract_loop_ops [OF ne, of opn cpy eof hdrs] extract_loop_below [OF ne, of opn cpy eof hdrs]
    have "inner_op (path_elems dest) op"
    proof (cases "below dest (op_path op)")
      case False
      then have op: "op = GMkdir (Dir dest) 0x1ED" using o(2) entry assms(3) by auto
      then show ?thesis using kernel_elems_Dir [OF assms(2,3)] by (auto simp: inner_op_def)
    qed (use i o(1) entry in blast)
    moreover have "(\<forall>p. op \<noteq> GRemove p)" "\<And>t p. op = GSymlink t p \<Longrightarrow> \<exists>h\<in>set hdrs. te_Type h = TypeSymlink \<and> t = te_Linkname h"
      using o(1) entry by blast+
    ultimately show ?thesis using assms(4) by metis
  qed
qed


text \<open>
  The check is on the names only: a link to a directory outside, followed by a file below the
  link, passes it, and the file is written through the link.
\<close>

lemma link_then_file:
  "fst (extract_loop (\<lambda>_. None) (\<lambda>_. None) ''/srv'' None
     [\<lparr>te_Name = ''a'', te_Type = TypeSymlink, te_Mode = 0, te_Linkname = ''/etc'', te_Data = []\<rparr>,
      \<lparr>te_Name = ''a/passwd'', te_Type = TypeReg, te_Mode = 0, te_Linkname = [], te_Data = ''x''\<rparr>]) =
   [GSymlink ''/etc'' ''/srv/a'', GMkdir ''/srv/a'' 0x1ED, GWrite ''/srv/a/passwd'' 0 ''x'']"
  by code_simp

lemma link_then_file_outside:
  "links_run {[], [''srv'']} (\<lambda>_. None) [GSymlink ''/etc'' ''/srv/a''] [[''srv'', ''a''] \<mapsto> ''/etc'']"
  "touches {[], [''srv'']} [[''srv'', ''a''] \<mapsto> ''/etc''] (GWrite ''/srv/a/passwd'' 0 ''x'') = [Some [''etc'', ''passwd'']]"
proof -
  have "Some [''srv'', ''a''] \<in> set (touches {[], [''srv'']} (\<lambda>_. None) (GSymlink ''/etc'' ''/srv/a''))" by code_simp
  from links_run.link [OF this links_run.none]
  show "links_run {[], [''srv'']} (\<lambda>_. None) [GSymlink ''/etc'' ''/srv/a''] [[''srv'', ''a''] \<mapsto> ''/etc'']" by simp
  show "touches {[], [''srv'']} [[''srv'', ''a''] \<mapsto> ''/etc''] (GWrite ''/srv/a/passwd'' 0 ''x'') = [Some [''etc'', ''passwd'']]"
    by code_simp
qed

section \<open>Host and guest\<close>

text \<open>What the agent answers to a request, and how it ends up on the wire.\<close>

definition agent_answer :: "agent_codecs \<Rightarrow> guest_obs \<Rightarrow> manifest \<Rightarrow> fc_request \<Rightarrow> bool \<Rightarrow> fc_response" where
  "agent_answer C ob mf rq child =
     (if (if pq_Mode rq = [] then mf_Mode mf else pq_Mode rq) = ''http''
      then snd (http_response (go_spawn ob) (go_environ ob) (go_mkreq ob) (go_attempt ob) mf rq child)
      else stdio_response (ac_ence C) (ac_dece C) (go_handler ob) (go_environ ob) (go_run ob) mf rq)"

lemma handleConn_out:
  assumes "ReadFrame (ac_decq C) conn = (r', Inr rq)"
  shows "snd (snd (handleConn C ob mf conn child)) = fst (WriteFrame (ac_encs C) (go_wr ob) (agent_answer C ob mf rq child))"
  using assms by (auto simp: handleConn_def agent_answer_def serveStdio_def serveHTTP_def Let_def split: prod.splits)

text \<open>The agent bounds the run by the timeout of the function, which travels as a decimal string.\<close>

lemma digit_char_digit: "0 \<le> d \<Longrightarrow> d < 10 \<Longrightarrow> is_digit (digit_char (nat d)) \<and> of_char (digit_char (nat d)) - 48 = d"
proof -
  assume "0 \<le> d" "d < 10"
  then obtain n where "d = int n" "n < 10" by (metis nat_0_le of_nat_less_numeral_iff)
  then have n: "(of_char (digit_char n) :: nat) = 48 + n" by (simp add: digit_char_def)
  then have "(of_char (digit_char n) :: int) = 48 + int n" by (metis of_nat_add of_nat_numeral of_nat_of_char)
  with n \<open>d = int n\<close> \<open>n < 10\<close> show ?thesis by (simp add: is_digit_def Let_def)
qed

lemma show_dec_value: "0 \<le> n \<Longrightarrow> dec_value (show_dec n) = n \<and> list_all is_digit (show_dec n) \<and> show_dec n \<noteq> []"
proof (induction n rule: show_dec.induct)
  case (1 n)
  show ?case
  proof (cases "n < 10")
    case True
    then show ?thesis using digit_char_digit [of n] "1.prems" by (simp add: show_dec.simps [of n] dec_value_def)
  next
    case False
    then have "dec_value (show_dec (n div 10)) = n div 10" "list_all is_digit (show_dec (n div 10))" using 1 by simp_all
    then show ?thesis using digit_char_digit [of "n mod 10"] False
      by (simp add: show_dec.simps [of n] dec_value_def)
  qed
qed

lemma Sscanf_Itoa: "0 \<le> n \<Longrightarrow> n < 2 ^ 63 \<Longrightarrow> Sscanf_d (Itoa n) = Some n"
proof -
  assume n: "0 \<le> n" "n < 2 ^ 63"
  note v = show_dec_value [OF n(1)]
  obtain c cs where c: "show_dec n = c # cs" using v by (cases "show_dec n") auto
  then have "is_digit c" using v by simp
  then have "c \<noteq> CHR '' ''" "c \<noteq> CHR 0x09" "c \<noteq> CHR ''-''" "c \<noteq> CHR ''+''" by (auto simp: is_digit_def Let_def)
  moreover have "takeWhile is_digit cs = cs" using v c by (simp add: list_all_iff takeWhile_eq_all_conv [THEN iffD2])
  ultimately show ?thesis using n v c by (simp add: Sscanf_d_def Itoa_def HasPrefix_def Let_def takeWhile_eq_all_conv [THEN iffD2])
qed

lemma timeout_enforced: "fnTimeoutMS f < 2 ^ 63 \<Longrightarrow> deadlineFromEnv (agent_request f rq) = Some (fnTimeoutMS f * 1000000)"
  using Sscanf_Itoa [of "fnTimeoutMS f"]
  by (auto simp: deadlineFromEnv_def agent_request_def map_of_update fnTimeoutMS_def)

text \<open>What the agent computes: a request forwarded to the child, and one run of the handler.\<close>

lemma http_attempts_first:
  assumes "\<forall>j<i. \<exists>e. attempt j h = (Inl e, 0)" "attempt i h = (Inr r, n)"
  shows "k \<le> i \<Longrightarrow> i < k + m \<Longrightarrow> http_attempts attempt k m e h = Inr r"
proof (induction m arbitrary: k e)
  case (Suc m)
  show ?case
  proof (cases "k = i")
    case False
    then obtain e' where "attempt k h = (Inl e', 0)" using assms(1) Suc.prems by (metis le_neq_implies_less)
    then show ?thesis using Suc False by simp
  qed (simp add: assms(2))
qed simp

lemma http_forwards:
  assumes "(if pq_Mode rq = [] then mf_Mode mf else pq_Mode rq) = ''http''" "child" "go_mkreq ob (pq_Method rq) (child_url mf rq) = None"
    and "\<forall>j<i. \<exists>e. go_attempt ob j (forwarded mf rq) = (Inl e, 0)" "i < 30"
    and "go_attempt ob i (forwarded mf rq) = (Inr (status, hs, body), n)"
  shows "agent_answer C ob mf rq child =
    \<lparr>ps_Status = status, ps_Headers = hs, ps_Body = take MaxMessageSize body, ps_Logs = [], ps_Error = []\<rparr>"
  using http_attempts_first [where attempt = "go_attempt ob" and h = "forwarded mf rq" and i = i and k = 0 and m = 30 and e = "Err []", OF assms(4,6)] assms(1-3,5)
  by (simp add: agent_answer_def http_response_def del: http_attempts.simps)

lemma decodeStdoutEnvelope_status: "ps_Status (decodeStdoutEnvelope dece b) \<noteq> 0"
  by (simp add: decodeStdoutEnvelope_def Let_def split: sum.splits)

lemma stdio_runs:
  assumes "(if pq_Mode rq = [] then mf_Mode mf else pq_Mode rq) \<noteq> ''http''" "mf_Entrypoint mf \<noteq> []"
    and "go_run ob (mf_Entrypoint mf) (orDefault (mf_WorkDir mf) ''/srv'')
      (agent_mergeEnv (go_environ ob) [mf_Env mf, pq_Env rq,
        [(''SELFCLOUD_REQUEST_METHOD'', pq_Method rq), (''SELFCLOUD_REQUEST_PATH'', pq_Path rq)]])
      (encodeStdinEnvelope (ac_ence C) rq) (deadlineFromEnv rq) = (out, logs, err)"
  shows "agent_answer C ob mf rq child = (decodeStdoutEnvelope (ac_dece C) out)\<lparr>ps_Logs := logs\<rparr>"
  using assms decodeStdoutEnvelope_status
  by (auto simp: agent_answer_def stdio_response_def Let_def split: option.split)

lemma host_guest_parts:
  assumes q: "enc (agent_request f rq) = Inr dq" "dq \<noteq> []" "length dq \<le> MaxMessageSize" "ac_decq C dq = Inr (agent_request f rq)"
    and s: "ac_encs C ans = Inr ds" "ds \<noteq> []" "dec ds = Inr ans"
    and "ans = agent_answer C gob mf (agent_request f rq) child"
    and ok: "fo_conn ob 0 = None" "fo_conn ob 1 = None" "go_wr gob 0 = None" "go_wr gob 1 = None"
    and w: "fo_answer ob src (agent_request f rq) =
      (snd (snd (handleConn C gob mf (fst (WriteFrame enc (fo_conn ob) (agent_request f rq)), ErrEOF) child)), ErrEOF)"
    and mode: "mode = (if get0 (f_Env f) ''MODE'' = [] then mf_Mode mf else get0 (f_Env f) ''MODE'')"
    and h: "h = \<lparr>cr_Method = (if iq_Method rq = [] then ''GET'' else iq_Method rq),
      cr_URL = ''http://127.0.0.1:'' @ Itoa (mf_HTTPPort mf) @ iq_Path rq, cr_Header = Header_AddAll (iq_Headers rq) [],
      cr_ContentLength = length (iq_Body rq), cr_Body = iq_Body rq\<rparr>"
    and env: "env = AList.update ''SELFCLOUD_TIMEOUT_MS'' (Itoa (fnTimeoutMS f)) (mergeEnv (f_Env f) (iq_Env rq))"
  shows "exchange enc dec wrapped ob src f rq =
      (if length ds \<le> MaxMessageSize then Inr (response_of (fo_elapsed ob) ans)
       else Inl (wrapped ''read response: '' ErrEOF))"
    and "mode = ''http'' \<Longrightarrow> child \<Longrightarrow> go_mkreq gob (iq_Method rq) (cr_URL h) = None \<Longrightarrow>
      \<forall>j<i. \<exists>e. go_attempt gob j h = (Inl e, 0) \<Longrightarrow> i < 30 \<Longrightarrow> go_attempt gob i h = (Inr (status, hs, body), n) \<Longrightarrow>
      ans = \<lparr>ps_Status = status, ps_Headers = hs, ps_Body = take MaxMessageSize body, ps_Logs = [], ps_Error = []\<rparr>"
    and "mode \<noteq> ''http'' \<Longrightarrow> mf_Entrypoint mf \<noteq> [] \<Longrightarrow> fnTimeoutMS f < 2 ^ 63 \<Longrightarrow>
      go_run gob (mf_Entrypoint mf) (orDefault (mf_WorkDir mf) ''/srv'')
        (go_environ gob @ map (\<lambda>(k, v). k @ ''='' @ v)
          (mf_Env mf @ env @ [(''SELFCLOUD_REQUEST_METHOD'', iq_Method rq), (''SELFCLOUD_REQUEST_PATH'', iq_Path rq)]))
        (ac_ence C \<lparr>se_Method = iq_Method rq, se_Path = iq_Path rq, se_Headers = iq_Headers rq, se_Body = iq_Body rq, se_Env = env\<rparr>
          @ [CHR 0x0A])
        (Some (fnTimeoutMS f * 1000000)) = (out, logs, err) \<Longrightarrow>
      ans = (decodeStdoutEnvelope (ac_dece C) out)\<lparr>ps_Logs := logs\<rparr>"
proof -
  let ?rq = "agent_request f rq"
  have wq: "WriteFrame enc (fo_conn ob) ?rq = (PutUint32 (word_of_nat (length dq)) @ dq, None)"
    using q(1,3) ok(1,2) by (simp add: WriteFrame_ok)
  have "ReadFrame (ac_decq C) (PutUint32 (word_of_nat (length dq)) @ dq @ [], ErrEOF) = (([], ErrEOF), ac_decq C dq)"
    by (rule ReadFrame_frame [OF q(2,3)])
  then have "ReadFrame (ac_decq C) (fst (WriteFrame enc (fo_conn ob) ?rq), ErrEOF) = (([], ErrEOF), Inr ?rq)"
    using q(4) by (simp add: wq)
  from handleConn_out [OF this, of gob mf child]
  have a: "fo_answer ob src ?rq = (fst (WriteFrame (ac_encs C) (go_wr gob) ans), ErrEOF)"
    using w assms(8) by simp
  show "exchange enc dec wrapped ob src f rq =
      (if length ds \<le> MaxMessageSize then Inr (response_of (fo_elapsed ob) ans)
       else Inl (wrapped ''read response: '' ErrEOF))"
  proof (cases "length ds \<le> MaxMessageSize")
    case True
    then have "WriteFrame (ac_encs C) (go_wr gob) ans = (PutUint32 (word_of_nat (length ds)) @ ds, None)"
      using s(1) ok(3,4) by (simp add: WriteFrame_ok)
    then have "ReadFrame dec (fo_answer ob src ?rq) = (([], ErrEOF), Inr ans)"
      using a ReadFrame_frame [OF s(2) True, of dec "[]" ErrEOF] s(3) by simp
    then show ?thesis using True by (simp add: exchange_def wq)
  next
    case False
    then have "fst (WriteFrame (ac_encs C) (go_wr gob) ans) = []" using s(1) by (simp add: WriteFrame_def)
    then have "ReadFrame dec (fo_answer ob src ?rq) = (([], ErrEOF), Inl ErrEOF)"
      using a by (simp add: ReadFrame_def ReadFull_def)
    then show ?thesis using False by (simp add: exchange_def wq)
  qed
  have m: "(if pq_Mode ?rq = [] then mf_Mode mf else pq_Mode ?rq) = mode" by (simp add: mode agent_request_def)
  have h': "forwarded mf ?rq = h" "child_url mf ?rq = cr_URL h" "pq_Method ?rq = iq_Method rq"
    by (simp_all add: h forwarded_def child_url_def agent_request_def)
  show "ans = \<lparr>ps_Status = status, ps_Headers = hs, ps_Body = take MaxMessageSize body, ps_Logs = [], ps_Error = []\<rparr>"
    if "mode = ''http''" "child" "go_mkreq gob (iq_Method rq) (cr_URL h) = None"
      "\<forall>j<i. \<exists>e. go_attempt gob j h = (Inl e, 0)" "i < 30" "go_attempt gob i h = (Inr (status, hs, body), n)"
    unfolding assms(8) by (rule http_forwards) (use that m h' in simp_all)
  show "ans = (decodeStdoutEnvelope (ac_dece C) out)\<lparr>ps_Logs := logs\<rparr>"
    if "mode \<noteq> ''http''" "mf_Entrypoint mf \<noteq> []" "fnTimeoutMS f < 2 ^ 63" and
      r: "go_run gob (mf_Entrypoint mf) (orDefault (mf_WorkDir mf) ''/srv'')
        (go_environ gob @ map (\<lambda>(k, v). k @ ''='' @ v)
          (mf_Env mf @ env @ [(''SELFCLOUD_REQUEST_METHOD'', iq_Method rq), (''SELFCLOUD_REQUEST_PATH'', iq_Path rq)]))
        (ac_ence C \<lparr>se_Method = iq_Method rq, se_Path = iq_Path rq, se_Headers = iq_Headers rq, se_Body = iq_Body rq, se_Env = env\<rparr>
          @ [CHR 0x0A])
        (Some (fnTimeoutMS f * 1000000)) = (out, logs, err)"
  proof -
    have e: "pq_Env ?rq = env" "encodeStdinEnvelope (ac_ence C) ?rq = ac_ence C \<lparr>se_Method = iq_Method rq, se_Path = iq_Path rq,
        se_Headers = iq_Headers rq, se_Body = iq_Body rq, se_Env = env\<rparr> @ [CHR 0x0A]"
      by (simp_all add: agent_request_def env encodeStdinEnvelope_def)
    have x: "agent_mergeEnv (go_environ gob) [mf_Env mf, pq_Env ?rq,
        [(''SELFCLOUD_REQUEST_METHOD'', pq_Method ?rq), (''SELFCLOUD_REQUEST_PATH'', pq_Path ?rq)]] =
      go_environ gob @ map (\<lambda>(k, v). k @ ''='' @ v)
        (mf_Env mf @ env @ [(''SELFCLOUD_REQUEST_METHOD'', iq_Method rq), (''SELFCLOUD_REQUEST_PATH'', iq_Path rq)])"
      unfolding e(1) by (simp add: agent_mergeEnv_def agent_request_def)
    show ?thesis unfolding assms(8)
    proof (rule stdio_runs)
      show "go_run gob (mf_Entrypoint mf) (orDefault (mf_WorkDir mf) ''/srv'')
        (agent_mergeEnv (go_environ gob) [mf_Env mf, pq_Env ?rq,
          [(''SELFCLOUD_REQUEST_METHOD'', pq_Method ?rq), (''SELFCLOUD_REQUEST_PATH'', pq_Path ?rq)]])
        (encodeStdinEnvelope (ac_ence C) ?rq) (deadlineFromEnv ?rq) = (out, logs, err)"
        unfolding x e(2) timeout_enforced [OF that(3)] by (rule r)
    qed (use that m in simp_all)
  qed
qed


text \<open>
  A process that fails is not reported: the status of a decoded output is never 0, so the branch
  that turns a failed run into a 500 is dead, and a crash without output is a 204.
\<close>

lemma stdio_failure_hidden:
  assumes "\<And>env. run [''/srv/handler''] (orDefault (mf_WorkDir mf) ''/srv'') env (encodeStdinEnvelope ence rq)
      (deadlineFromEnv rq) = ([], stderr, Some e)"
    and "mf_Entrypoint mf = []"
  shows "stdio_response ence dece True environ run mf rq =
    \<lparr>ps_Status = 204, ps_Headers = [], ps_Body = [], ps_Logs = stderr, ps_Error = []\<rparr>"
  using assms by (simp add: stdio_response_def decodeStdoutEnvelope_def TrimSpace_def Let_def)

text \<open>
  The body of an HTTP child is cut at the size of a message, but it is sent in base64: if the
  encoding of a response is at least four thirds of its body, a body of more than 24 MiB cannot
  be sent at all.
\<close>

lemma large_body_lost:
  assumes "\<And>p d. ac_encs C p = Inr d \<Longrightarrow> 4 * length (ps_Body p) \<le> 3 * length d"
    and "24 * 2 ^ 20 < length body" "mf_Mode mf = ''http''" "pq_Mode rq = []" "child" "go_mkreq ob (pq_Method rq) (child_url mf rq) = None"
    and "go_attempt ob 0 (forwarded mf rq) = (Inr (status, hs, body), n)" "ReadFrame (ac_decq C) conn = (r', Inr rq)"
  shows "snd (snd (handleConn C ob mf conn child)) = []"
proof -
  have a: "ps_Body (agent_answer C ob mf rq child) = take MaxMessageSize body"
    using http_forwards [of rq mf child ob 0] assms(3-7) by simp
  have "MaxMessageSize < length d" if "ac_encs C (agent_answer C ob mf rq child) = Inr d" for d
    using assms(1) [OF that] assms(2) unfolding a by (simp add: MaxMessageSize_def)
  then show ?thesis unfolding handleConn_out [OF assms(8)]
    by (auto simp: WriteFrame_def split: sum.splits)
qed

section \<open>Witnesses\<close>

text \<open>An archive with an inner link and a file below it, which ends up where the link leads.\<close>

definition linked_archive :: "tar_entry list" where
  "linked_archive = [\<lparr>te_Name = ''a'', te_Type = TypeSymlink, te_Mode = 0, te_Linkname = ''./lib'', te_Data = []\<rparr>,
     \<lparr>te_Name = ''./a//b'', te_Type = TypeReg, te_Mode = 0, te_Linkname = [], te_Data = ''x''\<rparr>]"


definition demo_guest :: guest_obs where
  "demo_guest = \<lparr>go_mkdir = (\<lambda>_. None), go_symlink = (\<lambda>_. None), go_handler = True, go_environ = [],
     go_run = (\<lambda>_ _ _ _ _. (''hi'', ''log'', None)), go_spawn = (\<lambda>_ _ _. None), go_mkreq = (\<lambda>_ _. None),
     go_attempt = (\<lambda>_ _. (Inl ErrEOF, 0)),
     go_wr = (\<lambda>_. None)\<rparr>"

definition demo_codecs :: agent_codecs where
  "demo_codecs = \<lparr>ac_decq = (\<lambda>_. Inr (agent_request demo_fn demo_call)), ac_encs = (\<lambda>_. Inr ''s''), ac_ence = (\<lambda>_. ''e''),
     ac_dece = (\<lambda>_. Inl ErrEOF)\<rparr>"

definition demo_reply :: fc_response where
  "demo_reply = agent_answer demo_codecs demo_guest empty_manifest (agent_request demo_fn demo_call) False"

definition demo_wire :: fc_obs where
  "demo_wire = demo_fc\<lparr>fo_answer := \<lambda>_ _. (snd (snd (handleConn demo_codecs demo_guest empty_manifest
     (fst (WriteFrame (\<lambda>_. Inr ''q'') (\<lambda>_. None) (agent_request demo_fn demo_call)), ErrEOF) False)), ErrEOF)\<rparr>"


end
