(* ===== verification/Wasm.thy ===== *)
theory Wasm
  imports Firecracker "HOL-Library.Multiset"
begin

text \<open>
  The WebAssembly runtime, \<^verbatim>\<open>internal/runtime/wasm\<close>: the wazero runtime (\<^verbatim>\<open>wazero.go\<close>), the warm
  pool (\<^verbatim>\<open>pool.go\<close>) and the cron scheduler (\<^verbatim>\<open>cron.go\<close>). The libraries wazero and robfig/cron
  are arguments: compiling a module, running an instance, and which schedules are valid. JSON
  envelopes are encoded and decoded by arguments; base64 is modelled.
\<close>

section \<open>Base64\<close>

text \<open>The alphabet of \<^verbatim>\<open>StdEncoding\<close>: upper case, lower case, digits, plus and slash.\<close>

definition b64_char :: "nat \<Rightarrow> char" where
  "b64_char n = char_of (if n < 26 then n + 65 else if n < 52 then n + 71 else if n < 62 then n - 4
     else if n = 62 then 43 else 47)"

definition b64_val :: "char \<Rightarrow> nat option" where
  "b64_val c =
     (let n = of_char c :: nat in
      if 65 \<le> n \<and> n \<le> 90 then Some (n - 65)
      else if 97 \<le> n \<and> n \<le> 122 then Some (n - 71)
      else if 48 \<le> n \<and> n \<le> 57 then Some (n + 4)
      else if n = 43 then Some 62 else if n = 47 then Some 63 else None)"

fun b64_groups :: "nat list \<Rightarrow> string" where
  "b64_groups [] = []"
| "b64_groups [a] = [b64_char (a div 4), b64_char (a mod 4 * 16), CHR ''='', CHR ''='']"
| "b64_groups [a, b] = [b64_char (a div 4), b64_char (a mod 4 * 16 + b div 16), b64_char (b mod 16 * 4), CHR ''='']"
| "b64_groups (a # b # c # rest) =
     [b64_char (a div 4), b64_char (a mod 4 * 16 + b div 16), b64_char (b mod 16 * 4 + c div 64), b64_char (c mod 64)] @
     b64_groups rest"

definition b64encode :: "bytes \<Rightarrow> string" where
  "b64encode b = b64_groups (map of_char b)"

text \<open>\<^verbatim>\<open>DecodeString\<close>: line breaks are skipped, padding only at the end, unused bits are not checked.\<close>

fun b64_ungroup :: "string \<Rightarrow> nat list option" where
  "b64_ungroup [] = Some []"
| "b64_ungroup (p # q # r # s # rest) =
     (case (b64_val p, b64_val q) of
        (Some w, Some x) \<Rightarrow>
          if r = CHR ''='' \<and> s = CHR ''='' \<and> rest = [] then Some [w * 4 + x div 16]
          else (case b64_val r of None \<Rightarrow> None
                | Some y \<Rightarrow>
                    if s = CHR ''='' \<and> rest = [] then Some [w * 4 + x div 16, x mod 16 * 16 + y div 4]
                    else (case b64_val s of None \<Rightarrow> None
                          | Some z \<Rightarrow> map_option (\<lambda>bs. [w * 4 + x div 16, x mod 16 * 16 + y div 4, y mod 4 * 64 + z] @ bs)
                                        (b64_ungroup rest)))
      | _ \<Rightarrow> None)"
| "b64_ungroup _ = None"

definition b64decode :: "string \<Rightarrow> bytes option" where
  "b64decode s = map_option (map char_of) (b64_ungroup (filter (\<lambda>c. c \<noteq> CHR 0x0D \<and> c \<noteq> CHR 0x0A) s))"

section \<open>The wazero runtime\<close>

record 'mod compiled_fn =
  cf_mod :: 'mod
  cf_memMB :: int
  cf_deadline :: duration

type_synonym 'mod wazero = "(string \<times> 'mod compiled_fn) list"

text \<open>64-bit signed arithmetic wraps around.\<close>

definition wrap64 :: "int \<Rightarrow> int" where
  "wrap64 n = signed_take_bit 63 n"

definition wasm_magic :: string where
  "wasm_magic = [CHR 0x00, CHR ''a'', CHR ''s'', CHR ''m'']"

definition wazero_Deploy ::
  "(bytes \<Rightarrow> error + 'mod) \<Rightarrow> func \<Rightarrow> bytes \<Rightarrow> 'mod wazero \<Rightarrow> 'mod wazero \<times> error option" where
  "wazero_Deploy compile f code w =
     (if length code < 8 \<or> take 4 code \<noteq> wasm_magic
      then (w, Some (Err ''not a wasm module (bad magic header)''))
      else case compile code of Inl e \<Rightarrow> (w, Some (wrapped ''wasm compile: '' e))
      | Inr m \<Rightarrow>
          (let deadline = wrap64 (f_TimeoutMS f * 1000000);
               c = \<lparr>cf_mod = m, cf_memMB = (if f_MemoryMB f \<le> 0 then 128 else f_MemoryMB f),
                    cf_deadline = (if deadline \<le> 0 then 5 * second else deadline)\<rparr>
           in (AList.update (fnKey f) c w, None)))"

definition wazero_Remove :: "('mod \<Rightarrow> error option) \<Rightarrow> func \<Rightarrow> 'mod wazero \<Rightarrow> 'mod wazero \<times> error option" where
  "wazero_Remove close f w =
     (AList.delete (fnKey f) w, case map_of w (fnKey f) of None \<Rightarrow> None | Some c \<Rightarrow> close (cf_mod c))"

record wasm_request =
  wq_Method :: string
  wq_Path :: string
  wq_Headers :: http_header
  wq_Body :: string
  wq_Env :: strmap

record wasm_response =
  ws_Status :: int
  ws_Headers :: http_header
  ws_Body :: string

text \<open>What an instance is configured with: its input, its environment, the files below \<^verbatim>\<open>/secrets\<close>.\<close>

record instance_config =
  ic_Stdin :: bytes
  ic_Env :: strmap
  ic_Secrets :: "(string \<times> bytes) list option"

datatype call_result = CallOK | CallExit "32 word" | CallDeadline | CallErr error

text \<open>
  What wazero does with a module and a configuration: the error of instantiating it, the size
  of its memory, the results of the exported functions it has, and its outputs.
\<close>

record run_result =
  rr_instantiate :: "error option"
  rr_memory :: "32 word option"
  rr_start :: "call_result option"
  rr_initialize :: "call_result option"
  rr_handle :: "call_result option"
  rr_stdout :: bytes
  rr_stderr :: bytes
  rr_elapsed :: duration

definition errResponse :: "(string \<Rightarrow> bytes) \<Rightarrow> bytes \<Rightarrow> string \<Rightarrow> duration \<Rightarrow> invoke_response" where
  "errResponse enc_err stderr msg elapsed =
     \<lparr>ir_Status = 500, ir_Headers = Header_Set ''content-type'' ''application/json'' [], ir_Body = enc_err msg,
      ir_Logs = stderr, ir_Elapsed = elapsed\<rparr>"

definition decodeResponse ::
  "(bytes \<Rightarrow> error + wasm_response) \<Rightarrow> bytes \<Rightarrow> bytes \<Rightarrow> duration \<Rightarrow> error + invoke_response" where
  "decodeResponse dec stdout stderr elapsed =
     (let b = TrimSpace stdout in
      if b = [] then Inr \<lparr>ir_Status = 204, ir_Headers = [], ir_Body = [], ir_Logs = stderr, ir_Elapsed = elapsed\<rparr>
      else case dec b of
        Inl e \<Rightarrow> Inr \<lparr>ir_Status = 200, ir_Headers = Header_Set ''content-type'' ''text/plain; charset=utf-8'' [],
                       ir_Body = b, ir_Logs = stderr, ir_Elapsed = elapsed\<rparr>
      | Inr env \<Rightarrow>
          (case b64decode (ws_Body env) of
             None \<Rightarrow> Inl (Err ''wasm response body not valid base64: illegal base64 data'')
           | Some body \<Rightarrow>
               (let h = Header_AddAll (ws_Headers env) [];
                    h = (if Header_Get h ''content-length'' = [] then Header_Set ''content-length'' (Itoa (int (length body))) h
                         else h)
                in Inr \<lparr>ir_Status = (if ws_Status env = 0 then 200 else ws_Status env), ir_Headers = h, ir_Body = body,
                        ir_Logs = stderr, ir_Elapsed = elapsed\<rparr>)))"

text \<open>Files of secrets are staged by their base name in a temporary directory, if one can be made.\<close>

definition stage_secrets :: "(string \<times> bytes) list \<Rightarrow> (string \<times> bytes) list" where
  "stage_secrets files =
     fold (\<lambda>(path, data) m.
       let name = Base path; name = (if name = [] \<or> name = ''.'' \<or> name = ''/'' then ''secret'' else name)
       in AList.update name data m) files []"

definition instance_config_of ::
  "(wasm_request \<Rightarrow> bytes) \<Rightarrow> bool \<Rightarrow> func \<Rightarrow> invoke_request \<Rightarrow> instance_config" where
  "instance_config_of enc tmpOK f rq =
     \<lparr>ic_Stdin = enc \<lparr>wq_Method = iq_Method rq, wq_Path = iq_Path rq, wq_Headers = iq_Headers rq,
                     wq_Body = b64encode (iq_Body rq), wq_Env = iq_Env rq\<rparr>,
      ic_Env = AList.update ''SELFCLOUD_REQUEST_PATH'' (iq_Path rq)
        (AList.update ''SELFCLOUD_REQUEST_METHOD'' (iq_Method rq)
          (AList.update ''SELFCLOUD_PROJECT'' (m_Project (f_Meta f))
            (AList.update ''SELFCLOUD_FN'' (m_Name (f_Meta f))
              (fold (\<lambda>(k, v) m. AList.update k v m) (iq_Env rq) [])))),
      ic_Secrets = (if iq_SecretFiles rq \<noteq> [] \<and> tmpOK then Some (stage_secrets (iq_SecretFiles rq)) else None)\<rparr>"

text \<open>The memory cap: pages and bytes are 32-bit numbers.\<close>

definition mem_cap :: "int \<Rightarrow> 32 word" where
  "mem_cap memMB = word_of_int (memMB * 16) * 65536"

definition call_module :: "run_result \<Rightarrow> call_result" where
  "call_module rr =
     (case rr_start rr of Some r \<Rightarrow> r
      | None \<Rightarrow>
          (case rr_initialize rr of None \<Rightarrow> CallErr (Err ''wasm module does not export _start or _initialize'')
           | Some CallOK \<Rightarrow> (case rr_handle rr of Some r \<Rightarrow> r | None \<Rightarrow> CallOK)
           | Some r \<Rightarrow> r))"

definition wazero_Invoke ::
  "(wasm_request \<Rightarrow> bytes) \<Rightarrow> (bytes \<Rightarrow> error + wasm_response) \<Rightarrow> (string \<Rightarrow> bytes) \<Rightarrow> (duration \<Rightarrow> string) \<Rightarrow> bool \<Rightarrow>
   ('mod \<Rightarrow> duration \<Rightarrow> instance_config \<Rightarrow> run_result) \<Rightarrow> func \<Rightarrow> invoke_request \<Rightarrow> 'mod wazero \<Rightarrow> error + invoke_response" where
  "wazero_Invoke enc dec enc_err showd tmpOK run f rq w =
     (case map_of w (fnKey f) of None \<Rightarrow> Inl ErrFunctionNotReady
      | Some c \<Rightarrow>
          (let rr = run (cf_mod c) (cf_deadline c) (instance_config_of enc tmpOK f rq);
               fail = (\<lambda>msg. Inr (errResponse enc_err (rr_stderr rr) msg (rr_elapsed rr)))
           in case rr_instantiate rr of Some e \<Rightarrow> Inl (wrapped ''wasm instantiate: '' e)
              | None \<Rightarrow>
                  if (case rr_memory rr of None \<Rightarrow> False | Some cur \<Rightarrow> cf_memMB c > 0 \<and> cur > mem_cap (cf_memMB c))
                  then Inl (Err (''wasm: instance memory '' @ Itoa (uint (the (rr_memory rr))) @ ''B exceeds cap '' @
                         Itoa (cf_memMB c) @ ''MB''))
                  else case call_module rr of
                    CallErr e \<Rightarrow> fail (errorString e)
                  | CallDeadline \<Rightarrow> fail (''wasm timed out after '' @ showd (cf_deadline c))
                  | CallExit code \<Rightarrow>
                      if code \<noteq> 0 then fail (''wasm exited with code '' @ Itoa (uint code))
                      else (case decodeResponse dec (rr_stdout rr) (rr_stderr rr) (rr_elapsed rr) of
                              Inl e \<Rightarrow> fail (errorString e) | Inr r \<Rightarrow> Inr r)
                  | CallOK \<Rightarrow> (case decodeResponse dec (rr_stdout rr) (rr_stderr rr) (rr_elapsed rr) of
                                 Inl e \<Rightarrow> fail (errorString e) | Inr r \<Rightarrow> Inr r)))"

definition wazero_Close :: "'mod wazero \<Rightarrow> 'mod wazero" where
  "wazero_Close w = []"

section \<open>The warm pool\<close>

text \<open>
  The entries of the table are objects that invocations keep a reference to after the table has
  moved on, so they live in a heap (\<open>wp_objs\<close>) and the table holds indices. The semaphore is a
  channel: \<open>pl_sem\<close> is the number of elements in its buffer.
\<close>

record pooled =
  pl_last :: time
  pl_hits :: int64
  pl_warmedAt :: time
  pl_sem :: nat
  pl_closed :: bool

record warm_pool =
  wp_warmCount :: int
  wp_concurrency :: int
  wp_objs :: "pooled list"
  wp_hot :: "(string \<times> nat) list"

definition NewWarmPoolWith :: "int \<Rightarrow> int \<Rightarrow> warm_pool" where
  "NewWarmPoolWith warmInstances concurrency =
     \<lparr>wp_warmCount = (if warmInstances < 0 then 0 else warmInstances),
      wp_concurrency = (if concurrency \<le> 0 then 32 else concurrency), wp_objs = [], wp_hot = []\<rparr>"

definition NewWarmPool :: warm_pool where
  "NewWarmPool = NewWarmPoolWith 2 32"

text \<open>\<^verbatim>\<open>close\<close> of the semaphore of the current entry, if there is one; closing twice panics.\<close>

definition close_current :: "string \<Rightarrow> warm_pool \<Rightarrow> error + warm_pool" where
  "close_current key p =
     (case map_of (wp_hot p) key of None \<Rightarrow> Inr p
      | Some i \<Rightarrow> if pl_closed (wp_objs p ! i) then Inl ErrPanic
                  else Inr (p\<lparr>wp_objs := (wp_objs p)[i := (wp_objs p ! i)\<lparr>pl_closed := True\<rparr>]\<rparr>))"

definition pool_Deploy :: "error option \<Rightarrow> string \<Rightarrow> time \<Rightarrow> warm_pool \<Rightarrow> warm_pool \<times> error option" where
  "pool_Deploy inner key now p =
     (case inner of Some e \<Rightarrow> (p, Some e)
      | None \<Rightarrow>
          (case close_current key p of Inl e \<Rightarrow> (p, Some e)
           | Inr p1 \<Rightarrow>
               (p1\<lparr>wp_objs := wp_objs p1 @ [\<lparr>pl_last = now, pl_hits = 0, pl_warmedAt = 0, pl_sem = 0, pl_closed = False\<rparr>],
                   wp_hot := AList.update key (length (wp_objs p1)) (wp_hot p1)\<rparr>, None)))"

text \<open>What the warm-up goroutine writes when its invocations are done, and its requests.\<close>

definition warmup_request :: invoke_request where
  "warmup_request = \<lparr>iq_Method = ''GET'', iq_Path = ''/__warmup'', iq_Headers = [], iq_Body = [],
     iq_Env = [(''SELFCLOUD_WARMUP'', ''1'')], iq_SecretFiles = []\<rparr>"

definition pool_warmed :: "string \<Rightarrow> time \<Rightarrow> warm_pool \<Rightarrow> warm_pool" where
  "pool_warmed key now p =
     (case map_of (wp_hot p) key of None \<Rightarrow> p
      | Some i \<Rightarrow> p\<lparr>wp_objs := (wp_objs p)[i := (wp_objs p ! i)\<lparr>pl_warmedAt := now\<rparr>]\<rparr>)"

definition pool_Remove :: "error option \<Rightarrow> string \<Rightarrow> warm_pool \<Rightarrow> warm_pool \<times> error option" where
  "pool_Remove inner key p =
     (case close_current key p of Inl e \<Rightarrow> (p, Some e)
      | Inr p1 \<Rightarrow> (p1\<lparr>wp_hot := AList.delete key (wp_hot p1)\<rparr>, inner))"

text \<open>
  \<^verbatim>\<open>Invoke\<close> looks the entry up, then takes a slot of its semaphore, or gives up when its context
  ends; a send on a closed channel panics. The slot is returned when the inner call returns.
\<close>

datatype enter_result = Entered warm_pool | EnterBlocks | EnterPanics

definition pool_enter :: "nat \<Rightarrow> time \<Rightarrow> warm_pool \<Rightarrow> enter_result" where
  "pool_enter i now p =
     (let o1 = wp_objs p ! i in
      if pl_closed o1 then EnterPanics
      else if int (pl_sem o1) \<ge> wp_concurrency p then EnterBlocks
      else Entered (p\<lparr>wp_objs := (wp_objs p)[i := o1\<lparr>pl_sem := pl_sem o1 + 1, pl_last := now, pl_hits := pl_hits o1 + 1\<rparr>]\<rparr>))"

definition pool_leave :: "nat \<Rightarrow> warm_pool \<Rightarrow> warm_pool option" where
  "pool_leave i p =
     (let o1 = wp_objs p ! i in
      if pl_sem o1 > 0 then Some (p\<lparr>wp_objs := (wp_objs p)[i := o1\<lparr>pl_sem := pl_sem o1 - 1\<rparr>]\<rparr>)
      else if pl_closed o1 then Some p else None)"

record pool_stats =
  pst_Function :: string
  pst_Hits :: int64
  pst_LastHit :: time
  pst_WarmedAt :: time

definition pool_Stats :: "warm_pool \<Rightarrow> pool_stats list" where
  "pool_Stats p = map (\<lambda>(k, i). let v = wp_objs p ! i in
     \<lparr>pst_Function = k, pst_Hits = pl_hits v, pst_LastHit = pl_last v, pst_WarmedAt = pl_warmedAt v\<rparr>) (wp_hot p)"

text \<open>
  The pool with the invocations in flight: those that looked an entry up, and those that hold a
  slot of it. Each rule is one critical section of the code.
\<close>

datatype invocation = Looked nat | Running nat

inductive pool_step :: "warm_pool \<times> invocation multiset \<Rightarrow> warm_pool \<times> invocation multiset \<Rightarrow> bool" where
  deploy: "pool_Deploy inner key now p = (p', r) \<Longrightarrow> pool_step (p, T) (p', T)"
| remove: "pool_Remove inner key p = (p', r) \<Longrightarrow> pool_step (p, T) (p', T)"
| warmed: "pool_step (p, T) (pool_warmed key now p, T)"
| look: "map_of (wp_hot p) key = Some i \<Longrightarrow> pool_step (p, T) (p, add_mset (Looked i) T)"
| give_up: "pool_step (p, add_mset (Looked i) T) (p, T)"
| enter: "pool_enter i now p = Entered p' \<Longrightarrow> pool_step (p, add_mset (Looked i) T) (p', add_mset (Running i) T)"
| panic: "pool_enter i now p = EnterPanics \<Longrightarrow> pool_step (p, add_mset (Looked i) T) (p, T)"
| leave: "pool_leave i p = Some p' \<Longrightarrow> pool_step (p, add_mset (Running i) T) (p', T)"

section \<open>The cron scheduler\<close>

text \<open>
  The cron library keeps numbered jobs, each a schedule with the function it was added for; a
  number is never used again. \<open>valid\<close> says which schedules it accepts.
\<close>

record cron =
  cr_jobs :: "(nat \<times> string \<times> func) list"
  cr_next :: nat
  cr_entries :: "(string \<times> nat) list"

definition NewCronScheduler :: cron where
  "NewCronScheduler = \<lparr>cr_jobs = [], cr_next = 1, cr_entries = []\<rparr>"

definition cron_removeKey :: "string \<Rightarrow> cron \<Rightarrow> cron" where
  "cron_removeKey k s =
     (case map_of (cr_entries s) k of None \<Rightarrow> s
      | Some i \<Rightarrow> s\<lparr>cr_jobs := filter (\<lambda>j. fst j \<noteq> i) (cr_jobs s), cr_entries := AList.delete k (cr_entries s)\<rparr>)"

definition cron_add :: "(string \<Rightarrow> bool) \<Rightarrow> func \<Rightarrow> function_trigger \<Rightarrow> cron \<Rightarrow> cron" where
  "cron_add valid f t s =
     (case ft_Cron t of None \<Rightarrow> s
      | Some ct \<Rightarrow>
          if ct_Schedule ct = [] then s
          else if \<not> valid (ct_Schedule ct) then s
          else s\<lparr>cr_jobs := cr_jobs s @ [(cr_next s, ct_Schedule ct, f)], cr_next := cr_next s + 1,
                 cr_entries := AList.update (fnKey f) (cr_next s) (cr_entries s)\<rparr>)"

definition cron_sync :: "(string \<Rightarrow> bool) \<Rightarrow> func \<Rightarrow> cron \<Rightarrow> cron" where
  "cron_sync valid f s = fold (cron_add valid f) (f_Triggers f) (cron_removeKey (fnKey f) s)"

definition cron_Start :: "(string \<Rightarrow> bool) \<Rightarrow> 'db bolt \<Rightarrow> 'db store \<Rightarrow> cron \<Rightarrow> cron" where
  "cron_Start valid B s c =
     (case ListFunctions B [] s of Inl e \<Rightarrow> c | Inr fns \<Rightarrow> fold (cron_sync valid) fns c)"

definition cron_on_event :: "(string \<Rightarrow> bool) \<Rightarrow> 'db bolt \<Rightarrow> event \<Rightarrow> 'db store \<Rightarrow> cron \<Rightarrow> cron" where
  "cron_on_event valid B ev s c =
     (if e_Kind ev \<noteq> KindFunction then c
      else if e_Op ev = ''delete'' then cron_removeKey (e_Project ev @ ''/'' @ e_Name ev) c
      else case GetFunction B (e_Project ev) (e_Name ev) s of Inl e \<Rightarrow> c | Inr f \<Rightarrow> cron_sync valid f c)"

text \<open>What a job does when it fires: an event, if there is a bus, and a request to the invoker.\<close>

definition cron_fire :: "string \<Rightarrow> func \<Rightarrow> event_record \<times> invoke_request" where
  "cron_fire schedule f =
     (zero_event_record\<lparr>ev_Type := ''cron'', ev_Project := m_Project (f_Meta f), ev_Subject := m_Name (f_Meta f),
        ev_Data := [(''function'', m_Name (f_Meta f)), (''schedule'', schedule)]\<rparr>,
      \<lparr>iq_Method = ''POST'', iq_Path = ''/cron'', iq_Headers = [], iq_Body = [], iq_Env = f_Env f, iq_SecretFiles = []\<rparr>)"

end
