(* ===== verification/Wasm_Props.thy ===== *)
theory Wasm_Props
  imports Wasm Functions_Props
begin

text \<open>
  Properties of the WebAssembly runtime: base64, responses and isolation of the environment,
  the bound on concurrency over all interleavings, and the jobs of the cron scheduler.
\<close>

section \<open>Base64\<close>

lemma of_b64_char: "n < 64 \<Longrightarrow> (of_char (b64_char n) :: nat) = (if n < 26 then n + 65 else if n < 52 then n + 71
    else if n < 62 then n - 4 else if n = 62 then 43 else 47)"
  by (simp add: b64_char_def)

lemma b64_val_char: "n < 64 \<Longrightarrow> b64_val (b64_char n) = Some n"
  using of_b64_char [of n] by (auto simp: b64_val_def Let_def)

lemma b64_char_not: "n < 64 \<Longrightarrow> b64_char n \<noteq> CHR ''='' \<and> b64_char n \<noteq> CHR 0x0D \<and> b64_char n \<noteq> CHR 0x0A"
  using of_b64_char [of n] by (auto split: if_splits)

lemma sextets:
  fixes a b c :: nat
  assumes "a < 256" "b < 256" "c < 256"
  shows "a div 4 < 64" "a mod 4 * 16 + b div 16 < 64" "b mod 16 * 4 + c div 64 < 64" "c mod 64 < 64"
    "a mod 4 * 16 < 64" "b mod 16 * 4 < 64"
    "a div 4 * 4 + (a mod 4 * 16 + b div 16) div 16 = a"
    "(a mod 4 * 16 + b div 16) mod 16 * 16 + (b mod 16 * 4 + c div 64) div 4 = b"
    "(b mod 16 * 4 + c div 64) mod 4 * 64 + c mod 64 = c"
    "a div 4 * 4 + (a mod 4 * 16) div 16 = a" "(a mod 4 * 16 + b div 16) mod 16 * 16 + (b mod 16 * 4) div 4 = b"
proof -
  have d: "b div 16 < 16" "c div 64 < 4" using assms by simp_all
  have m: "a mod 4 < 4" "b mod 16 < 16" by simp_all
  show "a div 4 < 64" "c mod 64 < 64" "a mod 4 * 16 < 64" "b mod 16 * 4 < 64"
    "a mod 4 * 16 + b div 16 < 64" "b mod 16 * 4 + c div 64 < 64" using assms d m by linarith+
  have e: "(a mod 4 * 16 + b div 16) div 16 = a mod 4" "(a mod 4 * 16 + b div 16) mod 16 = b div 16"
    "(b mod 16 * 4 + c div 64) div 4 = b mod 16" "(b mod 16 * 4 + c div 64) mod 4 = c div 64" using d by simp_all
  show "a div 4 * 4 + (a mod 4 * 16 + b div 16) div 16 = a"
    "(a mod 4 * 16 + b div 16) mod 16 * 16 + (b mod 16 * 4 + c div 64) div 4 = b"
    "(b mod 16 * 4 + c div 64) mod 4 * 64 + c mod 64 = c"
    "a div 4 * 4 + (a mod 4 * 16) div 16 = a" "(a mod 4 * 16 + b div 16) mod 16 * 16 + (b mod 16 * 4) div 4 = b"
    unfolding e by simp_all
qed

lemma b64_roundtrip_groups: "list_all (\<lambda>n. n < 256) ns \<Longrightarrow> b64_ungroup (b64_groups ns) = Some ns"
proof (induction ns rule: b64_groups.induct)
  case (2 a)
  then show ?case using sextets [of a 0 0] b64_char_not by (simp add: b64_val_char)
next
  case (3 a b)
  then show ?case using sextets [of a b 0] b64_char_not [of "b mod 16 * 4"] by (simp add: b64_val_char)
next
  case (4 a b c rest)
  then show ?case using sextets [of a b c] b64_char_not [of "b mod 16 * 4 + c div 64"] b64_char_not [of "c mod 64"]
    by (simp add: b64_val_char)
qed simp

lemma b64_groups_no_break: "list_all (\<lambda>n. n < 256) ns \<Longrightarrow> filter (\<lambda>c. c \<noteq> CHR 0x0D \<and> c \<noteq> CHR 0x0A) (b64_groups ns) = b64_groups ns"
proof (induction ns rule: b64_groups.induct)
  case (2 a)
  then show ?case using sextets [of a 0 0] b64_char_not by simp
next
  case (3 a b)
  then show ?case using sextets [of a b 0] b64_char_not by simp
next
  case (4 a b c rest)
  then show ?case using sextets [of a b c] b64_char_not by simp
qed simp

lemma b64_roundtrip: "b64decode (b64encode b) = Some b"
proof -
  have l: "list_all (\<lambda>n. n < 256) (map of_char b :: nat list)" by (simp add: list_all_iff)
  show ?thesis
    unfolding b64decode_def b64encode_def b64_groups_no_break [OF l] b64_roundtrip_groups [OF l]
    by (simp add: map_idI)
qed

section \<open>The wazero runtime\<close>

definition wazero_runtime where
  "wazero_runtime compile close enc dec enc_err showd tmpOK run =
     \<lparr>fr_Deploy = wazero_Deploy compile, fr_Remove = wazero_Remove close,
      fr_Invoke = (\<lambda>f rq w. (w, wazero_Invoke enc dec enc_err showd tmpOK run f rq w))\<rparr>"

definition wazero_load :: "(bytes \<Rightarrow> error + 'mod) \<Rightarrow> func \<Rightarrow> bytes \<Rightarrow> 'mod compiled_fn" where
  "wazero_load compile f code =
     (let deadline = wrap64 (f_TimeoutMS f * 1000000) in
      \<lparr>cf_mod = projr (compile code), cf_memMB = (if f_MemoryMB f \<le> 0 then 128 else f_MemoryMB f),
       cf_deadline = (if deadline \<le> 0 then 5 * second else deadline)\<rparr>)"

lemma wazero_Invoke_ready:
  "wazero_Invoke enc dec enc_err showd tmpOK run f rq w = Inl ErrFunctionNotReady \<longleftrightarrow> map_of w (fnKey f) = None"
  by (auto simp: wazero_Invoke_def wrapped_def Let_def split: option.splits sum.splits call_result.splits)

interpretation wazero_rt: deploying_runtime "wazero_runtime compile close enc dec enc_err showd tmpOK run" map_of
  "wazero_load compile" for compile close enc dec enc_err showd tmpOK run
proof (unfold_locales, goal_cases)
  case (1 f code s s')
  then show ?case
    by (auto simp: wazero_runtime_def wazero_Deploy_def wazero_load_def Let_def map_of_update fun_eq_iff split: if_splits sum.splits)
next
  case (2 f code s s' e)
  then show ?case by (auto simp: wazero_runtime_def wazero_Deploy_def Let_def split: if_splits sum.splits)
next
  case (3 f s s')
  then show ?case by (auto simp: wazero_runtime_def wazero_Remove_def map_of_delete fun_eq_iff)
next
  case (4 f rq s s' r)
  then show ?case by (simp add: wazero_runtime_def)
next
  case (5 f rq s s' r)
  then show ?case by (auto simp: wazero_runtime_def wazero_Invoke_ready)
qed

text \<open>The memory cap is exact below 4 GiB and wraps around there: at 4096 MB no module fits.\<close>

lemma uint_mem_cap: "uint (mem_cap m) = m * 2 ^ 20 mod 2 ^ 32"
  by (simp add: mem_cap_def uint_word_arith_bintrs uint_word_of_int take_bit_eq_mod mod_simps mult.assoc)

lemma mem_cap_exact: "0 \<le> m \<Longrightarrow> m < 4096 \<Longrightarrow> uint (mem_cap m) = m * 2 ^ 20"
  unfolding uint_mem_cap by (rule mod_pos_pos_trivial) simp_all

lemma mem_cap_wraps: "mem_cap (m + 4096) = mem_cap m"
proof (rule word_uint_eqI)
  have "(m + 4096) * 2 ^ 20 = m * 2 ^ 20 + (2 ^ 32 :: int)" by simp
  then show "uint (mem_cap (m + 4096)) = uint (mem_cap m)" unfolding uint_mem_cap by simp
qed

lemma map_of_env: "map_of (fold (\<lambda>(k, v) m. AList.update k v m) es m) k = (map_of m ++ map_of (rev es)) k"
  by (induction es arbitrary: m) (auto simp: map_of_update map_add_def split: option.splits)

lemma map_of_rev_distinct: "distinct (map fst es) \<Longrightarrow> map_of (rev es) = map_of es"
  by (rule map_of_eqI) (auto simp: map_of_eq_Some_iff rev_map [symmetric] distinct_rev)

lemma wazero_Deploy_ok:
  assumes "wazero_Deploy compile f code w0 = (w, None)"
  shows "map_of w (fnKey f) = Some (wazero_load compile f code)"
  using wazero_rt.deploy_code [of compile _ _ _ _ _ _ _ f code w0 w] assms by (simp add: wazero_runtime_def)

lemma wazero_load_mem: "cf_memMB (wazero_load compile f code) = (if f_MemoryMB f \<le> 0 then 128 else f_MemoryMB f)"
  by (simp add: wazero_load_def Let_def)

text \<open>
  C28. An invocation of a deployed module that fits in its memory, exits normally and prints an
  envelope answers with the body, the status (200 for 0) and the error output of the guest. The
  guest gets the body of the request, which it can decode, and an environment in which the four
  variables of the platform have their values whatever the request sets, and every other variable
  is the one of the request.
\<close>

theorem wasm_roundtrip:
  assumes "wazero_Deploy compile f code w0 = (w, None)" "c = wazero_load compile f code"
    and "cfg = instance_config_of enc tmpOK f rq" "rr = run (cf_mod c) (cf_deadline c) cfg"
    and "rr_instantiate rr = None" "\<And>m. rr_memory rr = Some m \<Longrightarrow> uint m \<le> cf_memMB c * 2 ^ 20" "f_MemoryMB f < 4096"
    and "call_module rr \<in> {CallOK, CallExit 0}" "TrimSpace (rr_stdout rr) \<noteq> []" "dec (TrimSpace (rr_stdout rr)) = Inr env"
    and "ws_Body env = b64encode body" "distinct (map fst (iq_Env rq))"
  shows "\<exists>r. wazero_Invoke enc dec enc_err showd tmpOK run f rq w = Inr r \<and> ir_Body r = body \<and>
      ir_Status r = (if ws_Status env = 0 then 200 else ws_Status env) \<and> ir_Logs r = rr_stderr rr \<and>
      (\<exists>q. ic_Stdin cfg = enc q \<and> b64decode (wq_Body q) = Some (iq_Body rq) \<and> wq_Path q = iq_Path rq \<and> wq_Method q = iq_Method rq) \<and>
      map_of (ic_Env cfg) = (map_of (iq_Env rq))(''SELFCLOUD_FN'' \<mapsto> m_Name (f_Meta f),
        ''SELFCLOUD_PROJECT'' \<mapsto> m_Project (f_Meta f), ''SELFCLOUD_REQUEST_METHOD'' \<mapsto> iq_Method rq,
        ''SELFCLOUD_REQUEST_PATH'' \<mapsto> iq_Path rq)"
proof -
  have w: "map_of w (fnKey f) = Some c" using wazero_Deploy_ok [OF assms(1)] assms(2) by simp
  have mb: "0 < cf_memMB c" "cf_memMB c < 4096" using assms(2,7) by (auto simp: wazero_load_mem)
  have cap: "\<not> m > mem_cap (cf_memMB c)" if "rr_memory rr = Some m" for m
    using assms(6) [OF that] mem_cap_exact [of "cf_memMB c"] mb by (simp add: word_less_def)
  obtain r where d: "decodeResponse dec (rr_stdout rr) (rr_stderr rr) (rr_elapsed rr) = Inr r" "ir_Body r = body"
    "ir_Status r = (if ws_Status env = 0 then 200 else ws_Status env)" "ir_Logs r = rr_stderr rr"
    using assms(9-11) by (simp add: decodeResponse_def b64_roundtrip Let_def)
  have i: "wazero_Invoke enc dec enc_err showd tmpOK run f rq w = Inr r"
    using w assms(5,8) cap d(1)
    by (auto simp: wazero_Invoke_def Let_def simp flip: assms(3,4) split: option.splits)
  have e: "map_of (ic_Env cfg) = (map_of (iq_Env rq))(''SELFCLOUD_FN'' \<mapsto> m_Name (f_Meta f),
        ''SELFCLOUD_PROJECT'' \<mapsto> m_Project (f_Meta f), ''SELFCLOUD_REQUEST_METHOD'' \<mapsto> iq_Method rq,
        ''SELFCLOUD_REQUEST_PATH'' \<mapsto> iq_Path rq)"
    using assms(12) by (auto simp: assms(3) instance_config_of_def map_of_update map_of_env fun_eq_iff map_of_rev_distinct)
  show ?thesis
    using i d e by (intro exI [of _ r]) (auto simp: assms(3) instance_config_of_def b64_roundtrip)
qed

definition demo_module :: bytes where
  "demo_module = wasm_magic @ ''v1v1''"

definition demo_run :: run_result where
  "demo_run = \<lparr>rr_instantiate = None, rr_memory = Some 65536, rr_start = Some (CallExit 0), rr_initialize = None,
     rr_handle = None, rr_stdout = ''{}'', rr_stderr = ''log'', rr_elapsed = 3\<rparr>"

definition demo_envelope :: wasm_response where
  "demo_envelope = \<lparr>ws_Status = 0, ws_Headers = [], ws_Body = b64encode ''hello''\<rparr>"

definition demo_wasm_call :: invoke_request where
  "demo_wasm_call = \<lparr>iq_Method = ''GET'', iq_Path = ''/'', iq_Headers = [], iq_Body = ''in'', iq_Env = [(''SELFCLOUD_FN'', ''evil''), (''K'', ''v'')],
     iq_SecretFiles = []\<rparr>"

theorem wasm_roundtrip_witness:
  "\<exists>r. wazero_Invoke wq_Body (\<lambda>_. Inr demo_envelope) id (\<lambda>_. []) True (\<lambda>_ _ _. demo_run) (demo_function ''hello'' ''ab'') demo_wasm_call
      (fst (wazero_Deploy Inr (demo_function ''hello'' ''ab'') demo_module [])) = Inr r \<and> ir_Body r = ''hello'' \<and> ir_Status r = 200 \<and>
      ir_Logs r = ''log'' \<and>
      map_of (ic_Env (instance_config_of wq_Body True (demo_function ''hello'' ''ab'') demo_wasm_call)) ''SELFCLOUD_FN'' = Some ''hello''"
proof -
  let ?f = "demo_function ''hello'' ''ab''" let ?c = "wazero_load Inr ?f demo_module"
  have 1: "wazero_Deploy Inr ?f demo_module [] = (fst (wazero_Deploy Inr ?f demo_module []), None)"
    by (simp add: wazero_Deploy_def demo_module_def wasm_magic_def Let_def)
  have 2: "rr_instantiate demo_run = None" "\<And>m. rr_memory demo_run = Some m \<Longrightarrow> uint m \<le> cf_memMB ?c * 2 ^ 20" "f_MemoryMB ?f < 4096"
    "call_module demo_run \<in> {CallOK, CallExit 0}" "TrimSpace (rr_stdout demo_run) \<noteq> []" "ws_Body demo_envelope = b64encode ''hello''"
    "distinct (map fst (iq_Env demo_wasm_call))"
    by (simp_all add: demo_run_def call_module_def demo_function_def demo_envelope_def demo_wasm_call_def wazero_load_mem TrimSpace_def is_space_def)
  from wasm_roundtrip [OF 1 refl refl refl 2(1-5) refl 2(6,7), where enc = wq_Body and tmpOK = True and enc_err = id and showd = "\<lambda>_. []"]
  show ?thesis
    by (auto simp: demo_run_def demo_envelope_def demo_function_def demo_wasm_call_def named_def)
qed

section \<open>The warm pool\<close>

primrec slot :: "invocation \<Rightarrow> nat" where
  "slot (Looked i) = i"
| "slot (Running i) = i"

text \<open>
  The entries of the table exist, are open and are nobody else's; every invocation in flight
  refers to an entry that exists; the buffer of a semaphore holds one element for each invocation
  running under it, and no more than its capacity.
\<close>

definition table_ok :: "warm_pool \<Rightarrow> bool" where
  "table_ok p \<longleftrightarrow>
     (\<forall>k i. map_of (wp_hot p) k = Some i \<longrightarrow> i < length (wp_objs p) \<and> \<not> pl_closed (wp_objs p ! i)) \<and>
     (\<forall>k k' i. map_of (wp_hot p) k = Some i \<longrightarrow> map_of (wp_hot p) k' = Some i \<longrightarrow> k = k')"

definition slots_ok :: "warm_pool \<Rightarrow> invocation multiset \<Rightarrow> bool" where
  "slots_ok p T \<longleftrightarrow>
     0 < wp_concurrency p \<and> (\<forall>v\<in>#T. slot v < length (wp_objs p)) \<and>
     (\<forall>i<length (wp_objs p). pl_sem (wp_objs p ! i) = count T (Running i) \<and> int (pl_sem (wp_objs p ! i)) \<le> wp_concurrency p)"

lemma nth_write: "j < length xs \<Longrightarrow> xs[i := x] ! j = (if j = i then x else xs ! j)"
  by (cases "j = i") simp_all

text \<open>Writing an entry: what keeps the two halves of the invariant.\<close>

lemma table_ok_write:
  assumes "table_ok p" "pl_closed o1 = pl_closed (wp_objs p ! i)"
  shows "table_ok (p\<lparr>wp_objs := (wp_objs p)[i := o1]\<rparr>)"
  using assms unfolding table_ok_def by (auto simp: nth_write split: if_splits)

lemma slots_ok_write:
  assumes "slots_ok p T" "pl_sem o1 = count T' (Running i)" "int (pl_sem o1) \<le> wp_concurrency p"
    and "\<And>j. j \<noteq> i \<Longrightarrow> count T' (Running j) = count T (Running j)" "\<And>v. v \<in># T' \<Longrightarrow> slot v < length (wp_objs p)"
  shows "slots_ok (p\<lparr>wp_objs := (wp_objs p)[i := o1]\<rparr>) T'"
  using assms by (auto simp: slots_ok_def nth_write)

lemma close_current_ok:
  assumes "table_ok p" "slots_ok p T"
  obtains p1 where "close_current key p = Inr p1" "wp_hot p1 = wp_hot p" "length (wp_objs p1) = length (wp_objs p)" "slots_ok p1 T"
    "\<And>k i. k \<noteq> key \<Longrightarrow> map_of (wp_hot p) k = Some i \<Longrightarrow> wp_objs p1 ! i = wp_objs p ! i"
proof (cases "map_of (wp_hot p) key")
  case None
  then show ?thesis using that [of p] assms by (simp add: close_current_def)
next
  case (Some i)
  let ?p = "p\<lparr>wp_objs := (wp_objs p)[i := (wp_objs p ! i)\<lparr>pl_closed := True\<rparr>]\<rparr>"
  have "i < length (wp_objs p)" using Some assms(1) by (auto simp: table_ok_def)
  then have s: "slots_ok ?p T" using assms(2) by (intro slots_ok_write) (auto simp: slots_ok_def)
  have "close_current key p = Inr ?p" using Some assms(1) by (auto simp: close_current_def table_ok_def)
  moreover have "wp_objs ?p ! j = wp_objs p ! j" if "k \<noteq> key" "map_of (wp_hot p) k = Some j" for k j
    using that Some assms(1) by (auto simp: table_ok_def nth_write)
  ultimately show ?thesis using that [of ?p] s by simp
qed

lemma pool_Deploy_ok:
  assumes "table_ok p" "slots_ok p T" "pool_Deploy inner key now p = (p', r)"
  shows "table_ok p' \<and> slots_ok p' T \<and> r = inner"
proof (cases inner)
  case (Some e)
  then show ?thesis using assms by (simp add: pool_Deploy_def)
next
  case None
  obtain p1 where c: "close_current key p = Inr p1" "wp_hot p1 = wp_hot p" "length (wp_objs p1) = length (wp_objs p)" "slots_ok p1 T"
    "\<And>k i. k \<noteq> key \<Longrightarrow> map_of (wp_hot p) k = Some i \<Longrightarrow> wp_objs p1 ! i = wp_objs p ! i"
    using close_current_ok [OF assms(1,2)] by blast
  have p': "p' = p1\<lparr>wp_objs := wp_objs p1 @ [\<lparr>pl_last = now, pl_hits = 0, pl_warmedAt = 0, pl_sem = 0, pl_closed = False\<rparr>],
      wp_hot := AList.update key (length (wp_objs p1)) (wp_hot p1)\<rparr>" "r = None"
    using assms(3) None c(1) by (simp_all add: pool_Deploy_def)
  have "count T (Running (length (wp_objs p1))) = 0"
    using c(4) by (force simp: slots_ok_def count_eq_zero_iff)
  then have "slots_ok p' T" using c(4) by (auto simp: slots_ok_def p' nth_append less_Suc_eq)
  moreover have "table_ok p'"
    using assms(1) c(2,3,5) by (auto simp: table_ok_def p' map_of_update nth_append intro: less_SucI split: if_splits)
  ultimately show ?thesis using p'(2) None by simp
qed

lemma pool_Remove_ok:
  assumes "table_ok p" "slots_ok p T" "pool_Remove inner key p = (p', r)"
  shows "table_ok p' \<and> slots_ok p' T \<and> r = inner"
proof -
  obtain p1 where c: "close_current key p = Inr p1" "wp_hot p1 = wp_hot p" "length (wp_objs p1) = length (wp_objs p)" "slots_ok p1 T"
    "\<And>k i. k \<noteq> key \<Longrightarrow> map_of (wp_hot p) k = Some i \<Longrightarrow> wp_objs p1 ! i = wp_objs p ! i"
    using close_current_ok [OF assms(1,2)] by blast
  have p': "p' = p1\<lparr>wp_hot := AList.delete key (wp_hot p1)\<rparr>" "r = inner"
    using assms(3) c(1) by (simp_all add: pool_Remove_def)
  have "slots_ok p' T" using c(4) by (auto simp: slots_ok_def p')
  moreover have "table_ok p'" using assms(1) c(2,3,5) by (auto simp: table_ok_def p' map_of_delete split: if_splits)
  ultimately show ?thesis using p'(2) by simp
qed

lemma pool_step_ok:
  assumes "pool_step pT pT'" "table_ok (fst pT)" "slots_ok (fst pT) (snd pT)"
  shows "table_ok (fst pT') \<and> slots_ok (fst pT') (snd pT')"
  using assms
proof (induction rule: pool_step.induct)
  case (deploy inner key now p p' r T)
  then show ?case using pool_Deploy_ok [OF _ _ deploy.hyps] by simp
next
  case (remove inner key p p' r T)
  then show ?case using pool_Remove_ok [OF _ _ remove.hyps] by simp
next
  case (warmed p T key now)
  then show ?case
    by (auto simp: pool_warmed_def slots_ok_def nth_write intro!: table_ok_write split: option.split)
next
  case (look p key i T)
  then show ?case by (auto simp: slots_ok_def table_ok_def)
next
  case (give_up p i T)
  then show ?case by (auto simp: slots_ok_def)
next
  case (enter i now p p' T)
  then show ?case
    by (auto simp: pool_enter_def Let_def slots_ok_def intro!: table_ok_write slots_ok_write split: if_splits)
next
  case (panic i now p T)
  then show ?case by (auto simp: slots_ok_def)
next
  case (leave i p p' T)
  then show ?case
    by (auto simp: pool_leave_def Let_def slots_ok_def intro!: table_ok_write slots_ok_write split: if_splits)
qed

text \<open>An entry that is open is the current one of some function.\<close>

definition current :: "warm_pool \<Rightarrow> nat \<Rightarrow> bool" where
  "current p i \<longleftrightarrow> (\<exists>k. map_of (wp_hot p) k = Some i)"

definition open_current :: "warm_pool \<Rightarrow> bool" where
  "open_current p \<longleftrightarrow> (\<forall>i<length (wp_objs p). \<not> pl_closed (wp_objs p ! i) \<longrightarrow> current p i)"

lemma open_current_write:
  "open_current p \<Longrightarrow> pl_closed o1 = pl_closed (wp_objs p ! i) \<Longrightarrow> open_current (p\<lparr>wp_objs := (wp_objs p)[i := o1]\<rparr>)"
  unfolding open_current_def current_def by (auto simp: nth_write split: if_splits)

lemma close_current_open:
  assumes "open_current p" "table_ok p" "close_current key p = Inr p1" "i < length (wp_objs p1)" "\<not> pl_closed (wp_objs p1 ! i)"
  shows "\<exists>k. k \<noteq> key \<and> map_of (wp_hot p1) k = Some i"
proof -
  have "i < length (wp_objs p) \<and> \<not> pl_closed (wp_objs p ! i) \<and> map_of (wp_hot p) key \<noteq> Some i \<and> wp_hot p1 = wp_hot p"
    using assms(2-5) by (auto simp: close_current_def nth_write table_ok_def split: option.splits if_splits)
  then show ?thesis using assms(1) unfolding open_current_def current_def by metis
qed

lemma open_current_step:
  assumes "pool_step pT pT'" "table_ok (fst pT)" "open_current (fst pT)"
  shows "open_current (fst pT')"
  using assms
proof (induction rule: pool_step.induct)
  case (deploy inner key now p p' r T)
  then show ?case
  proof (cases inner)
    case None
    show ?thesis
    proof (cases "close_current key p")
      case (Inr p1)
      then have p': "p' = p1\<lparr>wp_objs := wp_objs p1 @ [\<lparr>pl_last = now, pl_hits = 0, pl_warmedAt = 0, pl_sem = 0, pl_closed = False\<rparr>],
          wp_hot := AList.update key (length (wp_objs p1)) (wp_hot p1)\<rparr>"
        using deploy.hyps None by (simp add: pool_Deploy_def)
      have "current p' i" if "i < length (wp_objs p')" "\<not> pl_closed (wp_objs p' ! i)" for i
      proof (cases "i = length (wp_objs p1)")
        case True
        then show ?thesis by (auto simp: current_def p' map_of_update)
      next
        case False
        then show ?thesis using that close_current_open [OF _ _ Inr, of i] deploy.prems
          by (auto simp: current_def p' map_of_update nth_append split: if_splits)
      qed
      then show ?thesis by (simp add: open_current_def)
    qed (use deploy None in \<open>simp add: pool_Deploy_def\<close>)
  qed (simp add: pool_Deploy_def)
next
  case (remove inner key p p' r T)
  show ?case
  proof (cases "close_current key p")
    case (Inr p1)
    then have p': "p' = p1\<lparr>wp_hot := AList.delete key (wp_hot p1)\<rparr>" using remove.hyps by (simp add: pool_Remove_def)
    have "current p' i" if "i < length (wp_objs p')" "\<not> pl_closed (wp_objs p' ! i)" for i
      using that close_current_open [OF _ _ Inr, of i] remove.prems by (auto simp: current_def p' map_of_delete)
    then show ?thesis by (simp add: open_current_def)
  qed (use remove in \<open>simp add: pool_Remove_def\<close>)
next
  case (warmed p T key now)
  then show ?case by (auto simp: pool_warmed_def intro!: open_current_write split: option.split)
next
  case (enter i now p p' T)
  then show ?case by (auto simp: pool_enter_def Let_def intro!: open_current_write split: if_splits)
next
  case (leave i p p' T)
  then show ?case by (auto simp: pool_leave_def Let_def intro!: open_current_write split: if_splits)
qed simp_all

text \<open>Steps never change the capacity.\<close>

lemma pool_step_concurrency: "pool_step pT pT' \<Longrightarrow> wp_concurrency (fst pT') = wp_concurrency (fst pT)"
  by (induction rule: pool_step.induct)
    (auto simp: pool_Deploy_def pool_Remove_def close_current_def pool_warmed_def pool_enter_def pool_leave_def Let_def
      split: option.splits if_splits)

lemma slots_okD:
  assumes "slots_ok p T" "v \<in># T"
  shows "pl_sem (wp_objs p ! slot v) = count T (Running (slot v))" "int (pl_sem (wp_objs p ! slot v)) \<le> wp_concurrency p"
  using assms unfolding slots_ok_def by (blast, force)

lemma pool_reachable_ok:
  assumes "pool_step\<^sup>*\<^sup>* (NewWarmPoolWith n c, {#}) pT"
  shows "table_ok (fst pT) \<and> slots_ok (fst pT) (snd pT) \<and> open_current (fst pT) \<and> wp_concurrency (fst pT) = (if c \<le> 0 then 32 else c)"
  using assms
proof (induction rule: rtranclp_induct)
  case base
  show ?case by (simp add: NewWarmPoolWith_def table_ok_def slots_ok_def open_current_def)
next
  case (step pT1 pT2)
  then show ?case using pool_step_ok [of pT1 pT2] open_current_step [of pT1 pT2] pool_step_concurrency [of pT1 pT2] by simp
qed


definition demo_pool :: warm_pool where
  "demo_pool = fst (pool_Deploy None ''p/f'' 1 (NewWarmPoolWith 0 1))"

definition demo_busy :: warm_pool where
  "demo_busy = demo_pool\<lparr>wp_objs := [\<lparr>pl_last = 2, pl_hits = 1, pl_warmedAt = 0, pl_sem = 1, pl_closed = False\<rparr>]\<rparr>"

lemma demo_pool_run: "pool_step\<^sup>*\<^sup>* (NewWarmPoolWith 0 1, {#}) (demo_busy, {#Running 0, Looked 0#})"
proof -
  have "pool_step (NewWarmPoolWith 0 1, {#}) (demo_pool, {#})"
    unfolding demo_pool_def by (rule pool_step.deploy) (rule prod.collapse [symmetric])
  moreover have "pool_step (demo_pool, {#}) (demo_pool, {#Looked 0#})"
    by (rule pool_step.look [of _ "''p/f''"]) (simp add: demo_busy_def demo_pool_def pool_Deploy_def close_current_def NewWarmPoolWith_def)
  moreover have "pool_step (demo_pool, {#Looked 0#}) (demo_busy, {#Running 0#})"
    by (rule pool_step.enter [of _ 2 _ _ "{#}"])
      (simp add: demo_busy_def demo_pool_def pool_Deploy_def close_current_def NewWarmPoolWith_def pool_enter_def)
  moreover have "pool_step (demo_busy, {#Running 0#}) (demo_busy, add_mset (Looked 0) {#Running 0#})"
    by (rule pool_step.look [of _ "''p/f''"]) (simp add: demo_busy_def demo_pool_def pool_Deploy_def close_current_def NewWarmPoolWith_def)
  ultimately show ?thesis by (simp add: add_mset_commute)
qed


text \<open>
  An invocation that looked the entry up just before the function is deployed again sends on a
  closed channel: the entry is closed while it waits.
\<close>

lemma deploy_race_panics:
  "\<exists>p. pool_step\<^sup>*\<^sup>* (NewWarmPoolWith 0 1, {#}) (p, {#Looked 0#}) \<and> pool_enter 0 now p = EnterPanics"
proof -
  let ?p = "fst (pool_Deploy None ''p/f'' 2 demo_pool)"
  have "pool_step (NewWarmPoolWith 0 1, {#}) (demo_pool, {#})"
    unfolding demo_pool_def by (rule pool_step.deploy) (rule prod.collapse [symmetric])
  moreover have "pool_step (demo_pool, {#}) (demo_pool, {#Looked 0#})"
    by (rule pool_step.look [of _ "''p/f''"]) (simp add: demo_pool_def pool_Deploy_def close_current_def NewWarmPoolWith_def)
  moreover have "pool_step (demo_pool, {#Looked 0#}) (?p, {#Looked 0#})"
    by (rule pool_step.deploy) (rule prod.collapse [symmetric])
  moreover have "pool_enter 0 now ?p = EnterPanics"
    by (simp add: demo_pool_def pool_Deploy_def close_current_def NewWarmPoolWith_def pool_enter_def)
  ultimately show ?thesis by (meson rtranclp.rtrancl_into_rtrancl rtranclp.rtrancl_refl)
qed

section \<open>The cron scheduler\<close>

text \<open>
  What the scheduler is told, in order: a function was put, or the one under a key was deleted.
  The abstract state is the function under each key, and the jobs it calls for are the valid
  schedules of these functions.
\<close>

datatype cron_op = SyncFn func | DropKey string

primrec cron_do :: "(string \<Rightarrow> bool) \<Rightarrow> cron_op \<Rightarrow> cron \<Rightarrow> cron" where
  "cron_do valid (SyncFn f) s = cron_sync valid f s"
| "cron_do valid (DropKey k) s = cron_removeKey k s"

primrec current_do :: "cron_op \<Rightarrow> (string \<Rightarrow> func option) \<Rightarrow> string \<Rightarrow> func option" where
  "current_do (SyncFn f) m = m(fnKey f \<mapsto> f)"
| "current_do (DropKey k) m = m(k := None)"

definition schedule_of :: "(string \<Rightarrow> bool) \<Rightarrow> function_trigger \<Rightarrow> string list" where
  "schedule_of valid t = (case ft_Cron t of None \<Rightarrow> []
     | Some ct \<Rightarrow> if ct_Schedule ct \<noteq> [] \<and> valid (ct_Schedule ct) then [ct_Schedule ct] else [])"

definition schedules :: "(string \<Rightarrow> bool) \<Rightarrow> func \<Rightarrow> string list" where
  "schedules valid f = concat (map (schedule_of valid) (f_Triggers f))"

definition add_job :: "func \<Rightarrow> string \<Rightarrow> cron \<Rightarrow> cron" where
  "add_job f sc s = s\<lparr>cr_jobs := cr_jobs s @ [(cr_next s, sc, f)], cr_next := cr_next s + 1,
     cr_entries := AList.update (fnKey f) (cr_next s) (cr_entries s)\<rparr>"

lemma cron_add_jobs: "cron_add valid f t s = fold (add_job f) (schedule_of valid t) s"
  by (simp add: cron_add_def schedule_of_def add_job_def split: option.split)

lemma cron_sync_jobs: "cron_sync valid f s = fold (add_job f) (schedules valid f) (cron_removeKey (fnKey f) s)"
proof -
  have "fold (cron_add valid f) ts s = fold (add_job f) (concat (map (schedule_of valid) ts)) s" for ts s
    by (induction ts arbitrary: s) (simp_all add: cron_add_jobs)
  then show ?thesis by (simp add: cron_sync_def schedules_def)
qed

text \<open>The simulation: numbers are fresh, the table names exactly the jobs, and they are the ones called for.\<close>

definition cron_ok :: "cron \<Rightarrow> bool" where
  "cron_ok s \<longleftrightarrow>
     distinct (map fst (cr_jobs s)) \<and> (\<forall>j\<in>set (cr_jobs s). fst j < cr_next s) \<and>
     (\<forall>k i. map_of (cr_entries s) k = Some i \<longleftrightarrow> (\<exists>sc f. (i, sc, f) \<in> set (cr_jobs s) \<and> fnKey f = k))"

definition called_for :: "(string \<Rightarrow> bool) \<Rightarrow> (string \<Rightarrow> func option) \<Rightarrow> (string \<times> func) set" where
  "called_for valid m = {(sc, f). m (fnKey f) = Some f \<and> sc \<in> set (schedules valid f)}"

lemma cron_ok_number:
  assumes "cron_ok s" "map_of (cr_entries s) k = Some n" "(i, sc, f) \<in> set (cr_jobs s)"
  shows "fnKey f = k \<longleftrightarrow> i = n"
proof -
  obtain sc' f' where n: "(n, sc', f') \<in> set (cr_jobs s)" "fnKey f' = k" using assms(1,2) unfolding cron_ok_def by blast
  have "map_of (cr_entries s) (fnKey f) = Some i" using assms(1,3) unfolding cron_ok_def by blast
  moreover have "(sc, f) = (sc', f')" if "i = n"
    using that n(1) assms(1,3) unfolding cron_ok_def by (metis eq_key_imp_eq_value)
  ultimately show ?thesis using assms(2) n(2) by auto
qed

lemma cron_remove_jobs:
  assumes "cron_ok s"
  shows "set (cr_jobs (cron_removeKey k s)) = {j \<in> set (cr_jobs s). fnKey (snd (snd j)) \<noteq> k}"
proof (cases "map_of (cr_entries s) k")
  case None
  then have "fnKey f \<noteq> k" if "(i, sc, f) \<in> set (cr_jobs s)" for i sc f
    using that assms unfolding cron_ok_def by (metis option.distinct(1))
  then have "{j \<in> set (cr_jobs s). fnKey (snd (snd j)) \<noteq> k} = set (cr_jobs s)" by force
  then show ?thesis using None by (simp add: cron_removeKey_def)
next
  case (Some n)
  then show ?thesis using cron_ok_number [OF assms Some] by (force simp: cron_removeKey_def)
qed

lemma cron_remove_ok:
  assumes "cron_ok s"
  shows "cron_ok (cron_removeKey k s)"
proof (cases "map_of (cr_entries s) k")
  case None
  then show ?thesis using assms by (simp add: cron_removeKey_def)
next
  case (Some n)
  let ?s = "cron_removeKey k s"
  have e: "?s = s\<lparr>cr_jobs := filter (\<lambda>j. fst j \<noteq> n) (cr_jobs s), cr_entries := AList.delete k (cr_entries s)\<rparr>"
    using Some by (simp add: cron_removeKey_def)
  have "map_of (cr_entries ?s) k' = Some i \<longleftrightarrow> (\<exists>sc f. (i, sc, f) \<in> set (cr_jobs ?s) \<and> fnKey f = k')" for k' i
    using assms cron_ok_number [OF assms Some] unfolding e cron_ok_def by (force simp: map_of_delete)
  then show ?thesis using assms unfolding cron_ok_def e by (simp add: distinct_map_filter)
qed

lemma cron_add_ok:
  assumes "cron_ok s" "\<And>j. j \<in> set (cr_jobs s) \<Longrightarrow> fnKey (snd (snd j)) \<noteq> fnKey f"
  shows "cron_ok (add_job f sc s)"
  using assms unfolding cron_ok_def add_job_def by (fastforce simp: map_of_update split: if_splits)

text \<open>Putting a function with at most one valid schedule: the table stays exact, and its job replaces the old one.\<close>

lemma cron_sync_ok:
  assumes "cron_ok s" "length (schedules valid f) \<le> 1"
  shows "cron_ok (cron_sync valid f s)"
    "snd ` set (cr_jobs (cron_sync valid f s)) =
       {(sc, g) \<in> snd ` set (cr_jobs s). fnKey g \<noteq> fnKey f} \<union> {(sc, f) | sc. sc \<in> set (schedules valid f)}"
proof -
  note r = cron_remove_jobs [OF assms(1), of "fnKey f"] and ok = cron_remove_ok [OF assms(1), of "fnKey f"]
  consider "schedules valid f = []" | sc where "schedules valid f = [sc]"
    using assms(2) by (metis One_nat_def le_Suc_eq le_zero_eq length_0_conv length_Suc_conv)
  then have "cron_ok (cron_sync valid f s) \<and> snd ` set (cr_jobs (cron_sync valid f s)) =
       {(sc, g) \<in> snd ` set (cr_jobs s). fnKey g \<noteq> fnKey f} \<union> {(sc, f) | sc. sc \<in> set (schedules valid f)}"
  proof cases
    case 1
    then show ?thesis using r ok by (force simp: cron_sync_jobs)
  next
    case (2 sc)
    then have "cron_ok (cron_sync valid f s)" using cron_add_ok [OF ok, of f sc] r by (simp add: cron_sync_jobs)
    then show ?thesis using 2 r by (force simp: cron_sync_jobs add_job_def)
  qed
  then show "cron_ok (cron_sync valid f s)"
    "snd ` set (cr_jobs (cron_sync valid f s)) =
       {(sc, g) \<in> snd ` set (cr_jobs s). fnKey g \<noteq> fnKey f} \<union> {(sc, f) | sc. sc \<in> set (schedules valid f)}" by blast+
qed

definition single_schedules :: "(string \<Rightarrow> bool) \<Rightarrow> cron_op \<Rightarrow> bool" where
  "single_schedules valid x = (case x of SyncFn f \<Rightarrow> length (schedules valid f) \<le> 1 | DropKey k \<Rightarrow> True)"

lemma cron_simulation:
  assumes "cron_ok s" "snd ` set (cr_jobs s) = called_for valid m" "list_all (single_schedules valid) ops"
  shows "cron_ok (fold (cron_do valid) ops s) \<and>
    snd ` set (cr_jobs (fold (cron_do valid) ops s)) = called_for valid (fold current_do ops m)"
  using assms
proof (induction ops arbitrary: s m)
  case (Cons x ops)
  have "cron_ok (cron_do valid x s) \<and> snd ` set (cr_jobs (cron_do valid x s)) = called_for valid (current_do x m)"
  proof (cases x)
    case (SyncFn f)
    then have "length (schedules valid f) \<le> 1" using Cons.prems by (simp add: single_schedules_def)
    from cron_sync_ok [OF Cons.prems(1) this] show ?thesis unfolding Cons.prems(2) by (auto simp: SyncFn called_for_def)
  next
    case (DropKey k)
    have "snd ` set (cr_jobs (cron_removeKey k s)) = {(sc, f) \<in> snd ` set (cr_jobs s). fnKey f \<noteq> k}"
      unfolding cron_remove_jobs [OF Cons.prems(1)] by force
    then show ?thesis unfolding Cons.prems(2) using cron_remove_ok [OF Cons.prems(1)] by (auto simp: DropKey called_for_def)
  qed
  then show ?case using Cons.IH Cons.prems(3) by simp
qed simp

text \<open>
  Whatever functions are put and deleted, in whatever order, as long as none has more than one
  valid schedule: the jobs of the cron scheduler are exactly the schedules of the functions there
  are, in their latest version, each at most once.
\<close>

theorem cron_tracks:
  assumes "list_all (single_schedules valid) ops"
  shows "snd ` set (cr_jobs (fold (cron_do valid) ops NewCronScheduler)) =
      {(sc, f). fold current_do ops (\<lambda>_. None) (fnKey f) = Some f \<and> sc \<in> set (schedules valid f)} \<and>
    distinct (map fst (cr_jobs (fold (cron_do valid) ops NewCronScheduler)))"
proof -
  have "cron_ok NewCronScheduler" "snd ` set (cr_jobs NewCronScheduler) = called_for valid (\<lambda>_. None)"
    by (simp_all add: NewCronScheduler_def cron_ok_def called_for_def)
  from cron_simulation [OF this assms] show ?thesis by (simp add: called_for_def cron_ok_def)
qed

definition cron_function :: "string list \<Rightarrow> func" where
  "cron_function scs = (demo_function ''tick'' [])\<lparr>f_Triggers := map (\<lambda>sc. \<lparr>ft_HTTP = None, ft_Cron = Some \<lparr>ct_Schedule = sc\<rparr>\<rparr>) scs\<rparr>"

theorem cron_tracks_witness:
  "snd ` set (cr_jobs (fold (cron_do (\<lambda>_. True)) [SyncFn (cron_function [''a'']), SyncFn (cron_function [''b''])] NewCronScheduler)) =
     {(''b'', cron_function [''b''])}"
proof -
  let ?ops = "[SyncFn (cron_function [''a'']), SyncFn (cron_function [''b''])]"
  have "list_all (single_schedules (\<lambda>_. True)) ?ops"
    by (simp add: single_schedules_def schedules_def schedule_of_def cron_function_def)
  from cron_tracks [OF this] show ?thesis
    by (auto simp: schedules_def schedule_of_def cron_function_def fnKey_def demo_function_def split: if_splits)
qed

text \<open>With two schedules only the second job is known to the table: putting the function again leaves the first one behind.\<close>

lemma cron_job_leaks:
  "map (fst \<circ> snd) (cr_jobs (fold (cron_do (\<lambda>_. True)) [SyncFn (cron_function [''a'', ''b'']), DropKey ''p/tick''] NewCronScheduler)) = [''a'']"
  by (simp add: cron_sync_def cron_add_def cron_removeKey_def cron_function_def demo_function_def fnKey_def named_def NewCronScheduler_def)

text \<open>What the event loop does is one of these operations, or nothing.\<close>

lemma cron_on_event_op:
  "cron_on_event valid B ev s c = c \<or> (\<exists>x. cron_on_event valid B ev s c = cron_do valid x c)"
  by (auto simp: cron_on_event_def intro: exI [of _ "SyncFn _"] exI [of _ "DropKey _"] split: sum.split)

end
