(* ===== verification/Builder.thy ===== *)
theory Builder
  imports Wasm Events Secrets
begin

text \<open>
  The build pipeline of functions with a Git source, \<^verbatim>\<open>internal/runtime/functions/builder\<close>: the
  recipe of a build (\<^verbatim>\<open>detect.go\<close>), the log stream (\<^verbatim>\<open>queue.go\<close>), the checkout (\<^verbatim>\<open>git.go\<close>) and the
  runner (\<^verbatim>\<open>runner.go\<close>). The Git library, the processes that are run and the file system they
  leave are observations.
\<close>

section \<open>The recipe\<close>

record recipe =
  rc_Image :: string
  rc_Commands :: "string list"
  rc_Output :: string
  rc_Language :: string

definition fileExists :: "(string \<Rightarrow> bool) \<Rightarrow> string \<Rightarrow> string \<Rightarrow> bool" where
  "fileExists exists dir file = exists (FPJoin [dir, file])"

definition or_default :: "string \<Rightarrow> string \<Rightarrow> string" where
  "or_default v d = (if v = [] then d else v)"

definition rust_script :: string where
  "rust_script = ''rustup target add wasm32-wasi >/dev/null 2>&1 || true; '' @
     ''cd /src && cargo build --release --target wasm32-wasi && '' @
     ''cp target/wasm32-wasi/release/*.wasm /out/handler.wasm''"

definition tinygo_script :: string where
  "tinygo_script = ''cd /src && tinygo build -o /out/handler.wasm -target wasi .''"

definition node_script :: string where
  "node_script = ''cd /src && (npm ci --no-audit --no-fund || npm install --no-audit --no-fund) && '' @
     ''if npm run | grep -q '' @ [CHR 0x27] @ ''^  build'' @ [CHR 0x27] @ ''; then npm run build; fi && '' @
     ''tar -cf /out/code.tar --exclude=node_modules/.cache .''"

definition python_script :: string where
  "python_script = ''cd /src && (test -f requirements.txt && pip install --no-cache-dir -r requirements.txt -t vendor || true) && '' @
     ''tar -cf /out/code.tar .''"

text \<open>One branch of the detection: the language, the image and the output unless overridden, the script.\<close>

definition toolchain :: "build_spec \<Rightarrow> string \<Rightarrow> string \<Rightarrow> string \<Rightarrow> string \<Rightarrow> recipe" where
  "toolchain spec language img script out =
     \<lparr>rc_Image = or_default (bs_BuildImage spec) img, rc_Commands = [''sh'', ''-lc'', script],
      rc_Output = or_default (bs_Output spec) out, rc_Language = language\<rparr>"

definition detect :: "(string \<Rightarrow> bool) \<Rightarrow> string \<Rightarrow> func \<Rightarrow> error + recipe" where
  "detect exists srcDir f =
     (case src_Git (f_Source f) of None \<Rightarrow> Inl ErrPanic
      | Some git \<Rightarrow>
          (let spec = g_Build git in
           if bs_Commands spec \<noteq> [] then
             Inr \<lparr>rc_Image = or_default (bs_BuildImage spec) ''docker.io/library/debian:stable-slim'',
                  rc_Commands = bs_Commands spec, rc_Output = or_default (bs_Output spec) ''.'',
                  rc_Language = bs_Language spec\<rparr>
           else if fileExists exists srcDir ''Cargo.toml'' then
             Inr (toolchain spec ''rust'' ''docker.io/library/rust:1-bookworm'' rust_script ''/out/handler.wasm'')
           else if fileExists exists srcDir ''go.mod'' then
             Inr (toolchain spec ''tinygo'' ''docker.io/tinygo/tinygo:latest'' tinygo_script ''/out/handler.wasm'')
           else if fileExists exists srcDir ''package.json'' then
             Inr (toolchain spec ''node'' ''docker.io/library/node:22-bookworm'' node_script
                    (if f_Runtime f = FunctionRuntimeFirecracker then ''/out/code.tar'' else ''dist/handler.wasm''))
           else if fileExists exists srcDir ''requirements.txt'' \<or> fileExists exists srcDir ''pyproject.toml'' then
             Inr (toolchain spec ''python'' ''docker.io/library/python:3.12-slim-bookworm'' python_script ''/out/code.tar'')
           else Inl (Err (''could not detect build pipeline (no go.mod, Cargo.toml, package.json, '' @
                          ''requirements.txt or pyproject.toml found)''))))"

section \<open>The log stream\<close>

text \<open>
  The file is its contents, if it could be created; how much of the \<open>n\<close>-th write reaches it is an
  observation (all of it, or a prefix when the write fails, which the code ignores). A subscriber's
  channel is the list of the elements in its buffer; once the stream is closed the table of
  subscribers is gone (a nil map) and the channels are closed: a receiver gets what is left and
  then the end.
\<close>

record log_stream =
  ls_file :: "string option"
  ls_wr :: "nat \<Rightarrow> nat option"
  ls_n :: nat
  ls_subs :: "(nat \<times> string list) list option"
  ls_nextID :: nat
  ls_closed :: bool
  ls_buffer :: "string list"
  ls_ended :: "(nat \<times> string list) list"

definition logBufferLines :: nat where "logBufferLines = 256"

definition newLogStream :: "(nat \<Rightarrow> nat option) option \<Rightarrow> log_stream" where
  "newLogStream create =
     \<lparr>ls_file = map_option (\<lambda>_. []) create, ls_wr = (case create of None \<Rightarrow> (\<lambda>_. None) | Some wr \<Rightarrow> wr), ls_n = 0,
      ls_subs = Some [], ls_nextID = 0, ls_closed = False, ls_buffer = [], ls_ended = []\<rparr>"

definition WriteString :: "string \<Rightarrow> log_stream \<Rightarrow> log_stream" where
  "WriteString text s =
     s\<lparr>ls_file := map_option (\<lambda>c. c @ (case ls_wr s (ls_n s) of None \<Rightarrow> text | Some k \<Rightarrow> take k text)) (ls_file s),
       ls_n := ls_n s + 1\<rparr>"

definition appendLines :: "string \<Rightarrow> log_stream \<Rightarrow> log_stream" where
  "appendLines text s =
     (if ls_closed s then s
      else let buffer = ls_buffer s @ [text] in
        (WriteString text s)
         \<lparr>ls_buffer := drop (length buffer - logBufferLines) buffer,
          ls_subs := map_option (map (\<lambda>(i, ch). (i, try_send 256 ch text))) (ls_subs s)\<rparr>)"

definition logf :: "string \<Rightarrow> log_stream \<Rightarrow> log_stream" where
  "logf line = appendLines (line @ [CHR 0x0A])"

text \<open>
  \<^verbatim>\<open>subscribe\<close> fills the new channel with the buffer, which blocks for ever (\<open>None\<close>) when the
  buffer has more lines than the channel; writing into a nil map panics.
\<close>

definition ls_subscribe :: "log_stream \<Rightarrow> (error + nat \<times> log_stream) option" where
  "ls_subscribe s =
     (if length (ls_buffer s) > 256 then None
      else Some (case ls_subs s of None \<Rightarrow> Inl ErrPanic
        | Some chs \<Rightarrow> Inr (ls_nextID s, s\<lparr>ls_nextID := ls_nextID s + 1,
            ls_subs := Some (AList.update (ls_nextID s) (ls_buffer s) chs)\<rparr>)))"

definition ls_unsubscribe :: "nat \<Rightarrow> log_stream \<Rightarrow> log_stream" where
  "ls_unsubscribe i s = s\<lparr>ls_subs := map_option (AList.delete i) (ls_subs s)\<rparr>"

definition ls_close :: "log_stream \<Rightarrow> log_stream" where
  "ls_close s = s\<lparr>ls_closed := True, ls_ended := (case ls_subs s of None \<Rightarrow> [] | Some chs \<Rightarrow> chs), ls_subs := None\<rparr>"

section \<open>The checkout\<close>

record clone_options =
  co_URL :: string
  co_Depth :: int
  co_ReferenceName :: string
  co_SingleBranch :: bool
  co_Auth :: "(string \<times> string) option"

text \<open>go-git: a clone is a repository, of which revisions can be resolved and checked out.\<close>

record 'repo git_lib =
  gl_Clone :: "clone_options \<Rightarrow> error + 'repo"
  gl_ResolveRevision :: "'repo \<Rightarrow> string \<Rightarrow> error + string"
  gl_Worktree :: "'repo \<Rightarrow> error option"
  gl_Checkout :: "'repo \<Rightarrow> string \<Rightarrow> error + 'repo"
  gl_Head :: "'repo \<Rightarrow> error + string"

text \<open>A process: its command line, its directory and its environment, if they are not inherited.\<close>

record build_cmd =
  bc_args :: "string list"
  bc_dir :: string
  bc_env :: "string list"

text \<open>
  What a build observes: clock readings and a fresh UUID, the log file, for a tree that cannot be
  removed what is left of it, the temporary directory (twice), which
  paths exist in the checkout, which exist after the build and are directories, their contents,
  and for each process its output and error.
\<close>

record build_obs =
  bo_clock :: "nat \<Rightarrow> time"
  bo_uid :: string
  bo_q :: "string \<Rightarrow> string"
  bo_showd :: "duration \<Rightarrow> string"
  bo_create :: "(nat \<Rightarrow> nat option) option"
  bo_rm :: "string \<Rightarrow> string list option"
  bo_temp :: "nat \<Rightarrow> error + string"
  bo_mkdir :: "nat \<Rightarrow> string \<Rightarrow> error option"
  bo_exists :: "string \<Rightarrow> error option"
  bo_stat :: "string \<Rightarrow> error + bool"
  bo_read :: "string \<Rightarrow> error + bytes"
  bo_tar :: "string \<Rightarrow> error + bytes"
  bo_ctr :: bool
  bo_environ :: "string list"
  bo_run :: "build_cmd \<Rightarrow> string list \<times> error option"
  bo_blob :: "(error \<times> nat option) option"

record clone_result =
  cl_Dir :: string
  cl_CommitSHA :: string

definition clone_auth :: "build_obs \<Rightarrow> (string \<Rightarrow> string \<Rightarrow> error + string) option \<Rightarrow> func \<Rightarrow> git_source_spec \<Rightarrow>
  error + (string \<times> string) option" where
  "clone_auth ob reveal f spec =
     (case reveal of None \<Rightarrow> Inr None
      | Some rv \<Rightarrow>
          if g_AuthSecret spec = [] then Inr None
          else case rv (m_Project (f_Meta f)) (g_AuthSecret spec) of
            Inl e \<Rightarrow> Inl (wrapped (''resolve auth secret '' @ bo_q ob (g_AuthSecret spec) @ '': '') e)
          | Inr token \<Rightarrow> Inr (Some (''x-access-token'', token)))"

text \<open>The first attempt, and the second one on a full clone when a reference is given.\<close>

definition first_options :: "git_source_spec \<Rightarrow> (string \<times> string) option \<Rightarrow> clone_options" where
  "first_options spec auth =
     \<lparr>co_URL = g_URL spec, co_Depth = 1, co_ReferenceName = (if g_Ref spec = [] then [] else ''refs/heads/'' @ g_Ref spec),
      co_SingleBranch = (g_Ref spec \<noteq> []), co_Auth = auth\<rparr>"

definition full_clone :: "'repo git_lib \<Rightarrow> build_obs \<Rightarrow> git_source_spec \<Rightarrow> clone_options \<Rightarrow> string \<Rightarrow> error + 'repo" where
  "full_clone gl ob spec opts into =
     (case bo_mkdir ob 1 into of Some e \<Rightarrow> Inl e
      | None \<Rightarrow>
          (case gl_Clone gl (opts\<lparr>co_ReferenceName := [], co_SingleBranch := False, co_Depth := 0\<rparr>) of
             Inl e \<Rightarrow> Inl (wrapped ''clone: '' e)
           | Inr repo \<Rightarrow>
               (case gl_ResolveRevision gl repo (g_Ref spec) of
                  Inl e \<Rightarrow> Inl (wrapped (''resolve ref '' @ bo_q ob (g_Ref spec) @ '': '') e)
                | Inr hash \<Rightarrow>
                    (case gl_Worktree gl repo of Some e \<Rightarrow> Inl e
                     | None \<Rightarrow>
                         (case gl_Checkout gl repo hash of
                            Inl e \<Rightarrow> Inl (wrapped (''checkout '' @ g_Ref spec @ '': '') e)
                          | Inr repo' \<Rightarrow> Inr repo')))))"

definition clone_repo :: "'repo git_lib \<Rightarrow> build_obs \<Rightarrow> git_source_spec \<Rightarrow> clone_options \<Rightarrow> string \<Rightarrow> error + 'repo" where
  "clone_repo gl ob spec opts into =
     (case gl_Clone gl opts of Inr repo \<Rightarrow> Inr repo
      | Inl e \<Rightarrow> if g_Ref spec \<noteq> [] then full_clone gl ob spec opts into else Inl (wrapped ''clone: '' e))"

definition clone_dir :: "build_obs \<Rightarrow> git_source_spec \<Rightarrow> string \<Rightarrow> error + string" where
  "clone_dir ob spec into =
     (if g_SubPath spec = [] then Inr into
      else let src = FPJoin [into, g_SubPath spec] in
        case bo_exists ob src of Some e \<Rightarrow> Inl (wrapped (''subPath '' @ bo_q ob (g_SubPath spec) @ '': '') e) | None \<Rightarrow> Inr src)"

definition clone :: "'repo git_lib \<Rightarrow> build_obs \<Rightarrow> (string \<Rightarrow> string \<Rightarrow> error + string) option \<Rightarrow> func \<Rightarrow> string \<Rightarrow>
  error + clone_result" where
  "clone gl ob reveal f into =
     (case src_Git (f_Source f) of
        None \<Rightarrow> Inl (Err (''function '' @ bo_q ob (m_Name (f_Meta f)) @ '' has no git source''))
      | Some spec \<Rightarrow>
          if g_URL spec = [] then Inl (Err ''git source has no URL'')
          else case bo_mkdir ob 0 into of Some e \<Rightarrow> Inl e
          | None \<Rightarrow>
              (case clone_auth ob reveal f spec of Inl e \<Rightarrow> Inl e
               | Inr auth \<Rightarrow>
                   (case clone_repo gl ob spec (first_options spec auth) into of Inl e \<Rightarrow> Inl e
                    | Inr repo \<Rightarrow>
                        (case gl_Head gl repo of Inl e \<Rightarrow> Inl (wrapped ''head: '' e)
                         | Inr sha \<Rightarrow>
                             (case clone_dir ob spec into of Inl e \<Rightarrow> Inl e
                              | Inr src \<Rightarrow> Inr \<lparr>cl_Dir = src, cl_CommitSHA = sha\<rparr>)))))"

section \<open>The sandbox and the artifact\<close>

definition streamCmd :: "build_obs \<Rightarrow> build_cmd \<Rightarrow> log_stream \<Rightarrow> log_stream \<times> error option" where
  "streamCmd ob c s = (case bo_run ob c of (out, r) \<Rightarrow> (fold appendLines out s, r))"

definition ctr_cmd :: "string list \<Rightarrow> build_cmd" where
  "ctr_cmd args = \<lparr>bc_args = ''ctr'' # args, bc_dir = [], bc_env = []\<rparr>"

definition sandbox_args :: "string \<Rightarrow> string \<Rightarrow> recipe \<Rightarrow> string list" where
  "sandbox_args srcDir outDir r =
     [''--namespace'', ''selfcloud'', ''run'', ''--rm'',
      ''--mount'', ''type=bind,src='' @ srcDir @ '',dst=/src,options=rbind:ro'',
      ''--mount'', ''type=bind,src='' @ outDir @ '',dst=/out,options=rbind:rw'',
      ''--env'', ''HOME=/tmp'', ''--cwd'', ''/src'', rc_Image r, ''selfcloud-build-'' @ Base outDir] @ rc_Commands r"

definition runWithCtr :: "build_obs \<Rightarrow> string \<Rightarrow> string \<Rightarrow> recipe \<Rightarrow> log_stream \<Rightarrow> log_stream \<times> error option" where
  "runWithCtr ob srcDir outDir r s =
     (case streamCmd ob (ctr_cmd [''--namespace'', ''selfcloud'', ''images'', ''pull'', rc_Image r])
             (logf (''==> pulling '' @ rc_Image r) s) of
        (s1, Some e) \<Rightarrow> (s1, Some (wrapped ''pull build image: '' e))
      | (s1, None) \<Rightarrow>
          (case streamCmd ob (ctr_cmd (sandbox_args srcDir outDir r)) s1 of
             (s2, Some e) \<Rightarrow> (s2, Some (wrapped ''build: '' e))
           | (s2, None) \<Rightarrow> (s2, None)))"

definition runOnHost :: "build_obs \<Rightarrow> string \<Rightarrow> string \<Rightarrow> recipe \<Rightarrow> log_stream \<Rightarrow> log_stream \<times> error option" where
  "runOnHost ob srcDir outDir r s =
     (if rc_Commands r = [] then (s, Some (Err ''no build commands defined''))
      else streamCmd ob \<lparr>bc_args = rc_Commands r, bc_dir = srcDir,
        bc_env = bo_environ ob @ [''SRC='' @ srcDir, ''OUT='' @ outDir, ''HOME=/tmp'']\<rparr> s)"

definition runSandbox :: "build_obs \<Rightarrow> string \<Rightarrow> string \<Rightarrow> recipe \<Rightarrow> log_stream \<Rightarrow> log_stream \<times> error option" where
  "runSandbox ob srcDir outDir r s =
     (if bo_ctr ob then runWithCtr ob srcDir outDir r s
      else runOnHost ob srcDir outDir r
        (logf ''==> ctr not found on host; running build commands directly (development mode)'' s))"

definition artifact_path :: "string \<Rightarrow> string \<Rightarrow> string \<Rightarrow> string" where
  "artifact_path srcDir outDir out =
     (if HasPrefix out ''/out/'' then FPJoin [outDir, TrimPrefix out ''/out/'']
      else if HasPrefix out ''/'' then out
      else FPJoin [srcDir, out])"

definition readArtifact :: "build_obs \<Rightarrow> string \<Rightarrow> string \<Rightarrow> string \<Rightarrow> error + bytes" where
  "readArtifact ob srcDir outDir out =
     (if out = [] then Inl (Err ''recipe has no output path'')
      else let path = artifact_path srcDir outDir out in
        case bo_stat ob path of Inl e \<Rightarrow> Inl (wrapped (''output '' @ path @ '': '') e)
        | Inr True \<Rightarrow> bo_tar ob path
        | Inr False \<Rightarrow> bo_read ob path)"

section \<open>The runner\<close>

text \<open>
  What a builder is made of, and the state it works on: the store, the code blobs, the bus, the
  runtimes, the directories below its data directory, the streams of the builds under way, those
  that were taken from the table (as subscribers still hold them) and the finished logs, and the fill of the one-element channel of each function. Builds have different
  identifiers.
\<close>

record ('db, 'wa, 'fc) builder =
  br_bolt :: "'db bolt"
  br_hash :: "bytes \<Rightarrow> bytes"
  br_wasm :: "'wa fn_runtime option"
  br_fc :: "'fc fn_runtime option"
  br_reveal :: "(string \<Rightarrow> string \<Rightarrow> 'db store \<Rightarrow> error + string) option"
  br_dataDir :: string

record ('db, 'wa, 'fc) build_world =
  bw_store :: "'db store"
  bw_blobs :: blobs
  bw_bus :: "bus option"
  bw_wasm :: 'wa
  bw_fc :: 'fc
  bw_dirs :: "string list"
  bw_streams :: "(string \<times> log_stream) list"
  bw_closed :: "(string \<times> log_stream) list"
  bw_logs :: "(string \<times> string) list"
  bw_queue :: "(string \<times> nat) list"

definition newID :: "64 word \<Rightarrow> string" where
  "newID now = hexEncode (map (\<lambda>i. char_of (unat (drop_bit (8 * (7 - i)) now))) [0..<8])"

text \<open>The slot of a function: a channel with room for one element, made by the first build.\<close>

definition acquire_lookup :: "string \<Rightarrow> (string \<times> nat) list \<Rightarrow> (string \<times> nat) list" where
  "acquire_lookup key q = (if map_of q key = None then AList.update key 0 q else q)"

definition acquire_send :: "string \<Rightarrow> (string \<times> nat) list \<Rightarrow> (string \<times> nat) list option" where
  "acquire_send key q = (case map_of q key of None \<Rightarrow> None
     | Some n \<Rightarrow> if n < 1 then Some (AList.update key (n + 1) q) else None)"

definition acquire :: "string \<Rightarrow> (string \<times> nat) list \<Rightarrow> (string \<times> nat) list option" where
  "acquire key q = acquire_send key (acquire_lookup key q)"

definition release :: "string \<Rightarrow> (string \<times> nat) list \<Rightarrow> (string \<times> nat) list option" where
  "release key q = (case map_of q key of None \<Rightarrow> Some q
     | Some n \<Rightarrow> if n > 0 then Some (AList.update key (n - 1) q) else None)"

text \<open>The builds of a process: those that wait for the slot of their function and those that hold it.\<close>

datatype build_phase = Waiting string | Holding string

inductive queue_step :: "(string \<times> nat) list \<times> build_phase multiset \<Rightarrow> (string \<times> nat) list \<times> build_phase multiset \<Rightarrow> bool" where
  arrive: "queue_step (q, T) (acquire_lookup key q, add_mset (Waiting key) T)"
| take: "acquire_send key q = Some q' \<Longrightarrow> queue_step (q, add_mset (Waiting key) T) (q', add_mset (Holding key) T)"
| give: "release key q = Some q' \<Longrightarrow> queue_step (q, add_mset (Holding key) T) (q', T)"

definition log_path :: "('db, 'wa, 'fc) builder \<Rightarrow> string \<Rightarrow> string" where
  "log_path br uid = FPJoin [br_dataDir br, ''functions'', ''build-logs'', uid @ ''.log'']"

definition openStream :: "build_obs \<Rightarrow> string \<Rightarrow> ('db, 'wa, 'fc) build_world \<Rightarrow> ('db, 'wa, 'fc) build_world" where
  "openStream ob uid w = w\<lparr>bw_streams := AList.update uid (newLogStream (bo_create ob)) (bw_streams w)\<rparr>"

text \<open>The stream leaves the table, so that nobody can subscribe any more, and is closed; its file stays on the disk.\<close>

definition closeStream :: "('db, 'wa, 'fc) builder \<Rightarrow> string \<Rightarrow> ('db, 'wa, 'fc) build_world \<Rightarrow> ('db, 'wa, 'fc) build_world" where
  "closeStream br uid w =
     (case map_of (bw_streams w) uid of None \<Rightarrow> w
      | Some s \<Rightarrow> w\<lparr>bw_streams := AList.delete uid (bw_streams w),
          bw_closed := AList.update uid (ls_close s) (bw_closed w),
          bw_logs := (case ls_file (ls_close s) of None \<Rightarrow> bw_logs w | Some c \<Rightarrow> AList.update (log_path br uid) c (bw_logs w))\<rparr>)"

definition on_stream :: "string \<Rightarrow> (log_stream \<Rightarrow> log_stream) \<Rightarrow> ('db, 'wa, 'fc) build_world \<Rightarrow> ('db, 'wa, 'fc) build_world" where
  "on_stream uid g w = (case map_of (bw_streams w) uid of None \<Rightarrow> w
     | Some s \<Rightarrow> w\<lparr>bw_streams := AList.update uid (g s) (bw_streams w)\<rparr>)"

definition put_build :: "('db, 'wa, 'fc) builder \<Rightarrow> build_obs \<Rightarrow> nat \<Rightarrow> build \<Rightarrow> ('db, 'wa, 'fc) build_world \<Rightarrow>
  build \<times> ('db, 'wa, 'fc) build_world" where
  "put_build br ob i b w =
     (case PutBuild (br_bolt br) (bo_uid ob) (bo_clock ob i) (bo_clock ob (i + 1)) b (bw_store w) of
        (b', s, _) \<Rightarrow> (b', w\<lparr>bw_store := s\<rparr>))"

definition emit_build :: "build_obs \<Rightarrow> nat \<Rightarrow> string \<Rightarrow> func \<Rightarrow> build \<Rightarrow> strmap \<Rightarrow> ('db, 'wa, 'fc) build_world \<Rightarrow>
  ('db, 'wa, 'fc) build_world" where
  "emit_build ob i typ f b extra w =
     w\<lparr>bw_bus := map_option (Emit (bo_clock ob i) (zero_event_record\<lparr>ev_Type := typ, ev_Project := m_Project (f_Meta f),
         ev_Subject := m_Name (f_Meta f),
         ev_Data := [(''build'', m_UID (bd_Meta b)), (''function'', m_Name (f_Meta f))] @ extra\<rparr>)) (bw_bus w)\<rparr>"

definition failBuild :: "('db, 'wa, 'fc) builder \<Rightarrow> build_obs \<Rightarrow> func \<Rightarrow> build \<Rightarrow> error \<Rightarrow> ('db, 'wa, 'fc) build_world \<Rightarrow>
  build \<times> ('db, 'wa, 'fc) build_world" where
  "failBuild br ob f b e w =
     (let w1 = on_stream (m_UID (bd_Meta b)) (logf (''==> FAILED: '' @ errorString e)) w;
          b1 = b\<lparr>bd_Status := PhaseFailed, bd_Message := errorString e, bd_FinishedAt := bo_clock ob 20\<rparr>
      in case put_build br ob 21 b1 w1 of
           (b2, w2) \<Rightarrow> (b2, emit_build ob 23 ''build.failed'' f b2 [(''error'', errorString e)] w2))"

text \<open>\<^verbatim>\<open>os.RemoveAll\<close>, whose error the deferred calls ignore.\<close>

definition remove_tree :: "build_obs \<Rightarrow> string \<Rightarrow> ('db, 'wa, 'fc) build_world \<Rightarrow> ('db, 'wa, 'fc) build_world" where
  "remove_tree ob d w =
     w\<lparr>bw_dirs := filter (\<lambda>p. inside d p \<longrightarrow> p \<in> set (case bo_rm ob d of None \<Rightarrow> [] | Some left \<Rightarrow> left)) (bw_dirs w)\<rparr>"

definition add_tree :: "string \<Rightarrow> ('db, 'wa, 'fc) build_world \<Rightarrow> ('db, 'wa, 'fc) build_world" where
  "add_tree d w = w\<lparr>bw_dirs := d # ancestors d @ bw_dirs w\<rparr>"

text \<open>The checkout in a temporary directory, which is known (for the clean-up) even when the clone fails.\<close>

definition src_root :: "('db, 'wa, 'fc) builder \<Rightarrow> string" where
  "src_root br = FPJoin [br_dataDir br, ''functions'', ''build-src'']"

definition make_temp :: "('db, 'wa, 'fc) builder \<Rightarrow> build_obs \<Rightarrow> ('db, 'wa, 'fc) build_world \<Rightarrow>
  ('db, 'wa, 'fc) build_world \<times> (error + string)" where
  "make_temp br ob w =
     (case bo_temp ob 0 of Inr tmp \<Rightarrow> (add_tree tmp w, Inr tmp)
      | Inl _ \<Rightarrow>
          (let w1 = (if bo_mkdir ob 2 (src_root br) = None then add_tree (src_root br) w else w) in
           case bo_temp ob 1 of Inr tmp \<Rightarrow> (add_tree tmp w1, Inr tmp) | Inl e \<Rightarrow> (w1, Inl (wrapped ''temp dir: '' e))))"

text \<open>\<open>spec\<close> is what \<^verbatim>\<open>fn.Source.Git\<close> points to; see \<open>runBuild\<close> for the nil pointer.\<close>

definition cloneToTemp :: "('db, 'wa, 'fc) builder \<Rightarrow> 'repo git_lib \<Rightarrow> build_obs \<Rightarrow> func \<Rightarrow> git_source_spec \<Rightarrow> string \<Rightarrow> ('db, 'wa, 'fc) build_world \<Rightarrow>
  ('db, 'wa, 'fc) build_world \<times> string option \<times> (error + clone_result)" where
  "cloneToTemp br gl ob f spec uid w =
     (case make_temp br ob w of (w1, Inl e) \<Rightarrow> (w1, None, Inl e)
      | (w1, Inr tmp) \<Rightarrow>
          (let w2 = on_stream uid (logf (''==> cloning '' @ g_URL spec @ '' ref='' @ or_default (g_Ref spec) ''HEAD'')) w1 in
           case clone gl ob (map_option (\<lambda>rv p n. rv p n (bw_store w2)) (br_reveal br)) f tmp of
             Inl e \<Rightarrow> (w2, Some tmp, Inl e)
           | Inr res \<Rightarrow> (on_stream uid (logf (''==> cloned commit '' @ cl_CommitSHA res)) w2, Some tmp, Inr res)))"

text \<open>From the artifact to the end: store it, deploy it, record it.\<close>

definition deploy_with :: "'rt fn_runtime option \<Rightarrow> func \<Rightarrow> bytes \<Rightarrow> 'rt \<Rightarrow> 'rt \<times> error option" where
  "deploy_with rt f code s =
     (case rt of None \<Rightarrow> (s, Some (Err (''no runtime available for '' @ f_Runtime f)))
      | Some R \<Rightarrow> (case fr_Deploy R f code s of (s', r) \<Rightarrow> (s', map_option (wrapped ''deploy: '') r)))"

definition deploy_artifact :: "('db, 'wa, 'fc) builder \<Rightarrow> func \<Rightarrow> bytes \<Rightarrow> ('db, 'wa, 'fc) build_world \<Rightarrow>
  ('db, 'wa, 'fc) build_world \<times> error option" where
  "deploy_artifact br f code w =
     (if f_Runtime f = FunctionRuntimeFirecracker
      then (case deploy_with (br_fc br) f code (bw_fc w) of (s, r) \<Rightarrow> (w\<lparr>bw_fc := s\<rparr>, r))
      else (case deploy_with (br_wasm br) f code (bw_wasm w) of (s, r) \<Rightarrow> (w\<lparr>bw_wasm := s\<rparr>, r)))"

definition built_function :: "build_obs \<Rightarrow> func \<Rightarrow> string \<Rightarrow> string \<Rightarrow> func" where
  "built_function ob f i uid =
     (let st = f_Status f;
          st = (if Phase st = [] \<or> Phase st = PhaseFailed then st\<lparr>Phase := PhaseRunning\<rparr> else st)
      in f\<lparr>f_SourceRef := i, f_LatestBuild := uid, f_Status := st\<lparr>StatusUpdatedAt := bo_clock ob 10\<rparr>\<rparr>)"

definition succeed :: "('db, 'wa, 'fc) builder \<Rightarrow> build_obs \<Rightarrow> func \<Rightarrow> build \<Rightarrow> string \<Rightarrow> string \<Rightarrow> ('db, 'wa, 'fc) build_world \<Rightarrow>
  func \<times> build \<times> ('db, 'wa, 'fc) build_world" where
  "succeed br ob f b i sha w =
     (let uid = m_UID (bd_Meta b) in
      case PutFunction (br_bolt br) (bo_uid ob) (bo_clock ob 11) (bo_clock ob 12) (built_function ob f i uid) (bw_store w) of
        (f1, s, r) \<Rightarrow>
          (let w1 = w\<lparr>bw_store := s\<rparr>;
               w2 = (case r of None \<Rightarrow> w1
                     | Some e \<Rightarrow> on_stream uid (logf (''==> warning: failed to update function: '' @ errorString e)) w1);
               b1 = b\<lparr>bd_Status := PhaseSucceeded, bd_ArtifactRef := i, bd_FinishedAt := bo_clock ob 13,
                      bd_Message := ''build succeeded''\<rparr>
           in case put_build br ob 14 b1 w2 of
                (b2, w3) \<Rightarrow>
                  (let w4 = on_stream uid (logf (''==> SUCCESS in '' @ bo_showd ob (bd_FinishedAt b2 - bd_StartedAt b2))) w3
                   in (f1, b2, emit_build ob 16 ''build.succeeded'' f1 b2 [(''sha'', sha)] w4))))"

definition build_deploy :: "('db, 'wa, 'fc) builder \<Rightarrow> build_obs \<Rightarrow> func \<Rightarrow> build \<Rightarrow> string \<Rightarrow> bytes \<Rightarrow> ('db, 'wa, 'fc) build_world \<Rightarrow>
  func \<times> build \<times> ('db, 'wa, 'fc) build_world" where
  "build_deploy br ob f b sha artifact w =
     (let fail = (\<lambda>e w. (f, failBuild br ob f b e w)) in
      if artifact = [] then fail (Err ''build produced empty artifact'') w
      else case blob_Put (br_hash br) (bo_blob ob) artifact (bw_blobs w) of
        (fs, Inl e) \<Rightarrow> fail (wrapped ''store blob: '' e) (w\<lparr>bw_blobs := fs\<rparr>)
      | (fs, Inr i) \<Rightarrow>
          (let w1 = on_stream (m_UID (bd_Meta b))
                 (logf (''==> stored artifact ('' @ Itoa (int (length artifact)) @ '' bytes, sha='' @ take 8 i @ '')''))
                 (w\<lparr>bw_blobs := fs\<rparr>)
           in case deploy_artifact br f artifact w1 of
                (w2, Some e) \<Rightarrow> fail e w2
              | (w2, None) \<Rightarrow> succeed br ob f b i sha w2))"

text \<open>From the sources to the artifact; the output directory is removed on every path once it is made.\<close>

definition out_dir :: "('db, 'wa, 'fc) builder \<Rightarrow> string \<Rightarrow> string" where
  "out_dir br uid = FPJoin [br_dataDir br, ''functions'', ''build-out'', uid]"

definition build_run :: "('db, 'wa, 'fc) builder \<Rightarrow> build_obs \<Rightarrow> func \<Rightarrow> build \<Rightarrow> clone_result \<Rightarrow> recipe \<Rightarrow> string \<Rightarrow>
  ('db, 'wa, 'fc) build_world \<Rightarrow> func \<times> build \<times> ('db, 'wa, 'fc) build_world" where
  "build_run br ob f b res r outDir w =
     (case map_of (bw_streams w) (m_UID (bd_Meta b)) of None \<Rightarrow> (f, b, w)
      | Some s \<Rightarrow>
          (case runSandbox ob (cl_Dir res) outDir r s of
             (s', err) \<Rightarrow>
               (let w1 = w\<lparr>bw_streams := AList.update (m_UID (bd_Meta b)) s' (bw_streams w)\<rparr> in
                case err of Some e \<Rightarrow> (f, failBuild br ob f b e w1)
                | None \<Rightarrow>
                    (case readArtifact ob (cl_Dir res) outDir (rc_Output r) of
                       Inl e \<Rightarrow> (f, failBuild br ob f b e w1)
                     | Inr artifact \<Rightarrow> build_deploy br ob f b (cl_CommitSHA res) artifact w1))))"

definition build_compile :: "('db, 'wa, 'fc) builder \<Rightarrow> build_obs \<Rightarrow> func \<Rightarrow> build \<Rightarrow> clone_result \<Rightarrow>
  ('db, 'wa, 'fc) build_world \<Rightarrow> func \<times> build \<times> ('db, 'wa, 'fc) build_world" where
  "build_compile br ob f b res w =
     (case detect (\<lambda>p. bo_exists ob p = None) (cl_Dir res) f of Inl e \<Rightarrow> (f, failBuild br ob f b e w)
      | Inr r \<Rightarrow>
          (let uid = m_UID (bd_Meta b);
               w1 = on_stream uid (logf (''==> build pipeline: language='' @ rc_Language r @ '' image='' @ rc_Image r)) w;
               w2 = (if rc_Commands r = [] then w1 else on_stream uid (logf (''==> commands: '' @ Join (rc_Commands r) '' '')) w1);
               outDir = out_dir br uid
           in case bo_mkdir ob 3 outDir of Some e \<Rightarrow> (f, failBuild br ob f b e w2)
              | None \<Rightarrow>
                  (case build_run br ob f b res r outDir (add_tree outDir w2) of
                     (f', b', w') \<Rightarrow> (f', b', remove_tree ob outDir w'))))"

definition build_checkout :: "('db, 'wa, 'fc) builder \<Rightarrow> 'repo git_lib \<Rightarrow> build_obs \<Rightarrow> func \<Rightarrow> git_source_spec \<Rightarrow> build \<Rightarrow>
  ('db, 'wa, 'fc) build_world \<Rightarrow> func \<times> build \<times> ('db, 'wa, 'fc) build_world" where
  "build_checkout br gl ob f spec b w =
     (case cloneToTemp br gl ob f spec (m_UID (bd_Meta b)) w of
        (w1, tmp, r) \<Rightarrow>
          (let (f', b', w') =
             (case r of Inl e \<Rightarrow> (f, failBuild br ob f b e w1)
              | Inr res \<Rightarrow>
                  (case put_build br ob 5 (b\<lparr>bd_CommitSHA := cl_CommitSHA res\<rparr>) w1 of
                     (b1, w2) \<Rightarrow> build_compile br ob f b1 res w2))
           in (f', b', case tmp of None \<Rightarrow> w' | Some d \<Rightarrow> remove_tree ob d w')))"

text \<open>
  A whole build: \<open>None\<close> when it never gets its slot, or when there is no Git source: \<^verbatim>\<open>cloneToTemp\<close>
  then dereferences a nil pointer, and a panic in the goroutine of a build ends the process
  (\<^verbatim>\<open>Trigger\<close> starts no such build). The deferred calls run in reverse order: the directories, the
  slot, the stream.
\<close>

definition build_begin :: "('db, 'wa, 'fc) builder \<Rightarrow> build_obs \<Rightarrow> func \<Rightarrow> build \<Rightarrow> ('db, 'wa, 'fc) build_world \<Rightarrow>
  build \<times> ('db, 'wa, 'fc) build_world" where
  "build_begin br ob f b w =
     (case put_build br ob 1 (b\<lparr>bd_Status := PhaseRunning, bd_StartedAt := bo_clock ob 0\<rparr>) w of
        (b1, w1) \<Rightarrow>
          (let uid = m_UID (bd_Meta b1);
               w2 = on_stream uid (logf (''==> build '' @ uid @ '' (function '' @ m_Name (f_Meta f) @ '', trigger '' @ bd_Trigger b1 @ '')''))
                      (openStream ob uid w1)
           in (b1, emit_build ob 3 ''build.started'' f b1 [] w2)))"

definition runBuild :: "('db, 'wa, 'fc) builder \<Rightarrow> 'repo git_lib \<Rightarrow> build_obs \<Rightarrow> func \<Rightarrow> build \<Rightarrow> ('db, 'wa, 'fc) build_world \<Rightarrow>
  (func \<times> build \<times> ('db, 'wa, 'fc) build_world) option" where
  "runBuild br gl ob f b w =
     (case build_begin br ob f b w of
        (b1, w1) \<Rightarrow>
          (case (acquire (fnKey f) (bw_queue w1), src_Git (f_Source f)) of
             (Some q, Some spec) \<Rightarrow>
               (case build_checkout br gl ob f spec b1 (w1\<lparr>bw_queue := q\<rparr>) of
                  (f', b', w2) \<Rightarrow>
                    map_option (\<lambda>q'. (f', b', closeStream br (m_UID (bd_Meta b1)) (w2\<lparr>bw_queue := q'\<rparr>)))
                      (release (fnKey f) (bw_queue w2)))
           | _ \<Rightarrow> None))"

text \<open>\<^verbatim>\<open>Trigger\<close>: the record of the build that is then run concurrently.\<close>

definition new_build :: "string \<Rightarrow> time \<Rightarrow> func \<Rightarrow> string \<Rightarrow> build" where
  "new_build uid now f trigger =
     \<lparr>bd_Meta = zero_meta\<lparr>m_Project := m_Project (f_Meta f), m_Name := ''build-'' @ uid, m_UID := uid\<rparr>,
      bd_FunctionRef = m_Name (f_Meta f), bd_CommitSHA = [], bd_Trigger = trigger, bd_Status = PhasePending,
      bd_Message = [], bd_StartedAt = now, bd_FinishedAt = 0, bd_LogsRef = [], bd_ArtifactRef = []\<rparr>"

definition Trigger :: "'db bolt \<Rightarrow> int64 \<Rightarrow> time \<Rightarrow> string \<Rightarrow> time \<Rightarrow> time \<Rightarrow> func \<Rightarrow> string \<Rightarrow> 'db store \<Rightarrow>
  'db store \<times> (error + build)" where
  "Trigger B nanos now uuid t0 t1 f trigger s =
     (if src_Type (f_Source f) \<noteq> ''git'' \<or> src_Git (f_Source f) = None
      then (s, Inl (Err ''function does not have a git source''))
      else case PutBuild B uuid t0 t1 (new_build (newID nanos) now f trigger) s of
        (_, s', Some e) \<Rightarrow> (s', Inl e)
      | (b, s', None) \<Rightarrow> (s', Inr b))"

text \<open>\<^verbatim>\<open>StreamLogs\<close>: the live stream, or the lines of the file of a finished build.\<close>

datatype log_source = LiveLog nat | StoredLog "string list"

definition StreamLogs :: "('db, 'wa, 'fc) builder \<Rightarrow> string \<Rightarrow> ('db, 'wa, 'fc) build_world \<Rightarrow>
  (error + log_source \<times> ('db, 'wa, 'fc) build_world) option" where
  "StreamLogs br uid w =
     (case map_of (bw_streams w) uid of
        None \<Rightarrow> Some (Inr (StoredLog (case map_of (bw_logs w) (log_path br uid) of None \<Rightarrow> []
                                       | Some c \<Rightarrow> SplitByte c (CHR 0x0A)), w))
      | Some s \<Rightarrow>
          (case ls_subscribe s of None \<Rightarrow> None
           | Some (Inl e) \<Rightarrow> Some (Inl e)
           | Some (Inr (i, s')) \<Rightarrow> Some (Inr (LiveLog i, w\<lparr>bw_streams := AList.update uid s' (bw_streams w)\<rparr>))))"

end
