(* ===== verification/Builder_Props.thy ===== *)
theory Builder_Props
  imports Builder Wasm_Props Store_Props
begin

text \<open>
  Properties of the build pipeline: builds of one function run one at a time and never wait in
  vain, the log stream neither blocks nor panics, every build ends in a record, and what it
  deploys is what it recorded.
\<close>

section \<open>The queue of a function\<close>

definition slot_ok :: "nat option \<Rightarrow> string \<Rightarrow> build_phase multiset \<Rightarrow> bool" where
  "slot_ok c k T = (case c of None \<Rightarrow> Waiting k \<notin># T \<and> Holding k \<notin># T
     | Some n \<Rightarrow> n = count T (Holding k) \<and> n \<le> 1)"

definition queue_ok :: "(string \<times> nat) list \<times> build_phase multiset \<Rightarrow> bool" where
  "queue_ok s \<longleftrightarrow> (\<forall>k. slot_ok (map_of (fst s) k) k (snd s))"

lemma queue_step_ok:
  assumes "queue_step s s'" "queue_ok s"
  shows "queue_ok s'"
  unfolding queue_ok_def
proof
  fix k
  have "slot_ok (map_of (fst s) k) k (snd s)" using assms(2) by (simp add: queue_ok_def)
  with assms(1) show "slot_ok (map_of (fst s') k) k (snd s')"
    by (cases rule: queue_step.cases)
      (auto simp: slot_ok_def acquire_lookup_def acquire_send_def release_def map_of_update not_in_iff
        simp del: count_eq_zero_iff split: option.splits if_splits)
qed

text \<open>
  C22. Builds of one function never run at the same time; a build that waits either can take the
  slot of its function or waits for one that holds it; and one that holds it can always give it
  back, after which a waiting build can take it. So no build waits for ever because of the queue.
\<close>

theorem builds_serialised:
  assumes "queue_step\<^sup>*\<^sup>* ([], {#}) (q, T)"
  shows "count T (Holding k) \<le> 1 \<and>
    (Waiting k \<in># T \<longrightarrow> (\<exists>q'. acquire_send k q = Some q') \<or> Holding k \<in># T) \<and>
    (Holding k \<in># T \<longrightarrow> (\<exists>q'. release k q = Some q' \<and> queue_step (q, T) (q', T - {#Holding k#}) \<and> (\<exists>q''. acquire_send k q' = Some q'')))"
proof -
  have ok: "queue_ok (q, T)"
    using assms
  proof (induction rule: rtranclp_induct)
    case base
    show ?case by (simp add: queue_ok_def slot_ok_def)
  next
    case (step s1 s2)
    then show ?case using queue_step_ok by blast
  qed
  then have k: "slot_ok (map_of q k) k T" by (simp add: queue_ok_def)
  have h: "\<exists>q'. release k q = Some q' \<and> queue_step (q, T) (q', T - {#Holding k#}) \<and> (\<exists>q''. acquire_send k q' = Some q'')"
    if "Holding k \<in># T"
  proof -
    have n: "map_of q k = Some 1" using k that by (auto simp: slot_ok_def le_Suc_eq count_eq_zero_iff split: option.splits)
    then obtain q' where q': "release k q = Some q'" "map_of q' k = Some 0" by (simp add: release_def map_of_update)
    from queue_step.give [OF q'(1), of "T - {#Holding k#}"] that q' show ?thesis by (auto simp: acquire_send_def)
  qed
  have w: "(\<exists>q'. acquire_send k q = Some q') \<or> Holding k \<in># T" if "Waiting k \<in># T"
    using k that by (auto simp: slot_ok_def acquire_send_def not_in_iff split: option.splits)
  have "count T (Holding k) \<le> 1" using k by (auto simp: slot_ok_def not_in_iff simp del: count_eq_zero_iff split: option.splits)
  with h w show ?thesis by blast
qed

theorem builds_serialised_witness:
  "\<exists>q'. release ''p/f'' [(''p/f'', 1)] = Some q' \<and>
     queue_step ([(''p/f'', 1)], {#Holding ''p/f'', Waiting ''p/f''#}) (q', {#Waiting ''p/f''#})"
proof -
  have "queue_step ([], {#}) ([(''p/f'', 0)], {#Waiting ''p/f''#})"
    using queue_step.arrive [of "[]" "{#}" "''p/f''"] by (simp add: acquire_lookup_def)
  moreover have "queue_step ([(''p/f'', 0)], {#Waiting ''p/f''#}) ([(''p/f'', 0)], {#Waiting ''p/f'', Waiting ''p/f''#})"
    using queue_step.arrive [of "[(''p/f'', 0)]" "{#Waiting ''p/f''#}" "''p/f''"] by (simp add: acquire_lookup_def)
  moreover have "queue_step ([(''p/f'', 0)], {#Waiting ''p/f'', Waiting ''p/f''#}) ([(''p/f'', 1)], {#Holding ''p/f'', Waiting ''p/f''#})"
    by (rule queue_step.take) (simp add: acquire_send_def)
  ultimately have "queue_step\<^sup>*\<^sup>* ([], {#}) ([(''p/f'', 1)], {#Holding ''p/f'', Waiting ''p/f''#})"
    by (meson rtranclp.rtrancl_into_rtrancl rtranclp.rtrancl_refl)
  from builds_serialised [OF this, of "''p/f''"] show ?thesis by auto
qed

section \<open>The log stream\<close>

definition ls_ok :: "log_stream \<Rightarrow> bool" where
  "ls_ok s \<longleftrightarrow> length (ls_buffer s) \<le> 256 \<and> \<not> ls_closed s \<and> (\<exists>chs. ls_subs s = Some chs \<and> (\<forall>(i, ch)\<in>set chs. length ch \<le> 256))"

lemma ls_ok_append: "ls_ok s \<Longrightarrow> ls_ok (appendLines x s)"
  by (fastforce simp: ls_ok_def appendLines_def WriteString_def Let_def logBufferLines_def try_send_def)

lemma ls_ok_fold: "ls_ok s \<Longrightarrow> ls_ok (fold appendLines xs s)"
  by (induction xs arbitrary: s) (auto intro: ls_ok_append)

lemma ls_ok_logf: "ls_ok s \<Longrightarrow> ls_ok (logf x s)"
  by (simp add: logf_def ls_ok_append)

lemma ls_ok_new: "ls_ok (newLogStream c)"
  by (simp add: ls_ok_def newLogStream_def)

lemma ls_ok_sandbox: "ls_ok s \<Longrightarrow> ls_ok (fst (runSandbox ob srcDir outDir r s))"
  by (auto simp: runSandbox_def runWithCtr_def runOnHost_def streamCmd_def intro!: ls_ok_fold ls_ok_logf split: prod.splits option.splits)

lemma set_update: "set (AList.update k v al) \<subseteq> insert (k, v) (set al)"
  by (induction al) auto

lemma ls_subscribe_ok:
  assumes "ls_ok s"
  shows "\<exists>i s'. ls_subscribe s = Some (Inr (i, s')) \<and> ls_ok s' \<and> ls_buffer s' = ls_buffer s \<and> ls_file s' = ls_file s \<and>
    ls_wr s' = ls_wr s \<and> map_of (the (ls_subs s')) i = Some (ls_buffer s)"
proof -
  obtain chs where c: "ls_subs s = Some chs" "\<forall>(i, ch)\<in>set chs. length ch \<le> 256" using assms by (auto simp: ls_ok_def)
  let ?s = "s\<lparr>ls_nextID := ls_nextID s + 1, ls_subs := Some (AList.update (ls_nextID s) (ls_buffer s) chs)\<rparr>"
  have "ls_ok ?s"
    using assms c set_update [of "ls_nextID s" "ls_buffer s" chs] by (auto simp: ls_ok_def)
  then show ?thesis using assms c by (intro exI [of _ "ls_nextID s"] exI [of _ ?s]) (simp add: ls_subscribe_def ls_ok_def map_of_update)
qed

section \<open>What each step leaves alone\<close>

lemma on_stream_frame [simp]:
  "bw_store (on_stream u g w) = bw_store w" "bw_blobs (on_stream u g w) = bw_blobs w" "bw_bus (on_stream u g w) = bw_bus w"
  "bw_wasm (on_stream u g w) = bw_wasm w" "bw_fc (on_stream u g w) = bw_fc w" "bw_dirs (on_stream u g w) = bw_dirs w"
  "bw_logs (on_stream u g w) = bw_logs w" "bw_queue (on_stream u g w) = bw_queue w"
  by (simp_all add: on_stream_def split: option.split)

lemma emit_build_frame [simp]:
  "bw_store (emit_build ob i t f b x w) = bw_store w" "bw_blobs (emit_build ob i t f b x w) = bw_blobs w"
  "bw_wasm (emit_build ob i t f b x w) = bw_wasm w" "bw_fc (emit_build ob i t f b x w) = bw_fc w"
  "bw_dirs (emit_build ob i t f b x w) = bw_dirs w" "bw_logs (emit_build ob i t f b x w) = bw_logs w"
  "bw_queue (emit_build ob i t f b x w) = bw_queue w" "bw_streams (emit_build ob i t f b x w) = bw_streams w"
  by (simp_all add: emit_build_def)

lemma put_build_frame [simp]:
  "bw_blobs (snd (put_build br ob i b w)) = bw_blobs w"
  "bw_bus (snd (put_build br ob i b w)) = bw_bus w"
  "bw_wasm (snd (put_build br ob i b w)) = bw_wasm w"
  "bw_fc (snd (put_build br ob i b w)) = bw_fc w"
  "bw_dirs (snd (put_build br ob i b w)) = bw_dirs w"
  "bw_logs (snd (put_build br ob i b w)) = bw_logs w"
  "bw_queue (snd (put_build br ob i b w)) = bw_queue w"
  "bw_streams (snd (put_build br ob i b w)) = bw_streams w"
  by (simp_all add: put_build_def split_beta)

lemma failBuild_frame [simp]:
  "bw_blobs (snd (failBuild br ob f b e w)) = bw_blobs w"
  "bw_wasm (snd (failBuild br ob f b e w)) = bw_wasm w"
  "bw_fc (snd (failBuild br ob f b e w)) = bw_fc w"
  "bw_dirs (snd (failBuild br ob f b e w)) = bw_dirs w"
  "bw_logs (snd (failBuild br ob f b e w)) = bw_logs w"
  "bw_queue (snd (failBuild br ob f b e w)) = bw_queue w"
  by (simp_all add: failBuild_def Let_def split_beta split: option.split sum.split)

text \<open>A build keeps the queue; it changes directories only below those it removes at the end.\<close>

lemma remove_tree_frame [simp]: "bw_queue (remove_tree ob d w) = bw_queue w" "bw_streams (remove_tree ob d w) = bw_streams w"
  "bw_store (remove_tree ob d w) = bw_store w" "bw_blobs (remove_tree ob d w) = bw_blobs w" "bw_wasm (remove_tree ob d w) = bw_wasm w"
  "bw_fc (remove_tree ob d w) = bw_fc w" "set (bw_dirs (remove_tree ob d w)) \<subseteq> set (bw_dirs w)"
  "bo_rm ob d = None \<Longrightarrow> bw_dirs (remove_tree ob d w) = filter (\<lambda>p. \<not> inside d p) (bw_dirs w)"
  "bw_closed (remove_tree ob d w) = bw_closed w"
  by (auto simp: remove_tree_def)

lemma add_tree_frame [simp]: "bw_queue (add_tree d w) = bw_queue w" "bw_streams (add_tree d w) = bw_streams w"
  "bw_store (add_tree d w) = bw_store w" "bw_blobs (add_tree d w) = bw_blobs w" "bw_wasm (add_tree d w) = bw_wasm w"
  "bw_fc (add_tree d w) = bw_fc w" "bw_dirs (add_tree d w) = d # ancestors d @ bw_dirs w"
  by (simp_all add: add_tree_def)

lemma make_temp_frame [simp]:
  "bw_store (fst (make_temp br ob w)) = bw_store w"
  "bw_blobs (fst (make_temp br ob w)) = bw_blobs w"
  "bw_wasm (fst (make_temp br ob w)) = bw_wasm w"
  "bw_fc (fst (make_temp br ob w)) = bw_fc w"
  "bw_queue (fst (make_temp br ob w)) = bw_queue w"
  "bw_streams (fst (make_temp br ob w)) = bw_streams w"
  by (simp_all add: make_temp_def Let_def split_beta split: option.split sum.split)

lemma cloneToTemp_frame [simp]:
  "bw_store (fst (cloneToTemp br gl ob f spec uid w)) = bw_store w"
  "bw_blobs (fst (cloneToTemp br gl ob f spec uid w)) = bw_blobs w"
  "bw_wasm (fst (cloneToTemp br gl ob f spec uid w)) = bw_wasm w"
  "bw_fc (fst (cloneToTemp br gl ob f spec uid w)) = bw_fc w"
  "bw_queue (fst (cloneToTemp br gl ob f spec uid w)) = bw_queue w"
  by (simp_all add: cloneToTemp_def Let_def split_beta split: option.split sum.split)

lemma deploy_artifact_frame [simp]:
  "bw_store (fst (deploy_artifact br f code w)) = bw_store w"
  "bw_blobs (fst (deploy_artifact br f code w)) = bw_blobs w"
  "bw_bus (fst (deploy_artifact br f code w)) = bw_bus w"
  "bw_dirs (fst (deploy_artifact br f code w)) = bw_dirs w"
  "bw_logs (fst (deploy_artifact br f code w)) = bw_logs w"
  "bw_queue (fst (deploy_artifact br f code w)) = bw_queue w"
  "bw_streams (fst (deploy_artifact br f code w)) = bw_streams w"
  by (simp_all add: deploy_artifact_def Let_def split_beta split: option.split sum.split)

lemma succeed_frame [simp]:
  "bw_blobs (snd (snd (succeed br ob f b i sha w))) = bw_blobs w"
  "bw_wasm (snd (snd (succeed br ob f b i sha w))) = bw_wasm w"
  "bw_fc (snd (snd (succeed br ob f b i sha w))) = bw_fc w"
  "bw_dirs (snd (snd (succeed br ob f b i sha w))) = bw_dirs w"
  "bw_queue (snd (snd (succeed br ob f b i sha w))) = bw_queue w"
  by (simp_all add: succeed_def Let_def split_beta split: option.split sum.split)

lemma build_deploy_frame [simp]:
  "bw_dirs (snd (snd (build_deploy br ob f b sha artifact w))) = bw_dirs w"
  "bw_queue (snd (snd (build_deploy br ob f b sha artifact w))) = bw_queue w"
  by (simp_all add: build_deploy_def Let_def split_beta split: option.split sum.split)

lemma build_run_frame [simp]:
  "bw_dirs (snd (snd (build_run br ob f b res r outDir w))) = bw_dirs w"
  "bw_queue (snd (snd (build_run br ob f b res r outDir w))) = bw_queue w"
  by (simp_all add: build_run_def Let_def split_beta split: option.split sum.split)

lemma build_compile_frame [simp]:
  "bw_queue (snd (snd (build_compile br ob f b res w))) = bw_queue w"
  by (simp_all add: build_compile_def Let_def split_beta split: option.split sum.split)

lemma build_checkout_frame [simp]:
  "bw_queue (snd (snd (build_checkout br gl ob f spec b w))) = bw_queue w"
  by (simp_all add: build_checkout_def Let_def split_beta split: option.split sum.split)


section \<open>The streams of a builder\<close>

definition open_at :: "string \<Rightarrow> (string \<times> log_stream) list \<Rightarrow> bool" where
  "open_at u S \<longleftrightarrow> (\<exists>s. map_of S u = Some s \<and> ls_ok s)"

text \<open>A step of a build writes to its own stream only, and leaves it open.\<close>

definition writes_only :: "string \<Rightarrow> (string \<times> log_stream) list \<Rightarrow> (string \<times> log_stream) list \<Rightarrow> bool" where
  "writes_only u S S' \<longleftrightarrow> (\<forall>v. v \<noteq> u \<longrightarrow> map_of S' v = map_of S v) \<and> (open_at u S \<longrightarrow> open_at u S')"

definition table_on :: "string \<Rightarrow> (log_stream \<Rightarrow> log_stream) \<Rightarrow> (string \<times> log_stream) list \<Rightarrow> (string \<times> log_stream) list" where
  "table_on u g S = (case map_of S u of None \<Rightarrow> S | Some s \<Rightarrow> AList.update u (g s) S)"

lemma streams_on_stream [simp]: "bw_streams (on_stream u g w) = table_on u g (bw_streams w)"
  by (simp add: on_stream_def table_on_def split: option.split)

named_theorems writes

lemma writes_refl [writes]: "writes_only u S S"
  by (simp add: writes_only_def)

lemma writes_log [writes]: "writes_only u S S' \<Longrightarrow> writes_only u S (table_on u (logf x) S')"
  by (auto simp: writes_only_def open_at_def table_on_def map_of_update intro: ls_ok_logf split: option.splits)

lemma writes_run [writes]:
  "writes_only u S S' \<Longrightarrow> map_of S' u = Some s \<Longrightarrow> writes_only u S (AList.update u (fst (runSandbox ob srcDir outDir r s)) S')"
  by (auto simp: writes_only_def open_at_def map_of_update intro: ls_ok_sandbox)

lemma writes_trans: "writes_only u S S1 \<Longrightarrow> writes_only u S1 S2 \<Longrightarrow> writes_only u S S2"
  by (auto simp: writes_only_def)

lemma put_build_uid [simp]: "m_UID (bd_Meta b) \<noteq> [] \<Longrightarrow> m_UID (bd_Meta (fst (put_build br ob i b w))) = m_UID (bd_Meta b)"
  by (simp add: put_build_def PutBuild_def putScoped_def codec_defs mint_def Let_def split_beta split: option.split)

lemma writes_fail [writes]:
  "writes_only (m_UID (bd_Meta b)) S (bw_streams w) \<Longrightarrow> writes_only (m_UID (bd_Meta b)) S (bw_streams (snd (failBuild br ob f b e w)))"
  by (simp add: failBuild_def Let_def split_beta writes)

lemma writes_succeed [writes]:
  "writes_only (m_UID (bd_Meta b)) S (bw_streams w) \<Longrightarrow>
    writes_only (m_UID (bd_Meta b)) S (bw_streams (snd (snd (succeed br ob f b i sha w))))"
  by (simp add: succeed_def Let_def split_beta writes split: option.split)

lemma writes_deploy [writes]:
  "writes_only (m_UID (bd_Meta b)) S (bw_streams w) \<Longrightarrow>
    writes_only (m_UID (bd_Meta b)) S (bw_streams (snd (snd (build_deploy br ob f b sha artifact w))))"
  by (simp add: build_deploy_def Let_def split_beta writes split: option.split sum.split)

lemma writes_build_run [writes]:
  "writes_only (m_UID (bd_Meta b)) S (bw_streams w) \<Longrightarrow>
    writes_only (m_UID (bd_Meta b)) S (bw_streams (snd (snd (build_run br ob f b res r outDir w))))"
  by (auto simp: build_run_def Let_def split_beta intro!: writes split: option.split sum.split)

lemma writes_compile [writes]:
  "writes_only (m_UID (bd_Meta b)) S (bw_streams w) \<Longrightarrow>
    writes_only (m_UID (bd_Meta b)) S (bw_streams (snd (snd (build_compile br ob f b res w))))"
  by (simp add: build_compile_def Let_def split_beta writes split: option.split sum.split)

lemma writes_clone [writes]:
  "writes_only u S (bw_streams w) \<Longrightarrow> writes_only u S (bw_streams (fst (cloneToTemp br gl ob f spec u w)))"
  by (simp add: cloneToTemp_def Let_def split_beta writes split: option.split sum.split)

lemma writes_checkout:
  assumes "m_UID (bd_Meta b) \<noteq> []"
  shows "writes_only (m_UID (bd_Meta b)) (bw_streams w) (bw_streams (snd (snd (build_checkout br gl ob f spec b w))))"
proof -
  have c: "writes_only (m_UID (bd_Meta b)) (bw_streams w)
    (bw_streams (snd (snd (build_compile br ob f (fst (put_build br ob 5 (b\<lparr>bd_CommitSHA := sha\<rparr>) v)) res (snd (put_build br ob 5 (b\<lparr>bd_CommitSHA := sha\<rparr>) v))))))"
    if "writes_only (m_UID (bd_Meta b)) (bw_streams w) (bw_streams v)" for sha v res
    using writes_compile [of "fst (put_build br ob 5 (b\<lparr>bd_CommitSHA := sha\<rparr>) v)" "bw_streams w" "snd (put_build br ob 5 (b\<lparr>bd_CommitSHA := sha\<rparr>) v)"]
      that assms by simp
  show ?thesis by (simp add: build_checkout_def Let_def split_beta writes c split: option.split sum.split)
qed

text \<open>
  The streams of all builds under way, with everything written to each of them since it was
  opened: builds write, dashboards subscribe, receive and leave, a finished build closes.
\<close>

definition receive :: "nat \<Rightarrow> log_stream \<Rightarrow> log_stream" where
  "receive i s = s\<lparr>ls_subs := map_option (map (\<lambda>(j, ch). (j, if j = i then tl ch else ch))) (ls_subs s)\<rparr>"

inductive log_step ::
  "(string \<times> log_stream) list \<times> (string \<Rightarrow> string list) \<Rightarrow> (string \<times> log_stream) list \<times> (string \<Rightarrow> string list) \<Rightarrow> bool" where
  opened: "log_step (S, H) (AList.update u (newLogStream c) S, H(u := []))"
| written: "map_of S u = Some s \<Longrightarrow> log_step (S, H) (AList.update u (appendLines x s) S, H(u := H u @ [x]))"
| subscribed: "map_of S u = Some s \<Longrightarrow> ls_subscribe s = Some (Inr (i, s')) \<Longrightarrow> log_step (S, H) (AList.update u s' S, H)"
| received: "map_of S u = Some s \<Longrightarrow> log_step (S, H) (AList.update u (receive i s) S, H)"
| left: "map_of S u = Some s \<Longrightarrow> log_step (S, H) (AList.update u (ls_unsubscribe i s) S, H)"
| closed: "log_step (S, H) (AList.delete u S, H)"

definition lastn :: "nat \<Rightarrow> 'a list \<Rightarrow> 'a list" where
  "lastn n xs = drop (length xs - n) xs"

lemma lastn_snoc: "0 < n \<Longrightarrow> drop (length (lastn n xs @ [x]) - n) (lastn n xs @ [x]) = lastn n (xs @ [x])"
  by (cases "length xs \<le> n") (auto simp: lastn_def Suc_diff_le)

text \<open>The file has everything that was written, or a prefix of each piece when writes fail.\<close>

definition filed_log :: "log_stream \<Rightarrow> string list \<Rightarrow> bool" where
  "filed_log s xs \<longleftrightarrow> ls_file s = None \<or>
     (\<exists>cs. ls_file s = Some (concat cs) \<and> list_all2 (\<lambda>c x. \<exists>k. c = take k x) cs xs \<and> ((\<forall>i. ls_wr s i = None) \<longrightarrow> cs = xs))"

lemma filed_log_write:
  assumes "filed_log s xs"
  shows "filed_log (WriteString x s) (xs @ [x])"
proof (cases "ls_file s")
  case (Some c)
  let ?c = "case ls_wr s (ls_n s) of None \<Rightarrow> x | Some k \<Rightarrow> take k x"
  obtain cs where cs: "c = concat cs" "list_all2 (\<lambda>c x. \<exists>k. c = take k x) cs xs" "(\<forall>i. ls_wr s i = None) \<longrightarrow> cs = xs"
    using assms Some by (auto simp: filed_log_def)
  have "\<exists>k. ?c = take k x" by (cases "ls_wr s (ls_n s)") (auto intro: exI [of _ "length x"])
  then have "list_all2 (\<lambda>c x. \<exists>k. c = take k x) (cs @ [?c]) (xs @ [x])" using cs(2) by (simp add: list_all2_appendI)
  then show ?thesis unfolding filed_log_def using Some cs(1,3)
    by (intro disjI2 exI [of _ "cs @ [?c]"]) (simp add: WriteString_def)
qed (simp add: filed_log_def WriteString_def)

definition replays :: "log_stream \<Rightarrow> string list \<Rightarrow> bool" where
  "replays s xs \<longleftrightarrow> ls_ok s \<and> ls_buffer s = lastn 256 xs \<and> filed_log s xs"

lemma replays_new: "replays (newLogStream c) []"
  by (simp add: replays_def ls_ok_new) (auto simp: newLogStream_def lastn_def filed_log_def split: option.split)

lemma replays_append:
  assumes "replays s xs"
  shows "replays (appendLines x s) (xs @ [x])"
proof -
  have "ls_file (appendLines x s) = ls_file (WriteString x s)" "ls_wr (appendLines x s) = ls_wr (WriteString x s)"
    "ls_buffer (appendLines x s) = drop (length (ls_buffer s @ [x]) - 256) (ls_buffer s @ [x])"
    using assms by (simp_all add: replays_def ls_ok_def appendLines_def logBufferLines_def Let_def)
  then show ?thesis using assms filed_log_write [of s xs x] lastn_snoc [of 256 xs x]
    by (simp add: replays_def ls_ok_append filed_log_def)
qed

lemma replays_subs:
  assumes "replays s xs" "ls_ok s'" "ls_buffer s' = ls_buffer s" "ls_file s' = ls_file s" "ls_wr s' = ls_wr s"
  shows "replays s' xs"
  using assms by (simp add: replays_def filed_log_def)

lemma ls_ok_receive: "ls_ok s \<Longrightarrow> ls_ok (receive i s)"
  by (fastforce simp: ls_ok_def receive_def)

lemma ls_ok_unsubscribe: "ls_ok s \<Longrightarrow> ls_ok (ls_unsubscribe i s)"
  by (auto simp: ls_ok_def ls_unsubscribe_def AList.delete_eq)

lemma ls_ok_subscribe: "ls_ok s \<Longrightarrow> ls_subscribe s = Some (Inr (i, s')) \<Longrightarrow> ls_ok s' \<and> ls_buffer s' = ls_buffer s \<and> ls_file s' = ls_file s \<and> ls_wr s' = ls_wr s"
  by (drule ls_subscribe_ok) auto

lemma log_step_replays:
  assumes "log_step c c'" "\<And>u s. map_of (fst c) u = Some s \<Longrightarrow> replays s (snd c u)" "map_of (fst c') u = Some s"
  shows "replays s (snd c' u)"
  using assms
proof (induction rule: log_step.induct)
  case (subscribed S v s1 i s' H)
  have "replays s1 (H v)" using subscribed by simp
  then have "replays s' (H v)" using replays_subs ls_ok_subscribe [OF _ subscribed.hyps(2)] unfolding replays_def by metis
  then show ?case using subscribed by (auto simp: map_of_update split: if_splits)
next
  case (received S v s1 H i)
  have "replays s1 (H v)" using received by simp
  then have "replays (receive i s1) (H v)" by (rule replays_subs) (use \<open>replays s1 (H v)\<close> in \<open>simp_all add: replays_def ls_ok_receive\<close>, simp_all add: receive_def)
  then show ?case using received by (auto simp: map_of_update split: if_splits)
next
  case (left S v s1 H i)
  have "replays s1 (H v)" using left by simp
  then have "replays (ls_unsubscribe i s1) (H v)" by (rule replays_subs) (use \<open>replays s1 (H v)\<close> in \<open>simp_all add: replays_def ls_ok_unsubscribe\<close>, simp_all add: ls_unsubscribe_def)
  then show ?case using left by (auto simp: map_of_update split: if_splits)
qed (auto simp: map_of_update map_of_delete replays_new replays_append split: if_splits)

text \<open>
  C24. Whoever subscribes to the log of a build under way, at any time and whatever the builds and
  the other subscribers do: the subscription neither blocks nor panics, and its channel starts
  with the last 256 pieces written to that log; the file, if it could be created, has all of
  them, or a prefix of those whose write failed.
\<close>

theorem log_replay:
  assumes "log_step\<^sup>*\<^sup>* ([], H0) (S, H)" "map_of S u = Some s"
  shows "\<exists>i s'. ls_subscribe s = Some (Inr (i, s')) \<and> map_of (the (ls_subs s')) i = Some (drop (length (H u) - 256) (H u)) \<and>
    (ls_file s = None \<or> (\<exists>cs. ls_file s = Some (concat cs) \<and> list_all2 (\<lambda>c x. \<exists>k. c = take k x) cs (H u) \<and>
       ((\<forall>i. ls_wr s i = None) \<longrightarrow> cs = H u)))"
proof -
  have "map_of (fst c) u = Some s \<Longrightarrow> replays s (snd c u)" if "log_step\<^sup>*\<^sup>* ([], H0) c" for c u s
    using that
  proof (induction arbitrary: u s rule: rtranclp_induct)
    case (step c1 c2)
    then show ?case using log_step_replays [of c1 c2] by blast
  qed simp
  then have r: "replays s (H u)" using assms by fastforce
  then obtain i s' where "ls_subscribe s = Some (Inr (i, s'))" "map_of (the (ls_subs s')) i = Some (ls_buffer s)"
    using ls_subscribe_ok [of s] unfolding replays_def by blast
  then show ?thesis using r by (auto simp: replays_def lastn_def filed_log_def)
qed

theorem log_replay_witness:
  "\<exists>i s'. ls_subscribe (appendLines ''a'' (newLogStream (Some (\<lambda>_. None)))) = Some (Inr (i, s')) \<and> map_of (the (ls_subs s')) i = Some [''a'']"
proof -
  let ?s = "newLogStream (Some (\<lambda>_. None))"
  have "log_step ([], \<lambda>_. []) ([(''u'', ?s)], (\<lambda>_. [])(''u'' := []))"
    using log_step.opened [of "[]" "\<lambda>_. []" "''u''" "Some (\<lambda>_. None)"] by simp
  moreover have "log_step ([(''u'', ?s)], (\<lambda>_. [])(''u'' := [])) ([(''u'', appendLines ''a'' ?s)], (\<lambda>_. [])(''u'' := [''a'']))"
    using log_step.written [of "[(''u'', ?s)]" "''u''" ?s "(\<lambda>_. [])(''u'' := [])" "''a''"] by simp
  ultimately have "log_step\<^sup>*\<^sup>* ([], \<lambda>_. []) ([(''u'', appendLines ''a'' ?s)], (\<lambda>_. [])(''u'' := [''a'']))"
    by (meson rtranclp.rtrancl_into_rtrancl rtranclp.rtrancl_refl)
  from log_replay [OF this, of "''u''"] show ?thesis by auto
qed

section \<open>How a build ends\<close>

definition temp_of :: "build_obs \<Rightarrow> string option" where
  "temp_of ob = (case bo_temp ob 0 of Inr t \<Rightarrow> Some t | Inl _ \<Rightarrow> (case bo_temp ob 1 of Inr t \<Rightarrow> Some t | Inl _ \<Rightarrow> None))"

text \<open>The temporary directory is nowhere below the output directory of the build.\<close>

definition temp_apart :: "('db, 'wa, 'fc) builder \<Rightarrow> build_obs \<Rightarrow> string \<Rightarrow> bool" where
  "temp_apart br ob uid \<longleftrightarrow>
     (\<forall>d. d = src_root br \<or> temp_of ob = Some d \<longrightarrow> (\<forall>p\<in>set (d # ancestors d). \<not> inside (out_dir br uid) p))"

lemma cloneToTemp_temp: "fst (snd (cloneToTemp br gl ob f spec u w)) = temp_of ob"
  by (simp add: cloneToTemp_def make_temp_def temp_of_def Let_def split_beta split: sum.split option.split)

lemma cloneToTemp_Inr:
  assumes "snd (snd (cloneToTemp br gl ob f spec u w)) = Inr res"
  shows "\<exists>tmp rv. temp_of ob = Some tmp \<and> clone gl ob rv f tmp = Inr res"
proof -
  obtain tmp where t: "fst (snd (cloneToTemp br gl ob f spec u w)) = Some tmp"
      "clone gl ob (map_option (\<lambda>rv p n. rv p n (bw_store w)) (br_reveal br)) f tmp = Inr res"
    using assms by (auto simp: cloneToTemp_def Let_def split_beta split: sum.splits option.splits)
  then show ?thesis unfolding cloneToTemp_temp by blast
qed

lemma cloneToTemp_dirs:
  assumes "p \<in> set (bw_dirs (fst (cloneToTemp br gl ob f spec u w)))"
  shows "p \<in> set (bw_dirs w) \<or> (\<exists>d. (d = src_root br \<or> temp_of ob = Some d) \<and> p \<in> set (d # ancestors d))"
  using assms
  by (auto simp: cloneToTemp_def make_temp_def temp_of_def Let_def split_beta split: sum.splits option.splits if_splits)

lemma compile_dirs:
  "p \<in> set (bw_dirs (snd (snd (build_compile br ob f b res w)))) \<Longrightarrow> inside (out_dir br (m_UID (bd_Meta b))) p \<Longrightarrow>
   bo_rm ob (out_dir br (m_UID (bd_Meta b))) = None \<Longrightarrow> p \<in> set (bw_dirs w)"
  by (auto simp: build_compile_def Let_def split_beta split: sum.splits option.splits if_splits)

lemma clean_dirs:
  "p \<in> set (bw_dirs (case tmp of None \<Rightarrow> v | Some d \<Rightarrow> remove_tree ob d v)) \<Longrightarrow> p \<in> set (bw_dirs v)"
  by (auto split: option.splits dest: subsetD [OF remove_tree_frame(7)])

lemma checkout_dirs:
  assumes "p \<in> set (bw_dirs (snd (snd (build_checkout br gl ob f spec b w))))" "m_UID (bd_Meta b) \<noteq> []"
  shows "temp_of ob = Some tmp \<Longrightarrow> bo_rm ob tmp = None \<Longrightarrow> \<not> inside tmp p"
    "temp_apart br ob (m_UID (bd_Meta b)) \<Longrightarrow> bo_rm ob (out_dir br (m_UID (bd_Meta b))) = None \<Longrightarrow>
      inside (out_dir br (m_UID (bd_Meta b))) p \<Longrightarrow> p \<in> set (bw_dirs w)"
proof -
  show "\<not> inside tmp p" if "temp_of ob = Some tmp" "bo_rm ob tmp = None"
    using assms(1) that by (simp add: build_checkout_def Let_def split_beta cloneToTemp_temp)
  assume a: "temp_apart br ob (m_UID (bd_Meta b))" and i: "inside (out_dir br (m_UID (bd_Meta b))) p"
    and rm: "bo_rm ob (out_dir br (m_UID (bd_Meta b))) = None"
  let ?c = "cloneToTemp br gl ob f spec (m_UID (bd_Meta b)) w"
  have "p \<in> set (bw_dirs (fst ?c))"
  proof (cases "snd (snd ?c)")
    case (Inl e)
    then show ?thesis using clean_dirs [where tmp = "fst (snd ?c)" and ob = ob and v = "snd (failBuild br ob f b e (fst ?c))" and p = p] assms(1) Inl
      by (cases "fst (snd ?c)") (simp_all add: build_checkout_def Let_def split_beta)
  next
    case (Inr res)
    let ?b = "put_build br ob 5 (b\<lparr>bd_CommitSHA := cl_CommitSHA res\<rparr>) (fst ?c)"
    have "p \<in> set (bw_dirs (snd (snd (build_compile br ob f (fst ?b) res (snd ?b)))))"
      using clean_dirs [where tmp = "fst (snd ?c)" and ob = ob and v = "snd (snd (build_compile br ob f (fst ?b) res (snd ?b)))" and p = p] assms(1) Inr
      by (cases "fst (snd ?c)") (simp_all add: build_checkout_def Let_def split_beta)
    from compile_dirs [OF this] show ?thesis using i rm assms(2) by simp
  qed
  from cloneToTemp_dirs [OF this] show "p \<in> set (bw_dirs w)" using a i by (auto simp: temp_apart_def)
qed

lemma build_begin_frame [simp]:
  "bw_queue (snd (build_begin br ob f b w)) = bw_queue w" "bw_dirs (snd (build_begin br ob f b w)) = bw_dirs w"
  "bw_blobs (snd (build_begin br ob f b w)) = bw_blobs w" "bw_wasm (snd (build_begin br ob f b w)) = bw_wasm w"
  "bw_fc (snd (build_begin br ob f b w)) = bw_fc w"
  by (simp_all add: build_begin_def openStream_def Let_def split_beta)

lemma build_begin_uid: "m_UID (bd_Meta b) \<noteq> [] \<Longrightarrow> m_UID (bd_Meta (fst (build_begin br ob f b w))) = m_UID (bd_Meta b)"
  by (simp add: build_begin_def Let_def split_beta)

lemma build_begin_stream:
  assumes "m_UID (bd_Meta b) \<noteq> []"
  shows "open_at (m_UID (bd_Meta b)) (bw_streams (snd (build_begin br ob f b w)))"
    "v \<noteq> m_UID (bd_Meta b) \<Longrightarrow> map_of (bw_streams (snd (build_begin br ob f b w))) v = map_of (bw_streams w) v"
  using assms
  by (auto simp: build_begin_def openStream_def Let_def split_beta table_on_def open_at_def map_of_update intro: ls_ok_logf ls_ok_new)

lemma acquire_release:
  assumes "acquire k q = Some q1" "release k q1 = Some q2"
  shows "map_of q2 = (map_of q)(k \<mapsto> 0)"
  using assms
  by (auto simp: acquire_def acquire_send_def acquire_lookup_def release_def map_of_update fun_eq_iff split: option.splits if_splits)

lemma acquire_free: "map_of q k \<in> {None, Some 0} \<Longrightarrow> \<exists>q1 q2. acquire k q = Some q1 \<and> release k q1 = Some q2"
  by (auto simp: acquire_def acquire_send_def acquire_lookup_def release_def map_of_update)

text \<open>A build in terms of its parts, with the slot it takes and gives back.\<close>

lemma runBuild_parts:
  fixes br :: "('db, 'wa, 'fc) builder"
  assumes "b1w1 = build_begin br ob f b w" "acquire (fnKey f) (bw_queue w) = Some q1" "release (fnKey f) q1 = Some q2"
    "src_Git (f_Source f) = Some spec"
    and "R = build_checkout br gl ob f spec (fst b1w1) ((snd b1w1)\<lparr>bw_queue := q1\<rparr>)"
  shows "runBuild br gl ob f b w =
    Some (fst R, fst (snd R), closeStream br (m_UID (bd_Meta (fst b1w1))) ((snd (snd R))\<lparr>bw_queue := q2\<rparr>))"
proof -
  have "bw_queue (snd (snd R)) = q1" by (simp add: assms(5))
  then show ?thesis using assms by (simp add: runBuild_def split_beta)
qed

lemma runBuild_elim:
  assumes "runBuild br gl ob f b w = Some (f', b', w')"
  obtains q1 q2 spec where "acquire (fnKey f) (bw_queue w) = Some q1" "release (fnKey f) q1 = Some q2" "src_Git (f_Source f) = Some spec"
  using assms by (auto simp: runBuild_def split_beta split: option.splits)

text \<open>
  C23. A build of a function with a Git source whose slot is free returns (the processes it runs and
  the Git library are taken to return), and however it ends: the slot is free again and no other slot
  has changed; its log stream is out of the table and closed, so that the channel of every
  subscriber has ended and nothing more is written to it, and the file has the log; the streams of
  other builds are untouched; nothing of the temporary checkout is left, and below the output
  directory there is nothing that was not there before, unless the system could not remove them.
\<close>

theorem build_cleans_up:
  assumes "src_Git (f_Source f) \<noteq> None" "map_of (bw_queue w) (fnKey f) \<in> {None, Some 0}" "m_UID (bd_Meta b) = uid" "uid \<noteq> []"
    and "temp_apart br ob uid"
  shows "\<exists>f' b' w' s. runBuild br gl ob f b w = Some (f', b', w') \<and>
    map_of (bw_queue w') = (map_of (bw_queue w))(fnKey f \<mapsto> 0) \<and>
    map_of (bw_streams w') = (map_of (bw_streams w))(uid := None) \<and>
    map_of (bw_closed w') uid = Some s \<and> ls_closed s \<and> ls_subs s = None \<and> (\<forall>x. appendLines x s = s) \<and>
    (\<forall>c. ls_file s = Some c \<longrightarrow> map_of (bw_logs w') (log_path br uid) = Some c) \<and>
    (\<forall>tmp. temp_of ob = Some tmp \<and> bo_rm ob tmp = None \<longrightarrow> (\<forall>p\<in>set (bw_dirs w'). \<not> inside tmp p)) \<and>
    (bo_rm ob (out_dir br uid) = None \<longrightarrow> (\<forall>p\<in>set (bw_dirs w'). inside (out_dir br uid) p \<longrightarrow> p \<in> set (bw_dirs w)))"
proof -
  obtain q1 q2 spec where q: "acquire (fnKey f) (bw_queue w) = Some q1" "release (fnKey f) q1 = Some q2" "src_Git (f_Source f) = Some spec"
    using acquire_free [OF assms(2)] assms(1) by blast
  define b1w1 where b1w1: "b1w1 = build_begin br ob f b w"
  define R where R: "R = build_checkout br gl ob f spec (fst b1w1) ((snd b1w1)\<lparr>bw_queue := q1\<rparr>)"
  let ?w = "closeStream br uid ((snd (snd R))\<lparr>bw_queue := q2\<rparr>)"
  have u: "m_UID (bd_Meta (fst b1w1)) = uid" using build_begin_uid [of b br ob f w] assms(3,4) by (simp add: b1w1)
  have r: "runBuild br gl ob f b w = Some (fst R, fst (snd R), ?w)"
    using runBuild_parts [OF b1w1 q R] u by simp
  have "writes_only uid (bw_streams (snd b1w1)) (bw_streams (snd (snd R)))"
    using writes_checkout [of "fst b1w1" "(snd b1w1)\<lparr>bw_queue := q1\<rparr>" br gl ob f spec] u assms(4) by (simp add: R)
  then have o: "open_at uid (bw_streams (snd (snd R)))" and e: "\<And>v. v \<noteq> uid \<Longrightarrow> map_of (bw_streams (snd (snd R))) v = map_of (bw_streams w) v"
    using build_begin_stream(1) [of b br ob f w] build_begin_stream(2) [where b = b and br = br and ob = ob and f = f and w = w] assms(3,4) by (auto simp: writes_only_def b1w1)
  obtain s where s: "map_of (bw_streams (snd (snd R))) uid = Some s" using o by (auto simp: open_at_def)
  then have c: "map_of (bw_streams ?w) = (map_of (bw_streams w))(uid := None)" "bw_dirs ?w = bw_dirs (snd (snd R))" "bw_queue ?w = q2"
    "map_of (bw_closed ?w) uid = Some (ls_close s)" "\<And>x. ls_file (ls_close s) = Some x \<Longrightarrow> map_of (bw_logs ?w) (log_path br uid) = Some x"
    using e by (auto simp: closeStream_def map_of_delete map_of_update fun_eq_iff split: option.splits)
  have l: "ls_closed (ls_close s)" "ls_subs (ls_close s) = None" "appendLines x (ls_close s) = ls_close s" for x
    by (simp_all add: ls_close_def appendLines_def)
  have d: "\<not> inside tmp p" if "temp_of ob = Some tmp" "bo_rm ob tmp = None" "p \<in> set (bw_dirs (snd (snd R)))" for tmp p
    using checkout_dirs(1) [of p br gl ob f spec "fst b1w1" "(snd b1w1)\<lparr>bw_queue := q1\<rparr>" tmp] that u assms(4) by (simp add: R)
  have out: "p \<in> set (bw_dirs w)" if "p \<in> set (bw_dirs (snd (snd R)))" "inside (out_dir br uid) p" "bo_rm ob (out_dir br uid) = None" for p
    using checkout_dirs(2) [of p br gl ob f spec "fst b1w1" "(snd b1w1)\<lparr>bw_queue := q1\<rparr>"] that u assms(4,5)
    by (simp add: R) (simp add: b1w1)
  show ?thesis
    by (rule exI [of _ "fst R"], rule exI [of _ "fst (snd R)"], rule exI [of _ ?w], rule exI [of _ "ls_close s"])
      (use r c l acquire_release [OF q(1,2)] d out in auto)
qed

section \<open>What a build records and deploys\<close>

text \<open>A database that takes every write to a bucket that exists.\<close>

locale reliable_store = bolt_engine B
  for B :: "'db bolt" +
  assumes put_succeeds: "b \<in> set (bbuckets B db) \<Longrightarrow> k \<noteq> [] \<Longrightarrow> \<exists>db'. bput B db b k d = Inr db' \<and> bcommit B db' = None"
begin

lemma putScoped_succeeds:
  assumes "has_bucket B s b" "m_Name (getMeta T v) \<noteq> []"
  shows "snd (snd (putScoped B T b kind uid t0 t1 v s)) = None"
proof -
  let ?m = "mint uid t0 t1 (if m_Project (getMeta T v) = [] then (getMeta T v)\<lparr>m_Project := ''default''\<rparr> else getMeta T v)"
  have "keyFor (m_Project ?m) (m_Name ?m) \<noteq> []" by (simp add: keyFor_def)
  then obtain db' where "bput B (sdb s) b (keyFor (m_Project ?m) (m_Name ?m)) (marshal T (setMeta T ?m v)) = Inr db'" "bcommit B db' = None"
    using put_succeeds [of b "sdb s"] assms(1) by (auto simp: has_bucket_def)
  then have "store_put B b (keyFor (m_Project ?m) (m_Name ?m)) (marshal T (setMeta T ?m v)) s = (s\<lparr>sdb := db'\<rparr>, None)"
    using assms(1) by (simp add: store_put_None has_bucket_def)
  then show ?thesis using assms(2) by (simp add: putScoped_def Let_def split_beta)
qed

end

lemma mem_reliable: "b \<in> set (bbuckets mem_bolt db) \<Longrightarrow> k \<noteq> [] \<Longrightarrow> \<exists>db'. bput mem_bolt db b k d = Inr db' \<and> bcommit mem_bolt db' = None"
  by (auto simp: mem_bolt_def mem_buckets_def mem_put_def dest: weak_map_of_SomeI split: option.split)

interpretation mem_reliable: reliable_store mem_bolt
  by unfold_locales (rule mem_reliable)

lemma blob_stored:
  assumes "blob_Put H wr data fs = (fs', Inr i)"
  shows "i = hexEncode (H data) \<and> (\<exists>d. blob_Get i fs' = Inr d \<and> (blobs_intact H fs \<longrightarrow> H d = H data))"
  using assms hexEncode_inject
  by (fastforce simp: blob_Put_def blob_Get_def blobs_intact_def Let_def map_of_update split: if_splits option.splits prod.splits)

text \<open>The runtime of the function was asked to deploy the code, with this result; the other one was left alone.\<close>

definition ran_deploy :: "('db, 'wa, 'fc) builder \<Rightarrow> func \<Rightarrow> bytes \<Rightarrow> ('db, 'wa, 'fc) build_world \<Rightarrow> ('db, 'wa, 'fc) build_world \<Rightarrow>
  error option \<Rightarrow> bool" where
  "ran_deploy br f code w w' r \<longleftrightarrow>
     (if f_Runtime f = FunctionRuntimeFirecracker
      then bw_wasm w' = bw_wasm w \<and> (\<exists>R. br_fc br = Some R \<and> fr_Deploy R f code (bw_fc w) = (bw_fc w', r))
      else bw_fc w' = bw_fc w \<and> (\<exists>R. br_wasm br = Some R \<and> fr_Deploy R f code (bw_wasm w) = (bw_wasm w', r)))"

lemma deploy_artifact_ok:
  assumes "deploy_artifact br f code w = (w', r)"
  shows "(case r of None \<Rightarrow> ran_deploy br f code w w' None
    | Some e \<Rightarrow> bw_wasm w' = bw_wasm w \<and> bw_fc w' = bw_fc w \<or> (\<exists>e'. ran_deploy br f code w w' (Some e') \<and> e = wrapped ''deploy: '' e'))"
  using assms by (auto simp: deploy_artifact_def deploy_with_def ran_deploy_def split: if_splits prod.splits option.splits)

text \<open>What a step that neither deploys nor touches functions leaves as it was.\<close>

definition same_deploys :: "'db bolt \<Rightarrow> ('db, 'wa, 'fc) build_world \<Rightarrow> ('db, 'wa, 'fc) build_world \<Rightarrow> bool" where
  "same_deploys B w w' \<longleftrightarrow> bw_wasm w' = bw_wasm w \<and> bw_fc w' = bw_fc w \<and>
     entries B (bw_store w') ''functions'' = entries B (bw_store w) ''functions'' \<and> has_bucket B (bw_store w') = has_bucket B (bw_store w)"

definition recorded :: "'db bolt \<Rightarrow> build \<Rightarrow> 'db store \<Rightarrow> bool" where
  "recorded B b s \<longleftrightarrow> GetBuild B (m_Project (bd_Meta b)) (m_Name (bd_Meta b)) s = Inr b"

text \<open>
  A failed build: the function and the stored functions are as they were, and so is what is deployed,
  unless it was the deployment that failed. The record is stored when the database takes writes.
\<close>

definition fails :: "('db, 'wa, 'fc) builder \<Rightarrow> func \<Rightarrow> ('db, 'wa, 'fc) build_world \<Rightarrow> func \<times> build \<times> ('db, 'wa, 'fc) build_world \<Rightarrow> bool" where
  "fails br f w = (\<lambda>(f', b', w').
     f' = f \<and> bd_Status b' = PhaseFailed \<and> entries (br_bolt br) (bw_store w') ''functions'' = entries (br_bolt br) (bw_store w) ''functions'' \<and>
     (bw_wasm w' = bw_wasm w \<and> bw_fc w' = bw_fc w \<or>
      (\<exists>code e. ran_deploy br f code w w' (Some e) \<and> bd_Message b' = errorString (wrapped ''deploy: '' e))) \<and>
     (reliable_store (br_bolt br) \<longrightarrow> recorded (br_bolt br) b' (bw_store w')))"

text \<open>
  A successful build: the record and the function name the blob of the artifact, which the runtime
  has deployed. The update of the stored function may fail, and is only logged then.
\<close>

definition succeeds :: "('db, 'wa, 'fc) builder \<Rightarrow> func \<Rightarrow> string \<Rightarrow> bytes \<Rightarrow> ('db, 'wa, 'fc) build_world \<Rightarrow>
  func \<times> build \<times> ('db, 'wa, 'fc) build_world \<Rightarrow> bool" where
  "succeeds br f uid code w = (\<lambda>(f', b', w').
     bd_Status b' = PhaseSucceeded \<and> f_LatestBuild f' = uid \<and> f_SourceRef f' = bd_ArtifactRef b' \<and>
     code \<noteq> [] \<and> bd_ArtifactRef b' = hexEncode (br_hash br code) \<and>
     (\<exists>d. blob_Get (f_SourceRef f') (bw_blobs w') = Inr d \<and> (blobs_intact (br_hash br) (bw_blobs w) \<longrightarrow> br_hash br d = br_hash br code)) \<and>
     ran_deploy br f code w w' None \<and>
     (entries (br_bolt br) (bw_store w') ''functions'' = entries (br_bolt br) (bw_store w) ''functions'' \<or>
      GetFunction (br_bolt br) (m_Project (f_Meta f')) (m_Name (f_Meta f')) (bw_store w') = Inr f') \<and>
     (reliable_store (br_bolt br) \<longrightarrow> recorded (br_bolt br) b' (bw_store w') \<and>
        GetFunction (br_bolt br) (m_Project (f_Meta f')) (m_Name (f_Meta f')) (bw_store w') = Inr f'))"

lemma same_deploys_refl [simp]: "same_deploys B w w"
  by (simp add: same_deploys_def)

lemma same_deploys_trans: "same_deploys B w w1 \<Longrightarrow> same_deploys B w1 w2 \<Longrightarrow> same_deploys B w w2"
  by (simp add: same_deploys_def)

lemma same_deploys_has: "same_deploys B w w' \<Longrightarrow> has_bucket B (bw_store w') = has_bucket B (bw_store w)"
  by (simp add: same_deploys_def)

lemma ran_deploy_mono: "bw_wasm w1 = bw_wasm w \<Longrightarrow> bw_fc w1 = bw_fc w \<Longrightarrow> ran_deploy br f code w1 = ran_deploy br f code w"
  by (simp add: ran_deploy_def fun_eq_iff)

lemma fails_mono:
  assumes "same_deploys (br_bolt br) w w1" "fails br f w1 r"
  shows "fails br f w r"
proof -
  have s: "bw_wasm w1 = bw_wasm w" "bw_fc w1 = bw_fc w" using assms(1) by (simp_all add: same_deploys_def)
  show ?thesis using assms unfolding fails_def ran_deploy_mono [OF s] s same_deploys_def by (simp add: split_beta)
qed

lemma succeeds_mono:
  assumes "same_deploys (br_bolt br) w w1" "bw_blobs w1 = bw_blobs w" "succeeds br f uid code w1 r"
  shows "succeeds br f uid code w r"
proof -
  have s: "bw_wasm w1 = bw_wasm w" "bw_fc w1 = bw_fc w"
    "entries (br_bolt br) (bw_store w1) ''functions'' = entries (br_bolt br) (bw_store w) ''functions''"
    using assms(1) by (simp_all add: same_deploys_def)
  show ?thesis using assms(3) unfolding succeeds_def ran_deploy_mono [OF s(1,2)] assms(2) s(3) .
qed

text \<open>What happens afterwards to directories, streams and slots does not matter.\<close>

lemma outcome_frame:
  assumes "bw_store w2 = bw_store w1" "bw_wasm w2 = bw_wasm w1" "bw_fc w2 = bw_fc w1" "bw_blobs w2 = bw_blobs w1"
  shows "fails br f w (f', b', w2) \<longleftrightarrow> fails br f w (f', b', w1)"
    "succeeds br f uid code w (f', b', w2) \<longleftrightarrow> succeeds br f uid code w (f', b', w1)"
  using assms by (simp_all add: fails_def succeeds_def ran_deploy_def)

context bolt_engine
begin

lemma put_build_ok:
  assumes "br_bolt br = B" "m_Name (bd_Meta b) \<noteq> []"
  shows "reliable_store B \<Longrightarrow> has_bucket B (bw_store w) ''builds'' \<Longrightarrow>
      recorded B (fst (put_build br ob i b w)) (bw_store (snd (put_build br ob i b w)))"
    "same_deploys B w (snd (put_build br ob i b w))"
    "\<exists>m. fst (put_build br ob i b w) = b\<lparr>bd_Meta := m\<rparr> \<and> m_Name m = m_Name (bd_Meta b)"
proof -
  have T: "scoped_table B buildT ''builds''" by (rule tables) unfold_locales
  obtain b' s' r where p: "putScoped B buildT ''builds'' KindBuild (bo_uid ob) (bo_clock ob i) (bo_clock ob (i + 1)) b (bw_store w) = (b', s', r)"
    by (metis prod.exhaust)
  have e: "fst (put_build br ob i b w) = b'" "snd (put_build br ob i b w) = w\<lparr>bw_store := s'\<rparr>"
    using p assms(1) by (simp_all add: put_build_def PutBuild_def)
  show "recorded B (fst (put_build br ob i b w)) (bw_store (snd (put_build br ob i b w)))"
    if "reliable_store B" "has_bucket B (bw_store w) ''builds''"
  proof -
    have "m_Name (getMeta buildT b) \<noteq> []" using assms(2) by (simp add: buildT_def)
    from reliable_store.putScoped_succeeds [OF that this] have "r = None" using p by (metis snd_conv)
    then show ?thesis using scoped_table.get_after_put [OF T p [unfolded \<open>r = None\<close>]]
      by (simp add: e recorded_def GetBuild_def buildT_def scoped_key_def)
  qed
  show "same_deploys B w (snd (put_build br ob i b w))"
  proof (cases r)
    case None
    then show ?thesis using scoped_table.entries_putScoped [OF T p [unfolded None]] scoped_table.has_bucket_putScoped [OF T p]
      by (simp add: e same_deploys_def fun_eq_iff)
  next
    case (Some x)
    then have "s' = bw_store w" using p putScoped_Some by metis
    then show ?thesis by (simp add: e same_deploys_def)
  qed
  have "b' = b\<lparr>bd_Meta := bd_Meta b'\<rparr> \<and> m_Name (bd_Meta b') = m_Name (bd_Meta b)"
    using p assms(2) by (auto simp: putScoped_def codec_defs mint_def Let_def split: prod.splits option.splits if_splits)
  then show "\<exists>m. fst (put_build br ob i b w) = b\<lparr>bd_Meta := m\<rparr> \<and> m_Name m = m_Name (bd_Meta b)" unfolding e by blast
qed

text \<open>A put at the end of a build, after which nothing is stored any more.\<close>

lemma fail_ok:
  assumes "br_bolt br = B" "has_bucket B (bw_store w) ''builds''" "m_Name (bd_Meta b) \<noteq> []"
    and "entries B (bw_store w1) ''functions'' = entries B (bw_store w) ''functions''" "has_bucket B (bw_store w1) = has_bucket B (bw_store w)"
    and "bw_wasm w1 = bw_wasm w \<and> bw_fc w1 = bw_fc w \<or> (\<exists>code e'. ran_deploy br f code w w1 (Some e') \<and> e = wrapped ''deploy: '' e')"
  shows "fails br f w (f, failBuild br ob f b e w1)"
proof -
  let ?w = "on_stream (m_UID (bd_Meta b)) (logf (''==> FAILED: '' @ errorString e)) w1"
  let ?b = "b\<lparr>bd_Status := PhaseFailed, bd_Message := errorString e, bd_FinishedAt := bo_clock ob 20\<rparr>"
  have n: "m_Name (bd_Meta ?b) \<noteq> []" using assms(3) by simp
  have h: "has_bucket B (bw_store ?w) ''builds''" using assms(2,5) by simp
  note p = put_build_ok(1) [OF assms(1) n _ h, of ob 21] put_build_ok(2) [OF assms(1) n, of ?w ob 21] put_build_ok(3) [OF assms(1) n, of ob 21 ?w]
  obtain m where m: "fst (put_build br ob 21 ?b ?w) = ?b\<lparr>bd_Meta := m\<rparr>" using p(3) by blast
  have f: "failBuild br ob f b e w1 = (fst (put_build br ob 21 ?b ?w),
      emit_build ob 23 ''build.failed'' f (fst (put_build br ob 21 ?b ?w)) [(''error'', errorString e)] (snd (put_build br ob 21 ?b ?w)))"
    by (simp add: failBuild_def Let_def split_beta)
  define v where "v = emit_build ob 23 ''build.failed'' f (fst (put_build br ob 21 ?b ?w)) [(''error'', errorString e)] (snd (put_build br ob 21 ?b ?w))"
  have v: "bw_wasm v = bw_wasm w1" "bw_fc v = bw_fc w1" "entries B (bw_store v) ''functions'' = entries B (bw_store w) ''functions''"
    using p(2) assms(4) by (simp_all add: same_deploys_def v_def)
  have k: "reliable_store B \<longrightarrow> recorded B (fst (put_build br ob 21 ?b ?w)) (bw_store v)" using p(1) by (simp add: v_def)
  have d: "ran_deploy br f code w v r = ran_deploy br f code w w1 r" for code r using v(1,2) by (simp add: ran_deploy_def)
  have s: "bd_Status (fst (put_build br ob 21 ?b ?w)) = PhaseFailed" "bd_Message (fst (put_build br ob 21 ?b ?w)) = errorString e"
    unfolding m by simp_all
  have "bw_wasm w1 = bw_wasm w \<and> bw_fc w1 = bw_fc w \<or>
      (\<exists>code e'. ran_deploy br f code w w1 (Some e') \<and> errorString e = errorString (wrapped ''deploy: '' e'))"
    using assms(6) by blast
  then show ?thesis unfolding f fails_def prod.case assms(1) v_def [symmetric] d v(1-3) s using k by blast
qed

lemma fail_same:
  assumes "br_bolt br = B" "has_bucket B (bw_store w) ''builds''" "m_Name (bd_Meta b) \<noteq> []" "same_deploys B w w1"
  shows "fails br f w (f, failBuild br ob f b e w1)"
  using assms(4) by (intro fail_ok assms(1-3)) (simp_all add: same_deploys_def)

lemma put_function_ok:
  assumes "has_bucket B s ''functions''" "m_Name (f_Meta f) \<noteq> []" "PutFunction B uid t0 t1 f s = (f', s', r)"
  shows "has_bucket B s' = has_bucket B s" "\<exists>m. f' = f\<lparr>f_Meta := m\<rparr>" "reliable_store B \<Longrightarrow> r = None"
    "if r = None then GetFunction B (m_Project (f_Meta f')) (m_Name (f_Meta f')) s' = Inr f' else s' = s"
proof -
  have T: "scoped_table B functionT ''functions''" by (rule tables) unfold_locales
  have p: "putScoped B functionT ''functions'' KindFunction uid t0 t1 f s = (f', s', r)" using assms(3) by (simp add: PutFunction_def)
  show "has_bucket B s' = has_bucket B s" by (rule scoped_table.has_bucket_putScoped [OF T p])
  have "f' = f\<lparr>f_Meta := f_Meta f'\<rparr>"
    using p assms(2) by (auto simp: putScoped_def codec_defs mint_def Let_def split: prod.splits option.splits if_splits)
  then show "\<exists>m. f' = f\<lparr>f_Meta := m\<rparr>" by blast
  show "r = None" if "reliable_store B"
  proof -
    have "m_Name (getMeta functionT f) \<noteq> []" using assms(2) by (simp add: functionT_def)
    from reliable_store.putScoped_succeeds [OF that assms(1) this] show ?thesis using p by (metis snd_conv)
  qed
  show "if r = None then GetFunction B (m_Project (f_Meta f')) (m_Name (f_Meta f')) s' = Inr f' else s' = s"
  proof (cases r)
    case None
    then show ?thesis using scoped_table.get_after_put [OF T p [unfolded None]] by (simp add: GetFunction_def functionT_def scoped_key_def)
  next
    case (Some e)
    then show ?thesis using p putScoped_Some by (metis option.distinct(1))
  qed
qed

lemma succeed_ok:
  assumes "br_bolt br = B" "has_bucket B (bw_store w) ''builds''" "has_bucket B (bw_store w) ''functions''"
    and "m_Name (bd_Meta b) \<noteq> []" "m_Name (f_Meta f) \<noteq> []" "succeed br ob f b i sha w = (f', b', w')"
  shows "bd_Status b' = PhaseSucceeded \<and> f_LatestBuild f' = m_UID (bd_Meta b) \<and> f_SourceRef f' = i \<and> bd_ArtifactRef b' = i \<and>
    bd_CommitSHA b' = bd_CommitSHA b \<and>
    (entries B (bw_store w') ''functions'' = entries B (bw_store w) ''functions'' \<or>
     GetFunction B (m_Project (f_Meta f')) (m_Name (f_Meta f')) (bw_store w') = Inr f') \<and>
    (reliable_store B \<longrightarrow> recorded B b' (bw_store w') \<and> GetFunction B (m_Project (f_Meta f')) (m_Name (f_Meta f')) (bw_store w') = Inr f')"
proof -
  let ?f = "built_function ob f i (m_UID (bd_Meta b))"
  have n: "m_Name (f_Meta ?f) \<noteq> []" using assms(5) by (simp add: built_function_def Let_def)
  obtain f1 s1 r where p: "PutFunction B (bo_uid ob) (bo_clock ob 11) (bo_clock ob 12) ?f (bw_store w) = (f1, s1, r)" by (metis prod.exhaust)
  note P = put_function_ok [OF assms(3) n p]
  let ?w = "case r of None \<Rightarrow> w\<lparr>bw_store := s1\<rparr> | Some e \<Rightarrow>
    on_stream (m_UID (bd_Meta b)) (logf (''==> warning: failed to update function: '' @ errorString e)) (w\<lparr>bw_store := s1\<rparr>)"
  let ?b = "b\<lparr>bd_Status := PhaseSucceeded, bd_ArtifactRef := i, bd_FinishedAt := bo_clock ob 13, bd_Message := ''build succeeded''\<rparr>"
  have w: "bw_store ?w = s1" by (simp split: option.split)
  have h: "has_bucket B (bw_store ?w) ''builds''" using P(1) assms(2) unfolding w by simp
  have nb: "m_Name (bd_Meta ?b) \<noteq> []" using assms(4) by simp
  note q = put_build_ok(1) [OF assms(1) nb _ h, of ob 14] put_build_ok(2) [OF assms(1) nb, of ?w ob 14] put_build_ok(3) [OF assms(1) nb, of ob 14 ?w]
  have r: "f' = f1" "b' = fst (put_build br ob 14 ?b ?w)" "bw_store w' = bw_store (snd (put_build br ob 14 ?b ?w))"
    using assms(6) unfolding succeed_def Let_def assms(1) p prod.case split_beta fst_conv snd_conv by auto
  have s: "entries B (bw_store w') ''functions'' = entries B s1 ''functions''" "has_bucket B (bw_store w') = has_bucket B s1"
    using q(2) unfolding r(3) w same_deploys_def by simp_all
  have g: "if r = None then GetFunction B (m_Project (f_Meta f1)) (m_Name (f_Meta f1)) (bw_store w') = Inr f1
      else entries B (bw_store w') ''functions'' = entries B (bw_store w) ''functions''"
    using P(4) s unfolding GetFunction_def store_get_Inr by (simp split: if_splits)
  obtain m1 where f1: "f1 = ?f\<lparr>f_Meta := m1\<rparr>" using P(2) by blast
  obtain m2 where b': "b' = ?b\<lparr>bd_Meta := m2\<rparr>" using q(3) unfolding r(2) by blast
  have "bd_Status b' = PhaseSucceeded \<and> f_LatestBuild f' = m_UID (bd_Meta b) \<and> f_SourceRef f' = i \<and> bd_ArtifactRef b' = i \<and>
    bd_CommitSHA b' = bd_CommitSHA b" unfolding b' r(1) f1 by (simp add: built_function_def Let_def)
  moreover have "reliable_store B \<longrightarrow> recorded B b' (bw_store w')" using q(1) r by simp
  ultimately show ?thesis using g P(3) r(1) by (auto split: if_splits)
qed

lemma build_deploy_ok:
  assumes "br_bolt br = B" "has_bucket B (bw_store w) ''builds''" "has_bucket B (bw_store w) ''functions''"
    and "m_Name (bd_Meta b) \<noteq> []" "m_Name (f_Meta f) \<noteq> []"
  shows "fails br f w (build_deploy br ob f b sha code w) \<or>
    succeeds br f (m_UID (bd_Meta b)) code w (build_deploy br ob f b sha code w) \<and>
    bd_CommitSHA (fst (snd (build_deploy br ob f b sha code w))) = bd_CommitSHA b"
proof -
  obtain fs put where p: "blob_Put (br_hash br) (bo_blob ob) code (bw_blobs w) = (fs, put)" by fastforce
  consider (empty) "code = []" | (unstored) e where "code \<noteq> []" "put = Inl e" | (stored) i where "code \<noteq> []" "put = Inr i" by (cases put) auto
  then show ?thesis
  proof cases
    case empty
    then show ?thesis using fail_same [OF assms(1,2,4), of w f ob] by (simp add: build_deploy_def)
  next
    case (unstored e)
    then show ?thesis using fail_same [OF assms(1,2,4), of "w\<lparr>bw_blobs := fs\<rparr>" f ob] p by (simp add: build_deploy_def Let_def same_deploys_def)
  next
    case (stored i)
    let ?w = "on_stream (m_UID (bd_Meta b)) (logf (''==> stored artifact ('' @ Itoa (int (length code)) @ '' bytes, sha='' @ take 8 i @ '')'')) (w\<lparr>bw_blobs := fs\<rparr>)"
    obtain w2 r where d: "deploy_artifact br f code ?w = (w2, r)" by fastforce
    have w2: "w2 = fst (deploy_artifact br f code ?w)" using d by simp
    have fr: "bw_store w2 = bw_store w" "bw_blobs w2 = fs" by (simp_all add: w2)
    have m: "ran_deploy br f code ?w = ran_deploy br f code w" by (rule ran_deploy_mono) simp_all
    have D: "case r of None \<Rightarrow> ran_deploy br f code w w2 None
      | Some e \<Rightarrow> bw_wasm w2 = bw_wasm w \<and> bw_fc w2 = bw_fc w \<or> (\<exists>e'. ran_deploy br f code w w2 (Some e') \<and> e = wrapped ''deploy: '' e')"
      using deploy_artifact_ok [OF d] unfolding m by (cases r) simp_all
    show ?thesis
    proof (cases r)
      case (Some e)
      have "fails br f w (f, failBuild br ob f b e w2)"
        by (rule fail_ok [OF assms(1,2,4)]) (use fr D Some in auto)
      then show ?thesis using stored p d Some by (simp add: build_deploy_def Let_def)
    next
      case None
      obtain f' b' w' where s: "succeed br ob f b i sha w2 = (f', b', w')" by (metis prod.exhaust)
      have e: "build_deploy br ob f b sha code w = (f', b', w')" using stored p d None s by (simp add: build_deploy_def Let_def)
      have w': "w' = snd (snd (succeed br ob f b i sha w2))" using s by simp
      have c: "ran_deploy br f code w w' None" using D None by (simp add: ran_deploy_def w')
      have "bw_blobs w' = fs" using fr by (simp add: w')
      then show ?thesis
        using succeed_ok [OF assms(1) _ _ assms(4,5) s] assms(2,3) fr blob_stored [of "br_hash br" "bo_blob ob" code "bw_blobs w" fs i] p stored c
        unfolding e by (auto simp: succeeds_def assms(1))
    qed
  qed
qed

lemma build_run_ok:
  assumes "br_bolt br = B" "has_bucket B (bw_store w) ''builds''" "has_bucket B (bw_store w) ''functions''"
    and "m_Name (bd_Meta b) \<noteq> []" "m_Name (f_Meta f) \<noteq> []" "open_at (m_UID (bd_Meta b)) (bw_streams w)"
  shows "fails br f w (build_run br ob f b res r outDir w) \<or>
    (\<exists>code. readArtifact ob (cl_Dir res) outDir (rc_Output r) = Inr code \<and>
      succeeds br f (m_UID (bd_Meta b)) code w (build_run br ob f b res r outDir w) \<and>
      bd_CommitSHA (fst (snd (build_run br ob f b res r outDir w))) = bd_CommitSHA b)"
proof -
  obtain s where s: "map_of (bw_streams w) (m_UID (bd_Meta b)) = Some s" using assms(6) by (auto simp: open_at_def)
  obtain s' err where x: "runSandbox ob (cl_Dir res) outDir r s = (s', err)" by fastforce
  let ?w = "w\<lparr>bw_streams := AList.update (m_UID (bd_Meta b)) s' (bw_streams w)\<rparr>"
  have same: "same_deploys B w ?w" by (simp add: same_deploys_def)
  note fail = fail_same [OF assms(1,2,4) same, of f ob]
  show ?thesis
  proof (cases err)
    case (Some e)
    then show ?thesis using s x fail [of e] by (simp add: build_run_def Let_def)
  next
    case None
    show ?thesis
    proof (cases "readArtifact ob (cl_Dir res) outDir (rc_Output r)")
      case (Inl e)
      then show ?thesis using s x None fail [of e] by (simp add: build_run_def Let_def)
    next
      case (Inr code)
      then have e: "build_run br ob f b res r outDir w = build_deploy br ob f b (cl_CommitSHA res) code ?w"
        using s x None by (simp add: build_run_def Let_def)
      let ?d = "build_deploy br ob f b (cl_CommitSHA res) code ?w"
      have "fails br f ?w ?d \<or> succeeds br f (m_UID (bd_Meta b)) code ?w ?d \<and> bd_CommitSHA (fst (snd ?d)) = bd_CommitSHA b"
        by (rule build_deploy_ok) (use assms in simp_all)
      then show ?thesis using fails_mono [of br w ?w f ?d] succeeds_mono [of br w ?w f "m_UID (bd_Meta b)" code ?d] same Inr
        unfolding e assms(1) by auto
    qed
  qed
qed

lemma build_compile_ok:
  assumes "br_bolt br = B" "has_bucket B (bw_store w) ''builds''" "has_bucket B (bw_store w) ''functions''"
    and "m_Name (bd_Meta b) \<noteq> []" "m_Name (f_Meta f) \<noteq> []" "open_at (m_UID (bd_Meta b)) (bw_streams w)"
  shows "fails br f w (build_compile br ob f b res w) \<or>
    (\<exists>r code. detect (\<lambda>p. bo_exists ob p = None) (cl_Dir res) f = Inr r \<and>
      readArtifact ob (cl_Dir res) (out_dir br (m_UID (bd_Meta b))) (rc_Output r) = Inr code \<and>
      succeeds br f (m_UID (bd_Meta b)) code w (build_compile br ob f b res w) \<and>
      bd_CommitSHA (fst (snd (build_compile br ob f b res w))) = bd_CommitSHA b)"
proof (cases "detect (\<lambda>p. bo_exists ob p = None) (cl_Dir res) f")
  case (Inl e)
  then show ?thesis using fail_same [OF assms(1,2,4), of w f ob e] by (simp add: build_compile_def)
next
  case (Inr r)
  let ?uid = "m_UID (bd_Meta b)"
  define w1 where "w1 = on_stream ?uid (logf (''==> build pipeline: language='' @ rc_Language r @ '' image='' @ rc_Image r)) w"
  define w2 where "w2 = (if rc_Commands r = [] then w1 else on_stream ?uid (logf (''==> commands: '' @ Join (rc_Commands r) '' '')) w1)"
  have c: "build_compile br ob f b res w =
      (case bo_mkdir ob 3 (out_dir br ?uid) of Some e \<Rightarrow> (f, failBuild br ob f b e w2)
       | None \<Rightarrow> (case build_run br ob f b res r (out_dir br ?uid) (add_tree (out_dir br ?uid) w2) of
                    (f', b', w') \<Rightarrow> (f', b', remove_tree ob (out_dir br ?uid) w')))"
    using Inr unfolding build_compile_def w1_def w2_def Let_def by simp
  have fr: "bw_store w2 = bw_store w" "bw_blobs w2 = bw_blobs w" "bw_wasm w2 = bw_wasm w" "bw_fc w2 = bw_fc w" by (simp_all add: w2_def w1_def)
  have same: "same_deploys B w w2" using fr by (simp add: same_deploys_def)
  have "writes_only ?uid (bw_streams w) (bw_streams w2)" by (simp add: w2_def w1_def writes)
  then have o: "open_at ?uid (bw_streams w2)" using assms(6) by (simp add: writes_only_def)
  show ?thesis
  proof (cases "bo_mkdir ob 3 (out_dir br ?uid)")
    case (Some e)
    then show ?thesis using fail_same [OF assms(1,2,4) same, of f ob e] by (simp add: c)
  next
    case None
    let ?w = "add_tree (out_dir br ?uid) w2" let ?r = "build_run br ob f b res r (out_dir br ?uid) ?w"
    have same': "same_deploys (br_bolt br) w ?w" "bw_blobs ?w = bw_blobs w" using fr by (simp_all add: same_deploys_def)
    have e: "build_compile br ob f b res w = (fst ?r, fst (snd ?r), remove_tree ob (out_dir br ?uid) (snd (snd ?r)))"
      using None by (simp add: c split_beta)
    have d: "fails br f ?w ?r \<or> (\<exists>code. readArtifact ob (cl_Dir res) (out_dir br ?uid) (rc_Output r) = Inr code \<and>
        succeeds br f ?uid code ?w ?r \<and> bd_CommitSHA (fst (snd ?r)) = bd_CommitSHA b)"
      by (rule build_run_ok) (use assms o fr in simp_all)
    have cl: "bw_store (remove_tree ob d v) = bw_store v" "bw_wasm (remove_tree ob d v) = bw_wasm v" "bw_fc (remove_tree ob d v) = bw_fc v"
      "bw_blobs (remove_tree ob d v) = bw_blobs v" for d v by simp_all
    have "fails br f w (build_compile br ob f b res w)" if "fails br f ?w ?r"
      using fails_mono [OF same'(1) that] outcome_frame(1) [OF cl, of br f w "fst ?r" "fst (snd ?r)"] unfolding e by simp
    moreover have "succeeds br f ?uid code w (build_compile br ob f b res w)" if "succeeds br f ?uid code ?w ?r" for code
      using succeeds_mono [OF same' that] outcome_frame(2) [OF cl, of br f ?uid code w "fst ?r" "fst (snd ?r)"] unfolding e by simp
    moreover have "fst (snd (build_compile br ob f b res w)) = fst (snd ?r)" by (simp add: e)
    ultimately show ?thesis using d Inr by auto
  qed
qed

lemma build_checkout_ok:
  assumes "br_bolt br = B" "has_bucket B (bw_store w) ''builds''" "has_bucket B (bw_store w) ''functions''"
    and "m_Name (bd_Meta b) \<noteq> []" "m_Name (f_Meta f) \<noteq> []" "m_UID (bd_Meta b) = uid" "uid \<noteq> []" "open_at uid (bw_streams w)"
  shows "fails br f w (build_checkout br gl ob f spec b w) \<or>
    (\<exists>tmp rv res r code. temp_of ob = Some tmp \<and> clone gl ob rv f tmp = Inr res \<and>
      detect (\<lambda>p. bo_exists ob p = None) (cl_Dir res) f = Inr r \<and>
      readArtifact ob (cl_Dir res) (out_dir br uid) (rc_Output r) = Inr code \<and>
      succeeds br f uid code w (build_checkout br gl ob f spec b w) \<and>
      bd_CommitSHA (fst (snd (build_checkout br gl ob f spec b w))) = cl_CommitSHA res)"
proof -
  let ?c = "cloneToTemp br gl ob f spec uid w" let ?w = "fst ?c"
  let ?clean = "\<lambda>v. case fst (snd ?c) of None \<Rightarrow> v | Some d \<Rightarrow> remove_tree ob d v"
  have cl: "bw_store (?clean v) = bw_store v" "bw_wasm (?clean v) = bw_wasm v" "bw_fc (?clean v) = bw_fc v" "bw_blobs (?clean v) = bw_blobs v" for v
    by (simp_all split: option.split)
  have same: "same_deploys B w ?w" by (simp add: same_deploys_def)
  show ?thesis
  proof (cases "snd (snd ?c)")
    case (Inl e)
    then have "build_checkout br gl ob f spec b w = (f, fst (failBuild br ob f b e ?w), ?clean (snd (failBuild br ob f b e ?w)))"
      using assms(6) by (cases "fst (snd ?c)") (simp_all add: build_checkout_def Let_def split_beta)
    then show ?thesis using outcome_frame(1) [OF cl, of br f w f "fst (failBuild br ob f b e ?w)" "snd (failBuild br ob f b e ?w)"]
        fail_same [OF assms(1,2,4) same, of f ob e] by simp
  next
    case (Inr res)
    have "\<exists>tmp rv. temp_of ob = Some tmp \<and> clone gl ob rv f tmp = Inr res"
      by (rule cloneToTemp_Inr [OF Inr])
    then obtain tmp rv where tmp: "temp_of ob = Some tmp" "clone gl ob rv f tmp = Inr res" by blast
    let ?b = "b\<lparr>bd_CommitSHA := cl_CommitSHA res\<rparr>" let ?p = "put_build br ob 5 ?b ?w" let ?r = "build_compile br ob f (fst ?p) res (snd ?p)"
    have n: "m_Name (bd_Meta ?b) \<noteq> []" using assms(4) by simp
    note p = put_build_ok(2) [OF assms(1) n, of ?w ob 5] put_build_ok(3) [OF assms(1) n, of ob 5 ?w]
    have u: "m_UID (bd_Meta (fst ?p)) = uid" "m_Name (bd_Meta (fst ?p)) \<noteq> []" "bd_CommitSHA (fst ?p) = cl_CommitSHA res"
      using put_build_uid [of ?b br ob 5 ?w] assms(4,6,7) p(2) by auto
    have same': "same_deploys (br_bolt br) w (snd ?p)" "bw_blobs (snd ?p) = bw_blobs w"
      using same_deploys_trans [OF same p(1)] by (simp_all add: assms(1))
    have "writes_only uid (bw_streams w) (bw_streams ?w)" by (simp add: writes)
    then have o: "open_at uid (bw_streams (snd ?p))" using assms(8) by (simp add: writes_only_def)
    have "fails br f (snd ?p) ?r \<or> (\<exists>r code. detect (\<lambda>p. bo_exists ob p = None) (cl_Dir res) f = Inr r \<and>
      readArtifact ob (cl_Dir res) (out_dir br (m_UID (bd_Meta (fst ?p)))) (rc_Output r) = Inr code \<and>
      succeeds br f (m_UID (bd_Meta (fst ?p))) code (snd ?p) ?r \<and> bd_CommitSHA (fst (snd ?r)) = bd_CommitSHA (fst ?p))"
      by (rule build_compile_ok) (use assms u o same_deploys_has [OF same'(1)] in simp_all)
    then have d: "fails br f w ?r \<or> (\<exists>r code. detect (\<lambda>p. bo_exists ob p = None) (cl_Dir res) f = Inr r \<and>
      readArtifact ob (cl_Dir res) (out_dir br uid) (rc_Output r) = Inr code \<and>
      succeeds br f uid code w ?r \<and> bd_CommitSHA (fst (snd ?r)) = cl_CommitSHA res)"
      unfolding u using fails_mono [OF same'(1)] succeeds_mono [OF same'] by blast
    have e: "build_checkout br gl ob f spec b w = (fst ?r, fst (snd ?r), ?clean (snd (snd ?r)))"
      using Inr assms(6) by (cases "fst (snd ?c)") (simp_all add: build_checkout_def Let_def split_beta)
    have F: "fails br f w (fst ?r, fst (snd ?r), ?clean (snd (snd ?r))) \<longleftrightarrow> fails br f w ?r"
      using outcome_frame(1) [OF cl, of br f w "fst ?r" "fst (snd ?r)" "snd (snd ?r)"] by simp
    have S: "succeeds br f uid code w (fst ?r, fst (snd ?r), ?clean (snd (snd ?r))) \<longleftrightarrow> succeeds br f uid code w ?r" for code
      using outcome_frame(2) [OF cl, of br f uid code w "fst ?r" "fst (snd ?r)" "snd (snd ?r)"] by simp
    show ?thesis unfolding e F S fst_conv snd_conv using d tmp by blast
  qed
qed

end


definition demo_git_function :: func where
  "demo_git_function = (demo_function ''hello'' [])\<lparr>f_Source := \<lparr>src_Type = ''git'', src_Git = Some
     \<lparr>g_URL = ''https://g/r'', g_Ref = [], g_SubPath = [], g_AuthSecret = [], g_WebhookToken = [], g_WebhookSecret = [],
      g_Build = \<lparr>bs_Language = [], bs_BuildImage = [], bs_Commands = [''make''], bs_Output = ''/out/h.wasm'', bs_Entrypoint = [], bs_Template = []\<rparr>\<rparr>\<rparr>\<rparr>"

definition demo_git :: "unit git_lib" where
  "demo_git = \<lparr>gl_Clone = (\<lambda>_. Inr ()), gl_ResolveRevision = (\<lambda>_ r. Inr r), gl_Worktree = (\<lambda>_. None), gl_Checkout = (\<lambda>_ _. Inr ()),
     gl_Head = (\<lambda>_. Inr ''c0ffee00'')\<rparr>"

definition demo_build_obs :: build_obs where
  "demo_build_obs = \<lparr>bo_clock = int, bo_uid = ''u'', bo_q = id, bo_showd = (\<lambda>_. ''1s''), bo_create = Some (\<lambda>_. None), bo_rm = (\<lambda>_. None),
     bo_temp = (\<lambda>_. Inr ''/d/functions/build-src/src-1''), bo_mkdir = (\<lambda>_ _. None), bo_exists = (\<lambda>_. None), bo_stat = (\<lambda>_. Inr False),
     bo_read = (\<lambda>_. Inr ''code''), bo_tar = (\<lambda>_. Inr []), bo_ctr = True, bo_environ = [], bo_run = (\<lambda>_. ([''ok''], None)), bo_blob = None\<rparr>"

definition demo_builder :: "(memdb, (string \<times> bytes) list, unit) builder" where
  "demo_builder = \<lparr>br_bolt = mem_bolt, br_hash = id, br_wasm = Some (wasm_stub id 0), br_fc = None, br_reveal = None, br_dataDir = ''/d''\<rparr>"

definition demo_build_world :: "(memdb, (string \<times> bytes) list, unit) build_world" where
  "demo_build_world = \<lparr>bw_store = fresh_store, bw_blobs = [], bw_bus = None, bw_wasm = [], bw_fc = (), bw_dirs = [''/d''], bw_streams = [], bw_closed = [],
     bw_logs = [], bw_queue = []\<rparr>"

definition demo_build_run :: "(func \<times> build \<times> (memdb, (string \<times> bytes) list, unit) build_world) option" where
  "demo_build_run = runBuild demo_builder demo_git demo_build_obs demo_git_function (new_build ''b1'' 0 demo_git_function ''manual'') demo_build_world"

lemma demo_build_status: "map_option (bd_Status \<circ> fst \<circ> snd) demo_build_run = Some PhaseSucceeded"
  by code_simp


theorem build_cleans_up_witness:
  "\<exists>f' b' w'. demo_build_run = Some (f', b', w') \<and> map_of (bw_queue w') ''p/hello'' = Some 0 \<and>
     (\<nexists>p. p \<in> set (bw_dirs w') \<and> inside ''/d/functions/build-src/src-1'' p)"
proof -
  have t: "temp_of demo_build_obs = Some ''/d/functions/build-src/src-1''" by (simp add: temp_of_def demo_build_obs_def)
  have s: "src_root demo_builder = ''/d/functions/build-src''" "out_dir demo_builder ''b1'' = ''/d/functions/build-out/b1''" by code_simp+
  have "\<forall>p\<in>set (''/d/functions/build-src'' # ancestors ''/d/functions/build-src''). \<not> inside ''/d/functions/build-out/b1'' p"
    "\<forall>p\<in>set (''/d/functions/build-src/src-1'' # ancestors ''/d/functions/build-src/src-1''). \<not> inside ''/d/functions/build-out/b1'' p" by code_simp+
  then have a: "temp_apart demo_builder demo_build_obs ''b1''" unfolding temp_apart_def t s by blast
  have k: "fnKey demo_git_function = ''p/hello''" by code_simp
  have q: "map_of (bw_queue demo_build_world) (fnKey demo_git_function) \<in> {None, Some 0}" by (simp add: demo_build_world_def)
  have u: "m_UID (bd_Meta (new_build ''b1'' 0 demo_git_function ''manual'')) = ''b1''" by (simp add: new_build_def)
  have g: "src_Git (f_Source demo_git_function) \<noteq> None" by (simp add: demo_git_function_def)
  have rm: "bo_rm demo_build_obs d = None" for d by (simp add: demo_build_obs_def)
  from build_cleans_up [OF g q u _ a, of demo_git] show ?thesis using t k rm unfolding demo_build_run_def by auto
qed

text \<open>
  Which commit is built: the head of the branch when the branch can be cloned, and otherwise what
  the reference resolves to in a full clone, provided a checkout makes its commit the head.
\<close>

lemma clone_ref:
  assumes "clone gl ob rv f into = Inr res" "src_Git (f_Source f) = Some spec" "g_Ref spec \<noteq> []"
    and "\<And>r h r'. gl_Checkout gl r h = Inr r' \<Longrightarrow> gl_Head gl r' = Inr h"
  shows "\<exists>auth repo. gl_Clone gl (first_options spec auth) = Inr repo \<and> gl_Head gl repo = Inr (cl_CommitSHA res) \<or>
    gl_Clone gl ((first_options spec auth)\<lparr>co_ReferenceName := [], co_SingleBranch := False, co_Depth := 0\<rparr>) = Inr repo \<and>
    gl_ResolveRevision gl repo (g_Ref spec) = Inr (cl_CommitSHA res)"
proof -
  obtain auth repo where r: "clone_repo gl ob spec (first_options spec auth) into = Inr repo" "gl_Head gl repo = Inr (cl_CommitSHA res)"
    using assms(1,2) by (auto simp: clone_def split: if_splits option.splits sum.splits)
  show ?thesis
  proof (cases "gl_Clone gl (first_options spec auth)")
    case (Inl e)
    with r(1) assms(3) obtain repo1 h where "gl_Clone gl ((first_options spec auth)\<lparr>co_ReferenceName := [], co_SingleBranch := False, co_Depth := 0\<rparr>) = Inr repo1"
      "gl_ResolveRevision gl repo1 (g_Ref spec) = Inr h" "gl_Checkout gl repo1 h = Inr repo"
      by (auto simp: clone_repo_def full_clone_def split: option.splits sum.splits)
    then show ?thesis using assms(4) r(2) by fastforce
  next
    case (Inr repo')
    then show ?thesis using r by (auto simp: clone_repo_def)
  qed
qed

text \<open>An output that is an absolute path, or climbs out of the checkout, names a file of the host.\<close>

lemma artifact_of_host:
  "artifact_path ''/d/src'' ''/d/out'' ''/etc/shadow'' = ''/etc/shadow''"
  "artifact_path ''/d/src'' ''/d/out'' ''../../etc/shadow'' = ''/etc/shadow''"
  "artifact_path ''/d/src'' ''/d/out'' ''/out/../../etc/shadow'' = ''/etc/shadow''"
  by code_simp+

text \<open>An identifier is determined by the clock reading and determines it.\<close>

lemma newID_inject: "newID a = newID b \<longleftrightarrow> a = b"
proof
  assume "newID a = newID b"
  then have e: "unat (drop_bit (8 * (7 - i)) a) mod 256 = unat (drop_bit (8 * (7 - i)) b) mod 256" if "i < 8" for i
    using that by (auto simp: newID_def char_of_eq_iff take_bit_eq_mod dest!: bspec [of _ _ i])
  show "a = b"
  proof (rule bit_word_eqI)
    fix n assume "n < LENGTH(64)"
    then have n: "7 - n div 8 < 8" "8 * (7 - (7 - n div 8)) + n mod 8 = n" by auto
    have "bit (unat (drop_bit (n - n mod 8) a) mod 256) (n mod 8) \<longleftrightarrow> bit (unat (drop_bit (n - n mod 8) b) mod 256) (n mod 8)"
      using e [OF n(1)] n(2) by (simp add: minus_mod_eq_mult_div)
    then show "bit a n \<longleftrightarrow> bit b n"
      by (simp add: bit_take_bit_iff bit_drop_bit_eq bit_unsigned_iff flip: take_bit_eq_mod [of 8, simplified])
  qed
qed simp

end
