(* ===== verification/Watchers.thy ===== *)
theory Watchers
  imports Events Http Paths
begin

text \<open>
  The sources of events outside the control plane: the log scanner
  (\<^verbatim>\<open>internal/events/logscan/logscan.go\<close>), which follows the logs of running containers and
  emits an event for every line a rule asks for, and the sidecar
  (\<^verbatim>\<open>internal/events/sidecar/sidecar.go\<close>), the socket on which containers emit their own.
\<close>

section \<open>The log scanner\<close>

text \<open>
  A follower is a goroutine with the container it was started for; it is cancelled by its
  context, and it ends by itself when the log ends or cannot be scanned. \<open>sn_known\<close> maps the key
  of a container to its follower.
\<close>

record follower =
  fo_container :: container
  fo_cancelled :: bool
  fo_ended :: bool

record scanner =
  sn_known :: "(string \<times> nat) list"
  sn_followers :: "follower list"

definition scanner_New :: scanner where
  "scanner_New = \<lparr>sn_known = [], sn_followers = []\<rparr>"

definition follow_key :: "container \<Rightarrow> string" where
  "follow_key c = m_Project (c_Meta c) @ ''/'' @ m_Name (c_Meta c)"

definition wanted :: "container list \<Rightarrow> (string \<times> container) list" where
  "wanted cs = fold (\<lambda>c m. if Phase (c_Status c) \<noteq> PhaseRunning then m else AList.update (follow_key c) c m) cs []"

definition cancel_follower :: "nat \<Rightarrow> scanner \<Rightarrow> scanner" where
  "cancel_follower i s = s\<lparr>sn_followers := (sn_followers s)[i := (sn_followers s ! i)\<lparr>fo_cancelled := True\<rparr>]\<rparr>"

definition stop_one :: "(string \<times> container) list \<Rightarrow> string \<times> nat \<Rightarrow> scanner \<Rightarrow> scanner" where
  "stop_one want = (\<lambda>(k, i) s.
     if map_of want k = None then (cancel_follower i s)\<lparr>sn_known := AList.delete k (sn_known s)\<rparr> else s)"

definition start_one :: "string \<times> container \<Rightarrow> scanner \<Rightarrow> scanner" where
  "start_one = (\<lambda>(k, c) s.
     if map_of (sn_known s) k \<noteq> None then s
     else s\<lparr>sn_known := AList.update k (length (sn_followers s)) (sn_known s),
            sn_followers := sn_followers s @ [\<lparr>fo_container = c, fo_cancelled = False, fo_ended = False\<rparr>]\<rparr>)"

definition scan_pass :: "container list \<Rightarrow> scanner \<Rightarrow> scanner" where
  "scan_pass cs s =
     (let want = wanted cs; s1 = fold (stop_one want) (sn_known s) s in fold start_one want s1)"

definition scan_reconcile :: "'db bolt \<Rightarrow> 'db store \<Rightarrow> scanner \<Rightarrow> scanner" where
  "scan_reconcile B st s = (case ListContainers B [] st of Inl e \<Rightarrow> s | Inr cs \<Rightarrow> scan_pass cs s)"

definition scan_shutdown :: "scanner \<Rightarrow> scanner" where
  "scan_shutdown s = (fold (\<lambda>(k, i). cancel_follower i) (sn_known s) s)\<lparr>sn_known := []\<rparr>"

text \<open>\<^verbatim>\<open>bufio.Scanner\<close>: lines without their line break, up to the first one that fills the buffer.\<close>

definition max_line :: nat where "max_line = 2 ^ 20"

definition drop_cr :: "string \<Rightarrow> string" where
  "drop_cr l = (if l \<noteq> [] \<and> last l = CHR 0x0D then butlast l else l)"

definition split_lines :: "string \<Rightarrow> string list" where
  "split_lines t = (let ls = SplitByte t (CHR 0x0A) in if ls \<noteq> [] \<and> last ls = [] then butlast ls else ls)"

definition scan_text :: "string \<Rightarrow> string list" where
  "scan_text t = map drop_cr (takeWhile (\<lambda>l. length l < max_line) (split_lines t))"

text \<open>
  Regular expressions: \<^verbatim>\<open>Compile\<close>, \<^verbatim>\<open>FindStringSubmatch\<close> (\<open>None\<close> without a match) and the names of
  the groups. \<^verbatim>\<open>MatchString\<close>, which the dispatcher uses, is whether there is a match.
\<close>

record 're regexp =
  re_Compile :: "string \<Rightarrow> 're option"
  re_Find :: "'re \<Rightarrow> string \<Rightarrow> string list option"
  re_Names :: "'re \<Rightarrow> string list"

definition re_Match :: "'re regexp \<Rightarrow> string \<Rightarrow> string \<Rightarrow> bool option" where
  "re_Match R pat line = map_option (\<lambda>r. re_Find R r line \<noteq> None) (re_Compile R pat)"

definition active_rule :: "event_rule \<Rightarrow> bool" where
  "active_rule r \<longleftrightarrow> er_Enabled r \<and> types_hit (em_Types (er_Match r)) ''container.log'' \<and> em_Subject (er_Match r) \<noteq> []"

definition activeRegexes :: "'re regexp \<Rightarrow> 'db bolt \<Rightarrow> string \<Rightarrow> 'db store \<Rightarrow> (string \<times> 're) list" where
  "activeRegexes R B project st =
     (case ListEventRules B project st of Inl e \<Rightarrow> []
      | Inr rules \<Rightarrow> List.map_filter (\<lambda>r. let pat = em_Subject (er_Match r) in map_option (Pair pat) (re_Compile R pat))
                        (filter active_rule rules))"

definition group_data :: "string list \<Rightarrow> string list \<Rightarrow> strmap \<Rightarrow> strmap" where
  "group_data names groups d =
     fold (\<lambda>(i, name) d. if name \<noteq> [] \<and> i < length groups then AList.update (''g.'' @ name) (groups ! i) d else d)
       (zip [0..<length names] names) d"

definition log_event :: "'re regexp \<Rightarrow> container \<Rightarrow> string \<Rightarrow> string \<times> 're \<Rightarrow> event_record option" where
  "log_event R c line = (\<lambda>(pat, r).
     (case re_Find R r line of None \<Rightarrow> None
      | Some groups \<Rightarrow>
          Some (zero_event_record\<lparr>ev_Type := ''container.log'', ev_Project := m_Project (c_Meta c), ev_Subject := m_Name (c_Meta c),
            ev_Data := group_data (re_Names R r) groups
              [(''container'', m_Name (c_Meta c)), (''line'', line), (''pattern'', pat)]\<rparr>)))"

definition line_events :: "'re regexp \<Rightarrow> 'db bolt \<Rightarrow> container \<Rightarrow> string \<Rightarrow> 'db store \<Rightarrow> event_record list" where
  "line_events R B c line st = List.map_filter (log_event R c line) (activeRegexes R B (m_Project (c_Meta c)) st)"

text \<open>
  A follower until its log ends, a line is too long or its context is cancelled; \<open>st i\<close> is the
  store and \<open>cancelled i\<close> the context when line \<open>i\<close> is read.
\<close>

definition follow :: "'re regexp \<Rightarrow> 'db bolt \<Rightarrow> container \<Rightarrow> (nat \<Rightarrow> bool) \<Rightarrow> (nat \<Rightarrow> 'db store) \<Rightarrow> string \<Rightarrow> event_record list" where
  "follow R B c cancelled st t =
     concat (map (\<lambda>(i, line). line_events R B c line (st i))
       (takeWhile (\<lambda>(i, line). \<not> cancelled i) (zip [0..<length (scan_text t)] (scan_text t))))"

section \<open>The sidecar\<close>

definition SocketPath :: "string \<Rightarrow> string" where
  "SocketPath dataDir = FPJoin [dataDir, ''sockets'', ''event.sock'']"

record sidecar_request =
  sq_Type :: string
  sq_Project :: string
  sq_Subject :: string
  sq_Data :: strmap

definition plain_error :: "int \<Rightarrow> string \<Rightarrow> response" where
  "plain_error status msg = \<lparr>w_Status = status, w_Header = [(''content-type'', ''text/plain; charset=utf-8''),
     (''x-content-type-options'', ''nosniff'')], w_Body = Text (msg @ [CHR 0x0A])\<rparr>"

definition handleEvent :: "(request \<Rightarrow> error + sidecar_request) \<Rightarrow> time \<Rightarrow> request \<Rightarrow> bus \<Rightarrow> bus \<times> response" where
  "handleEvent dec now r b =
     (case dec r of Inl e \<Rightarrow> (b, plain_error 400 (''bad json: '' @ errorString e))
      | Inr body \<Rightarrow>
          if sq_Type body = [] then (b, plain_error 400 ''type required'')
          else (Emit now (zero_event_record\<lparr>ev_Type := ''app.event'', ev_Project := sq_Project body, ev_Subject := sq_Subject body,
                  ev_Data := AList.update ''app_type'' (sq_Type body) (sq_Data body)\<rparr>) b,
                \<lparr>w_Status = 202, w_Header = [], w_Body = NoBody\<rparr>))"

text \<open>The routes of the socket, with what \<^verbatim>\<open>http.ServeMux\<close> answers on a wrong method.\<close>

definition method_not_allowed :: "string \<Rightarrow> response" where
  "method_not_allowed allow = (let e = plain_error 405 ''Method Not Allowed'' in e\<lparr>w_Header := (''allow'', allow) # w_Header e\<rparr>)"

definition sidecar_mux :: "(request \<Rightarrow> error + sidecar_request) \<Rightarrow> time \<Rightarrow> request \<Rightarrow> bus \<Rightarrow> bus \<times> response" where
  "sidecar_mux dec now r b =
     (if r_Path r = ''/events'' then
        if r_Method r = ''POST'' then handleEvent dec now r b
        else (b, method_not_allowed ''POST'')
      else if r_Path r = ''/healthz'' then
        if r_Method r = ''GET'' \<or> r_Method r = ''HEAD'' then (b, noContent)
        else (b, method_not_allowed ''GET, HEAD'')
      else (b, plain_error 404 ''404 page not found''))"

end
