(* ===== verification/Watchers_Props.thy ===== *)
theory Watchers_Props
  imports Watchers Events_Props
begin

text \<open>
  Properties of the log scanner and the sidecar: exactly the running containers are followed,
  each once; how often a line of a log fires a rule; what the sidecar accepts.
\<close>

section \<open>Followers\<close>

text \<open>The table names exactly the followers that are not cancelled, each under the key of its container.\<close>

definition follows :: "follower list \<Rightarrow> nat \<Rightarrow> string \<Rightarrow> bool" where
  "follows fs i k \<longleftrightarrow> i < length fs \<and> \<not> fo_cancelled (fs ! i) \<and> follow_key (fo_container (fs ! i)) = k"

definition known_ok :: "(string \<Rightarrow> nat option) \<Rightarrow> follower list \<Rightarrow> bool" where
  "known_ok m fs \<longleftrightarrow> (\<forall>k i. m k = Some i \<longleftrightarrow> follows fs i k)"

lemma follows_cancel [simp]: "follows (fs[i := (fs ! i)\<lparr>fo_cancelled := True\<rparr>]) j k \<longleftrightarrow> j \<noteq> i \<and> follows fs j k"
  by (cases "j = i") (auto simp: follows_def)

lemma follows_end [simp]: "follows (fs[i := (fs ! i)\<lparr>fo_ended := True\<rparr>]) j k \<longleftrightarrow> follows fs j k"
  by (cases "j = i") (auto simp: follows_def)

lemma follows_start [simp]:
  "follows (fs @ [\<lparr>fo_container = c, fo_cancelled = False, fo_ended = False\<rparr>]) j k \<longleftrightarrow> follows fs j k \<or> j = length fs \<and> k = follow_key c"
  by (auto simp: follows_def nth_append less_Suc_eq)

lemma follows_key: "follows fs i k \<Longrightarrow> follows fs i k' \<Longrightarrow> k = k'"
  by (simp add: follows_def)

definition scan_ok :: "scanner \<Rightarrow> bool" where
  "scan_ok s \<longleftrightarrow> distinct (map fst (sn_known s)) \<and> known_ok (map_of (sn_known s)) (sn_followers s)"

lemma known_ok_cancel:
  assumes "known_ok m fs" "m k = Some i"
  shows "known_ok (m(k := None)) (fs[i := (fs ! i)\<lparr>fo_cancelled := True\<rparr>])"
proof -
  have m: "m k' = Some j \<longleftrightarrow> follows fs j k'" for k' j using assms(1) unfolding known_ok_def by blast
  have i: "follows fs i k" using assms(2) m by blast
  have "(m(k := None)) k' = Some j \<longleftrightarrow> j \<noteq> i \<and> follows fs j k'" for k' j
  proof (cases "k' = k")
    case True
    then show ?thesis using m [of k j] assms(2) by (metis fun_upd_same option.distinct(1) option.inject)
  next
    case False
    then show ?thesis using m [of k' j] follows_key [OF i, of k'] by (metis fun_upd_other)
  qed
  then show ?thesis unfolding known_ok_def follows_cancel by blast
qed

lemma known_ok_start:
  assumes "known_ok m fs" "m k = None" "follow_key c = k"
  shows "known_ok (m(k \<mapsto> length fs)) (fs @ [\<lparr>fo_container = c, fo_cancelled = False, fo_ended = False\<rparr>])"
proof -
  have "\<not> follows fs j k" for j using assms(1,2) by (metis known_ok_def option.distinct(1))
  then show ?thesis using assms by (auto simp: known_ok_def)
qed

lemma scan_ok_cancel:
  assumes "scan_ok s" "map_of (sn_known s) k = Some i"
  shows "scan_ok ((cancel_follower i s)\<lparr>sn_known := AList.delete k (sn_known s)\<rparr>)"
  using assms known_ok_cancel unfolding scan_ok_def by (simp add: cancel_follower_def map_of_delete distinct_delete)

lemma stop_one_ok:
  assumes "scan_ok s" "map_of (sn_known s) k = Some i"
  shows "scan_ok (stop_one want (k, i) s)"
    "map_of (sn_known (stop_one want (k, i) s)) = (if map_of want k = None then (map_of (sn_known s))(k := None) else map_of (sn_known s))"
  using scan_ok_cancel [OF assms] assms(1) by (simp_all add: stop_one_def map_of_delete)

lemma stop_all_ok:
  assumes "scan_ok s" "distinct (map fst xs)" "\<And>k i. (k, i) \<in> set xs \<Longrightarrow> map_of (sn_known s) k = Some i"
  shows "scan_ok (fold (stop_one want) xs s) \<and>
    dom (map_of (sn_known (fold (stop_one want) xs s))) = dom (map_of (sn_known s)) - {k \<in> fst ` set xs. map_of want k = None}"
  using assms
proof (induction xs arbitrary: s)
  case (Cons x xs)
  obtain k i where x: "x = (k, i)" by fastforce
  have ki: "map_of (sn_known s) k = Some i" using Cons.prems(3) x by simp
  note one = stop_one_ok [OF Cons.prems(1) ki, of want]
  have "map_of (sn_known (stop_one want (k, i) s)) k' = Some j" if "(k', j) \<in> set xs" for k' j
    using Cons.prems(2,3) that x one(2) by (force simp: image_iff)
  then have "scan_ok (fold (stop_one want) xs (stop_one want (k, i) s)) \<and>
    dom (map_of (sn_known (fold (stop_one want) xs (stop_one want (k, i) s)))) =
      dom (map_of (sn_known (stop_one want (k, i) s))) - {k \<in> fst ` set xs. map_of want k = None}"
    using Cons.IH [OF one(1)] Cons.prems(2) by simp
  then show ?case using x one(2) by auto
qed simp

lemma start_one_ok:
  assumes "scan_ok s" "follow_key c = k"
  shows "scan_ok (start_one (k, c) s)" "dom (map_of (sn_known (start_one (k, c) s))) = insert k (dom (map_of (sn_known s)))"
proof -
  have d: "distinct (map fst (sn_known s))" and k: "known_ok (map_of (sn_known s)) (sn_followers s)" using assms(1) by (simp_all add: scan_ok_def)
  show "scan_ok (start_one (k, c) s)"
  proof (cases "map_of (sn_known s) k")
    case None
    then show ?thesis using known_ok_start [OF k None assms(2)] d unfolding scan_ok_def by (simp add: start_one_def map_of_update distinct_update)
  next
    case (Some i)
    then show ?thesis using assms(1) by (simp add: start_one_def)
  qed
  show "dom (map_of (sn_known (start_one (k, c) s))) = insert k (dom (map_of (sn_known s)))"
    by (auto simp: start_one_def map_of_update)
qed

lemma start_all_ok:
  assumes "scan_ok s" "\<And>k c. (k, c) \<in> set want \<Longrightarrow> follow_key c = k"
  shows "scan_ok (fold start_one want s) \<and> dom (map_of (sn_known (fold start_one want s))) = dom (map_of (sn_known s)) \<union> fst ` set want"
  using assms
proof (induction want arbitrary: s)
  case (Cons x xs)
  obtain k c where x: "x = (k, c)" by fastforce
  then show ?case using Cons.IH [of "start_one (k, c) s"] start_one_ok [OF Cons.prems(1), of c k] Cons.prems(2) by auto
qed simp

lemma wanted_ok:
  "(k, c) \<in> set (wanted cs) \<Longrightarrow> follow_key c = k \<and> c \<in> set cs \<and> Phase (c_Status c) = PhaseRunning"
  "fst ` set (wanted cs) = follow_key ` {c \<in> set cs. Phase (c_Status c) = PhaseRunning}"
proof -
  have set_update: "set (AList.update k v al) \<subseteq> insert (k, v) (set al)" for k v and al :: "(string \<times> container) list"
    by (induction al) auto
  have "(\<forall>(k, c)\<in>set (wanted cs). follow_key c = k \<and> c \<in> set cs \<and> Phase (c_Status c) = PhaseRunning) \<and>
      fst ` set (wanted cs) = follow_key ` {c \<in> set cs. Phase (c_Status c) = PhaseRunning}"
  proof (induction cs rule: rev_induct)
    case (snoc c cs)
    then show ?case using set_update [of "follow_key c" c "wanted cs"] by (auto simp: wanted_def dom_update)
  qed (simp add: wanted_def)
  then show "(k, c) \<in> set (wanted cs) \<Longrightarrow> follow_key c = k \<and> c \<in> set cs \<and> Phase (c_Status c) = PhaseRunning"
    "fst ` set (wanted cs) = follow_key ` {c \<in> set cs. Phase (c_Status c) = PhaseRunning}" by auto
qed

lemma scan_pass_ok:
  assumes "scan_ok s"
  shows "scan_ok (scan_pass cs s)"
    "dom (map_of (sn_known (scan_pass cs s))) = follow_key ` {c \<in> set cs. Phase (c_Status c) = PhaseRunning}"
proof -
  let ?want = "wanted cs" let ?s = "fold (stop_one ?want) (sn_known s) s"
  have d: "distinct (map fst (sn_known s))" using assms by (simp add: scan_ok_def)
  have p: "scan_ok ?s \<and> dom (map_of (sn_known ?s)) = dom (map_of (sn_known s)) - {k \<in> fst ` set (sn_known s). map_of ?want k = None}"
    using stop_all_ok [OF assms d, of ?want] d by simp
  have q: "scan_ok (fold start_one ?want ?s) \<and> dom (map_of (sn_known (fold start_one ?want ?s))) = dom (map_of (sn_known ?s)) \<union> fst ` set ?want"
    using start_all_ok [of ?s ?want] p wanted_ok(1) by blast
  have e: "scan_pass cs s = fold start_one ?want ?s" by (simp add: scan_pass_def Let_def)
  show "scan_ok (scan_pass cs s)" using q e by simp
  have "dom (map_of (sn_known ?s)) \<subseteq> fst ` set ?want"
    using p by (auto simp: dom_map_of_conv_image_fst map_of_eq_None_iff)
  then show "dom (map_of (sn_known (scan_pass cs s))) = follow_key ` {c \<in> set cs. Phase (c_Status c) = PhaseRunning}"
    using q e wanted_ok(2) [of cs] by auto
qed

text \<open>The scanner at work: passes over whatever the store holds, followers that end, the shutdown.\<close>

inductive scan_step :: "scanner \<Rightarrow> scanner \<Rightarrow> bool" where
  pass: "scan_step s (scan_pass cs s)"
| ended: "i < length (sn_followers s) \<Longrightarrow> scan_step s (s\<lparr>sn_followers := (sn_followers s)[i := (sn_followers s ! i)\<lparr>fo_ended := True\<rparr>]\<rparr>)"
| shutdown: "scan_step s (scan_shutdown s)"

lemma shutdown_ok:
  assumes "scan_ok s"
  shows "scan_ok (scan_shutdown s)"
proof -
  have f: "follows (sn_followers (fold (\<lambda>(k, i). cancel_follower i) xs s)) j k \<longleftrightarrow> j \<notin> snd ` set xs \<and> follows (sn_followers s) j k" for xs s j k
    by (induction xs arbitrary: s) (auto simp: cancel_follower_def)
  have "i \<in> snd ` set (sn_known s)" if "follows (sn_followers s) i k" for i k
    using assms that unfolding scan_ok_def known_ok_def by (metis map_of_SomeD snd_conv image_eqI)
  then show ?thesis unfolding scan_ok_def scan_shutdown_def by (auto simp: known_ok_def f)
qed

lemma scan_step_ok: "scan_step s s' \<Longrightarrow> scan_ok s \<Longrightarrow> scan_ok s'"
proof (induction rule: scan_step.induct)
  case (pass s cs)
  then show ?case by (rule scan_pass_ok)
next
  case (ended i s)
  then show ?case by (simp add: scan_ok_def known_ok_def)
next
  case (shutdown s)
  then show ?case by (rule shutdown_ok)
qed


text \<open>
  A follower whose log has ended keeps its entry: as long as its container is reported running,
  no pass starts another.
\<close>

lemma follower_not_restarted:
  assumes "scan_ok s" "map_of (sn_known s) k = Some i" "k \<in> fst ` set (wanted cs)"
  shows "map_of (sn_known (scan_pass cs s)) k = Some i"
proof -
  have "map_of (wanted cs) k \<noteq> None" using assms(3) by (simp add: map_of_eq_None_iff)
  then have stop: "map_of (sn_known (fold (stop_one (wanted cs)) xs s)) k = map_of (sn_known s) k" for xs s
    by (induction xs arbitrary: s) (auto simp: stop_one_def cancel_follower_def map_of_delete)
  have start: "map_of (sn_known (fold start_one xs s)) k = Some i" if "map_of (sn_known s) k = Some i" for xs s
    using that
  proof (induction xs arbitrary: s)
    case (Cons x xs)
    have "map_of (sn_known (start_one x s)) k = Some i"
      using Cons.prems by (cases "fst x = k") (auto simp: start_one_def map_of_update split: prod.splits)
    then show ?case using Cons.IH by simp
  qed simp
  show ?thesis using assms(2) stop start by (simp add: scan_pass_def Let_def)
qed

section \<open>Rules on lines\<close>

lemma group_data_get:
  "(\<And>n. k \<noteq> ''g.'' @ n) \<Longrightarrow> map_of (group_data names groups d) k = map_of d k"
proof -
  assume k: "\<And>n. k \<noteq> ''g.'' @ n"
  have "map_of (fold (\<lambda>(i, name) d. if name \<noteq> [] \<and> i < length groups then AList.update (''g.'' @ name) (groups ! i) d else d) xs d) k = map_of d k" for xs
    using k by (induction xs arbitrary: d) (auto simp: map_of_update)
  then show ?thesis by (simp add: group_data_def)
qed

lemma log_event_fields:
  assumes "log_event R c line p = Some ev"
  shows "ev_Type ev = ''container.log''" "ev_Project ev = m_Project (c_Meta c)" "data_get (ev_Data ev) ''line'' = line"
  using assms by (auto simp: log_event_def data_get_def group_data_get split: prod.splits option.splits)

lemma line_events_length:
  assumes "ListEventRules B (m_Project (c_Meta c)) st = Inr rules"
  shows "length (line_events R B c line st) =
    length (filter (\<lambda>r. active_rule r \<and> re_Match R (em_Subject (er_Match r)) line = Some True) rules)"
proof -
  have "length (List.map_filter (log_event R c line) (List.map_filter (\<lambda>r. let pat = em_Subject (er_Match r) in map_option (Pair pat) (re_Compile R pat)) (filter active_rule rs))) =
    length (filter (\<lambda>r. active_rule r \<and> re_Match R (em_Subject (er_Match r)) line = Some True) rs)" for rs
    by (induction rs) (auto simp: map_filter_simps re_Match_def log_event_def Let_def split: option.splits)
  then show ?thesis using assms by (simp add: line_events_def activeRegexes_def)
qed

lemma active_fires:
  assumes "active_rule r" "m_Project (er_Meta r) \<in> {[], m_Project (c_Meta c)}" "log_event R c line p = Some ev"
  shows "fires (re_Match R) r ev \<longleftrightarrow> re_Match R (em_Subject (er_Match r)) line = Some True"
  using assms(1,2) log_event_fields [OF assms(3)]
  by (auto simp: fires_def ruleMatches_def active_rule_def Let_def split: option.splits)

lemma in_map_filter: "y \<in> set (List.map_filter f xs) \<longleftrightarrow> (\<exists>x\<in>set xs. f x = Some y)"
  by (induction xs) (auto simp: map_filter_simps split: option.splits)

text \<open>
  C31. A line of a container's log fires an active rule of the project exactly when the rule's
  pattern compiles and matches the line; then it does so once for every active rule whose
  pattern matches, since each of them has the scanner emit an event and the dispatcher looks
  only at the line.
\<close>

theorem log_rules_fire:
  assumes "ListEventRules B (m_Project (c_Meta c)) st = Inr rules" "r \<in> set rules" "active_rule r"
    "m_Project (er_Meta r) \<in> {[], m_Project (c_Meta c)}"
  shows "length (filter (fires (re_Match R) r) (line_events R B c line st)) =
    (if re_Match R (em_Subject (er_Match r)) line = Some True
     then length (filter (\<lambda>r'. active_rule r' \<and> re_Match R (em_Subject (er_Match r')) line = Some True) rules) else 0)"
proof -
  have "fires (re_Match R) r ev \<longleftrightarrow> re_Match R (em_Subject (er_Match r)) line = Some True" if ev: "ev \<in> set (line_events R B c line st)" for ev
  proof -
    obtain p where "log_event R c line p = Some ev" using ev unfolding line_events_def in_map_filter by blast
    then show ?thesis by (rule active_fires [OF assms(3,4)])
  qed
  then show ?thesis using line_events_length [OF assms(1), of R line]
    by (cases "re_Match R (em_Subject (er_Match r)) line = Some True") (simp_all cong: filter_cong)
qed

section \<open>The sidecar\<close>

text \<open>
  What the socket lets a container do: a request that is answered 202 emits exactly one
  event, of type \<^verbatim>\<open>app.event\<close> and with the posted type among its data; every other request
  leaves the bus alone.
\<close>

theorem sidecar_emits:
  "case sidecar_mux dec now r b of (b', w) \<Rightarrow>
     (if w_Status w = 202 then \<exists>body ev. dec r = Inr body \<and> sq_Type body \<noteq> [] \<and> b' = Emit now ev b \<and> ev_Type ev = ''app.event'' \<and>
        ev_Project ev = sq_Project body \<and> ev_Subject ev = sq_Subject body \<and> map_of (ev_Data ev) = (map_of (sq_Data body))(''app_type'' \<mapsto> sq_Type body)
      else b' = b)"
  by (auto simp: sidecar_mux_def handleEvent_def plain_error_def method_not_allowed_def noContent_def map_of_update zero_event_record_def Let_def split: sum.splits)

section \<open>Witnesses\<close>

definition running :: "string \<Rightarrow> container" where
  "running n = (demo_container ''p'' n)\<lparr>c_Status := zero_container_status\<lparr>Phase := PhaseRunning\<rparr>\<rparr>"

definition log_rule :: "string \<Rightarrow> string \<Rightarrow> event_rule" where
  "log_rule n pat = (demo_rule pat)\<lparr>er_Meta := named ''p'' n, er_Match := \<lparr>em_Types = [''container.log''], em_Subject = pat, em_Filter = []\<rparr>\<rparr>"

definition watched_store :: "memdb store" where
  "watched_store =
     put_of (PutEventRule mem_bolt ''r2'' 5 6 (log_rule ''r2'' ''a'') (put_of (PutEventRule mem_bolt ''r1'' 3 4 (log_rule ''r1'' ''b'')
       (put_of (PutContainer mem_bolt ''u2'' 7 8 (running ''web'') with_containers)))))"

text \<open>Patterns that are plain words.\<close>

definition word_regexp :: "string regexp" where
  "word_regexp = \<lparr>re_Compile = Some, re_Find = (\<lambda>p l. if sublist p l then Some [p] else None), re_Names = (\<lambda>p. [[]])\<rparr>"


theorem log_rules_fire_witness:
  "\<exists>rules r. ListEventRules mem_bolt ''p'' watched_store = Inr rules \<and> r \<in> set rules \<and> em_Subject (er_Match r) = ''a'' \<and>
     length (filter (fires (re_Match word_regexp) r) (line_events word_regexp mem_bolt (running ''web'') ''cab'' watched_store)) = 2"
proof -
  let ?m = "\<lambda>r'. active_rule r' \<and> re_Match word_regexp (em_Subject (er_Match r')) ''cab'' = Some True"
  have p: "m_Project (c_Meta (running ''web'')) = ''p''" by (simp add: running_def demo_container_def named_def)
  have "(case ListEventRules mem_bolt ''p'' watched_store of Inr rules \<Rightarrow>
      length (filter ?m rules) = 2 \<and> filter (\<lambda>r. ?m r \<and> m_Project (er_Meta r) = ''p'' \<and> em_Subject (er_Match r) = ''a'') rules \<noteq> [] | _ \<Rightarrow> False)" by code_simp
  then obtain rules where l: "ListEventRules mem_bolt ''p'' watched_store = Inr rules" and n: "length (filter ?m rules) = 2"
    and f: "filter (\<lambda>r. ?m r \<and> m_Project (er_Meta r) = ''p'' \<and> em_Subject (er_Match r) = ''a'') rules \<noteq> []" by (auto split: sum.splits)
  from f obtain r where r: "r \<in> set rules" "?m r" "m_Project (er_Meta r) = ''p''" "em_Subject (er_Match r) = ''a''"
    by (auto simp: filter_empty_conv)
  have "length (filter (fires (re_Match word_regexp) r) (line_events word_regexp mem_bolt (running ''web'') ''cab'' watched_store)) = 2"
    using log_rules_fire [of mem_bolt "running ''web''" watched_store rules r word_regexp "''cab''"] l n r p by simp
  then show ?thesis using l r by blast
qed

end
