(* ===== verification/Api_Cluster.thy ===== *)
theory Api_Cluster
  imports Api_Resources
begin

text \<open>
  Handlers of \<^verbatim>\<open>internal/api\<close> for secrets (\<^verbatim>\<open>secrets.go\<close>), event rules and the event log
  (\<^verbatim>\<open>events.go\<close>), builds and git webhooks (\<^verbatim>\<open>builds.go\<close>, \<^verbatim>\<open>webhooks.go\<close>), the cluster
  (\<^verbatim>\<open>cluster.go\<close>, \<^verbatim>\<open>join.go\<close>), the S3 proxy, and the adapters through which the rule
  dispatcher acts (\<^verbatim>\<open>event_adapters.go\<close>).
\<close>

section \<open>Secrets\<close>

definition handleListSecrets :: "('db, 'rt, 'wa, 'fc) handler" where
  "handleListSecrets sv ob r w =
     reply w (JDocs DSecret) (ListSecrets (sv_B sv) (PathValue r ''project'') (wd_store w))"

definition handlePutSecret :: "('db, 'rt, 'wa, 'fc) handler" where
  "handlePutSecret sv ob r w =
     (case sv_secrets sv of None \<Rightarrow> (w, httpError 503 ''secrets manager not configured'')
      | Some key \<Rightarrow>
          (case decodeJSON (ji_putSecret (ob_json ob)) r of Inl e \<Rightarrow> (w, httpError 400 (errorString e))
           | Inr body \<Rightarrow>
               if ps_Name body = [] then (w, httpError 400 ''name required'')
               else if ps_Value body = [] then (w, httpError 400 ''value required'')
               else case secrets_Put (sv_B sv) (sv_gseal sv) (ob_rnd ob 0) (ob_uid ob 0) (ob_clk ob) key
                           (PathValue r ''project'') (ps_Name body) (ps_Description body) (ps_Value body) (wd_store w) of
                      (s, Inl e) \<Rightarrow> (w\<lparr>wd_store := s\<rparr>, mapStoreErr e)
                    | (s, Inr sec) \<Rightarrow> (w\<lparr>wd_store := s\<rparr>, writeJSON 201 (JDoc (DSecret sec)))))"

definition handleGetSecret :: "('db, 'rt, 'wa, 'fc) handler" where
  "handleGetSecret sv ob r w =
     reply w (\<lambda>x. JDoc (DSecret (x\<lparr>s_Nonce := [], s_Ciphertext := []\<rparr>)))
       (GetSecret (sv_B sv) (PathValue r ''project'') (PathValue r ''name'') (wd_store w))"

definition handleDeleteSecret :: "('db, 'rt, 'wa, 'fc) handler" where
  "handleDeleteSecret sv ob r w =
     deleted w (rs_DeleteSecret (sv_B sv) (ob_env ob) (PathValue r ''project'') (PathValue r ''name'') (wd_store w))"

definition is_admin :: "request \<Rightarrow> bool" where
  "is_admin r = (case IdentityFrom r of None \<Rightarrow> False | Some i \<Rightarrow> id_IsAdmin i)"

definition handleRevealSecret :: "('db, 'rt, 'wa, 'fc) handler" where
  "handleRevealSecret sv ob r w =
     (w, if \<not> is_admin r then httpError 403 ''admin only''
         else case sv_secrets sv of None \<Rightarrow> httpError 503 ''secrets manager not configured''
         | Some key \<Rightarrow>
             (case Reveal (sv_B sv) (sv_gopen sv) key (PathValue r ''project'') (PathValue r ''name'') (wd_store w) of
                Inl e \<Rightarrow> mapStoreErr e
              | Inr pt \<Rightarrow>
                  (let resp = writeJSON 200 (JObj [(''name'', JStr (PathValue r ''name'')), (''value'', JStr pt)])
                   in resp\<lparr>w_Header := (''cache-control'', ''no-store'') # w_Header resp\<rparr>)))"

section \<open>Event rules and the event log\<close>

definition handleListEventRules :: "('db, 'rt, 'wa, 'fc) handler" where
  "handleListEventRules sv ob r w =
     reply w (JDocs DEventRule) (ListEventRules (sv_B sv) (PathValue r ''project'') (wd_store w))"

definition handlePutEventRule :: "('db, 'rt, 'wa, 'fc) handler" where
  "handlePutEventRule sv ob r w =
     (case decodeJSON (ji_eventRule (ob_json ob)) r of Inl e \<Rightarrow> (w, httpError 400 (errorString e))
      | Inr rule \<Rightarrow>
          (let rule = rule\<lparr>er_Meta := (er_Meta rule)\<lparr>m_Project := PathValue r ''project''\<rparr>\<rparr> in
           if m_Name (er_Meta rule) = [] then (w, httpError 400 ''name required'')
           else let rule = (if m_Generation (er_Meta rule) = 0 \<and> \<not> er_Enabled rule
                            then rule\<lparr>er_Enabled := True\<rparr> else rule)
                in stored w 200 (\<lambda>x. JDoc (DEventRule (strip_webhook_secret x)))
                     (rs_PutEventRule (sv_B sv) (ob_env ob) (ob_uid ob 0) (ob_clk ob 0) (ob_clk ob 1) rule (wd_store w))))"

definition handleGetEventRule :: "('db, 'rt, 'wa, 'fc) handler" where
  "handleGetEventRule sv ob r w =
     reply w (\<lambda>x. JDoc (DEventRule (strip_webhook_secret x)))
       (GetEventRule (sv_B sv) (PathValue r ''project'') (PathValue r ''name'') (wd_store w))"

definition handleDeleteEventRule :: "('db, 'rt, 'wa, 'fc) handler" where
  "handleDeleteEventRule sv ob r w =
     deleted w (rs_DeleteEventRule (sv_B sv) (ob_env ob) (PathValue r ''project'') (PathValue r ''name'') (wd_store w))"

definition handleListDeliveries :: "('db, 'rt, 'wa, 'fc) handler" where
  "handleListDeliveries sv ob r w =
     reply w (JDocs DDelivery) (ListDeliveries (sv_B sv) (PathValue r ''project'') (PathValue r ''name'') (wd_store w))"

definition test_event :: "event_rule \<Rightarrow> event_record" where
  "test_event rule =
     zero_event_record\<lparr>ev_Type := (case em_Types (er_Match rule) of [] \<Rightarrow> ''test.fired'' | t # _ \<Rightarrow> t),
       ev_Project := m_Project (er_Meta rule),
       ev_Subject := (if em_Subject (er_Match rule) = [] then m_Name (er_Meta rule) else em_Subject (er_Match rule)),
       ev_Data := [(''test'', ''true''), (''rule'', m_Name (er_Meta rule)), (''trigger'', ''manual'')]\<rparr>"

definition handleTestRule :: "('db, 'rt, 'wa, 'fc) handler" where
  "handleTestRule sv ob r w =
     (case wd_bus w of None \<Rightarrow> (w, httpError 503 ''event bus not configured'')
      | Some _ \<Rightarrow>
          (case GetEventRule (sv_B sv) (PathValue r ''project'') (PathValue r ''name'') (wd_store w) of
             Inl e \<Rightarrow> (w, mapStoreErr e)
           | Inr rule \<Rightarrow>
               (bus_emit (ob_clk ob 0) (test_event rule) w, writeJSON 202 (JObj [(''queued'', JBool True)]))))"

definition event_limit :: "obs \<Rightarrow> string \<Rightarrow> int" where
  "event_limit ob v =
     (if v = [] then 200
      else case ob_Atoi ob v of Inl e \<Rightarrow> 200 | Inr n \<Rightarrow> if n > 0 \<and> n \<le> 5000 then n else 200)"

definition handleListEvents :: "('db, 'rt, 'wa, 'fc) handler" where
  "handleListEvents sv ob r w =
     reply w (JDocs DEventRecord)
       (map_sum id
          (\<lambda>out. if get0 (r_Query r) ''type'' = [] then out
                 else filter (\<lambda>e. ev_Type e = get0 (r_Query r) ''type'') out)
          (ListEvents (sv_B sv) (PathValue r ''project'') (event_limit ob (get0 (r_Query r) ''limit'')) (wd_store w)))"

section \<open>Builds and git webhooks\<close>

definition handleListBuilds :: "('db, 'rt, 'wa, 'fc) handler" where
  "handleListBuilds sv ob r w =
     reply w (JDocs DBuild) (ListBuilds (sv_B sv) (PathValue r ''project'') (PathValue r ''name'') (wd_store w))"

definition handleGetBuild :: "('db, 'rt, 'wa, 'fc) handler" where
  "handleGetBuild sv ob r w =
     reply w (\<lambda>b. JDoc (DBuild b)) (GetBuild (sv_B sv) (PathValue r ''project'') (PathValue r ''id'') (wd_store w))"

definition handleTriggerBuild :: "('db, 'rt, 'wa, 'fc) handler" where
  "handleTriggerBuild sv ob r w =
     (case sv_builder sv of None \<Rightarrow> (w, httpError 503 ''builder not configured (containerd may be unavailable)'')
      | Some trigger \<Rightarrow>
          (case GetFunction (sv_B sv) (PathValue r ''project'') (PathValue r ''name'') (wd_store w) of
             Inl e \<Rightarrow> (w, mapStoreErr e)
           | Inr f \<Rightarrow>
               if src_Type (f_Source f) \<noteq> ''git'' \<or> src_Git (f_Source f) = None
               then (w, httpError 400 ''function does not have a git source'')
               else case trigger f ''manual'' (wd_store w) of
                      (s, Inl e) \<Rightarrow> (w\<lparr>wd_store := s\<rparr>, httpError 500 (errorString e))
                    | (s, Inr b) \<Rightarrow> (w\<lparr>wd_store := s\<rparr>, writeJSON 202 (JDoc (DBuild b)))))"

definition webhook_function :: "string \<Rightarrow> func list \<Rightarrow> func option" where
  "webhook_function token fns =
     find (\<lambda>f. case src_Git (f_Source f) of None \<Rightarrow> False | Some g \<Rightarrow> g_WebhookToken g = token) fns"

fun find_in_projects :: "'db bolt \<Rightarrow> string \<Rightarrow> 'db store \<Rightarrow> project list \<Rightarrow> func option" where
  "find_in_projects B token s [] = None"
| "find_in_projects B token s (p # ps) =
     (case ListFunctions B (m_Name (p_Meta p)) s of
        Inl e \<Rightarrow> find_in_projects B token s ps
      | Inr fns \<Rightarrow>
          (case webhook_function token fns of Some f \<Rightarrow> Some f | None \<Rightarrow> find_in_projects B token s ps))"

definition findFunctionByWebhookToken :: "'db bolt \<Rightarrow> string \<Rightarrow> 'db store \<Rightarrow> error + func" where
  "findFunctionByWebhookToken B token s =
     (case ListProjects B s of Inl e \<Rightarrow> Inl e
      | Inr ps \<Rightarrow> (case find_in_projects B token s ps of None \<Rightarrow> Inl ErrNotFound | Some f \<Rightarrow> Inr f))"

text \<open>\<^verbatim>\<open>strings.SplitN(header, "=", 2)\<close> is a cut at the first equals sign; \<^verbatim>\<open>hmac.Equal\<close> is equality.\<close>

definition verifyHMAC :: "(bytes \<Rightarrow> bytes \<Rightarrow> bytes) \<Rightarrow> string \<Rightarrow> bytes \<Rightarrow> string \<Rightarrow> bool" where
  "verifyHMAC hmac header body secret =
     (if header = [] \<or> secret = [] then False
      else case IndexByte header CHR ''='' of None \<Rightarrow> False
      | Some i \<Rightarrow>
          if take i header \<noteq> ''sha256'' then False
          else case hexDecode (drop (i + 1) header) of None \<Rightarrow> False | Some want \<Rightarrow> hmac secret body = want)"

definition verifyBearer :: "string \<Rightarrow> string \<Rightarrow> bool" where
  "verifyBearer header secret =
     (if header = [] \<or> secret = [] then False
      else if \<not> HasPrefix (ToLower header) ''bearer '' then False
      else TrimSpace (drop 7 header) = secret)"

definition notFound :: response where
  "notFound = \<lparr>w_Status = 404, w_Header = [(''content-type'', ''text/plain; charset=utf-8'')],
     w_Body = Text (''404 page not found'' @ [CHR 0x0A])\<rparr>"

definition push_event :: "func \<Rightarrow> build \<Rightarrow> string \<times> string \<Rightarrow> event_record" where
  "push_event f b payload =
     zero_event_record\<lparr>ev_Type := ''git.push'', ev_Project := m_Project (f_Meta f), ev_Subject := m_Name (f_Meta f),
       ev_Data := [(''function'', m_Name (f_Meta f)), (''commit'', fst payload), (''ref'', snd payload),
         (''build'', m_UID (bd_Meta b))]\<rparr>"

definition webhook_authentic :: "('db, 'rt, 'wa, 'fc) server \<Rightarrow> request \<Rightarrow> bytes \<Rightarrow> func \<Rightarrow> bool" where
  "webhook_authentic sv r body f =
     (case src_Git (f_Source f) of None \<Rightarrow> True
      | Some g \<Rightarrow> g_WebhookSecret g = [] \<or>
          verifyHMAC (sv_hmac sv) (get0 (r_Header r) ''x-hub-signature-256'') body (g_WebhookSecret g) \<or>
          verifyBearer (get0 (r_Header r) ''authorization'') (g_WebhookSecret g))"

definition handleGitWebhook :: "('db, 'rt, 'wa, 'fc) handler" where
  "handleGitWebhook sv ob r w =
     (if PathValue r ''token'' = [] then (w, notFound)
      else case read_all (2 ^ 22) r of
        (_, Some e) \<Rightarrow> (w, httpError 400 ''read body'')
      | (body, None) \<Rightarrow>
          (case findFunctionByWebhookToken (sv_B sv) (PathValue r ''token'') (wd_store w) of
             Inl e \<Rightarrow> (w, notFound)
           | Inr f \<Rightarrow>
               if \<not> webhook_authentic sv r body f then (w, httpError 401 ''bad signature'')
               else case sv_builder sv of None \<Rightarrow> (w, httpError 503 ''builder not configured'')
               | Some trigger \<Rightarrow>
                   (case trigger f ''webhook'' (wd_store w) of
                      (s, Inl e) \<Rightarrow> (w\<lparr>wd_store := s\<rparr>, httpError 500 (errorString e))
                    | (s, Inr b) \<Rightarrow>
                        (bus_emit (ob_clk ob 0) (push_event f b (ji_push (ob_json ob) body)) (w\<lparr>wd_store := s\<rparr>),
                         writeJSON 202 (JObj [(''queued'', JBool True), (''build'', JStr (m_UID (bd_Meta b))),
                           (''commit'', JStr (fst (ji_push (ob_json ob) body)))])))))"

section \<open>The cluster\<close>

definition strip_cluster :: "cluster_config \<Rightarrow> cluster_config" where
  "strip_cluster cfg = cfg\<lparr>cc_BootstrapToken := [], cc_GarageRPCSecret := [], cc_GarageAdminToken := [],
     cc_S3InternalKeyID := [], cc_S3InternalKeySecret := [], cc_JoinTokens := []\<rparr>"

definition handleGetCluster :: "('db, 'rt, 'wa, 'fc) handler" where
  "handleGetCluster sv ob r w =
     (w, case GetCluster (sv_B sv) (wd_store w) of Inl e \<Rightarrow> httpError 500 (errorString e)
         | Inr cfg \<Rightarrow> writeJSON 200 (JDoc (DCluster (strip_cluster cfg))))"

definition handlePutCluster :: "('db, 'rt, 'wa, 'fc) handler" where
  "handlePutCluster sv ob r w =
     (if \<not> is_admin r then (w, httpError 403 ''admin only'')
      else case decodeJSON (ji_cluster (ob_json ob)) r of Inl e \<Rightarrow> (w, httpError 400 (errorString e))
      | Inr body \<Rightarrow>
          (case GetCluster (sv_B sv) (wd_store w) of Inl e \<Rightarrow> (w, httpError 500 (errorString e))
           | Inr cur \<Rightarrow>
               (let cur = cur\<lparr>cc_MultiNode := cc_MultiNode body\<rparr>;
                    cur = (if cc_ReplicationFactor body > 0
                           then cur\<lparr>cc_ReplicationFactor := cc_ReplicationFactor body\<rparr> else cur)
                in case PutCluster (sv_B sv) (ob_clk ob 0) cur (wd_store w) of
                     (_, s, Some e) \<Rightarrow> (w\<lparr>wd_store := s\<rparr>, httpError 500 (errorString e))
                   | (cur, s, None) \<Rightarrow> (w\<lparr>wd_store := s\<rparr>, writeJSON 200 (JDoc (DCluster cur))))))"

definition handleListNodes :: "('db, 'rt, 'wa, 'fc) handler" where
  "handleListNodes sv ob r w = reply w (JDocs DNode) (ListNodes (sv_B sv) (wd_store w))"

definition join_ttl :: "obs \<Rightarrow> string \<Rightarrow> duration" where
  "join_ttl ob v =
     (if v = [] then 24 * hour else case ob_ParseDuration ob v of Inl e \<Rightarrow> 24 * hour | Inr d \<Rightarrow> d)"

definition handleIssueJoinToken :: "('db, 'rt, 'wa, 'fc) handler" where
  "handleIssueJoinToken sv ob r w =
     (case IdentityFrom r of None \<Rightarrow> (w, httpError 403 ''admin only'')
      | Some i \<Rightarrow>
          if \<not> id_IsAdmin i then (w, httpError 403 ''admin only'')
          else case Issue (sv_B sv) (sv_H sv) (ob_rnd ob 0) (ob_clk ob) (id_UserID i)
                      (join_ttl ob (ji_issueJoin (ob_json ob) (map_option (limit_reader (2 ^ 24)) (r_Body r)))) (wd_store w) of
                 (s, Inl e) \<Rightarrow> (w\<lparr>wd_store := s\<rparr>, httpError 500 (errorString e))
               | (s, Inr (plain, tok)) \<Rightarrow>
                   (w\<lparr>wd_store := s\<rparr>, writeJSON 201 (JObj [(''id'', JStr (jt_ID tok)), (''token'', JStr plain),
                      (''expiresAt'', JTime (jt_ExpiresAt tok)),
                      (''command'', JStr (''curl -fsSL https://get.selfcloud.dev | sh -s -- --join '' @ r_Host r @ '' --token '' @ plain))])))"

definition handleListJoinTokens :: "('db, 'rt, 'wa, 'fc) handler" where
  "handleListJoinTokens sv ob r w =
     (w, case List_tokens (sv_B sv) (wd_store w) of Inl e \<Rightarrow> httpError 500 (errorString e)
         | Inr out \<Rightarrow> writeJSON 200 (JList (map JJoinToken out)))"

definition joining_node :: "string \<Rightarrow> time \<Rightarrow> time \<Rightarrow> join_req \<Rightarrow> node" where
  "joining_node version t0 t1 body =
     \<lparr>n_Meta = zero_meta\<lparr>m_Project := ''system'', m_Name := jr_NodeID body\<rparr>,
      n_Address = jr_AdvertiseAddr body, n_APIAddress = jr_APIAddr body, n_RaftAddress = jr_RaftAddr body,
      n_GossipAddress = [],
      n_Roles = (if jr_Roles body = [] then [''control'', ''compute'', ''storage''] else jr_Roles body),
      n_CapacityGB = jr_CapacityGB body, n_Zone = [], n_Version = version,
      n_Status = zero_status\<lparr>Phase := PhaseRunning, StatusUpdatedAt := t0\<rparr>, n_LastSeenAt = t1\<rparr>"

definition join_resp :: "string \<Rightarrow> string \<Rightarrow> cluster_config \<Rightarrow> node list \<Rightarrow> json" where
  "join_resp version nodeID cfg peers =
     JObj [(''nodeId'', JStr nodeID), (''multiNode'', JBool (cc_MultiNode cfg)),
       (''replicationFactor'', JInt (cc_ReplicationFactor cfg)), (''peers'', JDocs DNode peers),
       (''garageRpcSecret'', JStr (cc_GarageRPCSecret cfg)), (''garageAdminToken'', JStr (cc_GarageAdminToken cfg)),
       (''version'', JStr version)]"

text \<open>The part of \<^verbatim>\<open>handleClusterJoin\<close> after the voter was added.\<close>

definition admit_node ::
  "('db, 'rt, 'wa, 'fc) server \<Rightarrow> obs \<Rightarrow> join_req \<Rightarrow> 'db store \<Rightarrow> 'db store \<times> response" where
  "admit_node sv ob body s1 =
     (case PutNode (sv_B sv) (ob_uid ob 0) (ob_clk ob 4) (ob_clk ob 5)
             (joining_node (sv_version sv) (ob_clk ob 2) (ob_clk ob 3) body) s1 of
        (_, s2, Some e) \<Rightarrow> (s2, httpError 500 (errorString e))
      | (_, s2, None) \<Rightarrow>
          (case GetCluster (sv_B sv) s2 of Inl e \<Rightarrow> (s2, httpError 500 (''load cluster: '' @ errorString e))
           | Inr cfg \<Rightarrow>
               (case PutCluster (sv_B sv) (ob_clk ob 6) (cfg\<lparr>cc_MultiNode := True\<rparr>) s2 of
                  (_, s3, Some e) \<Rightarrow> (s3, httpError 500 (errorString e))
                | (cfg, s3, None) \<Rightarrow>
                    (s3, writeJSON 200 (join_resp (sv_version sv) (jr_NodeID body) cfg
                       (case ListNodes (sv_B sv) s3 of Inl e \<Rightarrow> [] | Inr ns \<Rightarrow> ns))))))"

definition handleClusterJoin :: "('db, 'rt, 'wa, 'fc) handler" where
  "handleClusterJoin sv ob r w =
     (case decodeJSON (ji_join (ob_json ob)) r of Inl e \<Rightarrow> (w, httpError 400 (errorString e))
      | Inr body \<Rightarrow>
          if jr_NodeID body = [] \<or> jr_RaftAddr body = []
          then (w, httpError 400 ''nodeId and raftAddr are required'')
          else case Consume (sv_B sv) (sv_H sv) (ob_clk ob) (jr_Token body) (jr_NodeID body) (wd_store w) of
                 (s1, Some e) \<Rightarrow> (w\<lparr>wd_store := s1\<rparr>, httpError 401 (errorString e))
               | (s1, None) \<Rightarrow>
                   (case (if sv_raft sv then ob_AddVoter ob (jr_NodeID body) (jr_RaftAddr body) else None) of
                      Some e \<Rightarrow> (w\<lparr>wd_store := s1\<rparr>, httpError 500 (''raft add voter: '' @ errorString e))
                    | None \<Rightarrow> (case admit_node sv ob body s1 of (s, resp) \<Rightarrow> (w\<lparr>wd_store := s\<rparr>, resp))))"

section \<open>The S3 proxy\<close>

definition splitS3Path :: "string \<Rightarrow> string \<times> string" where
  "splitS3Path p =
     (let p = TrimPrefix p ''/'' in
      if p = [] then ([], [])
      else case IndexByte p CHR ''/'' of None \<Rightarrow> (p, []) | Some i \<Rightarrow> (take i p, drop (i + 1) p))"

fun bucket_owner :: "'db bolt \<Rightarrow> string \<Rightarrow> 'db store \<Rightarrow> project list \<Rightarrow> string" where
  "bucket_owner B name s [] = []"
| "bucket_owner B name s (p # ps) =
     (case ListBuckets B (m_Name (p_Meta p)) s of
        Inl e \<Rightarrow> bucket_owner B name s ps
      | Inr bs \<Rightarrow> if list_ex (\<lambda>b. m_Name (b_Meta b) = name) bs then m_Name (p_Meta p)
                 else bucket_owner B name s ps)"

definition bucketProject :: "'db bolt \<Rightarrow> string \<Rightarrow> 'db store \<Rightarrow> string" where
  "bucketProject B name s = (case ListProjects B s of Inl e \<Rightarrow> [] | Inr ps \<Rightarrow> bucket_owner B name s ps)"

definition s3_event_type :: "string \<Rightarrow> string" where
  "s3_event_type method =
     (if method = ''PUT'' \<or> method = ''POST'' then ''s3.put'' else if method = ''DELETE'' then ''s3.delete'' else [])"

definition handleS3Proxy :: "('db, 'rt, 'wa, 'fc) handler" where
  "handleS3Proxy sv ob r w =
     (case sv_S3Addr sv of None \<Rightarrow> (w, httpError 503 ''garage not configured'')
      | Some addr \<Rightarrow>
          (case ob_urlParse ob (''http://'' @ addr) of Inl e \<Rightarrow> (w, httpError 500 (errorString e))
           | Inr host \<Rightarrow>
               (let path = TrimPrefix (r_Path r) ''/s3'';
                    path = (if path = [] then ''/'' else path);
                    resp = (case ob_proxy ob (r\<lparr>r_Path := path, r_Host := host\<rparr>) of
                              Inl e \<Rightarrow> httpError 502 ''garage unreachable'' | Inr resp \<Rightarrow> resp);
                    (bucket, key) = splitS3Path path;
                    t = s3_event_type (r_Method r)
                in if 200 \<le> w_Status resp \<and> w_Status resp < 300 \<and> bucket \<noteq> [] \<and> key \<noteq> [] \<and> t \<noteq> []
                   then (bus_emit (ob_clk ob 0) (zero_event_record\<lparr>ev_Type := t,
                           ev_Project := bucketProject (sv_B sv) bucket (wd_store w),
                           ev_Subject := bucket @ ''/'' @ key,
                           ev_Data := [(''bucket'', bucket), (''key'', key), (''method'', r_Method r)]\<rparr>) w, resp)
                   else (w, resp))))"

section \<open>The adapters of the rule dispatcher\<close>

definition InvokeForEvent ::
  "('db, 'rt, 'wa, 'fc) server \<Rightarrow> (nat \<Rightarrow> time) \<Rightarrow> string \<Rightarrow> string \<Rightarrow> string \<Rightarrow> bytes \<Rightarrow>
   ('db, 'rt, 'wa, 'fc) world \<Rightarrow> ('db, 'rt, 'wa, 'fc) world \<times> error option" where
  "InvokeForEvent sv clk project name path body w =
     (case GetFunction (sv_B sv) project name (wd_store w) of Inl e \<Rightarrow> (w, Some e)
      | Inr f \<Rightarrow>
          (case server_invoke sv clk f
                  \<lparr>iq_Method = ''POST'', iq_Path = path,
                   iq_Headers = [(''content-type'', [''application/json'']), (''x-selfcloud-event'', [''true''])],
                   iq_Body = body, iq_Env = f_Env f, iq_SecretFiles = []\<rparr> w of
             (w', Inl e) \<Rightarrow> (w', Some e) | (w', Inr _) \<Rightarrow> (w', None)))"

definition StartByName ::
  "('db, 'rt, 'wa, 'fc) server \<Rightarrow> raft_env \<Rightarrow> string \<Rightarrow> (nat \<Rightarrow> time) \<Rightarrow> string \<Rightarrow> string \<Rightarrow>
   ('db, 'rt, 'wa, 'fc) world \<Rightarrow> ('db, 'rt, 'wa, 'fc) world \<times> error option" where
  "StartByName sv env uid clk project name w =
     (case GetContainer (sv_B sv) project name (wd_store w) of Inl e \<Rightarrow> (w, Some e)
      | Inr c \<Rightarrow>
          (case rt_Start (sv_containers sv) c (wd_rt w) of
             (rt, Inl e) \<Rightarrow> (w\<lparr>wd_rt := rt\<rparr>, Some e)
           | (rt, Inr st) \<Rightarrow>
               (case rs_PutContainer (sv_B sv) env uid (clk 0) (clk 1) (c\<lparr>c_Status := st\<rparr>) (wd_store w) of
                  (_, s, r) \<Rightarrow> (w\<lparr>wd_rt := rt, wd_store := s\<rparr>, r))))"

definition StopByName ::
  "('db, 'rt, 'wa, 'fc) server \<Rightarrow> raft_env \<Rightarrow> string \<Rightarrow> (nat \<Rightarrow> time) \<Rightarrow> string \<Rightarrow> string \<Rightarrow>
   ('db, 'rt, 'wa, 'fc) world \<Rightarrow> ('db, 'rt, 'wa, 'fc) world \<times> error option" where
  "StopByName sv env uid clk project name w =
     (case GetContainer (sv_B sv) project name (wd_store w) of Inl e \<Rightarrow> (w, Some e)
      | Inr c \<Rightarrow>
          (case rt_Stop (sv_containers sv) c (wd_rt w) of
             (rt, Some e) \<Rightarrow> (w\<lparr>wd_rt := rt\<rparr>, Some e)
           | (rt, None) \<Rightarrow>
               (case rs_PutContainer (sv_B sv) env uid (clk 1) (clk 2) (stop_status (clk 0) c) (wd_store w) of
                  (_, s, r) \<Rightarrow> (w\<lparr>wd_rt := rt, wd_store := s\<rparr>, r))))"

definition RestartByName ::
  "('db, 'rt, 'wa, 'fc) server \<Rightarrow> raft_env \<Rightarrow> (nat \<Rightarrow> string) \<Rightarrow> (nat \<Rightarrow> time) \<Rightarrow> string \<Rightarrow> string \<Rightarrow>
   ('db, 'rt, 'wa, 'fc) world \<Rightarrow> ('db, 'rt, 'wa, 'fc) world \<times> error option" where
  "RestartByName sv env uid clk project name w =
     (case StopByName sv env (uid 0) clk project name w of (w1, Some e) \<Rightarrow> (w1, Some e)
      | (w1, None) \<Rightarrow> StartByName sv env (uid 1) (\<lambda>i. clk (3 + i)) project name w1)"

end
