(* ===== verification/Api_Routes.thy ===== *)
theory Api_Routes
  imports Api_Cluster
begin

text \<open>
  The middleware of \<^verbatim>\<open>internal/api/server.go\<close> and the URL space of \<^verbatim>\<open>routes.go\<close>.

  The multiplexer is Go's \<^verbatim>\<open>http.ServeMux\<close> with method patterns: a pattern segment in braces
  matches one non-empty segment, a pattern for \<^verbatim>\<open>GET\<close> also matches \<^verbatim>\<open>HEAD\<close>, and a pattern that
  ends in a slash matches every longer path. A path that is not clean is redirected before it
  is matched; the model starts from clean paths. The handlers of the browser for stored objects
  and of the WebSocket streams are not modelled; they are the argument \<open>other\<close>, by name.
\<close>

section \<open>Middleware\<close>

definition bearer_token :: "request \<Rightarrow> string" where
  "bearer_token r =
     (let header = get0 (r_Header r) ''authorization'' in
      if HasPrefix (ToLower header) ''bearer '' then TrimSpace (drop 7 header)
      else if get0 (r_Query r) ''access_token'' \<noteq> [] then get0 (r_Query r) ''access_token''
      else [])"

definition requireAuth :: "('db, 'rt, 'wa, 'fc) handler \<Rightarrow> bool \<Rightarrow> ('db, 'rt, 'wa, 'fc) handler" where
  "requireAuth handler adminOnly sv ob r w =
     (if bearer_token r = [] then (w, httpError 401 ''missing bearer token'')
      else case ResolveToken (sv_B sv) (sv_H sv) (ob_clk ob 20) (bearer_token r) (wd_store w) of
        Inl e \<Rightarrow> (w, httpError 401 ''invalid token'')
      | Inr i \<Rightarrow>
          if adminOnly \<and> \<not> id_IsAdmin i then (w, httpError 403 ''admin only'')
          else handler sv ob (withIdentity i r) w)"

definition exempt :: "string \<Rightarrow> bool" where
  "exempt path =
     (if list_ex (HasPrefix path) [''/healthz'', ''/readyz'', ''/api/v1/meta'', ''/api/v1/setup/'',
           ''/api/v1/auth/login'', ''/api/v1/cluster/join'', ''/fn/'', ''/webhooks/'', ''/s3/'', ''/assets'']
      then True
      else path = ''/'' \<or> \<not> HasPrefix path ''/api/'')"

definition leaderAPIAddr :: "'db bolt \<Rightarrow> string \<Rightarrow> 'db store \<Rightarrow> string" where
  "leaderAPIAddr B raftAddr s =
     (case ListNodes B s of Inl e \<Rightarrow> []
      | Inr nodes \<Rightarrow>
          (case find (\<lambda>n. n_RaftAddress n = raftAddr \<and> n_APIAddress n \<noteq> []) nodes of
             None \<Rightarrow> [] | Some n \<Rightarrow> n_APIAddress n))"

definition redirect :: "string \<Rightarrow> response" where
  "redirect target = \<lparr>w_Status = 307, w_Header = [(''location'', target)], w_Body = NoBody\<rparr>"

definition leaderRedirect :: "('db, 'rt, 'wa, 'fc) handler \<Rightarrow> ('db, 'rt, 'wa, 'fc) handler" where
  "leaderRedirect handler sv ob r w =
     (if \<not> sv_raft sv \<or> r_Method r \<in> {''GET'', ''HEAD'', ''OPTIONS''} then handler sv ob r w
      else if exempt (r_Path r) then handler sv ob r w
      else if ob_IsLeader ob then handler sv ob r w
      else if ob_LeaderAddr ob = [] then (w, httpError 503 ''no raft leader yet'')
      else let apiAddr = leaderAPIAddr (sv_B sv) (ob_LeaderAddr ob) (wd_store w) in
        if apiAddr = [] then (w, httpError 503 ''leader api address unknown'')
        else (w, redirect (''https://'' @ apiAddr @ r_RequestURI r)))"

definition cors :: "('db, 'rt, 'wa, 'fc) handler \<Rightarrow> ('db, 'rt, 'wa, 'fc) handler" where
  "cors handler sv ob r w =
     (let origin = get0 (r_Header r) ''origin'';
          hs = (if origin = [] then []
                else [(''access-control-allow-origin'', origin), (''access-control-allow-credentials'', ''true''),
                      (''access-control-allow-headers'', ''authorization, content-type''),
                      (''access-control-allow-methods'', ''GET,POST,PUT,DELETE,PATCH,OPTIONS'')])
      in if r_Method r = ''OPTIONS'' then (w, noContent\<lparr>w_Header := hs\<rparr>)
         else case handler sv ob r w of (w', resp) \<Rightarrow> (w', resp\<lparr>w_Header := hs @ w_Header resp\<rparr>))"

section \<open>Patterns\<close>

datatype seg = Lit string | Wild string

fun match_segs :: "seg list \<Rightarrow> string list \<Rightarrow> strmap option" where
  "match_segs [] [] = Some []"
| "match_segs (Lit s # ps) (x # xs) = (if s = x then match_segs ps xs else None)"
| "match_segs (Wild v # ps) (x # xs) = (if x = [] then None else map_option (Cons (v, x)) (match_segs ps xs))"
| "match_segs _ _ = None"

definition match_method :: "string \<Rightarrow> string \<Rightarrow> bool" where
  "match_method pat m = (m = pat \<or> pat = ''GET'' \<and> m = ''HEAD'')"

type_synonym ('db, 'rt, 'wa, 'fc) route = "string \<times> seg list \<times> ('db, 'rt, 'wa, 'fc) handler"

definition api_project :: "string \<Rightarrow> seg list \<Rightarrow> seg list" where
  "api_project kind rest = [Lit ''api'', Lit ''v1'', Lit ''projects'', Wild ''project'', Lit kind] @ rest"

definition auth_routes :: "(string \<Rightarrow> ('db, 'rt, 'wa, 'fc) handler) \<Rightarrow> ('db, 'rt, 'wa, 'fc) route list" where
  "auth_routes other =
     (let v1 = (\<lambda>ss. Lit ''api'' # Lit ''v1'' # ss); prj = api_project;
          one = [Wild ''name'']; sub = (\<lambda>x. [Wild ''name'', Lit x]) in
     [(''GET'', v1 [Lit ''auth'', Lit ''me''], handleMe),
      (''POST'', v1 [Lit ''auth'', Lit ''tokens''], handleCreateToken),
      (''GET'', v1 [Lit ''auth'', Lit ''tokens''], handleListTokens),
      (''DELETE'', v1 [Lit ''auth'', Lit ''tokens'', Wild ''name''], handleDeleteToken),
      (''GET'', v1 [Lit ''projects''], handleListProjects),
      (''POST'', v1 [Lit ''projects''], handlePutProject),
      (''GET'', v1 [Lit ''projects'', Wild ''name''], handleGetProject),
      (''DELETE'', v1 [Lit ''projects'', Wild ''name''], handleDeleteProject),
      (''GET'', prj ''containers'' [], handleListContainers),
      (''POST'', prj ''containers'' [], handlePutContainer),
      (''GET'', prj ''containers'' one, handleGetContainer),
      (''DELETE'', prj ''containers'' one, handleDeleteContainer),
      (''POST'', prj ''containers'' (sub ''start''), handleStartContainer),
      (''POST'', prj ''containers'' (sub ''stop''), handleStopContainer),
      (''GET'', prj ''containers'' (sub ''logs''), handleContainerLogs),
      (''GET'', prj ''containers'' (sub ''logs'' @ [Lit ''ws'']), other ''handleContainerLogsWS''),
      (''GET'', prj ''containers'' (sub ''exec''), other ''handleContainerExecWS''),
      (''GET'', prj ''buckets'' [], handleListBuckets),
      (''POST'', prj ''buckets'' [], handlePutBucket),
      (''GET'', prj ''buckets'' one, handleGetBucket),
      (''DELETE'', prj ''buckets'' one, handleDeleteBucket),
      (''GET'', prj ''buckets'' (sub ''objects''), other ''handleListObjects''),
      (''PUT'', prj ''buckets'' (sub ''objects''), other ''handlePutObject''),
      (''GET'', prj ''buckets'' (sub ''object''), other ''handleGetObject''),
      (''DELETE'', prj ''buckets'' (sub ''object''), other ''handleDeleteObject''),
      (''GET'', prj ''access-keys'' [], handleListAccessKeys),
      (''POST'', prj ''access-keys'' [], handleCreateAccessKey),
      (''GET'', prj ''access-keys'' one, handleGetAccessKey),
      (''DELETE'', prj ''access-keys'' one, handleDeleteAccessKey),
      (''GET'', prj ''functions'' [], handleListFunctions),
      (''POST'', prj ''functions'' [], handlePutFunction),
      (''GET'', prj ''functions'' one, handleGetFunction),
      (''DELETE'', prj ''functions'' one, handleDeleteFunction),
      (''POST'', prj ''functions'' (sub ''code''), handleUploadFunctionCode),
      (''POST'', prj ''functions'' (sub ''invoke''), handleInvokeFunction),
      (''GET'', prj ''functions'' (sub ''invoke''), handleInvokeFunction),
      (''PUT'', prj ''functions'' (sub ''invoke''), handleInvokeFunction),
      (''DELETE'', prj ''functions'' (sub ''invoke''), handleInvokeFunction),
      (''PATCH'', prj ''functions'' (sub ''invoke''), handleInvokeFunction),
      (''GET'', prj ''functions'' (sub ''invocations''), handleListFunctionInvocations),
      (''GET'', prj ''functions'' (sub ''builds''), handleListBuilds),
      (''POST'', prj ''functions'' (sub ''builds''), handleTriggerBuild),
      (''GET'', prj ''functions'' (sub ''builds'' @ [Wild ''id'']), handleGetBuild),
      (''GET'', prj ''functions'' (sub ''builds'' @ [Wild ''id'', Lit ''logs'', Lit ''ws'']), other ''handleBuildLogsWS''),
      (''GET'', v1 [Lit ''runtime'', Lit ''firecracker'', Lit ''templates''], handleListFirecrackerTemplates),
      (''GET'', prj ''secrets'' [], handleListSecrets),
      (''POST'', prj ''secrets'' [], handlePutSecret),
      (''GET'', prj ''secrets'' one, handleGetSecret),
      (''DELETE'', prj ''secrets'' one, handleDeleteSecret),
      (''POST'', prj ''secrets'' (sub ''reveal''), handleRevealSecret),
      (''GET'', prj ''event-rules'' [], handleListEventRules),
      (''POST'', prj ''event-rules'' [], handlePutEventRule),
      (''GET'', prj ''event-rules'' one, handleGetEventRule),
      (''DELETE'', prj ''event-rules'' one, handleDeleteEventRule),
      (''GET'', prj ''event-rules'' (sub ''deliveries''), handleListDeliveries),
      (''POST'', prj ''event-rules'' (sub ''test''), handleTestRule),
      (''GET'', prj ''events'' [], handleListEvents),
      (''GET'', prj ''events'' [Lit ''ws''], other ''handleEventsWS''),
      (''GET'', v1 [Lit ''cluster''], handleGetCluster),
      (''GET'', v1 [Lit ''cluster'', Lit ''nodes''], handleListNodes),
      (''POST'', v1 [Lit ''cluster'', Lit ''join-tokens''], handleIssueJoinToken),
      (''GET'', v1 [Lit ''cluster'', Lit ''join-tokens''], handleListJoinTokens),
      (''PUT'', v1 [Lit ''cluster''], handlePutCluster)])"

definition public_routes :: "(string \<Rightarrow> ('db, 'rt, 'wa, 'fc) handler) \<Rightarrow> ('db, 'rt, 'wa, 'fc) route list" where
  "public_routes other =
     [(''GET'', [Lit ''healthz''], handleHealth),
      (''GET'', [Lit ''readyz''], handleReady),
      (''GET'', [Lit ''api'', Lit ''v1'', Lit ''meta''], other ''handleMeta''),
      (''POST'', [Lit ''api'', Lit ''v1'', Lit ''setup'', Lit ''initialize''], handleInitialize),
      (''GET'', [Lit ''api'', Lit ''v1'', Lit ''setup'', Lit ''status''], handleSetupStatus),
      (''POST'', [Lit ''api'', Lit ''v1'', Lit ''cluster'', Lit ''join''], handleClusterJoin),
      (''POST'', [Lit ''api'', Lit ''v1'', Lit ''auth'', Lit ''login''], handleLogin),
      (''POST'', [Lit ''webhooks'', Lit ''git'', Wild ''token''], handleGitWebhook)]"

text \<open>The route a multiplexer selects: at most one pattern of each table matches a request.\<close>

definition find_route ::
  "('db, 'rt, 'wa, 'fc) route list \<Rightarrow> string \<Rightarrow> string list \<Rightarrow> (strmap \<times> ('db, 'rt, 'wa, 'fc) handler) option" where
  "find_route rs m segs =
     (case List.map_filter (\<lambda>(pm, pat, h). if match_method pm m
              then map_option (\<lambda>vs. (vs, h)) (match_segs pat segs) else None) rs of
        [] \<Rightarrow> None | x # _ \<Rightarrow> Some x)"

definition methodNotAllowed :: response where
  "methodNotAllowed = \<lparr>w_Status = 405, w_Header = [(''content-type'', ''text/plain; charset=utf-8'')],
     w_Body = Text (''Method Not Allowed'' @ [CHR 0x0A])\<rparr>"

definition auth_mux :: "(string \<Rightarrow> ('db, 'rt, 'wa, 'fc) handler) \<Rightarrow> ('db, 'rt, 'wa, 'fc) handler" where
  "auth_mux other sv ob r w =
     (case find_route (auth_routes other) (r_Method r) (r_Segs r) of
        Some (vs, h) \<Rightarrow> h sv ob (r\<lparr>r_PathValue := vs\<rparr>) w
      | None \<Rightarrow>
          (w, if list_ex (\<lambda>(pm, pat, h). match_segs pat (r_Segs r) \<noteq> None) (auth_routes other)
              then methodNotAllowed else notFound))"

definition api_methods :: "string list" where
  "api_methods = [''GET'', ''POST'', ''PUT'', ''DELETE'', ''PATCH'']"

definition under_api :: "string list \<Rightarrow> bool" where
  "under_api segs = (length segs > 2 \<and> take 2 segs = [''api'', ''v1''])"

definition routes :: "(string \<Rightarrow> ('db, 'rt, 'wa, 'fc) handler) \<Rightarrow> ('db, 'rt, 'wa, 'fc) handler" where
  "routes other sv ob r w =
     (case find_route (public_routes other) (r_Method r) (r_Segs r) of
        Some (vs, h) \<Rightarrow> h sv ob (r\<lparr>r_PathValue := vs\<rparr>) w
      | None \<Rightarrow>
          if under_api (r_Segs r) \<and> list_ex (\<lambda>pm. match_method pm (r_Method r)) api_methods
          then requireAuth (auth_mux other) False sv ob r w
          else if length (r_Segs r) > 1 \<and> hd (r_Segs r) = ''fn'' then handleFunctionInvoke sv ob r w
          else if length (r_Segs r) > 1 \<and> hd (r_Segs r) = ''s3'' then handleS3Proxy sv ob r w
          else other ''dashboardHandler'' sv ob r w)"

text \<open>The handler \<^verbatim>\<open>Run\<close> installs; logging and recovery from panics are transparent.\<close>

definition api_handler :: "(string \<Rightarrow> ('db, 'rt, 'wa, 'fc) handler) \<Rightarrow> ('db, 'rt, 'wa, 'fc) handler" where
  "api_handler other = cors (leaderRedirect (routes other))"

end
