(* ===== verification/Api_Fixtures.thy ===== *)
theory Api_Fixtures
  imports Api_Routes Fixtures
begin

text \<open>
  A concrete server, request and environment on which the theorems about the API are
  instantiated: the in-memory engine, the stub runtimes, and decoders that return fixed bodies.
\<close>

definition stub_ctl :: "stub ctl_runtime" where
  "stub_ctl = \<lparr>rt_Start = stub_Start int, rt_alive = None, rt_Stop = (\<lambda>c s. (stub_Stop 0 c s, None)),
     rt_Remove = (\<lambda>c s. (stub_Remove c s, None)), rt_Logs = (\<lambda>c s. (stub_Logs c s, None))\<rparr>"

definition demo_server :: "(memdb, stub, fn_stub, fn_stub) server" where
  "demo_server = \<lparr>sv_B = mem_bolt, sv_H = id_hash, sv_kdf = id_kdf, sv_hmac = (\<lambda>k m. m),
     sv_gseal = (\<lambda>k n p. p), sv_gopen = (\<lambda>k n c. Some c), sv_raft = True, sv_secrets = None,
     sv_containers = stub_ctl, sv_wasm = Some (wasm_stub id 0), sv_fcracker = None, sv_templates = None,
     sv_scheduler = None, sv_garageAdm = None, sv_builder = None, sv_S3Addr = None, sv_version = ''dev''\<rparr>"

definition demo_world :: "memdb store \<Rightarrow> (memdb, stub, fn_stub, fn_stub) world" where
  "demo_world s = \<lparr>wd_store = s, wd_rt = NewStub, wd_wasm = [], wd_fc = [], wd_bus = Some bus_New,
     wd_blobs = Some [], wd_invocations = Some (newInvocationRing 100), wd_garage = [], wd_ready = None\<rparr>"

definition demo_init :: initialize_req where
  "demo_init = \<lparr>in_BootstrapToken = ''sct_72'', in_AdminEmail = ''a@x'', in_AdminName = ''adm'',
     in_AdminPassword = ''pw'', in_MultiNode = False\<rparr>"

definition demo_join :: join_req where
  "demo_join = \<lparr>jr_Token = ''scjoin_6162636465666768696a'', jr_NodeID = ''n2'', jr_AdvertiseAddr = ''10.0.0.2'',
     jr_RaftAddr = ''10.0.0.2:7000'', jr_APIAddr = ''10.0.0.2:8443'', jr_Roles = [], jr_CapacityGB = 10\<rparr>"

definition demo_json :: json_in where
  "demo_json = \<lparr>ji_initialize = (\<lambda>_. Inr demo_init), ji_login = (\<lambda>_. Inl (Err ''bad'')),
     ji_createToken = (\<lambda>_. Inl (Err ''bad'')), ji_project = (\<lambda>_. Inl (Err ''bad'')),
     ji_container = (\<lambda>_. Inr (demo_container ''p'' ''web'')), ji_bucket = (\<lambda>_. Inl (Err ''bad'')),
     ji_accessKey = (\<lambda>_. Inl (Err ''bad'')), ji_function = (\<lambda>_. Inl (Err ''bad'')),
     ji_cluster = (\<lambda>_. Inl (Err ''bad'')), ji_join = (\<lambda>_. Inr demo_join),
     ji_putSecret = (\<lambda>_. Inl (Err ''bad'')), ji_eventRule = (\<lambda>_. Inl (Err ''bad'')),
     ji_issueJoin = (\<lambda>_. []), ji_push = (\<lambda>_. ([], []))\<rparr>"

definition demo_obs :: obs where
  "demo_obs = \<lparr>ob_clk = demo_clk 50, ob_uid = (\<lambda>i. ''uid'' @ Itoa (int i)), ob_rnd = (\<lambda>i. Inr (''rnd'' @ Itoa (int i))),
     ob_env = \<lparr>re_present = False, re_servers = Inr [], re_leader = False, re_leader2 = False, re_future = None, re_applied = False\<rparr>,
     ob_IsLeader = False, ob_LeaderAddr = ''10.0.0.1:7000'', ob_AddVoter = (\<lambda>_ _. None), ob_json = demo_json,
     ob_garage = \<lparr>gh_newreq = (\<lambda>_ _. None), gh_Do = (\<lambda>_ _. Inl (Err ''down'')), gh_id = (\<lambda>_. Inr []), gh_key = (\<lambda>_. Inr ([], []))\<rparr>,
     ob_blobWrite = None, ob_ParseDuration = (\<lambda>_. Inr 0), ob_Atoi = (\<lambda>_. Inr 0), ob_urlParse = (\<lambda>x. Inr x),
     ob_proxy = (\<lambda>_. Inl (Err ''down''))\<rparr>"

definition demo_request :: "string \<Rightarrow> string list \<Rightarrow> string \<Rightarrow> request" where
  "demo_request m segs tok = \<lparr>r_Method = m, r_Path = CHR ''/'' # Join segs ''/'', r_Segs = segs, r_RequestURI = CHR ''/'' # Join segs ''/'',
     r_Host = ''h'', r_Header = [(''authorization'', ''Bearer '' @ tok)], r_Query = [], r_PathValue = [],
     r_Body = Some ([], None), r_Identity = None\<rparr>"

definition with_plain_token :: "memdb store" where
  "with_plain_token = fst (CreateToken mem_bolt id_hash (Inr ''k'') ''u'' (demo_clk 10) ''dev'' ''eve'' 0 False fresh_store)"

definition with_bootstrap :: "memdb store" where
  "with_bootstrap = fst (CreateBootstrapToken mem_bolt id_hash (Inr ''r'') 5 fresh_store)"

end
