(* ===== verification/Api_Props.thy ===== *)
theory Api_Props
  imports Api_Routes Api_Fixtures
begin

text \<open>
  Properties of the HTTP API: who is served, which writes a follower performs, the first-run
  wizard, joining nodes, what responses disclose, and what a function sees when it is invoked.
\<close>

section \<open>Frames\<close>

text \<open>
  Two stores agree off a set of buckets. Every operation of the store changes one bucket, so
  the relation carries what was known of the others through a sequence of operations.
\<close>

definition same_off :: "'db bolt \<Rightarrow> string set \<Rightarrow> 'db store \<Rightarrow> 'db store \<Rightarrow> bool" where
  "same_off B bs s t \<longleftrightarrow> has_bucket B t = has_bucket B s \<and> (\<forall>b. b \<notin> bs \<longrightarrow> entries B t b = entries B s b)"

lemma same_off_refl [simp]: "same_off B bs s s"
  by (simp add: same_off_def)

lemma same_off_trans: "same_off B bs s t \<Longrightarrow> same_off B cs t u \<Longrightarrow> same_off B (bs \<union> cs) s u"
  by (simp add: same_off_def)

lemma same_off_mono: "same_off B bs s t \<Longrightarrow> bs \<subseteq> cs \<Longrightarrow> same_off B cs s t"
  by (auto simp: same_off_def)

lemma store_get_same_off:
  "same_off B bs s t \<Longrightarrow> b \<notin> bs \<Longrightarrow> store_get B dec b k t = store_get B dec b k s"
  by (auto simp: same_off_def store_get_def entries_def has_bucket_def fun_eq_iff)

lemma GetCluster_same_off: "same_off B bs s t \<Longrightarrow> ''cluster'' \<notin> bs \<Longrightarrow> GetCluster B t = GetCluster B s"
  by (simp add: GetCluster_def store_get_same_off)

lemma stored_tokens_same_off:
  "same_off B bs s t \<Longrightarrow> ''tokens'' \<notin> bs \<Longrightarrow> stored_tokens B t = stored_tokens B s"
  by (simp add: stored_tokens_def same_off_def)

lemma putScoped_same_off:
  assumes "scoped_table B T bkt" "putScoped B T bkt kind uid t0 t1 v s = (v', s', r)"
  shows "same_off B {bkt} s s'"
proof (cases r)
  case None
  then show ?thesis
    using assms(2) scoped_table.entries_putScoped [OF assms(1)] scoped_table.has_bucket_putScoped [OF assms(1)]
    by (fastforce simp: same_off_def fun_eq_iff)
qed (use assms(2) putScoped_Some in \<open>metis same_off_refl\<close>)

lemma store_put_same_off:
  assumes "bolt_engine B" "store_put B b k d s = (s', r)"
  shows "same_off B {b} s s'"
proof (cases r)
  case None
  note kv = bolt_engine.axioms_kv [OF assms(1)]
  show ?thesis
    using None assms(2) kv_store.lookup_kput [OF kv] kv_store.kput_has [OF kv]
    by (auto simp: same_off_def fun_eq_iff)
qed (use assms(2) store_put_Some in \<open>metis same_off_refl\<close>)

lemma same_off_emit [simp]: "same_off B bs s (emit ev t) = same_off B bs s t"
  by (simp add: same_off_def)

lemma PutCluster_same_off:
  "bolt_engine B \<Longrightarrow> PutCluster B now c s = (c', s', r) \<Longrightarrow> same_off B {''cluster''} s s'"
  using store_put_same_off [of B "''cluster''" "''config''"]
  by (auto simp: PutCluster_def Let_def split: prod.splits option.splits)

lemma PutProject_same_off:
  "bolt_engine B \<Longrightarrow> PutProject B uid t0 t1 p s = (p', s', r) \<Longrightarrow> same_off B {''projects''} s s'"
  using store_put_same_off [of B "''projects''"]
  by (auto simp: PutProject_def Let_def split: prod.splits option.splits if_splits)

lemma PutNode_same_off:
  "bolt_engine B \<Longrightarrow> PutNode B uid t0 t1 n s = (n', s', r) \<Longrightarrow> same_off B {''nodes''} s s'"
  unfolding PutNode_def by (rule putScoped_same_off [OF tables(5)])

lemma CreateUser_same_off:
  assumes "bolt_engine B" "CreateUser B kdf rnd uid t0 t1 name email password admin s = (s', r)"
  shows "same_off B {''users''} s s'"
  using assms(2) putScoped_same_off [OF tables(6) [OF assms(1)]]
  by (fastforce simp: CreateUser_def PutUser_def split: sum.splits prod.splits option.splits)

lemma PutToken_same_off:
  assumes "bolt_engine B" "PutToken B uid t0 t1 t s = (t', s', r)"
  shows "same_off B {''tokens''} s s'"
  using assms(2) putScoped_same_off [OF tables(7) [OF assms(1)]]
  by (fastforce simp: PutToken_def Let_def split: prod.splits option.splits)

lemma CreateToken_same_off:
  assumes "bolt_engine B" "CreateToken B H rnd uid clk name userID ttl admin s = (s', r)"
  shows "same_off B {''tokens''} s s'"
  using assms(2) PutToken_same_off [OF assms(1)]
  by (fastforce simp: CreateToken_def Let_def split: sum.splits prod.splits option.splits if_splits)

lemma ensureDefaultProject_same_off:
  "bolt_engine B \<Longrightarrow> ensureDefaultProject B uid t0 t1 s = (s', r) \<Longrightarrow> same_off B {''projects''} s s'"
  by (auto simp: ensureDefaultProject_def split: sum.splits prod.splits dest: PutProject_same_off)

lemma GetTokenByHash_same_off:
  assumes "bolt_engine B" "same_off B bs s t" "''tokens'' \<notin> bs" "has_bucket B s ''tokens''"
  shows "GetTokenByHash B h t = GetTokenByHash B h s"
proof -
  have "store_list B ''tokens'' [] t = store_list B ''tokens'' [] s"
    using assms by (intro bolt_engine.store_list_cong [OF assms(1)]) (auto simp: same_off_def)
  then show ?thesis by (simp add: GetTokenByHash_def)
qed

section \<open>Authentication of requests\<close>

lemma match_method_iff:
  "match_method pm m \<longleftrightarrow> m = pm \<or> pm = ''GET'' \<and> m = ''HEAD''"
  by (auto simp: match_method_def)

definition public_api :: "(string \<times> string list) list" where
  "public_api = [(''GET'', [''meta'']), (''HEAD'', [''meta'']), (''POST'', [''setup'', ''initialize'']),
     (''GET'', [''setup'', ''status'']), (''HEAD'', [''setup'', ''status'']),
     (''POST'', [''cluster'', ''join'']), (''POST'', [''auth'', ''login''])]"

lemma match_segs_Nil: "match_segs [] xs = (if xs = [] then Some [] else None)"
  by (cases xs) auto

lemma match_segs_Lit:
  "match_segs (Lit a # ps) xs = (case xs of [] \<Rightarrow> None | x # ys \<Rightarrow> if a = x then match_segs ps ys else None)"
  by (cases xs) auto

lemma match_Lits:
  "match_segs [Lit a] xs = (if xs = [a] then Some [] else None)"
  "match_segs [Lit a, Lit b] xs = (if xs = [a, b] then Some [] else None)"
  by (auto simp: match_segs_Nil match_segs_Lit split: list.splits)

lemma map_filter_Nil: "List.map_filter f xs = [] \<longleftrightarrow> (\<forall>x \<in> set xs. f x = None)"
  by (induction xs) (auto simp: List.map_filter_simps split: option.splits)

lemma find_route_None:
  "find_route rs m segs = None \<longleftrightarrow> (\<forall>(pm, pat, h) \<in> set rs. match_method pm m \<longrightarrow> match_segs pat segs = None)"
proof -
  have "find_route rs m segs = None \<longleftrightarrow> (\<forall>x \<in> set rs. (case x of (pm, pat, h) \<Rightarrow>
      if match_method pm m then map_option (\<lambda>vs. (vs, h)) (match_segs pat segs) else None) = None)"
    unfolding find_route_def map_filter_Nil [symmetric] by (simp split: list.splits)
  then show ?thesis by (auto split: if_splits)
qed

lemma public_route_api:
  assumes "(m, rest) \<notin> set public_api"
  shows "find_route (public_routes other) m (''api'' # ''v1'' # rest) = None"
  using assms by (simp add: find_route_None public_routes_def public_api_def match_method_iff match_Lits)

lemma routes_api:
  assumes "r_Segs r = ''api'' # ''v1'' # rest" "rest \<noteq> []" "(r_Method r, rest) \<notin> set public_api"
    and "r_Method r \<in> {''GET'', ''HEAD'', ''POST'', ''PUT'', ''DELETE'', ''PATCH''}"
  shows "routes other sv ob r w = requireAuth (auth_mux other) False sv ob r w"
proof -
  have "under_api (r_Segs r)" "list_ex (\<lambda>pm. match_method pm (r_Method r)) api_methods"
    using assms by (auto simp: under_api_def api_methods_def match_method_iff neq_Nil_conv)
  then show ?thesis
    using public_route_api [OF assms(3), of other] assms(1) by (simp add: routes_def)
qed

lemma bearer_token_cases:
  "bearer_token r = (if HasPrefix (ToLower (get0 (r_Header r) ''authorization'')) ''bearer ''
      then TrimSpace (drop 7 (get0 (r_Header r) ''authorization'')) else get0 (r_Query r) ''access_token'')"
  by (simp add: bearer_token_def Let_def)


lemma routes_authenticated:
  assumes "r_Segs r = ''api'' # ''v1'' # rest" "rest \<noteq> []" "(r_Method r, rest) \<notin> set public_api"
    and "r_Method r \<in> {''GET'', ''HEAD'', ''POST'', ''PUT'', ''DELETE'', ''PATCH''}"
    and "bearer_token r \<noteq> []"
    and "ResolveToken (sv_B sv) (sv_H sv) (ob_clk ob 20) (bearer_token r) (wd_store w) = Inr i"
    and "find_route (auth_routes other) (r_Method r) (r_Segs r) = Some (vs, h)"
  shows "routes other sv ob r w = h sv ob (r\<lparr>r_Identity := Some i, r_PathValue := vs\<rparr>) w"
  using routes_api [OF assms(1-4), of other sv ob w] assms(5-7)
  by (simp add: requireAuth_def withIdentity_def auth_mux_def)

section \<open>Administrators\<close>

lemma admin_routes:
  "find_route (auth_routes other) ''PUT'' [''api'', ''v1'', ''cluster''] = Some ([], handlePutCluster)"
  "find_route (auth_routes other) ''POST'' [''api'', ''v1'', ''cluster'', ''join-tokens''] = Some ([], handleIssueJoinToken)"
  "p \<noteq> [] \<Longrightarrow> n \<noteq> [] \<Longrightarrow>
   find_route (auth_routes other) ''POST'' [''api'', ''v1'', ''projects'', p, ''secrets'', n, ''reveal''] =
     Some ([(''project'', p), (''name'', n)], handleRevealSecret)"
  "n \<noteq> [] \<Longrightarrow> find_route (auth_routes other) ''DELETE'' [''api'', ''v1'', ''auth'', ''tokens'', n] =
     Some ([(''name'', n)], handleDeleteToken)"
  "find_route (auth_routes other) ''POST'' [''api'', ''v1'', ''auth'', ''tokens''] = Some ([], handleCreateToken)"
  "p \<noteq> [] \<Longrightarrow> n \<noteq> [] \<Longrightarrow>
   find_route (auth_routes other) ''POST'' [''api'', ''v1'', ''projects'', p, ''event-rules'', n, ''test''] =
     Some ([(''project'', p), (''name'', n)], handleTestRule)"
  "find_route (auth_routes other) ''GET'' [''api'', ''v1'', ''cluster'', ''join-tokens''] = Some ([], handleListJoinTokens)"
  by (simp_all add: find_route_def auth_routes_def api_project_def Let_def List.map_filter_simps match_method_def)

lemma not_forbidden: "w_Status (mapStoreErr e) \<noteq> 403" "w_Status (httpError k m) = k" "w_Status (writeJSON k j) = k" "w_Status noContent \<noteq> 403"
  by (simp_all add: mapStoreErr_def httpError_def writeJSON_def noContent_def)


text \<open>Deleting a token removes it, whoever asks.\<close>

lemma delete_token_not_admin_only:
  assumes "r_Segs r = [''api'', ''v1'', ''auth'', ''tokens'', n]" "n \<noteq> []" "r_Method r = ''DELETE''" "bearer_token r \<noteq> []"
    and "ResolveToken (sv_B sv) (sv_H sv) (ob_clk ob 20) (bearer_token r) (wd_store w) = Inr i"
  shows "routes other sv ob r w = deleted w (DeleteToken (sv_B sv) n (wd_store w))"
  using routes_authenticated [of r "[''auth'', ''tokens'', n]" sv ob w i other "[(''name'', n)]" handleDeleteToken] assms
  by (simp add: public_api_def admin_routes handleDeleteToken_def get0_def)

section \<open>Followers\<close>

text \<open>
  The exemption, spelled out: a path is handled locally if it is outside \<^verbatim>\<open>/api/\<close> or starts with one
  of five prefixes.
\<close>

lemma exempt_iff:
  "exempt path \<longleftrightarrow> \<not> HasPrefix path ''/api/'' \<or> HasPrefix path ''/api/v1/meta'' \<or> HasPrefix path ''/api/v1/setup/'' \<or>
     HasPrefix path ''/api/v1/auth/login'' \<or> HasPrefix path ''/api/v1/cluster/join''"
proof -
  have "\<not> HasPrefix path ''/api/''" if "HasPrefix path p" "p \<in> {''/healthz'', ''/readyz'', ''/fn/'', ''/webhooks/'', ''/s3/'', ''/assets''}" for p
  proof
    assume "HasPrefix path ''/api/''"
    then have "take 3 (take (length ''/api/'') path) = take 3 ''/api/''" by (simp only: HasPrefix_def)
    then have "take 3 path = ''/ap''" by (simp add: numeral_eq_Suc)
    moreover have "take 3 (take (length p) path) = take 3 p" using that(1) by (simp only: HasPrefix_def)
    ultimately show False using that(2) by (auto simp: numeral_eq_Suc)
  qed
  moreover have "\<not> HasPrefix ''/'' ''/api/''" by (simp add: HasPrefix_def)
  ultimately show ?thesis by (auto simp: exempt_def)
qed

text \<open>Of the authenticated routes that write, only the one that issues a join token is exempt.\<close>

definition api_path :: "string list \<Rightarrow> string" where
  "api_path segs = ''/'' @ Join segs ''/''"

lemma write_routes:
  assumes "(m, pat, h) \<in> set (auth_routes other)" "m \<noteq> ''GET''"
  obtains (projects) ps where "pat = Lit ''api'' # Lit ''v1'' # Lit ''projects'' # ps"
    | (tokens) "pat = [Lit ''api'', Lit ''v1'', Lit ''auth'', Lit ''tokens'']"
    | (token) "pat = [Lit ''api'', Lit ''v1'', Lit ''auth'', Lit ''tokens'', Wild ''name'']"
    | (join) "pat = [Lit ''api'', Lit ''v1'', Lit ''cluster'', Lit ''join-tokens'']"
    | (cluster) "pat = [Lit ''api'', Lit ''v1'', Lit ''cluster'']"
proof -
  have "(\<exists>ps. pat = Lit ''api'' # Lit ''v1'' # Lit ''projects'' # ps) \<or>
    pat = [Lit ''api'', Lit ''v1'', Lit ''auth'', Lit ''tokens''] \<or> pat = [Lit ''api'', Lit ''v1'', Lit ''auth'', Lit ''tokens'', Wild ''name''] \<or>
    pat = [Lit ''api'', Lit ''v1'', Lit ''cluster'', Lit ''join-tokens''] \<or> pat = [Lit ''api'', Lit ''v1'', Lit ''cluster'']"
    using assms unfolding auth_routes_def Let_def list.set insert_iff empty_iff Pair_inject
    by (elim disjE conjE) (simp_all add: api_project_def)
  then show thesis by (elim disjE exE) (fact projects tokens token join cluster)+
qed

lemma match_segs_Wild:
  "match_segs (Wild v # ps) xs = (case xs of [] \<Rightarrow> None | x # ys \<Rightarrow> if x = [] then None else map_option (Cons (v, x)) (match_segs ps ys))"
  by (cases xs) auto

lemma exempt_writes:
  assumes "(m, pat, h) \<in> set (auth_routes other)" "m \<noteq> ''GET''" "match_segs pat segs \<noteq> None"
  shows "exempt (api_path segs) \<longleftrightarrow> pat = [Lit ''api'', Lit ''v1'', Lit ''cluster'', Lit ''join-tokens'']"
proof -
  have e: "\<not> exempt (''/api/v1/projects'' @ t)" "\<not> exempt (''/api/v1/auth/tokens'' @ t)" "\<not> exempt ''/api/v1/cluster''"
    "exempt ''/api/v1/cluster/join-tokens''" for t
    by (simp_all add: exempt_iff HasPrefix_def)
  show ?thesis
    using assms(1,2)
  proof (cases rule: write_routes)
    case projects
    then obtain ys where "segs = ''api'' # ''v1'' # ''projects'' # ys" using assms(3) by (auto simp: match_segs_Lit split: list.splits if_splits)
    moreover obtain t where "Join (''projects'' # ys) ''/'' = ''projects'' @ t" by (cases ys) auto
    ultimately have "api_path segs = ''/api/v1/projects'' @ t" by (simp add: api_path_def)
    then show ?thesis using e(1) projects by simp
  next
    case tokens
    then have "segs = [''api'', ''v1'', ''auth'', ''tokens'']" using assms(3) by (auto simp: match_segs_Lit match_segs_Nil split: list.splits if_splits)
    then show ?thesis using e(2) [of "[]"] tokens by (simp add: api_path_def)
  next
    case token
    then obtain n where "segs = [''api'', ''v1'', ''auth'', ''tokens'', n]"
      using assms(3) by (auto simp: match_segs_Lit match_segs_Wild match_segs_Nil split: list.splits if_splits)
    then show ?thesis using e(2) [of "''/'' @ n"] token by (simp add: api_path_def)
  next
    case join
    then have "segs = [''api'', ''v1'', ''cluster'', ''join-tokens'']" using assms(3) by (auto simp: match_segs_Lit match_segs_Nil split: list.splits if_splits)
    then show ?thesis using e(4) join by (simp add: api_path_def)
  next
    case cluster
    then have "segs = [''api'', ''v1'', ''cluster'']" using assms(3) by (auto simp: match_segs_Lit match_segs_Nil split: list.splits if_splits)
    then show ?thesis using e(3) cluster by (simp add: api_path_def)
  qed
qed

text \<open>
  C12. A follower performs no write of the API itself, with the exceptions listed. A request that is no read and whose
  path is under \<^verbatim>\<open>/api/\<close>, but not the version, the wizard, login or joining (as prefixes), changes nothing on it; it is
  redirected, with 307, to the same URI at the API
  address of the first listed node that has the leader's Raft address, and answered with 503
  when there is no leader or no such node. On the leader, for reads, for any other path, and without Raft the
  request is dispatched locally, where the wizard, login and joining do write. Of the authenticated routes that
  write, all are redirected but one: the prefix for joining also covers issuing a join token.
\<close>

theorem follower_redirects:
  assumes "leaderAPIAddr (sv_B sv) (ob_LeaderAddr ob) (wd_store w) = addr"
    and "local = (\<not> HasPrefix (r_Path r) ''/api/'' \<or> HasPrefix (r_Path r) ''/api/v1/meta'' \<or> HasPrefix (r_Path r) ''/api/v1/setup/'' \<or>
      HasPrefix (r_Path r) ''/api/v1/auth/login'' \<or> HasPrefix (r_Path r) ''/api/v1/cluster/join'')"
  shows "(sv_raft sv \<and> \<not> ob_IsLeader ob \<and> r_Method r \<notin> {''GET'', ''HEAD'', ''OPTIONS''} \<and> \<not> local \<longrightarrow>
      leaderRedirect h sv ob r w = (w,
        if ob_LeaderAddr ob = [] then httpError 503 ''no raft leader yet''
        else if addr = [] then httpError 503 ''leader api address unknown''
        else redirect (''https://'' @ addr @ r_RequestURI r)) \<and>
      (addr \<noteq> [] \<longrightarrow> (\<exists>xs n ys. ListNodes (sv_B sv) (wd_store w) = Inr (xs @ n # ys) \<and>
         n_RaftAddress n = ob_LeaderAddr ob \<and> n_APIAddress n = addr \<and>
         (\<forall>x \<in> set xs. n_RaftAddress x \<noteq> ob_LeaderAddr ob \<or> n_APIAddress x = [])))) \<and>
    (\<not> sv_raft sv \<or> ob_IsLeader ob \<or> r_Method r \<in> {''GET'', ''HEAD'', ''OPTIONS''} \<or> local \<longrightarrow>
      leaderRedirect h sv ob r w = h sv ob r w) \<and>
    ((m, pat, k) \<in> set (auth_routes other) \<and> m \<noteq> ''GET'' \<and> match_segs pat (r_Segs r) \<noteq> None \<and>
      r_Path r = ''/'' @ Join (r_Segs r) ''/'' \<longrightarrow> local = (pat = [Lit ''api'', Lit ''v1'', Lit ''cluster'', Lit ''join-tokens'']))"
proof -
  have f: "\<exists>xs n ys. ListNodes (sv_B sv) (wd_store w) = Inr (xs @ n # ys) \<and>
         n_RaftAddress n = ob_LeaderAddr ob \<and> n_APIAddress n = addr \<and>
         (\<forall>x \<in> set xs. n_RaftAddress x \<noteq> ob_LeaderAddr ob \<or> n_APIAddress x = [])" if ne: "addr \<noteq> []"
  proof -
    obtain ns n where n: "ListNodes (sv_B sv) (wd_store w) = Inr ns" "n_APIAddress n = addr"
      "find (\<lambda>n. n_RaftAddress n = ob_LeaderAddr ob \<and> n_APIAddress n \<noteq> []) ns = Some n"
      using assms ne by (auto simp: leaderAPIAddr_def split: sum.splits option.splits)
    then obtain k where k: "k < length ns" "n_RaftAddress (ns ! k) = ob_LeaderAddr ob" "n = ns ! k"
      "\<forall>j < k. n_RaftAddress (ns ! j) \<noteq> ob_LeaderAddr ob \<or> n_APIAddress (ns ! j) = []"
      by (auto simp: find_Some_iff)
    then show ?thesis
      using n(1,2) id_take_nth_drop [OF k(1)]
      by (intro exI [of _ "take k ns"] exI [of _ n] exI [of _ "drop (Suc k) ns"]) (auto simp: in_set_conv_nth)
  qed
  have x: "exempt (r_Path r) = local" by (simp add: exempt_iff assms(2))
  have y: "local = (pat = [Lit ''api'', Lit ''v1'', Lit ''cluster'', Lit ''join-tokens''])"
    if "(m, pat, k) \<in> set (auth_routes other)" "m \<noteq> ''GET''" "match_segs pat (r_Segs r) \<noteq> None" "r_Path r = ''/'' @ Join (r_Segs r) ''/''"
    using exempt_writes [OF that(1-3)] x that(4) by (simp add: api_path_def)
  show ?thesis using f assms(1) y unfolding leaderRedirect_def x Let_def by auto
qed

text \<open>
  The exemption for joining is a prefix test and also covers the path of the join tokens: a
  follower issues a join token into its own, unreplicated configuration.
\<close>

lemma join_tokens_exempt: "exempt ''/api/v1/cluster/join-tokens''"
  by code_simp

section \<open>The first-run wizard\<close>

lemma Verify_cong:
  "GetCluster B t = GetCluster B s \<Longrightarrow> VerifyBootstrapToken B H q t = VerifyBootstrapToken B H q s"
  by (simp add: VerifyBootstrapToken_def)

text \<open>The steps up to the configuration leave the configuration alone.\<close>

lemma prepare_same_off:
  assumes "bolt_engine (sv_B sv)" "initialize_prepare sv ob body s = (s3, r)"
  shows "same_off (sv_B sv) {''users'', ''tokens'', ''projects''} s s3"
proof -
  obtain s1 ru where u: "CreateUser (sv_B sv) (sv_kdf sv) (ob_rnd ob 0) (ob_uid ob 0) (ob_clk ob 0) (ob_clk ob 1)
             (in_AdminName body) (in_AdminEmail body) (in_AdminPassword body) True s = (s1, ru)" by fastforce
  have 1: "same_off (sv_B sv) {''users'', ''tokens'', ''projects''} s s1"
    using CreateUser_same_off [OF assms(1) u] by (rule same_off_mono) simp
  show ?thesis
  proof (cases ru)
    case (Inr usr)
    obtain s2 rt where t: "CreateToken (sv_B sv) (sv_H sv) (ob_rnd ob 1) (ob_uid ob 1) (\<lambda>i. ob_clk ob (2 + i))
             ''admin-initial'' (m_Name (u_Meta usr)) 0 True s1 = (s2, rt)" by fastforce
    have 2: "same_off (sv_B sv) {''users'', ''tokens'', ''projects''} s s2"
      using same_off_trans [OF 1 CreateToken_same_off [OF assms(1) t]] by (rule same_off_mono) simp
    obtain s4 rp where p: "ensureDefaultProject (sv_B sv) (ob_uid ob 2) (ob_clk ob 5) (ob_clk ob 6) s2 = (s4, rp)" by fastforce
    have 3: "same_off (sv_B sv) {''users'', ''tokens'', ''projects''} s s4"
      using same_off_trans [OF 2 ensureDefaultProject_same_off [OF assms(1) p]] by (rule same_off_mono) simp
    show ?thesis
      using assms(2) u Inr t p 2 3
      by (cases rt; cases rp) (simp_all add: initialize_prepare_def)
  qed (use assms(2) u 1 in \<open>simp add: initialize_prepare_def\<close>)
qed

lemma Consume_bootstrap_Some:
  "bolt_engine B \<Longrightarrow> ConsumeBootstrapToken B H now p s = (s', Some e) \<Longrightarrow> s' = s"
  by (auto simp: ConsumeBootstrapToken_def split: sum.splits prod.splits if_splits dest: bolt_engine.PutCluster_error)

lemma conclude_fails:
  assumes "bolt_engine (sv_B sv)" "initialize_conclude sv ob body s3 = (s5, Some e)"
  shows "VerifyBootstrapToken (sv_B sv) H q s5 = VerifyBootstrapToken (sv_B sv) H q s3"
proof (cases "GetCluster (sv_B sv) s3")
  case (Inr cfg)
  let ?c = "let cfg = cfg\<lparr>cc_MultiNode := in_MultiNode body\<rparr> in
      if cc_ReplicationFactor cfg = 0 then cfg\<lparr>cc_ReplicationFactor := 1\<rparr> else cfg"
  obtain c4 s4 r where p: "PutCluster (sv_B sv) (ob_clk ob 7) ?c s3 = (c4, s4, r)" by (metis prod_cases3)
  show ?thesis
  proof (cases r)
    case None
    note g = bolt_engine.GetCluster_after_Put [OF assms(1) p [unfolded None]]
    have "cc_BootstrapToken c4 = cc_BootstrapToken cfg" by (subst g(2)) (simp add: Let_def)
    moreover have "s5 = s4"
      using assms(2) Inr p None Consume_bootstrap_Some [OF assms(1)] by (auto simp: initialize_conclude_def Let_def)
    ultimately show ?thesis using Inr g(1) by (simp add: VerifyBootstrapToken_def)
  next
    case (Some e')
    then show ?thesis
      using assms(2) Inr p bolt_engine.PutCluster_error [OF assms(1) p [unfolded Some]] by (simp add: initialize_conclude_def Let_def)
  qed
qed (use assms(2) in \<open>simp add: initialize_conclude_def\<close>)

lemma conclude_done:
  assumes "bolt_engine (sv_B sv)" "initialize_conclude sv ob body s3 = (s5, None)"
  obtains cfg where "GetCluster (sv_B sv) s5 = Inr cfg" "cc_Initialized cfg" "cc_BootstrapToken cfg = []"
    "cc_MultiNode cfg = in_MultiNode body" "same_off (sv_B sv) {''cluster''} s3 s5"
proof -
  obtain cfg where cfg: "GetCluster (sv_B sv) s3 = Inr cfg"
    using assms(2) by (auto simp: initialize_conclude_def split: sum.splits)
  let ?c = "let cfg = cfg\<lparr>cc_MultiNode := in_MultiNode body\<rparr> in
      if cc_ReplicationFactor cfg = 0 then cfg\<lparr>cc_ReplicationFactor := 1\<rparr> else cfg"
  obtain c4 s4 where p: "PutCluster (sv_B sv) (ob_clk ob 7) ?c s3 = (c4, s4, None)"
    and c: "ConsumeBootstrapToken (sv_B sv) (sv_H sv) (ob_clk ob 8) (in_BootstrapToken body) s4 = (s5, None)"
    using assms(2) cfg by (auto simp: initialize_conclude_def Let_def split: prod.splits option.splits)
  note g = bolt_engine.GetCluster_after_Put [OF assms(1) p]
  have m: "cc_MultiNode c4 = in_MultiNode body" by (subst g(2)) (simp add: Let_def)
  obtain c5 where p5: "PutCluster (sv_B sv) (ob_clk ob 8) (c4\<lparr>cc_BootstrapToken := [], cc_Initialized := True\<rparr>) s4 = (c5, s5, None)"
    using c g(1) by (auto simp: ConsumeBootstrapToken_def split: prod.splits if_splits)
  note g5 = bolt_engine.GetCluster_after_Put [OF assms(1) p5]
  have "cc_Initialized c5" "cc_BootstrapToken c5 = []" "cc_MultiNode c5 = in_MultiNode body"
    using m by (subst g5(2), simp)+
  moreover have "same_off (sv_B sv) {''cluster''} s3 s5"
    using same_off_trans [OF PutCluster_same_off [OF assms(1) p] PutCluster_same_off [OF assms(1) p5]] by simp
  ultimately show ?thesis using that g5(1) by blast
qed

lemma PutToken_plaintext: "PutToken B uid t0 t1 t s = (t', s', r) \<Longrightarrow> t_Plaintext t' = t_Plaintext t"
  by (auto simp: PutToken_def setProject_def tokenT_def Let_def split: prod.splits option.splits if_splits)

lemma CreateToken_plain:
  "CreateToken B H rnd uid clk name userID ttl admin s = (s', Inr tok) \<Longrightarrow> GenerateToken rnd = Inr (t_Plaintext tok)"
  by (auto simp: CreateToken_def Let_def split: sum.splits prod.splits option.splits if_splits dest: PutToken_plaintext)

lemma prepare_token:
  assumes "bolt_engine (sv_B sv)" "initialize_prepare sv ob body s = (s3, Inr (u, tok))"
    and "\<forall>plain. GenerateToken (ob_rnd ob 1) = Inr plain \<longrightarrow>
           (\<forall>t \<in> stored_tokens (sv_B sv) s. t_HashHex t \<noteq> HashToken (sv_H sv) plain)"
    and "same_off (sv_B sv) {''cluster''} s3 s5"
  shows "u_PasswordHash u = [] \<and> ResolveToken (sv_B sv) (sv_H sv) now (t_Plaintext tok) s5 =
    Inr \<lparr>id_UserID = m_Name (u_Meta u), id_Email = [], id_IsAdmin = True, id_Token = ''admin-initial''\<rparr>"
proof -
  obtain s1 s2 where u: "CreateUser (sv_B sv) (sv_kdf sv) (ob_rnd ob 0) (ob_uid ob 0) (ob_clk ob 0) (ob_clk ob 1)
             (in_AdminName body) (in_AdminEmail body) (in_AdminPassword body) True s = (s1, Inr u)"
    and t: "CreateToken (sv_B sv) (sv_H sv) (ob_rnd ob 1) (ob_uid ob 1) (\<lambda>i. ob_clk ob (2 + i))
             ''admin-initial'' (m_Name (u_Meta u)) 0 True s1 = (s2, Inr tok)"
    and d: "ensureDefaultProject (sv_B sv) (ob_uid ob 2) (ob_clk ob 5) (ob_clk ob 6) s2 = (s3, None)"
    using assms(2) by (auto simp: initialize_prepare_def split: prod.splits sum.splits option.splits)
  obtain t0 where p: "PutToken (sv_B sv) (ob_uid ob 1) (ob_clk ob 3) (ob_clk ob 4) t0 s1 = (tok, s2, None)"
      "m_Project (t_Meta t0) = ''system''" "m_Name (t_Meta t0) = ''admin-initial''" "t_UserID t0 = m_Name (u_Meta u)"
      "t_IsAdmin t0" "t_ExpiresAt t0 = 0"
    using CreateToken_put [OF t] by (auto simp: eval_nat_numeral)
  note S = bolt_engine.PutToken_stored [OF assms(1) p(1,2)]
  have plain: "GenerateToken (ob_rnd ob 1) = Inr (t_Plaintext tok)"
    by (rule CreateToken_plain [OF t])
  have "stored_tokens (sv_B sv) s1 = stored_tokens (sv_B sv) s"
    using CreateUser_same_off [OF assms(1) u] by (rule stored_tokens_same_off) simp
  then have L: "GetTokenByHash (sv_B sv) (HashToken (sv_H sv) (t_Plaintext tok)) s2 = Inr (tok\<lparr>t_Plaintext := []\<rparr>)"
    using CreateToken_lookup [OF assms(1) t] assms(3) plain by simp
  have off: "same_off (sv_B sv) ({''projects''} \<union> {''cluster''}) s2 s5"
    by (rule same_off_trans [OF ensureDefaultProject_same_off [OF assms(1) d] assms(4)])
  have "GetTokenByHash (sv_B sv) (HashToken (sv_H sv) (t_Plaintext tok)) s5 = Inr (tok\<lparr>t_Plaintext := []\<rparr>)"
    using GetTokenByHash_same_off [OF assms(1) off _ S(4)] L by simp
  moreover have "u_PasswordHash u = []"
    using u by (auto simp: CreateUser_def split: sum.splits prod.splits option.splits)
  ultimately show ?thesis using S(2) p by (simp add: ResolveToken_def)
qed

text \<open>
  C13. The first-run wizard runs once and can be retried until then. A rejected request (400 or 401)
  changes nothing. A run that fails half-way (500) leaves the bootstrap token as it was, so
  that the same token can be used again. A run that succeeds (201) initializes the cluster,
  clears the bootstrap token and returns the user without the password hash and a token that
  resolves to an administrator; every later request to the wizard is rejected and changes
  nothing. The last hypothesis excludes a stored token with the same SHA-256 hash.
\<close>

theorem initialize_once:
  assumes "bolt_engine (sv_B sv)" "handleInitialize sv ob r w = (w', resp)"
    and "\<forall>plain. GenerateToken (ob_rnd ob 1) = Inr plain \<longrightarrow>
           (\<forall>t \<in> stored_tokens (sv_B sv) (wd_store w). t_HashHex t \<noteq> HashToken (sv_H sv) plain)"
  shows "(w_Status resp \<in> {400, 401} \<and> w' = w) \<or>
    (w_Status resp = 500 \<and> (\<forall>q. VerifyBootstrapToken (sv_B sv) (sv_H sv) q (wd_store w') =
         VerifyBootstrapToken (sv_B sv) (sv_H sv) q (wd_store w))) \<or>
    (w_Status resp = 201 \<and>
      (\<exists>cfg. GetCluster (sv_B sv) (wd_store w') = Inr cfg \<and> cc_Initialized cfg \<and> cc_BootstrapToken cfg = []) \<and>
      (\<exists>u plain. w_Body resp = JSON (JObj [(''user'', JDoc (DUser u)), (''token'', JStr plain)]) \<and> u_PasswordHash u = [] \<and>
         (\<forall>now. ResolveToken (sv_B sv) (sv_H sv) now plain (wd_store w') = Inr \<lparr>id_UserID = m_Name (u_Meta u), id_Email = [],
            id_IsAdmin = True, id_Token = ''admin-initial''\<rparr>)) \<and>
      (\<forall>ob' r'. fst (handleInitialize sv ob' r' w') = w' \<and> w_Status (snd (handleInitialize sv ob' r' w')) \<in> {400, 401}))"
proof (cases "w_Status resp \<in> {400, 401} \<and> w' = w")
  case False
  then obtain body s res where b: "initialize_store sv ob body (wd_store w) = (s, res)"
    and w': "w' = w\<lparr>wd_store := s\<rparr>" and resp: "resp = (case res of Inl e \<Rightarrow> httpError 500 (errorString e)
       | Inr (u, tok) \<Rightarrow> writeJSON 201 (JObj [(''user'', JDoc (DUser u)), (''token'', JStr (t_Plaintext tok))]))"
    using assms(2) by (fastforce simp: handleInitialize_def httpError_def split: sum.splits if_splits prod.splits)
  obtain s3 r3 where p: "initialize_prepare sv ob body (wd_store w) = (s3, r3)" by fastforce
  note off = prepare_same_off [OF assms(1) p]
  have v3: "VerifyBootstrapToken (sv_B sv) H q s3 = VerifyBootstrapToken (sv_B sv) H q (wd_store w)" for H q
    by (rule Verify_cong) (rule GetCluster_same_off [OF off], simp)
  show ?thesis
  proof (cases res)
    case (Inl e)
    then have "VerifyBootstrapToken (sv_B sv) (sv_H sv) q s = VerifyBootstrapToken (sv_B sv) (sv_H sv) q (wd_store w)" for q
      using b p v3 conclude_fails [OF assms(1)]
      by (fastforce simp: initialize_store_def split: sum.splits prod.splits option.splits)
    then show ?thesis using Inl resp w' by (simp add: httpError_def)
  next
    case (Inr ut)
    then obtain u tok where ut: "ut = (u, tok)" "r3 = Inr (u, tok)" and c: "initialize_conclude sv ob body s3 = (s, None)"
      using b p by (cases ut) (auto simp: initialize_store_def split: sum.splits prod.splits option.splits)
    from conclude_done [OF assms(1) c] obtain cfg where cfg: "GetCluster (sv_B sv) s = Inr cfg" "cc_Initialized cfg"
      "cc_BootstrapToken cfg = []" and off3: "same_off (sv_B sv) {''cluster''} s3 s" by metis
    have again: "fst (handleInitialize sv ob' r' w') = w' \<and> w_Status (snd (handleInitialize sv ob' r' w')) \<in> {400, 401}" for ob' r'
      using cfg w' by (auto simp: handleInitialize_def VerifyBootstrapToken_def httpError_def split: sum.splits)
    have "u_PasswordHash u = [] \<and> ResolveToken (sv_B sv) (sv_H sv) now (t_Plaintext tok) s = Inr \<lparr>id_UserID = m_Name (u_Meta u), id_Email = [],
            id_IsAdmin = True, id_Token = ''admin-initial''\<rparr>" for now
      using prepare_token [OF assms(1) p [unfolded ut(2)] assms(3) off3] by blast
    then show ?thesis using cfg again w' resp Inr ut(1) by (auto simp: writeJSON_def)
  qed
qed simp

section \<open>Joining nodes\<close>

lemma spent_same_off: "same_off B bs s t \<Longrightarrow> ''cluster'' \<notin> bs \<Longrightarrow> spent B H plain s \<Longrightarrow> spent B H plain t"
  by (simp add: spent_def GetCluster_same_off)

lemma spent_PutCluster:
  assumes "bolt_engine B" "spent B H plain s" "GetCluster B s = Inr cfg" "PutCluster B now c s = (c', s', r)"
    and "cc_JoinTokens c = cc_JoinTokens cfg"
  shows "spent B H plain s'"
proof (cases r)
  case None
  note g = bolt_engine.GetCluster_after_Put [OF assms(1) assms(4) [unfolded None]]
  have "cc_JoinTokens c' = cc_JoinTokens cfg" using assms(5) by (subst g(2)) simp
  then show ?thesis using assms(2,3) g(1) by (simp add: spent_def)
next
  case (Some e)
  then show ?thesis using assms(2,4) bolt_engine.PutCluster_error [OF assms(1)] by metis
qed

lemma GetNode_after_Put:
  assumes "bolt_engine B" "PutNode B uid t0 t1 n s = (n', s', None)" "m_Project (n_Meta n) = ''system''"
  shows "GetNode B (m_Name (n_Meta n)) s' = Inr n'" "n' = n\<lparr>n_Meta := n_Meta n'\<rparr>"
proof -
  have p: "putScoped B nodeT ''nodes'' KindNode uid t0 t1 n s = (n', s', None)"
    using assms(2,3) by (simp add: PutNode_def setProject_def nodeT_def)
  note st = tables(5) [OF assms(1)]
  have "scoped_key (getMeta nodeT n') = ''system/'' @ m_Name (n_Meta n)"
    using scoped_table.getMeta_putScoped(1) [OF st p] assms(3) by (simp add: nodeT_def scoped_key_def keyFor_def)
  then show "GetNode B (m_Name (n_Meta n)) s' = Inr n'"
    using scoped_table.get_after_put [OF st p] by (simp add: GetNode_def)
  show "n' = n\<lparr>n_Meta := n_Meta n'\<rparr>"
    using scoped_table.getMeta_putScoped(2) [OF st p] by (simp add: nodeT_def)
qed

lemma admit_node_spec:
  assumes "bolt_engine (sv_B sv)" "admit_node sv ob body s1 = (s, resp)" "spent (sv_B sv) H plain s1"
  shows "spent (sv_B sv) H plain s \<and> w_Status resp \<in> {200, 500} \<and>
    (w_Status resp = 200 \<longrightarrow>
      (\<exists>n m. GetNode (sv_B sv) (jr_NodeID body) s = Inr n \<and>
         n = (joining_node (sv_version sv) (ob_clk ob 2) (ob_clk ob 3) body)\<lparr>n_Meta := m\<rparr>) \<and>
      (\<exists>cfg. GetCluster (sv_B sv) s = Inr cfg \<and> cc_MultiNode cfg))"
proof -
  let ?n = "joining_node (sv_version sv) (ob_clk ob 2) (ob_clk ob 3) body"
  obtain n s2 r2 where n: "PutNode (sv_B sv) (ob_uid ob 0) (ob_clk ob 4) (ob_clk ob 5) ?n s1 = (n, s2, r2)"
    by (metis prod_cases3)
  have sp: "spent (sv_B sv) H plain s2"
    by (rule spent_same_off [OF PutNode_same_off [OF assms(1) n] _ assms(3)]) simp
  show ?thesis
  proof (cases r2)
    case None
    obtain cfg where cfg: "GetCluster (sv_B sv) s2 = Inr cfg" using sp by (auto simp: spent_def)
    obtain c3 s3 r3 where p: "PutCluster (sv_B sv) (ob_clk ob 6) (cfg\<lparr>cc_MultiNode := True\<rparr>) s2 = (c3, s3, r3)"
      by (metis prod_cases3)
    have s: "s = s3" and st: "w_Status resp = (if r3 = None then 200 else 500)"
      using assms(2) n None cfg p by (auto simp: admit_node_def httpError_def writeJSON_def split: option.splits)
    have sp3: "spent (sv_B sv) H plain s" using spent_PutCluster [OF assms(1) sp cfg p] s by simp
    have meta: "m_Project (n_Meta ?n) = ''system''" "m_Name (n_Meta ?n) = jr_NodeID body"
      by (simp_all add: joining_node_def zero_meta_def)
    note gn = GetNode_after_Put [OF assms(1) n [unfolded None] meta(1)]
    have "GetNode (sv_B sv) (jr_NodeID body) s3 = GetNode (sv_B sv) (jr_NodeID body) s2"
      unfolding GetNode_def by (rule store_get_same_off [OF PutCluster_same_off [OF assms(1) p]]) simp
    then have "GetNode (sv_B sv) (jr_NodeID body) s3 = Inr n \<and> n = ?n\<lparr>n_Meta := n_Meta n\<rparr>"
      using gn meta(2) by metis
    moreover have "cc_MultiNode c3" if "r3 = None"
      by (subst bolt_engine.GetCluster_after_Put(2) [OF assms(1) p [unfolded that]]) simp
    moreover have "GetCluster (sv_B sv) s3 = Inr c3" if "r3 = None"
      using bolt_engine.GetCluster_after_Put(1) [OF assms(1) p [unfolded that]] .
    ultimately show ?thesis using sp3 st s by (auto split: if_splits)
  next
    case (Some e)
    then show ?thesis using assms(2) n sp by (auto simp: admit_node_def httpError_def)
  qed
qed

text \<open>
  C14. Joining: a well-formed join request is either refused with 401, without a change, because
  \<^verbatim>\<open>Consume\<close> refuses its token, or its token is spent, whatever happens afterwards: a later
  attempt with the same token fails. When the response is 200 the node is in the node table
  with the roles, addresses and phase of the request, the cluster is marked as having several
  nodes, and the Raft node, if there is one, accepted the voter. When adding the voter fails
  the response is 500, and the token is spent all the same.
\<close>

theorem cluster_join_spec:
  assumes "bolt_engine (sv_B sv)" "decodeJSON (ji_join (ob_json ob)) r = Inr body"
    and "jr_NodeID body \<noteq> []" "jr_RaftAddr body \<noteq> []" "handleClusterJoin sv ob r w = (w', resp)"
  shows "(w_Status resp = 401 \<and> w' = w) \<or>
    (w_Status resp \<in> {200, 500} \<and>
      (\<forall>clk node. Consume (sv_B sv) (sv_H sv) clk (jr_Token body) node (wd_store w') = (wd_store w', Some ErrTokenUsed)) \<and>
      (w_Status resp = 200 \<longrightarrow>
        (\<exists>n. GetNode (sv_B sv) (jr_NodeID body) (wd_store w') = Inr n \<and> n_RaftAddress n = jr_RaftAddr body \<and>
           n_APIAddress n = jr_APIAddr body \<and> Phase (n_Status n) = PhaseRunning \<and>
           n_Roles n = (if jr_Roles body = [] then [''control'', ''compute'', ''storage''] else jr_Roles body)) \<and>
        (\<exists>cfg. GetCluster (sv_B sv) (wd_store w') = Inr cfg \<and> cc_MultiNode cfg) \<and>
        (sv_raft sv \<longrightarrow> ob_AddVoter ob (jr_NodeID body) (jr_RaftAddr body) = None)))"
proof -
  let ?B = "sv_B sv"
  obtain s1 r1 where c: "Consume ?B (sv_H sv) (ob_clk ob) (jr_Token body) (jr_NodeID body) (wd_store w) = (s1, r1)"
    by fastforce
  show ?thesis
  proof (cases r1)
    case (Some e)
    then have "s1 = wd_store w" using c Consume_Some [OF assms(1)] by blast
    then show ?thesis using assms(2-5) c Some by (auto simp: handleClusterJoin_def httpError_def)
  next
    case None
    have sp: "spent ?B (sv_H sv) (jr_Token body) s1"
      using Consume_spends [OF assms(1) _ assms(3)] c None by blast
    let ?v = "if sv_raft sv then ob_AddVoter ob (jr_NodeID body) (jr_RaftAddr body) else None"
    show ?thesis
    proof (cases ?v)
      case (Some e)
      then have "wd_store w' = s1 \<and> w_Status resp = 500"
        using assms(2-5) c None by (auto simp: handleClusterJoin_def httpError_def)
      then show ?thesis using spent_Consume [OF sp] by simp
    next
      case v: None
      obtain s rs where a: "admit_node sv ob body s1 = (s, rs)" by fastforce
      then have "wd_store w' = s" "resp = rs"
        using assms(2-5) c None v by (auto simp: handleClusterJoin_def split: if_splits)
      then show ?thesis
        using admit_node_spec [OF assms(1) a sp] v
        by (auto simp: spent_Consume joining_node_def zero_status_def split: if_splits)
    qed
  qed
qed

section \<open>What responses disclose\<close>

text \<open>
  The credentials a resource carries: the hash of a password or token, the plaintext of a token,
  the secret half of an access key, ciphertext and nonce of a secret, the signing secret of a
  webhook, the token and the secret of a function's Git hook, and the shared secrets of the cluster
  configuration. The other kinds have no field for a credential; bytes that are no document may be anything.
\<close>

fun discreet_doc :: "doc \<Rightarrow> bool" where
  "discreet_doc (DUser u) = (u_PasswordHash u = [])"
| "discreet_doc (DToken t) = (t_HashHex t = [] \<and> t_Plaintext t = [])"
| "discreet_doc (DAccessKey a) = (a_SecretAccessKey a = [])"
| "discreet_doc (DSecret x) = (s_Nonce x = [] \<and> s_Ciphertext x = [])"
| "discreet_doc (DEventRule r) = (case ea_Webhook (er_Action r) of None \<Rightarrow> True | Some w \<Rightarrow> wa_Secret w = [])"
| "discreet_doc (DCluster c) = (cc_BootstrapToken c = [] \<and> cc_GarageRPCSecret c = [] \<and> cc_GarageAdminToken c = [] \<and>
     cc_S3InternalKeyID c = [] \<and> cc_S3InternalKeySecret c = [] \<and> cc_JoinTokens c = [])"
| "discreet_doc (DFunction f) = (case src_Git (f_Source f) of None \<Rightarrow> True | Some g \<Rightarrow> g_WebhookToken g = [] \<and> g_WebhookSecret g = [])"
| "discreet_doc (DProject _) = True"
| "discreet_doc (DNode _) = True"
| "discreet_doc (DContainer _) = True"
| "discreet_doc (DBucket _) = True"
| "discreet_doc (DBuild _) = True"
| "discreet_doc (DEventRecord _) = True"
| "discreet_doc (DDelivery _) = True"
| "discreet_doc (DRaw _) = False"

fun discreet :: "json \<Rightarrow> bool" where
  "discreet (JDoc d) = discreet_doc d"
| "discreet (JList js) = list_all discreet js"
| "discreet (JObj kvs) = list_all (\<lambda>kv. discreet (snd kv)) kvs"
| "discreet (JJoinToken t) = (jt_HashHex t = [])"
| "discreet (JIdentity i) = (id_Token i = [])"
| "discreet (JInvocation _) = True"
| "discreet JNull = True"
| "discreet (JBool _) = True"
| "discreet (JInt _) = True"
| "discreet (JStr _) = True"
| "discreet (JTime _) = True"

definition discreet_response :: "response \<Rightarrow> bool" where
  "discreet_response resp = (case w_Body resp of JSON j \<Rightarrow> discreet j | _ \<Rightarrow> True)"

lemma discreet_mapStoreErr [simp]: "discreet_response (mapStoreErr e)"
  by (simp add: discreet_response_def mapStoreErr_def httpError_def)

lemma discreet_httpError [simp]: "discreet_response (httpError n m)"
  by (simp add: discreet_response_def httpError_def)

lemma discreet_writeJSON [simp]: "discreet_response (writeJSON n j) = discreet j"
  by (simp add: discreet_response_def writeJSON_def)

lemma discreet_JDocs [simp]: "discreet (JDocs f xs) = list_all (\<lambda>x. discreet_doc (f x)) xs"
  by (simp add: JDocs_def list_all_iff)

lemma discreet_reply:
  "(\<And>v. x = Inr v \<Longrightarrow> discreet (f v)) \<Longrightarrow> fst (reply w f x) = w \<and> discreet_response (snd (reply w f x))"
  by (auto simp: reply_def split: sum.splits)

lemma discreet_strip [simp]: "discreet_doc (DEventRule (strip_webhook_secret r))"
  by (auto simp: strip_webhook_secret_def split: option.splits)

text \<open>The routes that read but return what a caller should not see, and those of handlers that are arguments of the model.\<close>

definition telling_routes :: "seg list list" where
  "telling_routes = [[Lit ''api'', Lit ''v1'', Lit ''auth'', Lit ''me''], api_project ''functions'' [],
     api_project ''functions'' [Wild ''name'']]"

definition opaque_routes :: "seg list list" where
  "opaque_routes = [api_project ''containers'' [Wild ''name'', Lit ''logs'', Lit ''ws''],
     api_project ''containers'' [Wild ''name'', Lit ''exec''], api_project ''buckets'' [Wild ''name'', Lit ''objects''],
     api_project ''buckets'' [Wild ''name'', Lit ''object''],
     api_project ''functions'' [Wild ''name'', Lit ''builds'', Wild ''id'', Lit ''logs'', Lit ''ws''], api_project ''events'' [Lit ''ws'']]"

lemma reads_quiet:
  assumes "(''GET'', pat, h) \<in> set (auth_routes other)" "pat \<notin> set opaque_routes" "pat \<noteq> api_project ''functions'' [Wild ''name'', Lit ''invoke'']"
  shows "fst (h sv ob r w) = w"
proof -
  note q = reply_def handleMe_def handleListTokens_def handleListProjects_def handleGetProject_def handleListContainers_def
    handleGetContainer_def handleContainerLogs_def handleListBuckets_def handleGetBucket_def handleListAccessKeys_def
    handleGetAccessKey_def handleListFunctions_def handleGetFunction_def handleListFunctionInvocations_def handleListBuilds_def
    handleGetBuild_def handleListFirecrackerTemplates_def handleListSecrets_def handleGetSecret_def handleListEventRules_def
    handleGetEventRule_def handleListDeliveries_def handleListEvents_def handleGetCluster_def handleListNodes_def handleListJoinTokens_def
  show ?thesis using assms unfolding auth_routes_def Let_def list.set insert_iff empty_iff Pair_inject
    by (elim disjE conjE) (simp_all add: q opaque_routes_def api_project_def)
qed

lemma discreet_list: "(\<And>x. discreet_doc (f x)) \<Longrightarrow> discreet_response (snd (reply w (JDocs f) xs))"
  by (rule discreet_reply [THEN conjunct2]) (simp add: list_all_iff)

lemma discreet_one: "(\<And>x. discreet_doc (f x)) \<Longrightarrow> discreet_response (snd (reply w (\<lambda>x. JDoc (f x)) xs))"
  by (rule discreet_reply [THEN conjunct2]) simp

lemma plain_reads:
  "discreet_response (snd (handleListProjects sv ob r w))"
  "discreet_response (snd (handleGetProject sv ob r w))"
  "discreet_response (snd (handleListContainers sv ob r w))"
  "discreet_response (snd (handleGetContainer sv ob r w))"
  "discreet_response (snd (handleContainerLogs sv ob r w))"
  "discreet_response (snd (handleListBuckets sv ob r w))"
  "discreet_response (snd (handleGetBucket sv ob r w))"
  "discreet_response (snd (handleListBuilds sv ob r w))"
  "discreet_response (snd (handleGetBuild sv ob r w))"
  "discreet_response (snd (handleListDeliveries sv ob r w))"
  "discreet_response (snd (handleListEvents sv ob r w))"
  "discreet_response (snd (handleListNodes sv ob r w))"
  by (simp_all add: handleListProjects_def handleGetProject_def handleListContainers_def handleGetContainer_def handleListBuckets_def
      handleGetBucket_def handleListBuilds_def handleGetBuild_def handleListDeliveries_def handleListEvents_def handleListNodes_def
      discreet_list discreet_one handleContainerLogs_def discreet_response_def [of "\<lparr>w_Status = _, w_Header = _, w_Body = Text _\<rparr>"]
      split: sum.split prod.split)

lemma stripped_reads:
  "discreet_response (snd (handleListTokens sv ob r w))"
  "discreet_response (snd (handleListJoinTokens sv ob r w))"
  "discreet_response (snd (handleListAccessKeys sv ob r w))"
  "discreet_response (snd (handleGetAccessKey sv ob r w))"
  "discreet_response (snd (handleListSecrets sv ob r w))"
  "discreet_response (snd (handleGetSecret sv ob r w))"
  "discreet_response (snd (handleListEventRules sv ob r w))"
  "discreet_response (snd (handleGetEventRule sv ob r w))"
  "discreet_response (snd (handleGetCluster sv ob r w))"
  "discreet_response (snd (handleListFirecrackerTemplates sv ob r w))"
  "discreet_response (snd (handleListFunctionInvocations sv ob r w))"
proof -
  show "discreet_response (snd (handleListTokens sv ob r w))"
    unfolding handleListTokens_def by (rule discreet_reply [THEN conjunct2]) (auto simp: ListTokens_def list_all_iff split: sum.splits)
  show "discreet_response (snd (handleListJoinTokens sv ob r w))"
    by (auto simp: handleListJoinTokens_def List_tokens_def list_all_iff split: sum.splits)
  show "discreet_response (snd (handleListAccessKeys sv ob r w))"
    unfolding handleListAccessKeys_def by (rule discreet_reply [THEN conjunct2]) (auto simp: ListAccessKeys_def list_all_iff split: sum.splits)
  show "discreet_response (snd (handleGetAccessKey sv ob r w))"
    unfolding handleGetAccessKey_def by (rule discreet_reply [THEN conjunct2]) simp
  show "discreet_response (snd (handleListSecrets sv ob r w))"
    unfolding handleListSecrets_def by (rule discreet_reply [THEN conjunct2]) (auto simp: ListSecrets_def list_all_iff split: sum.splits)
  show "discreet_response (snd (handleGetSecret sv ob r w))"
    unfolding handleGetSecret_def by (rule discreet_reply [THEN conjunct2]) simp
  show "discreet_response (snd (handleListEventRules sv ob r w))"
    unfolding handleListEventRules_def
    by (rule discreet_reply [THEN conjunct2]) (auto simp: ListEventRules_def list_all_iff simp del: discreet_doc.simps split: sum.splits)
  show "discreet_response (snd (handleGetEventRule sv ob r w))"
    unfolding handleGetEventRule_def by (rule discreet_reply [THEN conjunct2]) (simp del: discreet_doc.simps)
  show "discreet_response (snd (handleGetCluster sv ob r w))"
    by (auto simp: handleGetCluster_def strip_cluster_def split: sum.splits)
  show "discreet_response (snd (handleListFirecrackerTemplates sv ob r w))"
    by (auto simp: handleListFirecrackerTemplates_def template_json_def list_all_iff split: option.splits)
  show "discreet_response (snd (handleListFunctionInvocations sv ob r w))"
    by (auto simp: handleListFunctionInvocations_def list_all_iff split: option.splits)
qed


text \<open>
  Responses that do disclose credentials: \<^verbatim>\<open>handleMe\<close> returns the stored user with the
  password hash, \<^verbatim>\<open>handleGetFunction\<close> the webhook secret, and \<^verbatim>\<open>handlePutCluster\<close> the whole configuration.
\<close>

lemma me_returns_password_hash:
  assumes "r_Identity r = Some i" "GetUser (sv_B sv) (id_UserID i) (wd_store w) = Inr u" "u_PasswordHash u \<noteq> []"
  shows "\<not> discreet_response (snd (handleMe sv ob r w))"
  using assms by (simp add: handleMe_def IdentityFrom_def)

lemma get_function_returns_webhook_secret:
  assumes "GetFunction (sv_B sv) (PathValue r ''project'') (PathValue r ''name'') (wd_store w) = Inr f"
    and "src_Git (f_Source f) = Some g" "g_WebhookSecret g \<noteq> []"
  shows "\<not> discreet_response (snd (handleGetFunction sv ob r w))"
  using assms by (simp add: handleGetFunction_def reply_def)

lemma put_cluster_returns_secrets:
  assumes "bolt_engine (sv_B sv)" "handlePutCluster sv ob r w = (w', resp)" "w_Status resp = 200"
    and "GetCluster (sv_B sv) (wd_store w) = Inr cfg" "cc_S3InternalKeySecret cfg \<noteq> []"
  shows "\<not> discreet_response resp"
proof -
  obtain c c' s where p: "PutCluster (sv_B sv) (ob_clk ob 0) c (wd_store w) = (c', s, None)"
    and "cc_S3InternalKeySecret c \<noteq> []" and resp: "resp = writeJSON 200 (JDoc (DCluster c'))"
    using assms(2-5)
    by (auto simp: handlePutCluster_def Let_def httpError_def split: if_splits sum.splits prod.splits option.splits)
  moreover have "cc_S3InternalKeySecret c' = cc_S3InternalKeySecret c"
    by (subst bolt_engine.GetCluster_after_Put(2) [OF assms(1) p]) simp
  ultimately show ?thesis by simp
qed

section \<open>Invocation\<close>

lemma map_of_fold_update:
  "distinct (map fst xs) \<Longrightarrow>
   map_of (fold (\<lambda>(k, v). AList.update k v) xs m) k = (case map_of xs k of Some v \<Rightarrow> Some v | None \<Rightarrow> map_of m k)"
proof (induction xs arbitrary: m)
  case (Cons kv xs)
  then have "map_of xs (fst kv) = None" by (simp add: map_of_eq_None_iff)
  with Cons show ?case by (cases kv) (auto simp: map_of_update split: option.splits)
qed simp

text \<open>
  All callers put the environment of the function into the request, and \<^verbatim>\<open>invoke\<close> lets the
  request override what it resolved: a reference to a secret in the environment reaches the
  function as the literal reference, unless a mount happens to set the same variable.
\<close>

lemma invoke_env_unresolved:
  assumes "iq_Env rq = f_Env f" "distinct (map fst (f_Env f))" "f_SecretMounts f = []" "map_of (f_Env f) k = Some v"
  shows "map_of (iq_Env (project_secrets sv f s rq)) k = Some v"
  using assms by (auto simp: project_secrets_def merge_env_def map_of_fold_update Let_def split: option.splits sum.splits)

section \<open>Routing\<close>

text \<open>Whether some path matches two patterns.\<close>

fun clash :: "seg list \<Rightarrow> seg list \<Rightarrow> bool" where
  "clash [] [] = True"
| "clash (Lit a # ps) (Lit b # qs) = (a = b \<and> clash ps qs)"
| "clash (Lit a # ps) (Wild b # qs) = clash ps qs"
| "clash (Wild a # ps) (Lit b # qs) = clash ps qs"
| "clash (Wild a # ps) (Wild b # qs) = clash ps qs"
| "clash _ _ = False"

lemma match_both: "match_segs p xs \<noteq> None \<Longrightarrow> match_segs q xs \<noteq> None \<Longrightarrow> clash p q"
proof (induction p xs arbitrary: q rule: match_segs.induct)
  case (2 s ps x xs)
  then show ?case by (cases q) (auto split: if_splits seg.splits, case_tac a, auto split: if_splits)
next
  case (3 v ps x xs)
  then show ?case by (cases q) (auto split: if_splits seg.splits, case_tac a, auto split: if_splits)
qed (auto elim: match_segs.elims)

definition route_table :: "(string \<times> seg list) list" where
  "route_table = map (\<lambda>(m, p, h). (m, p)) (auth_routes (\<lambda>_. handleHealth :: (unit, unit, unit, unit) handler))"

lemma route_table_disjoint: "sorted_wrt (\<lambda>(m, p) (m', p'). m = m' \<longrightarrow> \<not> clash p p') route_table"
  by code_simp

lemma no_head_route: "list_all (\<lambda>x. fst x \<noteq> ''HEAD'') route_table"
  by code_simp

lemma route_table_eq: "map (\<lambda>(m, p, h). (m, p)) (auth_routes other) = route_table"
  by (simp add: route_table_def auth_routes_def Let_def)

text \<open>
  Routing is unambiguous: of the patterns of the authenticated table at most one matches a
  request, whatever its method and path, so the order of registration does not matter.
\<close>

theorem routes_unambiguous:
  assumes "i < length (auth_routes other)" "j < length (auth_routes other)"
    and "auth_routes other ! i = (pm, p, h)" "auth_routes other ! j = (pm', p', h')"
    and "match_method pm m" "match_segs p segs \<noteq> None" "match_method pm' m" "match_segs p' segs \<noteq> None"
  shows "i = j"
proof -
  have len: "length route_table = length (auth_routes other)"
    unfolding route_table_eq [of other, symmetric] by simp
  have n: "route_table ! i = (pm, p)" "route_table ! j = (pm', p')"
    unfolding route_table_eq [of other, symmetric] using assms(1-4) by simp_all
  have "fst (route_table ! k) \<noteq> ''HEAD''" if "k < length route_table" for k
    using no_head_route that by (simp add: list_all_length)
  from this [of i] this [of j] have "pm \<noteq> ''HEAD''" "pm' \<noteq> ''HEAD''"
    using n assms(1,2) len by simp_all
  then have "pm = pm'" using assms(5,7) by (auto simp: match_method_iff)
  moreover have "clash p p'" "clash p' p" using match_both assms(6,8) by blast+
  ultimately have "\<not> i < j" "\<not> j < i"
    using sorted_wrt_nth_less [OF route_table_disjoint, of i j] sorted_wrt_nth_less [OF route_table_disjoint, of j i]
      n assms(1,2) len by auto
  then show ?thesis by simp
qed

section \<open>Witnesses\<close>



theorem follower_redirects_witness:
  "leaderRedirect (routes (\<lambda>_. handleHealth)) demo_server demo_obs (demo_request ''POST'' [''api'', ''v1'', ''projects''] []) (demo_world fresh_store) =
     (demo_world fresh_store, httpError 503 ''leader api address unknown'')"
proof -
  have a: "leaderAPIAddr (sv_B demo_server) (ob_LeaderAddr demo_obs) (wd_store (demo_world fresh_store)) = []" by code_simp
  have "sv_raft demo_server \<and> \<not> ob_IsLeader demo_obs \<and> ob_LeaderAddr demo_obs \<noteq> [] \<and>
    \<not> exempt (r_Path (demo_request ''POST'' [''api'', ''v1'', ''projects''] []))" by code_simp
  then show ?thesis
    using follower_redirects [OF a refl, of "demo_request ''POST'' [''api'', ''v1'', ''projects''] []" "routes (\<lambda>_. handleHealth)", THEN conjunct1]
    unfolding exempt_iff by (simp add: demo_request_def)
qed

theorem initialize_once_witness:
  "w_Status (snd (handleInitialize demo_server demo_obs (demo_request ''POST'' [] []) (demo_world with_bootstrap))) = 201 \<and>
   w_Status (snd (handleInitialize demo_server demo_obs (demo_request ''POST'' [] [])
     (fst (handleInitialize demo_server demo_obs (demo_request ''POST'' [] []) (demo_world with_bootstrap))))) \<in> {400, 401}"
proof -
  let ?x = "handleInitialize demo_server demo_obs (demo_request ''POST'' [] []) (demo_world with_bootstrap)"
  have st: "w_Status (snd ?x) = 201" by code_simp
  have none: "stored_tokens (sv_B demo_server) (wd_store (demo_world with_bootstrap)) = {}"
  proof -
    have "(case map_of (sdb with_bootstrap) ''tokens'' of Some [] \<Rightarrow> True | _ \<Rightarrow> False)" by code_simp
    then have "mem_get (sdb with_bootstrap) ''tokens'' k = None" for k
      by (auto simp: mem_get_def split: option.splits list.splits)
    then show ?thesis
      by (auto simp: stored_tokens_def entries_def demo_server_def demo_world_def)
  qed
  have "bolt_engine (sv_B demo_server)" using mem_engine by (simp add: demo_server_def)
  from initialize_once [OF this prod.collapse [symmetric], where ob = demo_obs and r = "demo_request ''POST'' [] []" and w = "demo_world with_bootstrap"] none st
  show ?thesis by simp
qed

theorem cluster_join_spec_witness:
  "w_Status (snd (handleClusterJoin demo_server demo_obs (demo_request ''POST'' [] []) (demo_world with_join_token))) = 200 \<and>
   (\<exists>n. GetNode mem_bolt ''n2'' (wd_store (fst (handleClusterJoin demo_server demo_obs (demo_request ''POST'' [] []) (demo_world with_join_token)))) = Inr n \<and>
      n_RaftAddress n = ''10.0.0.2:7000'')"
proof -
  let ?x = "handleClusterJoin demo_server demo_obs (demo_request ''POST'' [] []) (demo_world with_join_token)"
  have st: "w_Status (snd ?x) = 200" by code_simp
  have e: "bolt_engine (sv_B demo_server)" using mem_engine by (simp add: demo_server_def)
  have d: "decodeJSON (ji_join (ob_json demo_obs)) (demo_request ''POST'' [] []) = Inr demo_join"
    by (simp add: decodeJSON_def demo_request_def demo_obs_def demo_json_def)
  from cluster_join_spec [OF e d _ _ prod.collapse [symmetric], where w = "demo_world with_join_token"] st
  show ?thesis by (auto simp: demo_join_def demo_server_def)
qed


theorem routes_unambiguous_witness:
  "{i. i < length (auth_routes (\<lambda>_. handleHealth :: (unit, unit, unit, unit) handler)) \<and>
     match_method (fst (auth_routes (\<lambda>_. handleHealth :: (unit, unit, unit, unit) handler) ! i)) ''HEAD'' \<and>
     match_segs (fst (snd (auth_routes (\<lambda>_. handleHealth :: (unit, unit, unit, unit) handler) ! i)))
       [''api'', ''v1'', ''auth'', ''me''] \<noteq> None} = {0}"
proof -
  let ?t = "auth_routes (\<lambda>_. handleHealth :: (unit, unit, unit, unit) handler)"
  have h: "?t ! 0 = (''GET'', [Lit ''api'', Lit ''v1'', Lit ''auth'', Lit ''me''], handleMe)" "0 < length ?t"
    by (simp_all add: auth_routes_def Let_def)
  then have "i = 0" if "i < length ?t" "match_method (fst (?t ! i)) ''HEAD''"
      "match_segs (fst (snd (?t ! i))) [''api'', ''v1'', ''auth'', ''me''] \<noteq> None" for i
    using routes_unambiguous [of i _ 0 "fst (?t ! i)" "fst (snd (?t ! i))" "snd (snd (?t ! i))" "''GET''"
        "[Lit ''api'', Lit ''v1'', Lit ''auth'', Lit ''me'']" handleMe "''HEAD''" "[''api'', ''v1'', ''auth'', ''me'']"] that
    by (simp add: match_method_def)
  moreover have "match_method (fst (?t ! 0)) ''HEAD''"
      "match_segs (fst (snd (?t ! 0))) [''api'', ''v1'', ''auth'', ''me''] \<noteq> None"
    using h by (simp_all add: match_method_def)
  ultimately show ?thesis using h(2) by blast
qed

end
