(* ===== verification/Objects.thy ===== *)
theory Objects
  imports Api "HOL-Library.Signed_Division"
begin

text \<open>
  The browser for stored objects: \<^verbatim>\<open>internal/api/objects.go\<close> and the client it uses,
  \<^verbatim>\<open>s3Client\<close> of \<^verbatim>\<open>server.go\<close>. The S3 library is the parameter \<open>'so s3_service\<close> over a remote
  state \<open>'so\<close>; what the theorems rely on is the locale \<open>object_store\<close> of \<open>Objects_Props\<close>.
\<close>

section \<open>Numbers, names and dates\<close>

text \<open>Division of 64-bit integers truncates towards zero, and the remainder has the sign of the dividend.\<close>

definition quo64 :: "64 word \<Rightarrow> 64 word \<Rightarrow> 64 word" where
  "quo64 a b = word_of_int (sint a sdiv sint b)"

definition rem64 :: "64 word \<Rightarrow> 64 word \<Rightarrow> 64 word" where
  "rem64 a b = word_of_int (sint a smod sint b)"

text \<open>
  The loop of \<^verbatim>\<open>itoa\<close> fills the buffer from its end; \<open>None\<close> is a panic on an index out of range.
\<close>

function itoa_loop :: "64 word \<Rightarrow> nat \<Rightarrow> string \<Rightarrow> (nat \<times> string) option" where
  "itoa_loop n i b =
     (if 0 <s n then
        if i = 0 then None
        else itoa_loop (quo64 n 10) (i - 1) (b[i - 1 := ''0123456789'' ! unat (rem64 n 10)])
      else Some (i, b))"
  by pat_completeness auto
termination
  by (relation "measure (\<lambda>(n, i, b). i)") auto

declare itoa_loop.simps [simp del]

definition itoa :: "64 word \<Rightarrow> string option" where
  "itoa n =
     (if n = 0 then Some ''0''
      else let neg = n <s 0; n = (if neg then - n else n) in
        case itoa_loop n 20 (replicate 20 (CHR 0x00)) of None \<Rightarrow> None
        | Some (i, b) \<Rightarrow>
            if neg then (if i = 0 then None else Some (drop (i - 1) (b[i - 1 := CHR ''-''])))
            else Some (drop i b))"

primrec lastPath_loop :: "string \<Rightarrow> nat \<Rightarrow> string" where
  "lastPath_loop s 0 = s"
| "lastPath_loop s (Suc i) = (if s ! i = CHR ''/'' then drop (Suc i) s else lastPath_loop s i)"

definition lastPath :: "string \<Rightarrow> string" where
  "lastPath s = lastPath_loop s (length s)"

text \<open>\<^verbatim>\<open>Time.Format(http.TimeFormat)\<close>; the zero time is a Monday.\<close>

definition http_time :: "time \<Rightarrow> string" where
  "http_time t =
     (let sec = t div second; days = sec div 86400; (y, m, d) = civil days; sod = sec mod 86400
      in [''Mon'', ''Tue'', ''Wed'', ''Thu'', ''Fri'', ''Sat'', ''Sun''] ! nat (days mod 7) @ '', '' @ pad_digits 2 d @ '' '' @
         [''Jan'', ''Feb'', ''Mar'', ''Apr'', ''May'', ''Jun'', ''Jul'', ''Aug'', ''Sep'', ''Oct'', ''Nov'', ''Dec''] ! nat (m - 1) @ '' '' @
         pad_digits 4 y @ '' '' @ pad_digits 2 (sod div 3600) @ '':'' @ pad_digits 2 (sod mod 3600 div 60) @ '':'' @
         pad_digits 2 (sod mod 60) @ '' GMT'')"

section \<open>The S3 client\<close>

record s3_client =
  sc_endpoint :: string
  sc_keyID :: string
  sc_secret :: string

text \<open>\<^verbatim>\<open>minio.ObjectInfo\<close> and \<^verbatim>\<open>minio.UploadInfo\<close>, as far as they are read.\<close>

record object_stat =
  os_Key :: string
  os_Size :: "64 word"
  os_ETag :: string
  os_LastModified :: time
  os_ContentType :: string

text \<open>An error of the library, with the status code when it is a \<^verbatim>\<open>minio.ErrorResponse\<close>.\<close>

record s3_error =
  xe_error :: error
  xe_StatusCode :: "int option"

text \<open>
  The service: \<^verbatim>\<open>minio.New\<close>; the objects of a listing with the error that ends it; an upload of a
  reader of a given length; an object as \<^verbatim>\<open>Stat\<close> and \<^verbatim>\<open>Read\<close> show it; a removal.
\<close>

record 'so s3_service =
  s3_New :: "string \<Rightarrow> string \<Rightarrow> string \<Rightarrow> error option"
  s3_ListObjects :: "s3_client \<Rightarrow> string \<Rightarrow> string \<Rightarrow> bool \<Rightarrow> 'so \<Rightarrow> (error + object_stat) list"
  s3_PutObject :: "s3_client \<Rightarrow> string \<Rightarrow> string \<Rightarrow> bytes \<times> error option \<Rightarrow> 64 word \<Rightarrow> string \<Rightarrow> 'so \<Rightarrow> 'so \<times> (error + object_stat)"
  s3_GetObject :: "s3_client \<Rightarrow> string \<Rightarrow> string \<Rightarrow> 'so \<Rightarrow> error + ((s3_error + object_stat) \<times> bytes)"
  s3_RemoveObject :: "s3_client \<Rightarrow> string \<Rightarrow> string \<Rightarrow> 'so \<Rightarrow> 'so \<times> error option"

text \<open>The state of the server, its memoised client and the remote state.\<close>

record ('db, 'rt, 'wa, 'fc, 'so) s3_world =
  sw_world :: "('db, 'rt, 'wa, 'fc) world"
  sw_s3 :: "s3_client option"
  sw_remote :: 'so

definition s3_endpoint :: "string \<Rightarrow> string" where
  "s3_endpoint addr = (if HasPrefix addr ''0.0.0.0'' then ''127.0.0.1'' @ TrimPrefix addr ''0.0.0.0'' else addr)"

text \<open>The part of \<^verbatim>\<open>s3Client\<close> that provisions the internal key.\<close>

definition s3_key ::
  "('db, 'rt, 'wa, 'fc) server \<Rightarrow> obs \<Rightarrow> cluster_config \<Rightarrow> ('db, 'rt, 'wa, 'fc) world \<Rightarrow>
   ('db, 'rt, 'wa, 'fc) world \<times> (error + cluster_config)" where
  "s3_key sv ob cfg w =
     (if cc_S3InternalKeyID cfg = [] \<or> cc_S3InternalKeySecret cfg = [] then
        (case sv_garageAdm sv of None \<Rightarrow> (w, Inl (Err ''garage admin client unavailable''))
         | Some g \<Rightarrow>
             (case garage_CreateKey (ob_garage ob) g ''selfcloud-internal'' (wd_garage w) of
                (sent, Inl e) \<Rightarrow> (w\<lparr>wd_garage := sent\<rparr>, Inl e)
              | (sent, Inr (i, sec)) \<Rightarrow>
                  (case PutCluster (sv_B sv) (ob_clk ob 0) (cfg\<lparr>cc_S3InternalKeyID := i, cc_S3InternalKeySecret := sec\<rparr>) (wd_store w) of
                     (cfg', s, r) \<Rightarrow> (w\<lparr>wd_garage := sent, wd_store := s\<rparr>, case r of Some e \<Rightarrow> Inl e | None \<Rightarrow> Inr cfg'))))
      else (w, Inr cfg))"

definition s3Client ::
  "('db, 'rt, 'wa, 'fc) server \<Rightarrow> 'so s3_service \<Rightarrow> obs \<Rightarrow> ('db, 'rt, 'wa, 'fc, 'so) s3_world \<Rightarrow>
   ('db, 'rt, 'wa, 'fc, 'so) s3_world \<times> (error + s3_client)" where
  "s3Client sv S ob sw =
     (case sw_s3 sw of Some cl \<Rightarrow> (sw, Inr cl)
      | None \<Rightarrow>
          (case GetCluster (sv_B sv) (wd_store (sw_world sw)) of Inl e \<Rightarrow> (sw, Inl e)
           | Inr cfg0 \<Rightarrow>
               (case s3_key sv ob cfg0 (sw_world sw) of
                  (w, Inl e) \<Rightarrow> (sw\<lparr>sw_world := w\<rparr>, Inl e)
                | (w, Inr cfg) \<Rightarrow>
                    (case sv_S3Addr sv of None \<Rightarrow> (sw\<lparr>sw_world := w\<rparr>, Inl ErrPanic)
                     | Some addr \<Rightarrow>
                         let cl = \<lparr>sc_endpoint = s3_endpoint addr, sc_keyID = cc_S3InternalKeyID cfg, sc_secret = cc_S3InternalKeySecret cfg\<rparr> in
                         case s3_New S (sc_endpoint cl) (sc_keyID cl) (sc_secret cl) of
                           Some e \<Rightarrow> (sw\<lparr>sw_world := w\<rparr>, Inl e)
                         | None \<Rightarrow> (sw\<lparr>sw_world := w, sw_s3 := Some cl\<rparr>, Inr cl)))))"

section \<open>The handlers\<close>

text \<open>What a handler answers when there is no client; a nil configuration panics.\<close>

definition no_client :: "error \<Rightarrow> response" where
  "no_client e = (if e = ErrPanic then recovered else httpError 503 (errorString e))"

definition object_json :: "object_stat \<Rightarrow> json" where
  "object_json x = JObj ([(''key'', JStr (os_Key x)), (''size'', JInt (sint (os_Size x)))] @
     (if os_ETag x = [] then [] else [(''etag'', JStr (os_ETag x))]) @
     [(''lastModified'', JTime (os_LastModified x))] @
     (if os_ContentType x = [] then [] else [(''contentType'', JStr (os_ContentType x))]))"

fun list_loop :: "(error + object_stat) list \<Rightarrow> object_stat list \<Rightarrow> response" where
  "list_loop [] out = writeJSON 200 (JList (map object_json out))"
| "list_loop (Inl e # ch) out = httpError 502 (errorString e)"
| "list_loop (Inr x # ch) out = list_loop ch (out @ [x])"

type_synonym ('db, 'rt, 'wa, 'fc, 'so) s3_handler =
  "('db, 'rt, 'wa, 'fc) server \<Rightarrow> 'so s3_service \<Rightarrow> obs \<Rightarrow> request \<Rightarrow> ('db, 'rt, 'wa, 'fc, 'so) s3_world \<Rightarrow>
   ('db, 'rt, 'wa, 'fc, 'so) s3_world \<times> response"

definition handleListObjects :: "('db, 'rt, 'wa, 'fc, 'so) s3_handler" where
  "handleListObjects sv S ob r sw =
     (let bucket = PathValue r ''name'' in
      case s3Client sv S ob sw of
        (sw, Inl e) \<Rightarrow> (sw, no_client e)
      | (sw, Inr cl) \<Rightarrow>
          (sw, list_loop (s3_ListObjects S cl bucket (get0 (r_Query r) ''prefix'')
                  (get0 (r_Query r) ''recursive'' = ''true'') (sw_remote sw)) []))"

text \<open>\<open>len\<close> is \<^verbatim>\<open>r.ContentLength\<close>, -1 when it is unknown; the clock is read once the key exists.\<close>

definition handlePutObject :: "64 word \<Rightarrow> ('db, 'rt, 'wa, 'fc, 'so) s3_handler" where
  "handlePutObject len sv S ob r sw =
     (let bucket = PathValue r ''name''; key = get0 (r_Query r) ''key'' in
      if key = [] then (sw, httpError 400 ''missing key query param'')
      else let key = (if HasPrefix key ''/'' then TrimPrefix key ''/'' else key) in
        case s3Client sv S ob sw of
          (sw, Inl e) \<Rightarrow> (sw, no_client e)
        | (sw, Inr cl) \<Rightarrow>
            (let ct = get0 (r_Header r) ''content-type''; ct = (if ct = [] then ''application/octet-stream'' else ct);
                 body = (case r_Body r of None \<Rightarrow> ([], None) | Some b \<Rightarrow> b)
             in case s3_PutObject S cl bucket key body len ct (sw_remote sw) of
                  (so, Inl e) \<Rightarrow> (sw\<lparr>sw_remote := so\<rparr>, httpError 502 (errorString e))
                | (so, Inr info) \<Rightarrow>
                    (sw\<lparr>sw_remote := so\<rparr>,
                     writeJSON 201 (object_json (info\<lparr>os_LastModified := ob_clk ob 1, os_ContentType := ct\<rparr>)))))"

text \<open>\<^verbatim>\<open>itoa\<close> does not panic (\<open>itoa_decimal\<close> in \<open>Objects_Props\<close>).\<close>

definition object_headers :: "object_stat \<Rightarrow> request \<Rightarrow> string \<Rightarrow> strmap" where
  "object_headers stat r key =
     (if os_ContentType stat \<noteq> [] then [(''content-type'', os_ContentType stat)] else []) @
     (if 0 <s os_Size stat then [(''content-length'', the (itoa (os_Size stat)))] else []) @
     (if \<not> isZero (os_LastModified stat) then [(''last-modified'', http_time (os_LastModified stat))] else []) @
     (if os_ETag stat \<noteq> [] then [(''etag'', os_ETag stat)] else []) @
     (if get0 (r_Query r) ''download'' = ''1''
      then [(''content-disposition'', ''attachment; filename='' @ [CHR 0x22] @ lastPath key @ [CHR 0x22])] else [])"

definition handleGetObject :: "('db, 'rt, 'wa, 'fc, 'so) s3_handler" where
  "handleGetObject sv S ob r sw =
     (let bucket = PathValue r ''name''; key = get0 (r_Query r) ''key'' in
      if key = [] then (sw, httpError 400 ''missing key query param'')
      else case s3Client sv S ob sw of
          (sw, Inl e) \<Rightarrow> (sw, no_client e)
        | (sw, Inr cl) \<Rightarrow>
            (sw, case s3_GetObject S cl bucket key (sw_remote sw) of
                   Inl e \<Rightarrow> httpError 502 (errorString e)
                 | Inr (Inl x, _) \<Rightarrow>
                     if xe_StatusCode x = Some 404 then httpError 404 ''object not found'' else httpError 502 (errorString (xe_error x))
                 | Inr (Inr stat, d) \<Rightarrow> \<lparr>w_Status = 200, w_Header = object_headers stat r key, w_Body = Text d\<rparr>))"

definition handleDeleteObject :: "('db, 'rt, 'wa, 'fc, 'so) s3_handler" where
  "handleDeleteObject sv S ob r sw =
     (let bucket = PathValue r ''name''; key = get0 (r_Query r) ''key'' in
      if key = [] then (sw, httpError 400 ''missing key query param'')
      else case s3Client sv S ob sw of
          (sw, Inl e) \<Rightarrow> (sw, no_client e)
        | (sw, Inr cl) \<Rightarrow>
            (case s3_RemoveObject S cl bucket key (sw_remote sw) of
               (so, Some e) \<Rightarrow> (sw\<lparr>sw_remote := so\<rparr>, httpError 502 (errorString e))
             | (so, None) \<Rightarrow> (sw\<lparr>sw_remote := so\<rparr>, noContent)))"

end
