(* ===== verification/Objects_Props.thy ===== *)
theory Objects_Props
  imports Objects Api_Fixtures
begin

text \<open>
  Properties of the browser for stored objects: the decimal representation of a 64-bit number,
  uploads that are read back and deleted, what the handlers do not look at.
\<close>

section \<open>Decimal numbers\<close>

lemma sint_of_int64:
  assumes "- (2 ^ 63) \<le> k" "k < 2 ^ 63"
  shows "sint (word_of_int k :: 64 word) = k"
  using assms by (simp add: sint_sbintrunc' signed_take_bit_int_eq_self)

lemma sint64_bounds: "- (2 ^ 63) \<le> sint (n :: 64 word)" "sint n < 2 ^ 63"
  using sint_ge [of n] sint_lt [of n] by simp_all

lemma sint_10: "sint (10 :: 64 word) = 10"
  by simp

lemma quo64_10: "0 < sint n \<Longrightarrow> sint (quo64 n 10) = sint n div 10"
  using sint64_bounds [of n] unfolding quo64_def sint_10 by (subst sint_of_int64) (auto simp: signed_divide_int_def)

lemma rem64_10: "0 < sint n \<Longrightarrow> unat (rem64 n 10) = nat (sint n mod 10)"
proof -
  assume n: "0 < sint n"
  have "sint n smod 10 = sint n mod 10" using n by (simp add: signed_modulo_int_def signed_divide_int_def minus_div_mult_eq_mod)
  moreover have "uint (word_of_int (sint n mod 10) :: 64 word) = sint n mod 10" by (simp add: uint_word_of_int)
  ultimately show ?thesis unfolding rem64_def sint_10 by (simp add: unat_eq_nat_uint)
qed

lemma digit_lookup: "d < 10 \<Longrightarrow> ''0123456789'' ! d = digit_char d"
proof -
  assume "d < 10"
  moreover have "list_all (\<lambda>d. ''0123456789'' ! d = digit_char d) [0..<10]" by code_simp
  ultimately show ?thesis by (simp add: list_all_iff)
qed

lemma drop_update_hd: "i < length b \<Longrightarrow> drop i (b[i := c]) = c # drop (Suc i) b"
  by (simp add: drop_update_cancel flip: Cons_nth_drop_Suc)

lemma itoa_loop_digits:
  assumes "0 < sint n" "sint n < 10 ^ i" "i \<le> length b"
  shows "\<exists>b'. itoa_loop n i b = Some (i - length (show_dec (sint n)), b') \<and> length b' = length b \<and>
    length (show_dec (sint n)) \<le> i \<and> drop (i - length (show_dec (sint n))) b' = show_dec (sint n) @ drop i b"
  using assms
proof (induction i arbitrary: n b)
  case (Suc i)
  let ?k = "sint n" let ?d = "digit_char (nat (?k mod 10))" let ?b = "b[i := ?d]"
  have d: "''0123456789'' ! unat (rem64 n 10) = ?d"
    using Suc.prems(1) rem64_10 [of n] by (simp add: digit_lookup nat_less_iff)
  have step: "itoa_loop n (Suc i) b = itoa_loop (quo64 n 10) i ?b"
    using Suc.prems(1) d by (subst itoa_loop.simps) (simp add: word_sless_alt)
  have dr: "drop i ?b = ?d # drop (Suc i) b" using Suc.prems(3) by (simp add: drop_update_hd)
  have q: "sint (quo64 n 10) = ?k div 10" by (rule quo64_10 [OF Suc.prems(1)])
  show ?case
  proof (cases "?k < 10")
    case True
    then have "itoa_loop (quo64 n 10) i ?b = Some (i, ?b)" using q Suc.prems(1) by (subst itoa_loop.simps) (simp add: word_sless_alt)
    then show ?thesis using True dr step Suc.prems(1) by (simp add: show_dec.simps)
  next
    case False
    have s: "show_dec ?k = show_dec (?k div 10) @ [?d]" using False by (subst show_dec.simps) simp
    have "0 < sint (quo64 n 10)" "sint (quo64 n 10) < 10 ^ i" "i \<le> length ?b" using q False Suc.prems by auto
    from Suc.IH [OF this] show ?thesis using s q step dr by auto
  qed
qed simp

lemma itoa_loop_64:
  assumes "0 < sint n"
  shows "\<exists>j b'. itoa_loop n 20 (replicate 20 c) = Some (j, b') \<and> 0 < j \<and> j \<le> 20 \<and> length b' = 20 \<and> drop j b' = show_dec (sint n)"
proof -
  have k: "sint n < 10 ^ 19" using sint64_bounds(2) [of n] by simp
  obtain "length (show_dec (sint n)) \<le> 19" using itoa_loop_digits [OF assms k, of "replicate 19 c"] by auto
  then show ?thesis using itoa_loop_digits [OF assms, of 20 "replicate 20 c"] k by auto
qed

text \<open>
  The decimal representation of object sizes is the standard one for every 64-bit number but
  the smallest, which is printed as a lone sign; the buffer of twenty bytes never overflows.
\<close>

theorem itoa_decimal: "itoa n = Some (if sint n = - (2 ^ 63) then ''-'' else Itoa (sint n))"
proof -
  consider "sint n = 0" | "0 < sint n" | "sint n = - (2 ^ 63)" | "sint n < 0" "sint n \<noteq> - (2 ^ 63)" by linarith
  then show ?thesis
  proof cases
    case 1
    then have "n = 0" by (metis signed_eq_0_iff)
    moreover have "itoa 0 = Some (Itoa 0)" by code_simp
    ultimately show ?thesis by simp
  next
    case 2
    then show ?thesis using itoa_loop_64 [OF 2, of "CHR 0x00"] by (auto simp: itoa_def Itoa_def word_sless_alt Let_def)
  next
    case 3
    have "word_of_int (sint n) = n" by simp
    then have n: "n = 2 ^ 63" unfolding 3 by simp
    have "drop 19 ((replicate 20 (CHR 0x00))[19 := CHR ''-'']) = ''-''" by code_simp
    then show ?thesis using n by (simp add: itoa_def word_sless_alt itoa_loop.simps)
  next
    case 4
    have "- n = word_of_int (- sint n)" by simp
    then have m: "sint (- n) = - sint n" using sint_of_int64 [of "- sint n"] sint64_bounds [of n] 4 by simp
    then have "0 < sint (- n)" using 4 by simp
    then show ?thesis using itoa_loop_64 [of "- n" "CHR 0x00"] 4 m by (auto simp: itoa_def Itoa_def word_sless_alt Let_def drop_update_hd)
  qed
qed

lemma lastPath_spec: "lastPath s = rev (takeWhile (\<lambda>c. c \<noteq> CHR ''/'') (rev s))"
proof -
  have "lastPath_loop s (length p) = (if CHR ''/'' \<in> set p then rev (takeWhile (\<lambda>c. c \<noteq> CHR ''/'') (rev p)) @ q else s)" if "s = p @ q" for p q
    using that
  proof (induction p arbitrary: q rule: rev_induct)
    case (snoc c p)
    then show ?case using snoc.IH [of "c # q"] by (auto simp: nth_append)
  qed simp
  from this [of s "[]"] have "lastPath s = (if CHR ''/'' \<in> set s then rev (takeWhile (\<lambda>c. c \<noteq> CHR ''/'') (rev s)) else s)"
    by (simp add: lastPath_def)
  moreover have "rev (takeWhile (\<lambda>c. c \<noteq> CHR ''/'') (rev s)) = s" if "CHR ''/'' \<notin> set s"
  proof -
    have "takeWhile (\<lambda>c. c \<noteq> CHR ''/'') (rev s) = rev s" unfolding takeWhile_eq_all_conv using that by auto
    then show ?thesis by (simp only: rev_rev_ident)
  qed
  ultimately show ?thesis by presburger
qed

section \<open>Uploads\<close>

text \<open>
  What is relied on of the S3 service, for successful operations: an upload of a reader that can
  be read to its end stores its content and its type under the key, a removal leaves nothing
  there, and neither touches other keys.
\<close>

locale object_store =
  fixes S :: "'so s3_service"
  assumes get_put: "s3_PutObject S cl b k (d, None) len ct so = (so', Inr info) \<Longrightarrow>
      \<exists>stat. s3_GetObject S cl b k so' = Inr (Inr stat, d) \<and> os_ContentType stat = ct \<and> os_Size stat = of_nat (length d)"
    and get_put_other: "s3_PutObject S cl b k rd len ct so = (so', Inr info) \<Longrightarrow> (b', k') \<noteq> (b, k) \<Longrightarrow>
      s3_GetObject S cl b' k' so' = s3_GetObject S cl b' k' so"
    and get_remove: "s3_RemoveObject S cl b k so = (so', None) \<Longrightarrow>
      \<exists>x d. s3_GetObject S cl b k so' = Inr (Inl x, d) \<and> xe_StatusCode x = Some 404"
    and get_remove_other: "s3_RemoveObject S cl b k so = (so', None) \<Longrightarrow> (b', k') \<noteq> (b, k) \<Longrightarrow>
      s3_GetObject S cl b' k' so' = s3_GetObject S cl b' k' so"
begin

lemma put_remove: "s3_PutObject S cl b k rd len ct so = (so', Inr info) \<Longrightarrow> s3_RemoveObject S cl b k so' = (so'', None) \<Longrightarrow>
    (b', k') \<noteq> (b, k) \<Longrightarrow> s3_GetObject S cl b' k' so'' = s3_GetObject S cl b' k' so"
  using get_put_other get_remove_other by metis

end

text \<open>A service that keeps the objects of all buckets in one association list.\<close>

type_synonym mem_objects = "((string \<times> string) \<times> bytes \<times> string) list"

definition mem_stat :: "string \<Rightarrow> bytes \<times> string \<Rightarrow> object_stat" where
  "mem_stat k = (\<lambda>(d, ct). \<lparr>os_Key = k, os_Size = of_nat (length d), os_ETag = [], os_LastModified = 0, os_ContentType = ct\<rparr>)"

definition mem_s3 :: "mem_objects s3_service" where
  "mem_s3 = \<lparr>s3_New = (\<lambda>_ _ _. None),
     s3_ListObjects = (\<lambda>cl b p rec so. map (\<lambda>((b, k), x). Inr (mem_stat k x)) (filter (\<lambda>((b', k), x). b' = b \<and> HasPrefix k p) so)),
     s3_PutObject = (\<lambda>cl b k (d, err) len ct so.
        if k = [] then (so, Inl (Err ''Object name cannot be empty''))
        else case err of Some e \<Rightarrow> (so, Inl e) | None \<Rightarrow> (AList.update (b, k) (d, ct) so, Inr (mem_stat k (d, [])))),
     s3_GetObject = (\<lambda>cl b k so. case map_of so (b, k) of
        None \<Rightarrow> Inr (Inl \<lparr>xe_error = Err ''The specified key does not exist.'', xe_StatusCode = Some 404\<rparr>, [])
      | Some x \<Rightarrow> Inr (Inr (mem_stat k x), fst x)),
     s3_RemoveObject = (\<lambda>cl b k so. (AList.delete (b, k) so, None))\<rparr>"

interpretation mem: object_store mem_s3
  by unfold_locales (auto simp: mem_s3_def mem_stat_def map_of_update map_of_delete split: if_splits option.splits prod.splits)

text \<open>Once a handler has had a client, the client is there for the next ones.\<close>

lemma s3Client_memo: "s3Client sv S ob sw = (sw', Inr cl) \<Longrightarrow> sw_s3 sw' = Some cl \<and> sw_remote sw' = sw_remote sw \<and> sw_s3 sw \<in> {None, Some cl}"
  by (auto simp: s3Client_def Let_def split: option.splits sum.splits prod.splits)

lemma s3Client_again: "sw_s3 sw = Some cl \<Longrightarrow> s3Client sv S ob sw = (sw, Inr cl)"
  by (simp add: s3Client_def)

lemma no_client_status: "w_Status (no_client e) \<in> {500, 503}"
  by (simp add: no_client_def recovered_def httpError_def)

lemma put_created:
  assumes "handlePutObject len sv S ob r sw = (sw1, resp)" "w_Status resp = 201"
  obtains cl so info ct where "sw_s3 sw1 = Some cl" "sw_remote sw1 = so" "sw_s3 sw \<in> {None, Some cl}" "get0 (r_Query r) ''key'' \<noteq> []"
    "ct = (if get0 (r_Header r) ''content-type'' = [] then ''application/octet-stream'' else get0 (r_Header r) ''content-type'')"
    "s3_PutObject S cl (PathValue r ''name'') (TrimPrefix (get0 (r_Query r) ''key'') ''/'')
       (case r_Body r of None \<Rightarrow> ([], None) | Some b \<Rightarrow> b) len ct (sw_remote sw) = (so, Inr info)"
proof -
  obtain sw' c where c: "s3Client sv S ob sw = (sw', c)" by fastforce
  have k: "get0 (r_Query r) ''key'' \<noteq> []" using assms by (auto simp: handlePutObject_def httpError_def)
  have t: "(if HasPrefix k ''/'' then TrimPrefix k ''/'' else k) = TrimPrefix k ''/''" for k by (simp add: TrimPrefix_def)
  have "c \<noteq> Inl e" for e
    using assms c k no_client_status [of e] by (auto simp: handlePutObject_def t)
  then obtain cl where cl: "c = Inr cl" by (cases c) auto
  note m = s3Client_memo [OF c [unfolded cl]]
  obtain so i where p: "s3_PutObject S cl (PathValue r ''name'') (TrimPrefix (get0 (r_Query r) ''key'') ''/'')
      (case r_Body r of None \<Rightarrow> ([], None) | Some b \<Rightarrow> b) len
      (if get0 (r_Header r) ''content-type'' = [] then ''application/octet-stream'' else get0 (r_Header r) ''content-type'') (sw_remote sw) = (so, i)" by fastforce
  have "sw1 = sw'\<lparr>sw_remote := so\<rparr>" "i \<noteq> Inl e" for e
    using assms c k p m by (auto simp: handlePutObject_def t cl httpError_def Let_def split: sum.splits)
  then show ?thesis using p m k by (cases i) (auto intro!: that)
qed

lemma object_life:
  assumes "object_store S" "handlePutObject len sv S ob r sw = (sw1, resp)" "w_Status resp = 201" "r_Body r = Some (d, None)"
    and "PathValue r' ''name'' = PathValue r ''name''" "get0 (r_Query r') ''key'' = TrimPrefix (get0 (r_Query r) ''key'') ''/''"
    and "get0 (r_Query r') ''key'' \<noteq> []" "handleDeleteObject sv S ob3 r' sw1 = (sw2, noContent)"
    and "(PathValue q ''name'', get0 (r_Query q) ''key'') \<noteq> (PathValue r' ''name'', get0 (r_Query r') ''key'')" "sw_s3 sw \<noteq> None"
  shows "\<exists>hs. handleGetObject sv S ob2 r' sw1 = (sw1, \<lparr>w_Status = 200, w_Header = hs, w_Body = Text d\<rparr>) \<and>
        map_of hs ''content-type'' = Some (if get0 (r_Header r) ''content-type'' = [] then ''application/octet-stream'' else get0 (r_Header r) ''content-type'')"
    and "handleGetObject sv S ob4 r' sw2 = (sw2, httpError 404 ''object not found'')"
    and "snd (handleGetObject sv S ob5 q sw1) = snd (handleGetObject sv S ob5 q sw)"
    and "snd (handleGetObject sv S ob5 q sw2) = snd (handleGetObject sv S ob5 q sw)"
proof -
  obtain cl so info ct where p: "sw_s3 sw1 = Some cl" "sw_remote sw1 = so" "sw_s3 sw \<in> {None, Some cl}"
    and ct: "ct = (if get0 (r_Header r) ''content-type'' = [] then ''application/octet-stream'' else get0 (r_Header r) ''content-type'')"
    and put0: "s3_PutObject S cl (PathValue r ''name'') (TrimPrefix (get0 (r_Query r) ''key'') ''/'')
      (case r_Body r of None \<Rightarrow> ([], None) | Some b \<Rightarrow> b) len ct (sw_remote sw) = (so, Inr info)"
    by (rule put_created [OF assms(2,3)])
  have put: "s3_PutObject S cl (PathValue r' ''name'') (get0 (r_Query r') ''key'') (d, None) len ct (sw_remote sw) = (so, Inr info)"
    using put0 assms(4-6) by simp
  note c1 = s3Client_again [OF p(1)]
  obtain stat where g: "s3_GetObject S cl (PathValue r' ''name'') (get0 (r_Query r') ''key'') so = Inr (Inr stat, d)" "os_ContentType stat = ct"
    using object_store.get_put [OF assms(1) put] by blast
  have "ct \<noteq> []" by (simp add: ct)
  then show "\<exists>hs. handleGetObject sv S ob2 r' sw1 = (sw1, \<lparr>w_Status = 200, w_Header = hs, w_Body = Text d\<rparr>) \<and>
      map_of hs ''content-type'' = Some (if get0 (r_Header r) ''content-type'' = [] then ''application/octet-stream'' else get0 (r_Header r) ''content-type'')"
    using g c1 p assms(7) by (simp add: handleGetObject_def object_headers_def ct)
  obtain so2 where rm: "s3_RemoveObject S cl (PathValue r' ''name'') (get0 (r_Query r') ''key'') so = (so2, None)" and sw2: "sw2 = sw1\<lparr>sw_remote := so2\<rparr>"
    using assms(7,8) c1 p by (auto simp: handleDeleteObject_def noContent_def httpError_def split: prod.splits option.splits)
  have c2: "s3Client sv S ob sw2 = (sw2, Inr cl)" for ob by (rule s3Client_again) (simp add: sw2 p)
  obtain x e where "s3_GetObject S cl (PathValue r' ''name'') (get0 (r_Query r') ''key'') so2 = Inr (Inl x, e)" "xe_StatusCode x = Some 404"
    using object_store.get_remove [OF assms(1) rm] by blast
  then show "handleGetObject sv S ob4 r' sw2 = (sw2, httpError 404 ''object not found'')"
    using c2 assms(7) by (simp add: handleGetObject_def sw2)
  have c0: "s3Client sv S ob sw = (sw, Inr cl)" for ob by (rule s3Client_again) (use p(3) assms(10) in auto)
  show "snd (handleGetObject sv S ob5 q sw1) = snd (handleGetObject sv S ob5 q sw)"
    using object_store.get_put_other [OF assms(1) put assms(9)] c0 c1 p by (simp add: handleGetObject_def Let_def)
  show "snd (handleGetObject sv S ob5 q sw2) = snd (handleGetObject sv S ob5 q sw)"
    using object_store.put_remove [OF assms(1) put rm assms(9)] c0 c2 by (simp add: handleGetObject_def sw2 Let_def)
qed


text \<open>
  The project of the path is not looked at: the handlers serve a bucket of any project under any
  other, and buckets the store does not know.
\<close>

lemma objects_ignore_project:
  fixes r :: request
  defines "r' \<equiv> \<lambda>p. r\<lparr>r_PathValue := AList.update ''project'' p (r_PathValue r)\<rparr>"
  shows "handleGetObject sv S ob (r' p) sw = handleGetObject sv S ob r sw"
    "handlePutObject len sv S ob (r' p) sw = handlePutObject len sv S ob r sw"
    "handleDeleteObject sv S ob (r' p) sw = handleDeleteObject sv S ob r sw"
    "handleListObjects sv S ob (r' p) sw = handleListObjects sv S ob r sw"
  by (simp_all add: r'_def handleGetObject_def handlePutObject_def handleDeleteObject_def handleListObjects_def
      object_headers_def get0_def map_of_update Let_def split: prod.splits sum.splits)

section \<open>Witnesses\<close>

definition object_request :: "string \<Rightarrow> request" where
  "object_request k = (demo_request ''PUT'' [] [])\<lparr>r_PathValue := [(''name'', ''b'')], r_Query := [(''key'', k)], r_Body := Some (''hi'', None)\<rparr>"

definition object_world :: "(memdb, stub, fn_stub, fn_stub, mem_objects) s3_world" where
  "object_world = \<lparr>sw_world = demo_world fresh_store, sw_s3 = Some \<lparr>sc_endpoint = ''127.0.0.1:3900'', sc_keyID = ''i'', sc_secret = ''s''\<rparr>, sw_remote = []\<rparr>"

lemmas object_eval = object_request_def object_world_def handlePutObject_def handleGetObject_def handleDeleteObject_def s3Client_def
  demo_request_def get0_def mem_s3_def TrimPrefix_def HasPrefix_def writeJSON_def httpError_def noContent_def Let_def

text \<open>An upload drops one leading slash of the key, a download does not: such an object is not found under the name it was given.\<close>

lemma leading_slash_lost:
  "case handlePutObject 2 demo_server mem_s3 demo_obs (object_request ''/a'') object_world of (sw, w) \<Rightarrow>
     w_Status w = 201 \<and> w_Status (snd (handleGetObject demo_server mem_s3 demo_obs (object_request ''/a'') sw)) = 404"
  by (simp add: object_eval)


end
