(* ===== verification/Storage.thy ===== *)
theory Storage
  imports Http Paths Polling
begin

text \<open>
  The supervisor of the Garage process (\<^verbatim>\<open>internal/storage/garage/supervisor.go\<close>,
  \<^verbatim>\<open>lifecycle.go\<close>) and the configuration of a node (\<^verbatim>\<open>internal/config/config.go\<close>).

  A process and the goroutine that waits for it are an entry of \<open>sp_procs\<close>; channels are an
  entry of \<open>sp_chans\<close>, closed or not. What the operating system answers is an argument.
\<close>

section \<open>The Garage process\<close>

record garage_config =
  gc_DataDir :: string
  gc_MetadataDir :: string
  gc_Binary :: string
  gc_RPCSecret :: string
  gc_RPCBindAddr :: string
  gc_S3BindAddr :: string
  gc_WebBindAddr :: string
  gc_AdminBindAddr :: string
  gc_AdminToken :: string
  gc_ReplicationFactor :: int
  gc_Zone :: string
  gc_NodeID :: string
  gc_SingleNode :: bool

record supervisor =
  su_cfg :: garage_config
  su_cmd :: "nat option"
  su_done :: "nat option"

record garage_proc =
  gp_args :: "string list"
  gp_cancelled :: bool
  gp_running :: bool
  gp_waiter :: bool

record sup_world =
  sp_sup :: supervisor
  sp_procs :: "garage_proc list"
  sp_chans :: "bool list"
  sp_files :: "(string \<times> bytes) list"
  sp_panic :: bool

definition NewSupervisor :: "garage_config \<Rightarrow> supervisor" where
  "NewSupervisor cfg =
     (let cfg = (if gc_Binary cfg = [] then cfg\<lparr>gc_Binary := ''garage''\<rparr> else cfg);
          cfg = (if gc_Zone cfg = [] then cfg\<lparr>gc_Zone := ''selfcloud''\<rparr> else cfg)
      in \<lparr>su_cfg = cfg, su_cmd = None, su_done = None\<rparr>)"

text \<open>The template: a line of the file, a quoted setting, and the whole.\<close>

definition toml_line :: "string \<Rightarrow> string" where
  "toml_line l = l @ [CHR 0x0A]"

definition toml_str :: "string \<Rightarrow> string \<Rightarrow> string" where
  "toml_str k v = toml_line (k @ '' = '' @ [CHR 0x22] @ v @ [CHR 0x22])"

definition configTemplate :: "garage_config \<Rightarrow> string" where
  "configTemplate c = concat
     [toml_str ''metadata_dir'' (gc_MetadataDir c), toml_str ''data_dir'' (gc_DataDir c), toml_str ''db_engine'' ''lmdb'', toml_line [],
      toml_line (''replication_factor = '' @ Itoa (gc_ReplicationFactor c)), toml_line [],
      toml_str ''rpc_bind_addr'' (gc_RPCBindAddr c), toml_str ''rpc_public_addr'' (gc_RPCBindAddr c), toml_str ''rpc_secret'' (gc_RPCSecret c), toml_line [],
      toml_line ''[s3_api]'', toml_str ''api_bind_addr'' (gc_S3BindAddr c), toml_str ''s3_region'' ''selfcloud'',
      toml_str ''root_domain'' ''.s3.selfcloud.local'', toml_line [],
      toml_line ''[s3_web]'', toml_str ''bind_addr'' (gc_WebBindAddr c), toml_str ''root_domain'' ''.web.selfcloud.local'',
      toml_str ''index'' ''index.html'', toml_line [],
      toml_line ''[admin]'', toml_str ''api_bind_addr'' (gc_AdminBindAddr c), toml_str ''admin_token'' (gc_AdminToken c),
      toml_str ''metrics_token'' (gc_AdminToken c)]"

text \<open>What starting the process meets.\<close>

record start_obs =
  so_LookPath :: "error option"
  so_MkdirAll :: "string \<Rightarrow> error option"
  so_WriteFile :: "string \<Rightarrow> error option"
  so_Start :: "error option"

definition garage_toml :: "garage_config \<Rightarrow> string" where
  "garage_toml c = FPJoin [Dir (gc_MetadataDir c), ''garage.toml'']"

definition writeConfig :: "start_obs \<Rightarrow> sup_world \<Rightarrow> sup_world \<times> (error + string)" where
  "writeConfig so w =
     (let c = su_cfg (sp_sup w) in
      case so_MkdirAll so (Dir (gc_MetadataDir c)) of Some e \<Rightarrow> (w, Inl e)
      | None \<Rightarrow>
          (case so_WriteFile so (garage_toml c) of Some e \<Rightarrow> (w, Inl e)
           | None \<Rightarrow> (w\<lparr>sp_files := AList.update (garage_toml c) (configTemplate c) (sp_files w)\<rparr>, Inr (garage_toml c))))"

definition server_args :: "garage_config \<Rightarrow> string \<Rightarrow> string list" where
  "server_args c cfgPath = [''-c'', cfgPath, ''server''] @ (if gc_SingleNode c then [''--single-node''] else [])"

definition launch :: "string \<Rightarrow> sup_world \<Rightarrow> sup_world" where
  "launch cfgPath w = w\<lparr>
     sp_sup := (sp_sup w)\<lparr>su_cmd := Some (length (sp_procs w)), su_done := Some (length (sp_chans w))\<rparr>,
     sp_procs := sp_procs w @ [\<lparr>gp_args = server_args (su_cfg (sp_sup w)) cfgPath, gp_cancelled = False, gp_running = True, gp_waiter = True\<rparr>],
     sp_chans := sp_chans w @ [False]\<rparr>"

definition sup_Start :: "start_obs \<Rightarrow> sup_world \<Rightarrow> sup_world \<times> error option" where
  "sup_Start so w =
     (let c = su_cfg (sp_sup w) in
      if su_cmd (sp_sup w) \<noteq> None then (w, None)
      else if so_LookPath so \<noteq> None then (w, Some (Err ''garage binary not found in PATH''))
      else case writeConfig so w of
          (w, Inl e) \<Rightarrow> (w, Some (Err (''write garage config: '' @ errorString e)))
        | (w, Inr cfgPath) \<Rightarrow>
            (case so_MkdirAll so (gc_DataDir c) of Some e \<Rightarrow> (w, Some e)
             | None \<Rightarrow>
                 (case so_MkdirAll so (gc_MetadataDir c) of Some e \<Rightarrow> (w, Some e)
                  | None \<Rightarrow>
                      (case so_Start so of Some e \<Rightarrow> (w, Some (Err (''start garage: '' @ errorString e)))
                       | None \<Rightarrow> (launch cfgPath w, None)))))"

text \<open>
  \<^verbatim>\<open>Stop\<close> up to the \<^verbatim>\<open>select\<close>, with the process and the channel it goes on with; and the kill after
  five seconds without the channel being closed. It returns no error either way.
\<close>

definition stop_begin :: "sup_world \<Rightarrow> sup_world \<times> (nat \<times> nat option) option" where
  "stop_begin w =
     (let s = sp_sup w; w' = w\<lparr>sp_sup := s\<lparr>su_cmd := None, su_done := None\<rparr>\<rparr> in
      case su_cmd s of None \<Rightarrow> (w', None)
      | Some i \<Rightarrow> (w'\<lparr>sp_procs := (sp_procs w)[i := (sp_procs w ! i)\<lparr>gp_cancelled := True\<rparr>]\<rparr>, Some (i, su_done s)))"

definition stop_kill :: "nat \<Rightarrow> sup_world \<Rightarrow> sup_world" where
  "stop_kill i w = w\<lparr>sp_procs := (sp_procs w)[i := (sp_procs w ! i)\<lparr>gp_running := False\<rparr>]\<rparr>"

text \<open>
  The goroutine of \<^verbatim>\<open>Start\<close> once its process is gone: it closes the channel the supervisor holds
  by then. Closing a nil or a closed channel panics.
\<close>

definition waiter_close :: "nat \<Rightarrow> sup_world \<Rightarrow> sup_world" where
  "waiter_close i w =
     (let w' = w\<lparr>sp_procs := (sp_procs w)[i := (sp_procs w ! i)\<lparr>gp_waiter := False\<rparr>]\<rparr> in
      case su_done (sp_sup w) of None \<Rightarrow> w'\<lparr>sp_panic := True\<rparr>
      | Some ch \<Rightarrow> if sp_chans w ! ch then w'\<lparr>sp_panic := True\<rparr> else w'\<lparr>sp_chans := (sp_chans w)[ch := True]\<rparr>)"

section \<open>Commands of the running service\<close>

text \<open>
  \<^verbatim>\<open>Cli\<close>: \<open>run before argv\<close> is what the command writes after the commands \<open>before\<close>, standard output or
  an error with standard error. The state is the list of commands run.
\<close>

definition Cli ::
  "(string list list \<Rightarrow> string list \<Rightarrow> (error \<times> bytes) + bytes) \<Rightarrow> supervisor \<Rightarrow> string list \<Rightarrow> string list list \<Rightarrow>
   string list list \<times> (error + bytes)" where
  "Cli run s args cmds =
     (let argv = [gc_Binary (su_cfg s), ''-c'', garage_toml (su_cfg s)] @ args in
      (cmds @ [argv],
       case run cmds argv of
         Inl (e, stderr) \<Rightarrow> Inl (Err (''garage '' @ Join args '' '' @ '': '' @ errorString e @ '' ('' @ TrimSpace stderr @ '')''))
       | Inr out \<Rightarrow> Inr out))"

definition node_id :: "bytes \<Rightarrow> string" where
  "node_id out =
     (let i = TrimSpace out in case IndexByte i (CHR ''@'') of Some at \<Rightarrow> (if at > 0 then take at i else i) | None \<Rightarrow> i)"

definition EnsureLayout ::
  "(string list list \<Rightarrow> string list \<Rightarrow> (error \<times> bytes) + bytes) \<Rightarrow> supervisor \<Rightarrow> int \<Rightarrow> string list list \<Rightarrow> string list list \<times> error option" where
  "EnsureLayout run s capacityGB cmds =
     (if \<not> gc_SingleNode (su_cfg s) then (cmds, None)
      else let capacityGB = (if capacityGB \<le> 0 then 100 else capacityGB) in
        case Cli run s [''node'', ''id'', ''-q''] cmds of
          (cmds, Inl e) \<Rightarrow> (cmds, Some (Err (''garage node id: '' @ errorString e)))
        | (cmds, Inr out) \<Rightarrow>
            if TrimSpace out = [] then (cmds, Some (Err ''garage returned empty node id''))
            else
              let (cmds, _) = Cli run s [''layout'', ''assign'', node_id out, ''-z'', gc_Zone (su_cfg s), ''-c'', Itoa capacityGB @ ''G''] cmds;
                  (cmds, _) = Cli run s [''layout'', ''apply'', ''--version'', ''1''] cmds
              in (cmds, None))"

definition AddNode ::
  "(string list list \<Rightarrow> string list \<Rightarrow> (error \<times> bytes) + bytes) \<Rightarrow> supervisor \<Rightarrow> string \<Rightarrow> string list list \<Rightarrow> string list list \<times> error option" where
  "AddNode run s peerAddr cmds =
     (case Cli run s [''node'', ''connect'', peerAddr] cmds of (cmds, r) \<Rightarrow> (cmds, case r of Inl e \<Rightarrow> Some e | Inr _ \<Rightarrow> None))"

text \<open>
  \<open>ans\<close> is the outcome of the request: an error, or the status code with its text. A request that
  cannot be made is a nil pointer.
\<close>

definition rf_request :: "supervisor \<Rightarrow> int \<Rightarrow> garage_request" where
  "rf_request s n = \<lparr>gq_method = ''POST'', gq_url = ''http://'' @ gc_AdminBindAddr (su_cfg s) @ ''/v1/cluster/options'',
     gq_authorization = ''Bearer '' @ gc_AdminToken (su_cfg s), gq_body = Some (JObj [(''replicationFactor'', JInt n)])\<rparr>"

definition SetReplicationFactor ::
  "(string \<Rightarrow> string \<Rightarrow> error option) \<Rightarrow> (garage_request \<Rightarrow> error + (int \<times> string)) \<Rightarrow> supervisor \<Rightarrow> int \<Rightarrow> error option" where
  "SetReplicationFactor newreq ans s n =
     (let rq = rf_request s n in
      if newreq (gq_method rq) (gq_url rq) \<noteq> None then Some ErrPanic
      else case ans rq of Inl e \<Rightarrow> Some e
        | Inr (code, status) \<Rightarrow> if code \<ge> 300 then Some (Err (''garage admin returned '' @ status)) else None)"

text \<open>
  \<^verbatim>\<open>WaitReady\<close>: \<open>ans i\<close> is the outcome of attempt \<open>i\<close>, \<open>clk i\<close> the time after it and \<open>ctx i\<close> whether the
  context has ended during the sleep. The last error is nil when the service answered 5xx.
\<close>

definition ready_step ::
  "(nat \<Rightarrow> error + int) \<Rightarrow> time \<Rightarrow> (nat \<Rightarrow> time) \<Rightarrow> (nat \<Rightarrow> error option) \<Rightarrow> nat \<Rightarrow> error option option" where
  "ready_step ans start clk ctx i =
     (let failed = (if clk i > start + 30 * second
                    then Some (Some (Err (''garage admin endpoint never came up: '' @
                           (case ans i of Inl e \<Rightarrow> errorString e | Inr _ \<Rightarrow> ''%!w(<nil>)''))))
                    else case ctx i of Some e \<Rightarrow> Some (Some e) | None \<Rightarrow> None)
      in case ans i of Inl e \<Rightarrow> failed | Inr code \<Rightarrow> if code < 500 then Some None else failed)"

definition WaitReady ::
  "(string \<Rightarrow> string \<Rightarrow> error option) \<Rightarrow> (nat \<Rightarrow> error + int) \<Rightarrow> time \<Rightarrow> (nat \<Rightarrow> time) \<Rightarrow> (nat \<Rightarrow> error option) \<Rightarrow> supervisor \<Rightarrow> error option option" where
  "WaitReady newreq ans start clk ctx s =
     (if newreq ''GET'' (''http://'' @ gc_AdminBindAddr (su_cfg s) @ ''/v1/health'') \<noteq> None then Some (Some ErrPanic)
      else poll (ready_step ans start clk ctx) 0)"

section \<open>The configuration of a node\<close>

record node_config =
  nc_NodeID :: string
  nc_DataDir :: string
  nc_BindAddr :: string
  nc_AdvertiseAddr :: string
  nc_APIAddr :: string
  nc_RaftAddr :: string
  nc_GossipAddr :: string
  nc_GarageRPCAddr :: string
  nc_S3Addr :: string
  nc_IngressAddr :: string
  nc_Dev :: bool
  nc_LogLevel :: string
  nc_TLSCertFile :: string
  nc_TLSKeyFile :: string
  nc_DisableTLS :: bool
  nc_JoinAddr :: string
  nc_JoinToken :: string
  nc_Bootstrap :: bool
  nc_ContainerdSock :: string
  nc_UIDistDir :: string
  nc_ForceMasterKeyRotation :: bool

definition config_Default :: node_config where
  "config_Default = \<lparr>nc_NodeID = [], nc_DataDir = ''/var/lib/selfcloud'', nc_BindAddr = ''0.0.0.0'', nc_AdvertiseAddr = [],
     nc_APIAddr = ''0.0.0.0:8443'', nc_RaftAddr = ''127.0.0.1:7000'', nc_GossipAddr = ''127.0.0.1:7001'', nc_GarageRPCAddr = ''0.0.0.0:3901'',
     nc_S3Addr = ''0.0.0.0:3900'', nc_IngressAddr = ''0.0.0.0:8080'', nc_Dev = False, nc_LogLevel = ''info'', nc_TLSCertFile = [],
     nc_TLSKeyFile = [], nc_DisableTLS = False, nc_JoinAddr = [], nc_JoinToken = [], nc_Bootstrap = False,
     nc_ContainerdSock = ''/run/containerd/containerd.sock'', nc_UIDistDir = [], nc_ForceMasterKeyRotation = False\<rparr>"

definition config_Path :: "node_config \<Rightarrow> string list \<Rightarrow> string" where
  "config_Path c parts = FPJoin (nc_DataDir c # parts)"

text \<open>The directories made so far are the state; \<open>mk\<close> is what \<^verbatim>\<open>os.MkdirAll\<close> answers and \<open>q\<close> the verb \<^verbatim>\<open>%q\<close>.\<close>

fun make_subdirs :: "(string \<Rightarrow> error option) \<Rightarrow> string \<Rightarrow> string list \<Rightarrow> string list \<Rightarrow> string list \<times> error option" where
  "make_subdirs mk root [] dirs = (dirs, None)"
| "make_subdirs mk root (sub # ds) dirs =
     (case mk (FPJoin [root, sub]) of
        Some e \<Rightarrow> (dirs, Some (Err (''create '' @ sub @ '' dir: '' @ errorString e)))
      | None \<Rightarrow> make_subdirs mk root ds (dirs @ [FPJoin [root, sub]]))"

definition config_Validate ::
  "(string \<Rightarrow> string) \<Rightarrow> (string \<Rightarrow> error option) \<Rightarrow> node_config \<Rightarrow> string list \<Rightarrow> string list \<times> error option" where
  "config_Validate q mk c dirs =
     (if nc_DataDir c = [] then (dirs, Some (Err ''data-dir must be set''))
      else if CHR '':'' \<notin> set (nc_APIAddr c) then (dirs, Some (Err (''api-addr must be host:port, got '' @ q (nc_APIAddr c))))
      else case mk (nc_DataDir c) of Some e \<Rightarrow> (dirs, Some (Err (''create data dir: '' @ errorString e)))
        | None \<Rightarrow> make_subdirs mk (nc_DataDir c) [''raft'', ''tls'', ''garage'', ''containers'', ''functions'', ''tmp''] (dirs @ [nc_DataDir c]))"

end
