(* ===== verification/Storage_Props.thy ===== *)
theory Storage_Props
  imports Storage
begin

text \<open>
  Properties of the supervisor of Garage and of the configuration of a node: one process at a
  time and with the configuration on disk, the wait for the service, what a stop does to the
  goroutine that waits for the process, the directories of a node.
\<close>

section \<open>The process\<close>

definition sup_init :: "garage_config \<Rightarrow> sup_world" where
  "sup_init cfg = \<lparr>sp_sup = NewSupervisor cfg, sp_procs = [], sp_chans = [], sp_files = [], sp_panic = False\<rparr>"

text \<open>
  The supervisor at work: calls of its methods, processes that end by themselves or are killed,
  and the goroutines that wait for them. A panic ends the program.
\<close>

inductive sup_step :: "sup_world \<Rightarrow> sup_world \<Rightarrow> bool" where
  start: "\<not> sp_panic w \<Longrightarrow> sup_step w (fst (sup_Start so w))"
| stop: "\<not> sp_panic w \<Longrightarrow> sup_step w (fst (stop_begin w))"
| exits: "\<not> sp_panic w \<Longrightarrow> i < length (sp_procs w) \<Longrightarrow> sup_step w (stop_kill i w)"
| waited: "\<not> sp_panic w \<Longrightarrow> i < length (sp_procs w) \<Longrightarrow> \<not> gp_running (sp_procs w ! i) \<Longrightarrow> gp_waiter (sp_procs w ! i) \<Longrightarrow>
    sup_step w (waiter_close i w)"

definition live :: "sup_world \<Rightarrow> nat set" where
  "live w = {i. i < length (sp_procs w) \<and> \<not> gp_cancelled (sp_procs w ! i)}"

definition all_args :: "string list \<Rightarrow> garage_proc list \<Rightarrow> bool" where
  "all_args a ps \<longleftrightarrow> (\<forall>p \<in> set ps. gp_args p = a)"

definition sup_ok :: "garage_config \<Rightarrow> sup_world \<Rightarrow> bool" where
  "sup_ok cfg w \<longleftrightarrow> su_cfg (sp_sup w) = cfg \<and> live w = set_option (su_cmd (sp_sup w)) \<and>
     (su_cmd (sp_sup w) = None \<longleftrightarrow> su_done (sp_sup w) = None) \<and>
     all_args (server_args cfg (garage_toml cfg)) (sp_procs w) \<and>
     (sp_procs w \<noteq> [] \<longrightarrow> map_of (sp_files w) (garage_toml cfg) = Some (configTemplate cfg))"

lemma live_update [simp]:
  "gp_cancelled p = gp_cancelled (sp_procs w ! i) \<Longrightarrow> live (w\<lparr>sp_procs := (sp_procs w)[i := p]\<rparr>) = live w"
  by (cases "i < length (sp_procs w)") (auto simp: live_def nth_list_update split: if_splits)

lemma live_cancel: "i < length (sp_procs w) \<Longrightarrow> gp_cancelled p \<Longrightarrow> live (w\<lparr>sp_sup := s, sp_procs := (sp_procs w)[i := p]\<rparr>) = live w - {i}"
  by (auto simp: live_def nth_list_update)

lemma live_launch: "live (launch p w) = insert (length (sp_procs w)) (live w)"
  by (auto simp: live_def launch_def nth_append less_Suc_eq)

lemma live_cong [simp]: "live (w\<lparr>sp_files := f\<rparr>) = live w" "live (w\<lparr>sp_panic := b\<rparr>) = live w" "live (w\<lparr>sp_chans := c\<rparr>) = live w" "live (w\<lparr>sp_sup := s\<rparr>) = live w"
  by (simp_all add: live_def)

lemma all_args_simps [simp]: "all_args a []" "all_args a (ps @ [p]) \<longleftrightarrow> all_args a ps \<and> gp_args p = a"
  by (auto simp: all_args_def)

lemma all_args_update [simp]: "all_args a ps \<Longrightarrow> i < length ps \<Longrightarrow> gp_args q = gp_args (ps ! i) \<Longrightarrow> all_args a (ps[i := q])"
  unfolding all_args_def by (metis in_set_conv_nth length_list_update nth_list_update_eq nth_list_update_neq)

lemma sup_Start_cases:
  obtains "fst (sup_Start so w) = w"
  | "fst (sup_Start so w) = w\<lparr>sp_files := AList.update (garage_toml (su_cfg (sp_sup w))) (configTemplate (su_cfg (sp_sup w))) (sp_files w)\<rparr>"
  | "su_cmd (sp_sup w) = None"
    "fst (sup_Start so w) = launch (garage_toml (su_cfg (sp_sup w)))
       (w\<lparr>sp_files := AList.update (garage_toml (su_cfg (sp_sup w))) (configTemplate (su_cfg (sp_sup w))) (sp_files w)\<rparr>)"
  by (fastforce simp: sup_Start_def writeConfig_def Let_def split: option.splits if_splits)

lemma sup_step_ok: "sup_step w w' \<Longrightarrow> sup_ok cfg w \<Longrightarrow> sup_ok cfg w'"
proof (induction rule: sup_step.induct)
  case (start w so)
  show ?case
  proof (cases rule: sup_Start_cases [of so w])
    case 3
    then show ?thesis using start.prems unfolding sup_ok_def 3(2) live_launch by (auto simp: launch_def map_of_update)
  qed (use start.prems in \<open>auto simp: sup_ok_def map_of_update\<close>)
next
  case (stop w)
  show ?case
  proof (cases "su_cmd (sp_sup w)")
    case (Some i)
    then have i: "i < length (sp_procs w)" using stop.prems by (auto simp: sup_ok_def live_def)
    then show ?thesis using stop.prems Some
      unfolding sup_ok_def stop_begin_def by (simp add: live_cancel Let_def)
  qed (use stop.prems in \<open>auto simp: sup_ok_def stop_begin_def Let_def\<close>)
next
  case (exits w i)
  then show ?case unfolding sup_ok_def stop_kill_def by simp
next
  case (waited w i)
  then show ?case 
    unfolding sup_ok_def waiter_close_def by (simp add: Let_def split: option.splits)
qed


text \<open>
  A stop of a running process makes the program panic: the goroutine that waits for the process
  closes the channel of the supervisor, which the stop has set to nil.
\<close>

lemma stop_panics:
  assumes "su_cmd (sp_sup w) = Some i" "i < length (sp_procs w)" "gp_waiter (sp_procs w ! i)" "\<not> sp_panic w"
  shows "\<exists>w'. sup_step\<^sup>*\<^sup>* (fst (stop_begin w)) w' \<and> sp_panic w'"
proof -
  let ?w = "fst (stop_begin w)"
  have w: "\<not> sp_panic ?w" "i < length (sp_procs ?w)" "gp_waiter (sp_procs ?w ! i)" "su_done (sp_sup ?w) = None"
    using assms by (simp_all add: stop_begin_def Let_def)
  have "sup_step ?w (stop_kill i ?w)" using w by (intro sup_step.exits)
  moreover have "sup_step (stop_kill i ?w) (waiter_close i (stop_kill i ?w))" using w by (intro sup_step.waited) (simp_all add: stop_kill_def)
  moreover have "sp_panic (waiter_close i (stop_kill i ?w))" using w by (simp add: waiter_close_def stop_kill_def)
  ultimately show ?thesis by (meson converse_rtranclp_into_rtranclp r_into_rtranclp)
qed

text \<open>A process that has crashed is not replaced: the supervisor still knows it and \<^verbatim>\<open>Start\<close> does nothing.\<close>

lemma crashed_not_restarted: "su_cmd (sp_sup w) \<noteq> None \<Longrightarrow> sup_Start so w = (w, None)"
  by (simp add: sup_Start_def Let_def)

section \<open>Waiting for the service\<close>

lemma wait_ready_ends:
  assumes "\<And>i. clk i + 500000000 \<le> clk (i + 1)" "start \<le> clk 0"
    and "newreq ''GET'' (''http://'' @ gc_AdminBindAddr (su_cfg s) @ ''/v1/health'') = None"
  shows "\<exists>r. WaitReady newreq ans start clk ctx s = Some r \<and>
    (r = None \<longleftrightarrow> (\<exists>n code. ans n = Inr code \<and> code < 500 \<and> (\<forall>i < n. clk i \<le> start + 30 * second \<and> ctx i = None)))"
proof -
  define n where "n = nat (30 * second div 500000000) + 1"
  have "clk 0 + 30 * second < clk n" unfolding n_def by (rule clock_deadline [of clk, OF assms(1)]) simp_all
  then have n: "start + 30 * second < clk n" using assms(2) by linarith
  let ?step = "ready_step ans start clk ctx"
  have "?step n \<noteq> None" using n by (simp add: ready_step_def Let_def split: sum.splits)
  note r = poll_iff [of ?step, OF this]
  have ok: "?step i = Some None \<longleftrightarrow> (\<exists>code. ans i = Inr code \<and> code < 500)" for i
    by (auto simp: ready_step_def Let_def split: sum.splits option.splits)
  have again: "?step i = None \<longleftrightarrow> \<not> (\<exists>code. ans i = Inr code \<and> code < 500) \<and> clk i \<le> start + 30 * second \<and> ctx i = None" for i
    by (auto simp: ready_step_def Let_def split: sum.splits option.splits)
  obtain x where x: "poll ?step 0 = Some x" using r(1) by blast
  have "x = None \<longleftrightarrow> (\<exists>m. ?step m = Some None \<and> (\<forall>j < m. ?step j = None))" using r(2) [of None] x by auto
  also have "\<dots> \<longleftrightarrow> (\<exists>n code. ans n = Inr code \<and> code < 500 \<and> (\<forall>i < n. clk i \<le> start + 30 * second \<and> ctx i = None))"
    (is "_ \<longleftrightarrow> (\<exists>n code. ?Q n code)")
  proof
    assume "\<exists>n code. ?Q n code"
    then have "\<exists>n. \<exists>code. ?Q n code" by blast
    then obtain n where n: "\<exists>code. ?Q n code" "\<forall>m < n. \<not> (\<exists>code. ?Q m code)" using exists_least_iff [of "\<lambda>n. \<exists>code. ?Q n code"] by blast
    then show "\<exists>m. ?step m = Some None \<and> (\<forall>j < m. ?step j = None)" unfolding ok again by (meson less_trans)
  qed (auto simp: ok again)
  finally show ?thesis using x assms(3) by (simp add: WaitReady_def)
qed

section \<open>The directories of a node\<close>

lemma Validate_directories:
  assumes "config_Validate q mk c dirs = (dirs', None)"
  shows "dirs' = dirs @ nc_DataDir c # map (\<lambda>sub. config_Path c [sub]) [''raft'', ''tls'', ''garage'', ''containers'', ''functions'', ''tmp'']"
    "\<forall>d \<in> set (drop (length dirs) dirs'). mk d = None"
  using assms by (auto simp: config_Validate_def config_Path_def split: if_splits option.splits)

section \<open>Witnesses\<close>

definition demo_garage :: garage_config where
  "demo_garage = \<lparr>gc_DataDir = ''/d/data'', gc_MetadataDir = ''/d/meta'', gc_Binary = [], gc_RPCSecret = ''s'', gc_RPCBindAddr = ''0.0.0.0:3901'',
     gc_S3BindAddr = ''0.0.0.0:3900'', gc_WebBindAddr = ''0.0.0.0:3902'', gc_AdminBindAddr = ''127.0.0.1:3903'', gc_AdminToken = ''t'',
     gc_ReplicationFactor = 1, gc_Zone = [], gc_NodeID = ''n1'', gc_SingleNode = True\<rparr>"

definition all_well :: start_obs where
  "all_well = \<lparr>so_LookPath = None, so_MkdirAll = (\<lambda>_. None), so_WriteFile = (\<lambda>_. None), so_Start = None\<rparr>"


end
