(* ===== verification/Installer.thy ===== *)
theory Installer
  imports Paths
begin

text \<open>
  First boot of a node, \<^verbatim>\<open>internal/installer/installer.go\<close>: the TLS pair, the systemd unit and the
  file of the bootstrap token. Keys, serial numbers and certificates come from the libraries of
  the language and are arguments.
\<close>

section \<open>The TLS pair\<close>

type_synonym disk_files = "(string \<times> bytes \<times> nat) list"

text \<open>The fields of the certificate that the code sets; \<open>ct_Serial\<close> is the random serial number.\<close>

record certificate =
  ct_Serial :: int
  ct_CommonName :: string
  ct_NotBefore :: time
  ct_NotAfter :: time
  ct_IsCA :: bool
  ct_IPs :: "string list"
  ct_DNSNames :: "string list"

text \<open>
  What generating meets: the private key or an error, the serial number, the certificate and key
  in PEM, and the failures of the file system, a write leaving a prefix of the data or nothing.
\<close>

record tls_obs =
  tl_MkdirAll :: "string \<Rightarrow> error option"
  tl_GenerateKey :: "error + bytes"
  tl_Serial :: "error + int"
  tl_now :: time
  tl_now' :: time
  tl_Create :: "certificate \<Rightarrow> bytes \<Rightarrow> error + bytes"
  tl_MarshalKey :: "bytes \<Rightarrow> error + bytes"
  tl_WriteFile :: "string \<Rightarrow> (error \<times> nat option) option"

text \<open>\<^verbatim>\<open>os.WriteFile\<close> keeps the mode of a file that exists. The modes are 0644 and 0600.\<close>

definition write_file :: "(string \<Rightarrow> (error \<times> nat option) option) \<Rightarrow> string \<Rightarrow> bytes \<Rightarrow> nat \<Rightarrow> disk_files \<Rightarrow> disk_files \<times> error option" where
  "write_file wr p d mode fs =
     (let mode = (case map_of fs p of None \<Rightarrow> mode | Some (_, m) \<Rightarrow> m) in
      case wr p of None \<Rightarrow> (AList.update p (d, mode) fs, None)
      | Some (e, None) \<Rightarrow> (fs, Some e)
      | Some (e, Some n) \<Rightarrow> (AList.update p (take n d, mode) fs, Some e))"

definition tls_template :: "tls_obs \<Rightarrow> int \<Rightarrow> string \<Rightarrow> certificate" where
  "tls_template t serial host = \<lparr>ct_Serial = serial, ct_CommonName = ''selfcloud'', ct_NotBefore = tl_now t,
     ct_NotAfter = tl_now' t + 10 * 365 * 24 * 60 * 60 * second, ct_IsCA = True, ct_IPs = [''127.0.0.1'', ''::1''],
     ct_DNSNames = [''localhost'', ''selfcloud'', host]\<rparr>"

definition cert_file :: "string \<Rightarrow> string" where "cert_file dir = FPJoin [dir, ''tls'', ''cert.pem'']"
definition key_file :: "string \<Rightarrow> string" where "key_file dir = FPJoin [dir, ''tls'', ''key.pem'']"

definition EnsureTLS :: "tls_obs \<Rightarrow> string \<Rightarrow> string \<Rightarrow> disk_files \<Rightarrow> disk_files \<times> (error + string \<times> string)" where
  "EnsureTLS t dir host fs =
     (let certFile = cert_file dir; keyFile = key_file dir in
      if map_of fs certFile \<noteq> None \<and> map_of fs keyFile \<noteq> None then (fs, Inr (certFile, keyFile))
      else case tl_MkdirAll t (Dir certFile) of Some e \<Rightarrow> (fs, Inl e)
      | None \<Rightarrow> (case tl_GenerateKey t of Inl e \<Rightarrow> (fs, Inl e)
      | Inr priv \<Rightarrow> (case tl_Serial t of Inl e \<Rightarrow> (fs, Inl e)
      | Inr serial \<Rightarrow> (case tl_Create t (tls_template t serial host) priv of Inl e \<Rightarrow> (fs, Inl e)
      | Inr certPEM \<Rightarrow> (case tl_MarshalKey t priv of Inl e \<Rightarrow> (fs, Inl e)
      | Inr keyPEM \<Rightarrow> (case write_file (tl_WriteFile t) certFile certPEM 420 fs of (fs, Some e) \<Rightarrow> (fs, Inl e)
      | (fs, None) \<Rightarrow> (case write_file (tl_WriteFile t) keyFile keyPEM 384 fs of (fs, Some e) \<Rightarrow> (fs, Inl e)
      | (fs, None) \<Rightarrow> (fs, Inr (certFile, keyFile)))))))))"

section \<open>The systemd unit\<close>

record unit_params =
  up_BinaryPath :: string
  up_DataDir :: string
  up_APIAddr :: string
  up_RaftAddr :: string
  up_JoinAddr :: string
  up_User :: string
  up_Group :: string

text \<open>\<open>None\<close> is -1; the loop runs over the positions where the rest is long enough.\<close>

function indexOf_from :: "string \<Rightarrow> string \<Rightarrow> nat \<Rightarrow> nat option" where
  "indexOf_from s sub i =
     (if i + length sub \<le> length s then
        if take (length sub) (drop i s) = sub then Some i else indexOf_from s sub (i + 1)
      else None)"
  by pat_completeness auto
termination
  by (relation "measure (\<lambda>(s, sub, i). Suc (length s) - i)") auto

declare indexOf_from.simps [simp del]

definition indexOf :: "string \<Rightarrow> string \<Rightarrow> nat option" where
  "indexOf s sub = indexOf_from s sub 0"

function replace_from :: "nat \<Rightarrow> string \<Rightarrow> string \<Rightarrow> string \<Rightarrow> string" where
  "replace_from i s old new =
     (case indexOf s old of None \<Rightarrow> s
      | Some idx \<Rightarrow>
          let s = take idx s @ new @ drop (idx + length old) s in
          if i > 100 then s else replace_from (i + 1) s old new)"
  by pat_completeness auto
termination
  by (relation "measure (\<lambda>(i, s, old, new). 101 - i)") auto

declare replace_from.simps [simp del]

definition replace :: "string \<Rightarrow> string \<Rightarrow> string \<Rightarrow> string" where
  "replace s old new = replace_from 0 s old new"

definition hole :: "string \<Rightarrow> string" where
  "hole n = ''{{.'' @ n @ ''}}''"

definition unit_line :: "string \<Rightarrow> string" where
  "unit_line l = l @ [CHR 0x0A]"

definition systemdTemplate :: string where
  "systemdTemplate = concat (map unit_line
     [''[Unit]'', ''Description=selfCloud node'', ''After=network-online.target containerd.service'',
      ''Wants=network-online.target'', ''Requires=containerd.service'', [],
      ''[Service]'', ''Type=simple'',
      ''ExecStart={{.BinaryPath}} server --data-dir {{.DataDir}} --api-addr {{.APIAddr}}{{.RaftFlag}}{{.JoinFlag}}'',
      ''Restart=on-failure'', ''RestartSec=2s'', ''User={{.User}}'', ''Group={{.Group}}'', ''LimitNOFILE=65536'', [],
      ''[Install]'', ''WantedBy=multi-user.target''])"

text \<open>The defaults of \<^verbatim>\<open>RenderSystemd\<close> and the two optional flags.\<close>

definition unit_defaults :: "unit_params \<Rightarrow> unit_params" where
  "unit_defaults p =
     (let p = (if up_BinaryPath p = [] then p\<lparr>up_BinaryPath := ''/usr/local/bin/selfcloud''\<rparr> else p);
          p = (if up_DataDir p = [] then p\<lparr>up_DataDir := ''/var/lib/selfcloud''\<rparr> else p);
          p = (if up_APIAddr p = [] then p\<lparr>up_APIAddr := ''0.0.0.0:8443''\<rparr> else p);
          p = (if up_User p = [] then p\<lparr>up_User := ''root''\<rparr> else p)
      in if up_Group p = [] then p\<lparr>up_Group := up_User p\<rparr> else p)"

definition raftFlag :: "unit_params \<Rightarrow> string" where
  "raftFlag p = (if up_RaftAddr p \<noteq> [] then '' --raft-addr '' @ up_RaftAddr p else [])"

definition joinFlag :: "unit_params \<Rightarrow> string" where
  "joinFlag p = (if up_JoinAddr p \<noteq> [] then '' --join-addr '' @ up_JoinAddr p else [])"

definition RenderSystemd :: "unit_params \<Rightarrow> string" where
  "RenderSystemd p0 =
     (let p = unit_defaults p0; out = systemdTemplate;
          out = replace out ''{{.BinaryPath}}'' (up_BinaryPath p);
          out = replace out ''{{.DataDir}}'' (up_DataDir p);
          out = replace out ''{{.APIAddr}}'' (up_APIAddr p);
          out = replace out ''{{.RaftFlag}}'' (raftFlag p);
          out = replace out ''{{.JoinFlag}}'' (joinFlag p);
          out = replace out ''{{.User}}'' (up_User p);
          out = replace out ''{{.Group}}'' (up_Group p)
      in out)"

section \<open>The bootstrap token\<close>

definition WriteBootstrapTokenFile :: "(string \<Rightarrow> (error \<times> nat option) option) \<Rightarrow> string \<Rightarrow> string \<Rightarrow> disk_files \<Rightarrow> disk_files \<times> error option" where
  "WriteBootstrapTokenFile wr dir token fs = write_file wr (FPJoin [dir, ''bootstrap-token'']) (token @ [CHR 0x0A]) 384 fs"

section \<open>What the unit should be\<close>

text \<open>A text with holes, written out, and with a value for every hole.\<close>

datatype piece = Txt string | Hole string

fun flat :: "piece list \<Rightarrow> string" where
  "flat [] = []"
| "flat (Txt t # ps) = t @ flat ps"
| "flat (Hole n # ps) = hole n @ flat ps"

fun fill :: "(string \<Rightarrow> string) \<Rightarrow> piece list \<Rightarrow> string" where
  "fill v [] = []"
| "fill v (Txt t # ps) = t @ fill v ps"
| "fill v (Hole n # ps) = v n @ fill v ps"

end
