(* ===== verification/Installer_Props.thy ===== *)
theory Installer_Props
  imports Installer
begin

text \<open>
  Properties of the installer: the systemd unit is its template with every placeholder filled in,
  and the TLS files belong together.
\<close>

section \<open>Finding a substring\<close>

definition shift :: "nat \<Rightarrow> nat option \<Rightarrow> nat option" where
  "shift k r = map_option (\<lambda>j. k + j) r"

lemma shift_shift: "shift a (shift b r) = shift (a + b) r"
  by (simp add: shift_def option.map_comp comp_def add.assoc)

lemma shift_0: "shift 0 r = r"
  by (simp add: shift_def option.map_ident)

lemma shift_simps [simp]: "shift k None = None" "shift k (Some j) = Some (k + j)"
  by (simp_all add: shift_def)

fun find_sub :: "string \<Rightarrow> string \<Rightarrow> nat option" where
  "find_sub s sub =
     (if HasPrefix s sub then Some 0 else case s of [] \<Rightarrow> None | _ # s' \<Rightarrow> shift 1 (find_sub s' sub))"

declare find_sub.simps [simp del]

lemma indexOf_from_find: "i \<le> length s \<Longrightarrow> sub \<noteq> [] \<Longrightarrow> indexOf_from s sub i = shift i (find_sub (drop i s) sub)"
proof (induction s sub i rule: indexOf_from.induct)
  case (1 s sub i)
  show ?case
  proof (cases "i + length sub \<le> length s")
    case True
    then have i: "i < length s" using "1.prems"(2) by (cases sub) auto
    then have d: "drop i s = s ! i # drop (i + 1) s" by (simp add: Cons_nth_drop_Suc)
    have "find_sub (drop i s) sub = (if HasPrefix (drop i s) sub then Some 0 else shift 1 (find_sub (drop (i + 1) s) sub))"
      by (subst find_sub.simps) (simp only: d list.case if_cancel)
    then show ?thesis using 1 True i
      by (subst indexOf_from.simps) (auto simp: HasPrefix_def shift_shift)
  next
    case False
    have "find_sub t sub = None" if "length t < length sub" for t
      using that by (induction t) (auto simp: find_sub.simps HasPrefix_def)
    then show ?thesis using False by (subst indexOf_from.simps) (simp add: less_diff_conv2 "1.prems")
  qed
qed

lemma indexOf_find: "sub \<noteq> [] \<Longrightarrow> indexOf s sub = find_sub s sub"
  using indexOf_from_find [of 0 s sub] by (simp add: indexOf_def shift_0)

lemma find_skip:
  assumes "sub \<noteq> []" "\<forall>c \<in> set a. c \<noteq> hd sub"
  shows "find_sub (a @ b) sub = shift (length a) (find_sub b sub)"
  using assms(2)
proof (induction a)
  case Nil
  then show ?case by (simp add: shift_0)
next
  case (Cons c a)
  then have "\<not> HasPrefix (c # a @ b) sub" using assms(1) by (cases sub) (auto simp: HasPrefix_def)
  then show ?case using Cons by (subst find_sub.simps) (simp add: shift_shift)
qed

section \<open>Placeholders\<close>

definition plain :: "string \<Rightarrow> bool" where
  "plain t \<longleftrightarrow> CHR ''{'' \<notin> set t"

definition good_name :: "string \<Rightarrow> bool" where
  "good_name n \<longleftrightarrow> CHR ''{'' \<notin> set n \<and> CHR ''}'' \<notin> set n"

fun holes :: "piece list \<Rightarrow> string list" where
  "holes [] = []"
| "holes (Txt t # ps) = holes ps"
| "holes (Hole n # ps) = n # holes ps"

fun good :: "piece list \<Rightarrow> bool" where
  "good [] = True"
| "good (Txt t # ps) = (plain t \<and> good ps)"
| "good (Hole n # ps) = (good_name n \<and> good ps)"

lemma hole_prefix:
  assumes "good_name n" "good_name m"
  shows "HasPrefix (hole m @ r) (hole n) \<longleftrightarrow> m = n"
proof
  assume "HasPrefix (hole m @ r) (hole n)"
  then obtain q where "m @ CHR ''}'' # CHR ''}'' # r = n @ CHR ''}'' # CHR ''}'' # q" by (auto simp: HasPrefix_iff hole_def)
  then show "m = n" using append_sep_inject assms unfolding good_name_def by metis
qed simp

lemma find_other_hole:
  assumes "good_name n" "good_name m" "m \<noteq> n"
  shows "find_sub (hole m @ r) (hole n) = shift (length (hole m)) (find_sub r (hole n))"
proof -
  let ?t = "''.'' @ m @ ''}}''"
  have h: "hole m @ r = CHR ''{'' # CHR ''{'' # ?t @ r" "length (hole m) = Suc (Suc (length ?t))" by (simp_all add: hole_def)
  have 0: "\<not> HasPrefix (CHR ''{'' # CHR ''{'' # ?t @ r) (hole n)" using hole_prefix [OF assms(1,2), of r] assms(3) h(1) by simp
  have 1: "\<not> HasPrefix (CHR ''{'' # CHR ''.'' # q) (hole n)" for q by (simp add: HasPrefix_def hole_def)
  have "find_sub (?t @ r) (hole n) = shift (length ?t) (find_sub r (hole n))"
    by (rule find_skip) (use assms in \<open>auto simp: hole_def good_name_def\<close>)
  then show ?thesis unfolding h by (subst find_sub.simps, simp only: 0 if_False list.case) (subst find_sub.simps, simp add: 1 shift_shift)
qed

lemma find_hole:
  assumes "good ps" "good_name n"
  shows "n \<notin> set (holes ps) \<Longrightarrow> find_sub (flat ps @ r) (hole n) = shift (length (flat ps)) (find_sub r (hole n))"
  using assms
proof (induction ps rule: flat.induct)
  case (2 t ps)
  then have "find_sub (t @ flat ps @ r) (hole n) = shift (length t) (find_sub (flat ps @ r) (hole n))"
    by (intro find_skip) (auto simp: hole_def plain_def)
  then show ?case using 2 by (simp add: shift_shift)
next
  case (3 m ps)
  then have "find_sub (hole m @ flat ps @ r) (hole n) = shift (length (hole m)) (find_sub (flat ps @ r) (hole n))"
    by (intro find_other_hole) auto
  then show ?case using 3 by (simp add: shift_shift)
qed (simp add: shift_0)

lemma flat_append [simp]: "flat (ps @ qs) = flat ps @ flat qs"
  by (induction ps rule: flat.induct) auto

lemma replace_hole:
  assumes "good ps" "good qs" "good_name n" "plain v" "n \<notin> set (holes ps)" "n \<notin> set (holes qs)"
  shows "replace (flat (ps @ Hole n # qs)) (hole n) v = flat (ps @ Txt v # qs)"
proof -
  have "find_sub (hole n @ flat qs) (hole n) = Some 0" by (subst find_sub.simps) simp
  then have "indexOf (flat (ps @ Hole n # qs)) (hole n) = Some (length (flat ps))"
    using find_hole [OF assms(1,3,5), of "hole n @ flat qs"] by (simp add: indexOf_find hole_def)
  moreover have "find_sub (flat ps @ v @ flat qs) (hole n) = None"
  proof -
    have "find_sub (v @ flat qs) (hole n) = shift (length v) (find_sub (flat qs) (hole n))"
      by (rule find_skip) (use assms(4) in \<open>auto simp: hole_def plain_def\<close>)
    moreover have "find_sub [] (hole n) = None" by (subst find_sub.simps) (simp add: HasPrefix_def hole_def)
    ultimately show ?thesis using find_hole [OF assms(1,3,5), of "v @ flat qs"] find_hole [OF assms(2,3,6), of "[]"] by simp
  qed
  then have "replace_from (Suc 0) (flat ps @ v @ flat qs) (hole n) v = flat ps @ v @ flat qs"
    by (subst replace_from.simps) (simp add: indexOf_find hole_def)
  ultimately show ?thesis unfolding replace_def by (subst replace_from.simps) (simp add: Let_def)
qed

lemma good_append [simp]: "good (ps @ qs) \<longleftrightarrow> good ps \<and> good qs" "holes (ps @ qs) = holes ps @ holes qs"
  by (induction ps rule: flat.induct) auto

lemma replace_all:
  assumes "good ps" "holes ps = []" "good qs" "distinct (holes qs)" "\<forall>n \<in> set (holes qs). plain (v n)"
  shows "fold (\<lambda>n s. replace s (hole n) (v n)) (holes qs) (flat (ps @ qs)) = flat ps @ fill v qs"
  using assms
proof (induction qs arbitrary: ps rule: flat.induct)
  case (2 t qs)
  then show ?case using "2.IH" [of "ps @ [Txt t]"] by simp
next
  case (3 n qs)
  then have "replace (flat (ps @ Hole n # qs)) (hole n) (v n) = flat (ps @ Txt (v n) # qs)" by (intro replace_hole) auto
  then show ?case using 3 "3.IH" [of "ps @ [Txt (v n)]"] by simp
qed simp

section \<open>The systemd unit\<close>

definition unit_pieces :: "piece list" where
  "unit_pieces =
     [Txt (concat (map unit_line [''[Unit]'', ''Description=selfCloud node'', ''After=network-online.target containerd.service'',
        ''Wants=network-online.target'', ''Requires=containerd.service'', [], ''[Service]'', ''Type=simple'']) @ ''ExecStart=''), Hole ''BinaryPath'',
      Txt '' server --data-dir '', Hole ''DataDir'', Txt '' --api-addr '', Hole ''APIAddr'', Hole ''RaftFlag'', Hole ''JoinFlag'',
      Txt (concat (map unit_line [[], ''Restart=on-failure'', ''RestartSec=2s'']) @ ''User=''), Hole ''User'', Txt (unit_line [] @ ''Group=''), Hole ''Group'',
      Txt (concat (map unit_line [[], ''LimitNOFILE=65536'', [], ''[Install]'', ''WantedBy=multi-user.target'']))]"

definition unit_value :: "unit_params \<Rightarrow> string \<Rightarrow> string" where
  "unit_value p n =
     (if n = ''BinaryPath'' then up_BinaryPath p else if n = ''DataDir'' then up_DataDir p else if n = ''APIAddr'' then up_APIAddr p
      else if n = ''RaftFlag'' then raftFlag p else if n = ''JoinFlag'' then joinFlag p else if n = ''User'' then up_User p else up_Group p)"

definition plain_params :: "unit_params \<Rightarrow> bool" where
  "plain_params p \<longleftrightarrow> plain (up_BinaryPath p) \<and> plain (up_DataDir p) \<and> plain (up_APIAddr p) \<and> plain (up_RaftAddr p) \<and>
     plain (up_JoinAddr p) \<and> plain (up_User p) \<and> plain (up_Group p)"

lemma template_pieces: "systemdTemplate = flat unit_pieces"
  by code_simp

lemma unit_pieces_good: "good unit_pieces" "distinct (holes unit_pieces)"
  "holes unit_pieces = [''BinaryPath'', ''DataDir'', ''APIAddr'', ''RaftFlag'', ''JoinFlag'', ''User'', ''Group'']"
  by (simp_all add: unit_pieces_def unit_line_def good_name_def plain_def)

lemma plain_if: "(P \<Longrightarrow> plain_params p) \<Longrightarrow> (\<not> P \<Longrightarrow> plain_params q) \<Longrightarrow> plain_params (if P then p else q)"
  by simp

lemma plain_defaults: "plain_params p \<Longrightarrow> plain_params (unit_defaults p)"
  unfolding unit_defaults_def Let_def by (intro plain_if) (simp_all add: plain_params_def plain_def)

lemma plain_unit_value: "plain_params p \<Longrightarrow> plain (unit_value p n)"
  by (simp add: plain_params_def unit_value_def raftFlag_def joinFlag_def plain_def)

lemmas plain_values = plain_unit_value [OF plain_defaults]

lemma unit_value_simps:
  "unit_value p ''BinaryPath'' = up_BinaryPath p" "unit_value p ''DataDir'' = up_DataDir p" "unit_value p ''APIAddr'' = up_APIAddr p"
  "unit_value p ''RaftFlag'' = raftFlag p" "unit_value p ''JoinFlag'' = joinFlag p" "unit_value p ''User'' = up_User p" "unit_value p ''Group'' = up_Group p"
  by (simp_all add: unit_value_def)

lemma hole_simps:
  "hole ''BinaryPath'' = ''{{.BinaryPath}}''" "hole ''DataDir'' = ''{{.DataDir}}''" "hole ''APIAddr'' = ''{{.APIAddr}}''"
  "hole ''RaftFlag'' = ''{{.RaftFlag}}''" "hole ''JoinFlag'' = ''{{.JoinFlag}}''" "hole ''User'' = ''{{.User}}''" "hole ''Group'' = ''{{.Group}}''"
  by (simp_all add: hole_def)

text \<open>
  The systemd unit of a node is the template with every placeholder replaced by its value,
  as long as no value contains a brace: no value is mistaken for a placeholder, nothing else
  changes, and every placeholder is filled.
\<close>

theorem unit_rendered:
  assumes "plain_params p"
  shows "RenderSystemd p = fill (unit_value (unit_defaults p)) unit_pieces"
proof -
  have "RenderSystemd p = fold (\<lambda>n s. replace s (hole n) (unit_value (unit_defaults p) n)) (holes unit_pieces) (flat ([] @ unit_pieces))"
    unfolding unit_pieces_good(3) RenderSystemd_def template_pieces by (simp only: unit_value_simps hole_simps Let_def fold_simps append_Nil)
  also have "\<dots> = flat [] @ fill (unit_value (unit_defaults p)) unit_pieces"
    by (rule replace_all) (use unit_pieces_good(1,2) plain_values [OF assms] in \<open>simp_all\<close>)
  finally show ?thesis by simp
qed

definition demo_unit :: unit_params where
  "demo_unit = \<lparr>up_BinaryPath = [], up_DataDir = ''/data'', up_APIAddr = [], up_RaftAddr = ''10.0.0.1:7000'', up_JoinAddr = [], up_User = ''sc'', up_Group = []\<rparr>"

theorem unit_rendered_witness:
  "RenderSystemd demo_unit = fill (unit_value (unit_defaults demo_unit)) unit_pieces \<and> unit_value (unit_defaults demo_unit) ''Group'' = ''sc''"
proof -
  have "plain_params demo_unit" by (simp add: plain_params_def demo_unit_def plain_def)
  moreover have "unit_value (unit_defaults demo_unit) ''Group'' = ''sc''" by code_simp
  ultimately show ?thesis using unit_rendered by blast
qed

section \<open>The TLS pair\<close>

text \<open>A run that generates leaves a certificate for the host and the private key it was made with.\<close>

lemma EnsureTLS_pair:
  assumes "EnsureTLS t dir host fs = (fs', Inr (c, k))" "map_of fs (cert_file dir) = None \<or> map_of fs (key_file dir) = None" "cert_file dir \<noteq> key_file dir"
  obtains priv serial der pem mc mk where "tl_GenerateKey t = Inr priv" "tl_Create t (tls_template t serial host) priv = Inr der" "tl_MarshalKey t priv = Inr pem"
    "map_of fs' c = Some (der, mc)" "map_of fs' k = Some (pem, mk)"
  using assms by (fastforce simp: EnsureTLS_def Let_def write_file_def map_of_update split: if_splits option.splits sum.splits prod.splits)

text \<open>With both files in place nothing is generated or checked.\<close>

lemma EnsureTLS_keeps:
  "map_of fs (cert_file dir) \<noteq> None \<Longrightarrow> map_of fs (key_file dir) \<noteq> None \<Longrightarrow> EnsureTLS t dir host fs = (fs, Inr (cert_file dir, key_file dir))"
  by (simp add: EnsureTLS_def Let_def)

text \<open>
  So a failure between the two writes can leave a pair for good that does not match: the old key
  with a new certificate.
\<close>

lemma EnsureTLS_mismatch:
  assumes "map_of fs (cert_file dir) = None" "map_of fs (key_file dir) = Some old" "cert_file dir \<noteq> key_file dir"
    and "tl_MkdirAll t (Dir (cert_file dir)) = None" "tl_GenerateKey t = Inr priv" "tl_Serial t = Inr serial"
    and "tl_Create t (tls_template t serial host) priv = Inr der" "tl_MarshalKey t priv = Inr pem"
    and "tl_WriteFile t (cert_file dir) = None" "tl_WriteFile t (key_file dir) = Some (e, None)"
    and "EnsureTLS t dir host fs = (fs', r)"
  shows "EnsureTLS t2 dir host fs' = (fs', Inr (cert_file dir, key_file dir)) \<and> map_of fs' (cert_file dir) = Some (der, 420) \<and> map_of fs' (key_file dir) = Some old"
  using assms by (cases old) (auto simp: EnsureTLS_def Let_def write_file_def map_of_update)

end
