(* ===== verification/Streams.thy ===== *)
theory Streams
  imports Api Protocol "HOL-Library.Sublist"
begin

text \<open>
  The WebSocket endpoints: \<^verbatim>\<open>internal/api/streams.go\<close>, \<^verbatim>\<open>containers_ws.go\<close> and the streaming
  handlers of \<^verbatim>\<open>events.go\<close> and \<^verbatim>\<open>builds.go\<close>. The connection is an argument: whether the upgrade
  succeeds and what a write answers after the messages sent before. Keep-alive pings have no
  effect on the messages.
\<close>

section \<open>Copying\<close>

text \<open>
  What successive reads return, data and an error; a reader that blocks for ever is the end of
  the list, and then \<^verbatim>\<open>pump\<close> does not return (\<open>None\<close>).
\<close>

type_synonym writer = "bytes list \<Rightarrow> bytes \<Rightarrow> error option"

fun pump :: "writer \<Rightarrow> (bytes \<times> error option) list \<Rightarrow> bytes list \<Rightarrow> bytes list \<times> error option option" where
  "pump wr [] sent = (sent, None)"
| "pump wr ((d, err) # rs) sent =
     (case (if d \<noteq> [] then wr sent d else None) of
        Some werr \<Rightarrow> (sent, Some (Some werr))
      | None \<Rightarrow>
          (let sent = (if d \<noteq> [] then sent @ [d] else sent) in
           case err of None \<Rightarrow> pump wr rs sent
           | Some e \<Rightarrow> (sent, Some (if e = ErrEOF then None else Some e))))"

fun readPump :: "writer \<Rightarrow> (error + bytes) list \<Rightarrow> bytes list \<Rightarrow> bytes list \<times> error option" where
  "readPump wr [] put = (put, None)"
| "readPump wr (Inl e # ms) put = (put, Some e)"
| "readPump wr (Inr d # ms) put =
     (case wr put d of Some e \<Rightarrow> (put, Some e) | None \<Rightarrow> readPump wr ms (put @ [d]))"

text \<open>A pipe whose writer wrote the pieces \<open>ps\<close> and closed it, read with a buffer of 4096 bytes.\<close>

function pieces :: "bytes \<Rightarrow> bytes list" where
  "pieces d = (if d = [] then [] else take 4096 d # pieces (drop 4096 d))"
  by pat_completeness auto
termination
  by (relation "measure length") auto

declare pieces.simps [simp del]

definition pipe_reads :: "bytes list \<Rightarrow> (bytes \<times> error option) list" where
  "pipe_reads ps = map (\<lambda>d. (d, None)) (concat (map pieces ps)) @ [([], Some ErrEOF)]"

section \<open>Container logs and exec\<close>

text \<open>
  The outcome of a streaming request: an ordinary response, a failed upgrade, or the messages
  sent and the code the connection is closed with.
\<close>

datatype ws_outcome = Refused response | NotUpgraded | Streamed "bytes list" nat

definition StatusNormalClosure :: nat where "StatusNormalClosure = 1000"
definition StatusInternalError :: nat where "StatusInternalError = 1011"

text \<open>\<open>logs c\<close> are the pieces the runtime writes; \<^verbatim>\<open>pump\<close> returns because the pipe is closed after them.\<close>

definition handleContainerLogsWS ::
  "('db, 'rt, 'wa, 'fc) server \<Rightarrow> error option \<Rightarrow> writer \<Rightarrow> (container \<Rightarrow> bytes list) \<Rightarrow> request \<Rightarrow> ('db, 'rt, 'wa, 'fc) world \<Rightarrow> ws_outcome" where
  "handleContainerLogsWS sv upgrade wr logs r w =
     (case GetContainer (sv_B sv) (PathValue r ''project'') (PathValue r ''name'') (wd_store w) of
        Inl e \<Rightarrow> Refused (mapStoreErr e)
      | Inr c \<Rightarrow>
          (case upgrade of Some e \<Rightarrow> NotUpgraded
           | None \<Rightarrow> Streamed (fst (pump wr (pipe_reads (logs c)) [])) StatusNormalClosure))"

definition exec_usage :: bytes where
  "exec_usage = (let q = [CHR 0x22]; b = [CHR 0x5C] @ q in
     ''{'' @ q @ ''error'' @ q @ '':'' @ q @ ''first message must be {'' @ b @ ''cmd'' @ b @ '':[...]}'' @ q @ ''}'')"

text \<open>
  \<open>msgs\<close> are the messages of the client, \<open>hdr\<close> the decoder of the first one; \<open>exec c cmd input\<close> are the
  pieces of output of the command on the input it gets and its error. All output is read before
  the connection is closed, the last message is written concurrently with the close.
\<close>

definition handleContainerExecWS ::
  "('db, 'rt, 'wa, 'fc) server \<Rightarrow> error option \<Rightarrow> writer \<Rightarrow> (bytes \<Rightarrow> error + string list) \<Rightarrow>
   (container \<Rightarrow> string list \<Rightarrow> bytes list \<Rightarrow> bytes list \<times> error option) \<Rightarrow> (error + bytes) list \<Rightarrow> request \<Rightarrow> ('db, 'rt, 'wa, 'fc) world \<Rightarrow> ws_outcome" where
  "handleContainerExecWS sv upgrade wr hdr exec msgs r w =
     (case GetContainer (sv_B sv) (PathValue r ''project'') (PathValue r ''name'') (wd_store w) of
        Inl e \<Rightarrow> Refused (mapStoreErr e)
      | Inr c \<Rightarrow>
          if upgrade \<noteq> None then NotUpgraded
          else (case msgs of [] \<Rightarrow> Streamed [] StatusInternalError
                | Inl e # _ \<Rightarrow> Streamed [] StatusInternalError
                | Inr raw # rest \<Rightarrow>
                    (case hdr raw of
                       Inr (cmd # args) \<Rightarrow>
                         (case exec c (cmd # args) (fst (readPump (\<lambda>_ _. None) rest [])) of
                            (out, err) \<Rightarrow>
                              let out = out @ (case err of None \<Rightarrow> [] | Some e \<Rightarrow> [CHR 0x0A # ''[error] '' @ errorString e @ [CHR 0x0A]])
                              in Streamed (fst (pump wr (pipe_reads out) [])) StatusNormalClosure)
                     | _ \<Rightarrow> Streamed (if wr [] exec_usage = None then [exec_usage] else []) StatusInternalError)))"

section \<open>Logs and exec of the ctr runtime\<close>

record ctr_shim =
  cs_binary :: string
  cs_socket :: string
  cs_namespace :: string
  cs_dataDir :: string

definition NewCtr :: "error + string \<Rightarrow> string \<Rightarrow> string \<Rightarrow> error + ctr_shim" where
  "NewCtr lookPath socket namespace =
     (case lookPath of Inl e \<Rightarrow> Inl (Err (''ctr not found in PATH: '' @ errorString e))
      | Inr bin \<Rightarrow> Inr \<lparr>cs_binary = bin,
          cs_socket = (if socket = [] then ''/run/containerd/containerd.sock'' else socket),
          cs_namespace = (if namespace = [] then ''selfcloud'' else namespace), cs_dataDir = []\<rparr>)"

definition SetDataDir :: "string \<Rightarrow> ctr_shim \<Rightarrow> ctr_shim" where
  "SetDataDir dir sh = sh\<lparr>cs_dataDir := dir\<rparr>"

definition ctr_argv :: "ctr_shim \<Rightarrow> string list \<Rightarrow> string list" where
  "ctr_argv sh args = [cs_binary sh, ''--address'', cs_socket sh, ''--namespace'', cs_namespace sh] @ args"

text \<open>
  How a command of \<^verbatim>\<open>exec.CommandContext\<close> ends: by itself, with its error; or killed because the
  context ended, in which case \<^verbatim>\<open>Run\<close> reports the signal, and the error of the context only when the
  process nevertheless exited with success.
\<close>

datatype proc_end = Exited "error option" | Killed bool

definition ErrCanceled :: error where "ErrCanceled = Err ''context canceled''"
definition ErrDeadlineExceeded :: error where "ErrDeadlineExceeded = Err ''context deadline exceeded''"

definition cmd_error :: "error \<Rightarrow> proc_end \<Rightarrow> error option" where
  "cmd_error ctxErr p = (case p of Exited e \<Rightarrow> e | Killed True \<Rightarrow> Some ctxErr | Killed False \<Rightarrow> Some (Err ''signal: killed''))"

text \<open>\<open>run argv\<close>: the output and the end of the command; \<open>ctxErr\<close> why the context ended, if it did.\<close>

definition ctr_Logs :: "(string list \<Rightarrow> bytes list \<times> proc_end) \<Rightarrow> error \<Rightarrow> ctr_shim \<Rightarrow> container \<Rightarrow> bool \<Rightarrow> bytes list \<times> error option" where
  "ctr_Logs run ctxErr sh c follow =
     (case run (ctr_argv sh [''tasks'', ''attach'', ctrTaskID c]) of
        (out, p) \<Rightarrow>
          let err = cmd_error ctxErr p in
          (out, if \<not> follow \<and> (err = Some ErrCanceled \<or> err = Some ErrDeadlineExceeded) then None else err))"

definition ctr_Exec :: "(string list \<Rightarrow> bytes list \<times> proc_end) \<Rightarrow> error \<Rightarrow> time \<Rightarrow> ctr_shim \<Rightarrow> container \<Rightarrow> string list \<Rightarrow> bytes list \<Rightarrow> bytes list \<times> error option" where
  "ctr_Exec run ctxErr now sh c cmd input =
     (case run (ctr_argv sh ([''tasks'', ''exec'', ''--exec-id'', ''exec-'' @ Itoa (now - 62135596800 * second), ctrTaskID c] @ cmd)) of
        (out, p) \<Rightarrow> (out, cmd_error ctxErr p))"

section \<open>Events\<close>

text \<open>
  The stream of a project's events: the backlog still to be written, then the live tail, where
  the subscription of the bus puts events into a channel of 64.
\<close>

datatype es_phase = Backlog "event_record list" | Tail | Over

record event_stream =
  es_project :: string
  es_phase :: es_phase
  es_ch :: "event_record list"
  es_sent :: "event_record list"

definition handleEventsWS ::
  "('db, 'rt, 'wa, 'fc) server \<Rightarrow> error option \<Rightarrow> request \<Rightarrow> ('db, 'rt, 'wa, 'fc) world \<Rightarrow> response + event_stream option" where
  "handleEventsWS sv upgrade r w =
     (if wd_bus w = None then Inl (httpError 503 ''event bus not configured'')
      else let project = PathValue r ''project'' in
        if upgrade \<noteq> None then Inr None
        else Inr (Some \<lparr>es_project = project,
          es_phase = Backlog (case ListEvents (sv_B sv) project 50 (wd_store w) of Inl e \<Rightarrow> [] | Inr backlog \<Rightarrow> rev backlog),
          es_ch = [], es_sent = []\<rparr>))"

definition es_visible :: "string \<Rightarrow> event_record \<Rightarrow> bool" where
  "es_visible project ev \<longleftrightarrow> \<not> (ev_Project ev \<noteq> [] \<and> ev_Project ev \<noteq> project)"

text \<open>The function the handler subscribes; it is only called between subscription and the end.\<close>

definition es_receive :: "event_record \<Rightarrow> event_stream \<Rightarrow> event_stream" where
  "es_receive ev s =
     (if es_phase s \<noteq> Tail \<or> \<not> es_visible (es_project s) ev then s
      else s\<lparr>es_ch := try_send 64 (es_ch s) ev\<rparr>)"

text \<open>An iteration of the handler's loops: \<open>werr\<close> is what the write answers.\<close>

definition es_write :: "error option \<Rightarrow> event_stream \<Rightarrow> event_stream" where
  "es_write werr s =
     (case es_phase s of
        Backlog (ev # rest) \<Rightarrow>
          (if werr = None then s\<lparr>es_phase := Backlog rest, es_sent := es_sent s @ [ev]\<rparr> else s\<lparr>es_phase := Over\<rparr>)
      | Backlog [] \<Rightarrow> s\<lparr>es_phase := Tail\<rparr>
      | Tail \<Rightarrow>
          (case es_ch s of [] \<Rightarrow> s
           | ev # rest \<Rightarrow>
               if werr = None then s\<lparr>es_ch := rest, es_sent := es_sent s @ [ev]\<rparr> else s\<lparr>es_ch := rest, es_phase := Over\<rparr>)
      | Over \<Rightarrow> s)"

definition es_done :: "event_stream \<Rightarrow> event_stream" where
  "es_done s = (if es_phase s = Tail then s\<lparr>es_phase := Over\<rparr> else s)"

section \<open>Build logs\<close>

datatype build_input = BuildLine string | StreamClosed | BuildDone

fun build_loop :: "writer \<Rightarrow> build_input list \<Rightarrow> bytes list \<Rightarrow> bytes list" where
  "build_loop wr [] sent = sent"
| "build_loop wr (BuildDone # is) sent = sent"
| "build_loop wr (StreamClosed # is) sent = sent"
| "build_loop wr (BuildLine l # is) sent = (if wr sent l = None then build_loop wr is (sent @ [l]) else sent)"

text \<open>
  \<open>inputs\<close> is what the loop receives, in order: the lines of the log, its end, or the end of the
  context, which the watcher cancels once it has seen the build finished.
\<close>

definition handleBuildLogsWS ::
  "('db, 'rt, 'wa, 'fc) server \<Rightarrow> error option \<Rightarrow> writer \<Rightarrow> (string \<Rightarrow> build_input list) \<Rightarrow> request \<Rightarrow> ('db, 'rt, 'wa, 'fc) world \<Rightarrow> ws_outcome" where
  "handleBuildLogsWS sv upgrade wr inputs r w =
     (if sv_builder sv = None then Refused (httpError 503 ''builder not configured'')
      else case GetBuild (sv_B sv) (PathValue r ''project'') (PathValue r ''id'') (wd_store w) of
        Inl e \<Rightarrow> Refused (mapStoreErr e)
      | Inr build \<Rightarrow>
          (case upgrade of Some e \<Rightarrow> NotUpgraded
           | None \<Rightarrow> Streamed (build_loop wr (inputs (m_UID (bd_Meta build))) []) StatusNormalClosure))"

text \<open>One tick of the watcher: whether it will cancel.\<close>

definition build_finished :: "'db bolt \<Rightarrow> build \<Rightarrow> 'db store \<Rightarrow> bool" where
  "build_finished B build st =
     (case GetBuild B (m_Project (bd_Meta build)) (m_Name (bd_Meta build)) st of Inl e \<Rightarrow> False
      | Inr cur \<Rightarrow> bd_Status cur = PhaseSucceeded \<or> bd_Status cur = PhaseFailed)"

end
