(* ===== verification/Streams_Props.thy ===== *)
theory Streams_Props
  imports Streams Api_Fixtures
begin

text \<open>
  Properties of the WebSocket endpoints: what a client of the event stream sees over every
  interleaving of the bus and the connection, and that logs arrive in order and in full.
\<close>

section \<open>Copying\<close>

lemma pieces_Nil [simp]: "pieces [] = []"
  by (subst pieces.simps) simp

lemma pieces_concat: "concat (pieces d) = d"
  by (induction d rule: pieces.induct) (subst pieces.simps, auto)

lemma pieces_bounds: "p \<in> set (pieces d) \<Longrightarrow> p \<noteq> [] \<and> length p \<le> 4096"
proof (induction d rule: pieces.induct)
  case (1 d)
  then show ?case by (cases "d = []") (auto simp: pieces.simps [of d])
qed

lemma concat_pieces: "concat (concat (map pieces ps)) = concat ps"
  by (induction ps) (simp_all add: pieces_concat)

lemma pump_data:
  assumes "[] \<notin> set ds"
  shows "\<exists>n. pump wr (map (\<lambda>d. (d, None)) ds @ [([], Some ErrEOF)]) sent = (sent @ take n ds, Some (if n < length ds then wr (sent @ take n ds) (ds ! n) else None)) \<and>
    (\<forall>i < n. i < length ds \<longrightarrow> wr (sent @ take i ds) (ds ! i) = None) \<and> (n < length ds \<longrightarrow> wr (sent @ take n ds) (ds ! n) \<noteq> None)"
  using assms
proof (induction ds arbitrary: sent)
  case Nil
  show ?case by (intro exI [of _ 0]) simp
next
  case (Cons d ds)
  show ?case
  proof (cases "wr sent d")
    case (Some e)
    then show ?thesis using Cons.prems by (intro exI [of _ 0]) auto
  next
    case None
    obtain n where n: "pump wr (map (\<lambda>d. (d, None)) ds @ [([], Some ErrEOF)]) (sent @ [d]) =
        ((sent @ [d]) @ take n ds, Some (if n < length ds then wr ((sent @ [d]) @ take n ds) (ds ! n) else None))"
      "\<forall>i < n. i < length ds \<longrightarrow> wr ((sent @ [d]) @ take i ds) (ds ! i) = None" "n < length ds \<longrightarrow> wr ((sent @ [d]) @ take n ds) (ds ! n) \<noteq> None"
      using Cons.IH [of "sent @ [d]"] Cons.prems by auto
    show ?thesis
    proof (intro exI [of _ "Suc n"] conjI allI impI)
      fix i assume "i < Suc n" "i < length (d # ds)"
      then show "wr (sent @ take i (d # ds)) ((d # ds) ! i) = None" using n(2) None by (cases i) auto
    qed (use n None Cons.prems in auto)
  qed
qed

text \<open>
  A client of a container's log gets non-empty messages of at most 4096 bytes that make up an
  initial part of the log, and all of it when no write fails.
\<close>

theorem logs_in_order:
  assumes "handleContainerLogsWS sv None wr logs r w = Streamed msgs code" "GetContainer (sv_B sv) (PathValue r ''project'') (PathValue r ''name'') (wd_store w) = Inr c"
  shows "prefix (concat msgs) (concat (logs c)) \<and> (\<forall>m \<in> set msgs. m \<noteq> [] \<and> length m \<le> 4096) \<and>
    ((\<forall>s d. wr s d = None) \<longrightarrow> concat msgs = concat (logs c))"
proof -
  let ?ds = "concat (map pieces (logs c))"
  have ne: "[] \<notin> set ?ds" using pieces_bounds by auto
  have all: "concat ?ds = concat (logs c)" by (rule concat_pieces)
  obtain n where p: "fst (pump wr (pipe_reads (logs c)) []) = take n ?ds" and e: "n < length ?ds \<longrightarrow> wr (take n ?ds) (?ds ! n) \<noteq> None"
    using pump_data [OF ne, of wr "[]"] unfolding pipe_reads_def append_Nil by (metis fst_conv)
  have n: "msgs = take n ?ds" using assms p by (simp add: handleContainerLogsWS_def)
  have "prefix (concat msgs) (concat (logs c))" unfolding n all [symmetric] by (metis append_take_drop_id concat_append prefixI)
  moreover have "\<forall>m \<in> set msgs. m \<noteq> [] \<and> length m \<le> 4096" using pieces_bounds n by (fastforce dest: in_set_takeD)
  moreover have "concat msgs = concat (logs c)" if "\<forall>s d. wr s d = None" using n e that all by simp
  ultimately show ?thesis by blast
qed

text \<open>
  Without \<^verbatim>\<open>follow\<close>, a container that keeps running is attached to for half a second and the command
  is then killed: the output arrived, but the call fails with the signal's error.
\<close>

lemma logs_window_fails:
  "run (ctr_argv sh [''tasks'', ''attach'', ctrTaskID c]) = (out, Killed False) \<Longrightarrow>
    ctr_Logs run ErrDeadlineExceeded sh c False = (out, Some (Err ''signal: killed''))"
  by (simp add: ctr_Logs_def cmd_error_def ErrDeadlineExceeded_def ErrCanceled_def)

text \<open>What the client types does not reach a command run by \<^verbatim>\<open>ctr\<close>.\<close>

lemma exec_ignores_input:
  "handleContainerExecWS sv upgrade wr hdr (\<lambda>c cmd inp. ctr_Exec run ctxErr now sh c cmd inp) (Inr raw # rest) r w =
   handleContainerExecWS sv upgrade wr hdr (\<lambda>c cmd inp. ctr_Exec run ctxErr now sh c cmd inp) [Inr raw] r w"
  by (auto simp: handleContainerExecWS_def ctr_Exec_def split: sum.splits list.splits)

section \<open>Events\<close>

text \<open>
  A stream and the bus side by side: the handler writes, the bus delivers events in the order
  in which it dispatches them, the client goes away. The list collects the events dispatched
  since the subscription.
\<close>

inductive es_trace :: "event_stream \<Rightarrow> event_stream \<Rightarrow> event_record list \<Rightarrow> bool" for s0 where
  start: "es_trace s0 s0 []"
| wrote: "es_trace s0 s evs \<Longrightarrow> es_trace s0 (es_write werr s) evs"
| receive: "es_trace s0 s evs \<Longrightarrow> es_trace s0 (es_receive ev s) (if es_phase s = Tail then evs @ [ev] else evs)"
| finish: "es_trace s0 s evs \<Longrightarrow> es_trace s0 (es_done s) evs"

lemma subseq_appendD: "subseq (xs @ ys) zs \<Longrightarrow> subseq xs zs"
  by (meson prefixI prefix_imp_subseq subseq_order.trans)

definition es_inv :: "event_record list \<Rightarrow> event_record list \<Rightarrow> event_stream \<Rightarrow> bool" where
  "es_inv bl vis s \<longleftrightarrow>
     (case es_phase s of
        Backlog rest \<Rightarrow> es_sent s @ rest = bl \<and> es_ch s = [] \<and> vis = []
      | Tail \<Rightarrow> \<exists>ys. es_sent s = bl @ ys \<and> subseq (ys @ es_ch s) vis \<and> length (es_ch s) \<le> 64 \<and> (length vis \<le> 64 \<longrightarrow> ys @ es_ch s = vis)
      | Over \<Rightarrow> prefix (es_sent s) bl \<or> (\<exists>ys. es_sent s = bl @ ys \<and> subseq ys vis))"

lemma es_inv_write: "es_inv bl vis s \<Longrightarrow> es_inv bl vis (es_write werr s)"
proof (cases "es_phase s")
  case (Backlog rest)
  assume "es_inv bl vis s"
  then show ?thesis using Backlog by (cases rest) (auto simp: es_inv_def es_write_def)
next
  case Tail
  assume i: "es_inv bl vis s"
  then obtain ys where y: "es_sent s = bl @ ys" "subseq (ys @ es_ch s) vis" "length (es_ch s) \<le> 64" "length vis \<le> 64 \<longrightarrow> ys @ es_ch s = vis"
    using Tail by (auto simp: es_inv_def)
  then have "subseq ys vis" by (auto dest: subseq_appendD)
  then show ?thesis using Tail y by (cases "es_ch s") (auto simp: es_inv_def es_write_def)
qed (simp add: es_inv_def es_write_def)

lemma es_inv_receive:
  assumes "es_inv bl vis s"
  shows "es_inv bl (if es_phase s = Tail \<and> es_visible (es_project s) ev then vis @ [ev] else vis) (es_receive ev s)"
proof (cases "es_phase s = Tail \<and> es_visible (es_project s) ev")
  case True
  then obtain ys where y: "es_sent s = bl @ ys" "subseq (ys @ es_ch s) vis" "length (es_ch s) \<le> 64" "length vis \<le> 64 \<longrightarrow> ys @ es_ch s = vis"
    using assms by (auto simp: es_inv_def)
  have "subseq ((ys @ es_ch s) @ [ev]) (vis @ [ev])" using y(2) by (simp only: subseq_append)
  then show ?thesis using True y subseq_order.trans [OF y(2), of "vis @ [ev]"]
    by (auto simp: es_inv_def es_receive_def try_send_def)
qed (use assms in \<open>auto simp: es_receive_def\<close>)

lemma es_inv_done: "es_inv bl vis s \<Longrightarrow> es_inv bl vis (es_done s)"
proof (cases "es_phase s = Tail")
  case True
  assume "es_inv bl vis s"
  then obtain ys where "es_sent s = bl @ ys" "subseq (ys @ es_ch s) vis" using True by (auto simp: es_inv_def)
  moreover from this have "subseq ys vis" by (auto dest: subseq_appendD)
  ultimately show ?thesis using True by (auto simp: es_inv_def es_done_def)
qed (simp add: es_done_def)

lemma es_project_same [simp]: "es_project (es_write werr s) = es_project s" "es_project (es_receive ev s) = es_project s" "es_project (es_done s) = es_project s"
  by (auto simp: es_write_def es_receive_def es_done_def split: es_phase.splits list.splits)

lemma es_trace_inv:
  assumes "es_trace s0 s evs" "es_phase s0 = Backlog bl" "es_ch s0 = []" "es_sent s0 = []"
  shows "es_inv bl (filter (es_visible (es_project s0)) evs) s \<and> es_project s = es_project s0"
  using assms(1)
proof induction
  case start
  show ?case using assms(2-4) by (simp add: es_inv_def)
next
  case (wrote s evs werr)
  then show ?case using es_inv_write by simp
next
  case (receive s evs ev)
  then show ?case using es_inv_receive [of bl "filter (es_visible (es_project s0)) evs" s ev] by (auto split: if_splits)
next
  case (finish s evs)
  then show ?case using es_inv_done by simp
qed


text \<open>An event dispatched after the backlog was read and before the handler has subscribed is never sent.\<close>

lemma event_gap: "es_phase s = Backlog rest \<Longrightarrow> es_receive ev s = s"
  by (simp add: es_receive_def)

section \<open>Witnesses\<close>

lemma two_elements: "length xs = 2 \<Longrightarrow> \<exists>a b. xs = [a, b]"
  by (auto simp: numeral_2_eq_2 length_Suc_conv)

definition stream_request :: request where
  "stream_request = (demo_request ''GET'' [] [])\<lparr>r_PathValue := [(''project'', ''p'')]\<rparr>"


end
