(* ===== verification/Raft_Node.thy ===== *)
theory Raft_Node
  imports Prelude Paths
begin

text \<open>
  The start of the Raft node, \<^verbatim>\<open>NewRaft\<close> of \<^verbatim>\<open>internal/store/raft.go\<close>. The Raft library and its
  stores are observations; what the code decides is the order of the steps, the address it
  advertises and whether it bootstraps a cluster of its own.
\<close>

record raft_config =
  rc_NodeID :: string
  rc_DataDir :: string
  rc_BindAddr :: string
  rc_Bootstrap :: bool

text \<open>\<^verbatim>\<open>net.TCPAddr\<close>; an IP address is its 4 or 16 bytes, none for nil.\<close>

record tcp_addr =
  ta_IP :: "nat list"
  ta_Port :: nat

definition v4_prefix :: "nat list" where
  "v4_prefix = replicate 10 0 @ [255, 255]"

definition ip_to4 :: "nat list \<Rightarrow> nat list option" where
  "ip_to4 ip = (if length ip = 4 then Some ip
     else if length ip = 16 \<and> take 12 ip = v4_prefix then Some (drop 12 ip) else None)"

definition IsUnspecified :: "nat list \<Rightarrow> bool" where
  "IsUnspecified ip = (ip_to4 ip = Some [0, 0, 0, 0] \<or> ip = replicate 16 0)"

definition IsLoopback :: "nat list \<Rightarrow> bool" where
  "IsLoopback ip = (case ip_to4 ip of Some b \<Rightarrow> hd b = 127 | None \<Rightarrow> ip = replicate 15 0 @ [1])"

definition advertise :: "tcp_addr \<Rightarrow> tcp_addr" where
  "advertise a = (if ta_IP a = [] \<or> IsUnspecified (ta_IP a) \<or> IsLoopback (ta_IP a)
     then \<lparr>ta_IP = v4_prefix @ [127, 0, 0, 1], ta_Port = ta_Port a\<rparr> else a)"

text \<open>
  What the library answers. \<open>ro_transport bind adv\<close> yields the local address of the transport,
  \<open>ro_bootstrap id addr\<close> is \<^verbatim>\<open>BootstrapCluster\<close> with that single server.
\<close>

record raft_obs =
  ro_MkdirAll :: "string \<Rightarrow> error option"
  ro_BoltStore :: "string \<Rightarrow> error option"
  ro_Snapshots :: "string \<Rightarrow> error option"
  ro_Resolve :: "string \<Rightarrow> error + tcp_addr"
  ro_transport :: "string \<Rightarrow> tcp_addr \<Rightarrow> error + string"
  ro_NewRaft :: "string \<Rightarrow> error option"
  ro_HasState :: "error + bool"
  ro_bootstrap :: "string \<Rightarrow> string \<Rightarrow> error option"

definition wrap_err :: "string \<Rightarrow> error \<Rightarrow> error" where
  "wrap_err what e = Err (what @ '': '' @ errorString e)"

text \<open>The result is the servers of the cluster that was bootstrapped, if any, and the error.\<close>

definition bootstrap_node :: "raft_obs \<Rightarrow> raft_config \<Rightarrow> string \<Rightarrow> (string \<times> string) list option \<times> error option" where
  "bootstrap_node ro cfg local =
     (if \<not> rc_Bootstrap cfg then (None, None)
      else case ro_HasState ro of Inl e \<Rightarrow> (None, Some e)
        | Inr True \<Rightarrow> (None, None)
        | Inr False \<Rightarrow>
            (case ro_bootstrap ro (rc_NodeID cfg) local of
               Some e \<Rightarrow> (None, Some (wrap_err ''bootstrap raft'' e))
             | None \<Rightarrow> (Some [(rc_NodeID cfg, local)], None)))"

definition NewRaft :: "raft_obs \<Rightarrow> raft_config \<Rightarrow> (string \<times> string) list option \<times> error option" where
  "NewRaft ro cfg =
     (if rc_NodeID cfg = [] then (None, Some (Err ''raft node id is required''))
      else case ro_MkdirAll ro (rc_DataDir cfg) of Some e \<Rightarrow> (None, Some e)
      | None \<Rightarrow> (case ro_BoltStore ro (FPJoin [rc_DataDir cfg, ''raft-log.db'']) of Some e \<Rightarrow> (None, Some (wrap_err ''raft log store'' e))
      | None \<Rightarrow> (case ro_BoltStore ro (FPJoin [rc_DataDir cfg, ''raft-stable.db'']) of Some e \<Rightarrow> (None, Some (wrap_err ''raft stable store'' e))
      | None \<Rightarrow> (case ro_Snapshots ro (rc_DataDir cfg) of Some e \<Rightarrow> (None, Some (wrap_err ''raft snapshots'' e))
      | None \<Rightarrow> (case ro_Resolve ro (rc_BindAddr cfg) of Inl e \<Rightarrow> (None, Some (wrap_err ''resolve raft bind'' e))
      | Inr addr \<Rightarrow> (case ro_transport ro (rc_BindAddr cfg) (advertise addr) of Inl e \<Rightarrow> (None, Some (wrap_err ''raft transport'' e))
      | Inr local \<Rightarrow> (case ro_NewRaft ro (rc_NodeID cfg) of Some e \<Rightarrow> (None, Some (wrap_err ''raft.NewRaft'' e))
      | None \<Rightarrow> bootstrap_node ro cfg local)))))))"

text \<open>
  A node never bootstraps over existing state, and only when told to; the cluster it makes has
  itself as its only server.
\<close>

lemma NewRaft_bootstraps:
  "fst (NewRaft ro cfg) = Some servers \<Longrightarrow>
    rc_Bootstrap cfg \<and> ro_HasState ro = Inr False \<and> (\<exists>local. servers = [(rc_NodeID cfg, local)]) \<and> snd (NewRaft ro cfg) = None"
  by (auto simp: NewRaft_def bootstrap_node_def split: if_splits option.splits sum.splits bool.splits)

text \<open>A node that listens on all addresses advertises the loopback address, also to the other nodes of a cluster.\<close>

lemma all_addresses_advertise_loopback:
  "advertise \<lparr>ta_IP = [0, 0, 0, 0], ta_Port = p\<rparr> = \<lparr>ta_IP = v4_prefix @ [127, 0, 0, 1], ta_Port = p\<rparr>"
  by (simp add: advertise_def IsUnspecified_def ip_to4_def)

lemma advertise_keeps: "advertise a \<noteq> a \<Longrightarrow> ta_Port (advertise a) = ta_Port a \<and> IsLoopback (ta_IP (advertise a))"
proof -
  have "IsLoopback (v4_prefix @ [127, 0, 0, 1])" by (simp add: IsLoopback_def ip_to4_def v4_prefix_def)
  then show "advertise a \<noteq> a \<Longrightarrow> ?thesis" by (auto simp: advertise_def split: if_splits)
qed

end
