(* ===== verification/Replicas.thy ===== *)
theory Replicas
  imports Replication_Props
begin

text \<open>
  Replicas as a whole. First the snapshots the state machine hands to Raft and takes from it
  (\<^verbatim>\<open>fsm.go\<close>: \<^verbatim>\<open>Snapshot\<close>, \<^verbatim>\<open>Persist\<close>, \<^verbatim>\<open>Restore\<close>), over a parameter for Raft's sink. Then
  what a replica promises about its data, whatever mix of local writes, committed log entries
  and snapshots produced it. \<^verbatim>\<open>Event.Value\<close> is an untyped field whose dynamic type subscribers
  infer from \<^verbatim>\<open>Event.Kind\<close>: the events of a local write (\<^verbatim>\<open>store.go\<close>) and those the state
  machine makes from a log entry (\<^verbatim>\<open>fsm.go\<close>, \<^verbatim>\<open>decodeKind\<close>) have to agree on it, and do but for webhook
  deliveries. And readers rely on an object
  being stored under the key its metadata gives, in a project. Both are shown to be kept by every operation
  of the store, by every entry the replicated store proposes and by a restored snapshot.
\<close>

section \<open>Snapshots through Raft\<close>

record snapshotBuffer =
  sb_data :: snapshot_data
  sb_created :: time

text \<open>
  The sink is Raft's (\<^verbatim>\<open>raft.SnapshotSink\<close>): its three operations, each with its own error, over
  a state of its own.
\<close>

record 'k sink =
  sk_Write :: "snapshot_data \<Rightarrow> 'k \<Rightarrow> 'k \<times> error option"
  sk_Cancel :: "'k \<Rightarrow> 'k \<times> error option"
  sk_Close :: "'k \<Rightarrow> 'k \<times> error option"

text \<open>\<open>de\<close> is the error of the read transaction or of the encoder in \<^verbatim>\<open>dumpBolt\<close>, if there is one.\<close>

definition fsm_Snapshot :: "'db bolt \<Rightarrow> error option \<Rightarrow> time \<Rightarrow> 'db store \<Rightarrow> error + snapshotBuffer" where
  "fsm_Snapshot B de now s =
     (case de of Some e \<Rightarrow> Inl e | None \<Rightarrow> Inr \<lparr>sb_data = dumpBolt B s, sb_created = now\<rparr>)"

definition Persist :: "'k sink \<Rightarrow> snapshotBuffer \<Rightarrow> 'k \<Rightarrow> 'k \<times> error option" where
  "Persist K sb k =
     (case sk_Write K (sb_data sb) k of
        (k1, Some e) \<Rightarrow> (fst (sk_Cancel K k1), Some e)
      | (k1, None) \<Rightarrow> sk_Close K k1)"

text \<open>The stream: what \<^verbatim>\<open>io.ReadAll\<close> returns of it, an error or bytes that decode or do not.\<close>

definition fsm_Restore ::
  "'db bolt \<Rightarrow> error + snapshot_data option \<Rightarrow> 'db store \<Rightarrow> 'db store \<times> error option" where
  "fsm_Restore B rc s = (case rc of Inl e \<Rightarrow> (s, Some e) | Inr data \<Rightarrow> restoreBolt B data s)"

text \<open>
  What Raft documents of a sink: a snapshot exists once \<^verbatim>\<open>Close\<close> has succeeded and holds what was
  written, and a cancelled one does not exist. \<open>stored\<close> is the snapshot Raft would send.
\<close>

locale snapshot_sink =
  fixes K :: "'k sink" and written :: "'k \<Rightarrow> snapshot_data option" and stored :: "'k \<Rightarrow> snapshot_data option"
  assumes write_ok: "sk_Write K d k = (k', None) \<Longrightarrow> written k' = Some d \<and> stored k' = stored k"
    and write_err: "sk_Write K d k = (k', Some e) \<Longrightarrow> stored k' = stored k"
    and close_ok: "sk_Close K k = (k', None) \<Longrightarrow> stored k' = written k"
    and close_err: "sk_Close K k = (k', Some e) \<Longrightarrow> stored k' = stored k"
    and cancel: "stored (fst (sk_Cancel K k)) = stored k"
begin

lemma Persist_cases:
  assumes "Persist K sb k = (k', r)"
  shows "stored k' = (if r = None then Some (sb_data sb) else stored k)"
  using assms cancel write_ok write_err close_ok close_err
  by (auto simp: Persist_def split: prod.splits option.splits)

end

text \<open>A sink that keeps the bytes in memory, and fails when told to.\<close>

definition mem_sink :: "error option \<Rightarrow> error option \<Rightarrow> (snapshot_data option \<times> snapshot_data option) sink" where
  "mem_sink we ce = \<lparr>sk_Write = (\<lambda>d k. case we of Some e \<Rightarrow> (k, Some e) | None \<Rightarrow> ((Some d, snd k), None)),
     sk_Cancel = (\<lambda>k. ((None, snd k), None)),
     sk_Close = (\<lambda>k. case ce of Some e \<Rightarrow> (k, Some e) | None \<Rightarrow> ((fst k, fst k), None))\<rparr>"

interpretation mem_snk: snapshot_sink "mem_sink we ce" fst snd for we ce
  by unfold_locales (auto simp: mem_sink_def split: option.splits)

section \<open>The judgement\<close>

text \<open>
  A subscriber may take the value of an event for what \<^verbatim>\<open>decodeKind\<close> makes of its kind. There is one
  exception in the code: \<^verbatim>\<open>PutDelivery\<close> announces a webhook delivery under the kind of event rules.
\<close>

definition value_typed :: "string \<Rightarrow> doc \<Rightarrow> bool" where
  "value_typed kind d \<longleftrightarrow> decodeKind kind (Some d) = Inr d \<or> (kind = KindEventRule \<and> (\<exists>x. d = DDelivery x))"

definition event_typed :: "event \<Rightarrow> bool" where
  "event_typed ev \<longleftrightarrow> (if e_Op ev = ''put'' then \<exists>d. e_Value ev = Some d \<and> value_typed (e_Kind ev) d
     else e_Op ev = ''delete'' \<and> e_Value ev = None)"

definition subs_typed :: "'db store \<Rightarrow> bool" where
  "subs_typed s \<longleftrightarrow> (\<forall>ch \<in> set (subs s). \<forall>ev \<in> set ch. event_typed ev)"

text \<open>The metadata of the documents that are stored by project and name.\<close>

fun doc_meta :: "doc \<Rightarrow> meta option" where
  "doc_meta (DNode x) = Some (getMeta nodeT x)"
| "doc_meta (DContainer x) = Some (getMeta containerT x)"
| "doc_meta (DFunction x) = Some (getMeta functionT x)"
| "doc_meta (DBucket x) = Some (getMeta bucketT x)"
| "doc_meta (DAccessKey x) = Some (getMeta accessKeyT x)"
| "doc_meta (DUser x) = Some (getMeta userT x)"
| "doc_meta (DToken x) = Some (getMeta tokenT x)"
| "doc_meta (DSecret x) = Some (getMeta secretT x)"
| "doc_meta (DEventRule x) = Some (getMeta eventRuleT x)"
| "doc_meta (DBuild x) = Some (getMeta buildT x)"
| "doc_meta (DDelivery x) = Some (getMeta deliveryT x)"
| "doc_meta _ = None"

text \<open>
  The key of a document: project and name for these, the name for a project, a fixed key for the
  configuration, and for an entry of the event log its project, its time and its identifier.
\<close>

definition filed_doc :: "string \<Rightarrow> doc \<Rightarrow> bool" where
  "filed_doc k d \<longleftrightarrow>
     (case d of DProject p \<Rightarrow> m_Name (p_Meta p) \<noteq> [] \<and> k = m_Name (p_Meta p)
      | DCluster c \<Rightarrow> k = ''config''
      | DEventRecord e \<Rightarrow> (\<exists>at. k = (if ev_Project e = [] then ''default'' else ev_Project e) @ ''/'' @ at @ ''-'' @ ev_UID e)
      | DRaw x \<Rightarrow> True
      | _ \<Rightarrow> \<forall>m. doc_meta d = Some m \<longrightarrow> m_Project m \<noteq> [] \<and> k = scoped_key m)"

definition filed :: "'db bolt \<Rightarrow> 'db store \<Rightarrow> bool" where
  "filed B s \<longleftrightarrow> (\<forall>b k d. entries B s b k = Some d \<longrightarrow> filed_doc k d)"

definition sound :: "'db bolt \<Rightarrow> 'db store \<Rightarrow> bool" where
  "sound B s \<longleftrightarrow> subs_typed s \<and> filed B s"

section \<open>Preservation\<close>

lemma doc_codec [simp]:
  "value_typed KindContainer (marshal containerT vcontainer)"
  "value_typed KindFunction (marshal functionT vfunction)"
  "value_typed KindBucket (marshal bucketT vbucket)"
  "value_typed KindAccessKey (marshal accessKeyT vaccessKey)"
  "value_typed KindNode (marshal nodeT vnode)"
  "value_typed KindUser (marshal userT vuser)"
  "value_typed KindToken (marshal tokenT vtoken)"
  "value_typed KindSecret (marshal secretT vsecret)"
  "value_typed KindEventRule (marshal eventRuleT veventRule)"
  "value_typed KindBuild (marshal buildT vbuild)"
  "value_typed KindEventRule (marshal deliveryT vd)"
  "doc_meta (marshal containerT vcontainer) = Some (getMeta containerT vcontainer)"
  "doc_meta (marshal functionT vfunction) = Some (getMeta functionT vfunction)"
  "doc_meta (marshal bucketT vbucket) = Some (getMeta bucketT vbucket)"
  "doc_meta (marshal accessKeyT vaccessKey) = Some (getMeta accessKeyT vaccessKey)"
  "doc_meta (marshal nodeT vnode) = Some (getMeta nodeT vnode)"
  "doc_meta (marshal userT vuser) = Some (getMeta userT vuser)"
  "doc_meta (marshal tokenT vtoken) = Some (getMeta tokenT vtoken)"
  "doc_meta (marshal secretT vsecret) = Some (getMeta secretT vsecret)"
  "doc_meta (marshal eventRuleT veventRule) = Some (getMeta eventRuleT veventRule)"
  "doc_meta (marshal buildT vbuild) = Some (getMeta buildT vbuild)"
  "doc_meta (marshal deliveryT vdelivery) = Some (getMeta deliveryT vdelivery)"
  "getMeta containerT (setMeta containerT m vcontainer) = m"
  "getMeta functionT (setMeta functionT m vfunction) = m"
  "getMeta bucketT (setMeta bucketT m vbucket) = m"
  "getMeta accessKeyT (setMeta accessKeyT m vaccessKey) = m"
  "getMeta nodeT (setMeta nodeT m vnode) = m"
  "getMeta userT (setMeta userT m vuser) = m"
  "getMeta tokenT (setMeta tokenT m vtoken) = m"
  "getMeta secretT (setMeta secretT m vsecret) = m"
  "getMeta eventRuleT (setMeta eventRuleT m veventRule) = m"
  "getMeta buildT (setMeta buildT m vbuild) = m"
  "getMeta deliveryT (setMeta deliveryT m vdelivery) = m"
  by (simp_all add: codec_defs value_typed_def decodeKind_def kind_defs)

lemma filed_doc_meta: "doc_meta d = Some m \<Longrightarrow> filed_doc k d \<longleftrightarrow> m_Project m \<noteq> [] \<and> k = scoped_key m"
  by (cases d) (simp_all add: filed_doc_def)

lemma filed_doc_simps [simp]:
  "filed_doc k (DProject p) \<longleftrightarrow> m_Name (p_Meta p) \<noteq> [] \<and> k = m_Name (p_Meta p)"
  "filed_doc k (DCluster c) \<longleftrightarrow> k = ''config''"
  by (simp_all add: filed_doc_def)

lemma filed_event:
  "filed_doc ((if ev_Project e = [] then ''default'' else ev_Project e) @ ''/'' @ at @ ''-'' @ ev_UID e) (DEventRecord e)"
  unfolding filed_doc_def by (simp only: doc.case) blast

lemma value_typed_simps [simp]: "value_typed KindProject (DProject p)" "value_typed KindCluster (DCluster c)"
  by (simp_all add: value_typed_def decodeKind_def kind_defs codec_defs as_cluster_def)

lemma subs_typed_emit: "subs_typed s \<Longrightarrow> event_typed ev \<Longrightarrow> subs_typed (emit ev s)"
  by (auto simp: subs_typed_def emit_def try_send_def)

lemma sound_emit: "sound B s \<Longrightarrow> event_typed ev \<Longrightarrow> sound B (emit ev s)"
  by (simp add: sound_def subs_typed_emit filed_def)

lemma event_typed_simps [simp]:
  "event_typed \<lparr>e_Kind = k, e_Op = ''put'', e_Project = p, e_Name = n, e_Value = Some d\<rparr> \<longleftrightarrow> value_typed k d"
  "event_typed \<lparr>e_Kind = k, e_Op = ''delete'', e_Project = p, e_Name = n, e_Value = None\<rparr>"
  by (simp_all add: event_typed_def)

context bolt_engine
begin

lemma sound_put:
  assumes "sound B s" "filed_doc k d" "store_put B b k d s = (s', r)"
  shows "sound B s'"
proof (cases r)
  case None
  then show ?thesis using assms kv.lookup_kput [of b k d s s'] subs_store_put [of B b k d s]
    by (auto simp: sound_def filed_def subs_typed_def split: if_splits)
next
  case (Some e)
  then show ?thesis using assms store_put_Some by metis
qed

lemma sound_del:
  assumes "sound B s" "store_del B b k s = (s', r)"
  shows "sound B s'"
proof (cases r)
  case None
  then show ?thesis using assms kv.lookup_kdel [of b k s s'] subs_store_del [of B b k s]
    by (auto simp: sound_def filed_def subs_typed_def split: if_splits)
next
  case (Some e)
  then show ?thesis using assms store_del_Some by metis
qed

lemma sound_putScoped:
  assumes "sound B s" "\<And>v. value_typed kind (marshal T v)"
    and "\<And>m. doc_meta (marshal T (setMeta T m v)) = Some m"
    and "putScoped B T b kind uid t0 t1 v s = (v', s', r)"
  shows "sound B s'"
proof (cases r)
  case None
  let ?m = "put_meta uid t0 t1 (getMeta T v)"
  from None assms(4) obtain s1 where p: "store_put B b (scoped_key ?m) (marshal T (setMeta T ?m v)) s = (s1, None)"
    and s': "s' = emit \<lparr>e_Kind = kind, e_Op = ''put'', e_Project = m_Project ?m, e_Name = m_Name ?m,
      e_Value = Some (marshal T (setMeta T ?m v))\<rparr> s1"
    by (auto simp: putScoped_None Let_def)
  have "sound B s1" by (rule sound_put [OF assms(1) _ p]) (simp add: filed_doc_meta [OF assms(3)])
  then show ?thesis unfolding s' using assms(2) by (intro sound_emit) simp_all
next
  case (Some e)
  then show ?thesis using assms(1,4) putScoped_Some by metis
qed

lemma sound_delScoped:
  assumes "sound B s" "delScoped B b kind k p n s = (s', r)"
  shows "sound B s'"
  using assms sound_del [OF assms(1)]
  by (auto simp: delScoped_def split: prod.splits option.splits intro!: sound_emit)

lemma sound_PutProject: "sound B s \<Longrightarrow> PutProject B uid t0 t1 p s = (p', s', r) \<Longrightarrow> sound B s'"
  by (auto simp: PutProject_def mint_def Let_def split: if_splits prod.splits option.splits intro!: sound_emit elim!: sound_put [rotated 2])

lemma sound_DeleteProject: "sound B s \<Longrightarrow> DeleteProject B n s = (s', r) \<Longrightarrow> sound B s'"
  using sound_del [of s]
  by (auto simp: DeleteProject_def split: if_splits prod.splits option.splits intro!: sound_emit)

lemma sound_PutCluster: "sound B s \<Longrightarrow> PutCluster B now c s = (c', s', r) \<Longrightarrow> sound B s'"
  by (auto simp: PutCluster_def Let_def split: prod.splits option.splits intro!: sound_emit elim!: sound_put [rotated 2])

lemma sound_PutToken: "sound B s \<Longrightarrow> PutToken B uid t0 t1 t s = (t', s', r) \<Longrightarrow> sound B s'"
  by (auto simp: PutToken_def Let_def split: prod.splits option.splits elim!: sound_putScoped [rotated 3])

lemma sound_localDelete: "sound B s \<Longrightarrow> localDelete B b kind p n s = (s', r) \<Longrightarrow> sound B s'"
  using sound_del [of s]
  by (auto simp: localDelete_def Let_def split: prod.splits option.splits intro!: sound_emit)

lemma sound_AppendEvent: "sound B s \<Longrightarrow> AppendEvent B fmt uid now e s = (e', s', r) \<Longrightarrow> sound B s'"
  unfolding AppendEvent_def Let_def
  by (rule sound_put [OF _ filed_event]) (auto simp only: split: prod.splits)

lemma sound_TrimEvents:
  assumes "sound B s" "good B s" "TrimEvents B nxt p keep s = (s', r)"
  shows "sound B s'"
proof (cases "s' = s")
  case False
  with assms(3) obtain i k db' where l: "trim_loop B nxt (p @ ''/'') i k (sdb s) = Inr db'"
    and s': "s' = s\<lparr>sdb := db'\<rparr>"
    by (auto simp: TrimEvents_def Let_def bolt_update_Inr split: sum.splits if_splits)
  have "''eventlog'' \<in> set (bbuckets B (sdb s))"
    using assms(2) by (simp add: good_def store_wf_def rootBuckets_def has_bucket_def)
  from trim_loop_keeps [OF l this] assms(1) show ?thesis
    unfolding sound_def subs_typed_def filed_def entries_def s' by (simp, blast)
qed (use assms in simp)

lemma sound_Subscribe: "sound B s \<Longrightarrow> Subscribe s = (i, s') \<Longrightarrow> sound B s'"
  by (auto simp: Subscribe_def sound_def subs_typed_def filed_def entries_def)

lemma sound_Close: "sound B s \<Longrightarrow> sound B (Close s)"
  by (auto simp: Close_def sound_def subs_typed_def filed_def entries_def)

lemma sound_receive:
  assumes "sound B s" "i < length (subs s)" "subs s ! i = ev # rest"
  shows "sound B (s\<lparr>subs := (subs s)[i := rest]\<rparr>)"
proof -
  have m: "ev # rest \<in> set (subs s)" using assms(2,3) by (metis nth_mem)
  have "event_typed e" if "ch \<in> set ((subs s)[i := rest])" "e \<in> set ch" for ch e
  proof -
    from that(1) have "ch = rest \<or> ch \<in> set (subs s)" using set_update_subset_insert by fast
    then show ?thesis using m that(2) assms(1) unfolding sound_def subs_typed_def by (metis list.set_intros(2))
  qed
  then show ?thesis using assms(1) by (simp add: sound_def subs_typed_def filed_def entries_def)
qed

lemmas sound_keeps = sound_PutProject [rotated] sound_DeleteProject [rotated] sound_PutCluster [rotated]
  sound_PutToken [rotated] sound_localDelete [rotated] sound_AppendEvent [rotated] sound_Subscribe [rotated]

lemma sound_step: "store_step B s s' \<Longrightarrow> good B s \<Longrightarrow> sound B s \<Longrightarrow> sound B s'"
  by (cases rule: store_step.cases, assumption; (simp only: typed_puts typed_deletes)?;
      ((erule (1) sound_putScoped [rotated 3]; simp; fail) | (erule (1) sound_delScoped [rotated]) |
       (erule (1) sound_keeps) | (erule (2) sound_receive) | (erule sound_Close) |
       (erule (2) sound_TrimEvents [rotated 2])))

end

section \<open>Committed entries\<close>

text \<open>
  The entries the replicated store proposes: puts of the six replicated kinds, with the
  metadata already minted, and deletes.
\<close>

definition put_entry :: "'v scoped \<Rightarrow> string \<Rightarrow> string \<Rightarrow> 'v \<Rightarrow> log_op" where
  "put_entry T b kind v = \<lparr>lo_Op = ''put'', lo_Bucket = b, lo_Kind = kind,
     lo_Project = m_Project (getMeta T v), lo_Name = m_Name (getMeta T v),
     lo_Key = scoped_key (getMeta T v), lo_Value = Some (marshal T v)\<rparr>"

definition delete_entry :: "string \<Rightarrow> string \<Rightarrow> string \<Rightarrow> string \<Rightarrow> log_op" where
  "delete_entry b kind p n = \<lparr>lo_Op = ''delete'', lo_Bucket = b, lo_Kind = kind, lo_Project = p,
     lo_Name = n, lo_Key = keyFor p n, lo_Value = None\<rparr>"

inductive proposed :: "log_op \<Rightarrow> bool" where
  container: "m_Project (getMeta containerT c) \<noteq> [] \<Longrightarrow> proposed (put_entry containerT ''containers'' KindContainer c)"
| fn: "m_Project (getMeta functionT f) \<noteq> [] \<Longrightarrow> proposed (put_entry functionT ''functions'' KindFunction f)"
| bucket: "m_Project (getMeta bucketT b) \<noteq> [] \<Longrightarrow> proposed (put_entry bucketT ''buckets'' KindBucket b)"
| access_key: "m_Project (getMeta accessKeyT a) \<noteq> [] \<Longrightarrow> proposed (put_entry accessKeyT ''accesskeys'' KindAccessKey a)"
| secret: "m_Project (getMeta secretT x) \<noteq> [] \<Longrightarrow> proposed (put_entry secretT ''secrets'' KindSecret x)"
| event_rule: "m_Project (getMeta eventRuleT er) \<noteq> [] \<Longrightarrow> proposed (put_entry eventRuleT ''eventrules'' KindEventRule er)"
| delete: "proposed (delete_entry bkt kind p n)"

text \<open>A replicated put on the leader is the application of its entry, a replicated delete too.\<close>

lemma applyTypedPut_entry:
  assumes "shouldReplicate env" "re_leader env" "m_Name (getMeta T v) \<noteq> []" "scoped_type T"
  shows "applyTypedPut B env T b kind uid t0 t1 v s =
    (let v' = setMeta T (put_meta uid t0 t1 (getMeta T v)) v;
         r = raft_Apply B env (put_entry T b kind v') s in (v', r))"
  using assms by (auto simp: applyTypedPut_def put_entry_def put_meta_def scoped_key_def Let_def
      scoped_type.getMeta_setMeta scoped_type.setMeta_setMeta mint_def split: prod.splits)

lemma applyTypedDelete_entry:
  "shouldReplicate env \<Longrightarrow> re_leader env \<Longrightarrow>
   applyTypedDelete B env b kind p n s = raft_Apply B env (delete_entry b kind p n) s"
  by (simp add: applyTypedDelete_def delete_entry_def)

context bolt_engine
begin

lemma sound_put_entry:
  assumes "sound B s" "good B s" "typed_doc b (marshal T v)" "hashed_doc (marshal T v)" "kind \<noteq> []"
    and "decodeKind kind (Some (marshal T v)) = Inr (marshal T v)" "doc_meta (marshal T v) = Some (getMeta T v)"
    and "value_typed kind (marshal T v)" "m_Project (getMeta T v) \<noteq> []" "fsm_apply B (put_entry T b kind v) s = (s', r)"
  shows "sound B s' \<and> good B s'"
proof -
  have f: "filed_doc (scoped_key (getMeta T v)) (marshal T v)" using assms(9) by (simp add: filed_doc_meta [OF assms(7)])
  obtain s1 r1 where p: "store_put B b (scoped_key (getMeta T v)) (marshal T v) s = (s1, r1)" by fastforce
  have "sound B s1" "good B s1"
    using sound_put [OF assms(1) f p] good_put [OF assms(2,3,4) p] by simp_all
  then show ?thesis using assms(5,10) p
    by (cases r1) (auto simp: fsm_apply_def put_entry_def Let_def assms(6,8) intro!: sound_emit good_emit)
qed

lemma sound_commit:
  assumes "proposed op" "sound B s" "good B s" "fsm_Apply B (Some op) s = (s', r)"
  shows "sound B s' \<and> good B s'"
  using assms(1)
proof cases
  case (delete bkt kind p n)
  obtain s1 r1 where d: "store_del B bkt (keyFor p n) s = (s1, r1)" by fastforce
  have "sound B s1" "good B s1" using sound_del [OF assms(2) d] good_del [OF assms(3) d] by simp_all
  then show ?thesis using delete assms(4) d
    by (cases r1) (auto simp: fsm_Apply_def fsm_apply_def delete_entry_def intro!: sound_emit good_emit)
qed (insert assms(4), simp only: fsm_Apply_def option.case,
      (erule sound_put_entry [OF assms(2,3), rotated 7];
       (simp add: typed_doc_def hashed_doc_def kind_ne decodeKind_marshal; fail)?; simp add: codec_defs typed_doc_def hashed_doc_def))+

section \<open>Replicas\<close>

lemma subs_restore: "restoreBolt B data s = (s', r) \<Longrightarrow> subs s' = subs s"
  by (auto simp: restoreBolt_def split: option.splits sum.splits)

lemma snapshot_entries:
  assumes "same_snapshot snap (dumpBolt B t)" "map_of snap b = Some kvs"
  shows "distinct (map fst kvs) \<and> map_of kvs = entries B t b"
proof -
  have "map_of (dumpBolt B t) b = (if has_bucket B t b then Some (bscan B (sdb t) b) else None)"
    by (simp add: dumpBolt_def has_bucket_def map_of_map_restrict restrict_map_def)
  moreover have "rel_option same_map (map_of snap b) (map_of (dumpBolt B t) b)"
    using assms(1) by (simp add: same_snapshot_def)
  ultimately show ?thesis using assms(2) scan_get [of b "sdb t"]
    by (auto simp: same_map_def has_bucket_def entries_def split: if_splits)
qed

lemma dump_refl: "same_snapshot (dumpBolt B s) (dumpBolt B s)"
  using scan_distinct buckets_distinct
  by (auto simp: same_snapshot_def dumpBolt_def o_def map_of_map_restrict restrict_map_def same_map_def)

lemma snapshot_distinct:
  assumes "same_snapshot snap (dumpBolt B t)"
  shows "distinct (map fst snap)" "\<forall>e \<in> set snap. distinct (map fst (snd e))"
  using assms snapshot_entries [OF assms] by (force simp: same_snapshot_def)+

text \<open>After a restore every entry is one of the snapshot's store or one that was there before.\<close>

lemma restore_entries:
  assumes "same_snapshot snap (dumpBolt B t)" "restoreBolt B (Some snap) s = (s', r)"
  shows "(\<forall>b. has_bucket B s b \<longrightarrow> has_bucket B s' b) \<and>
    (\<forall>b k. entries B s' b k = entries B s b k \<or> entries B s' b k = entries B t b k)"
proof (cases r)
  case None
  obtain db' where r: "restore_buckets B snap (sdb s) = Inr db'" and s': "s' = s\<lparr>sdb := db'\<rparr>"
    using assms(2) None by (auto simp: restoreBolt_def bolt_update_Inr split: sum.splits)
  note R = restore_buckets_Inr [OF r snapshot_distinct [OF assms(1)]]
  have "entries B s' b k = entries B s b k \<or> entries B s' b k = entries B t b k" for b k
    using R snapshot_entries [OF assms(1), of b] by (auto simp: s' entries_def split: option.splits)
  then show ?thesis using R by (auto simp: s' has_bucket_def)
next
  case (Some e)
  then have "s' = s" using assms(2) by (auto simp: restoreBolt_def split: sum.splits)
  then show ?thesis by simp
qed

lemma restore_keeps:
  assumes "same_snapshot snap (dumpBolt B t)" "restoreBolt B (Some snap) s = (s', r)"
    and "sound B s" "good B s" "sound B t" "good B t"
  shows "sound B s' \<and> good B s'"
proof -
  note R = restore_entries [OF assms(1,2)]
  have e: "P b k d" if "entries B s' b k = Some d"
    "\<And>b k d. entries B s b k = Some d \<Longrightarrow> P b k d" "\<And>b k d. entries B t b k = Some d \<Longrightarrow> P b k d" for P b k d
    using R that by metis
  have "filed B s'" using e [of _ _ _ "\<lambda>b k d. filed_doc k d"] assms(3,5) by (auto simp: sound_def filed_def)
  moreover have "store_wf B s'"
    using e [of _ _ _ "\<lambda>b k d. typed_doc b d"] R assms(4,6) subs_restore [OF assms(2)]
    by (auto simp: good_def store_wf_def)
  moreover have "token_hashed B s'"
    using R assms(4,6) by (metis good_def token_hashed_def)
  ultimately show ?thesis using assms(3) subs_restore [OF assms(2)] by (simp add: sound_def good_def subs_typed_def)
qed

end

text \<open>
  The states of a replica: an empty store after \<^verbatim>\<open>Open\<close>, any operation of the store, any proposed
  entry the log commits (whether its own leader or another node proposed it), and the snapshot
  of any other replica, restored.
\<close>

inductive replica :: "'db bolt \<Rightarrow> 'db store \<Rightarrow> bool" for B where
  start: "Open B db = Inr s \<Longrightarrow> (\<forall>b k. bget B db b k = None) \<Longrightarrow> replica B s"
| operate: "replica B s \<Longrightarrow> store_step B s s' \<Longrightarrow> replica B s'"
| commit: "replica B s \<Longrightarrow> proposed op \<Longrightarrow> fsm_Apply B (Some op) s = (s', r) \<Longrightarrow> replica B s'"
| restore: "replica B s \<Longrightarrow> replica B t \<Longrightarrow> same_snapshot snap (dumpBolt B t) \<Longrightarrow>
     restoreBolt B (Some snap) s = (s', r) \<Longrightarrow> replica B s'"

lemma replica_keeps: "bolt_engine B \<Longrightarrow> replica B s \<Longrightarrow> sound B s \<and> good B s"
proof (rotate_tac, induction rule: replica.induct)
  case (start db s)
  obtain db' where o: "open_buckets B rootBuckets db = Inr db'" and s: "s = \<lparr>sdb = db', subs = []\<rparr>"
    using start(1) by (auto simp: Open_def bolt_update_Inr split: sum.splits)
  have "store_wf B s" by (rule bolt_engine.wf_Open [OF start(3,1)]) (simp add: start(2))
  then show ?case using bolt_engine.open_buckets_Inr [OF start(3) o] start(2)
    by (simp add: sound_def subs_typed_def filed_def good_def token_hashed_def entries_def s)
next
  case (operate s s')
  then show ?case using bolt_engine.sound_step bolt_engine.good_step by blast
next
  case (commit s op s' r)
  then show ?case using bolt_engine.sound_commit by blast
next
  case (restore s t snap s' r)
  then show ?case using bolt_engine.restore_keeps by blast
qed

section \<open>Theorems\<close>


text \<open>
  C5. Snapshots: when a snapshot taken after a prefix of the log has been persisted, a replica
  that restores what the sink stored, in whatever order the maps are enumerated, and applies
  the rest of the log ends with the view of a replica that applied the whole log and returns
  the same results for the rest. A store that cannot be dumped yields an error and no snapshot, a
  snapshot whose write or close fails is never stored, and a
  stream that cannot be read or decoded leaves the store as it was.
\<close>

theorem snapshot_shipped:
  assumes "det_engine B" "snapshot_sink K written stored" "fsm_run B log1 s = (s1, rs1)"
    and "fsm_Snapshot B de now s1 = Inr sb" "Persist K sb k = (k1, None)" "stored k1 = Some d" "same_snapshot snap d"
    and "fsm_Restore B (Inr (Some snap)) t = (t1, None)" "\<forall>b. has_bucket B t b \<longrightarrow> has_bucket B s1 b"
    and "fsm_run B (log1 @ log2) s = (s2, rs)" "fsm_run B log2 t1 = (t2, rs2)"
  shows "rs = rs1 @ rs2 \<and> same_view B s2 t2 \<and>
    (\<forall>e u. fsm_Snapshot B (Some e) now u = Inl e) \<and>
    (\<forall>sb k2 k3 e. Persist K sb k2 = (k3, Some e) \<longrightarrow> stored k3 = stored k2) \<and>
    (\<forall>bad. (\<exists>e. bad = Inl e) \<or> bad = Inr None \<longrightarrow> (\<exists>e. fsm_Restore B bad t = (t, Some e)))"
proof -
  have "d = dumpBolt B s1"
    using snapshot_sink.Persist_cases [OF assms(2,5)] assms(4,6) by (auto simp: fsm_Snapshot_def split: option.splits)
  then have "rs = rs1 @ rs2 \<and> same_view B s2 t2"
    using snapshot_catch_up [OF assms(1,3) _ _ assms(9,10,11), of snap] assms(7,8) by (simp add: fsm_Restore_def)
  moreover have "stored k3 = stored k2" if "Persist K sb k2 = (k3, Some e)" for sb k2 k3 e
    using snapshot_sink.Persist_cases [OF assms(2) that] by simp
  ultimately show ?thesis by (auto simp: fsm_Restore_def restoreBolt_def fsm_Snapshot_def)
qed

section \<open>Witnesses\<close>

definition committed_store :: "memdb store" where
  "committed_store = fst (fsm_Apply mem_bolt
     (Some (put_entry containerT ''containers'' KindContainer (demo_container ''p'' ''db''))) with_containers)"

lemma replica_fresh: "replica mem_bolt (fresh_store\<lparr>subs := [[]]\<rparr>)"
  by (rule replica.operate [OF replica.start [OF fresh_store_open] store_step.subscribe [of _ 0]])
    (simp_all add: fresh_store_def Subscribe_def mem_get_def)

lemma step_put: "store_step B s (put_of (PutContainer B uid t0 t1 c s))"
  by (cases "PutContainer B uid t0 t1 c s") (auto simp: put_of_def intro: store_step.put_container)

lemma replica_put: "replica B s \<Longrightarrow> replica B (put_of (PutContainer B uid t0 t1 c s))"
  by (rule replica.operate [OF _ step_put])

lemma replica_containers: "replica mem_bolt with_containers"
  unfolding with_containers_def by (intro replica_put replica_fresh)

lemma replica_committed: "replica mem_bolt committed_store"
  unfolding committed_store_def
  by (rule replica.commit [OF replica_containers proposed.container prod.collapse [symmetric]]) code_simp


theorem snapshot_shipped_witness:
  "\<exists>t1 k1 sb. fsm_Snapshot mem_bolt None 9 with_containers = Inr sb \<and>
     Persist (mem_sink None None) sb (None, None) = (k1, None) \<and>
     snd k1 = Some (dumpBolt mem_bolt with_containers) \<and>
     fsm_Restore mem_bolt (Inr (snd k1)) fresh_store = (t1, None) \<and>
     same_view mem_bolt (fst (fsm_run mem_bolt demo_log with_containers)) (fst (fsm_run mem_bolt demo_log t1))"
proof -
  let ?d = "dumpBolt mem_bolt with_containers"
  let ?r = "restoreBolt mem_bolt (Some ?d) fresh_store"
  have f: "fsm_Snapshot mem_bolt None 9 with_containers = Inr \<lparr>sb_data = ?d, sb_created = 9\<rparr>"
    by (simp add: fsm_Snapshot_def)
  have p: "Persist (mem_sink None None) \<lparr>sb_data = ?d, sb_created = 9\<rparr> (None, None) = ((Some ?d, Some ?d), None)"
    by (simp add: Persist_def mem_sink_def)
  have r: "?r = (fst ?r, None)" by code_simp
  then have R: "fsm_Restore mem_bolt (Inr (Some ?d)) fresh_store = (fst ?r, None)" by (simp add: fsm_Restore_def)
  have b: "\<forall>b. has_bucket mem_bolt fresh_store b \<longrightarrow> has_bucket mem_bolt with_containers b"
  proof -
    have "mem_buckets (sdb fresh_store) = mem_buckets (sdb with_containers)" by code_simp
    then show ?thesis by (simp add: has_bucket_def)
  qed
  have "same_view mem_bolt (fst (fsm_run mem_bolt demo_log with_containers)) (fst (fsm_run mem_bolt demo_log (fst ?r)))"
    using snapshot_shipped [OF mem_det_engine mem_snk.snapshot_sink_axioms fsm_run.simps(1) f p _ mem.dump_refl R b
        _ prod.collapse [symmetric], of demo_log "fst (fsm_run mem_bolt demo_log with_containers)"
        "snd (fsm_run mem_bolt demo_log with_containers)"] by simp
  then show ?thesis using f p R by (metis snd_conv)
qed

end
