(* ===== verification/Reconcile_Run.thy ===== *)
theory Reconcile_Run
  imports Reconcile_Props Replicas
begin

text \<open>
  The loop of the reconciler, \<^verbatim>\<open>Run\<close> of \<^verbatim>\<open>reconcile.go\<close>, on top of a replica of the store: what
  one node does from the log entry another node proposed to the start of the container.

  A wake-up of the loop (a store event, a tick, the end of the context) is one step; between
  two wake-ups the store changes in any way a replica's store can. The pass of a wake-up is
  atomic: it reads and writes the store through single transactions, and no other goroutine
  writes the bookkeeping of the reconciler.
\<close>

section \<open>Wiring\<close>

text \<open>A new reconciler has neither bus nor secrets; \<^verbatim>\<open>WithSecrets\<close> also tells a runtime that stages files where.\<close>

definition NewReconciler :: "bool \<Rightarrow> 'db rc_env" where
  "NewReconciler net = \<lparr>rc_secrets = None, rc_bus = False, rc_net = net\<rparr>"

definition WithBus :: "bool \<Rightarrow> 'db rc_env \<Rightarrow> 'db rc_env" where
  "WithBus b env = env\<lparr>rc_bus := b\<rparr>"

definition WithSecrets :: "'db resolver \<Rightarrow> string \<Rightarrow> string option \<Rightarrow> 'db rc_env \<Rightarrow> 'db rc_env \<times> string option" where
  "WithSecrets R dataDir rtDataDir env = (env\<lparr>rc_secrets := Some R\<rparr>, map_option (\<lambda>_. dataDir) rtDataDir)"

section \<open>The loop\<close>

record ('db, 'rt) run =
  ru_states :: rc_states
  ru_store :: "'db store"
  ru_rt :: 'rt
  ru_effs :: "effect list"
  ru_events :: nat
  ru_returned :: bool

datatype wake = Done | StoreEvent | Tick

text \<open>
  The initial pass, then the subscription. \<open>clk\<close> and \<open>uid\<close> are the readings of the clock and the
  identifiers of one wake-up.
\<close>

definition run_start ::
  "'db bolt \<Rightarrow> 'rt runtime \<Rightarrow> 'db rc_env \<Rightarrow> string \<Rightarrow> (nat \<Rightarrow> time) \<Rightarrow> (nat \<Rightarrow> string) \<Rightarrow> 'db store \<Rightarrow> 'rt \<Rightarrow> ('db, 'rt) run"
where
  "run_start B RT env nodeID clk uid s rt =
     (case bootstrap B RT env nodeID clk uid [] s rt of (rs, s1, rt1, effs) \<Rightarrow>
      case Subscribe s1 of (i, s2) \<Rightarrow>
        \<lparr>ru_states = rs, ru_store = s2, ru_rt = rt1, ru_effs = effs, ru_events = i, ru_returned = False\<rparr>)"

definition run_pass ::
  "('db, 'rt) run \<Rightarrow> rc_states \<times> 'db store \<times> 'rt \<times> effect list \<Rightarrow> ('db, 'rt) run" where
  "run_pass r p = (case p of (rs, s, rt, effs) \<Rightarrow>
     r\<lparr>ru_states := rs, ru_store := s, ru_rt := rt, ru_effs := ru_effs r @ effs\<rparr>)"

text \<open>
  One turn of the \<^verbatim>\<open>select\<close>; \<open>None\<close> when the case is not ready. A closed store has dropped its
  channels, and the receive reports the channel closed.
\<close>

definition run_wake ::
  "'db bolt \<Rightarrow> 'rt runtime \<Rightarrow> 'db rc_env \<Rightarrow> string \<Rightarrow> (nat \<Rightarrow> time) \<Rightarrow> (nat \<Rightarrow> string) \<Rightarrow> wake \<Rightarrow> ('db, 'rt) run \<Rightarrow>
   ('db, 'rt) run option" where
  "run_wake B RT env nodeID clk uid w r =
     (if ru_returned r then None
      else let s = ru_store r; i = ru_events r in
        case w of
          Done \<Rightarrow> Some (r\<lparr>ru_returned := True\<rparr>)
        | Tick \<Rightarrow> Some (run_pass r (bootstrap B RT env nodeID clk uid (ru_states r) s (ru_rt r)))
        | StoreEvent \<Rightarrow>
            if \<not> i < length (subs s) then Some (r\<lparr>ru_returned := True\<rparr>)
            else (case subs s ! i of
                    [] \<Rightarrow> None
                  | ev # rest \<Rightarrow>
                      Some (run_pass r (on_store_event B RT env nodeID (clk 0) (uid 0) (clk 1) (clk 2) ev
                        (ru_states r) (s\<lparr>subs := (subs s)[i := rest]\<rparr>) (ru_rt r)))))"

text \<open>The states of the loop on one node, with everything else that happens to its store.\<close>

inductive rc_run ::
  "'db bolt \<Rightarrow> 'rt runtime \<Rightarrow> 'db rc_env \<Rightarrow> string \<Rightarrow> ('db, 'rt) run \<Rightarrow> bool" for B RT env nodeID where
  start: "replica B s \<Longrightarrow> rc_run B RT env nodeID (run_start B RT env nodeID clk uid s rt)"
| woken: "rc_run B RT env nodeID r \<Longrightarrow> run_wake B RT env nodeID clk uid w r = Some r' \<Longrightarrow> rc_run B RT env nodeID r'"
| operate: "rc_run B RT env nodeID r \<Longrightarrow> store_step B (ru_store r) s' \<Longrightarrow> rc_run B RT env nodeID (r\<lparr>ru_store := s'\<rparr>)"
| commit: "rc_run B RT env nodeID r \<Longrightarrow> proposed op \<Longrightarrow> fsm_Apply B (Some op) (ru_store r) = (s', e) \<Longrightarrow>
     rc_run B RT env nodeID (r\<lparr>ru_store := s'\<rparr>)"
| restore: "rc_run B RT env nodeID r \<Longrightarrow> replica B t \<Longrightarrow> same_snapshot snap (dumpBolt B t) \<Longrightarrow>
     fsm_Restore B (Inr (Some snap)) (ru_store r) = (s', e) \<Longrightarrow> rc_run B RT env nodeID (r\<lparr>ru_store := s'\<rparr>)"
| progress: "rc_run B RT env nodeID r \<Longrightarrow> rc_run B RT env nodeID (r\<lparr>ru_rt := rt'\<rparr>)"

section \<open>Passes\<close>

lemma start_path_store:
  "start_path B RT env nodeID now uid t0 t1 c st s rt = (st', s', rt', effs) \<Longrightarrow>
   s' = s \<or> (\<exists>x. s' = put_ignored B uid t0 t1 x s)"
  by (auto simp: start_path_def after_failure_def after_success_def Let_def split: prod.splits sum.splits if_splits)

lemma reconcileOne_put:
  assumes "reconcileOne B RT env nodeID now uid t0 t1 c rs s rt = (rs', s', rt', effs)"
  shows "s' = s \<or> (\<exists>x. s' = put_ignored B uid t0 t1 x s)"
  using reconcileOne_store [OF assms] start_path_store [of B RT env nodeID now uid t0 t1 c _ s]
  by (metis prod.collapse)

lemma replica_put_ignored: "replica B s \<Longrightarrow> replica B (put_ignored B uid t0 t1 x s)"
  using replica_put [of B s uid t0 t1 x] by (simp add: put_ignored_def put_of_def)

lemma replica_reconcileOne:
  "reconcileOne B RT env nodeID now uid t0 t1 c rs s rt = (rs', s', rt', effs) \<Longrightarrow> replica B s \<Longrightarrow> replica B s'"
  using reconcileOne_put [of B RT env nodeID now uid t0 t1 c rs s rt] replica_put_ignored by metis

text \<open>A pass touches the bookkeeping of its own container only, and starts only that one.\<close>

lemma rc_get_other:
  "reconcileOne B RT env nodeID now uid t0 t1 c rs s rt = (rs', s', rt', effs) \<Longrightarrow> key \<noteq> rc_key c \<Longrightarrow>
   rc_get key rs' = rc_get key rs"
  by (auto simp: reconcileOne_def rc_get_def Let_def update_conv' split: if_splits prod.splits)

lemma reconcileOne_starts:
  assumes "reconcileOne B RT env nodeID now uid t0 t1 c rs s rt = (rs', s', rt', effs)"
  shows "starts effs = [] \<or> starts effs = [c\<lparr>c_Env := fst (start_envs env c s)\<rparr>] \<and> (c_NodeID c = [] \<or> c_NodeID c = nodeID)"
proof -
  note sp = starts_start_path [of B RT env nodeID now uid t0 t1 c _ s]
  show ?thesis using assms
    by (auto simp: reconcileOne_def Let_def sp split: if_splits prod.splits) (metis sp snd_conv)+
qed

text \<open>
  A container is due when this node should start it whatever the runtime holds: it is assigned
  here or nowhere, is not stopped, is not waiting out a failure, and is not a container that was
  started in its current generation, unless that one is found dead and is to be restarted.
\<close>

definition due :: "'rt runtime \<Rightarrow> rc_states \<Rightarrow> string \<Rightarrow> time \<Rightarrow> container \<Rightarrow> bool" where
  "due RT rs nodeID now c \<longleftrightarrow> (c_NodeID c = [] \<or> c_NodeID c = nodeID) \<and> Phase (c_Status c) \<noteq> PhaseStopped \<and>
     (let st = rc_get (rc_key c) rs in
       \<not> (Phase (c_Status c) = PhaseFailed \<and> now < nextAttempt st) \<and>
       (startedOK st \<and> lastGen st = m_Generation (c_Meta c) \<and> Phase (c_Status c) = PhaseRunning \<longrightarrow>
          now - lastAliveCheck st > 8 * second \<and> shouldRestart (c_RestartPolicy c) \<and> (\<forall>rt. \<not> snd (isRunning RT c rt))))"

lemma due_cong: "rc_get (rc_key c) rs = rc_get (rc_key c) rs' \<Longrightarrow> due RT rs nodeID now c = due RT rs' nodeID now c"
  by (simp add: due_def)

lemma due_starts:
  assumes "reconcileOne B RT env nodeID now uid t0 t1 c rs s rt = (rs', s', rt', effs)" "due RT rs nodeID now c"
  shows "starts effs = [c\<lparr>c_Env := fst (start_envs env c s)\<rparr>]"
proof -
  have ph: "PhaseRunning \<noteq> PhaseFailed" by (simp add: phase_defs)
  let ?st = "rc_get (rc_key c) rs"
  note sp = starts_start_path [of B RT env nodeID now uid t0 t1 c _ s]
  show ?thesis
  proof (cases "startedOK ?st \<and> lastGen ?st = m_Generation (c_Meta c) \<and> Phase (c_Status c) = PhaseRunning")
    case True
    obtain rt1 alive where a: "isRunning RT c rt = (rt1, alive)" by fastforce
    then have "\<not> alive" using assms(2) True by (metis due_def snd_conv)
    then show ?thesis
      using assms True a ph sp [of "?st\<lparr>lastAliveCheck := now, startedOK := False, lastAttempt := now\<rparr>" rt1]
      by (auto simp: reconcileOne_def due_def Let_def shouldVerifyAlive_def split: if_splits prod.splits)
  next
    case False
    then show ?thesis
      using assms sp [of "?st\<lparr>lastAttempt := now\<rparr>" rt]
      by (auto simp: reconcileOne_def due_def Let_def split: if_splits prod.splits)
  qed
qed

section \<open>All containers\<close>

lemma replica_reconcile_all:
  "reconcile_all B RT env nodeID clk uid i cs rs s rt = (rs', s', rt', effs) \<Longrightarrow> replica B s \<Longrightarrow> replica B s'"
  by (induction cs arbitrary: i rs s rt effs)
    (auto split: prod.splits dest: replica_reconcileOne)

lemma reconcile_all_starts:
  assumes "reconcile_all B RT env nodeID clk uid i cs rs s rt = (rs', s', rt', effs)"
  shows "subseq (map c_Meta (starts effs)) (map c_Meta cs) \<and>
    (\<forall>cw \<in> set (starts effs). c_NodeID cw = [] \<or> c_NodeID cw = nodeID)"
  using assms
proof (induction cs arbitrary: i rs s rt effs)
  case (Cons c cs)
  obtain rs1 s1 rt1 e1 where one: "reconcileOne B RT env nodeID (clk (3 * i)) (uid i) (clk (3 * i + 1)) (clk (3 * i + 2)) c rs s rt =
      (rs1, s1, rt1, e1)" by (metis prod_cases4)
  obtain e2 where all: "reconcile_all B RT env nodeID clk uid (i + 1) cs rs1 s1 rt1 = (rs', s', rt', e2)"
    and e: "effs = e1 @ e2" using Cons.prems one by (auto split: prod.splits)
  show ?case using Cons.IH [OF all] reconcileOne_starts [OF one] e by (auto intro: subseq_Cons')
qed simp

text \<open>Every due container of a list is started, provided no other one of the list shares its bookkeeping.\<close>

lemma reconcile_all_due:
  assumes "reconcile_all B RT env nodeID clk uid i cs rs s rt = (rs', s', rt', effs)"
    and "c \<in> set cs" "\<forall>x \<in> set cs. rc_key x = rc_key c \<longrightarrow> x = c" "\<forall>n. due RT rs nodeID (clk n) c"
  shows "\<exists>env'. c\<lparr>c_Env := env'\<rparr> \<in> set (starts effs)"
  using assms
proof (induction cs arbitrary: i rs s rt effs)
  case (Cons x cs)
  obtain rs1 s1 rt1 e1 where one: "reconcileOne B RT env nodeID (clk (3 * i)) (uid i) (clk (3 * i + 1)) (clk (3 * i + 2)) x rs s rt =
      (rs1, s1, rt1, e1)" by (metis prod_cases4)
  obtain e2 where all: "reconcile_all B RT env nodeID clk uid (i + 1) cs rs1 s1 rt1 = (rs', s', rt', e2)"
    and e: "effs = e1 @ e2" using Cons.prems one by (auto split: prod.splits)
  show ?case
  proof (cases "x = c")
    case True
    then show ?thesis using due_starts [OF one] Cons.prems(4) e by auto
  next
    case False
    then have "rc_key x \<noteq> rc_key c" using Cons.prems(3) by auto
    then have "\<forall>n. due RT rs1 nodeID (clk n) c"
      using Cons.prems(4) due_cong rc_get_other [OF one] by metis
    then show ?thesis using Cons.IH [OF all] Cons.prems(2,3) False e by auto
  qed
qed simp

text \<open>The initial pass and a tick see every container of the store, each under its own key.\<close>

lemma bootstrap_lists:
  assumes "bolt_engine B" "replica B s"
  obtains cs where "ListContainers B [] s = Inr cs"
    and "set cs = {c. \<exists>k. entries B s ''containers'' k = Some (DContainer c)}"
    and "\<And>x y. x \<in> set cs \<Longrightarrow> y \<in> set cs \<Longrightarrow> rc_key x = rc_key y \<Longrightarrow> x = y"
proof -
  have sg: "sound B s" "good B s" using replica_keeps [OF assms] by simp_all
  then have b: "has_bucket B s ''containers''" by (simp add: good_def store_wf_def rootBuckets_def)
  obtain cs where cs: "ListContainers B [] s = Inr cs"
    "set cs = {c. \<exists>k. entries B s ''containers'' k = Some (DContainer c)}"
    using scoped_table.set_listScoped [OF tables(1) [OF assms(1)] b, of "[]"]
    by (auto simp: ListContainers_def containerT_def)
  have key: "k = rc_key c" if "entries B s ''containers'' k = Some (DContainer c)" for k c
    using that sg(1) by (fastforce simp: sound_def filed_def filed_doc_def containerT_def scoped_key_def keyFor_def rc_key_def)
  have "x = y" if xy: "x \<in> set cs" "y \<in> set cs" "rc_key x = rc_key y" for x y
  proof -
    obtain k l where "entries B s ''containers'' k = Some (DContainer x)" "entries B s ''containers'' l = Some (DContainer y)"
      using xy(1,2) cs(2) by auto
    then show ?thesis using key xy(3) by (metis doc.inject(3) option.inject)
  qed
  then show ?thesis using that cs by blast
qed

lemma bootstrap_due:
  assumes "bolt_engine B" "replica B s" "bootstrap B RT env nodeID clk uid rs s rt = (rs', s', rt', effs)"
    and "entries B s ''containers'' k = Some (DContainer c)" "\<forall>n. due RT rs nodeID (clk n) c"
  shows "\<exists>env'. c\<lparr>c_Env := env'\<rparr> \<in> set (starts effs)"
proof -
  obtain cs where cs: "ListContainers B [] s = Inr cs"
    "set cs = {c. \<exists>k. entries B s ''containers'' k = Some (DContainer c)}"
    "\<And>x y. x \<in> set cs \<Longrightarrow> y \<in> set cs \<Longrightarrow> rc_key x = rc_key y \<Longrightarrow> x = y"
    by (rule bootstrap_lists [OF assms(1,2)]) blast
  then have "c \<in> set cs" using assms(4) by blast
  then show ?thesis using reconcile_all_due [of B RT env nodeID clk uid 0 cs rs s rt rs' s' rt' effs c] assms(3,5) cs
    by (auto simp: bootstrap_def)
qed

section \<open>The loop on a replica\<close>

lemma bootstrap_keeps:
  assumes "bootstrap B RT env nodeID clk uid rs s rt = (rs', s', rt', effs)"
  shows "(replica B s \<longrightarrow> replica B s') \<and> (\<forall>cw \<in> set (starts effs). c_NodeID cw = [] \<or> c_NodeID cw = nodeID)"
proof (cases "ListContainers B [] s")
  case (Inl e)
  then show ?thesis using assms by (auto simp: bootstrap_def)
next
  case (Inr cs)
  then show ?thesis using assms replica_reconcile_all [of B RT env nodeID clk uid 0 cs rs s rt]
      reconcile_all_starts [of B RT env nodeID clk uid 0 cs rs s rt] by (auto simp: bootstrap_def)
qed

lemma on_store_event_keeps:
  assumes "on_store_event B RT env nodeID now uid t0 t1 ev rs s rt = (rs', s', rt', effs)"
  shows "(replica B s \<longrightarrow> replica B s') \<and> (\<forall>cw \<in> set (starts effs). c_NodeID cw = [] \<or> c_NodeID cw = nodeID)"
proof (cases "(s' = s \<and> effs = [])")
  case False
  then obtain c where "reconcileOne B RT env nodeID now uid t0 t1 c rs s rt = (rs', s', rt', effs)"
    using assms by (auto simp: on_store_event_def split: if_splits sum.splits)
  then show ?thesis using replica_reconcileOne reconcileOne_starts by fastforce
qed simp

definition run_ok :: "'db bolt \<Rightarrow> string \<Rightarrow> ('db, 'rt) run \<Rightarrow> bool" where
  "run_ok B nodeID r \<longleftrightarrow> replica B (ru_store r) \<and> (\<forall>cw \<in> set (starts (ru_effs r)). c_NodeID cw = [] \<or> c_NodeID cw = nodeID)"

lemma run_pass_ok:
  "run_ok B nodeID r \<Longrightarrow> (replica B s \<longrightarrow> replica B s') \<and> (\<forall>cw \<in> set (starts effs). c_NodeID cw = [] \<or> c_NodeID cw = nodeID) \<Longrightarrow>
   replica B s \<Longrightarrow> run_ok B nodeID (run_pass r (rs', s', rt', effs))"
  by (auto simp: run_ok_def run_pass_def)

lemma run_wake_ok:
  assumes "run_wake B RT env nodeID clk uid w r = Some r'" "run_ok B nodeID r"
  shows "run_ok B nodeID r'"
proof (cases w)
  case Done
  then show ?thesis using assms by (auto simp: run_wake_def run_ok_def split: if_splits)
next
  case Tick
  obtain rs' s' rt' effs where b: "bootstrap B RT env nodeID clk uid (ru_states r) (ru_store r) (ru_rt r) = (rs', s', rt', effs)"
    by (metis prod_cases4)
  then show ?thesis using assms Tick run_pass_ok [OF assms(2) bootstrap_keeps [OF b]]
    by (auto simp: run_wake_def run_ok_def split: if_splits)
next
  case StoreEvent
  show ?thesis
  proof (cases "ru_events r < length (subs (ru_store r))")
    case False
    then show ?thesis using assms StoreEvent by (auto simp: run_wake_def run_ok_def split: if_splits)
  next
    case True
    then obtain ev rest where q: "subs (ru_store r) ! ru_events r = ev # rest"
      using assms(1) StoreEvent by (auto simp: run_wake_def Let_def split: if_splits list.splits)
    let ?s = "(ru_store r)\<lparr>subs := (subs (ru_store r))[ru_events r := rest]\<rparr>"
    obtain rs' s' rt' effs where e: "on_store_event B RT env nodeID (clk 0) (uid 0) (clk 1) (clk 2) ev (ru_states r) ?s (ru_rt r) =
        (rs', s', rt', effs)" by (metis prod_cases4)
    have "replica B ?s" using assms(2) replica.operate [OF _ store_step.receive [OF True q]] by (simp add: run_ok_def)
    then show ?thesis using assms(1) StoreEvent True q e run_pass_ok [OF assms(2) on_store_event_keeps [OF e]]
      by (auto simp: run_wake_def split: if_splits)
  qed
qed

lemma rc_run_ok: "rc_run B RT env nodeID r \<Longrightarrow> run_ok B nodeID r"
proof (induction rule: rc_run.induct)
  case (start s clk uid rt)
  obtain rs' s' rt' effs where b: "bootstrap B RT env nodeID clk uid [] s rt = (rs', s', rt', effs)" by (metis prod_cases4)
  have "replica B s'" using bootstrap_keeps [OF b] start by simp
  then have "replica B (snd (Subscribe s'))" by (metis prod.collapse replica.operate store_step.subscribe)
  then show ?case using b bootstrap_keeps [OF b] by (auto simp: run_ok_def run_start_def split: prod.splits)
next
  case (woken r clk uid w r')
  then show ?case by (metis run_wake_ok)
next
  case (restore r t snap s' e)
  then show ?case by (auto simp: run_ok_def fsm_Restore_def intro: replica.restore)
qed (auto simp: run_ok_def intro: replica.operate replica.commit)

section \<open>From the log entry to the start\<close>

lemma rs_PutContainer_accepted:
  assumes "shouldReplicate env" "rs_PutContainer B env uid t0 t1 c s = (c', s', None)"
  shows "c' = c\<lparr>c_Meta := put_meta uid t0 t1 (c_Meta c)\<rparr>"
proof -
  have "re_leader env" "m_Name (c_Meta c) \<noteq> []"
    using assms by (auto simp: rs_PutContainer_def applyTypedPut_def containerT_def Let_def split: if_splits)
  then show ?thesis
    using assms applyTypedPut_entry [OF assms(1), of containerT c B "''containers''" KindContainer uid t0 t1 s]
      containerT.scoped_type_axioms by (simp add: rs_PutContainer_def containerT_def Let_def)
qed

lemma GetContainer_subs [simp]: "GetContainer B p n (s\<lparr>subs := x\<rparr>) = GetContainer B p n s"
  by (simp add: GetContainer_def store_get_def)

text \<open>A committed container is what the store then returns, and its event is queued last.\<close>

lemma commit_container:
  assumes "bolt_engine B" "fsm_Apply B (Some (put_entry containerT ''containers'' KindContainer c)) t = (t', None)"
    and "i < length (subs t)" "length (subs t ! i) < subCap"
  shows "subs t' ! i = subs t ! i @ [\<lparr>e_Kind = KindContainer, e_Op = ''put'', e_Project = m_Project (c_Meta c),
      e_Name = m_Name (c_Meta c), e_Value = Some (DContainer c)\<rparr>] \<and> length (subs t') = length (subs t) \<and>
    GetContainer B (m_Project (c_Meta c)) (m_Name (c_Meta c)) t' = Inr c"
proof -
  note kv = bolt_engine.axioms_kv [OF assms(1)]
  let ?k = "scoped_key (c_Meta c)"
  have "decodeKind KindContainer (Some (DContainer c)) = Inr (DContainer c)"
    using decodeKind_marshal(1) [of c] by (simp add: containerT_def)
  then obtain t1 where p: "store_put B ''containers'' ?k (DContainer c) t = (t1, None)"
    and t': "t' = emit \<lparr>e_Kind = KindContainer, e_Op = ''put'', e_Project = m_Project (c_Meta c),
      e_Name = m_Name (c_Meta c), e_Value = Some (DContainer c)\<rparr> t1"
    using assms(2) by (auto simp: fsm_Apply_def fsm_apply_def put_entry_def containerT_def kind_ne Let_def
        split: prod.splits option.splits)
  have s: "subs t1 = subs t" using subs_store_put [of B "''containers''" ?k "DContainer c" t] p by simp
  have "has_bucket B t1 ''containers''" "entries B t1 ''containers'' ?k = Some (DContainer c)"
    using kv_store.lookup_kput [OF kv p] kv_store.kput_has [OF kv p] kv_store.kput_panic [OF kv] p by force+
  then have "GetContainer B (m_Project (c_Meta c)) (m_Name (c_Meta c)) t1 = Inr c"
    by (simp add: GetContainer_def store_get_def has_bucket_def entries_def scoped_key_def containerT_def)
  then show ?thesis using assms(3,4) s
    by (simp add: t' emit_def try_send_def)
qed

section \<open>Theorems\<close>

text \<open>
  C16. Over every run of the reconciler's loop on a node, with any operations, log entries and
  snapshots in between: only containers assigned to this node or to none are started; and a
  tick starts every stored container that is due, in particular one whose event was dropped,
  was missed before the subscription, or came with a restored snapshot, each at most once.
\<close>

theorem tick_starts_all:
  assumes "bolt_engine B" "rc_run B RT env nodeID r" "run_wake B RT env nodeID clk uid Tick r = Some r'"
  shows "(\<forall>cw \<in> set (starts (ru_effs r')). c_NodeID cw = [] \<or> c_NodeID cw = nodeID) \<and>
    (\<exists>new cs. starts (ru_effs r') = starts (ru_effs r) @ new \<and>
       ListContainers B [] (ru_store r) = Inr cs \<and> subseq (map c_Meta new) (map c_Meta cs) \<and>
       (\<forall>c k. entries B (ru_store r) ''containers'' k = Some (DContainer c) \<and> (\<forall>n. due RT (ru_states r) nodeID (clk n) c) \<longrightarrow>
          (\<exists>e. c\<lparr>c_Env := e\<rparr> \<in> set new)))"
proof -
  have ok: "replica B (ru_store r)" using rc_run_ok [OF assms(2)] by (simp add: run_ok_def)
  obtain rs' s' rt' effs where b: "bootstrap B RT env nodeID clk uid (ru_states r) (ru_store r) (ru_rt r) = (rs', s', rt', effs)"
    by (metis prod_cases4)
  obtain cs where cs: "ListContainers B [] (ru_store r) = Inr cs" by (rule bootstrap_lists [OF assms(1) ok]) blast
  have r': "starts (ru_effs r') = starts (ru_effs r) @ starts effs"
    using assms(3) b by (auto simp: run_wake_def run_pass_def split: if_splits)
  have "subseq (map c_Meta (starts effs)) (map c_Meta cs)"
    using reconcile_all_starts [of B RT env nodeID clk uid 0 cs "ru_states r" "ru_store r" "ru_rt r"] b cs
    by (simp add: bootstrap_def)
  then show ?thesis
    using rc_run_ok [OF rc_run.woken [OF assms(2,3)]] r' cs bootstrap_due [OF assms(1) ok b] by (auto simp: run_ok_def)
qed

text \<open>
  C15. End to end: when the leader has accepted a container and the state machine of a node has
  applied the entry, the next wake-up of that node's idle reconciler handles its event, and
  starts exactly that container, with the metadata the leader stamped, if it is due there.
\<close>

theorem replicated_put_starts:
  assumes "bolt_engine B" "shouldReplicate renv" "rs_PutContainer B renv uid0 t0 t1 c s = (c', s1, None)"
    and "fsm_Apply B (Some (put_entry containerT ''containers'' KindContainer c')) (ru_store r) = (t', None)"
    and "\<not> ru_returned r" "ru_events r < length (subs (ru_store r))" "subs (ru_store r) ! ru_events r = []"
    and "due RT (ru_states r) nodeID (clk 0) c'"
  shows "c_Meta c' = put_meta uid0 t0 t1 (c_Meta c) \<and>
    (\<exists>r'. run_wake B RT env nodeID clk uid StoreEvent (r\<lparr>ru_store := t'\<rparr>) = Some r' \<and>
       (\<exists>e. starts (ru_effs r') = starts (ru_effs r) @ [c'\<lparr>c_Env := e\<rparr>]))"
proof -
  let ?i = "ru_events r" and ?ev = "\<lparr>e_Kind = KindContainer, e_Op = ''put'', e_Project = m_Project (c_Meta c'),
      e_Name = m_Name (c_Meta c'), e_Value = Some (DContainer c')\<rparr>"
  have q: "subs t' ! ?i = [?ev]" "length (subs t') = length (subs (ru_store r))"
    and g: "GetContainer B (m_Project (c_Meta c')) (m_Name (c_Meta c')) t' = Inr c'"
    using commit_container [OF assms(1,4,6)] assms(7) by (simp_all add: subCap_def)
  let ?t = "t'\<lparr>subs := (subs t')[?i := []]\<rparr>"
  obtain rs' s' rt' effs where one: "reconcileOne B RT env nodeID (clk 0) (uid 0) (clk 1) (clk 2) c' (ru_states r) ?t (ru_rt r) =
      (rs', s', rt', effs)" by (metis prod_cases4)
  have "run_wake B RT env nodeID clk uid StoreEvent (r\<lparr>ru_store := t'\<rparr>) =
      Some (run_pass (r\<lparr>ru_store := t'\<rparr>) (rs', s', rt', effs))"
    using assms(5,6) q g one by (simp add: run_wake_def on_store_event_def)
  moreover have "starts effs = [c'\<lparr>c_Env := fst (start_envs env c' ?t)\<rparr>]" by (rule due_starts [OF one assms(8)])
  ultimately show ?thesis using rs_PutContainer_accepted [OF assms(2,3)] by (auto simp: run_pass_def)
qed

text \<open>
  A container deleted through another node is never stopped here: when the entry of the delete
  is applied, the reconciler forgets the container and does not touch the runtime.
\<close>

theorem deleted_keeps_running:
  assumes "bolt_engine B" "p \<noteq> []"
    and "fsm_Apply B (Some (delete_entry ''containers'' KindContainer p n)) (ru_store r) = (t', None)"
    and "\<not> ru_returned r" "ru_events r < length (subs (ru_store r))" "subs (ru_store r) ! ru_events r = []"
  shows "\<exists>r'. run_wake B RT env nodeID clk uid StoreEvent (r\<lparr>ru_store := t'\<rparr>) = Some r' \<and>
    ru_rt r' = ru_rt r \<and> ru_effs r' = ru_effs r \<and> GetContainer B p n (ru_store r') = Inl ErrNotFound"
proof -
  note kv = bolt_engine.axioms_kv [OF assms(1)]
  let ?ev = "\<lparr>e_Kind = KindContainer, e_Op = ''delete'', e_Project = p, e_Name = n, e_Value = None\<rparr>"
  obtain t1 where d: "store_del B ''containers'' (keyFor p n) (ru_store r) = (t1, None)" and t': "t' = emit ?ev t1"
    using assms(3) by (auto simp: fsm_Apply_def fsm_apply_def delete_entry_def split: prod.splits option.splits)
  have s: "subs t1 = subs (ru_store r)" using subs_store_del [of B "''containers''" "keyFor p n" "ru_store r"] d by simp
  have "has_bucket B t1 ''containers''"
    using d kv_store.kdel_has [OF kv d] by (auto simp: store_del_None has_bucket_def)
  then have "GetContainer B p n t1 = Inl ErrNotFound"
    using kv_store.lookup_kdel [OF kv d] by (simp add: GetContainer_def store_get_NotFound)
  then have "GetContainer B p n t' = Inl ErrNotFound" by (simp add: t' emit_def)
  moreover have "subs t' ! ru_events r = [?ev]" "length (subs t') = length (subs (ru_store r))"
    using assms(5,6) s by (simp_all add: t' emit_def try_send_def subCap_def)
  ultimately show ?thesis using assms(4,5) by (simp add: run_wake_def on_store_event_def run_pass_def)
qed

section \<open>Witnesses\<close>

definition demo_run :: "(memdb, stub) run" where
  "demo_run = run_start mem_bolt (stub_runtime int) demo_env ''n1'' (\<lambda>n. 100 + int n) (\<lambda>n. ''u'') fresh_store NewStub"

lemma rc_run_demo: "rc_run mem_bolt (stub_runtime int) demo_env ''n1'' demo_run"
  unfolding demo_run_def
  by (rule rc_run.start, rule replica.start [OF fresh_store_open]) (simp add: mem_get_def)

lemma due_new:
  "rc_get (rc_key c) rs = zero_rstate \<Longrightarrow> c_NodeID c = [] \<Longrightarrow> Phase (c_Status c) = [] \<Longrightarrow> due RT rs nodeID now c"
  by (simp add: due_def zero_rstate_def phase_defs)

text \<open>A container that reaches the store while the loop is idle.\<close>

definition late_run :: "(memdb, stub) run" where
  "late_run = demo_run\<lparr>ru_store := put_of (PutContainer mem_bolt ''u1'' 5 6 (demo_container ''p'' ''web'') (ru_store demo_run))\<rparr>"

theorem tick_starts_all_witness:
  "\<exists>r'. run_wake mem_bolt (stub_runtime int) demo_env ''n1'' (\<lambda>n. 200 + int n) (\<lambda>n. ''v'') Tick late_run = Some r' \<and>
     starts (ru_effs r') \<noteq> []"
proof -
  let ?c = "fst (PutContainer mem_bolt ''u1'' 5 6 (demo_container ''p'' ''web'') (ru_store demo_run))"
  obtain r' where w: "run_wake mem_bolt (stub_runtime int) demo_env ''n1'' (\<lambda>n. 200 + int n) (\<lambda>n. ''v'') Tick late_run = Some r'"
  proof -
    have "\<not> ru_returned late_run" by code_simp
    then show ?thesis using that by (simp add: run_wake_def)
  qed
  have "rc_run mem_bolt (stub_runtime int) demo_env ''n1'' late_run"
    unfolding late_run_def by (rule rc_run.operate [OF rc_run_demo step_put])
  from tick_starts_all [OF mem_engine this w] obtain new where
    n: "starts (ru_effs r') = starts (ru_effs late_run) @ new"
    and d: "\<And>c k. entries mem_bolt (ru_store late_run) ''containers'' k = Some (DContainer c) \<Longrightarrow>
      (\<forall>n. due (stub_runtime int) (ru_states late_run) ''n1'' (200 + int n) c) \<Longrightarrow> \<exists>e. c\<lparr>c_Env := e\<rparr> \<in> set new"
    by blast
  have "mem_get (sdb (ru_store late_run)) ''containers'' ''p/web'' = Some (DContainer ?c)" by code_simp
  then have e: "entries mem_bolt (ru_store late_run) ''containers'' ''p/web'' = Some (DContainer ?c)"
    by (simp add: entries_def)
  have "rc_get (rc_key ?c) (ru_states late_run) = zero_rstate" "c_NodeID ?c = []" "Phase (c_Status ?c) = []"
    by code_simp+
  then have "new \<noteq> []" using d [OF e] due_new by fastforce
  then show ?thesis using w n by simp
qed

theorem replicated_put_starts_witness:
  "\<exists>r' e. run_wake mem_bolt (stub_runtime int) demo_env ''n1'' (\<lambda>n. 200 + int n) (\<lambda>n. ''v'') StoreEvent
     (demo_run\<lparr>ru_store := fst (fsm_Apply mem_bolt (Some (put_entry containerT ''containers'' KindContainer
        (fst (rs_PutContainer mem_bolt (leader_env None) ''u1'' 5 6 (demo_container ''p'' ''web'') fresh_store)))) (ru_store demo_run))\<rparr>)
       = Some r' \<and> map c_Image (starts (ru_effs r')) = [''nginx'']"
proof -
  let ?p = "rs_PutContainer mem_bolt (leader_env None) ''u1'' 5 6 (demo_container ''p'' ''web'') fresh_store"
  let ?c = "fst ?p"
  let ?a = "fsm_Apply mem_bolt (Some (put_entry containerT ''containers'' KindContainer ?c)) (ru_store demo_run)"
  have "snd (snd ?p) = None" "snd ?a = None" by code_simp+
  then have p: "?p = (?c, fst (snd ?p), None)" and a: "?a = (fst ?a, None)" by (metis prod.collapse)+
  have l: "shouldReplicate (leader_env None)" "\<not> ru_returned demo_run"
    "ru_events demo_run < length (subs (ru_store demo_run))" "subs (ru_store demo_run) ! ru_events demo_run = []"
    by code_simp+
  have "rc_get (rc_key ?c) (ru_states demo_run) = zero_rstate" "c_NodeID ?c = []" "Phase (c_Status ?c) = []"
    by code_simp+
  note replicated_put_starts [OF mem_engine l(1) p a l(2,3,4) due_new [OF this],
      where RT = "stub_runtime int" and nodeID = "''n1''" and clk = "\<lambda>n. 200 + int n" and env = demo_env and uid = "\<lambda>n. ''v''"]
  moreover have "starts (ru_effs demo_run) = []" "c_Image ?c = ''nginx''" by code_simp+
  ultimately show ?thesis by fastforce
qed

definition accepted_entry :: log_op where
  "accepted_entry = put_entry containerT ''containers'' KindContainer
     (fst (rs_PutContainer mem_bolt (leader_env None) ''u1'' 5 6 (demo_container ''p'' ''web'') fresh_store))"

definition started_run :: "(memdb, stub) run option" where
  "started_run = run_wake mem_bolt (stub_runtime int) demo_env ''n1'' (\<lambda>n. 200 + int n) (\<lambda>n. ''v'') StoreEvent
     (demo_run\<lparr>ru_store := fst (fsm_Apply mem_bolt (Some accepted_entry) (ru_store demo_run))\<rparr>)"

text \<open>
  The reconciler writes to the bare store, by design not to the replicated one: after it has started a
  container, its own replica says running in generation 2, while every replica that only applied
  the log still has the container as it was put, in generation 1.
\<close>

theorem status_not_replicated:
  "(case started_run of None \<Rightarrow> False | Some r \<Rightarrow>
      (case (GetContainer mem_bolt ''p'' ''web'' (ru_store r),
             GetContainer mem_bolt ''p'' ''web'' (fst (fsm_Apply mem_bolt (Some accepted_entry) fresh_store))) of
         (Inr here, Inr there) \<Rightarrow> Phase (c_Status here) = PhaseRunning \<and> m_Generation (c_Meta here) = 2 \<and>
           Phase (c_Status there) = [] \<and> m_Generation (c_Meta there) = 1
       | _ \<Rightarrow> False))"
  by code_simp

end
