(* ===== verification/Api_Server.thy ===== *)
theory Api_Server
  imports Api_Routes Watchers Paths
begin

text \<open>
  The shell around the handlers: the embedded dashboard (\<^verbatim>\<open>internal/api/web.go\<close>), the
  description of the node (\<^verbatim>\<open>handleMeta\<close>, \<^verbatim>\<open>internal/version\<close>), the outer middleware and the life of the
  servers (\<^verbatim>\<open>New\<close>, \<^verbatim>\<open>AttachRuleDispatcher\<close>, \<^verbatim>\<open>requestLogger\<close>, \<^verbatim>\<open>recoverer\<close>, \<^verbatim>\<open>Run\<close> of
  \<^verbatim>\<open>server.go\<close>; \<^verbatim>\<open>Run\<close> of \<^verbatim>\<open>sidecar.go\<close>) and the logger (\<^verbatim>\<open>internal/log\<close>).

  The build of the dashboard is generated and embedded by the compiler: it is the argument
  \<open>sub\<close>, a finite tree of files. \<^verbatim>\<open>http.FileServer\<close> is modelled for requests without a range; the
  content type it derives from name and content is the argument \<open>mime\<close>, the page it would show for a
  directory the argument \<open>listing\<close>.
\<close>

section \<open>The dashboard\<close>

datatype web_node = WFile bytes | WDir "string list"

type_synonym web_fs = "(string \<times> web_node) list"

definition ValidPath :: "string \<Rightarrow> bool" where
  "ValidPath name = (name = ''.'' \<or> list_all plain_elem (SplitByte name CHR ''/''))"

definition web_open :: "web_fs \<Rightarrow> string \<Rightarrow> web_node option" where
  "web_open sub name = (if ValidPath name then map_of sub name else None)"

text \<open>\<^verbatim>\<open>http.FS\<close>: the names \<^verbatim>\<open>http.FileServer\<close> opens are rooted.\<close>

definition http_open :: "web_fs \<Rightarrow> string \<Rightarrow> web_node option" where
  "http_open sub name = web_open sub (if name = ''/'' then ''.'' else TrimPrefix name ''/'')"

definition raw_query :: "string \<Rightarrow> string" where
  "raw_query uri = drop 1 (dropWhile (\<lambda>c. c \<noteq> CHR ''?'') uri)"

definition localRedirect :: "request \<Rightarrow> string \<Rightarrow> response" where
  "localRedirect r target =
     (let q = raw_query (r_RequestURI r) in
      \<lparr>w_Status = 301, w_Header = [(''location'', if q = [] then target else target @ ''?'' @ q)], w_Body = NoBody\<rparr>)"

definition serveContent :: "(string \<Rightarrow> bytes \<Rightarrow> string) \<Rightarrow> string \<Rightarrow> bytes \<Rightarrow> response" where
  "serveContent mime name b = \<lparr>w_Status = 200, w_Header = [(''content-type'', mime name b), (''accept-ranges'', ''bytes''),
     (''content-length'', Itoa (int (length b)))], w_Body = Text b\<rparr>"

definition dirList :: "bytes \<Rightarrow> response" where
  "dirList page = \<lparr>w_Status = 200, w_Header = [(''content-type'', ''text/html; charset=utf-8'')], w_Body = Text page\<rparr>"

definition HasSuffix :: "string \<Rightarrow> string \<Rightarrow> bool" where
  "HasSuffix s x = HasPrefix (rev s) (rev x)"

definition FileServer :: "(string list \<Rightarrow> bytes) \<Rightarrow> web_fs \<Rightarrow> (string \<Rightarrow> bytes \<Rightarrow> string) \<Rightarrow> request \<Rightarrow> response" where
  "FileServer listing sub mime r =
     (let url = r_Path r; name = Clean (if HasPrefix url ''/'' then url else ''/'' @ url) in
      if HasSuffix url ''/index.html'' then localRedirect r ''./''
      else case http_open sub name of
        None \<Rightarrow> plain_error 404 ''404 page not found''
      | Some (WFile b) \<Rightarrow>
          if HasSuffix url ''/'' then
            (if Base url \<in> {''/'', ''.''} then plain_error 500 ''http: attempting to traverse a non-directory''
             else localRedirect r (''../'' @ Base url))
          else serveContent mime (Base name) b
      | Some (WDir names) \<Rightarrow>
          if \<not> HasSuffix url ''/'' then localRedirect r (Base url @ ''/'')
          else (case http_open sub ((if HasSuffix name ''/'' then butlast name else name) @ ''/index.html'') of
                  Some (WFile b) \<Rightarrow> serveContent mime ''index.html'' b
                | Some (WDir names') \<Rightarrow> dirList (listing names')
                | None \<Rightarrow> dirList (listing names)))"

definition html_page :: "bytes \<Rightarrow> response" where
  "html_page b = \<lparr>w_Status = 200, w_Header = [(''content-type'', ''text/html; charset=utf-8'')], w_Body = Text b\<rparr>"

definition placeholder_page :: bytes where
  \<open>placeholder_page =
     (let nl = [CHR 0x0A] in
      ''<!doctype html>'' @ nl @
      ''<html><head><meta charset="utf-8"><title>selfCloud</title>'' @ nl @
      ''<style>body{font-family:ui-sans-serif,system-ui;background:#0a0e14;color:#e6edf3;margin:0;padding:48px;line-height:1.6}code{background:#161b22;padding:2px 6px;border-radius:4px}h1{margin:0 0 12px}a{color:#58a6ff}</style>'' @ nl @
      ''</head><body>'' @ nl @
      ''<h1>selfCloud</h1>'' @ nl @
      ''<p>The dashboard hasn't been built yet. From the project root run:</p>'' @ nl @
      ''<pre><code>make web</code></pre>'' @ nl @
      ''<p>Then refresh this page. The REST API is already serving on <code>/api/v1</code>.</p>'' @ nl @
      ''</body></html>'')\<close>

definition placeholderHandler :: "request \<Rightarrow> response" where
  "placeholderHandler r = html_page placeholder_page"

text \<open>The fallback reads the index page with one \<^verbatim>\<open>Read\<close> into a buffer of 64 KiB.\<close>

definition dashboardHandler :: "(string list \<Rightarrow> bytes) \<Rightarrow> web_fs \<Rightarrow> (string \<Rightarrow> bytes \<Rightarrow> string) \<Rightarrow> request \<Rightarrow> response" where
  "dashboardHandler listing sub mime r =
     (if (case web_open sub ''.'' of Some (WDir names) \<Rightarrow> names = [] | _ \<Rightarrow> True) then placeholderHandler r
      else let path = (if r_Path r = ''/'' then ''/index.html'' else r_Path r) in
        case web_open sub (drop 1 path) of
          Some f \<Rightarrow> FileServer listing sub mime r
        | None \<Rightarrow>
            (case web_open sub ''index.html'' of
               None \<Rightarrow> plain_error 404 ''404 page not found''
             | Some (WDir names) \<Rightarrow> html_page []
             | Some (WFile b) \<Rightarrow> html_page (take (64 * 1024) b)))"

section \<open>The node\<close>

record build_info =
  bi_Version :: string
  bi_Commit :: string
  bi_Date :: string

definition version_String :: "build_info \<Rightarrow> string" where
  "version_String v = bi_Version v @ '' ('' @ bi_Commit v @ '', '' @ bi_Date v @ '')''"

text \<open>The Go version and platform are constants of the build, \<open>go\<close>. A duration is truncated to seconds.\<close>

definition handleMeta ::
  "build_info \<Rightarrow> string \<times> string \<times> string \<Rightarrow> time \<Rightarrow> ('db, 'rt, 'wa, 'fc) handler" where
  "handleMeta v go startedAt sv ob r w =
     (let up = ob_clk ob 0 - startedAt in
      (w, writeJSON 200 (JObj [(''version'', JStr (version_String v)), (''goVersion'', JStr (fst go)),
        (''goos'', JStr (fst (snd go))), (''goarch'', JStr (snd (snd go))), (''startedAt'', JTime startedAt),
        (''uptimeSec'', JInt (sgn up * (\<bar>up\<bar> div second))), (''description'', JStr ''selfCloud node'')])))"

text \<open>\<^verbatim>\<open>New\<close>: an empty readiness tracker and an empty ring of invocations; everything else is handed in.\<close>

definition api_New ::
  "'db store \<Rightarrow> 'rt \<Rightarrow> 'wa \<Rightarrow> 'fc \<Rightarrow> bus option \<Rightarrow> blobs option \<Rightarrow> ('db, 'rt, 'wa, 'fc) world" where
  "api_New s rt wa fc bus blobs = \<lparr>wd_store = s, wd_rt = rt, wd_wasm = wa, wd_fc = fc, wd_bus = bus, wd_blobs = blobs,
     wd_invocations = Some (newInvocationRing 100), wd_garage = [], wd_ready = Some []\<rparr>"

definition AttachRuleDispatcher :: "('db, 'rt, 'wa, 'fc) world \<Rightarrow> ('db, 'rt, 'wa, 'fc) world" where
  "AttachRuleDispatcher w = w\<lparr>wd_bus := map_option (AddSink ''rule-dispatcher'') (wd_bus w)\<rparr>"

text \<open>The handlers the route table takes as arguments: these two, and \<open>rest\<close> for the streams and the objects.\<close>

definition node_other ::
  "build_info \<Rightarrow> string \<times> string \<times> string \<Rightarrow> time \<Rightarrow> (string list \<Rightarrow> bytes) \<Rightarrow> web_fs \<Rightarrow> (string \<Rightarrow> bytes \<Rightarrow> string) \<Rightarrow>
   (string \<Rightarrow> ('db, 'rt, 'wa, 'fc) handler) \<Rightarrow> string \<Rightarrow> ('db, 'rt, 'wa, 'fc) handler" where
  "node_other v go startedAt listing sub mime rest name =
     (if name = ''handleMeta'' then handleMeta v go startedAt
      else if name = ''dashboardHandler'' then (\<lambda>sv ob r w. (w, dashboardHandler listing sub mime r))
      else rest name)"

section \<open>The outer middleware\<close>

text \<open>
  A handler that may panic before it has written anything: \<open>None\<close>. (The handlers write their
  response with their last statement.) Both wrappers append to the log of the process.
\<close>

type_synonym 'w panicking = "request \<Rightarrow> 'w \<Rightarrow> 'w \<times> response option"

datatype log_line = AccessLine string string int int | PanicLine string

text \<open>\<^verbatim>\<open>statusRecorder\<close>: the status is 200 until \<^verbatim>\<open>WriteHeader\<close> is called; every response of the model carries the status it was written with.\<close>

definition recorded_status :: "response option \<Rightarrow> int" where
  "recorded_status resp = (case resp of None \<Rightarrow> 200 | Some x \<Rightarrow> w_Status x)"

definition requestLogger ::
  "time \<Rightarrow> time \<Rightarrow> 'w panicking \<Rightarrow> ('w \<times> log_line list) panicking" where
  "requestLogger start stop h r wl =
     (case h r (fst wl) of
        (w', None) \<Rightarrow> ((w', snd wl), None)
      | (w', Some resp) \<Rightarrow>
          ((w', if \<not> HasPrefix (r_Path r) ''/healthz'' \<and> \<not> HasPrefix (r_Path r) ''/assets''
                then snd wl @ [AccessLine (r_Method r) (r_Path r) (recorded_status (Some resp)) ((stop - start) div 1000000)]
                else snd wl), Some resp))"

definition recoverer ::
  "('w \<times> log_line list) panicking \<Rightarrow> request \<Rightarrow> 'w \<times> log_line list \<Rightarrow> ('w \<times> log_line list) \<times> response" where
  "recoverer h r wl =
     (case h r wl of
        ((w', l), None) \<Rightarrow> ((w', l @ [PanicLine (r_Path r)]), httpError 500 ''internal error'')
      | (wl', Some resp) \<Rightarrow> (wl', resp))"

text \<open>What \<^verbatim>\<open>Run\<close> installs: a handler of the model inside the wrappers.\<close>

definition installed ::
  "time \<Rightarrow> time \<Rightarrow> 'w panicking \<Rightarrow> request \<Rightarrow> 'w \<times> log_line list \<Rightarrow> ('w \<times> log_line list) \<times> response" where
  "installed start stop h = recoverer (requestLogger start stop h)"

section \<open>Running\<close>

record api_config =
  cf_APIAddr :: string
  cf_DisableTLS :: bool
  cf_TLSCertFile :: string
  cf_TLSKeyFile :: string

datatype listen_mode = Plain | WithTLS string string

record http_server =
  hs_Addr :: string
  hs_ReadHeaderTimeout :: duration
  hs_ReadTimeout :: duration
  hs_WriteTimeout :: duration
  hs_IdleTimeout :: duration
  hs_TLS12 :: bool
  hs_listen :: listen_mode

text \<open>
  Which of the two cases of the final \<^verbatim>\<open>select\<close> happens: the context ends, and \<^verbatim>\<open>Shutdown\<close> returns
  its error within ten seconds, or listening fails (other than by a shutdown).
\<close>

datatype run_end = Cancelled "error option" | ListenFailed error

definition http_server_of :: "api_config \<Rightarrow> http_server" where
  "http_server_of cfg = \<lparr>hs_Addr = cf_APIAddr cfg, hs_ReadHeaderTimeout = 5 * second, hs_ReadTimeout = 60 * second,
     hs_WriteTimeout = 60 * second, hs_IdleTimeout = 120 * second,
     hs_TLS12 = (\<not> cf_DisableTLS cfg \<and> cf_TLSCertFile cfg \<noteq> [] \<and> cf_TLSKeyFile cfg \<noteq> []),
     hs_listen = (if cf_DisableTLS cfg then Plain else WithTLS (cf_TLSCertFile cfg) (cf_TLSKeyFile cfg))\<rparr>"

definition server_Run ::
  "api_config \<Rightarrow> time \<Rightarrow> run_end \<Rightarrow> readiness option \<Rightarrow> http_server \<times> readiness option \<times> error option" where
  "server_Run cfg now fin ready =
     (http_server_of cfg, map_option (ready_Mark now ''api'' True (''listening on '' @ cf_APIAddr cfg)) ready,
      case fin of Cancelled e \<Rightarrow> e | ListenFailed e \<Rightarrow> Some e)"

text \<open>The sidecar: the system calls it makes, in order, with the error each may return.\<close>

datatype sidecar_call = SMkdirAll string | SRemove string | SListen string | SChmod string int | SServe

record sidecar_env =
  se_mkdir :: "error option"
  se_listen :: "error option"
  se_serve :: "error option"

text \<open>
  \<open>se_serve\<close> is \<open>None\<close> when the server was shut down because the context ended, after which the
  socket is removed. A failing \<^verbatim>\<open>Chmod\<close> is only logged.
\<close>

definition sidecar_Run :: "sidecar_env \<Rightarrow> bool \<Rightarrow> string \<Rightarrow> sidecar_call list \<times> error option" where
  "sidecar_Run env bus dataDir =
     (let socket = SocketPath dataDir in
      if \<not> bus then ([], Some (Err ''sidecar: bus is nil''))
      else case se_mkdir env of Some e \<Rightarrow> ([SMkdirAll (Dir socket)], Some e)
        | None \<Rightarrow>
            let calls = [SMkdirAll (Dir socket), SRemove socket, SListen socket] in
            (case se_listen env of Some e \<Rightarrow> (calls, Some e)
             | None \<Rightarrow>
                 let calls = calls @ [SChmod socket 438, SServe] in
                 (case se_serve env of Some e \<Rightarrow> (calls, Some e)
                  | None \<Rightarrow> (calls @ [SRemove socket], None))))"

section \<open>Logging\<close>

datatype log_format = LogJSON | LogText

text \<open>A logger: its handler (format, threshold, where it writes) and the attributes added to it.\<close>

record logger =
  lg_format :: log_format
  lg_level :: int
  lg_out :: string
  lg_attrs :: "(string \<times> string) list"

definition LevelDebug :: int where "LevelDebug = -4"
definition LevelInfo :: int where "LevelInfo = 0"
definition LevelWarn :: int where "LevelWarn = 4"
definition LevelError :: int where "LevelError = 8"

definition newDefault :: "string \<Rightarrow> logger" where
  "newDefault v =
     (let l = ToLower v;
          level = (if v = [] then LevelInfo
                   else if l = ''debug'' then LevelDebug else if l = ''info'' then LevelInfo
                   else if l = ''warn'' then LevelWarn else if l = ''error'' then LevelError else LevelInfo)
      in \<lparr>lg_format = LogJSON, lg_level = level, lg_out = ''stderr'', lg_attrs = []\<rparr>)"

text \<open>The new logger replaces the current one; \<open>None\<close> is a nil writer.\<close>

definition Configure :: "bool \<Rightarrow> string \<Rightarrow> string option \<Rightarrow> logger \<Rightarrow> logger" where
  "Configure dev level out cur =
     (let l = ToLower level;
          lvl = (if l = ''debug'' then LevelDebug else if l = ''warn'' then LevelWarn
                 else if l = ''error'' then LevelError else LevelInfo)
      in \<lparr>lg_format = (if dev then LogText else LogJSON), lg_level = lvl,
          lg_out = (case out of None \<Rightarrow> ''stderr'' | Some x \<Rightarrow> x), lg_attrs = []\<rparr>)"

definition log_With :: "(string \<times> string) list \<Rightarrow> logger \<Rightarrow> logger" where
  "log_With args cur = cur\<lparr>lg_attrs := lg_attrs cur @ args\<rparr>"

definition FromContext :: "logger option \<Rightarrow> logger \<Rightarrow> logger" where
  "FromContext ctx cur = (case ctx of Some l \<Rightarrow> l | None \<Rightarrow> cur)"

definition log_enabled :: "logger \<Rightarrow> int \<Rightarrow> bool" where
  "log_enabled l level = (lg_level l \<le> level)"

end
