(* ===== verification/Api_Server_Props.thy ===== *)
theory Api_Server_Props
  imports Api_Server Api_Fixtures
begin

text \<open>
  Properties of the server shell: what the dashboard serves for every path, what the outer
  middleware adds to a handler, and how the servers end.
\<close>

section \<open>Paths of the dashboard\<close>

lemma HasSuffix_iff: "HasSuffix s x \<longleftrightarrow> (\<exists>y. s = y @ x)"
  by (metis HasSuffix_def HasPrefix_iff rev_append rev_rev_ident)

lemma ValidPath_elems:
  assumes "ValidPath p" "p \<noteq> ''.''"
  shows "list_all plain_elem (SplitByte p CHR ''/'')" "p \<noteq> []"
  using assms by (auto simp: ValidPath_def plain_elem_def)

lemma Clean_valid:
  assumes "ValidPath p" "p \<noteq> ''.''"
  shows "Clean (''/'' @ p) = ''/'' @ p"
proof -
  note v = ValidPath_elems [OF assms]
  have "path_elems (''/'' @ p) = SplitByte p CHR ''/''"
    using v clean_segs_plain [OF v(1), of True "[]"] by (simp add: path_elems_def rooted_def HasPrefix_def)
  then show ?thesis by (simp add: Clean_def rooted_def HasPrefix_def Join_SplitByte)
qed

lemma valid_no_slash_end:
  assumes "ValidPath p"
  shows "\<not> HasSuffix (''/'' @ p) ''/''"
proof
  assume "HasSuffix (''/'' @ p) ''/''"
  then obtain y where y: "''/'' @ p = y @ ''/''" by (auto simp: HasSuffix_iff)
  have "p \<noteq> []" using assms by (auto simp: ValidPath_def plain_elem_def)
  then obtain z where z: "p = z @ ''/''" using y by (cases y) auto
  then have "SplitByte p CHR ''/'' = SplitByte z CHR ''/'' @ [[]]" using SplitByte_append_sep [of z "CHR ''/''" "[]"] by simp
  moreover have "p \<noteq> ''.''" using z by (cases z) auto
  ultimately show False using assms by (simp add: ValidPath_def plain_elem_def)
qed

text \<open>The file server opens, for a path the dashboard has opened, the same file.\<close>

lemma http_open_valid:
  assumes "ValidPath p"
  shows "http_open sub (Clean (''/'' @ p)) = web_open sub p"
proof (cases "p = ''.''")
  case True
  have "Clean ''/.'' = ''/''" by code_simp
  then show ?thesis using True by (simp add: http_open_def)
next
  case False
  then show ?thesis using assms Clean_valid ValidPath_elems(2) by (simp add: http_open_def TrimPrefix_def HasPrefix_def)
qed

lemma Base_Clean_valid: "ValidPath p \<Longrightarrow> p \<noteq> ''.'' \<Longrightarrow> Base (Clean (''/'' @ p)) = Base (''/'' @ p)"
  by (metis Clean_valid)

lemma FileServer_root:
  assumes "web_open sub ''.'' = Some (WDir names)" "web_open sub ''index.html'' = Some (WFile idx)" "r_Path r = ''/''"
  shows "FileServer listing sub mime r = serveContent mime ''index.html'' idx"
proof -
  have "Clean ''/'' = ''/''" "HasSuffix ''/'' ''/''" "\<not> HasSuffix ''/'' ''/index.html''" "HasPrefix ''/'' ''/''" by code_simp+
  then show ?thesis using assms by (simp add: FileServer_def Let_def http_open_def TrimPrefix_def HasPrefix_def)
qed

lemma FileServer_valid:
  assumes "web_open sub p = Some n" "r_Path r = ''/'' @ p" "n = WDir names \<or> p \<noteq> ''.''"
  shows "FileServer listing sub mime r = (if HasSuffix (''/'' @ p) ''/index.html'' then localRedirect r ''./''
    else case n of WFile b \<Rightarrow> serveContent mime (Base (''/'' @ p)) b | WDir _ \<Rightarrow> localRedirect r (Base (''/'' @ p) @ ''/''))"
proof -
  have v: "ValidPath p" using assms(1) by (auto simp: web_open_def split: if_splits)
  have "HasPrefix (''/'' @ p) ''/''" by (simp add: HasPrefix_def)
  then show ?thesis
    using assms http_open_valid [OF v, of sub] valid_no_slash_end [OF v] Base_Clean_valid [OF v]
    by (auto simp: FileServer_def Let_def split: web_node.split)
qed

section \<open>Theorems\<close>

text \<open>
  C34. The dashboard, over any build with an index page and any path: the root is the index page; a
  file of the build is served with its exact content and a directory is redirected to its
  slash form; every other path, whatever it contains, is answered with the index page, of
  which the fallback sends the first 64 KiB. No directory is ever listed.
\<close>

theorem dashboard_spec:
  assumes "web_open sub ''.'' = Some (WDir names)" "names \<noteq> []" "web_open sub ''index.html'' = Some (WFile idx)"
    and "r_Path r = ''/'' @ p"
  shows "dashboardHandler listing sub mime r =
    (if p = [] then serveContent mime ''index.html'' idx
     else case web_open sub p of
       None \<Rightarrow> html_page (take 65536 idx)
     | Some n \<Rightarrow>
         if HasSuffix (''/'' @ p) ''/index.html'' then localRedirect r ''./''
         else case n of WFile b \<Rightarrow> serveContent mime (Base (''/'' @ p)) b
              | WDir _ \<Rightarrow> localRedirect r (Base (''/'' @ p) @ ''/''))"
proof (cases "p = []")
  case True
  then show ?thesis using assms FileServer_root [OF assms(1,3)] by (simp add: dashboardHandler_def Let_def)
next
  case False
  show ?thesis
  proof (cases "web_open sub p")
    case None
    then show ?thesis using False assms by (simp add: dashboardHandler_def Let_def)
  next
    case (Some n)
    have "n = WDir names \<or> p \<noteq> ''.''" using Some assms(1) by auto
    from FileServer_valid [OF Some assms(4) this] False Some assms show ?thesis
      by (simp add: dashboardHandler_def Let_def)
  qed
qed

text \<open>
  C2. What \<^verbatim>\<open>Run\<close> wraps around a handler changes neither its effect nor its response: exactly
  one line with the method, the path and the status sent is logged, none for health checks and
  assets. A handler that panics is answered with status 500 and one line that names the path.
\<close>

theorem installed_faithful:
  "installed start stop h r (w, l) =
     (case h r w of
        (w', Some resp) \<Rightarrow>
          ((w', l @ (if HasPrefix (r_Path r) ''/healthz'' \<or> HasPrefix (r_Path r) ''/assets'' then []
             else [AccessLine (r_Method r) (r_Path r) (w_Status resp) ((stop - start) div 1000000)])), resp)
      | (w', None) \<Rightarrow> ((w', l @ [PanicLine (r_Path r)]), recovered))"
  by (auto simp: installed_def recoverer_def requestLogger_def recorded_status_def recovered_def split: prod.split option.split)

text \<open>
  Who reaches the dashboard: any client, with or without a token, on any path that no other
  route takes; the request changes nothing.
\<close>

theorem dashboard_public:
  assumes "r_Method r = ''GET''" "get0 (r_Header r) ''origin'' = []" "\<not> under_api (r_Segs r)"
    and "length (r_Segs r) > 1 \<longrightarrow> hd (r_Segs r) \<notin> {''fn'', ''s3''}"
    and "find_route (public_routes (node_other v go st listing sub mime rest)) ''GET'' (r_Segs r) = None"
  shows "api_handler (node_other v go st listing sub mime rest) sv ob r w = (w, dashboardHandler listing sub mime r)"
  using assms by (auto simp: api_handler_def cors_def leaderRedirect_def routes_def node_other_def)

text \<open>
  The redirect of a follower goes to \<^verbatim>\<open>https\<close> even on a cluster that runs without TLS, where no
  node listens for it.
\<close>

theorem redirect_ignores_plain:
  assumes "cf_DisableTLS cfg" "sv_raft sv" "r_Method r = ''POST''" "\<not> exempt (r_Path r)" "\<not> ob_IsLeader ob"
    and "ob_LeaderAddr ob \<noteq> []" "leaderAPIAddr (sv_B sv) (ob_LeaderAddr ob) (wd_store w) = addr" "addr \<noteq> []"
  shows "hs_listen (http_server_of cfg) = Plain \<and>
    leaderRedirect h sv ob r w = (w, redirect (''https://'' @ addr @ r_RequestURI r))"
  using assms by (simp add: http_server_of_def leaderRedirect_def Let_def)

section \<open>Witnesses\<close>

definition demo_build :: web_fs where
  "demo_build = [(''.'', WDir [''assets'', ''index.html'']), (''index.html'', WFile ''<html>''),
     (''assets'', WDir [''app.js'']), (''assets/app.js'', WFile ''run()'')]"

definition get_page :: "string \<Rightarrow> request" where
  "get_page p = \<lparr>r_Method = ''GET'', r_Path = p, r_Segs = [], r_RequestURI = p, r_Host = [], r_Header = [],
     r_Query = [], r_PathValue = [], r_Body = None, r_Identity = None\<rparr>"

theorem dashboard_spec_witness:
  "dashboardHandler (\<lambda>ns. concat ns) demo_build (\<lambda>n b. ''text/plain'') (get_page ''/assets/app.js'') =
     serveContent (\<lambda>n b. ''text/plain'') ''app.js'' ''run()'' \<and>
   dashboardHandler (\<lambda>ns. concat ns) demo_build (\<lambda>n b. ''text/plain'') (get_page ''/assets/../../etc/passwd'') = html_page ''<html>''"
proof -
  have o: "web_open demo_build ''.'' = Some (WDir [''assets'', ''index.html''])"
    "web_open demo_build ''index.html'' = Some (WFile ''<html>'')"
    "web_open demo_build ''assets/app.js'' = Some (WFile ''run()'')"
    "web_open demo_build ''assets/../../etc/passwd'' = None"
    "\<not> HasSuffix ''/assets/app.js'' ''/index.html''" "Base ''/assets/app.js'' = ''app.js''"
    by code_simp+
  show ?thesis
    using dashboard_spec [OF o(1) _ o(2), of "get_page ''/assets/app.js''" "''assets/app.js''"]
      dashboard_spec [OF o(1) _ o(2), of "get_page ''/assets/../../etc/passwd''" "''assets/../../etc/passwd''"] o(3-6)
    by (simp add: get_page_def)
qed

end
