(* ===== verification/Loops.thy ===== *)
theory Loops
  imports Agent Firecracker Watchers_Props Wasm_Props
begin

text \<open>
  The loops and entry points that drive the components: \<^verbatim>\<open>main\<close> of the agent inside a microVM
  (\<^verbatim>\<open>firecracker/agent/main.go\<close>) with its duties as process 1, the goroutine of the cron scheduler
  (\<^verbatim>\<open>cron.go\<close>), \<^verbatim>\<open>Run\<close> of the log scanner (\<^verbatim>\<open>logscan.go\<close>), and the client of the Firecracker API
  (\<^verbatim>\<open>jailer.go\<close>).
\<close>

section \<open>The agent\<close>

text \<open>
  What \<^verbatim>\<open>main\<close> observes: the outcomes of mounting, of loading the code drive, of listening and of
  spawning the child. It ends the machine, or it serves a manifest, with or without a child.
\<close>

record main_obs =
  mo_mount :: "error option"
  mo_code :: "error + manifest"
  mo_listen :: "error option"
  mo_spawn :: spawner
  mo_environ :: "string list"

datatype main_end = PowerOff int | Serving manifest bool

definition agent_main :: "main_obs \<Rightarrow> string list \<times> main_end" where
  "agent_main ob =
     (let logs = (case mo_mount ob of None \<Rightarrow> [] | Some e \<Rightarrow> [''mount: '' @ errorString e @ '' (continuing)'']) @
            (case mo_code ob of Inr m \<Rightarrow> [] | Inl e \<Rightarrow> [''code drive: '' @ errorString e @ '' (continuing with empty manifest)'']);
          mf = effective_manifest (mo_code ob)
      in case mo_listen ob of
           Some e \<Rightarrow> (logs @ [''vsock listen: '' @ errorString e], PowerOff 1)
         | None \<Rightarrow>
             let logs = logs @ [''fc-agent: listening, mode='' @ mf_Mode mf] in
             if mf_Mode mf = ''http'' \<and> mf_Entrypoint mf \<noteq> [] then
               (case spawnHTTPChild (mo_spawn ob) (mo_environ ob) mf of
                  None \<Rightarrow> (logs, Serving mf True)
                | Some e \<Rightarrow> (logs @ [''http child: '' @ errorString e], Serving mf False))
             else (logs, Serving mf False))"

text \<open>
  The accept loop over the outcomes of \<^verbatim>\<open>Accept\<close>: a connection, which gets a goroutine of its
  own, or an error, together with whether the context had ended by then. The second component of
  the result says whether the loop returned.
\<close>

datatype 'c accept = Conn 'c | AcceptErr error bool

fun accept_loop :: "'c accept list \<Rightarrow> 'c list \<times> bool" where
  "accept_loop [] = ([], False)"
| "accept_loop (Conn c # as) = (case accept_loop as of (cs, d) \<Rightarrow> (c # cs, d))"
| "accept_loop (AcceptErr e ended # as) = (if ended then ([], True) else accept_loop as)"

text \<open>
  A child of process 1. The goroutine of \<^verbatim>\<open>setupInitDuties\<close> waits for any child; the goroutine that
  runs a handler waits for its own one (\<^verbatim>\<open>exec.Cmd.Wait\<close>). The kernel gives the status to the first.
\<close>

datatype proc = Alive | Zombie int | Reaped

record child =
  ch_proc :: proc
  ch_exit :: "int option"
  ch_wait :: "(error + int) option"

definition spawned :: child where
  "spawned = \<lparr>ch_proc = Alive, ch_exit = None, ch_wait = None\<rparr>"

inductive child_step :: "bool \<Rightarrow> child \<Rightarrow> child \<Rightarrow> bool" for init where
  exits: "ch_proc c = Alive \<Longrightarrow> child_step init c (c\<lparr>ch_proc := Zombie code, ch_exit := Some code\<rparr>)"
| init_reaps: "init \<Longrightarrow> ch_proc c = Zombie code \<Longrightarrow> child_step init c (c\<lparr>ch_proc := Reaped\<rparr>)"
| cmd_reaps: "ch_proc c = Zombie code \<Longrightarrow> ch_wait c = None \<Longrightarrow>
    child_step init c (c\<lparr>ch_proc := Reaped, ch_wait := Some (Inr code)\<rparr>)"
| cmd_fails: "ch_proc c = Reaped \<Longrightarrow> ch_wait c = None \<Longrightarrow>
    child_step init c (c\<lparr>ch_wait := Some (Inl (Err ''wait: no child processes''))\<rparr>)"

inductive child_reach :: "bool \<Rightarrow> child \<Rightarrow> bool" for init where
  start: "child_reach init spawned"
| step: "child_reach init c \<Longrightarrow> child_step init c c' \<Longrightarrow> child_reach init c'"

section \<open>The cron goroutine\<close>

text \<open>
  The initial pass runs in \<^verbatim>\<open>Start\<close>; the goroutine subscribes later and then handles one event at a
  time. \<open>None\<close> in \<open>cg_events\<close> is before the subscription.
\<close>

record 'db cron_run =
  cg_cron :: cron
  cg_store :: "'db store"
  cg_events :: "nat option"
  cg_stopped :: bool

definition cron_begin :: "(string \<Rightarrow> bool) \<Rightarrow> 'db bolt \<Rightarrow> 'db store \<Rightarrow> 'db cron_run" where
  "cron_begin valid B s = \<lparr>cg_cron = cron_Start valid B s NewCronScheduler, cg_store = s, cg_events = None, cg_stopped = False\<rparr>"

definition cron_subscribe :: "'db cron_run \<Rightarrow> 'db cron_run" where
  "cron_subscribe g = (case Subscribe (cg_store g) of (i, s) \<Rightarrow> g\<lparr>cg_store := s, cg_events := Some i\<rparr>)"

definition cron_turn :: "(string \<Rightarrow> bool) \<Rightarrow> 'db bolt \<Rightarrow> bool \<Rightarrow> 'db cron_run \<Rightarrow> 'db cron_run option" where
  "cron_turn valid B ctxDone g =
     (case cg_events g of None \<Rightarrow> None
      | Some i \<Rightarrow>
          let s = cg_store g in
          if cg_stopped g then None
          else if ctxDone \<or> \<not> i < length (subs s) then Some (g\<lparr>cg_stopped := True\<rparr>)
          else (case subs s ! i of
                  [] \<Rightarrow> None
                | ev # rest \<Rightarrow>
                    (let s' = s\<lparr>subs := (subs s)[i := rest]\<rparr> in
                     Some (g\<lparr>cg_store := s', cg_cron := cron_on_event valid B ev s' (cg_cron g)\<rparr>))))"

section \<open>The log scanner\<close>

text \<open>A pass at the start and on every tick, over the store as it is then; at the end, the shutdown.\<close>

definition scan_Run :: "'db bolt \<Rightarrow> 'db store list \<Rightarrow> scanner \<Rightarrow> scanner" where
  "scan_Run B passes s = scan_shutdown (fold (scan_reconcile B) passes s)"

section \<open>The Firecracker API\<close>

text \<open>
  \<^verbatim>\<open>fcAPI\<close>: marshalling the body and building the request may fail; the transport fails or
  returns the status code, its text and the body. Its error is what \<open>fo_api\<close> stands for.
\<close>

definition fcAPI ::
  "error option \<Rightarrow> error option \<Rightarrow> (error + int \<times> string \<times> bytes) \<Rightarrow> string \<Rightarrow> string \<Rightarrow> error option" where
  "fcAPI marshalled newreq answer mthd path =
     (case marshalled of Some e \<Rightarrow> Some e
      | None \<Rightarrow>
          (case newreq of Some e \<Rightarrow> Some e
           | None \<Rightarrow>
               (case answer of Inl e \<Rightarrow> Some e
                | Inr (code, status, body) \<Rightarrow>
                    if 300 \<le> code
                    then Some (Err (''firecracker '' @ mthd @ '' '' @ path @ '': '' @ status @ '': '' @ body))
                    else None)))"

section \<open>Theorems\<close>

text \<open>
  The accept loop serves every connection accepted before the first error after the end of the
  context, in order, and returns at that error; it never returns otherwise, in particular not
  while \<^verbatim>\<open>Accept\<close> blocks, since nothing closes the listener when the context ends.
\<close>

theorem accept_loop_spec:
  "accept_loop as =
     (List.map_filter (\<lambda>a. case a of Conn c \<Rightarrow> Some c | _ \<Rightarrow> None) (takeWhile (\<lambda>a. \<forall>e. a \<noteq> AcceptErr e True) as),
      \<exists>e. AcceptErr e True \<in> set as)"
  by (induction as rule: accept_loop.induct) (auto simp: map_filter_simps split: prod.splits)

lemma child_inv:
  "child_reach init c \<Longrightarrow>
   (ch_proc c = Alive \<longleftrightarrow> ch_exit c = None) \<and> (\<forall>n. ch_proc c = Zombie n \<longrightarrow> ch_exit c = Some n) \<and>
   (\<forall>n. ch_wait c = Some (Inr n) \<longrightarrow> ch_exit c = Some n) \<and> (ch_wait c \<noteq> None \<longrightarrow> ch_proc c = Reaped) \<and>
   (\<not> init \<longrightarrow> (ch_proc c = Reaped \<longrightarrow> ch_wait c \<noteq> None) \<and> (\<forall>e. ch_wait c \<noteq> Some (Inl e)))"
  by (induction rule: child_reach.induct) (auto simp: spawned_def elim!: child_step.cases)

text \<open>
  Waiting for a handler process reports its exit status whenever nothing else reaps it. As
  process 1 of the machine the agent also waits for any child, and then a handler that exited
  with status 0 can be reported as failed.
\<close>

theorem init_steals_exit:
  "(\<forall>c. child_reach False c \<longrightarrow> ch_wait c = None \<or> ch_wait c = map_option Inr (ch_exit c)) \<and>
   (\<exists>c e. child_reach True c \<and> ch_exit c = Some 0 \<and> ch_wait c = Some (Inl e))"
proof
  show "\<forall>c. child_reach False c \<longrightarrow> ch_wait c = None \<or> ch_wait c = map_option Inr (ch_exit c)"
  proof (intro allI impI)
    fix c assume "child_reach False c"
    note i = child_inv [OF this]
    show "ch_wait c = None \<or> ch_wait c = map_option Inr (ch_exit c)"
    proof (cases "ch_wait c")
      case (Some r)
      then show ?thesis using i by (cases r) auto
    qed simp
  qed
  let ?z = "spawned\<lparr>ch_proc := Zombie 0, ch_exit := Some 0\<rparr>"
  let ?r = "?z\<lparr>ch_proc := Reaped\<rparr>"
  have "child_reach True ?z" by (rule child_reach.step [OF child_reach.start child_step.exits]) (simp add: spawned_def)
  then have "child_reach True ?r" by (rule child_reach.step) (rule child_step.init_reaps; simp)
  then have "child_reach True (?r\<lparr>ch_wait := Some (Inl (Err ''wait: no child processes''))\<rparr>)"
    by (rule child_reach.step) (rule child_step.cmd_fails; simp add: spawned_def)
  then show "\<exists>c e. child_reach True c \<and> ch_exit c = Some 0 \<and> ch_wait c = Some (Inl e)"
    by (intro exI conjI, assumption) (simp_all add: spawned_def)
qed

definition late_function :: "memdb cron_run" where
  "late_function = cron_subscribe ((cron_begin (\<lambda>_. True) mem_bolt fresh_store)\<lparr>cg_store :=
     put_of (PutFunction mem_bolt ''u1'' 5 6 (cron_function [''a'']) fresh_store)\<rparr>)"

text \<open>
  A function stored after the initial pass and before the goroutine subscribes is in neither:
  nothing is left to handle, no job exists, and there is no periodic pass that would add it.
\<close>

theorem cron_start_window:
  "cr_jobs (cg_cron late_function) = [] \<and> cron_turn (\<lambda>_. True) mem_bolt False late_function = None \<and>
   (case GetFunction mem_bolt ''p'' ''tick'' (cg_store late_function) of Inr f \<Rightarrow> schedules (\<lambda>_. True) f = [''a''] | Inl _ \<Rightarrow> False)"
  by code_simp

text \<open>When the scanner has returned, every follower it ever started is cancelled.\<close>

theorem scan_Run_ends:
  assumes "i < length (sn_followers (scan_Run B passes scanner_New))"
  shows "fo_cancelled (sn_followers (scan_Run B passes scanner_New) ! i)"
proof -
  have "scan_ok (fold (scan_reconcile B) ps s)" if "scan_ok s" for ps s
    using that by (induction ps arbitrary: s) (auto simp: scan_reconcile_def scan_pass_ok split: sum.splits)
  moreover have "scan_ok scanner_New" by (simp add: scanner_New_def scan_ok_def known_ok_def follows_def)
  ultimately have "scan_ok (scan_Run B passes scanner_New)" unfolding scan_Run_def by (intro shutdown_ok)
  moreover have "sn_known (scan_Run B passes scanner_New) = []" by (simp add: scan_Run_def scan_shutdown_def)
  ultimately show ?thesis using assms by (auto simp: scan_ok_def known_ok_def follows_def)
qed

end
