(* ===== verification/Cron_Run.thy ===== *)
theory Cron_Run
  imports Loops Replicas
begin

text \<open>
  The cron scheduler on a replica: as long as no event is lost, the jobs follow the functions of
  the store, whether they are written here or come with the log. An event is lost when the queue
  of the subscription is full, and in the window between the initial pass and the subscription
  (\<open>cron_start_window\<close>).
\<close>

section \<open>Functions and their events\<close>

definition stored_fn :: "'db bolt \<Rightarrow> 'db store \<Rightarrow> string \<Rightarrow> func option" where
  "stored_fn B s k = (case entries B s ''functions'' k of Some (DFunction f) \<Rightarrow> Some f | _ \<Rightarrow> None)"

definition event_key :: "event \<Rightarrow> string" where
  "event_key ev = e_Project ev @ ''/'' @ e_Name ev"

definition fn_events :: "event list \<Rightarrow> string \<Rightarrow> event list" where
  "fn_events q k = filter (\<lambda>ev. e_Kind ev = KindFunction \<and> event_key ev = k) q"

text \<open>
  A step of the store that keeps the subscription informed: either it changes no function and
  announces none, or it changes one, and its event, with the operation, is queued last.
\<close>

definition quiet :: "'db bolt \<Rightarrow> nat \<Rightarrow> 'db store \<Rightarrow> 'db store \<Rightarrow> bool" where
  "quiet B i s s' \<longleftrightarrow> i < length (subs s') \<and> entries B s' ''functions'' = entries B s ''functions'' \<and>
     (subs s' ! i = subs s ! i \<or> (\<exists>ev. subs s' ! i = subs s ! i @ [ev] \<and> e_Kind ev \<noteq> KindFunction))"

definition announced :: "'db bolt \<Rightarrow> nat \<Rightarrow> 'db store \<Rightarrow> 'db store \<Rightarrow> bool" where
  "announced B i s s' \<longleftrightarrow> i < length (subs s') \<and>
     (\<exists>ev k. subs s' ! i = subs s ! i @ [ev] \<and> e_Kind ev = KindFunction \<and> event_key ev = k \<and> e_Project ev \<noteq> [] \<and>
        (\<forall>k'. k' \<noteq> k \<longrightarrow> stored_fn B s' k' = stored_fn B s k') \<and>
        (e_Op ev = ''delete'' \<longleftrightarrow> stored_fn B s' k = None))"

text \<open>
  What happens to the store: functions are put and deleted, locally or by a committed entry, and
  every other operation or entry leaves them alone.
\<close>

inductive fn_step :: "(string \<Rightarrow> bool) \<Rightarrow> 'db bolt \<Rightarrow> nat \<Rightarrow> 'db store \<Rightarrow> 'db store \<Rightarrow> bool" for valid B i where
  put: "length (schedules valid f) \<le> 1 \<Longrightarrow> PutFunction B uid t0 t1 f s = (f', s', r) \<Longrightarrow> fn_step valid B i s s'"
| delete: "p \<noteq> [] \<Longrightarrow> DeleteFunction B p n s = (s', r) \<Longrightarrow> fn_step valid B i s s'"
| commit_put: "length (schedules valid f) \<le> 1 \<Longrightarrow> m_Project (f_Meta f) \<noteq> [] \<Longrightarrow>
    fsm_Apply B (Some (put_entry functionT ''functions'' KindFunction f)) s = (s', r) \<Longrightarrow> fn_step valid B i s s'"
| commit_delete: "p \<noteq> [] \<Longrightarrow> fsm_Apply B (Some (delete_entry ''functions'' KindFunction p n)) s = (s', r) \<Longrightarrow> fn_step valid B i s s'"
| operate: "store_step B s s' \<Longrightarrow> quiet B i s s' \<Longrightarrow> fn_step valid B i s s'"
| commit: "proposed op \<Longrightarrow> fsm_Apply B (Some op) s = (s', r) \<Longrightarrow> quiet B i s s' \<Longrightarrow> fn_step valid B i s s'"

inductive cron_reach :: "(string \<Rightarrow> bool) \<Rightarrow> 'db bolt \<Rightarrow> 'db cron_run \<Rightarrow> bool" for valid B where
  start: "replica B s \<Longrightarrow> (\<forall>k f. stored_fn B s k = Some f \<longrightarrow> length (schedules valid f) \<le> 1) \<Longrightarrow>
    cron_reach valid B (cron_subscribe (cron_begin valid B s))"
| turn: "cron_reach valid B g \<Longrightarrow> cron_turn valid B False g = Some g' \<Longrightarrow> cron_reach valid B g'"
| change: "cron_reach valid B g \<Longrightarrow> cg_events g = Some i \<Longrightarrow> i < length (subs (cg_store g)) \<Longrightarrow>
    length (subs (cg_store g) ! i) < subCap \<Longrightarrow> fn_step valid B i (cg_store g) s' \<Longrightarrow> cron_reach valid B (g\<lparr>cg_store := s'\<rparr>)"

section \<open>Changes are announced\<close>

lemma emit_queued: "i < length (subs s) \<Longrightarrow> length (subs s ! i) < subCap \<Longrightarrow> subs (emit ev s) ! i = subs s ! i @ [ev]"
  by (simp add: emit_def try_send_def)

lemma length_subs_emit [simp]: "length (subs (emit ev s)) = length (subs s)"
  by (simp add: emit_def)

lemma quiet_refl: "i < length (subs s) \<Longrightarrow> quiet B i s s"
  by (simp add: quiet_def)

context bolt_engine
begin

lemma put_announced:
  assumes "store_put B ''functions'' (p @ ''/'' @ n) (DFunction f) s = (s1, None)" "p \<noteq> []"
    and "i < length (subs s)" "length (subs s ! i) < subCap"
  shows "announced B i s (emit \<lparr>e_Kind = KindFunction, e_Op = ''put'', e_Project = p, e_Name = n, e_Value = v\<rparr> s1) \<and>
    (\<forall>k g. stored_fn B s1 k = Some g \<longrightarrow> g = f \<or> stored_fn B s k = Some g)"
proof -
  have s: "subs s1 = subs s" using subs_store_put [of B "''functions''" "p @ ''/'' @ n" "DFunction f" s] unfolding assms(1) by simp
  have e: "stored_fn B s1 k = (if k = p @ ''/'' @ n then Some f else stored_fn B s k)" for k
    using kv.lookup_kput [OF assms(1)] by (simp add: stored_fn_def)
  have e': "stored_fn B (emit ev s1) k = stored_fn B s1 k" for ev k by (simp add: stored_fn_def)
  show ?thesis using assms(2-4) s emit_queued [of i s1]
    by (auto simp: announced_def event_key_def e e')
qed

lemma del_announced:
  assumes "store_del B ''functions'' (p @ ''/'' @ n) s = (s1, None)" "p \<noteq> []"
    and "i < length (subs s)" "length (subs s ! i) < subCap"
  shows "announced B i s (emit \<lparr>e_Kind = KindFunction, e_Op = ''delete'', e_Project = p, e_Name = n, e_Value = None\<rparr> s1) \<and>
    (\<forall>k g. stored_fn B s1 k = Some g \<longrightarrow> stored_fn B s k = Some g)"
proof -
  have s: "subs s1 = subs s" using subs_store_del [of B "''functions''" "p @ ''/'' @ n" s] unfolding assms(1) by simp
  have e: "stored_fn B s1 k = (if k = p @ ''/'' @ n then None else stored_fn B s k)" for k
    using kv.lookup_kdel [OF assms(1)] by (simp add: stored_fn_def)
  have e': "stored_fn B (emit ev s1) k = stored_fn B s1 k" for ev k by (simp add: stored_fn_def)
  show ?thesis using assms(2-4) s emit_queued [of i s1]
    by (auto simp: announced_def event_key_def e e')
qed

text \<open>Every step keeps the subscription informed, the replica sound and the schedules single.\<close>

lemma fn_step_informs:
  assumes "fn_step valid B i s s'" "i < length (subs s)" "length (subs s ! i) < subCap"
    and "\<forall>k f. stored_fn B s k = Some f \<longrightarrow> length (schedules valid f) \<le> 1"
  shows "(quiet B i s s' \<or> announced B i s s') \<and>
    (\<forall>k f. stored_fn B s' k = Some f \<longrightarrow> length (schedules valid f) \<le> 1)"
  using assms(1)
proof cases
  case (put f uid t0 t1 f' r)
  show ?thesis
  proof (cases r)
    case None
    let ?m = "put_meta uid t0 t1 (f_Meta f)"
    have n: "m_Project ?m \<noteq> []" by simp
    then have k: "scoped_key ?m = m_Project ?m @ ''/'' @ m_Name ?m" by (simp only: scoped_key_def keyFor_def if_False)
    obtain s1 where p: "store_put B ''functions'' (m_Project ?m @ ''/'' @ m_Name ?m) (DFunction f') s = (s1, None)"
      and s': "s' = emit \<lparr>e_Kind = KindFunction, e_Op = ''put'', e_Project = m_Project ?m, e_Name = m_Name ?m,
        e_Value = Some (DFunction f')\<rparr> s1" and f': "f' = f\<lparr>f_Meta := ?m\<rparr>"
      using put(2) unfolding None PutFunction_def putScoped_None functionT_def scoped.simps Let_def k by blast
    have "length (schedules valid f') \<le> 1" using put(1) by (simp add: f' schedules_def)
    then show ?thesis using put_announced [OF p n assms(2,3)] assms(4) unfolding s' by (fastforce simp: stored_fn_def)
  next
    case (Some e)
    then have "s' = s" using put(2) putScoped_Some unfolding PutFunction_def by metis
    then show ?thesis using assms(2,4) quiet_refl by blast
  qed
next
  case (commit_put f r)
  show ?thesis
  proof (cases r)
    case None
    let ?m = "f_Meta f"
    have "decodeKind KindFunction (Some (DFunction f)) = Inr (DFunction f)"
      using decodeKind_marshal(2) [of f] by (simp add: functionT_def)
    then obtain s1 where p: "store_put B ''functions'' (m_Project ?m @ ''/'' @ m_Name ?m) (DFunction f) s = (s1, None)"
      and s': "s' = emit \<lparr>e_Kind = KindFunction, e_Op = ''put'', e_Project = m_Project ?m, e_Name = m_Name ?m,
        e_Value = Some (DFunction f)\<rparr> s1"
      using commit_put(2,3) None by (auto simp: fsm_Apply_def fsm_apply_def put_entry_def functionT_def kind_ne Let_def
          scoped_key_def keyFor_def split: prod.splits option.splits)
    show ?thesis using put_announced [OF p commit_put(2) assms(2,3)] assms(4) commit_put(1) unfolding s' by (fastforce simp: stored_fn_def)
  next
    case (Some e)
    then have "s' = s" using commit_put(3)
      by (auto simp: fsm_Apply_def fsm_apply_def put_entry_def Let_def split: prod.splits option.splits dest: store_put_Some)
    then show ?thesis using assms(2,4) quiet_refl by blast
  qed
next
  case (delete p n r)
  show ?thesis
  proof (cases r)
    case None
    obtain s1 where d: "store_del B ''functions'' (p @ ''/'' @ n) s = (s1, None)"
      and s': "s' = emit \<lparr>e_Kind = KindFunction, e_Op = ''delete'', e_Project = p, e_Name = n, e_Value = None\<rparr> s1"
      using delete None by (auto simp: DeleteFunction_def delScoped_None keyFor_def)
    show ?thesis using del_announced [OF d delete(1) assms(2,3)] assms(4) unfolding s' by (fastforce simp: stored_fn_def)
  next
    case (Some e)
    then have "s' = s" using delete delScoped_Some unfolding DeleteFunction_def by metis
    then show ?thesis using assms(2,4) quiet_refl by blast
  qed
next
  case (commit_delete p n r)
  show ?thesis
  proof (cases r)
    case None
    obtain s1 where d: "store_del B ''functions'' (p @ ''/'' @ n) s = (s1, None)"
      and s': "s' = emit \<lparr>e_Kind = KindFunction, e_Op = ''delete'', e_Project = p, e_Name = n, e_Value = None\<rparr> s1"
      using commit_delete None by (auto simp: fsm_Apply_def fsm_apply_def delete_entry_def keyFor_def split: prod.splits option.splits)
    show ?thesis using del_announced [OF d commit_delete(1) assms(2,3)] assms(4) unfolding s' by (fastforce simp: stored_fn_def)
  next
    case (Some e)
    then have "s' = s" using commit_delete(2)
      by (auto simp: fsm_Apply_def fsm_apply_def delete_entry_def split: prod.splits option.splits dest: store_del_Some)
    then show ?thesis using assms(2,4) quiet_refl by blast
  qed
qed (use assms(4) in \<open>auto simp: quiet_def stored_fn_def\<close>)

end

lemma fn_step_replica: "fn_step valid B i s s' \<Longrightarrow> replica B s \<Longrightarrow> replica B s'"
proof (induction rule: fn_step.induct)
  case (commit_put f s s' r)
  then show ?case using replica.commit [OF _ proposed.fn] by (simp add: functionT_def)
next
  case (commit_delete p s s' r n)
  then show ?case using replica.commit [OF _ proposed.delete] by blast
qed (auto intro: replica.operate replica.commit store_step.put_function store_step.delete_function)

section \<open>The invariant of the loop\<close>

text \<open>
  What the scheduler believes, \<open>cur\<close>, agrees with the store except where events are pending, and
  the last of these says whether there still is a function.
\<close>

definition agree :: "'db bolt \<Rightarrow> 'db store \<Rightarrow> event list \<Rightarrow> (string \<Rightarrow> func option) \<Rightarrow> bool" where
  "agree B s q cur \<longleftrightarrow>
     (\<forall>ev \<in> set q. e_Kind ev = KindFunction \<longrightarrow> e_Project ev \<noteq> []) \<and>
     (\<forall>k. if fn_events q k = [] then cur k = stored_fn B s k
          else e_Op (last (fn_events q k)) = ''delete'' \<longleftrightarrow> stored_fn B s k = None)"

lemma agree_quiet:
  assumes "agree B s (subs s ! i) cur" "quiet B i s s'"
  shows "agree B s' (subs s' ! i) cur"
proof -
  have "stored_fn B s' = stored_fn B s" using assms(2) by (auto simp: quiet_def stored_fn_def fun_eq_iff)
  moreover have "fn_events (subs s' ! i) = fn_events (subs s ! i)"
    using assms(2) by (auto simp: quiet_def fn_events_def fun_eq_iff)
  ultimately show ?thesis using assms by (auto simp: agree_def quiet_def)
qed

lemma agree_announced:
  assumes "agree B s (subs s ! i) cur" "announced B i s s'"
  shows "agree B s' (subs s' ! i) cur"
proof -
  obtain ev where q: "subs s' ! i = subs s ! i @ [ev]" and e: "e_Kind ev = KindFunction" "e_Project ev \<noteq> []"
    "\<forall>k'. k' \<noteq> event_key ev \<longrightarrow> stored_fn B s' k' = stored_fn B s k'"
    "e_Op ev = ''delete'' \<longleftrightarrow> stored_fn B s' (event_key ev) = None"
    using assms(2) by (auto simp: announced_def)
  have f: "fn_events (subs s' ! i) k = fn_events (subs s ! i) k @ (if k = event_key ev then [ev] else [])" for k
    using e(1) by (simp add: fn_events_def q)
  show ?thesis using assms(1) e unfolding agree_def f by (auto simp: q)
qed

text \<open>Handling the oldest event moves the belief to what the store says about its function.\<close>

definition believe :: "'db bolt \<Rightarrow> 'db store \<Rightarrow> event \<Rightarrow> (string \<Rightarrow> func option) \<Rightarrow> string \<Rightarrow> func option" where
  "believe B s ev cur =
     (if e_Kind ev \<noteq> KindFunction then cur
      else if e_Op ev = ''delete'' then cur(event_key ev := None)
      else case stored_fn B s (event_key ev) of None \<Rightarrow> cur | Some f \<Rightarrow> cur(event_key ev \<mapsto> f))"

lemma agree_believe:
  assumes "agree B s (ev # rest) cur"
  shows "agree B s rest (believe B s ev cur)"
proof (cases "e_Kind ev = KindFunction")
  case False
  then have e: "fn_events (ev # rest) = fn_events rest" by (simp add: fn_events_def fun_eq_iff)
  show ?thesis using assms False unfolding agree_def e by (simp add: believe_def)
next
  case True
  have f: "fn_events (ev # rest) k = (if k = event_key ev then [ev] else []) @ fn_events rest k" for k
    using True by (simp add: fn_events_def)
  have k: "if fn_events rest k = [] then believe B s ev cur k = stored_fn B s k
      else e_Op (last (fn_events rest k)) = ''delete'' \<longleftrightarrow> stored_fn B s k = None" for k
  proof -
    have a: "if fn_events (ev # rest) k = [] then cur k = stored_fn B s k
        else e_Op (last (fn_events (ev # rest) k)) = ''delete'' \<longleftrightarrow> stored_fn B s k = None"
      using assms by (simp only: agree_def) blast
    show ?thesis
    proof (cases "fn_events rest k = []")
      case empty: True
      show ?thesis
      proof (cases "k = event_key ev")
        case True
        then have "e_Op ev = ''delete'' \<longleftrightarrow> stored_fn B s (event_key ev) = None" using a empty by (simp add: f)
        then show ?thesis using empty True \<open>e_Kind ev = KindFunction\<close>
          by (cases "stored_fn B s (event_key ev)") (simp_all add: believe_def)
      next
        case False
        then show ?thesis using a empty by (cases "stored_fn B s (event_key ev)") (simp_all add: f believe_def)
      qed
    next
      case False
      then show ?thesis using a by (simp add: f)
    qed
  qed
  have "\<forall>e \<in> set rest. e_Kind e = KindFunction \<longrightarrow> e_Project e \<noteq> []" using assms by (simp add: agree_def)
  then show ?thesis using k by (simp only: agree_def) blast
qed

lemma agree_subs [simp]: "agree B (s\<lparr>subs := x\<rparr>) = agree B s"
  by (simp add: agree_def stored_fn_def entries_def fun_eq_iff)

lemma filed_function:
  assumes "replica B s" "bolt_engine B" "stored_fn B s k = Some f"
  shows "fnKey f = k"
proof -
  have "filed_doc k (DFunction f)"
    using replica_keeps [OF assms(2,1)] assms(3) by (auto simp: sound_def filed_def stored_fn_def split: option.splits doc.splits)
  then show ?thesis by (auto simp: filed_doc_def functionT_def scoped_key_def keyFor_def fnKey_def)
qed

lemma GetFunction_stored:
  assumes "replica B s" "bolt_engine B" "p \<noteq> []"
  shows "GetFunction B p n s = (case stored_fn B s (p @ ''/'' @ n) of Some f \<Rightarrow> Inr f | None \<Rightarrow> GetFunction B p n s)"
    "stored_fn B s (p @ ''/'' @ n) = None \<Longrightarrow> \<exists>e. GetFunction B p n s = Inl e"
proof -
  have "has_bucket B s ''functions''"
    using replica_keeps [OF assms(2,1)] by (simp add: good_def store_wf_def rootBuckets_def)
  then show "GetFunction B p n s = (case stored_fn B s (p @ ''/'' @ n) of Some f \<Rightarrow> Inr f | None \<Rightarrow> GetFunction B p n s)"
    "stored_fn B s (p @ ''/'' @ n) = None \<Longrightarrow> \<exists>e. GetFunction B p n s = Inl e"
    using assms(3) by (auto simp: GetFunction_def store_get_def has_bucket_def stored_fn_def entries_def functionT_def keyFor_def
        split: option.splits doc.splits)
qed

definition informed :: "(string \<Rightarrow> bool) \<Rightarrow> 'db bolt \<Rightarrow> cron \<Rightarrow> (string \<Rightarrow> func option) \<Rightarrow> bool" where
  "informed valid B c cur \<longleftrightarrow> cron_ok c \<and> snd ` set (cr_jobs c) = called_for valid cur"

lemma informed_op:
  "informed valid B c cur \<Longrightarrow> single_schedules valid x \<Longrightarrow> informed valid B (cron_do valid x c) (current_do x cur)"
  using cron_simulation [of c valid cur "[x]"] by (simp add: informed_def)

lemma informed_event:
  assumes "informed valid B c cur" "replica B s" "bolt_engine B" "e_Kind ev = KindFunction \<longrightarrow> e_Project ev \<noteq> []"
    and "\<forall>k f. stored_fn B s k = Some f \<longrightarrow> length (schedules valid f) \<le> 1"
  shows "informed valid B (cron_on_event valid B ev s c) (believe B s ev cur)"
proof (cases "e_Kind ev = KindFunction \<and> e_Op ev \<noteq> ''delete''")
  case True
  then have p: "e_Project ev \<noteq> []" using assms(4) by simp
  note g = GetFunction_stored [OF assms(2,3) p, of "e_Name ev"]
  show ?thesis
  proof (cases "stored_fn B s (event_key ev)")
    case None
    then obtain e where "GetFunction B (e_Project ev) (e_Name ev) s = Inl e" using g(2) by (auto simp: event_key_def)
    then show ?thesis using True None assms(1) by (simp add: cron_on_event_def believe_def)
  next
    case (Some f)
    then have "GetFunction B (e_Project ev) (e_Name ev) s = Inr f" using g(1) by (simp add: event_key_def)
    moreover have "fnKey f = event_key ev" by (rule filed_function [OF assms(2,3) Some])
    moreover have "single_schedules valid (SyncFn f)" using assms(5) Some by (simp add: single_schedules_def)
    ultimately show ?thesis using informed_op [OF assms(1), of "SyncFn f"] True Some
      by (simp add: cron_on_event_def believe_def)
  qed
next
  case False
  then show ?thesis using informed_op [OF assms(1), of "DropKey (event_key ev)"] assms(1)
    by (auto simp: cron_on_event_def believe_def event_key_def single_schedules_def)
qed

lemma current_SyncFn:
  assumes "\<forall>f \<in> set fs. \<forall>g \<in> set fs. fnKey f = fnKey g \<longrightarrow> f = g"
  shows "fold current_do (map SyncFn fs) m k = (case find (\<lambda>f. fnKey f = k) fs of Some f \<Rightarrow> Some f | None \<Rightarrow> m k)"
  using assms
proof (induction fs arbitrary: m)
  case (Cons f fs)
  have "fold current_do (map SyncFn (f # fs)) m k =
      (case find (\<lambda>f. fnKey f = k) fs of Some g \<Rightarrow> Some g | None \<Rightarrow> (m(fnKey f \<mapsto> f)) k)"
    using Cons by simp
  moreover have "f = g" if "find (\<lambda>f. fnKey f = k) fs = Some g" "fnKey f = k" for g
    using Cons.prems that by (auto simp: find_Some_iff)
  ultimately show ?case by (auto split: option.split)
qed simp

lemma informed_Start:
  assumes "bolt_engine B" "replica B s" "\<forall>k f. stored_fn B s k = Some f \<longrightarrow> length (schedules valid f) \<le> 1"
  shows "informed valid B (cron_Start valid B s NewCronScheduler) (stored_fn B s)"
proof -
  have "has_bucket B s ''functions''"
    using replica_keeps [OF assms(1,2)] by (simp add: good_def store_wf_def rootBuckets_def)
  then obtain fs where fs: "ListFunctions B [] s = Inr fs"
    "set fs = {f. \<exists>k. entries B s ''functions'' k = Some (DFunction f)}"
    using scoped_table.set_listScoped [OF tables(2) [OF assms(1)], of s "[]"]
    by (auto simp: ListFunctions_def functionT_def)
  have m: "f \<in> set fs \<longleftrightarrow> stored_fn B s (fnKey f) = Some f" for f
    using fs(2) filed_function [OF assms(2,1), of _ f] by (force simp: stored_fn_def split: option.splits doc.splits)
  have inj: "\<forall>f \<in> set fs. \<forall>g \<in> set fs. fnKey f = fnKey g \<longrightarrow> f = g" using m by (metis option.inject)
  have "fold current_do (map SyncFn fs) (\<lambda>_. None) k = stored_fn B s k" for k
  proof (cases "find (\<lambda>f. fnKey f = k) fs")
    case None
    then have "stored_fn B s k = None"
      using m filed_function [OF assms(2,1), of k] by (cases "stored_fn B s k") (auto simp: find_None_iff)
    then show ?thesis using None current_SyncFn [OF inj, of "\<lambda>_. None" k] by simp
  next
    case (Some f)
    then have "f \<in> set fs" "fnKey f = k" by (auto simp: find_Some_iff)
    then show ?thesis using Some current_SyncFn [OF inj, of "\<lambda>_. None" k] m by simp
  qed
  then have "fold current_do (map SyncFn fs) (\<lambda>_. None) = stored_fn B s" by blast
  moreover have "fold (cron_do valid) (map SyncFn fs) c = fold (cron_sync valid) fs c" for c
    by (induction fs arbitrary: c) simp_all
  moreover have "cron_ok NewCronScheduler" "snd ` set (cr_jobs NewCronScheduler) = called_for valid (\<lambda>_. None)"
    by (simp_all add: NewCronScheduler_def cron_ok_def called_for_def)
  moreover have "list_all (single_schedules valid) (map SyncFn fs)"
    using m assms(3) by (auto simp: list_all_iff single_schedules_def)
  ultimately show ?thesis using cron_simulation [of NewCronScheduler valid "\<lambda>_. None" "map SyncFn fs"] fs(1)
    by (simp add: informed_def cron_Start_def)
qed

definition cron_inv :: "(string \<Rightarrow> bool) \<Rightarrow> 'db bolt \<Rightarrow> 'db cron_run \<Rightarrow> bool" where
  "cron_inv valid B g \<longleftrightarrow> replica B (cg_store g) \<and>
     (\<forall>k f. stored_fn B (cg_store g) k = Some f \<longrightarrow> length (schedules valid f) \<le> 1) \<and>
     (\<exists>i cur. cg_events g = Some i \<and> i < length (subs (cg_store g)) \<and> informed valid B (cg_cron g) cur \<and>
        agree B (cg_store g) (subs (cg_store g) ! i) cur)"

lemma stored_fn_subs [simp]: "stored_fn B (s\<lparr>subs := x\<rparr>) = stored_fn B s"
  by (simp add: stored_fn_def entries_def fun_eq_iff)

lemma cron_inv_turn:
  assumes "bolt_engine B" "cron_inv valid B g" "cron_turn valid B False g = Some g'"
  shows "cron_inv valid B g'"
proof -
  obtain i cur where g: "replica B (cg_store g)" "\<forall>k f. stored_fn B (cg_store g) k = Some f \<longrightarrow> length (schedules valid f) \<le> 1"
    "cg_events g = Some i" "i < length (subs (cg_store g))" "informed valid B (cg_cron g) cur"
    "agree B (cg_store g) (subs (cg_store g) ! i) cur" using assms(2) by (auto simp: cron_inv_def)
  then obtain ev rest where q: "subs (cg_store g) ! i = ev # rest"
    and g': "g' = g\<lparr>cg_store := (cg_store g)\<lparr>subs := (subs (cg_store g))[i := rest]\<rparr>,
      cg_cron := cron_on_event valid B ev ((cg_store g)\<lparr>subs := (subs (cg_store g))[i := rest]\<rparr>) (cg_cron g)\<rparr>"
    using assms(3) by (auto simp: cron_turn_def Let_def split: if_splits list.splits)
  let ?s = "(cg_store g)\<lparr>subs := (subs (cg_store g))[i := rest]\<rparr>"
  have r: "replica B ?s" by (rule replica.operate [OF g(1) store_step.receive [OF g(4) q]])
  have "e_Kind ev = KindFunction \<longrightarrow> e_Project ev \<noteq> []" using g(6) q by (simp add: agree_def)
  then have "informed valid B (cron_on_event valid B ev ?s (cg_cron g)) (believe B ?s ev cur)"
    using informed_event [OF g(5) r assms(1)] g(2) by simp
  moreover have "agree B ?s rest (believe B ?s ev cur)" using agree_believe [of B ?s ev rest cur] g(6) q by simp
  ultimately show ?thesis using r g(2,3,4) unfolding cron_inv_def g' by auto
qed

lemma cron_inv_reach: "bolt_engine B \<Longrightarrow> cron_reach valid B g \<Longrightarrow> cron_inv valid B g"
proof (rotate_tac, induction rule: cron_reach.induct)
  case (start s)
  have "replica B (snd (Subscribe s))" by (metis prod.collapse replica.operate start(1) store_step.subscribe)
  moreover have "agree B (snd (Subscribe s)) [] (stored_fn B s)"
    by (simp add: agree_def fn_events_def Subscribe_def)
  ultimately show ?case using start informed_Start [OF start(3,1,2)]
    by (auto simp: cron_inv_def cron_subscribe_def cron_begin_def Subscribe_def)
next
  case (turn g g')
  then show ?case using cron_inv_turn by blast
next
  case (change g i s')
  obtain cur where g: "replica B (cg_store g)" "\<forall>k f. stored_fn B (cg_store g) k = Some f \<longrightarrow> length (schedules valid f) \<le> 1"
    "informed valid B (cg_cron g) cur" "agree B (cg_store g) (subs (cg_store g) ! i) cur"
    using change by (auto simp: cron_inv_def)
  note f = bolt_engine.fn_step_informs [OF change.prems change.hyps(5,3,4) g(2)]
  then have "agree B s' (subs s' ! i) cur" using agree_quiet [OF g(4)] agree_announced [OF g(4)] by blast
  moreover have "i < length (subs s')" using f by (auto simp: quiet_def announced_def)
  ultimately show ?case using f g fn_step_replica [OF change.hyps(5)] change.hyps(2) by (auto simp: cron_inv_def)
qed

section \<open>Theorem\<close>

text \<open>
  C29. The cron scheduler keeps in step with its replica: however functions are put and deleted,
  here or through the log, as long as no event is lost and no function has more than one valid
  schedule, the jobs are exactly the schedules of the stored functions, each numbered once,
  whenever the events have been handled.
\<close>

theorem cron_in_step:
  assumes "bolt_engine B" "cron_reach valid B g" "cg_events g = Some i" "subs (cg_store g) ! i = []"
  shows "snd ` set (cr_jobs (cg_cron g)) =
      {(sc, f). (\<exists>k. entries B (cg_store g) ''functions'' k = Some (DFunction f)) \<and> sc \<in> set (schedules valid f)} \<and>
    distinct (map fst (cr_jobs (cg_cron g)))"
proof -
  obtain cur where r: "replica B (cg_store g)" and c: "informed valid B (cg_cron g) cur" "agree B (cg_store g) [] cur"
    using cron_inv_reach [OF assms(1,2)] assms(3,4) by (auto simp: cron_inv_def)
  have "cur = stored_fn B (cg_store g)" using c(2) by (simp add: agree_def fn_events_def fun_eq_iff)
  moreover have "stored_fn B (cg_store g) (fnKey f) = Some f \<longleftrightarrow> (\<exists>k. entries B (cg_store g) ''functions'' k = Some (DFunction f))" for f
    using filed_function [OF r assms(1), of _ f] by (force simp: stored_fn_def split: option.splits doc.splits)
  ultimately show ?thesis using c(1) by (auto simp: informed_def called_for_def cron_ok_def)
qed

section \<open>Witness\<close>

definition told :: "memdb cron_run" where
  "told = (let g = cron_subscribe (cron_begin (\<lambda>_. True) mem_bolt fresh_store) in
     g\<lparr>cg_store := put_of (PutFunction mem_bolt ''u1'' 5 6 (cron_function [''a'']) (cg_store g))\<rparr>)"

definition stepped :: "memdb cron_run" where
  "stepped = the (cron_turn (\<lambda>_. True) mem_bolt False told)"

lemma told_put:
  assumes "length (schedules valid f) \<le> 1"
  shows "fn_step valid B i s (put_of (PutFunction B u c n f s))"
  using assms by (cases "PutFunction B u c n f s") (auto simp: put_of_def intro: fn_step.put)

lemma reach_told: "cron_reach (\<lambda>_. True) mem_bolt told"
proof -
  let ?g = "cron_subscribe (cron_begin (\<lambda>_. True) mem_bolt fresh_store)"
  have r: "replica mem_bolt fresh_store" by (rule replica.start [OF fresh_store_open]) (simp add: mem_get_def)
  have "stored_fn mem_bolt fresh_store k = None" for k
    by (simp add: stored_fn_def entries_def fresh_store_def rootBuckets_def mem_get_def)
  then have "cron_reach (\<lambda>_. True) mem_bolt ?g" using cron_reach.start [OF r] by simp
  moreover have "cg_events ?g = Some 0" "0 < length (subs (cg_store ?g))" "length (subs (cg_store ?g) ! 0) < subCap"
    by code_simp+
  moreover have "length (schedules (\<lambda>_. True) (cron_function [''a''])) \<le> 1" by code_simp
  then have "fn_step (\<lambda>_. True) mem_bolt 0 (cg_store ?g) (put_of (PutFunction mem_bolt ''u1'' 5 6 (cron_function [''a'']) (cg_store ?g)))"
    by (rule told_put)
  ultimately show ?thesis unfolding told_def Let_def by (rule cron_reach.change)
qed

theorem cron_in_step_witness:
  "map (fst \<circ> snd) (cr_jobs (cg_cron stepped)) = [''a''] \<and>
   snd ` set (cr_jobs (cg_cron stepped)) = {(sc, f). (\<exists>k. entries mem_bolt (cg_store stepped) ''functions'' k = Some (DFunction f)) \<and>
     sc \<in> set (schedules (\<lambda>_. True) f)}"
proof -
  have "cron_turn (\<lambda>_. True) mem_bolt False told \<noteq> None" "cg_events stepped = Some 0" "subs (cg_store stepped) ! 0 = []"
    "map (fst \<circ> snd) (cr_jobs (cg_cron stepped)) = [''a'']" by code_simp+
  moreover from this(1) have "cron_reach (\<lambda>_. True) mem_bolt stepped"
    unfolding stepped_def using cron_reach.turn [OF reach_told] by force
  ultimately show ?thesis using cron_in_step [OF mem_engine, of "\<lambda>_. True" stepped 0] by blast
qed

end
