(* ===== verification/Spec2Isabelle.thy ===== *)
theory Spec2Isabelle
  imports Store_Props Replication_Props Auth_Props Cluster Scheduler Secrets Events_Props
    Reconcile_Props Functions_Props Protocol Firecracker_Props Agent_Props Wasm_Props Builder_Props
    Watchers_Props Api_Props Objects_Props Storage_Props Installer_Props
    Streams_Props Raft_Node Replicas Reconcile_Run Api_Server_Props Loops Cron_Run
begin

text \<open>
  A verification development for selfCloud, a single-binary cloud for one or a few machines:
  containers, functions, object storage, secrets and events behind one HTTP API.

  \<^bold>\<open>The program and how its parts interact.\<close> All resources live in one store
  (\<^verbatim>\<open>internal/store\<close>), BoltDB buckets of JSON documents that tell subscribers about every
  change. With several nodes a write goes through a Raft log whose state machine applies it to
  each node's store (\<^verbatim>\<open>fsm.go\<close>, \<^verbatim>\<open>snapshot.go\<close>, \<^verbatim>\<open>raft.go\<close>, \<^verbatim>\<open>replicated_store.go\<close>). The
  managers keep their state in the store: users, tokens and the bootstrap token
  (\<^verbatim>\<open>internal/auth\<close>), join tokens (\<^verbatim>\<open>internal/cluster\<close>), secrets sealed under the master
  key (\<^verbatim>\<open>internal/secrets\<close>). The reconciler (\<^verbatim>\<open>internal/runtime/container\<close>) drives the
  container runtime towards the stored containers; the scheduler (\<^verbatim>\<open>internal/scheduler\<close>)
  assigns nodes; the bus and the dispatcher (\<^verbatim>\<open>internal/events\<close>) log events and run the
  actions of matching rules; the function runtimes (\<^verbatim>\<open>internal/runtime/wasm\<close>,
  \<^verbatim>\<open>firecracker\<close>) hold deployed code and run it, as a WebAssembly instance or in a microVM
  whose agent answers over a frame protocol, and the builder makes it from a Git repository. The API (\<^verbatim>\<open>internal/api\<close>) calls all of them.

  \<^bold>\<open>Conventions.\<close> A struct is a record with the fields of the struct; a method is a function that takes
  and returns the state it changes, and whose result is \<open>error + 'a\<close> (\<open>Inl\<close> the error) or an
  \<open>error option\<close>. Go maps are association lists whose order is the iteration order, which no
  theorem may depend on. A clock reading, a random string, a UUID or the outcome of a system
  call is an argument; times are integers in nanoseconds with 0 for the zero time, and
  generations, counters and versions are 64-bit words. \<open>ErrPanic\<close> is a run-time panic. Code
  outside the repository is a parameter: the database (\<open>'db bolt\<close>, with its documented
  contract in the locale \<open>bolt_engine\<close>), Raft (\<open>raft_env\<close>), SHA-256, HMAC, argon2, AES-GCM,
  the container runtime behind \<^verbatim>\<open>ctr\<close>, the Garage server, JSON decoding of request bodies.
  Properties of operations on the database assume \<open>bolt_engine\<close>, which the in-memory engine
  of \<open>Bolt\<close> satisfies; the witnesses run on that engine.

  \<^bold>\<open>Theories.\<close>
  \<^item> \<open>Prelude\<close>: basic types, error values, the parts of Go's library the program uses
    (\<^verbatim>\<open>strings\<close>, \<^verbatim>\<open>strconv\<close>, \<^verbatim>\<open>hex\<close>, channels) and shared lemmas.
  \<^item> \<open>Types\<close>: \<^verbatim>\<open>store/types.go\<close>; documents and the codecs of the scoped kinds (locale
    \<open>scoped_type\<close>, interpreted for every kind).
  \<^item> \<open>Bolt\<close>, \<open>Store\<close>: \<^verbatim>\<open>store.go\<close>, every exported operation over the helpers \<^verbatim>\<open>put\<close>, \<^verbatim>\<open>get\<close>,
    \<^verbatim>\<open>del\<close>, \<^verbatim>\<open>list\<close>, \<^verbatim>\<open>putScoped\<close>. \<open>Store_Laws\<close>: the contract of these helpers (locale \<open>kv_store\<close>,
    obtained for every lawful engine by a sublocale) and of a typed table (\<open>scoped_table\<close>).
    \<open>Store_Props\<close>: the invariant of every reachable store (an inductive relation with a rule per
    operation), round trips, listings, isolation, deletes, the event log.
  \<^item> \<open>Replication\<close>, \<open>Replication_Props\<close>: the state machine, snapshots and the write wrapper;
    replicas that apply the same log agree, a restored replica catches up, the replicated
    operations refine the local ones, a follower writes nothing.
  \<^item> \<open>Replicas\<close>: snapshots on their way through Raft (\<^verbatim>\<open>Snapshot\<close>, \<^verbatim>\<open>Persist\<close>, \<^verbatim>\<open>Restore\<close>; locale
    \<open>snapshot_sink\<close>), and the states of a replica as an inductive predicate over store operations,
    committed entries and restored snapshots, with what holds of all of them: events typed by
    their kind, documents typed by their bucket and filed under their own key.
  \<^item> \<open>Auth\<close>, \<open>Auth_Props\<close>; \<open>Cluster\<close>; \<open>Secrets\<close>; \<open>Scheduler\<close>: the managers, each with round trips,
    single use of the one-time credentials, soundness of token resolution, the selection rule.
  \<^item> \<open>Glob\<close>, \<open>Events\<close>, \<open>Events_Props\<close>: \<^verbatim>\<open>path.Match\<close>, the bus (bounded queue, sinks, drops) and
    the dispatcher; which rules fire, how often a webhook is tried, its signature.
  \<^item> \<open>Watchers\<close>, \<open>Watchers_Props\<close>: where events come from outside the control plane: the log scanner
    (\<^verbatim>\<open>logscan.go\<close>) and the socket for containers (\<^verbatim>\<open>sidecar.go\<close>); who is followed, which lines fire
    which rules, what the socket accepts.
  \<^item> \<open>Runtime\<close>, \<open>Reconcile\<close>, \<open>Reconcile_Props\<close>: the stub and \<^verbatim>\<open>ctr\<close> runtimes, secret files, the
    host network, and one pass of the reconciler; when it starts a container, back-off,
    what it persists. \<open>Reconcile_Run\<close>: the loop around the passes as a step relation on a replica;
    from a put accepted by the leader to the start on another node, and that a tick makes up for
    every event that was lost.
  \<^item> \<open>Functions\<close>, \<open>Functions_Props\<close>: the interface of a function runtime (locale
    \<open>deploying_runtime\<close>, interpreted for both stubs and for wazero), the blob store, rehydration,
    the ring of invocations.
  \<^item> \<open>Wasm\<close>, \<open>Wasm_Props\<close>: \<^verbatim>\<open>wazero.go\<close> (base64 envelopes, environment, memory cap), \<^verbatim>\<open>pool.go\<close> as
    a step relation over the invocations in flight, \<^verbatim>\<open>cron.go\<close>; what a guest gets and answers, the
    bound on concurrency and progress over all interleavings, the jobs a simulation of the
    functions there are.
  \<^item> \<open>Protocol\<close>, \<open>Polling\<close>, \<open>Paths\<close>, \<open>Firecracker\<close>, \<open>Agent\<close> and their \<open>_Props\<close>: the frames between host
    and guest, loops that wait for a deadline, \<^verbatim>\<open>filepath\<close>, the host side (\<^verbatim>\<open>jailer.go\<close>, over an
    explicit disk) and the agent in the guest (\<^verbatim>\<open>agent/main.go\<close>); frames round-trip, waiting ends,
    every microVM is terminated, the deployed code is what boots, host and guest agree on the
    answer, unpacking stays below its directory.
  \<^item> \<open>Builder\<close>, \<open>Builder_Props\<close>: builds of functions from Git (\<^verbatim>\<open>internal/runtime/functions/builder\<close>):
    the recipe, the log stream, the checkout, the sandbox, the artifact, and a whole build with
    its deferred clean-up; builds of a function take turns and never wait in vain, a subscriber
    of a log gets its end, every build ends in a record that agrees with what is deployed.
  \<^item> \<open>Http\<close>, \<open>Api\<close>, \<open>Api_Resources\<close>, \<open>Api_Cluster\<close>, \<open>Api_Routes\<close>, \<open>Api_Props\<close>: requests and
    responses, the server's state, every JSON handler, the middleware and the route table; who
    is served, what a follower does, the first-run wizard, joining, what responses disclose.
  \<^item> \<open>Api_Server\<close>, \<open>Api_Server_Props\<close>: the shell of the server: the embedded dashboard (\<^verbatim>\<open>web.go\<close>) over
    an arbitrary build, the version endpoint, request logging and recovery from panics, \<^verbatim>\<open>Run\<close> of the
    API and of the sidecar, the global logger; what every path of the dashboard is answered with,
    that the wrappers are transparent.
  \<^item> \<open>Objects\<close>, \<open>Objects_Props\<close>: the browser for stored objects over an S3 service (locale
    \<open>object_store\<close>); uploads, downloads and deletions agree, sizes are printed in decimal.
  \<^item> \<open>Streams\<close>, \<open>Streams_Props\<close>: the WebSocket endpoints and the logs of \<^verbatim>\<open>ctr\<close>: what a client of the
    event stream gets over all interleavings with the bus, that logs arrive in order.
  \<^item> \<open>Raft_Node\<close>: \<^verbatim>\<open>NewRaft\<close>: what a node advertises, when it bootstraps.
  \<^item> \<open>Loops\<close>: \<^verbatim>\<open>main\<close> of the agent with its accept loop and the race of its two ways to wait for a
    child, the goroutine of the cron scheduler, \<^verbatim>\<open>Run\<close> of the log scanner, the Firecracker client.
  \<^item> \<open>Cron_Run\<close>: the scheduler's goroutine on a replica whose functions change by local writes and
    by committed entries; when the events are handled the jobs are the schedules stored there.
  \<^item> \<open>Storage\<close>, \<open>Storage_Props\<close>: the supervisor of the Garage process as a step relation over calls,
    crashes and the goroutine that waits for the process; the configuration of a node.
  \<^item> \<open>Installer\<close>, \<open>Installer_Props\<close>: the TLS pair, the systemd unit rendered by successive
    replacements and its equivalence with filling in a template, the token file.
  \<^item> \<open>Fixtures\<close>, \<open>Api_Fixtures\<close>: concrete values for the witnesses.

  \<^bold>\<open>Bounds and termination.\<close> No definition uses fuel except where its theory says so: loops are
  structural recursion over the data they range over, the retry loop of a webhook has its five
  attempts, and the matcher of \<open>Glob\<close> is a \<open>function\<close> whose termination is proved by a measure. The
  loops that poll until a deadline (\<open>Polling\<close>) are \<open>partial_function (option)\<close> over the readings of
  the clock; that they return is proved for every clock that passes the deadline.

  \<^bold>\<open>Not modelled.\<close> Goroutine interleavings inside one operation (each operation runs under the
  store's transaction or the manager's mutex and is one step; where the code releases the lock
  in between, the theorem about the race composes the steps); constructors that only store their
  arguments; the formatting of log records; range requests of the dashboard; a handler that panics
  after it has begun its response; what the kernel, the Firecracker process, the WebAssembly engine
  and the WebSocket library do inside a call. The main program that wires the daemon is not part of
  the repository's files.
\<close>

end
